(* ===== verification/Prelude.thy ===== *)
theory Prelude
  imports Complex_Main "HOL-Library.List_Lexorder" "HOL-Library.Char_ord" "HOL-Library.Code_Target_Nat"
begin

text \<open>
  What every component shares: the exceptions of the Python code as values, the
  state-and-exception operations in which the ledgers and controllers are written, SQLite
  transactions and keyed tables, timestamps and calendar dates, and the few string methods the
  code calls.  Python strings are modelled by HOL strings, so they range over 8-bit characters;
  the case conversions treat the ASCII letters only.
\<close>

section \<open>Errors and stateful operations\<close>

text \<open>
  One constructor per exception class that the modelled code raises or lets through.
  \<open>ValidationError\<close> is pydantic's (a subclass of ValueError), \<open>IntegrityError\<close> is sqlite3's,
  \<open>InvalidOperation\<close> is decimal's, \<open>RequestError\<close> carries the class name of a transport error.  The
  \<open>Loop\<close> exceptions carry the fields that their handlers read (codes, task id and run id).
\<close>

datatype py_error =
    ValueError string
  | ValidationError string
  | TypeError string
  | KeyError string
  | IndexError string
  | RuntimeError string
  | IntegrityError string
  | InvalidOperation
  | OverflowError
  | ReconciliationError string
  | OrderLedgerConflictError string
  | BrokerError string
  | BrokerWritesDisabledError string
  | BrokerOrderRejected string
  | TimeoutError string
  | RequestError string
  | LoopPreconditionError string
  | AuditOnlyBackfillRequired string
  | LoopRemoteRejectedError string
  | LoopRunIncompleteError string string
  | LoopRunFailedError string string string string

text \<open>
  An operation on a state: it returns an error or a value, and the state it leaves behind.  The
  state is returned in the error case too, because what a failed call has already written (to a
  database, to a broker) stays written.
\<close>

type_synonym ('s, 'a) op = "'s \<Rightarrow> (py_error + 'a) \<times> 's"

definition returnS :: "'a \<Rightarrow> ('s, 'a) op" where
  "returnS x s = (Inr x, s)"

definition raiseS :: "py_error \<Rightarrow> ('s, 'a) op" where
  "raiseS e s = (Inl e, s)"

definition bindS :: "('s, 'a) op \<Rightarrow> ('a \<Rightarrow> ('s, 'b) op) \<Rightarrow> ('s, 'b) op" where
  "bindS m f s = (case m s of (Inl e, s') \<Rightarrow> (Inl e, s') | (Inr x, s') \<Rightarrow> f x s')"

definition thenS :: "('s, 'a) op \<Rightarrow> ('s, 'b) op \<Rightarrow> ('s, 'b) op" where
  "thenS m n = bindS m (\<lambda>_. n)"

text \<open>\<open>guardS b e\<close>: the statement \<open>if not b: raise e\<close>.\<close>

definition guardS :: "bool \<Rightarrow> py_error \<Rightarrow> ('s, unit) op" where
  "guardS b e = (if b then returnS () else raiseS e)"

definition liftS :: "py_error + 'a \<Rightarrow> ('s, 'a) op" where
  "liftS r = (case r of Inl e \<Rightarrow> raiseS e | Inr x \<Rightarrow> returnS x)"

definition readS :: "('s \<Rightarrow> 'a) \<Rightarrow> ('s, 'a) op" where
  "readS f s = (Inr (f s), s)"

definition writeS :: "('s \<Rightarrow> 's) \<Rightarrow> ('s, unit) op" where
  "writeS f s = (Inr (), f s)"

text \<open>A SQLite transaction: what it wrote is rolled back when it raises.\<close>

definition transactionS :: "('s, 'a) op \<Rightarrow> ('s, 'a) op" where
  "transactionS m s = (case m s of (Inl e, _) \<Rightarrow> (Inl e, s) | (Inr x, s') \<Rightarrow> (Inr x, s'))"

text \<open>\<open>try\<close>: an exception that \<open>handles\<close> accepts becomes a value, any other propagates.\<close>

definition attemptS :: "(py_error \<Rightarrow> bool) \<Rightarrow> ('s, 'a) op \<Rightarrow> ('s, py_error + 'a) op" where
  "attemptS handles m s = (case m s of
     (Inl e, s') \<Rightarrow> (if handles e then (Inr (Inl e), s') else (Inl e, s'))
   | (Inr x, s') \<Rightarrow> (Inr (Inr x), s'))"

text \<open>An operation on one part of a pair of stores (a broker and a ledger).\<close>

definition on_fst :: "('s, 'a) op \<Rightarrow> ('s \<times> 't, 'a) op" where
  "on_fst m p = (case m (fst p) of (r, s') \<Rightarrow> (r, (s', snd p)))"

definition on_snd :: "('t, 'a) op \<Rightarrow> ('s \<times> 't, 'a) op" where
  "on_snd m p = (case m (snd p) of (r, t') \<Rightarrow> (r, (fst p, t')))"

text \<open>A Python comprehension \<open>[f(x) for x in xs]\<close> whose calls have effects.\<close>

fun mapS :: "('a \<Rightarrow> ('s, 'b) op) \<Rightarrow> 'a list \<Rightarrow> ('s, 'b list) op" where
  "mapS f [] = returnS []"
| "mapS f (x # xs) = bindS (f x) (\<lambda>y. bindS (mapS f xs) (\<lambda>ys. returnS (y # ys)))"

text \<open>Rewrite rules that run an operation; \<open>run\<close> is the collection the components unfold.\<close>

named_theorems run \<open>equations that execute stateful operations\<close>

lemma returnS_run [run, simp]: "returnS x s = (Inr x, s)"
  by (simp add: returnS_def)

lemma raiseS_run [run, simp]: "raiseS e s = (Inl e, s)"
  by (simp add: raiseS_def)

lemma readS_run [run, simp]: "readS f s = (Inr (f s), s)"
  by (simp add: readS_def)

lemma writeS_run [run, simp]: "writeS f s = (Inr (), f s)"
  by (simp add: writeS_def)

lemma guardS_run [run]: "guardS b e s = (if b then (Inr (), s) else (Inl e, s))"
  by (simp add: guardS_def)

lemma liftS_run [run]:
  "liftS r s = (case r of Inl e \<Rightarrow> (Inl e, s) | Inr x \<Rightarrow> (Inr x, s))"
  by (simp add: liftS_def split: sum.split)

lemma bindS_run [run]:
  "bindS m f s = (case m s of (Inl e, s') \<Rightarrow> (Inl e, s') | (Inr x, s') \<Rightarrow> f x s')"
  by (simp add: bindS_def)

lemma thenS_run [run]:
  "thenS m n s = (case m s of (Inl e, s') \<Rightarrow> (Inl e, s') | (Inr x, s') \<Rightarrow> n s')"
  by (simp add: thenS_def bindS_def)

lemma bindS_Inr [simp]: "m s = (Inr x, s') \<Longrightarrow> bindS m f s = f x s'"
  by (simp add: bindS_def)

lemma bindS_returnS [simp]: "bindS (returnS x) f = f x"
  by (rule ext) simp

lemma bindS_Inl [simp]: "m s = (Inl e, s') \<Longrightarrow> bindS m f s = (Inl e, s')"
  by (simp add: bindS_def)

lemma bindS_eq_Inr:
  "bindS m f s = (Inr y, t) \<longleftrightarrow> (\<exists>x s'. m s = (Inr x, s') \<and> f x s' = (Inr y, t))"
  by (auto simp: bindS_def split: prod.splits sum.splits)

lemma bindS_eq_Inl:
  "bindS m f s = (Inl e, t) \<longleftrightarrow>
     m s = (Inl e, t) \<or> (\<exists>x s'. m s = (Inr x, s') \<and> f x s' = (Inl e, t))"
  by (auto simp: bindS_def split: prod.splits sum.splits)

lemma thenS_eq_Inr:
  "thenS m n s = (Inr y, t) \<longleftrightarrow> (\<exists>x s'. m s = (Inr x, s') \<and> n s' = (Inr y, t))"
  by (simp add: thenS_def bindS_eq_Inr)

lemma guardS_eq_Inr [simp]: "guardS b e s = (Inr u, t) \<longleftrightarrow> b \<and> t = s"
  by (auto simp: guardS_run)

lemma guardS_eq_Inl [simp]: "guardS b e s = (Inl e', t) \<longleftrightarrow> \<not> b \<and> e' = e \<and> t = s"
  by (auto simp: guardS_run)

lemma liftS_eq_Inr [simp]: "liftS r s = (Inr x, t) \<longleftrightarrow> r = Inr x \<and> t = s"
  by (auto simp: liftS_run split: sum.splits)

lemma transactionS_run [run]:
  "transactionS m s = (case m s of (Inl e, _) \<Rightarrow> (Inl e, s) | (Inr x, s') \<Rightarrow> (Inr x, s'))"
  by (simp add: transactionS_def)

lemma transactionS_eq_Inr [simp]: "transactionS m s = (Inr x, t) \<longleftrightarrow> m s = (Inr x, t)"
  by (auto simp: transactionS_def split: prod.splits sum.splits)

lemma transactionS_eq_Inl: "transactionS m s = (Inl e, t) \<longleftrightarrow> (\<exists>u. m s = (Inl e, u)) \<and> t = s"
  by (auto simp: transactionS_def split: prod.splits sum.splits)

lemma attemptS_run [run]:
  "attemptS handles m s = (case m s of
     (Inl e, s') \<Rightarrow> (if handles e then (Inr (Inl e), s') else (Inl e, s'))
   | (Inr x, s') \<Rightarrow> (Inr (Inr x), s'))"
  by (simp add: attemptS_def)

lemma attemptS_eq_Inr [simp]:
  "attemptS handles m s = (Inr (Inr x), t) \<longleftrightarrow> m s = (Inr x, t)"
  "attemptS handles m s = (Inr (Inl e), t) \<longleftrightarrow> m s = (Inl e, t) \<and> handles e"
  by (auto simp: attemptS_def split: prod.splits sum.splits)

lemma snd_attemptS [simp]: "snd (attemptS handles m s) = snd (m s)"
  by (simp add: attemptS_def split: prod.splits sum.splits)

lemma on_fst_run [run]: "on_fst m (s, t) = (case m s of (r, s') \<Rightarrow> (r, (s', t)))"
  by (simp add: on_fst_def)

lemma on_snd_run [run]: "on_snd m (s, t) = (case m t of (r, t') \<Rightarrow> (r, (s, t')))"
  by (simp add: on_snd_def)

lemma on_snd_eq: "on_snd m p = (r, q) \<longleftrightarrow> m (snd p) = (r, snd q) \<and> fst q = fst p"
  by (cases p; cases q) (auto simp: on_snd_def split: prod.splits)

lemma on_fst_eq: "on_fst m p = (r, q) \<longleftrightarrow> m (fst p) = (r, fst q) \<and> snd q = snd p"
  by (cases p; cases q) (auto simp: on_fst_def split: prod.splits)

text \<open>A chain of early returns: what it means that none of them was taken.\<close>

named_theorems early_exit \<open>chains of checks that raise or return early\<close>

lemma early_exit_None [early_exit]: "(if b then Some x else y) = None \<longleftrightarrow> \<not> b \<and> y = None"
  by simp

lemma early_exit_Inr [early_exit]: "(if b then Inl e else y) = Inr z \<longleftrightarrow> \<not> b \<and> y = Inr z"
  by simp

lemma early_exit_pair [early_exit]:
  "(if b then (Inl e, s) else y) = (Inr z, t) \<longleftrightarrow> \<not> b \<and> y = (Inr z, t)"
  by simp

section \<open>Keyed tables\<close>

text \<open>
  A SQLite table with a primary key is the list of its rows in insertion order.  \<open>tbl_find\<close> is
  a SELECT by key, \<open>tbl_update\<close> an UPDATE by key, and an INSERT appends a row after the caller
  has checked the key (\<open>tbl_insert\<close> is the insertion itself).
\<close>

definition tbl_find :: "('r \<Rightarrow> 'k) \<Rightarrow> 'k \<Rightarrow> 'r list \<Rightarrow> 'r option" where
  "tbl_find key k t = find (\<lambda>r. key r = k) t"

definition tbl_insert :: "'r \<Rightarrow> 'r list \<Rightarrow> 'r list" where
  "tbl_insert r t = t @ [r]"

definition tbl_update :: "('r \<Rightarrow> 'k) \<Rightarrow> 'k \<Rightarrow> ('r \<Rightarrow> 'r) \<Rightarrow> 'r list \<Rightarrow> 'r list" where
  "tbl_update key k f t = map (\<lambda>r. if key r = k then f r else r) t"

definition tbl_delete :: "('r \<Rightarrow> 'k) \<Rightarrow> 'k \<Rightarrow> 'r list \<Rightarrow> 'r list" where
  "tbl_delete key k t = filter (\<lambda>r. key r \<noteq> k) t"

definition keys_unique :: "('r \<Rightarrow> 'k) \<Rightarrow> 'r list \<Rightarrow> bool" where
  "keys_unique key t \<longleftrightarrow> distinct (map key t)"

named_theorems tbl \<open>lookup after an insertion or an update\<close>

lemma tbl_find_Nil [simp]: "tbl_find key k [] = None"
  by (simp add: tbl_find_def)

lemma tbl_find_Cons [simp]:
  "tbl_find key k (r # t) = (if key r = k then Some r else tbl_find key k t)"
  by (simp add: tbl_find_def)

lemma tbl_find_append:
  "tbl_find key k (t @ u) = (case tbl_find key k t of None \<Rightarrow> tbl_find key k u | Some r \<Rightarrow> Some r)"
  by (induction t) auto

lemma tbl_find_None_iff: "tbl_find key k t = None \<longleftrightarrow> k \<notin> key ` set t"
  by (induction t) auto

lemma tbl_find_SomeD: "tbl_find key k t = Some r \<Longrightarrow> r \<in> set t \<and> key r = k"
  by (induction t) (auto split: if_splits)

lemma tbl_find_key: "tbl_find key k t = Some r \<Longrightarrow> key r = k"
  by (auto dest: tbl_find_SomeD)

lemma tbl_find_unique:
  "keys_unique key t \<Longrightarrow> r \<in> set t \<Longrightarrow> tbl_find key (key r) t = Some r"
  by (induction t) (auto simp: keys_unique_def)

lemma tbl_find_insert [tbl]:
  "tbl_find key k (tbl_insert r t) =
     (case tbl_find key k t of Some x \<Rightarrow> Some x
      | None \<Rightarrow> if key r = k then Some r else None)"
  by (simp add: tbl_insert_def tbl_find_append split: option.split)

lemma tbl_find_update [tbl]:
  assumes "\<And>r. key (f r) = key r"
  shows "tbl_find key k (tbl_update key k' f t) =
     (if k = k' then map_option f (tbl_find key k t) else tbl_find key k t)"
  by (induction t) (auto simp: tbl_update_def assms)

lemma tbl_find_delete [tbl]:
  "tbl_find key k (tbl_delete key k' t) = (if k = k' then None else tbl_find key k t)"
  by (induction t) (auto simp: tbl_delete_def)

lemma keys_unique_Nil [simp]: "keys_unique key []"
  by (simp add: keys_unique_def)

lemma keys_unique_insert [tbl]:
  "keys_unique key t \<Longrightarrow> tbl_find key (key r) t = None \<Longrightarrow> keys_unique key (tbl_insert r t)"
  by (auto simp: keys_unique_def tbl_insert_def tbl_find_None_iff)

lemma keys_tbl_update [simp]:
  assumes "\<And>r. key (f r) = key r"
  shows "map key (tbl_update key k f t) = map key t"
  by (simp add: tbl_update_def assms)

lemma keys_unique_update [tbl]:
  "(\<And>r. key (f r) = key r) \<Longrightarrow> keys_unique key t \<Longrightarrow> keys_unique key (tbl_update key k f t)"
  by (simp add: keys_unique_def)

lemma keys_unique_delete [tbl]: "keys_unique key t \<Longrightarrow> keys_unique key (tbl_delete key k t)"
  by (simp add: keys_unique_def tbl_delete_def distinct_map_filter)

lemma set_tbl_insert [simp]: "set (tbl_insert r t) = insert r (set t)"
  by (auto simp: tbl_insert_def)

lemma set_tbl_update:
  "set (tbl_update key k f t) = (\<lambda>r. if key r = k then f r else r) ` set t"
  by (simp add: tbl_update_def)

lemma in_set_tbl_update:
  "r \<in> set (tbl_update key k f t) \<longleftrightarrow>
     (r \<in> set t \<and> key r \<noteq> k) \<or> (\<exists>q \<in> set t. key q = k \<and> r = f q)"
  by (auto simp: set_tbl_update)

lemma length_tbl_update [simp]: "length (tbl_update key k f t) = length t"
  by (simp add: tbl_update_def)

end
