(* ===== verification/PyText.thy ===== *)
theory PyText
  imports Prelude
begin

text \<open>
  The string methods, number formatting, timestamps and dates of Python's standard library that
  the code uses.  A datetime is naive or aware; an aware one holds the instant it denotes, in
  microseconds since the epoch, and its UTC offset.  A TEXT column that holds
  \<open>value.isoformat()\<close> is modelled by the timestamp itself: reading it back with
  \<open>datetime.fromisoformat\<close> returns it, and on UTC timestamps the order of the texts is the order
  of the instants (the fraction is printed after a dot, which sorts after the plus of the offset).
\<close>

section \<open>Strings\<close>

abbreviation char_code :: "char \<Rightarrow> nat" where
  "char_code c \<equiv> of_char c"

definition is_py_space :: "char \<Rightarrow> bool" where
  "is_py_space c = (let n = char_code c in
     (9 \<le> n \<and> n \<le> 13) \<or> (28 \<le> n \<and> n \<le> 32) \<or> n = 133 \<or> n = 160)"

definition is_digit :: "char \<Rightarrow> bool" where
  "is_digit c \<longleftrightarrow> 48 \<le> char_code c \<and> char_code c \<le> 57"

definition is_upper :: "char \<Rightarrow> bool" where
  "is_upper c \<longleftrightarrow> 65 \<le> char_code c \<and> char_code c \<le> 90"

definition is_lower :: "char \<Rightarrow> bool" where
  "is_lower c \<longleftrightarrow> 97 \<le> char_code c \<and> char_code c \<le> 122"

definition upper_char :: "char \<Rightarrow> char" where
  "upper_char c = (if is_lower c then char_of (char_code c - 32) else c)"

definition lower_char :: "char \<Rightarrow> char" where
  "lower_char c = (if is_upper c then char_of (char_code c + 32) else c)"

definition py_upper :: "string \<Rightarrow> string" where
  "py_upper s = map upper_char s"

definition py_lower :: "string \<Rightarrow> string" where
  "py_lower s = map lower_char s"

definition py_strip :: "string \<Rightarrow> string" where
  "py_strip s = rev (dropWhile is_py_space (rev (dropWhile is_py_space s)))"

text \<open>\<open>not value.strip()\<close>: the string is empty or blank.\<close>

definition is_blank :: "string \<Rightarrow> bool" where
  "is_blank s \<longleftrightarrow> py_strip s = []"

definition starts_with :: "string \<Rightarrow> string \<Rightarrow> bool" where
  "starts_with p s \<longleftrightarrow> take (length p) s = p"

lemma lower_char_idem [simp]: "lower_char (lower_char c) = lower_char c"
proof (cases "is_upper c")
  case True
  then have "97 \<le> char_code c + 32" "char_code c + 32 < 256"
    by (simp_all add: is_upper_def)
  then have "char_code (char_of (char_code c + 32) :: char) = char_code c + 32"
    by (simp add: of_char_of)
  with True show ?thesis
    by (simp add: lower_char_def is_upper_def)
qed (simp add: lower_char_def)

lemma upper_char_idem [simp]: "upper_char (upper_char c) = upper_char c"
proof (cases "is_lower c")
  case True
  then have "char_code c - 32 \<le> 90" "char_code c - 32 < 256"
    unfolding is_lower_def by linarith+
  then have "char_code (char_of (char_code c - 32) :: char) = char_code c - 32"
    by (simp add: of_char_of)
  with True show ?thesis
    by (auto simp: upper_char_def is_lower_def)
qed (simp add: upper_char_def)

lemma py_lower_idem [simp]: "py_lower (py_lower s) = py_lower s"
  by (simp add: py_lower_def comp_def)

lemma py_upper_idem [simp]: "py_upper (py_upper s) = py_upper s"
  by (simp add: py_upper_def comp_def)

lemma dropWhile_rev_prefix: "\<exists>v. t = rev (dropWhile P (rev t)) @ v"
  by (metis rev_append rev_rev_ident takeWhile_dropWhile_id)

lemma py_strip_idem [simp]: "py_strip (py_strip s) = py_strip s"
proof -
  let ?t = "dropWhile is_py_space s"
  let ?u = "rev (dropWhile is_py_space (rev ?t))"
  have "dropWhile is_py_space ?u = ?u"
  proof (cases ?u)
    case (Cons c cs)
    obtain v where "?t = ?u @ v" using dropWhile_rev_prefix by blast
    then have "?t \<noteq> [] \<and> hd ?t = c" using Cons by (metis append_Cons list.distinct(1) list.sel(1))
    then have "\<not> is_py_space c" using hd_dropWhile by blast
    with Cons show ?thesis by (metis dropWhile.simps(2))
  qed (metis dropWhile.simps(1))
  moreover have "dropWhile is_py_space (rev ?u) = rev ?u" by simp
  ultimately show ?thesis by (simp add: py_strip_def)
qed

text \<open>Decimal numerals: \<open>str(n)\<close> of an integer.\<close>

fun digits_of :: "nat \<Rightarrow> nat list" where
  "digits_of n = (if n < 10 then [n] else digits_of (n div 10) @ [n mod 10])"

declare digits_of.simps [simp del]

definition digit_char :: "nat \<Rightarrow> char" where
  "digit_char d = char_of (48 + d)"

definition show_nat :: "nat \<Rightarrow> string" where
  "show_nat n = map digit_char (digits_of n)"

definition show_int :: "int \<Rightarrow> string" where
  "show_int i = (if i < 0 then CHR ''-'' # show_nat (nat (- i)) else show_nat (nat i))"

definition digit_val :: "char \<Rightarrow> nat" where
  "digit_val c = char_code c - 48"

definition read_nat :: "string \<Rightarrow> nat" where
  "read_nat s = foldl (\<lambda>n c. 10 * n + digit_val c) 0 s"

text \<open>Zero-padded to a width, as \<open>f"{n:02d}"\<close> and \<open>strftime\<close> print.\<close>

definition show_pad :: "nat \<Rightarrow> nat \<Rightarrow> string" where
  "show_pad w n = (let s = show_nat n in replicate (w - length s) (CHR ''0'') @ s)"

definition show_bool :: "bool \<Rightarrow> string" where
  "show_bool b = (if b then ''True'' else ''False'')"

lemma digits_of_small: "d \<in> set (digits_of n) \<Longrightarrow> d < 10"
proof (induction n rule: digits_of.induct)
  case (1 n)
  then show ?case
    by (subst (asm) (2) digits_of.simps) (auto split: if_splits)
qed

lemma digit_val_char [simp]: "d < 10 \<Longrightarrow> digit_val (digit_char d) = d"
  by (simp add: digit_val_def digit_char_def of_char_of)

lemma read_nat_snoc [simp]: "read_nat (s @ [c]) = 10 * read_nat s + digit_val c"
  by (simp add: read_nat_def)

lemma read_show_nat [simp]: "read_nat (show_nat n) = n"
proof (induction n rule: digits_of.induct)
  case (1 n)
  show ?case
  proof (cases "n < 10")
    case True
    then show ?thesis
      by (simp add: show_nat_def digits_of.simps [of n] read_nat_def)
  next
    case False
    with 1 have "read_nat (show_nat (n div 10)) = n div 10" by simp
    moreover from False have "show_nat n = show_nat (n div 10) @ [digit_char (n mod 10)]"
      by (simp add: show_nat_def digits_of.simps [of n])
    ultimately show ?thesis by simp
  qed
qed

lemma show_nat_inject [simp]: "show_nat m = show_nat n \<longleftrightarrow> m = n"
  by (metis read_show_nat)

section \<open>Timestamps\<close>

text \<open>\<open>Naive t\<close> has no usable offset; \<open>Aware t off\<close> denotes instant \<open>t\<close> (microseconds).\<close>

datatype datetime = Naive int | Aware int int

text \<open>\<open>value.tzinfo is not None and value.utcoffset() == timedelta(0)\<close>\<close>

fun is_utc :: "datetime \<Rightarrow> bool" where
  "is_utc (Naive _) = False"
| "is_utc (Aware _ off) = (off = 0)"

definition utc_opt :: "datetime option \<Rightarrow> bool" where
  "utc_opt v = (case v of None \<Rightarrow> True | Some t \<Rightarrow> is_utc t)"

fun is_aware :: "datetime \<Rightarrow> bool" where
  "is_aware (Naive _) = False"
| "is_aware (Aware _ _) = True"

fun instant :: "datetime \<Rightarrow> int" where
  "instant (Naive t) = t"
| "instant (Aware t _) = t"

abbreviation utc :: "int \<Rightarrow> datetime" where
  "utc t \<equiv> Aware t 0"

lemma is_utc_iff: "is_utc d \<longleftrightarrow> (\<exists>t. d = utc t)"
  by (cases d) auto

lemma is_utc_eq: "is_utc d \<Longrightarrow> d = utc (instant d)"
  by (cases d) auto

lemma is_utc_inject: "is_utc d \<Longrightarrow> is_utc e \<Longrightarrow> instant d = instant e \<Longrightarrow> d = e"
  by (cases d; cases e) auto

section \<open>Calendar dates\<close>

datatype date = Date (date_year: nat) (date_month: nat) (date_day: nat)

text \<open>Dates compare as (year, month, day), as \<open>datetime.date\<close> does.\<close>

instantiation date :: linorder
begin

fun less_eq_date :: "date \<Rightarrow> date \<Rightarrow> bool" where
  "Date y m d \<le> Date y' m' d' \<longleftrightarrow> y < y' \<or> (y = y' \<and> (m < m' \<or> (m = m' \<and> d \<le> d')))"

definition less_date :: "date \<Rightarrow> date \<Rightarrow> bool" where
  "a < b \<longleftrightarrow> a \<le> b \<and> \<not> b \<le> (a::date)"

instance
proof
  fix a b c :: date
  show "a < b \<longleftrightarrow> a \<le> b \<and> \<not> b \<le> a" by (rule less_date_def)
  show "a \<le> a" by (cases a) simp
  show "a \<le> b \<Longrightarrow> b \<le> c \<Longrightarrow> a \<le> c" by (cases a; cases b; cases c) auto
  show "a \<le> b \<Longrightarrow> b \<le> a \<Longrightarrow> a = b" by (cases a; cases b) auto
  show "a \<le> b \<or> b \<le> a" by (cases a; cases b) auto
qed

end

definition date_compact :: "date \<Rightarrow> string" where
  \<comment> \<open>\<open>f"{d:%Y%m%d}"\<close>\<close>
  "date_compact d = show_pad 4 (date_year d) @ show_pad 2 (date_month d) @ show_pad 2 (date_day d)"

definition date_iso :: "date \<Rightarrow> string" where
  "date_iso d = show_pad 4 (date_year d) @ ''-'' @ show_pad 2 (date_month d) @ ''-''
     @ show_pad 2 (date_day d)"

end
