(* ===== verification/PyDecimal.thy ===== *)
theory PyDecimal
  imports PyText
begin

text \<open>
  \<open>decimal.Decimal\<close> of Python's standard library, as far as the code uses it: a finite decimal is
  a sign, a coefficient and an exponent (the components of \<open>Decimal.as_tuple()\<close>), arithmetic
  rounds half-even to the 28 digits of the default context, comparisons with a NaN raise
  InvalidOperation.  Exponent overflow and NaN payloads are not modelled.
\<close>

section \<open>Finite decimals\<close>

datatype dec = Dec (dec_neg: bool) (dec_coeff: nat) (dec_exp: int)

definition pow10 :: "int \<Rightarrow> rat" where
  "pow10 e = (if 0 \<le> e then 10 ^ nat e else 1 / 10 ^ nat (- e))"

definition dec_val :: "dec \<Rightarrow> rat" where
  "dec_val d = (if dec_neg d then - 1 else 1) * of_nat (dec_coeff d) * pow10 (dec_exp d)"

text \<open>An integer as a decimal, \<open>Decimal(n)\<close>.\<close>

definition dec_of_int :: "int \<Rightarrow> dec" where
  "dec_of_int n = Dec (n < 0) (nat \<bar>n\<bar>) 0"

definition dec_lt :: "dec \<Rightarrow> dec \<Rightarrow> bool" where
  "dec_lt a b \<longleftrightarrow> dec_val a < dec_val b"

definition dec_le :: "dec \<Rightarrow> dec \<Rightarrow> bool" where
  "dec_le a b \<longleftrightarrow> dec_val a \<le> dec_val b"

text \<open>Python's \<open>==\<close> on decimals compares values, not representations.\<close>

definition dec_eq :: "dec \<Rightarrow> dec \<Rightarrow> bool" where
  "dec_eq a b \<longleftrightarrow> dec_val a = dec_val b"

definition dec_positive :: "dec \<Rightarrow> bool" where
  "dec_positive d \<longleftrightarrow> 0 < dec_val d"

section \<open>Rounding\<close>

datatype rounding = RoundHalfEven | RoundDown | RoundFloor | RoundCeiling | RoundHalfUp | RoundUp

text \<open>
  The quotient of a coefficient by \<open>10 ^ k\<close> under a rounding mode; \<open>neg\<close> is the sign of the
  number, which the directed modes look at.
\<close>

definition round_coeff :: "rounding \<Rightarrow> bool \<Rightarrow> nat \<Rightarrow> nat \<Rightarrow> nat" where
  "round_coeff m neg c k = (let p = 10 ^ k; q = c div p; r = c mod p in
     case m of
       RoundDown \<Rightarrow> q
     | RoundFloor \<Rightarrow> if neg \<and> r \<noteq> 0 then q + 1 else q
     | RoundCeiling \<Rightarrow> if \<not> neg \<and> r \<noteq> 0 then q + 1 else q
     | RoundUp \<Rightarrow> if r \<noteq> 0 then q + 1 else q
     | RoundHalfUp \<Rightarrow> if p \<le> 2 * r then q + 1 else q
     | RoundHalfEven \<Rightarrow> if p < 2 * r \<or> (p = 2 * r \<and> odd q) then q + 1 else q)"

definition num_digits :: "nat \<Rightarrow> nat" where
  "num_digits n = length (digits_of n)"

definition context_prec :: nat where
  "context_prec = 28"

text \<open>Rounding a result to the precision of the default context.\<close>

definition dec_fix :: "dec \<Rightarrow> dec" where
  "dec_fix d = (let c = dec_coeff d; n = num_digits c in
     if n \<le> context_prec then d
     else let k = n - context_prec;
              c' = round_coeff RoundHalfEven (dec_neg d) c k
          in if num_digits c' \<le> context_prec then Dec (dec_neg d) c' (dec_exp d + int k)
             else Dec (dec_neg d) (c' div 10) (dec_exp d + int k + 1))"

definition dec_mul :: "dec \<Rightarrow> dec \<Rightarrow> dec" where
  "dec_mul a b =
     dec_fix (Dec (dec_neg a \<noteq> dec_neg b) (dec_coeff a * dec_coeff b) (dec_exp a + dec_exp b))"

definition signed_coeff :: "dec \<Rightarrow> int \<Rightarrow> int" where
  \<comment> \<open>the coefficient of \<open>d\<close> at an exponent not above its own, with its sign\<close>
  "signed_coeff d e =
     (if dec_neg d then - 1 else 1) * int (dec_coeff d) * 10 ^ nat (dec_exp d - e)"

definition dec_add :: "dec \<Rightarrow> dec \<Rightarrow> dec" where
  "dec_add a b = (let e = min (dec_exp a) (dec_exp b); n = signed_coeff a e + signed_coeff b e in
     dec_fix (Dec (if n = 0 then dec_neg a \<and> dec_neg b else n < 0) (nat \<bar>n\<bar>) e))"

definition dec_minus :: "dec \<Rightarrow> dec" where
  \<comment> \<open>unary minus; a zero becomes the positive zero\<close>
  "dec_minus d = dec_fix (Dec (\<not> dec_neg d \<and> dec_coeff d \<noteq> 0) (dec_coeff d) (dec_exp d))"

definition dec_sub :: "dec \<Rightarrow> dec \<Rightarrow> dec" where
  "dec_sub a b = dec_add a (Dec (\<not> dec_neg b) (dec_coeff b) (dec_exp b))"

text \<open>\<open>value.quantize(Decimal(1).scaleb(e), rounding=m)\<close>\<close>

definition dec_quantize :: "rounding \<Rightarrow> int \<Rightarrow> dec \<Rightarrow> py_error + dec" where
  "dec_quantize m e d =
     (let c = (if e \<le> dec_exp d then dec_coeff d * 10 ^ nat (dec_exp d - e)
               else round_coeff m (dec_neg d) (dec_coeff d) (nat (e - dec_exp d)))
      in if num_digits c \<le> context_prec then Inr (Dec (dec_neg d) c e) else Inl InvalidOperation)"

section \<open>Special values, parsing and printing\<close>

datatype decimal = Finite dec | Infinity bool | NaN bool
  \<comment> \<open>the flag of \<open>Infinity\<close> is the sign, that of \<open>NaN\<close> says whether it signals\<close>

fun is_finite_decimal :: "decimal \<Rightarrow> bool" where
  "is_finite_decimal (Finite _) = True"
| "is_finite_decimal _ = False"

text \<open>\<open>value <= 0\<close> (and \<open>value < 0\<close>): an ordering comparison with a NaN raises.\<close>

fun decimal_le_zero :: "decimal \<Rightarrow> py_error + bool" where
  "decimal_le_zero (Finite d) = Inr (dec_val d \<le> 0)"
| "decimal_le_zero (Infinity neg) = Inr neg"
| "decimal_le_zero (NaN _) = Inl InvalidOperation"

fun decimal_lt_zero :: "decimal \<Rightarrow> py_error + bool" where
  "decimal_lt_zero (Finite d) = Inr (dec_val d < 0)"
| "decimal_lt_zero (Infinity neg) = Inr neg"
| "decimal_lt_zero (NaN _) = Inl InvalidOperation"

definition dec_is_integral :: "dec \<Rightarrow> bool" where
  "dec_is_integral d \<longleftrightarrow>
     0 \<le> dec_exp d \<or> dec_coeff d mod 10 ^ nat (- dec_exp d) = 0"

text \<open>\<open>value != value.to_integral_value()\<close>: a quiet NaN differs from itself.\<close>

fun decimal_not_integral :: "decimal \<Rightarrow> py_error + bool" where
  "decimal_not_integral (Finite d) = Inr (\<not> dec_is_integral d)"
| "decimal_not_integral (Infinity _) = Inr False"
| "decimal_not_integral (NaN signalling) = (if signalling then Inl InvalidOperation else Inr True)"

text \<open>\<open>int(value)\<close>: truncation towards zero.\<close>

definition dec_to_int :: "dec \<Rightarrow> int" where
  "dec_to_int d = (if dec_neg d then - 1 else 1) *
     (if 0 \<le> dec_exp d then int (dec_coeff d) * 10 ^ nat (dec_exp d)
      else int (dec_coeff d div 10 ^ nat (- dec_exp d)))"

fun decimal_to_int :: "decimal \<Rightarrow> py_error + int" where
  "decimal_to_int (Finite d) = Inr (dec_to_int d)"
| "decimal_to_int (Infinity _) = Inl OverflowError"
| "decimal_to_int (NaN _) = Inl (ValueError ''cannot convert NaN to integer'')"

text \<open>
  \<open>Decimal(text)\<close>: blanks around the text and underscores are ignored; \<open>None\<close> is the
  InvalidOperation of a text that is no number.
\<close>

definition take_sign :: "string \<Rightarrow> bool \<times> string" where
  "take_sign s = (case s of [] \<Rightarrow> (False, [])
     | c # cs \<Rightarrow> if c = CHR ''-'' then (True, cs) else if c = CHR ''+'' then (False, cs)
                else (False, s))"

definition parse_exponent :: "string \<Rightarrow> int option" where
  "parse_exponent s = (case s of [] \<Rightarrow> Some 0
     | c # cs \<Rightarrow> if c = CHR ''e'' then
         (case take_sign cs of (neg, ds) \<Rightarrow>
            if ds \<noteq> [] \<and> list_all is_digit ds
            then Some (if neg then - int (read_nat ds) else int (read_nat ds)) else None)
       else None)"

definition parse_finite :: "bool \<Rightarrow> string \<Rightarrow> decimal option" where
  "parse_finite neg s = (let ip = takeWhile is_digit s; r1 = dropWhile is_digit s;
       dot = (r1 \<noteq> [] \<and> hd r1 = CHR ''.'');
       fp = (if dot then takeWhile is_digit (tl r1) else []);
       r2 = (if dot then dropWhile is_digit (tl r1) else r1)
     in if ip = [] \<and> fp = [] then None
        else map_option (\<lambda>e. Finite (Dec neg (read_nat (ip @ fp)) (e - int (length fp))))
               (parse_exponent r2))"

definition parse_decimal :: "string \<Rightarrow> decimal option" where
  "parse_decimal text =
     (case take_sign (py_lower (filter (\<lambda>c. c \<noteq> CHR ''_'') (py_strip text))) of (neg, s) \<Rightarrow>
       if s = ''inf'' \<or> s = ''infinity'' then Some (Infinity neg)
       else if take 3 s = ''nan'' \<and> list_all is_digit (drop 3 s) then Some (NaN False)
       else if take 4 s = ''snan'' \<and> list_all is_digit (drop 4 s) then Some (NaN True)
       else parse_finite neg s)"

text \<open>\<open>format(value, "f")\<close>: positional notation with the digits of the exponent.\<close>

definition dec_format_f :: "dec \<Rightarrow> string" where
  "dec_format_f d = (if dec_neg d then ''-'' else []) @
     (if 0 \<le> dec_exp d
      then (if dec_coeff d = 0 then ''0'' else show_nat (dec_coeff d) @ replicate (nat (dec_exp d)) (CHR ''0''))
      else let k = nat (- dec_exp d); s = show_nat (dec_coeff d);
               z = replicate (Suc k - length s) (CHR ''0'') @ s
           in take (length z - k) z @ ''.'' @ drop (length z - k) z)"

text \<open>\<open>str(value)\<close>: positional unless the exponent is positive or the number is tiny.\<close>

definition dec_str :: "dec \<Rightarrow> string" where
  "dec_str d = (let s = show_nat (dec_coeff d); e = dec_exp d; adj = e + int (length s) - 1 in
     if e \<le> 0 \<and> - 6 \<le> adj then dec_format_f d
     else (if dec_neg d then ''-'' else []) @ take 1 s @
          (if length s > 1 then ''.'' @ drop 1 s else []) @ ''E'' @
          (if 0 \<le> adj then ''+'' else ''-'') @ show_nat (nat \<bar>adj\<bar>))"

section \<open>Laws\<close>

lemma pow10_pos [simp]: "0 < pow10 e"
  by (simp add: pow10_def)

lemma pow10_nonzero [simp]: "pow10 e \<noteq> 0"
  using pow10_pos [of e] by linarith

lemma pow10_not_neg [simp]: "\<not> pow10 e < 0"
  using pow10_pos [of e] by linarith

lemma pow10_0 [simp]: "pow10 0 = 1"
  by (simp add: pow10_def)

lemma pow10_powi: "pow10 e = 10 powi e"
  by (simp add: pow10_def power_int_def inverse_eq_divide power_one_over)

lemma pow10_add: "pow10 (a + b) = pow10 a * pow10 b"
  by (simp add: pow10_powi power_int_add)

lemma pow10_diff: "e \<le> a \<Longrightarrow> 10 ^ nat (a - e) * pow10 e = pow10 a"
  using pow10_add [of "a - e" e] by (simp add: pow10_def)

lemma dec_val_of_int [simp]: "dec_val (dec_of_int n) = of_int n"
  by (simp add: dec_val_def dec_of_int_def)

lemma dec_fix_id: "num_digits (dec_coeff d) \<le> context_prec \<Longrightarrow> dec_fix d = d"
  by (simp add: dec_fix_def Let_def)

text \<open>A coefficient below \<open>10 ^ n\<close> has at most \<open>n\<close> digits.\<close>

lemma num_digits_le: "c < 10 ^ n \<Longrightarrow> 0 < n \<Longrightarrow> num_digits c \<le> n"
proof (induction c arbitrary: n rule: digits_of.induct)
  case (1 c)
  show ?case
  proof (cases "c < 10")
    case True
    then show ?thesis using "1.prems" by (simp add: num_digits_def digits_of.simps [of c])
  next
    case False
    with "1.prems" have n: "1 < n"
      by (metis less_one linorder_neqE_nat power_one_right not_less_iff_gr_or_eq)
    then have "c div 10 < 10 ^ (n - 1)"
      using "1.prems" by (metis One_nat_def Suc_pred less_mult_imp_div_less mult.commute
          power_Suc "1.prems"(2))
    with "1.IH" [OF False, of "n - 1"] n have "num_digits (c div 10) \<le> n - 1" by simp
    with False n show ?thesis by (simp add: num_digits_def digits_of.simps [of c])
  qed
qed

lemma num_digits_gt: "c < 10 ^ num_digits c"
proof (induction c rule: digits_of.induct)
  case (1 c)
  show ?case
  proof (cases "c < 10")
    case True
    then show ?thesis by (simp add: num_digits_def digits_of.simps [of c])
  next
    case False
    then have "num_digits c = Suc (num_digits (c div 10))"
      by (simp add: num_digits_def digits_of.simps [of c])
    moreover have "c div 10 < 10 ^ num_digits (c div 10)" using 1 False by blast
    ultimately show ?thesis by simp
  qed
qed

lemma num_digits_pos: "0 < num_digits c"
  by (simp add: num_digits_def digits_of.simps [of c])

text \<open>The number of digits by comparison with the powers of ten, which evaluates faster.\<close>

function digits_upto :: "nat \<Rightarrow> nat \<Rightarrow> nat \<Rightarrow> nat" where
  "digits_upto k p n = (if n < p \<or> p = 0 then k else digits_upto (Suc k) (10 * p) n)"
  by pat_completeness auto
termination by (relation "measure (\<lambda>(k, p, n). n + 1 - p)") auto

declare digits_upto.simps [simp del]

lemma digits_upto_max: "p = 10 ^ k \<Longrightarrow> 0 < k \<Longrightarrow> digits_upto k p n = max k (num_digits n)"
proof (induction k p n rule: digits_upto.induct)
  case (1 k p n)
  show ?case
  proof (cases "n < p")
    case True
    with 1 have "num_digits n \<le> k" by (simp add: num_digits_le)
    with True show ?thesis by (simp add: digits_upto.simps [of k p n])
  next
    case False
    have "k < num_digits n"
    proof (rule ccontr)
      assume "\<not> k < num_digits n"
      then have "(10::nat) ^ num_digits n \<le> 10 ^ k" by (intro power_increasing) simp_all
      with num_digits_gt [of n] False 1 show False by simp
    qed
    moreover have "digits_upto k p n = digits_upto (Suc k) (10 * p) n"
      using False by (subst digits_upto.simps) (simp add: 1(2))
    ultimately show ?thesis using 1 False by simp
  qed
qed

lemma num_digits_code [code]: "num_digits n = digits_upto 1 10 n"
  using digits_upto_max [of 10 1 n] num_digits_pos [of n] by simp

text \<open>Products and sums are exact as long as the coefficient fits the context.\<close>

lemma dec_mul_exact:
  assumes "dec_coeff a * dec_coeff b < 10 ^ context_prec"
  shows "dec_val (dec_mul a b) = dec_val a * dec_val b"
proof -
  have "num_digits (dec_coeff a * dec_coeff b) \<le> context_prec"
    using assms by (rule num_digits_le) (simp add: context_prec_def)
  then show ?thesis
    by (simp add: dec_mul_def dec_fix_id) (simp add: dec_val_def pow10_add)
qed

lemma signed_coeff_val:
  "e \<le> dec_exp d \<Longrightarrow> of_int (signed_coeff d e) * pow10 e = dec_val d"
  by (simp add: signed_coeff_def dec_val_def pow10_diff [symmetric])

lemma dec_val_signed: "dec_val (Dec (n < 0) (nat \<bar>n\<bar>) e) = of_int n * pow10 e"
  by (simp add: dec_val_def)

lemma dec_add_exact:
  assumes "nat \<bar>signed_coeff a (min (dec_exp a) (dec_exp b))
              + signed_coeff b (min (dec_exp a) (dec_exp b))\<bar> < 10 ^ context_prec"
  shows "dec_val (dec_add a b) = dec_val a + dec_val b"
proof -
  let ?e = "min (dec_exp a) (dec_exp b)"
  let ?n = "signed_coeff a ?e + signed_coeff b ?e"
  have fits: "num_digits (nat \<bar>?n\<bar>) \<le> context_prec"
    using assms by (rule num_digits_le) (simp add: context_prec_def)
  have "dec_val (dec_add a b) = of_int ?n * pow10 ?e"
  proof (cases "?n = 0")
    case True
    with fits show ?thesis
      by (simp add: dec_add_def Let_def dec_fix_id) (simp add: dec_val_def)
  next
    case False
    with fits show ?thesis
      by (simp add: dec_add_def Let_def dec_fix_id dec_val_signed)
  qed
  also have "\<dots> = dec_val a + dec_val b"
    by (simp add: distrib_right signed_coeff_val)
  finally show ?thesis .
qed

text \<open>Rounding towards zero never increases the magnitude.\<close>

lemma round_down_le: "round_coeff RoundDown neg c k * 10 ^ k \<le> c"
  by (simp add: round_coeff_def Let_def)

lemma round_down_gt: "c < (round_coeff RoundDown neg c k + 1) * 10 ^ k"
  by (simp add: round_coeff_def Let_def mult.commute [of "10 ^ k"] dividend_less_div_times)

lemma quantize_down_le:
  assumes "dec_quantize RoundDown e d = Inr q" and pos: "\<not> dec_neg d"
  shows "dec_val q \<le> dec_val d" and "dec_exp q = e" and "\<not> dec_neg q"
    and "dec_val d < dec_val q + pow10 e"
proof -
  let ?c = "if e \<le> dec_exp d then dec_coeff d * 10 ^ nat (dec_exp d - e)
     else round_coeff RoundDown (dec_neg d) (dec_coeff d) (nat (e - dec_exp d))"
  have q: "q = Dec False ?c e"
    using assms by (auto simp: dec_quantize_def Let_def split: if_splits)
  then show "dec_exp q = e" and "\<not> dec_neg q" by simp_all
  have bounds: "dec_val q \<le> dec_val d \<and> dec_val d < dec_val q + pow10 e"
  proof (cases "e \<le> dec_exp d")
    case True
    then have "dec_val q = dec_val d"
      using q pos by (simp add: dec_val_def pow10_diff [symmetric])
    then show ?thesis by simp
  next
    case False
    let ?k = "nat (e - dec_exp d)"
    let ?r = "round_coeff RoundDown (dec_neg d) (dec_coeff d) ?k"
    have scale: "pow10 e = 10 ^ ?k * pow10 (dec_exp d)"
      using False by (simp add: pow10_diff)
    have "?r * 10 ^ ?k \<le> dec_coeff d" by (rule round_down_le)
    then have "of_nat (?r * 10 ^ ?k) * pow10 (dec_exp d) \<le> of_nat (dec_coeff d) * pow10 (dec_exp d)"
      by (intro mult_right_mono of_nat_mono less_imp_le [OF pow10_pos])
    moreover have "of_nat (dec_coeff d) * pow10 (dec_exp d)
        < of_nat ((?r + 1) * 10 ^ ?k) * pow10 (dec_exp d)"
      using round_down_gt [of "dec_coeff d" "dec_neg d" ?k]
      by (intro mult_strict_right_mono) (simp_all only: of_nat_less_iff pow10_pos)
    ultimately show ?thesis
      using q pos False by (simp add: dec_val_def scale algebra_simps)
  qed
  then show "dec_val q \<le> dec_val d" and "dec_val d < dec_val q + pow10 e" by simp_all
qed

text \<open>Parsing the numeral of a natural number.\<close>

lemma is_digit_digit_char [simp]: "d < 10 \<Longrightarrow> is_digit (digit_char d)"
  by (simp add: is_digit_def digit_char_def of_char_of)

lemma show_nat_digits: "list_all is_digit (show_nat n)"
  by (auto simp: show_nat_def list_all_iff dest: digits_of_small)

lemma show_nat_nonempty [simp]: "show_nat n \<noteq> []"
  by (simp add: show_nat_def digits_of.simps [of n])

lemma takeWhile_dropWhile_digits:
  "list_all is_digit s \<Longrightarrow> takeWhile is_digit s = s \<and> dropWhile is_digit s = []"
  by (simp add: list_all_iff)

lemma digit_not_special:
  assumes "is_digit c"
  shows "\<not> is_py_space c" and "lower_char c = c" and "c \<noteq> CHR ''_''" and "c \<noteq> CHR ''-''"
    and "c \<noteq> CHR ''+''" and "c \<noteq> CHR ''i''" and "c \<noteq> CHR ''n''" and "c \<noteq> CHR ''s''"
  using assms by (auto simp: is_digit_def is_py_space_def lower_char_def is_upper_def Let_def)

lemma dropWhile_id: "(\<And>c. c \<in> set s \<Longrightarrow> \<not> P c) \<Longrightarrow> dropWhile P s = s"
  by (cases s) auto

lemma strip_digits:
  assumes "list_all is_digit s"
  shows "py_strip s = s"
proof -
  have "\<And>c. c \<in> set s \<Longrightarrow> \<not> is_py_space c"
    using assms by (simp add: list_all_iff digit_not_special(1))
  then have "dropWhile is_py_space s = s" "dropWhile is_py_space (rev s) = rev s"
    by (auto intro: dropWhile_id)
  then show ?thesis by (simp add: py_strip_def)
qed

lemma lower_digits: "list_all is_digit s \<Longrightarrow> py_lower s = s"
  by (simp add: py_lower_def list_all_iff map_idI digit_not_special(2))

lemma parse_show_nat [simp]: "parse_decimal (show_nat n) = Some (Finite (Dec False n 0))"
proof -
  let ?s = "show_nat n"
  have d: "list_all is_digit ?s" by (rule show_nat_digits)
  then have keep: "filter (\<lambda>c. c \<noteq> CHR ''_'') ?s = ?s"
    by (auto simp: list_all_iff filter_id_conv digit_not_special)
  obtain c cs where s: "?s = c # cs" using show_nat_nonempty by (cases ?s) auto
  then have c: "is_digit c" using d by simp
  note nc = digit_not_special [OF c]
  have "parse_decimal ?s = parse_finite False ?s"
    using nc by (simp add: parse_decimal_def strip_digits [OF d] keep lower_digits [OF d])
      (auto simp: s take_sign_def)
  also have "\<dots> = Some (Finite (Dec False n 0))"
    by (simp add: parse_finite_def Let_def parse_exponent_def
        takeWhile_dropWhile_digits [OF d, THEN conjunct1]
        takeWhile_dropWhile_digits [OF d, THEN conjunct2])
  finally show ?thesis .
qed

lemma dec_to_int_of_nat [simp]: "dec_to_int (Dec False n 0) = int n"
  by (simp add: dec_to_int_def)

lemma dec_is_integral_val: "dec_is_integral d \<Longrightarrow> of_int (dec_to_int d) = dec_val d"
proof (cases "0 \<le> dec_exp d")
  case True
  then show ?thesis by (simp add: dec_to_int_def dec_val_def pow10_def)
next
  case False
  let ?p = "10 ^ nat (- dec_exp d) :: nat"
  assume "dec_is_integral d"
  with False have "dec_coeff d mod ?p = 0" by (simp add: dec_is_integral_def)
  then have "dec_coeff d = dec_coeff d div ?p * ?p" by (metis add.right_neutral div_mult_mod_eq)
  then have "(of_nat (dec_coeff d) :: rat) = of_nat (dec_coeff d div ?p) * 10 ^ nat (- dec_exp d)"
    by (metis of_nat_mult of_nat_numeral of_nat_power)
  with False show ?thesis by (simp add: dec_to_int_def dec_val_def pow10_def)
qed

text \<open>Parsing what \<open>format(value, "f")\<close> prints.\<close>

definition plain_char :: "char \<Rightarrow> bool" where
  "plain_char c \<longleftrightarrow> is_digit c \<or> c = CHR ''.'' \<or> c = CHR ''-''"

lemma plain_char_facts:
  assumes "plain_char c"
  shows "\<not> is_py_space c" and "lower_char c = c" and "c \<noteq> CHR ''_''" and "c \<noteq> CHR ''i''"
    and "c \<noteq> CHR ''n''" and "c \<noteq> CHR ''s''" and "c \<noteq> CHR ''+''"
  using assms digit_not_special [of c]
  by (auto simp: plain_char_def is_py_space_def lower_char_def is_upper_def Let_def)

lemma plain_text:
  assumes "list_all plain_char s"
  shows "py_lower (filter (\<lambda>c. c \<noteq> CHR ''_'') (py_strip s)) = s"
proof -
  have p: "plain_char c" if "c \<in> set s" for c using assms that by (simp add: list_all_iff)
  have "dropWhile is_py_space s = s" "dropWhile is_py_space (rev s) = rev s"
    using p plain_char_facts(1) by (auto intro: dropWhile_id)
  then have "py_strip s = s" by (simp add: py_strip_def)
  moreover have "filter (\<lambda>c. c \<noteq> CHR ''_'') s = s"
    using p plain_char_facts(3) by (auto simp: filter_id_conv)
  moreover have "py_lower s = s"
    using p plain_char_facts(2) by (simp add: py_lower_def map_idI)
  ultimately show ?thesis by simp
qed

lemma read_nat_zeros: "read_nat (replicate m (CHR ''0'') @ s) = read_nat s"
proof -
  have "foldl (\<lambda>n c. 10 * n + digit_val c) 0 (replicate m (CHR ''0'')) = 0"
    by (induction m) (simp_all add: digit_val_def)
  then show ?thesis by (simp add: read_nat_def)
qed

lemma parse_unsigned:
  assumes ip: "ip \<noteq> []" "list_all is_digit ip" and fp: "list_all is_digit fp"
  shows "parse_decimal ((if neg then ''-'' else []) @ ip @ (if dot then CHR ''.'' # fp else [])) =
     Some (Finite (Dec neg (read_nat (ip @ (if dot then fp else [])))
                   (if dot then - int (length fp) else 0)))"
proof -
  let ?b = "ip @ (if dot then CHR ''.'' # fp else [])"
  let ?s = "(if neg then ''-'' else []) @ ?b"
  have digits: "\<And>c. c \<in> set ip \<Longrightarrow> is_digit c" "\<And>c. c \<in> set fp \<Longrightarrow> is_digit c"
    using ip(2) fp by (simp_all add: list_all_iff)
  have plain: "list_all plain_char ?s"
    using digits by (auto simp: list_all_iff plain_char_def)
  obtain c cs where b: "?b = c # cs" and c: "is_digit c"
    using ip by (cases ip) auto
  note nc = digit_not_special [OF c]
  have sign: "take_sign ?s = (neg, ?b)"
    using nc b by (cases neg) (auto simp: take_sign_def)
  have dotc: "\<not> is_digit (CHR ''.'')" by (simp add: is_digit_def)
  have tw: "takeWhile is_digit ?b = ip" "dropWhile is_digit ?b = (if dot then CHR ''.'' # fp else [])"
    using digits(1) dotc by (simp_all add: takeWhile_append dropWhile_append takeWhile_tail)
  have tf: "takeWhile is_digit fp = fp" "dropWhile is_digit fp = []"
    using fp takeWhile_dropWhile_digits by blast+
  have "parse_finite neg ?b = Some (Finite (Dec neg (read_nat (ip @ (if dot then fp else [])))
                   (if dot then - int (length fp) else 0)))"
    using ip(1) by (simp add: parse_finite_def Let_def tw tf parse_exponent_def)
  moreover have "parse_decimal ?s = parse_finite neg ?b"
    unfolding parse_decimal_def plain_text [OF plain] sign prod.case
    using nc b by auto
  ultimately show ?thesis by (simp only:)
qed

lemma show_nat_chars: "c \<in> set (show_nat n) \<Longrightarrow> is_digit c"
  using show_nat_digits [of n] by (simp add: list_all_iff)

lemma parse_format_f:
  assumes "dec_exp d \<le> 0"
  shows "parse_decimal (dec_format_f d) = Some (Finite d)"
proof (cases "dec_exp d = 0")
  case True
  have zero: "show_nat 0 = ''0''" by code_simp
  have "dec_format_f d = (if dec_neg d then ''-'' else []) @ show_nat (dec_coeff d) @ (if False then CHR ''.'' # [] else [])"
    using True by (simp add: dec_format_f_def zero)
  then have "parse_decimal (dec_format_f d) = Some (Finite (Dec (dec_neg d) (dec_coeff d) 0))"
    using parse_unsigned [where dot = False and ip = "show_nat (dec_coeff d)" and fp = "[]"
        and neg = "dec_neg d"] by (simp add: show_nat_digits)
  with True show ?thesis by (cases d) simp
next
  case False
  let ?k = "nat (- dec_exp d)" and ?s = "show_nat (dec_coeff d)"
  let ?z = "replicate (Suc ?k - length ?s) (CHR ''0'') @ ?s"
  let ?ip = "take (length ?z - ?k) ?z" and ?fp = "drop (length ?z - ?k) ?z"
  have k: "\<not> 0 \<le> dec_exp d" using False assms by linarith
  have "is_digit (CHR ''0'')" by (simp add: is_digit_def)
  then have z: "list_all is_digit ?z" by (auto simp: list_all_iff show_nat_chars)
  have len: "?k < length ?z" by simp
  have "list_all is_digit ?ip" "list_all is_digit ?fp"
    using z unfolding list_all_iff by (meson in_set_takeD in_set_dropD)+
  moreover have "?ip \<noteq> []"
    using len by (metis take_eq_Nil length_greater_0_conv list.size(3) not_less_zero zero_less_diff)
  moreover have "read_nat (?ip @ ?fp) = dec_coeff d"
    by (simp only: append_take_drop_id read_nat_zeros read_show_nat)
  moreover have "length ?fp = ?k" using len by (simp only: length_drop) linarith
  moreover have "dec_format_f d = (if dec_neg d then ''-'' else []) @ ?ip @ CHR ''.'' # ?fp"
    using k by (simp add: dec_format_f_def Let_def)
  ultimately obtain ip fp where f: "list_all is_digit ip" "list_all is_digit fp" "ip \<noteq> []"
    "read_nat (ip @ fp) = dec_coeff d" "length fp = ?k"
    "dec_format_f d = (if dec_neg d then ''-'' else []) @ ip @ CHR ''.'' # fp"
    by blast
  have "parse_decimal (dec_format_f d) = Some (Finite (Dec (dec_neg d) (dec_coeff d) (- int ?k)))"
    using parse_unsigned [OF f(3,1,2), of "dec_neg d" True] f(4,5) unfolding f(6) by simp
  moreover have "- int ?k = dec_exp d" using k by simp
  ultimately show ?thesis by (cases d) simp
qed

text \<open>The directed roundings bracket the value.\<close>

lemma quantize_val:
  assumes "dec_quantize m e d = Inr q"
  shows "q = Dec (dec_neg d) (if e \<le> dec_exp d then dec_coeff d * 10 ^ nat (dec_exp d - e)
               else round_coeff m (dec_neg d) (dec_coeff d) (nat (e - dec_exp d))) e"
  using assms by (auto simp: dec_quantize_def Let_def split: if_splits)

lemma quantize_exact:
  assumes "dec_quantize m e d = Inr q" and "e \<le> dec_exp d"
  shows "dec_val q = dec_val d"
  using assms by (simp add: quantize_val [OF assms(1)] dec_val_def pow10_diff [symmetric])

lemma round_ceiling_bounds:
  "c \<le> round_coeff RoundCeiling False c k * 10 ^ k \<and> round_coeff RoundCeiling False c k * 10 ^ k < c + 10 ^ k"
proof -
  let ?p = "10 ^ k :: nat"
  have p: "0 < ?p" by simp
  have c: "c = c div ?p * ?p + c mod ?p" by (rule div_mult_mod_eq [symmetric])
  show ?thesis
  proof (cases "c mod ?p = 0")
    case True
    with c p show ?thesis by (simp add: round_coeff_def Let_def)
  next
    case False
    have r: "round_coeff RoundCeiling False c k = c div ?p + 1"
      using False by (simp add: round_coeff_def Let_def)
    have "c mod ?p < ?p" by simp
    then show ?thesis using c False unfolding r add_mult_distrib by linarith
  qed
qed

lemma quantize_ceiling_ge:
  assumes q: "dec_quantize RoundCeiling e d = Inr q" and pos: "\<not> dec_neg d"
  shows "dec_val d \<le> dec_val q" and "dec_val q < dec_val d + pow10 e" and "dec_exp q = e" and "\<not> dec_neg q"
proof -
  note qv = quantize_val [OF q]
  show "dec_exp q = e" "\<not> dec_neg q" using qv pos by simp_all
  have "dec_val d \<le> dec_val q \<and> dec_val q < dec_val d + pow10 e"
  proof (cases "e \<le> dec_exp d")
    case True
    then show ?thesis using quantize_exact [OF q True] by simp
  next
    case False
    let ?k = "nat (e - dec_exp d)"
    let ?r = "round_coeff RoundCeiling False (dec_coeff d) ?k"
    have scale: "pow10 e = 10 ^ ?k * pow10 (dec_exp d)" using False by (simp add: pow10_diff)
    have "of_nat (dec_coeff d) * pow10 (dec_exp d) \<le> of_nat (?r * 10 ^ ?k) * pow10 (dec_exp d)"
      using round_ceiling_bounds [of "dec_coeff d" ?k]
      by (intro mult_right_mono of_nat_mono less_imp_le [OF pow10_pos]) simp
    moreover have "of_nat (?r * 10 ^ ?k) * pow10 (dec_exp d)
        < of_nat (dec_coeff d + 10 ^ ?k) * pow10 (dec_exp d)"
      using round_ceiling_bounds [of "dec_coeff d" ?k]
      by (intro mult_strict_right_mono) (simp_all only: of_nat_less_iff pow10_pos)
    ultimately show ?thesis
      using qv pos False by (simp add: dec_val_def scale algebra_simps)
  qed
  then show "dec_val d \<le> dec_val q" "dec_val q < dec_val d + pow10 e" by simp_all
qed

lemma quantize_up_ceiling:
  "\<not> dec_neg d \<Longrightarrow> dec_quantize RoundUp e d = dec_quantize RoundCeiling e d"
  by (simp add: dec_quantize_def round_coeff_def)

lemma quantize_floor_down:
  "\<not> dec_neg d \<Longrightarrow> dec_quantize RoundFloor e d = dec_quantize RoundDown e d"
  by (simp add: dec_quantize_def round_coeff_def)

lemma dec_val_positive_sign: "0 < dec_val d \<Longrightarrow> \<not> dec_neg d"
proof
  assume "0 < dec_val d" and "dec_neg d"
  then have "0 < - (of_nat (dec_coeff d) * pow10 (dec_exp d))" by (simp add: dec_val_def)
  moreover have "0 \<le> of_nat (dec_coeff d) * pow10 (dec_exp d)"
    by (intro mult_nonneg_nonneg less_imp_le [OF pow10_pos]) simp
  ultimately show False by linarith
qed

end
