(* ===== verification/PyFloat.thy ===== *)
theory PyFloat
  imports PyDecimal "HOL-Library.Log_Nat"
begin

text \<open>
  Python floats (IEEE binary64) as the rational they denote.  \<open>fl\<close> rounds a rational to the
  nearest float, ties to even, subnormals included; overflow to an infinity is not modelled.  A
  float that comes from a configuration file or a literal is given by its shortest decimal
  \<open>repr\<close>, from which \<open>fl\<close> recovers it.
\<close>

definition round_half_even :: "rat \<Rightarrow> int" where
  "round_half_even r = (let f = \<lfloor>r\<rfloor>; d = r - of_int f in
     if d < 1/2 then f else if 1/2 < d then f + 1 else if even f then f else f + 1)"

definition pow2 :: "int \<Rightarrow> rat" where
  "pow2 e = (if 0 \<le> e then 2 ^ nat e else 1 / 2 ^ nat (- e))"

text \<open>The exponent \<open>k\<close> with \<open>2 ^ k \<le> x < 2 ^ (k + 1)\<close>, for positive \<open>x\<close>.\<close>

definition log2_floor :: "rat \<Rightarrow> int" where
  "log2_floor x = (case quotient_of x of (n, d) \<Rightarrow>
     let k = int (floorlog 2 (nat n)) - int (floorlog 2 (nat d))
     in if x < pow2 k then k - 1 else k)"

text \<open>The exponent of the unit in the last place of a float near \<open>x\<close>.\<close>

definition ulp_exp :: "rat \<Rightarrow> int" where
  "ulp_exp x = max (log2_floor x - 52) (- 1074)"

definition fl_pos :: "rat \<Rightarrow> rat" where
  "fl_pos x = of_int (round_half_even (x / pow2 (ulp_exp x))) * pow2 (ulp_exp x)"

definition fl :: "rat \<Rightarrow> rat" where
  "fl x = (if x = 0 then 0 else if 0 < x then fl_pos x else - fl_pos (- x))"

text \<open>True division of two ints, and \<open>timedelta.total_seconds()\<close> of microseconds.\<close>

definition int_truediv :: "int \<Rightarrow> int \<Rightarrow> rat" where
  "int_truediv a b = fl (of_int a / of_int b)"

definition total_seconds :: "int \<Rightarrow> rat" where
  "total_seconds us = int_truediv us 1000000"

text \<open>\<open>(later - earlier).total_seconds()\<close> of aware timestamps.\<close>

definition seconds_between :: "datetime \<Rightarrow> datetime \<Rightarrow> rat" where
  "seconds_between later earlier = total_seconds (instant later - instant earlier)"

definition float_of_repr :: "dec \<Rightarrow> rat" where
  "float_of_repr d = fl (dec_val d)"

text \<open>\<open>math.isfinite(float(value))\<close> of a finite decimal: it does not overflow.\<close>

definition float_is_finite :: "dec \<Rightarrow> bool" where
  "float_is_finite d \<longleftrightarrow> \<bar>dec_val d\<bar> < 2 ^ 1024 - 2 ^ 970"

text \<open>\<open>format(x, ".3f")\<close>.\<close>

definition format_fixed :: "nat \<Rightarrow> rat \<Rightarrow> string" where
  "format_fixed k x = (let n = round_half_even (\<bar>x\<bar> * 10 ^ k)
     in dec_format_f (Dec (x < 0) (nat n) (- int k)))"

text \<open>\<open>format(x, "g")\<close> for a positive float: six significant digits, trailing zeros dropped.\<close>

definition log10_floor :: "rat \<Rightarrow> int" where
  "log10_floor x = (if 1 \<le> x then int (num_digits (nat \<lfloor>x\<rfloor>)) - 1
     else - int (num_digits (nat (\<lceil>1 / x\<rceil> - 1))))"

definition drop_zeros :: "string \<Rightarrow> string" where
  "drop_zeros s = (if CHR ''.'' \<in> set s
     then (let r = dropWhile (\<lambda>c. c = CHR ''0'') (rev s)
           in rev (if r \<noteq> [] \<and> hd r = CHR ''.'' then tl r else r))
     else s)"

definition format_g :: "rat \<Rightarrow> string" where
  "format_g x = (let k0 = log10_floor x; n0 = round_half_even (x * pow10 (5 - k0));
      (k, n) = (if n0 = 1000000 then (k0 + 1, 100000) else (k0, n0))
    in if - 4 \<le> k \<and> k < 6 then drop_zeros (dec_format_f (Dec False (nat n) (k - 5)))
       else drop_zeros (dec_format_f (Dec False (nat n) (- 5))) @ ''e'' @
            (if 0 \<le> k then ''+'' else ''-'') @ show_pad 2 (nat \<bar>k\<bar>))"

section \<open>Rounding is monotone\<close>

lemma round_half_even_mono: "x \<le> y \<Longrightarrow> round_half_even x \<le> round_half_even y"
proof -
  assume xy: "x \<le> y"
  then have f: "\<lfloor>x\<rfloor> \<le> \<lfloor>y\<rfloor>" by (rule floor_mono)
  show ?thesis
  proof (cases "\<lfloor>x\<rfloor> = \<lfloor>y\<rfloor>")
    case True
    with xy show ?thesis by (simp add: round_half_even_def Let_def)
  next
    case False
    with f have "\<lfloor>x\<rfloor> + 1 \<le> \<lfloor>y\<rfloor>" by linarith
    then show ?thesis by (simp add: round_half_even_def Let_def)
  qed
qed

lemma round_half_even_int [simp]: "round_half_even (of_int n) = n"
  by (simp add: round_half_even_def)

lemma pow2_pos [simp]: "0 < pow2 e"
  by (simp add: pow2_def)

lemma pow2_nonzero [simp]: "pow2 e \<noteq> 0"
  using pow2_pos [of e] by linarith

lemma pow2_powi: "pow2 e = 2 powi e"
  by (simp add: pow2_def power_int_def inverse_eq_divide power_one_over)

lemma pow2_add: "pow2 (a + b) = pow2 a * pow2 b"
  by (simp add: pow2_powi power_int_add)

lemma pow2_diff: "pow2 (a - b) = pow2 a / pow2 b"
  using pow2_add [of "a - b" b] by (simp add: field_simps)

lemma pow2_mono: "a \<le> b \<Longrightarrow> pow2 a \<le> pow2 b"
  by (simp add: pow2_powi power_int_increasing)

lemma pow2_nat: "pow2 (int n) = 2 ^ n"
  by (simp add: pow2_def)

lemma floorlog_bounds_rat:
  assumes "0 < n"
  shows "pow2 (int (floorlog 2 n) - 1) \<le> of_nat n" and "of_nat n < pow2 (int (floorlog 2 n))"
proof -
  have b: "2 ^ (floorlog 2 n - 1) \<le> n \<and> n < 2 ^ floorlog 2 n"
    using floorlog_bounds [of n 2] assms by simp
  have g: "0 < floorlog 2 n" using assms by (simp add: floorlog_def)
  then have "pow2 (int (floorlog 2 n) - 1) = 2 ^ (floorlog 2 n - 1)"
    using pow2_nat [of "floorlog 2 n - 1"] by (simp add: of_nat_diff)
  then show "pow2 (int (floorlog 2 n) - 1) \<le> of_nat n"
    using b by (metis of_nat_le_iff of_nat_numeral of_nat_power)
  show "of_nat n < pow2 (int (floorlog 2 n))"
    using b by (metis pow2_nat of_nat_less_iff of_nat_numeral of_nat_power)
qed

lemma log2_floor_bounds:
  assumes "0 < x"
  shows "pow2 (log2_floor x) \<le> x" and "x < pow2 (log2_floor x + 1)"
proof -
  obtain n d where q: "quotient_of x = (n, d)" by (cases "quotient_of x")
  have d: "0 < d" using q by (rule quotient_of_denom_pos)
  have x: "x = of_int n / of_int d" using q by (rule quotient_of_div)
  have n: "0 < n" using assms d x by (simp add: zero_less_divide_iff)
  let ?a = "int (floorlog 2 (nat n))" let ?b = "int (floorlog 2 (nat d))"
  have N: "pow2 (?a - 1) \<le> of_int n" "of_int n < pow2 ?a"
    using floorlog_bounds_rat [of "nat n"] n by simp_all
  have D: "pow2 (?b - 1) \<le> of_int d" "of_int d < pow2 ?b"
    using floorlog_bounds_rat [of "nat d"] d by simp_all
  have "pow2 (?a - 1) / pow2 ?b \<le> of_int n / of_int d"
    using N D d n by (intro frac_le) (simp_all add: less_imp_le)
  then have lo: "pow2 (?a - ?b - 1) \<le> x"
    using x by (simp add: pow2_diff [symmetric] algebra_simps)
  have "of_int n / of_int d < pow2 ?a / pow2 (?b - 1)"
    using N D n by (intro frac_less) simp_all
  then have hi: "x < pow2 (?a - ?b + 1)"
    using x by (simp add: pow2_diff [symmetric] algebra_simps)
  show "pow2 (log2_floor x) \<le> x" "x < pow2 (log2_floor x + 1)"
    using lo hi by (auto simp: log2_floor_def q Let_def)
qed

lemma log2_floor_mono: "0 < x \<Longrightarrow> x \<le> y \<Longrightarrow> log2_floor x \<le> log2_floor y"
proof (rule ccontr)
  assume x: "0 < x" and xy: "x \<le> y" and "\<not> log2_floor x \<le> log2_floor y"
  then have "pow2 (log2_floor y + 1) \<le> pow2 (log2_floor x)" by (intro pow2_mono) simp
  then have "y < x"
    using log2_floor_bounds [of x] log2_floor_bounds [of y] x xy by linarith
  with xy show False by simp
qed

lemma ulp_exp_mono: "0 < x \<Longrightarrow> x \<le> y \<Longrightarrow> ulp_exp x \<le> ulp_exp y"
  using log2_floor_mono [of x y] by (simp add: ulp_exp_def)

text \<open>Rounding stays below a power of two that is a multiple of the unit.\<close>

lemma fl_pos_le_pow2:
  assumes "0 < x" and "x \<le> pow2 k" and "ulp_exp x \<le> k"
  shows "fl_pos x \<le> pow2 k"
proof -
  let ?e = "ulp_exp x"
  have "x / pow2 ?e \<le> pow2 (k - ?e)"
    using assms(2) by (simp add: pow2_diff divide_right_mono less_imp_le)
  moreover have "pow2 (k - ?e) = of_int (2 ^ nat (k - ?e))"
    using assms(3) by (simp add: pow2_def)
  ultimately have "round_half_even (x / pow2 ?e) \<le> 2 ^ nat (k - ?e)"
    by (metis round_half_even_mono round_half_even_int)
  then have "(of_int (round_half_even (x / pow2 ?e)) :: rat) \<le> pow2 (k - ?e)"
    using \<open>pow2 (k - ?e) = of_int (2 ^ nat (k - ?e))\<close> by (metis of_int_le_iff)
  then have "fl_pos x \<le> pow2 (k - ?e) * pow2 ?e"
    unfolding fl_pos_def by (intro mult_right_mono less_imp_le [OF pow2_pos])
  then show ?thesis by (simp add: pow2_diff)
qed

lemma fl_pos_ge_pow2:
  assumes "0 < x" and "pow2 k \<le> x" and "ulp_exp x \<le> k"
  shows "pow2 k \<le> fl_pos x"
proof -
  let ?e = "ulp_exp x"
  have "pow2 (k - ?e) \<le> x / pow2 ?e"
    using assms(2) by (simp add: pow2_diff divide_right_mono less_imp_le)
  moreover have p: "pow2 (k - ?e) = of_int (2 ^ nat (k - ?e))"
    using assms(3) by (simp add: pow2_def)
  ultimately have "2 ^ nat (k - ?e) \<le> round_half_even (x / pow2 ?e)"
    by (metis round_half_even_mono round_half_even_int)
  then have "pow2 (k - ?e) \<le> (of_int (round_half_even (x / pow2 ?e)) :: rat)"
    using p by (metis of_int_le_iff)
  then have "pow2 (k - ?e) * pow2 ?e \<le> fl_pos x"
    unfolding fl_pos_def by (intro mult_right_mono less_imp_le [OF pow2_pos])
  then show ?thesis by (simp add: pow2_diff)
qed

lemma fl_pos_mono:
  assumes x: "0 < x" and xy: "x \<le> y"
  shows "fl_pos x \<le> fl_pos y"
proof (cases "ulp_exp x = ulp_exp y")
  case True
  have "x / pow2 (ulp_exp y) \<le> y / pow2 (ulp_exp y)"
    using xy by (simp add: divide_right_mono less_imp_le)
  then show ?thesis
    unfolding fl_pos_def True
    by (intro mult_right_mono) (simp_all add: round_half_even_mono less_imp_le)
next
  case False
  then have less: "ulp_exp x < ulp_exp y" using ulp_exp_mono [OF x xy] by simp
  let ?k = "log2_floor y"
  have y: "0 < y" using x xy by simp
  have ek: "ulp_exp y = ?k - 52" using less by (auto simp: ulp_exp_def)
  have "log2_floor x + 1 \<le> ?k" using less ek by (auto simp: ulp_exp_def)
  then have "x < pow2 ?k"
    using log2_floor_bounds(2) [OF x] pow2_mono [of "log2_floor x + 1" ?k] by linarith
  then have "fl_pos x \<le> pow2 ?k"
    using x less ek by (intro fl_pos_le_pow2) simp_all
  also have "\<dots> \<le> fl_pos y"
    using y ek log2_floor_bounds(1) [OF y] by (intro fl_pos_ge_pow2) simp_all
  finally show ?thesis .
qed

lemma fl_pos_nonneg: "0 < x \<Longrightarrow> 0 \<le> fl_pos x"
proof -
  assume "0 < x"
  then have "(0::rat) \<le> x / pow2 (ulp_exp x)" by (simp add: less_imp_le)
  then have "0 \<le> round_half_even (x / pow2 (ulp_exp x))"
    using round_half_even_mono [of 0 "x / pow2 (ulp_exp x)"] round_half_even_int [of 0] by simp
  then show ?thesis by (simp add: fl_pos_def less_imp_le)
qed

lemma fl_mono: "x \<le> y \<Longrightarrow> fl x \<le> fl y"
  using fl_pos_mono [of x y] fl_pos_mono [of "- y" "- x"] fl_pos_nonneg [of y] fl_pos_nonneg [of "- x"]
  by (auto simp: fl_def)

lemma total_seconds_mono: "a \<le> b \<Longrightarrow> total_seconds a \<le> total_seconds b"
  by (simp add: total_seconds_def int_truediv_def fl_mono divide_right_mono)

lemma total_seconds_zero [simp]: "total_seconds 0 = 0"
  by (simp add: total_seconds_def int_truediv_def fl_def)

end
