(* ===== verification/TradePlan.thy ===== *)
theory TradePlan
  imports PyFloat
begin

text \<open>
  \<open>kernel/tradeplan.py\<close>: the broker-neutral, permanently long-only trade intent.  A raw plan is
  a value of the record; \<open>validate_plan\<close> is the pydantic constructor (field constraints, the
  normaliser of the symbol, the evidence check and the model validator) and returns the plan that
  the rest of the system holds.
\<close>

record TradePlan =
  tp_plan_id :: string
  tp_trace_id :: string
  tp_strategy_version :: string
  tp_symbol :: string
  tp_trade_date :: date
  tp_decision_asof_utc :: datetime
  tp_created_at_utc :: datetime
  tp_side :: string
  tp_entry_order_type :: string
  tp_time_in_force :: string
  tp_extended_hours :: bool
  tp_quantity :: int
  tp_reference_price :: dec
  tp_entry_limit_price :: "dec option"
  tp_take_profit_price :: dec
  tp_stop_loss_price :: dec
  tp_time_stop_utc :: datetime
  tp_source_snapshot_ids :: "string list"
  tp_provenance :: string

text \<open>The two patterns: \<open>^[A-Za-z0-9._:-]+$\<close> and \<open>^[A-Z][A-Z0-9.-]*$\<close>.\<close>

definition plan_id_char :: "char \<Rightarrow> bool" where
  "plan_id_char c \<longleftrightarrow> is_upper c \<or> is_lower c \<or> is_digit c \<or> c \<in> set ''._:-''"

definition symbol_char :: "char \<Rightarrow> bool" where
  "symbol_char c \<longleftrightarrow> is_upper c \<or> is_digit c \<or> c = CHR ''.'' \<or> c = CHR ''-''"

definition symbol_pattern :: "string \<Rightarrow> bool" where
  "symbol_pattern s \<longleftrightarrow> (case s of [] \<Rightarrow> False | c # cs \<Rightarrow> is_upper c \<and> list_all symbol_char cs)"

definition norm_symbol :: "string \<Rightarrow> string" where
  "norm_symbol s = py_upper (py_strip s)"

text \<open>\<open>unique_evidence\<close>: the cleaned snapshot identifiers.\<close>

definition unique_evidence :: "string list \<Rightarrow> py_error + string list" where
  "unique_evidence value = (let cleaned = map py_strip value in
     if \<exists>item \<in> set cleaned. item = [] then Inl (ValidationError ''source snapshot IDs cannot be empty'')
     else if \<not> distinct cleaned then Inl (ValidationError ''source snapshot IDs must be unique'')
     else Inr cleaned)"

definition plan_field_errors :: "TradePlan \<Rightarrow> string option" where
  \<comment> \<open>the declared field constraints, on a plan whose symbol is normalised\<close>
  "plan_field_errors p =
     (if tp_plan_id p = [] \<or> 100 < length (tp_plan_id p) \<or> \<not> list_all plan_id_char (tp_plan_id p)
        then Some ''plan_id''
      else if tp_trace_id p = [] \<or> 128 < length (tp_trace_id p) then Some ''trace_id''
      else if tp_strategy_version p = [] \<or> 64 < length (tp_strategy_version p)
        then Some ''strategy_version''
      else if 16 < length (tp_symbol p) \<or> \<not> symbol_pattern (tp_symbol p) then Some ''symbol''
      else if tp_side p \<noteq> ''buy'' then Some ''side''
      else if tp_entry_order_type p \<noteq> ''market'' \<and> tp_entry_order_type p \<noteq> ''limit''
        then Some ''entry_order_type''
      else if tp_time_in_force p \<noteq> ''day'' then Some ''time_in_force''
      else if tp_extended_hours p then Some ''extended_hours''
      else if tp_quantity p \<le> 0 then Some ''quantity''
      else if \<not> dec_positive (tp_reference_price p) then Some ''reference_price''
      else if (case tp_entry_limit_price p of None \<Rightarrow> False | Some d \<Rightarrow> \<not> dec_positive d)
        then Some ''entry_limit_price''
      else if \<not> dec_positive (tp_take_profit_price p) then Some ''take_profit_price''
      else if \<not> dec_positive (tp_stop_loss_price p) then Some ''stop_loss_price''
      else if \<not> (is_utc (tp_decision_asof_utc p) \<and> is_utc (tp_created_at_utc p)
                 \<and> is_utc (tp_time_stop_utc p))
        then Some ''TradePlan timestamps must be timezone-aware UTC''
      else if tp_source_snapshot_ids p = [] then Some ''source_snapshot_ids''
      else if tp_provenance p = [] then Some ''provenance''
      else None)"

definition validate_intent :: "TradePlan \<Rightarrow> py_error + TradePlan" where
  "validate_intent p =
     (if instant (tp_created_at_utc p) < instant (tp_decision_asof_utc p)
        then Inl (ValidationError ''decision_asof_utc cannot be after plan creation'')
      else if instant (tp_time_stop_utc p) \<le> instant (tp_created_at_utc p)
        then Inl (ValidationError ''time stop must be after plan creation'')
      else if \<not> (dec_lt (tp_stop_loss_price p) (tp_reference_price p) \<and>
                 dec_lt (tp_reference_price p) (tp_take_profit_price p))
        then Inl (ValidationError ''long bracket must satisfy stop < reference < take profit'')
      else if tp_entry_order_type p = ''limit'' \<and> tp_entry_limit_price p = None
        then Inl (ValidationError ''limit entry requires entry_limit_price'')
      else if tp_entry_order_type p = ''market'' \<and> tp_entry_limit_price p \<noteq> None
        then Inl (ValidationError ''market entry cannot include entry_limit_price'')
      else Inr p)"

definition validate_plan :: "TradePlan \<Rightarrow> py_error + TradePlan" where
  "validate_plan raw = (let p = raw\<lparr>tp_symbol := norm_symbol (tp_symbol raw)\<rparr> in
     case plan_field_errors p of
       Some field \<Rightarrow> Inl (ValidationError field)
     | None \<Rightarrow> (case unique_evidence (tp_source_snapshot_ids p) of
         Inl e \<Rightarrow> Inl e
       | Inr ids \<Rightarrow> validate_intent (p\<lparr>tp_source_snapshot_ids := ids\<rparr>)))"

text \<open>\<open>reference_notional\<close> and \<open>client_order_id\<close>.\<close>

definition reference_notional :: "TradePlan \<Rightarrow> dec" where
  "reference_notional p = dec_mul (tp_reference_price p) (dec_of_int (tp_quantity p))"

definition plan_client_order_id :: "TradePlan \<Rightarrow> string" where
  "plan_client_order_id p = ''tsv2-'' @ tp_plan_id p @ ''-entry''"

section \<open>What a plan guarantees\<close>

text \<open>A plan as the constructor returns it.\<close>

definition plan_ok :: "TradePlan \<Rightarrow> bool" where
  "plan_ok p \<longleftrightarrow> plan_field_errors p = None \<and> validate_intent p = Inr p
     \<and> distinct (tp_source_snapshot_ids p) \<and> [] \<notin> set (tp_source_snapshot_ids p)
     \<and> norm_symbol (tp_symbol p) = tp_symbol p"

lemma plan_client_order_id_inject [simp]:
  "plan_client_order_id p = plan_client_order_id q \<longleftrightarrow> tp_plan_id p = tp_plan_id q"
  by (simp add: plan_client_order_id_def)

lemma validate_intent_Inr: "validate_intent p = Inr q \<Longrightarrow> q = p"
  by (auto simp: validate_intent_def split: if_splits)

lemma symbol_char_plain:
  assumes "symbol_char c"
  shows "\<not> is_py_space c" and "upper_char c = c"
  using assms
  by (auto simp: symbol_char_def is_upper_def is_digit_def is_py_space_def upper_char_def
      is_lower_def Let_def)

lemma is_upper_symbol_char: "is_upper c \<Longrightarrow> symbol_char c"
  by (simp add: symbol_char_def)

lemma symbol_pattern_all: "symbol_pattern s \<Longrightarrow> list_all symbol_char s"
  by (auto simp: symbol_pattern_def is_upper_symbol_char split: list.splits)

lemma norm_symbol_pattern: "symbol_pattern s \<Longrightarrow> norm_symbol s = s"
proof -
  assume "symbol_pattern s"
  then have all: "list_all symbol_char s" by (rule symbol_pattern_all)
  then have "\<And>c. c \<in> set s \<Longrightarrow> \<not> is_py_space c"
    by (simp add: list_all_iff symbol_char_plain(1))
  then have "dropWhile is_py_space s = s" "dropWhile is_py_space (rev s) = rev s"
    by (auto intro: dropWhile_id)
  moreover from all have "map upper_char s = s"
    by (simp add: list_all_iff map_idI symbol_char_plain(2))
  ultimately show ?thesis by (simp add: norm_symbol_def py_strip_def py_upper_def)
qed

lemma plan_field_errors_None:
  "plan_field_errors p = None \<longleftrightarrow>
     tp_plan_id p \<noteq> [] \<and> length (tp_plan_id p) \<le> 100 \<and> list_all plan_id_char (tp_plan_id p) \<and>
     tp_trace_id p \<noteq> [] \<and> length (tp_trace_id p) \<le> 128 \<and>
     tp_strategy_version p \<noteq> [] \<and> length (tp_strategy_version p) \<le> 64 \<and>
     length (tp_symbol p) \<le> 16 \<and> symbol_pattern (tp_symbol p) \<and> tp_side p = ''buy'' \<and>
     (tp_entry_order_type p = ''market'' \<or> tp_entry_order_type p = ''limit'') \<and>
     tp_time_in_force p = ''day'' \<and> \<not> tp_extended_hours p \<and> 0 < tp_quantity p \<and>
     dec_positive (tp_reference_price p) \<and>
     (case tp_entry_limit_price p of None \<Rightarrow> True | Some d \<Rightarrow> dec_positive d) \<and>
     dec_positive (tp_take_profit_price p) \<and> dec_positive (tp_stop_loss_price p) \<and>
     is_utc (tp_decision_asof_utc p) \<and> is_utc (tp_created_at_utc p) \<and>
     is_utc (tp_time_stop_utc p) \<and> tp_source_snapshot_ids p \<noteq> [] \<and> tp_provenance p \<noteq> []"
  unfolding plan_field_errors_def
  by (simp only: early_exit simp_thms not_less not_le de_Morgan_disj de_Morgan_conj not_not)
    (auto split: option.split)

lemma validate_plan_ok: "validate_plan raw = Inr p \<Longrightarrow> plan_ok p"
proof -
  assume v: "validate_plan raw = Inr p"
  let ?q = "raw\<lparr>tp_symbol := norm_symbol (tp_symbol raw)\<rparr>"
  obtain ids where fe: "plan_field_errors ?q = None"
    and ue: "unique_evidence (tp_source_snapshot_ids ?q) = Inr ids"
    and vi: "validate_intent (?q\<lparr>tp_source_snapshot_ids := ids\<rparr>) = Inr p"
    using v by (auto simp: validate_plan_def Let_def split: option.splits sum.splits)
  have p: "p = ?q\<lparr>tp_source_snapshot_ids := ids\<rparr>" using vi by (rule validate_intent_Inr)
  have ids: "distinct ids" "[] \<notin> set ids" "ids = map py_strip (tp_source_snapshot_ids ?q)"
    using ue by (auto simp: unique_evidence_def Let_def split: if_splits)
  have "plan_field_errors p = None"
    using fe ids(3) unfolding p plan_field_errors_None by simp
  moreover from this have "norm_symbol (tp_symbol p) = tp_symbol p"
    by (simp add: plan_field_errors_None norm_symbol_pattern)
  ultimately show ?thesis using vi ids p by (simp add: plan_ok_def)
qed

lemma plan_ok_facts:
  assumes "plan_ok p"
  shows "tp_plan_id p \<noteq> []" and "0 < tp_quantity p" and "symbol_pattern (tp_symbol p)"
    and "tp_symbol p \<noteq> []" and "is_utc (tp_created_at_utc p)" and "is_utc (tp_time_stop_utc p)"
    and "tp_side p = ''buy''" and "\<not> tp_extended_hours p"
    and "dec_positive (tp_stop_loss_price p)"
    and "py_upper (py_strip (tp_symbol p)) = tp_symbol p"
proof -
  note f = assms [unfolded plan_ok_def plan_field_errors_None norm_symbol_def]
  show "tp_plan_id p \<noteq> []" "0 < tp_quantity p" "symbol_pattern (tp_symbol p)"
    "is_utc (tp_created_at_utc p)" "is_utc (tp_time_stop_utc p)" "tp_side p = ''buy''"
    "\<not> tp_extended_hours p" "dec_positive (tp_stop_loss_price p)"
    "py_upper (py_strip (tp_symbol p)) = tp_symbol p"
    using f by simp_all
  then show "tp_symbol p \<noteq> []" by (auto simp: symbol_pattern_def)
qed

lemma validate_intent_facts:
  assumes "validate_intent p = Inr p"
  shows "dec_lt (tp_stop_loss_price p) (tp_reference_price p)"
    and "dec_lt (tp_reference_price p) (tp_take_profit_price p)"
    and "instant (tp_created_at_utc p) < instant (tp_time_stop_utc p)"
    and "instant (tp_decision_asof_utc p) \<le> instant (tp_created_at_utc p)"
    and "tp_entry_order_type p = ''limit'' \<Longrightarrow> tp_entry_limit_price p \<noteq> None"
    and "tp_entry_order_type p = ''market'' \<Longrightarrow> tp_entry_limit_price p = None"
  using assms by (simp_all add: validate_intent_def not_less not_le split: if_splits)

text \<open>Validation is idempotent: what it returned, it accepts unchanged.\<close>

lemma unique_evidence_idem:
  "distinct ids \<Longrightarrow> [] \<notin> set ids \<Longrightarrow> map py_strip ids = ids \<Longrightarrow> unique_evidence ids = Inr ids"
  by (auto simp: unique_evidence_def Let_def)

section \<open>Properties\<close>

text \<open>C18: what the validation of a raw plan returns is a long bracket (stop below reference below take
  profit, a buy inside regular hours, of positive size) whose clock runs forward in UTC, and
  validating it once more changes nothing: the plan survives its JSON round trip.\<close>

theorem validated_plan_is_long_bracket:
  assumes "validate_plan raw = Inr p"
  shows "tp_side p = ''buy'' \<and> 0 < tp_quantity p \<and> \<not> tp_extended_hours p \<and>
     dec_lt (tp_stop_loss_price p) (tp_reference_price p) \<and>
     dec_lt (tp_reference_price p) (tp_take_profit_price p) \<and>
     is_utc (tp_created_at_utc p) \<and> instant (tp_decision_asof_utc p) \<le> instant (tp_created_at_utc p) \<and>
     instant (tp_created_at_utc p) < instant (tp_time_stop_utc p) \<and> validate_plan p = Inr p"
proof -
  have ok: "plan_ok p" using assms by (rule validate_plan_ok)
  have vi: "validate_intent p = Inr p" using ok by (simp add: plan_ok_def)
  have ids: "map py_strip (tp_source_snapshot_ids p) = tp_source_snapshot_ids p"
  proof -
    have "tp_source_snapshot_ids p = map py_strip (tp_source_snapshot_ids raw)"
      using assms by (auto simp: validate_plan_def Let_def unique_evidence_def
          split: option.splits sum.splits if_splits dest!: validate_intent_Inr)
    then show ?thesis by (simp add: comp_def)
  qed
  have sym: "p\<lparr>tp_symbol := norm_symbol (tp_symbol p)\<rparr> = p"
    using ok by (simp add: plan_ok_def)
  have "unique_evidence (tp_source_snapshot_ids p) = Inr (tp_source_snapshot_ids p)"
    using ok ids by (intro unique_evidence_idem) (simp_all add: plan_ok_def)
  then have "validate_plan p = Inr p"
    using ok vi by (simp only: validate_plan_def sym Let_def plan_ok_def option.case sum.case) simp
  with plan_ok_facts [OF ok] validate_intent_facts [OF vi] show ?thesis by simp
qed

section \<open>A concrete plan\<close>

definition sample_plan :: TradePlan where
  "sample_plan = \<lparr>tp_plan_id = ''p1'', tp_trace_id = ''t1'', tp_strategy_version = ''v1'',
     tp_symbol = ''AAPL'', tp_trade_date = Date 2026 1 5, tp_decision_asof_utc = utc 0,
     tp_created_at_utc = utc 0, tp_side = ''buy'', tp_entry_order_type = ''limit'',
     tp_time_in_force = ''day'', tp_extended_hours = False, tp_quantity = 10,
     tp_reference_price = Dec False 100 0, tp_entry_limit_price = Some (Dec False 10050 (- 2)),
     tp_take_profit_price = Dec False 106 0, tp_stop_loss_price = Dec False 98 0,
     tp_time_stop_utc = utc 1000, tp_source_snapshot_ids = [''s1''], tp_provenance = ''test''\<rparr>"

lemma sample_plan_valid: "validate_plan sample_plan = Inr sample_plan"
  by code_simp

lemma validated_plan_is_long_bracket_witness:
  "dec_lt (tp_stop_loss_price sample_plan) (tp_reference_price sample_plan)"
  using validated_plan_is_long_bracket [OF sample_plan_valid] by blast

end
