(* ===== verification/PyJson.thy ===== *)
theory PyJson
  imports PyText
begin

text \<open>
  JSON values as \<open>json.loads\<close> returns them (numbers are integers), lookup in a decoded object, and
  Python's truth value and \<open>str()\<close> of such a value.
\<close>

datatype json = JNull | JBool bool | JInt int | JStr string | JList "json list" | JObj "(string \<times> json) list"

type_synonym dict = "(string \<times> json) list"

text \<open>\<open>payload.get(key)\<close>: JNull for a missing key; of repeated keys the JSON decoder keeps the last.\<close>

definition json_get :: "string \<Rightarrow> dict \<Rightarrow> json" where
  "json_get k kvs = (case map_of (rev kvs) k of None \<Rightarrow> JNull | Some v \<Rightarrow> v)"

fun json_truthy :: "json \<Rightarrow> bool" where
  "json_truthy JNull = False"
| "json_truthy (JBool b) = b"
| "json_truthy (JInt n) = (n \<noteq> 0)"
| "json_truthy (JStr s) = (s \<noteq> [])"
| "json_truthy (JList xs) = (xs \<noteq> [])"
| "json_truthy (JObj kvs) = (kvs \<noteq> [])"

text \<open>\<open>str(value or "")\<close>; \<open>repr\<close> stands for the text of a list or an object.\<close>

definition text_or_empty :: "(json \<Rightarrow> string) \<Rightarrow> json \<Rightarrow> string" where
  "text_or_empty repr v = (if \<not> json_truthy v then [] else case v of
     JStr s \<Rightarrow> s | JInt n \<Rightarrow> show_int n | JBool b \<Rightarrow> show_bool b | _ \<Rightarrow> repr v)"

text \<open>\<open>str(value)\<close>, and a lookup that tells a missing key from a null.\<close>

fun py_str :: "(json \<Rightarrow> string) \<Rightarrow> json \<Rightarrow> string" where
  "py_str repr JNull = ''None''"
| "py_str repr (JBool b) = show_bool b"
| "py_str repr (JInt n) = show_int n"
| "py_str repr (JStr s) = s"
| "py_str repr v = repr v"

definition json_find :: "string \<Rightarrow> dict \<Rightarrow> json option" where
  "json_find k kvs = map_of (rev kvs) k"

end
