(* ===== verification/AlpacaPaper.thy ===== *)
theory AlpacaPaper
  imports TradePlan PyJson
begin

text \<open>
  \<open>execution/alpaca_paper.py\<close>: the broker's order and position snapshots, the order requests with
  their validation and wire payloads, the protected entry built from a fresh NBBO quote, and the
  direct Alpaca adapter over an HTTP transport.  The transport and the decoding of a response body
  (httpx, pydantic) are not part of the repository and are parameters; \<open>broker_port\<close> is the
  interface (the Python Protocols) that the execution components use.
\<close>

section \<open>Snapshots\<close>

datatype BrokerOrder = BrokerOrder
  (bo_id: string) (bo_client_order_id: string) (bo_symbol: string) (bo_qty: int)
  (bo_filled_qty: string) (bo_status: string) (bo_filled_avg_price: "string option")
  (bo_side: "string option") (bo_order_type: "string option") (bo_legs: "BrokerOrder list")

record PaperAccount =
  pat_id :: "string option"
  pat_currency :: "string option"
  pat_status :: string
  pat_account_blocked :: bool
  pat_trading_blocked :: bool
  pat_equity :: string
  pat_last_equity :: string
  pat_buying_power :: string

record PaperPosition =
  pp_symbol :: string
  pp_qty :: string
  pp_side :: string

section \<open>Requests\<close>

definition request_identity_error :: "string \<Rightarrow> string \<Rightarrow> int \<Rightarrow> string option" where
  \<comment> \<open>the constraints every request puts on \<open>client_order_id\<close>, \<open>symbol\<close> and \<open>qty\<close>\<close>
  "request_identity_error cid symb qty =
     (if cid = [] \<or> 128 < length cid then Some ''client_order_id''
      else if 16 < length symb \<or> \<not> symbol_pattern symb then Some ''symbol''
      else if qty \<le> 0 then Some ''qty'' else None)"

record PaperOrderRequest =
  por_client_order_id :: string
  por_symbol :: string
  por_qty :: int
  por_order_type :: string
  por_limit_price :: "string option"
  por_take_profit_price :: "string option"
  por_stop_loss_price :: "string option"

definition validate_order_request :: "PaperOrderRequest \<Rightarrow> py_error + PaperOrderRequest" where
  "validate_order_request r =
     (case request_identity_error (por_client_order_id r) (por_symbol r) (por_qty r) of
        Some field \<Rightarrow> Inl (ValidationError field)
      | None \<Rightarrow>
          if por_order_type r \<noteq> ''market'' \<and> por_order_type r \<noteq> ''limit''
            then Inl (ValidationError ''order_type'')
          else if por_take_profit_price r = Some [] then Inl (ValidationError ''take_profit_price'')
          else if por_stop_loss_price r = Some [] then Inl (ValidationError ''stop_loss_price'')
          else if por_take_profit_price r \<noteq> None \<and> por_stop_loss_price r = None
            then Inl (ValidationError ''take-profit entry requires stop_loss_price'')
          else Inr r)"

definition wire_identity :: "string \<Rightarrow> string \<Rightarrow> int \<Rightarrow> string \<Rightarrow> string \<Rightarrow> bool \<Rightarrow> (string \<times> json) list" where
  "wire_identity cid symb qty side type extended =
     [(''client_order_id'', JStr cid), (''symbol'', JStr symb), (''qty'', JStr (show_int qty)),
      (''side'', JStr side), (''type'', JStr type), (''time_in_force'', JStr ''day''),
      (''extended_hours'', JBool extended)]"

definition order_payload :: "PaperOrderRequest \<Rightarrow> py_error + json" where
  "order_payload r = (let
     base = wire_identity (por_client_order_id r) (por_symbol r) (por_qty r) ''buy''
              (por_order_type r) False;
     legs = (case por_stop_loss_price r of None \<Rightarrow> []
       | Some sl \<Rightarrow>
          [(''order_class'', JStr (if por_take_profit_price r \<noteq> None then ''bracket'' else ''oto'')),
           (''stop_loss'', JObj [(''stop_price'', JStr sl)])] @
          (case por_take_profit_price r of None \<Rightarrow> []
            | Some tp \<Rightarrow> [(''take_profit'', JObj [(''limit_price'', JStr tp)])]))
     in if por_order_type r = ''limit'' then
          (case por_limit_price r of
             None \<Rightarrow> Inl (ValueError ''limit order requires limit_price'')
           | Some lp \<Rightarrow> Inr (JObj (base @ legs @ [(''limit_price'', JStr lp)])))
        else if por_limit_price r \<noteq> None
          then Inl (ValueError ''market order cannot include limit_price'')
        else Inr (JObj (base @ legs)))"

record ProtectedPaperEntryRequest =
  ppe_client_order_id :: string
  ppe_symbol :: string
  ppe_qty :: int
  ppe_limit_price :: string
  ppe_stop_loss_price :: string
  ppe_take_profit_price :: string

definition validate_protected_entry ::
    "ProtectedPaperEntryRequest \<Rightarrow> py_error + ProtectedPaperEntryRequest" where
  "validate_protected_entry r =
     (case request_identity_error (ppe_client_order_id r) (ppe_symbol r) (ppe_qty r) of
        Some field \<Rightarrow> Inl (ValidationError field)
      | None \<Rightarrow> if ppe_limit_price r = [] \<or> ppe_stop_loss_price r = [] \<or> ppe_take_profit_price r = []
                then Inl (ValidationError ''price'') else Inr r)"

definition protected_entry_payload :: "ProtectedPaperEntryRequest \<Rightarrow> json" where
  "protected_entry_payload r = JObj
     (wire_identity (ppe_client_order_id r) (ppe_symbol r) (ppe_qty r) ''buy'' ''limit'' False @
      [(''limit_price'', JStr (ppe_limit_price r)), (''order_class'', JStr ''bracket''),
       (''stop_loss'', JObj [(''stop_price'', JStr (ppe_stop_loss_price r))]),
       (''take_profit'', JObj [(''limit_price'', JStr (ppe_take_profit_price r))])])"

record PaperCloseRequest =
  pcr_client_order_id :: string
  pcr_symbol :: string
  pcr_qty :: int

definition validate_close_request :: "PaperCloseRequest \<Rightarrow> py_error + PaperCloseRequest" where
  "validate_close_request r =
     (case request_identity_error (pcr_client_order_id r) (pcr_symbol r) (pcr_qty r) of
        Some field \<Rightarrow> Inl (ValidationError field) | None \<Rightarrow> Inr r)"

definition close_payload :: "PaperCloseRequest \<Rightarrow> json" where
  "close_payload r = JObj
     (wire_identity (pcr_client_order_id r) (pcr_symbol r) (pcr_qty r) ''sell'' ''market'' False)"

record PaperStopRequest =
  psr_client_order_id :: string
  psr_symbol :: string
  psr_qty :: int
  psr_stop_price :: string

definition validate_stop_request :: "PaperStopRequest \<Rightarrow> py_error + PaperStopRequest" where
  "validate_stop_request r =
     (case request_identity_error (psr_client_order_id r) (psr_symbol r) (psr_qty r) of
        Some field \<Rightarrow> Inl (ValidationError field)
      | None \<Rightarrow> if psr_stop_price r = [] then Inl (ValidationError ''stop_price'') else Inr r)"

definition stop_payload :: "PaperStopRequest \<Rightarrow> json" where
  "stop_payload r = JObj
     (wire_identity (psr_client_order_id r) (psr_symbol r) (psr_qty r) ''sell'' ''stop'' False @
      [(''stop_price'', JStr (psr_stop_price r))])"

record PaperExtendedLimitRequest =
  pel_client_order_id :: string
  pel_symbol :: string
  pel_qty :: int
  pel_side :: string
  pel_limit_price :: string

definition validate_extended_limit ::
    "PaperExtendedLimitRequest \<Rightarrow> py_error + PaperExtendedLimitRequest" where
  "validate_extended_limit r =
     (case request_identity_error (pel_client_order_id r) (pel_symbol r) (pel_qty r) of
        Some field \<Rightarrow> Inl (ValidationError field)
      | None \<Rightarrow> if pel_side r \<noteq> ''buy'' \<and> pel_side r \<noteq> ''sell'' then Inl (ValidationError ''side'')
                else if pel_limit_price r = [] then Inl (ValidationError ''limit_price'') else Inr r)"

definition extended_limit_payload :: "PaperExtendedLimitRequest \<Rightarrow> json" where
  "extended_limit_payload r = JObj
     (wire_identity (pel_client_order_id r) (pel_symbol r) (pel_qty r) (pel_side r) ''limit'' True @
      [(''limit_price'', JStr (pel_limit_price r))])"

section \<open>The protected entry\<close>

record FreshNbboQuote =
  fq_symbol :: string
  fq_bid :: dec
  fq_ask :: dec
  fq_asof_utc :: datetime
  fq_feed :: string

definition validate_quote :: "FreshNbboQuote \<Rightarrow> py_error + FreshNbboQuote" where
  "validate_quote q =
     (if fq_symbol q = [] \<or> fq_symbol q \<noteq> norm_symbol (fq_symbol q)
        then Inl (ValueError ''NBBO symbol must be normalized uppercase'')
      else if dec_val (fq_bid q) \<le> 0 \<or> dec_lt (fq_ask q) (fq_bid q)
        then Inl (ValueError ''NBBO prices are invalid'')
      else if \<not> is_utc (fq_asof_utc q) then Inl (ValueError ''NBBO timestamp must be UTC'')
      else Inr q)"

text \<open>Division of decimals, rounded half-even to the context's precision.\<close>

fun strip_zeros :: "nat \<Rightarrow> nat \<Rightarrow> int \<Rightarrow> nat \<times> int" where
  \<comment> \<open>at most \<open>k\<close> trailing zeros of an exact quotient move into its exponent\<close>
  "strip_zeros 0 c e = (c, e)"
| "strip_zeros (Suc k) c e = (if c mod 10 = 0 then strip_zeros k (c div 10) (e + 1) else (c, e))"

definition div_round :: "bool \<Rightarrow> int \<Rightarrow> int \<Rightarrow> nat \<Rightarrow> nat \<Rightarrow> dec" where
  \<comment> \<open>quotient and remainder of the scaled coefficients; a remainder makes the last digit sticky\<close>
  "div_round neg ideal e q r = dec_fix
     (if r \<noteq> 0 then Dec neg (if q mod 5 = 0 then q + 1 else q) e
      else case strip_zeros (nat (ideal - e)) q e of (c, e') \<Rightarrow> Dec neg c e')"

definition div_scaled :: "bool \<Rightarrow> int \<Rightarrow> int \<Rightarrow> nat \<Rightarrow> nat \<Rightarrow> dec" where
  "div_scaled neg ideal e n d = div_round neg ideal e (n div d) (n mod d)"

definition div_shift :: "dec \<Rightarrow> dec \<Rightarrow> int" where
  "div_shift a b = int (num_digits (dec_coeff b)) - int (num_digits (dec_coeff a))
     + int context_prec + 1"

definition div_by_shift :: "dec \<Rightarrow> dec \<Rightarrow> int \<Rightarrow> dec" where
  "div_by_shift a b shift =
     div_scaled (dec_neg a \<noteq> dec_neg b) (dec_exp a - dec_exp b) (dec_exp a - dec_exp b - shift)
       (if 0 \<le> shift then dec_coeff a * 10 ^ nat shift else dec_coeff a)
       (if 0 \<le> shift then dec_coeff b else dec_coeff b * 10 ^ nat (- shift))"

definition dec_div :: "dec \<Rightarrow> dec \<Rightarrow> py_error + dec" where
  "dec_div a b =
     (if dec_coeff b = 0 then Inl InvalidOperation
      else if dec_coeff a = 0 then Inr (Dec (dec_neg a \<noteq> dec_neg b) 0 (dec_exp a - dec_exp b))
      else Inr (div_by_shift a b (div_shift a b)))"

definition price_text :: "rounding \<Rightarrow> dec \<Rightarrow> py_error + string" where
  "price_text m value =
     (let e = (if dec_val value < 1 then - 4 else - 2) in
      case dec_quantize m e value of Inl err \<Rightarrow> Inl err | Inr q \<Rightarrow> Inr (dec_format_f q))"

definition parse_price :: "string \<Rightarrow> py_error + dec" where
  \<comment> \<open>\<open>Decimal(text)\<close> of a text that \<open>price_text\<close> printed\<close>
  "parse_price s = (case parse_decimal s of Some (Finite d) \<Rightarrow> Inr d | _ \<Rightarrow> Inl InvalidOperation)"

record entry_limits =
  el_maximum_price_drift :: dec
  el_maximum_quote_age_seconds :: dec
  el_maximum_all_in_stop :: dec
  el_stop_slippage_reserve :: dec
  el_target_r :: dec

definition default_limits :: entry_limits where
  "default_limits = \<lparr>el_maximum_price_drift = Dec False 25 (- 4),
     el_maximum_quote_age_seconds = Dec False 2 0, el_maximum_all_in_stop = Dec False 2 (- 2),
     el_stop_slippage_reserve = Dec False 0 0, el_target_r = Dec False 3 0\<rparr>"

definition drift_limit_text :: "dec \<Rightarrow> string" where
  "drift_limit_text d = (case dec_quantize RoundHalfEven (- 2) (Dec (dec_neg d) (dec_coeff d) (dec_exp d + 2)) of
      Inl _ \<Rightarrow> [] | Inr q \<Rightarrow> dec_format_f q @ ''%'')"

text \<open>
  \<open>Decimal(str(delta.total_seconds()))\<close>: the shortest \<open>repr\<close> of the float is the exact number of
  seconds for every span below ten to the fifteenth microseconds (31 years), the range used here.
\<close>

definition age_seconds_dec :: "int \<Rightarrow> dec" where
  "age_seconds_dec us = Dec (us < 0) (nat \<bar>us\<bar>) (- 6)"

definition drift_ceiling :: "dec \<Rightarrow> entry_limits \<Rightarrow> dec" where
  "drift_ceiling reference lims =
     dec_mul reference (dec_add (dec_of_int 1) (el_maximum_price_drift lims))"

definition all_in_risk :: "dec \<Rightarrow> dec \<Rightarrow> entry_limits \<Rightarrow> py_error + dec" where
  "all_in_risk entry stop lims = (case dec_div (dec_sub entry stop) entry of
      Inl e \<Rightarrow> Inl e | Inr r \<Rightarrow> Inr (dec_add r (el_stop_slippage_reserve lims)))"

definition entry_quote_error ::
    "string \<Rightarrow> dec \<Rightarrow> dec \<Rightarrow> FreshNbboQuote \<Rightarrow> datetime \<Rightarrow> entry_limits \<Rightarrow> string option" where
  \<comment> \<open>the checks on the raw quote, in order; the caller has normalised the symbol\<close>
  "entry_quote_error symb reference stop quote observed lims =
     (if \<not> is_utc observed then Some ''entry observation timestamp must be UTC''
      else if fq_symbol quote \<noteq> symb then Some ''NBBO symbol does not match entry symbol''
      else if py_lower (py_strip (fq_feed quote)) \<noteq> ''sip''
        then Some ''Alpaca SIP NBBO is required for Paper entry''
      else let age = age_seconds_dec (instant observed - instant (fq_asof_utc quote)) in
        if dec_val age < 0 \<or> dec_lt (el_maximum_quote_age_seconds lims) age
          then Some ''immediate NBBO is stale''
        else if dec_val reference \<le> 0 \<or> dec_lt (drift_ceiling reference lims) (fq_ask quote)
          then Some (''immediate NBBO slippage exceeds '' @ drift_limit_text (el_maximum_price_drift lims))
        else if dec_val stop \<le> 0 \<or> dec_le (fq_bid quote) stop
          then Some ''protective stop must be below the current bid''
        else None)"

definition rounded_entry_request ::
    "string \<Rightarrow> string \<Rightarrow> int \<Rightarrow> dec \<Rightarrow> string \<Rightarrow> string \<Rightarrow> entry_limits
       \<Rightarrow> py_error + ProtectedPaperEntryRequest" where
  \<comment> \<open>from \<open>rounded_entry, rounded_stop = ...\<close> to the end\<close>
  "rounded_entry_request cid symb qty reference limit_price stop_price lims =
     (case parse_price limit_price of Inl e \<Rightarrow> Inl e | Inr rentry \<Rightarrow>
      case parse_price stop_price of Inl e \<Rightarrow> Inl e | Inr rstop \<Rightarrow>
      if dec_lt (drift_ceiling reference lims) rentry
        then Inl (ValueError (''rounded limit slippage exceeds '' @ drift_limit_text (el_maximum_price_drift lims)))
      else case all_in_risk rentry rstop lims of Inl e \<Rightarrow> Inl e | Inr risk \<Rightarrow>
      if dec_val rstop \<le> 0 \<or> dec_lt (el_maximum_all_in_stop lims) risk
        then Inl (ValueError ''rounded all-in stop exceeds 2%'')
      else case price_text RoundCeiling
             (dec_add rentry (dec_mul (el_target_r lims) (dec_sub rentry rstop))) of
        Inl e \<Rightarrow> Inl e
      | Inr target_price \<Rightarrow> validate_protected_entry
          \<lparr>ppe_client_order_id = cid, ppe_symbol = symb, ppe_qty = qty, ppe_limit_price = limit_price,
           ppe_stop_loss_price = stop_price, ppe_take_profit_price = target_price\<rparr>)"

definition build_protected_entry ::
    "string \<Rightarrow> string \<Rightarrow> int \<Rightarrow> dec \<Rightarrow> dec \<Rightarrow> FreshNbboQuote \<Rightarrow> datetime \<Rightarrow> entry_limits
       \<Rightarrow> py_error + ProtectedPaperEntryRequest" where
  "build_protected_entry cid symb qty reference stop quote observed lims =
     (let nsymb = norm_symbol symb in
      case entry_quote_error nsymb reference stop quote observed lims of
        Some msg \<Rightarrow> Inl (ValueError msg)
      | None \<Rightarrow> (case all_in_risk (fq_ask quote) stop lims of Inl e \<Rightarrow> Inl e | Inr all_in \<Rightarrow>
          if dec_lt (el_maximum_all_in_stop lims) all_in then Inl (ValueError ''all-in stop exceeds 2%'')
          else case price_text RoundCeiling (fq_ask quote) of Inl e \<Rightarrow> Inl e | Inr limit_price \<Rightarrow>
               case price_text RoundFloor stop of Inl e \<Rightarrow> Inl e | Inr stop_price \<Rightarrow>
                 rounded_entry_request cid nsymb qty reference limit_price stop_price lims))"

section \<open>The broker interface\<close>

record 'b broker_port =
  bp_writes_enabled :: "'b \<Rightarrow> bool"
  bp_broker_identity :: string
  bp_get_order_by_client_id :: "string \<Rightarrow> ('b, BrokerOrder option) op"
  bp_list_positions :: "('b, PaperPosition list) op"
  bp_list_open_orders :: "('b, BrokerOrder list) op"
  bp_cancel_order :: "string \<Rightarrow> ('b, bool) op"
  bp_submit_order :: "PaperOrderRequest \<Rightarrow> ('b, BrokerOrder) op"
  bp_submit_close_order :: "PaperCloseRequest \<Rightarrow> ('b, BrokerOrder) op"
  bp_submit_stop_order :: "PaperStopRequest \<Rightarrow> ('b, BrokerOrder) op"
  bp_submit_extended_limit :: "PaperExtendedLimitRequest \<Rightarrow> ('b, BrokerOrder) op"

section \<open>The direct Alpaca adapter\<close>

datatype http_method = GET | POST | DELETE

record http_response =
  hr_status_code :: int
  hr_json :: "json option" \<comment> \<open>\<open>None\<close>: the body is not valid JSON\<close>

text \<open>
  \<open>http_call\<close>: one request of the HTTP client; \<open>Inl name\<close> is an \<open>httpx.HTTPError\<close> or an \<open>OSError\<close>
  with its class name.
\<close>

type_synonym 'b http_call =
  "http_method \<Rightarrow> string \<Rightarrow> (string \<times> string) list \<Rightarrow> json option \<Rightarrow> 'b \<Rightarrow> (string + http_response) \<times> 'b"

text \<open>The two parts the adapter does not define: the transport and pydantic's decoders.\<close>

record 'b alpaca_env =
  ae_http :: "'b http_call"
  ae_decode_order :: "json \<Rightarrow> py_error + BrokerOrder"
  ae_decode_position :: "json \<Rightarrow> py_error + PaperPosition"
  ae_writes_enabled :: "'b \<Rightarrow> bool"

definition request_raw ::
    "'b alpaca_env \<Rightarrow> http_method \<Rightarrow> string \<Rightarrow> (string \<times> string) list \<Rightarrow> json option \<Rightarrow> int list
       \<Rightarrow> ('b, http_response) op" where
  "request_raw env m path params body allowed b =
     (case ae_http env m path params body b of
        (Inl name, b') \<Rightarrow> (Inl (BrokerError (''Alpaca Paper request failed: '' @ name)), b')
      | (Inr r, b') \<Rightarrow>
          if hr_status_code r \<notin> set allowed
          then (Inl (BrokerError (''Alpaca Paper request failed with HTTP '' @ show_int (hr_status_code r))), b')
          else (Inr r, b'))"

definition response_object :: "http_response \<Rightarrow> py_error + json" where
  "response_object r = (case hr_json r of
       None \<Rightarrow> Inl (BrokerError ''Alpaca Paper response was not valid JSON'')
     | Some (JObj kvs) \<Rightarrow> Inr (JObj kvs)
     | Some _ \<Rightarrow> Inl (BrokerError ''Alpaca Paper response contract is invalid''))"

definition request_list ::
    "'b alpaca_env \<Rightarrow> string \<Rightarrow> (string \<times> string) list \<Rightarrow> ('b, json list) op" where
  "request_list env path params = bindS (request_raw env GET path params None [200]) (\<lambda>r.
     case hr_json r of
       None \<Rightarrow> raiseS (BrokerError ''Alpaca Paper response was not valid JSON'')
     | Some (JList xs) \<Rightarrow> returnS xs
     | Some _ \<Rightarrow> raiseS (BrokerError ''Alpaca Paper response contract is invalid''))"

definition decode_response :: "'b alpaca_env \<Rightarrow> http_response \<Rightarrow> ('b, BrokerOrder) op" where
  "decode_response env r =
     bindS (liftS (response_object r)) (\<lambda>j. liftS (ae_decode_order env j))"

definition direct_get_account ::
    "(json \<Rightarrow> py_error + PaperAccount) \<Rightarrow> 'b alpaca_env \<Rightarrow> ('b, PaperAccount) op" where
  \<comment> \<open>the decoder is \<open>PaperAccount.model_validate\<close>\<close>
  "direct_get_account decode env = bindS (request_raw env GET ''/v2/account'' [] None [200]) (\<lambda>r.
     bindS (liftS (response_object r)) (\<lambda>j. liftS (decode j)))"

definition direct_list_positions :: "'b alpaca_env \<Rightarrow> ('b, PaperPosition list) op" where
  "direct_list_positions env = bindS (request_list env ''/v2/positions'' [])
     (mapS (\<lambda>j. liftS (ae_decode_position env j)))"

definition direct_list_open_orders :: "'b alpaca_env \<Rightarrow> ('b, BrokerOrder list) op" where
  "direct_list_open_orders env = bindS (request_list env ''/v2/orders''
       [(''status'', ''open''), (''limit'', ''500''), (''nested'', ''true'')])
     (mapS (\<lambda>j. liftS (ae_decode_order env j)))"

definition direct_get_order :: "'b alpaca_env \<Rightarrow> string \<Rightarrow> ('b, BrokerOrder option) op" where
  "direct_get_order env cid = bindS
     (request_raw env GET ''/v2/orders:by_client_order_id''
        [(''client_order_id'', cid), (''nested'', ''true'')] None [200, 404])
     (\<lambda>r. if hr_status_code r = 404 then returnS None
          else bindS (decode_response env r) (\<lambda>o'. returnS (Some o')))"

definition require_writes_enabled :: "'b alpaca_env \<Rightarrow> ('b, unit) op" where
  "require_writes_enabled env = bindS (readS (ae_writes_enabled env)) (\<lambda>w.
     guardS w (BrokerWritesDisabledError ''paper broker writes are disabled''))"

definition direct_cancel_order :: "'b alpaca_env \<Rightarrow> string \<Rightarrow> ('b, bool) op" where
  "direct_cancel_order env oid = thenS (require_writes_enabled env)
     (bindS (request_raw env DELETE (''/v2/orders/'' @ oid) [] None [204, 404, 422])
        (\<lambda>r. returnS (hr_status_code r = 204)))"

definition submit_idempotent ::
    "'b alpaca_env \<Rightarrow> string \<Rightarrow> json \<Rightarrow> ('b, unit) op option \<Rightarrow> ('b, BrokerOrder) op" where
  "submit_idempotent env cid payload before_submit =
     thenS (require_writes_enabled env)
     (bindS (direct_get_order env cid) (\<lambda>existing. case existing of
        Some o' \<Rightarrow> returnS o'
      | None \<Rightarrow>
          thenS (case before_submit of None \<Rightarrow> returnS () | Some f \<Rightarrow> f)
          (thenS (require_writes_enabled env)
          (bindS (request_raw env POST ''/v2/orders'' [] (Some payload) [200, 201, 422]) (\<lambda>r.
             if hr_status_code r = 422 then
               bindS (direct_get_order env cid) (\<lambda>raced. case raced of
                 Some o' \<Rightarrow> returnS o'
               | None \<Rightarrow> raiseS (BrokerError ''Alpaca Paper order was rejected''))
             else decode_response env r)))))"

definition direct_alpaca :: "'b alpaca_env \<Rightarrow> 'b broker_port" where
  "direct_alpaca env =
     \<lparr>bp_writes_enabled = ae_writes_enabled env, bp_broker_identity = ''alpaca.paper.direct'',
      bp_get_order_by_client_id = direct_get_order env,
      bp_list_positions = direct_list_positions env,
      bp_list_open_orders = direct_list_open_orders env,
      bp_cancel_order = direct_cancel_order env,
      bp_submit_order = (\<lambda>r. bindS (liftS (order_payload r)) (\<lambda>payload.
         submit_idempotent env (por_client_order_id r) payload None)),
      bp_submit_close_order = (\<lambda>r. submit_idempotent env (pcr_client_order_id r) (close_payload r) None),
      bp_submit_stop_order = (\<lambda>r. submit_idempotent env (psr_client_order_id r) (stop_payload r) None),
      bp_submit_extended_limit = (\<lambda>r.
         submit_idempotent env (pel_client_order_id r) (extended_limit_payload r) None)\<rparr>"

definition direct_submit_protected ::
    "'b alpaca_env \<Rightarrow> ProtectedPaperEntryRequest \<Rightarrow> ('b, unit) op option \<Rightarrow> ('b, BrokerOrder) op" where
  "direct_submit_protected env r before_submit =
     submit_idempotent env (ppe_client_order_id r) (protected_entry_payload r) before_submit"

section \<open>What reaches the broker\<close>

text \<open>
  The adapter observed from the wire: \<open>recorded env\<close> is \<open>env\<close> with a log of every request that is
  not a GET.  The log is the only addition, so what holds of it holds of the requests that the
  adapter sends.
\<close>

type_synonym wire_write = "http_method \<times> string \<times> json option"

definition recorded_http :: "'b http_call \<Rightarrow> ('b \<times> wire_write list) http_call" where
  "recorded_http http m path params body p =
     (case http m path params body (fst p) of (r, b') \<Rightarrow>
        (r, (b', if m = GET then snd p else snd p @ [(m, path, body)])))"

definition recorded :: "'b alpaca_env \<Rightarrow> ('b \<times> wire_write list) alpaca_env" where
  "recorded env = \<lparr>ae_http = recorded_http (ae_http env), ae_decode_order = ae_decode_order env,
     ae_decode_position = ae_decode_position env,
     ae_writes_enabled = (\<lambda>p. ae_writes_enabled env (fst p))\<rparr>"

lemma recorded_simps [simp]:
  "ae_http (recorded env) = recorded_http (ae_http env)"
  "ae_decode_order (recorded env) = ae_decode_order env"
  "ae_decode_position (recorded env) = ae_decode_position env"
  "ae_writes_enabled (recorded env) p = ae_writes_enabled env (fst p)"
  by (simp_all add: recorded_def)

lemma request_raw_log:
  "snd (snd (request_raw (recorded env) m path params body allowed p)) =
     (if m = GET then snd p else snd p @ [(m, path, body)])"
  by (auto simp: request_raw_def recorded_http_def split: prod.split sum.split)

lemma snd_bindS:
  assumes "\<And>x t. m s = (Inr x, t) \<Longrightarrow> h (snd (f x t)) = h t"
  shows "h (snd (bindS m f s)) = h (snd (m s))"
  using assms by (auto simp: bindS_run split: prod.split sum.split)

lemma snd_liftS [simp]: "snd (liftS r s) = s"
  by (simp add: liftS_run split: sum.split)

lemma snd_guardS [simp]: "snd (guardS b e s) = s"
  by (simp add: guardS_run)

lemma snd_decode_response [simp]: "snd (decode_response env r s) = s"
  by (simp add: decode_response_def bindS_run liftS_run split: sum.split)

lemma direct_get_order_log: "snd (snd (direct_get_order (recorded env) cid p)) = snd p"
  by (simp add: direct_get_order_def snd_bindS request_raw_log)

lemma snd_mapS_lift [simp]: "snd (mapS (\<lambda>j. liftS (f j)) js s) = s"
  by (induction js) (auto simp: run split: sum.split prod.split)

lemma direct_get_account_log: "snd (snd (direct_get_account decode (recorded env) p)) = snd p"
  by (simp add: direct_get_account_def snd_bindS request_raw_log)

lemma request_list_log: "snd (snd (request_list (recorded env) path params p)) = snd p"
  by (simp add: request_list_def snd_bindS request_raw_log split: option.split json.split)

lemma direct_list_positions_log: "snd (snd (direct_list_positions (recorded env) p)) = snd p"
  by (simp add: direct_list_positions_def snd_bindS request_list_log)

lemma direct_list_open_orders_log: "snd (snd (direct_list_open_orders (recorded env) p)) = snd p"
  by (simp add: direct_list_open_orders_def snd_bindS request_list_log)

lemma require_writes_run:
  "require_writes_enabled env b =
     (if ae_writes_enabled env b then (Inr (), b)
      else (Inl (BrokerWritesDisabledError ''paper broker writes are disabled''), b))"
  by (simp add: require_writes_enabled_def run)

text \<open>With writes disabled the adapter refuses every writing call before it sends anything.\<close>

lemma submit_idempotent_off:
  "\<not> ae_writes_enabled env b \<Longrightarrow> submit_idempotent env cid payload bs b =
     (Inl (BrokerWritesDisabledError ''paper broker writes are disabled''), b)"
  by (simp add: submit_idempotent_def thenS_run require_writes_run)

lemma direct_cancel_off:
  "\<not> ae_writes_enabled env b \<Longrightarrow> direct_cancel_order env oid b =
     (Inl (BrokerWritesDisabledError ''paper broker writes are disabled''), b)"
  by (simp add: direct_cancel_order_def thenS_run require_writes_run)

text \<open>A submission sends at most one POST, with its own payload.\<close>

definition post_order :: "json \<Rightarrow> wire_write" where
  "post_order payload = (POST, ''/v2/orders'', Some payload)"

lemma submit_idempotent_log:
  "snd (snd (submit_idempotent (recorded env) cid payload None p)) \<in>
     {snd p, snd p @ [post_order payload]}"
proof (cases "ae_writes_enabled env (fst p)")
  case False
  then show ?thesis by (simp add: submit_idempotent_off)
next
  case True
  obtain r1 p1 where g: "direct_get_order (recorded env) cid p = (r1, p1)"
    by (cases "direct_get_order (recorded env) cid p")
  have log1: "snd p1 = snd p" using direct_get_order_log [of env cid p] g by simp
  obtain r2 p2 where po: "request_raw (recorded env) POST ''/v2/orders'' [] (Some payload) [200, 201, 422] p1
      = (r2, p2)" by (cases "request_raw (recorded env) POST ''/v2/orders'' [] (Some payload) [200, 201, 422] p1")
  have log2: "snd p2 = snd p1 @ [post_order payload]"
    using request_raw_log [of env POST "''/v2/orders''" "[]" "Some payload" "[200, 201, 422]" p1] po
    by (simp add: post_order_def)
  have log3: "snd (snd (direct_get_order (recorded env) cid p2)) = snd p2"
    by (rule direct_get_order_log)
  show ?thesis using True g po log1 log2 log3 snd_decode_response [of "recorded env" _ p2]
    by (auto simp: submit_idempotent_def thenS_run bindS_run require_writes_run
        split: sum.split option.split prod.split)
qed

section \<open>The contract of a gated broker\<close>

text \<open>
  What the execution components rely on: \<open>book\<close> is what the broker has been told to do.  Reading
  calls never change it, and with writes disabled no call does.
\<close>

locale gated_broker =
  fixes port :: "'b broker_port"
    and book :: "'b \<Rightarrow> 'o"
  assumes get_silent: "book (snd (bp_get_order_by_client_id port cid b)) = book b"
    and positions_silent: "book (snd (bp_list_positions port b)) = book b"
    and open_orders_silent: "book (snd (bp_list_open_orders port b)) = book b"
    and cancel_off: "\<not> bp_writes_enabled port b \<Longrightarrow> book (snd (bp_cancel_order port oid b)) = book b"
    and submit_off: "\<not> bp_writes_enabled port b \<Longrightarrow> book (snd (bp_submit_order port r b)) = book b"
    and close_off: "\<not> bp_writes_enabled port b \<Longrightarrow> book (snd (bp_submit_close_order port c b)) = book b"
    and stop_off: "\<not> bp_writes_enabled port b \<Longrightarrow> book (snd (bp_submit_stop_order port st b)) = book b"
    and extended_off:
      "\<not> bp_writes_enabled port b \<Longrightarrow> book (snd (bp_submit_extended_limit port x b)) = book b"

interpretation alpaca_gate: gated_broker "direct_alpaca (recorded env)" snd for env
  by unfold_locales
    (simp_all add: direct_alpaca_def direct_get_order_log direct_list_positions_log
      direct_list_open_orders_log direct_cancel_off submit_idempotent_off bindS_run liftS_run
      split: sum.split)

text \<open>
  The exit components also rely on what a single call can add to the book: at most its own order,
  or its own cancellation.
\<close>

locale wired_broker = gated_broker port book
  for port :: "'b broker_port" and book :: "'b \<Rightarrow> 'w list" +
  fixes cancel_write :: "string \<Rightarrow> 'w"
    and close_write :: "PaperCloseRequest \<Rightarrow> 'w"
    and extended_write :: "PaperExtendedLimitRequest \<Rightarrow> 'w"
  assumes cancel_book: "book (snd (bp_cancel_order port oid b)) \<in> {book b, book b @ [cancel_write oid]}"
    and close_book: "book (snd (bp_submit_close_order port c b)) \<in> {book b, book b @ [close_write c]}"
    and extended_book: "book (snd (bp_submit_extended_limit port x b)) \<in> {book b, book b @ [extended_write x]}"

definition delete_order :: "string \<Rightarrow> wire_write" where
  "delete_order oid = (DELETE, ''/v2/orders/'' @ oid, None)"

lemma direct_cancel_log:
  "snd (snd (direct_cancel_order (recorded env) oid p)) =
     (if ae_writes_enabled env (fst p) then snd p @ [delete_order oid] else snd p)"
  by (simp add: direct_cancel_order_def thenS_def bindS_def require_writes_run request_raw_log delete_order_def
      split: prod.split sum.split)
    (metis (no_types, lifting) http_method.distinct(3) request_raw_log snd_conv)

interpretation alpaca_wire: wired_broker "direct_alpaca (recorded env)" snd delete_order
  "\<lambda>c. post_order (close_payload c)" "\<lambda>x. post_order (extended_limit_payload x)" for env
proof (unfold_locales, goal_cases)
  case (1 oid b)
  then show ?case by (simp add: direct_alpaca_def direct_cancel_log)
next
  case (2 c b)
  then show ?case using submit_idempotent_log by (simp add: direct_alpaca_def)
next
  case (3 x b)
  then show ?case using submit_idempotent_log by (simp add: direct_alpaca_def)
qed

section \<open>A broker for concrete runs\<close>

text \<open>
  The smallest broker that keeps the promises of the port: it knows orders by their client id,
  accepts a new one once, and answers with fixed positions.  Only the concrete runs use it.
\<close>

definition sim_submit ::
    "string \<Rightarrow> string \<Rightarrow> int \<Rightarrow> string \<Rightarrow> (BrokerOrder list, BrokerOrder) op" where
  "sim_submit cid symb qty side book =
     (case find (\<lambda>b. bo_client_order_id b = cid) book of
        Some b \<Rightarrow> (Inr b, book)
      | None \<Rightarrow> (let b = BrokerOrder (''b-'' @ cid) cid symb qty ''0'' ''accepted'' None (Some side) None []
                in (Inr b, book @ [b])))"

definition sim_port :: "bool \<Rightarrow> PaperPosition list \<Rightarrow> BrokerOrder list broker_port" where
  "sim_port writes positions =
     \<lparr>bp_writes_enabled = (\<lambda>_. writes), bp_broker_identity = ''sim'',
      bp_get_order_by_client_id = (\<lambda>cid book. (Inr (find (\<lambda>b. bo_client_order_id b = cid) book), book)),
      bp_list_positions = (\<lambda>book. (Inr positions, book)),
      bp_list_open_orders = (\<lambda>book. (Inr (filter (\<lambda>b. bo_status b = ''accepted'') book), book)),
      bp_cancel_order = (\<lambda>oid book. (Inr (\<exists>b \<in> set book. bo_id b = oid),
         map (\<lambda>b. if bo_id b = oid then BrokerOrder (bo_id b) (bo_client_order_id b) (bo_symbol b) (bo_qty b)
               (bo_filled_qty b) ''canceled'' (bo_filled_avg_price b) (bo_side b) (bo_order_type b) (bo_legs b)
             else b) book)),
      bp_submit_order = (\<lambda>r. sim_submit (por_client_order_id r) (por_symbol r) (por_qty r) ''buy''),
      bp_submit_close_order = (\<lambda>r. sim_submit (pcr_client_order_id r) (pcr_symbol r) (pcr_qty r) ''sell''),
      bp_submit_stop_order = (\<lambda>r. sim_submit (psr_client_order_id r) (psr_symbol r) (psr_qty r) ''sell''),
      bp_submit_extended_limit = (\<lambda>r.
         sim_submit (pel_client_order_id r) (pel_symbol r) (pel_qty r) (pel_side r))\<rparr>"

section \<open>Properties\<close>

lemma price_text_parse:
  assumes "price_text m v = Inr s"
  obtains q where "parse_price s = Inr q"
    and "dec_quantize m (if dec_val v < 1 then - 4 else - 2) v = Inr q"
proof -
  obtain q where q: "dec_quantize m (if dec_val v < 1 then - 4 else - 2) v = Inr q" "s = dec_format_f q"
    using assms by (auto simp: price_text_def Let_def split: sum.splits)
  have "dec_exp q = (if dec_val v < 1 then - 4 else - 2)" using quantize_val [OF q(1)] by simp
  then have "parse_price s = Inr q" by (simp add: parse_price_def q(2) parse_format_f)
  with q(1) that show thesis by blast
qed

lemma tick_le: "pow10 (if b then - 4 else - 2) \<le> 1 / 100"
  by (simp add: pow10_def)

lemma age_seconds_val: "dec_val (age_seconds_dec us) = of_int us * pow10 (- 6)"
  by (simp add: age_seconds_dec_def dec_val_def)

lemma age_seconds_negative: "dec_val (age_seconds_dec us) < 0 \<longleftrightarrow> us < 0"
  by (auto simp: age_seconds_val mult_less_0_iff)

lemma entry_quote_error_None:
  assumes "entry_quote_error symb reference stop quote observed lims = None"
  shows "fq_symbol quote = symb" and "py_lower (py_strip (fq_feed quote)) = ''sip''"
    and "0 \<le> instant observed - instant (fq_asof_utc quote)"
    and "dec_le (age_seconds_dec (instant observed - instant (fq_asof_utc quote))) (el_maximum_quote_age_seconds lims)"
    and "dec_le (fq_ask quote) (drift_ceiling reference lims)" and "0 < dec_val stop"
    and "dec_lt stop (fq_bid quote)"
  using assms
  by (auto simp: entry_quote_error_def Let_def dec_le_def dec_lt_def not_le not_less age_seconds_negative
      split: if_splits)

text \<open>C17: a protected entry is built from a fresh SIP quote only, and the prices that go on the wire
  are bounded: the limit buys at the ask, rounded up by less than a cent, below the drift ceiling
  of the signal; the stop is the structural stop rounded down, still positive and below the bid;
  and entry and stop as printed keep the all-in risk under its limit.\<close>

theorem protected_entry_bounds:
  assumes quote: "validate_quote quote = Inr quote"
    and build: "build_protected_entry cid symb qty reference stop quote observed lims = Inr r"
  shows "0 \<le> instant observed - instant (fq_asof_utc quote) \<and>
    dec_le (age_seconds_dec (instant observed - instant (fq_asof_utc quote))) (el_maximum_quote_age_seconds lims) \<and>
    py_lower (py_strip (fq_feed quote)) = ''sip'' \<and> ppe_symbol r = fq_symbol quote \<and> 0 < ppe_qty r \<and>
    (\<exists>entry stp risk. parse_price (ppe_limit_price r) = Inr entry \<and> parse_price (ppe_stop_loss_price r) = Inr stp \<and>
       dec_le (fq_ask quote) entry \<and> dec_val entry < dec_val (fq_ask quote) + 1 / 100 \<and>
       dec_le entry (drift_ceiling reference lims) \<and>
       0 < dec_val stp \<and> dec_le stp stop \<and> dec_lt stop (fq_bid quote) \<and>
       all_in_risk entry stp lims = Inr risk \<and> dec_le risk (el_maximum_all_in_stop lims))"
proof -
  let ?ns = "norm_symbol symb"
  have qe: "entry_quote_error ?ns reference stop quote observed lims = None"
    using build by (auto simp: build_protected_entry_def Let_def split: option.splits)
  note eq = entry_quote_error_None [OF qe]
  obtain all_in lp sp where a: "all_in_risk (fq_ask quote) stop lims = Inr all_in"
    and lp: "price_text RoundCeiling (fq_ask quote) = Inr lp" and sp: "price_text RoundFloor stop = Inr sp"
    and rr: "rounded_entry_request cid ?ns qty reference lp sp lims = Inr r"
    using build qe by (auto simp: build_protected_entry_def Let_def split: sum.splits if_splits)
  obtain entry where en: "parse_price lp = Inr entry"
    "dec_quantize RoundCeiling (if dec_val (fq_ask quote) < 1 then - 4 else - 2) (fq_ask quote) = Inr entry"
    using price_text_parse [OF lp] .
  obtain stp where st: "parse_price sp = Inr stp"
    "dec_quantize RoundFloor (if dec_val stop < 1 then - 4 else - 2) stop = Inr stp"
    using price_text_parse [OF sp] .
  obtain risk target where risk: "all_in_risk entry stp lims = Inr risk"
    and c: "\<not> dec_lt (drift_ceiling reference lims) entry" "\<not> dec_val stp \<le> 0"
      "\<not> dec_lt (el_maximum_all_in_stop lims) risk"
    and v: "validate_protected_entry \<lparr>ppe_client_order_id = cid, ppe_symbol = ?ns, ppe_qty = qty,
        ppe_limit_price = lp, ppe_stop_loss_price = sp, ppe_take_profit_price = target\<rparr> = Inr r"
    using rr en(1) st(1) by (auto simp: rounded_entry_request_def split: sum.splits if_splits)
  have r: "ppe_limit_price r = lp" "ppe_stop_loss_price r = sp" "ppe_symbol r = ?ns" "0 < ppe_qty r"
    using v by (auto simp: validate_protected_entry_def request_identity_error_def not_le
        split: option.splits if_splits)
  have "0 < dec_val (fq_bid quote)" "dec_val (fq_bid quote) \<le> dec_val (fq_ask quote)"
    using quote by (auto simp: validate_quote_def dec_lt_def not_le not_less split: if_splits)
  then have pos: "\<not> dec_neg (fq_ask quote)" by (intro dec_val_positive_sign) linarith
  note ceil = quantize_ceiling_ge [OF en(2) pos]
  have "\<not> dec_neg stop" using eq(6) by (rule dec_val_positive_sign)
  then have fl: "dec_val stp \<le> dec_val stop"
    using st(2) quantize_down_le(1) by (simp add: quantize_floor_down)
  have "dec_val entry < dec_val (fq_ask quote) + 1 / 100"
    using ceil(2) tick_le [of "dec_val (fq_ask quote) < 1"] by linarith
  with eq r en(1) st(1) ceil(1) fl c risk show ?thesis
    by (auto simp: dec_le_def dec_lt_def not_le not_less)
qed

definition sample_quote :: FreshNbboQuote where
  "sample_quote = \<lparr>fq_symbol = ''AAPL'', fq_bid = Dec False 10009 (- 2), fq_ask = Dec False 100105 (- 3),
     fq_asof_utc = utc 1000000, fq_feed = ''SIP''\<rparr>"

lemmas division = dec_div_def div_by_shift_def div_shift_def div_scaled_def div_round_def dec_fix_def
  Let_def num_digits_code digits_upto.simps context_prec_def round_coeff_def

lemma sample_divisions:
  "dec_div (Dec False 1105 (- 3)) (Dec False 100105 (- 3)) = Inr (Dec False 1103840966984666100594375905 (- 29))"
  "dec_div (Dec False 111 (- 2)) (Dec False 10011 (- 2)) = Inr (Dec False 1108780341624213365298172011 (- 29))"
  by (simp_all add: division)

lemma sample_risks:
  "all_in_risk (fq_ask sample_quote) (Dec False 99 0) default_limits =
     Inr (Dec False 1103840966984666100594375905 (- 29))"
  "all_in_risk (Dec False 10011 (- 2)) (Dec False 9900 (- 2)) default_limits =
     Inr (Dec False 1108780341624213365298172011 (- 29))"
proof -
  have d: "dec_sub (Dec False 100105 (- 3)) (Dec False 99 0) = Dec False 1105 (- 3)"
    "dec_sub (Dec False 10011 (- 2)) (Dec False 9900 (- 2)) = Dec False 111 (- 2)"
    "fq_ask sample_quote = Dec False 100105 (- 3)"
    "dec_add (Dec False 1103840966984666100594375905 (- 29)) (el_stop_slippage_reserve default_limits) =
       Dec False 1103840966984666100594375905 (- 29)"
    "dec_add (Dec False 1108780341624213365298172011 (- 29)) (el_stop_slippage_reserve default_limits) =
       Dec False 1108780341624213365298172011 (- 29)"
    by code_simp+
  show "all_in_risk (fq_ask sample_quote) (Dec False 99 0) default_limits =
      Inr (Dec False 1103840966984666100594375905 (- 29))"
    "all_in_risk (Dec False 10011 (- 2)) (Dec False 9900 (- 2)) default_limits =
      Inr (Dec False 1108780341624213365298172011 (- 29))"
    by (simp_all only: all_in_risk_def d sample_divisions sum.case)
qed

lemma protected_entry_bounds_witness:
  "\<exists>r. build_protected_entry ''c'' ''aapl'' 5 (Dec False 100 0) (Dec False 99 0) sample_quote (utc 2500000)
      default_limits = Inr r \<and> 0 < ppe_qty r"
proof -
  let ?r = "build_protected_entry ''c'' ''aapl'' 5 (Dec False 100 0) (Dec False 99 0) sample_quote
      (utc 2500000) default_limits"
  have q: "validate_quote sample_quote = Inr sample_quote" by code_simp
  have n: "norm_symbol ''aapl'' = ''AAPL''" by code_simp
  have e: "entry_quote_error ''AAPL'' (Dec False 100 0) (Dec False 99 0) sample_quote (utc 2500000)
      default_limits = None" by code_simp
  have lt: "\<not> dec_lt (el_maximum_all_in_stop default_limits) (Dec False 1103840966984666100594375905 (- 29))"
    "\<not> dec_lt (el_maximum_all_in_stop default_limits) (Dec False 1108780341624213365298172011 (- 29))"
    by (simp_all add: dec_lt_def dec_val_def default_limits_def pow10_def)
  have t: "price_text RoundCeiling (fq_ask sample_quote) = Inr ''100.11''"
    "price_text RoundFloor (Dec False 99 0) = Inr ''99.00''"
    "parse_price ''100.11'' = Inr (Dec False 10011 (- 2))" "parse_price ''99.00'' = Inr (Dec False 9900 (- 2))"
    "\<not> dec_lt (drift_ceiling (Dec False 100 0) default_limits) (Dec False 10011 (- 2))"
    "\<not> dec_val (Dec False 9900 (- 2)) \<le> 0"
    "price_text RoundCeiling (dec_add (Dec False 10011 (- 2)) (dec_mul (el_target_r default_limits)
        (dec_sub (Dec False 10011 (- 2)) (Dec False 9900 (- 2))))) = Inr ''103.44''"
    by code_simp+
  have "?r = validate_protected_entry \<lparr>ppe_client_order_id = ''c'', ppe_symbol = ''AAPL'', ppe_qty = 5,
      ppe_limit_price = ''100.11'', ppe_stop_loss_price = ''99.00'', ppe_take_profit_price = ''103.44''\<rparr>"
    by (simp only: build_protected_entry_def rounded_entry_request_def Let_def n e lt t sample_risks
        option.case sum.case if_False simp_thms)
  moreover have "(case validate_protected_entry \<lparr>ppe_client_order_id = ''c'', ppe_symbol = ''AAPL'', ppe_qty = 5,
      ppe_limit_price = ''100.11'', ppe_stop_loss_price = ''99.00'', ppe_take_profit_price = ''103.44''\<rparr> of
      Inl _ \<Rightarrow> False | Inr _ \<Rightarrow> True)" by code_simp
  ultimately obtain r where r: "?r = Inr r" by (auto split: sum.splits)
  then show ?thesis using protected_entry_bounds [OF q r] by blast
qed

text \<open>C5: submissions are idempotent.  When the broker already knows the client order id, or reports it
  after a conflicting POST, the known order is what comes back; whatever it answers, at most one
  POST is sent, and none while writes are disabled.\<close>

theorem submit_is_idempotent:
  "let log = snd (snd (submit_idempotent (recorded env) cid payload None p)) in
    log \<in> {snd p, snd p @ [post_order payload]} \<and>
    (\<not> ae_writes_enabled env (fst p) \<longrightarrow> log = snd p) \<and>
    (\<forall>o' p'. ae_writes_enabled env (fst p) \<longrightarrow> direct_get_order (recorded env) cid p = (Inr (Some o'), p') \<longrightarrow>
       submit_idempotent (recorded env) cid payload None p = (Inr o', p') \<and> log = snd p)"
  using submit_idempotent_log [of env cid payload p] direct_get_order_log [of env cid p]
  by (auto simp: Let_def submit_idempotent_off submit_idempotent_def thenS_run bindS_run require_writes_run)

definition replaying_env :: "unit alpaca_env" where
  \<comment> \<open>a broker that already knows the order\<close>
  "replaying_env = \<lparr>ae_http = (\<lambda>m path params body b. (Inr \<lparr>hr_status_code = 200, hr_json = Some (JObj [])\<rparr>, b)),
     ae_decode_order = (\<lambda>_. Inr (BrokerOrder ''b1'' ''c1'' ''AAPL'' 10 ''0'' ''new'' None (Some ''buy'') None [])),
     ae_decode_position = (\<lambda>_. Inl (ValidationError ''position'')), ae_writes_enabled = (\<lambda>_. True)\<rparr>"

lemma submit_is_idempotent_witness:
  "snd (snd (submit_idempotent (recorded replaying_env) ''c1'' JNull None ((), []))) = []"
proof -
  have "case direct_get_order (recorded replaying_env) ''c1'' ((), []) of
      (Inr (Some _), _) \<Rightarrow> True | _ \<Rightarrow> False" by code_simp
  then obtain o' p' where known: "direct_get_order (recorded replaying_env) ''c1'' ((), []) = (Inr (Some o'), p')"
    by (auto split: prod.splits sum.splits option.splits)
  have "ae_writes_enabled replaying_env (fst ((), []))" by (simp add: replaying_env_def)
  from conjunct2 [OF conjunct2 [OF submit_is_idempotent [where payload = JNull, unfolded Let_def]],
    rule_format, OF this known, THEN conjunct2]
  show ?thesis by simp
qed

end
