(* ===== verification/OrderState.thy ===== *)
theory OrderState
  imports PyDecimal
begin

text \<open>
  \<open>execution/order_state.py\<close>: the order state machine of the local order-management system.  The
  transition table, an order with its event history, pydantic's validation of both, and
  \<open>apply_transition\<close>.
\<close>

section \<open>States and transitions\<close>

datatype OrderState =
    CREATED | PENDING_RISK | APPROVED | SUBMITTED | PARTIALLY_FILLED | FILLED
  | CANCEL_PENDING | CANCELLED | REJECTED

fun state_value :: "OrderState \<Rightarrow> string" where
  "state_value CREATED = ''created''"
| "state_value PENDING_RISK = ''pending_risk''"
| "state_value APPROVED = ''approved''"
| "state_value SUBMITTED = ''submitted''"
| "state_value PARTIALLY_FILLED = ''partially_filled''"
| "state_value FILLED = ''filled''"
| "state_value CANCEL_PENDING = ''cancel_pending''"
| "state_value CANCELLED = ''cancelled''"
| "state_value REJECTED = ''rejected''"

fun ALLOWED_TRANSITIONS :: "OrderState \<Rightarrow> OrderState list" where
  "ALLOWED_TRANSITIONS CREATED = [PENDING_RISK, REJECTED]"
| "ALLOWED_TRANSITIONS PENDING_RISK = [APPROVED, REJECTED]"
| "ALLOWED_TRANSITIONS APPROVED = [SUBMITTED, CANCELLED, REJECTED]"
| "ALLOWED_TRANSITIONS SUBMITTED =
     [PARTIALLY_FILLED, FILLED, CANCEL_PENDING, CANCELLED, REJECTED]"
| "ALLOWED_TRANSITIONS PARTIALLY_FILLED = [PARTIALLY_FILLED, FILLED, CANCEL_PENDING, CANCELLED]"
| "ALLOWED_TRANSITIONS CANCEL_PENDING = [CANCELLED, PARTIALLY_FILLED, FILLED]"
| "ALLOWED_TRANSITIONS FILLED = []"
| "ALLOWED_TRANSITIONS CANCELLED = []"
| "ALLOWED_TRANSITIONS REJECTED = []"

definition terminal_state :: "OrderState \<Rightarrow> bool" where
  "terminal_state s \<longleftrightarrow> s \<in> {FILLED, CANCELLED, REJECTED}"

section \<open>Events and orders\<close>

record OrderEvent =
  ev_sequence :: int
  ev_at_utc :: datetime
  ev_from_state :: OrderState
  ev_to_state :: OrderState
  ev_filled_shares :: int
  ev_provenance :: string

text \<open>\<open>OrderEvent(...)\<close>: the field constraints and the validator \<open>require_utc\<close>.\<close>

definition validate_event :: "OrderEvent \<Rightarrow> py_error + OrderEvent" where
  "validate_event ev =
     (if ev_sequence ev < 1 then Inl (ValidationError ''sequence'')
      else if \<not> is_aware (ev_at_utc ev)
        then Inl (ValidationError ''order event timestamps must be timezone-aware'')
      else if \<not> is_utc (ev_at_utc ev)
        then Inl (ValidationError ''order event timestamps must be stored in UTC'')
      else if ev_filled_shares ev < 0 then Inl (ValidationError ''filled_shares'')
      else if ev_provenance ev = [] then Inl (ValidationError ''provenance'')
      else Inr ev)"

record OrderLifecycle =
  ol_client_order_id :: string
  ol_plan_id :: string
  ol_symbol :: string
  ol_requested_shares :: int
  ol_state :: OrderState
  ol_filled_shares :: int
  ol_events :: "OrderEvent list"

text \<open>
  \<open>OrderLifecycle(...)\<close> and \<open>OrderLifecycle.model_validate\<close>: the field constraints, the symbol
  normaliser, and the model validator \<open>validate_fills\<close>.
\<close>

definition validate_lifecycle :: "OrderLifecycle \<Rightarrow> py_error + OrderLifecycle" where
  "validate_lifecycle o' =
     (if ol_client_order_id o' = [] then Inl (ValidationError ''client_order_id'')
      else if ol_plan_id o' = [] then Inl (ValidationError ''plan_id'')
      else if ol_symbol o' = [] then Inl (ValidationError ''symbol'')
      else if ol_requested_shares o' \<le> 0 then Inl (ValidationError ''requested_shares'')
      else if ol_filled_shares o' < 0 then Inl (ValidationError ''filled_shares'')
      else if ol_requested_shares o' < ol_filled_shares o'
        then Inl (ValidationError ''filled_shares cannot exceed requested_shares'')
      else if ol_state o' = FILLED \<and> ol_filled_shares o' \<noteq> ol_requested_shares o'
        then Inl (ValidationError ''filled order must equal requested_shares'')
      else Inr (o'\<lparr>ol_symbol := py_upper (py_strip (ol_symbol o'))\<rparr>))"

definition new_order :: "string \<Rightarrow> string \<Rightarrow> string \<Rightarrow> int \<Rightarrow> py_error + OrderLifecycle" where
  \<comment> \<open>the constructor with the defaults of \<open>state\<close>, \<open>filled_shares\<close> and \<open>events\<close>\<close>
  "new_order cid pid symb shares = validate_lifecycle
     \<lparr>ol_client_order_id = cid, ol_plan_id = pid, ol_symbol = symb, ol_requested_shares = shares,
      ol_state = CREATED, ol_filled_shares = 0, ol_events = []\<rparr>"

section \<open>apply_transition\<close>

definition apply_transition ::
    "OrderLifecycle \<Rightarrow> OrderState \<Rightarrow> datetime \<Rightarrow> string \<Rightarrow> int option
       \<Rightarrow> py_error + OrderLifecycle" where
  "apply_transition order next_state at_utc provenance filled_shares =
     (if next_state \<notin> set (ALLOWED_TRANSITIONS (ol_state order))
      then Inl (ValueError (''illegal order transition: '' @ state_value (ol_state order) @ '' -> ''
                            @ state_value next_state))
      else let new_filled = (case filled_shares of None \<Rightarrow> ol_filled_shares order | Some n \<Rightarrow> n) in
        if new_filled < ol_filled_shares order
        then Inl (ValueError ''filled_shares cannot decrease'')
        else if next_state = PARTIALLY_FILLED \<and>
                \<not> (ol_filled_shares order < new_filled \<and> new_filled < ol_requested_shares order)
        then Inl (ValueError ''partial fill must increase and remain below requested_shares'')
        else if next_state = FILLED \<and> new_filled \<noteq> ol_requested_shares order
        then Inl (ValueError ''filled transition requires all requested shares'')
        else (case validate_event
                 \<lparr>ev_sequence = int (length (ol_events order)) + 1, ev_at_utc = at_utc,
                  ev_from_state = ol_state order, ev_to_state = next_state,
                  ev_filled_shares = new_filled, ev_provenance = provenance\<rparr> of
                Inl e \<Rightarrow> Inl e
              | Inr ev \<Rightarrow> validate_lifecycle
                  (order\<lparr>ol_state := next_state, ol_filled_shares := new_filled,
                         ol_events := ol_events order @ [ev]\<rparr>)))"

section \<open>The invariant of an order\<close>

text \<open>
  \<open>event_chain s f evs\<close>: the events start from state \<open>s\<close> with \<open>f\<close> shares filled, each starts in
  the state the one before reached, follows the transition table and never lowers the fill.
\<close>

fun event_chain :: "OrderState \<Rightarrow> int \<Rightarrow> OrderEvent list \<Rightarrow> bool" where
  "event_chain s f [] = True"
| "event_chain s f (ev # evs) =
     (ev_from_state ev = s \<and> ev_to_state ev \<in> set (ALLOWED_TRANSITIONS s) \<and>
      f \<le> ev_filled_shares ev \<and> is_utc (ev_at_utc ev) \<and>
      event_chain (ev_to_state ev) (ev_filled_shares ev) evs)"

fun chain_end :: "OrderState \<times> int \<Rightarrow> OrderEvent list \<Rightarrow> OrderState \<times> int" where
  "chain_end p [] = p"
| "chain_end p (ev # evs) = chain_end (ev_to_state ev, ev_filled_shares ev) evs"

definition order_ok :: "OrderLifecycle \<Rightarrow> bool" where
  "order_ok o' \<longleftrightarrow>
     ol_client_order_id o' \<noteq> [] \<and> ol_plan_id o' \<noteq> [] \<and> 0 < ol_requested_shares o' \<and>
     0 \<le> ol_filled_shares o' \<and> ol_filled_shares o' \<le> ol_requested_shares o' \<and>
     (ol_state o' = FILLED \<longrightarrow> ol_filled_shares o' = ol_requested_shares o') \<and>
     event_chain CREATED 0 (ol_events o') \<and>
     chain_end (CREATED, 0) (ol_events o') = (ol_state o', ol_filled_shares o') \<and>
     map ev_sequence (ol_events o') = map (\<lambda>i. int i + 1) [0..<length (ol_events o')]"

lemma event_chain_snoc [simp]:
  "event_chain s f (evs @ [ev]) \<longleftrightarrow>
     event_chain s f evs \<and>
     (case chain_end (s, f) evs of (s', f') \<Rightarrow>
        ev_from_state ev = s' \<and> ev_to_state ev \<in> set (ALLOWED_TRANSITIONS s') \<and>
        f' \<le> ev_filled_shares ev \<and> is_utc (ev_at_utc ev))"
  by (induction evs arbitrary: s f) auto

lemma chain_end_snoc [simp]:
  "chain_end p (evs @ [ev]) = (ev_to_state ev, ev_filled_shares ev)"
  by (induction evs arbitrary: p) auto

text \<open>Everything a successful transition says about its result.\<close>

lemma apply_transition_Inr:
  assumes "apply_transition order ns tm prov fs = Inr order'"
  shows "ns \<in> set (ALLOWED_TRANSITIONS (ol_state order))"
    and "ol_state order' = ns"
    and "ol_filled_shares order \<le> ol_filled_shares order'"
    and "ol_filled_shares order' = (case fs of None \<Rightarrow> ol_filled_shares order | Some n \<Rightarrow> n)"
    and "ol_filled_shares order' \<le> ol_requested_shares order"
    and "ns = FILLED \<longrightarrow> ol_filled_shares order' = ol_requested_shares order"
    and "ns = PARTIALLY_FILLED \<longrightarrow> ol_filled_shares order < ol_filled_shares order'
           \<and> ol_filled_shares order' < ol_requested_shares order"
    and "ol_events order' = ol_events order @
          [\<lparr>ev_sequence = int (length (ol_events order)) + 1, ev_at_utc = tm,
            ev_from_state = ol_state order, ev_to_state = ns,
            ev_filled_shares = ol_filled_shares order', ev_provenance = prov\<rparr>]"
    and "ol_client_order_id order' = ol_client_order_id order"
    and "ol_plan_id order' = ol_plan_id order"
    and "ol_requested_shares order' = ol_requested_shares order"
    and "ol_symbol order' = py_upper (py_strip (ol_symbol order))"
    and "is_utc tm" and "prov \<noteq> []" and "0 < ol_requested_shares order"
    and "0 \<le> ol_filled_shares order'"
    and "ol_client_order_id order \<noteq> []" and "ol_plan_id order \<noteq> []"
  using assms
  by (auto simp: apply_transition_def validate_event_def validate_lifecycle_def Let_def
      split: if_splits option.splits)

lemma validate_lifecycle_Inr:
  "validate_lifecycle o1 = Inr o2 \<Longrightarrow>
     o2 = o1\<lparr>ol_symbol := py_upper (py_strip (ol_symbol o1))\<rparr> \<and>
     ol_client_order_id o1 \<noteq> [] \<and> ol_plan_id o1 \<noteq> [] \<and> ol_symbol o1 \<noteq> [] \<and>
     0 < ol_requested_shares o1 \<and> 0 \<le> ol_filled_shares o1 \<and>
     ol_filled_shares o1 \<le> ol_requested_shares o1 \<and>
     (ol_state o1 = FILLED \<longrightarrow> ol_filled_shares o1 = ol_requested_shares o1)"
  by (auto simp: validate_lifecycle_def split: if_splits)

lemma order_ok_new_order: "new_order cid pid symb n = Inr o' \<Longrightarrow> order_ok o'"
  by (auto simp: new_order_def order_ok_def dest!: validate_lifecycle_Inr)

lemma order_ok_transition:
  assumes ok: "order_ok order" and step: "apply_transition order ns tm prov fs = Inr order'"
  shows "order_ok order'"
  using ok apply_transition_Inr [OF step]
  by (auto simp: order_ok_def)

lemma terminal_no_transition:
  "terminal_state (ol_state order) \<Longrightarrow> \<exists>e. apply_transition order ns tm prov fs = Inl e"
  by (auto simp: terminal_state_def apply_transition_def)

lemma terminal_iff: "terminal_state s \<longleftrightarrow> ALLOWED_TRANSITIONS s = []"
  by (cases s) (auto simp: terminal_state_def)

section \<open>Runs of transitions\<close>

text \<open>A transition request: the arguments of one call of \<open>apply_transition\<close>.\<close>

type_synonym transition = "OrderState \<times> datetime \<times> string \<times> int option"

fun run_transitions :: "OrderLifecycle \<Rightarrow> transition list \<Rightarrow> py_error + OrderLifecycle" where
  "run_transitions order [] = Inr order"
| "run_transitions order ((ns, tm, prov, fs) # ts) =
     (case apply_transition order ns tm prov fs of
        Inl e \<Rightarrow> Inl e
      | Inr order' \<Rightarrow> run_transitions order' ts)"

text \<open>
  The largest number of transitions that can still be made.  Each partial fill raises the fill by
  at least one share, and a cancel request can be answered by another partial fill, so the bound
  is twice the open quantity, plus what the state itself still allows.
\<close>

fun state_rank :: "OrderState \<Rightarrow> int" where
  "state_rank CREATED = 5"
| "state_rank PENDING_RISK = 4"
| "state_rank APPROVED = 3"
| "state_rank SUBMITTED = 2"
| "state_rank PARTIALLY_FILLED = 2"
| "state_rank CANCEL_PENDING = 1"
| "state_rank _ = 0"

definition order_measure :: "OrderLifecycle \<Rightarrow> int" where
  "order_measure o' = 2 * (ol_requested_shares o' - ol_filled_shares o') + state_rank (ol_state o')"

lemma order_measure_nonneg: "order_ok o' \<Longrightarrow> 0 \<le> order_measure o'"
  by (cases "ol_state o'") (auto simp: order_ok_def order_measure_def)

lemma order_measure_decreases:
  assumes "apply_transition order ns tm prov fs = Inr order'"
  shows "order_measure order' < order_measure order"
  using apply_transition_Inr [OF assms]
  by (cases "ol_state order") (auto simp: order_measure_def)

section \<open>Properties\<close>

lemma run_transitions_facts:
  assumes "order_ok order" and "run_transitions order ts = Inr order'"
  shows "order_ok order' \<and> ol_filled_shares order \<le> ol_filled_shares order' \<and>
     ol_requested_shares order' = ol_requested_shares order \<and>
     (\<exists>evs. ol_events order' = ol_events order @ evs \<and> length evs = length ts) \<and>
     int (length ts) \<le> order_measure order - order_measure order'"
  using assms
proof (induction ts arbitrary: order)
  case Nil
  then show ?case by simp
next
  case (Cons tr ts)
  obtain ns tm prov fs where tr: "tr = (ns, tm, prov, fs)" by (cases tr)
  then obtain mid where mid: "apply_transition order ns tm prov fs = Inr mid"
    and rest: "run_transitions mid ts = Inr order'"
    using Cons.prems(2) by (auto split: sum.splits)
  note ih = Cons.IH [OF order_ok_transition [OF Cons.prems(1) mid] rest]
  note st = apply_transition_Inr [OF mid] and m = order_measure_decreases [OF mid]
  have "\<exists>evs. ol_events order' = ol_events order @ evs \<and> length evs = Suc (length ts)"
    using ih st(8) by force
  with ih st m show ?case by auto
qed

text \<open>C4: a run of successful transitions keeps the order's history well formed (sequence numbers
  without gaps, each event starting where the one before ended, fills that never shrink nor exceed
  the request), appends one event per transition, and is at most twice the requested quantity plus
  five transitions long.\<close>

theorem order_run_bounded:
  assumes "new_order cid pid symb n = Inr order" and "run_transitions order ts = Inr order'"
  shows "order_ok order' \<and> length (ol_events order') = length ts \<and> int (length ts) \<le> 2 * n + 5"
proof -
  have new: "ol_events order = []" "ol_requested_shares order = n" "ol_filled_shares order = 0"
    "ol_state order = CREATED"
    using assms(1) by (auto simp: new_order_def dest!: validate_lifecycle_Inr)
  note f = run_transitions_facts [OF order_ok_new_order [OF assms(1)] assms(2)]
  have "0 \<le> order_measure order'" using f by (intro order_measure_nonneg) simp
  with f new show ?thesis by (auto simp: order_measure_def)
qed

lemma order_run_bounded_witness:
  "\<exists>order order'. new_order ''c'' ''p'' ''AAPL'' 3 = Inr order \<and>
     run_transitions order [(PENDING_RISK, utc 1, ''a'', None), (APPROVED, utc 2, ''b'', None),
       (SUBMITTED, utc 3, ''c'', None), (PARTIALLY_FILLED, utc 4, ''d'', Some 2),
       (FILLED, utc 5, ''e'', Some 3)] = Inr order' \<and> length (ol_events order') = 5"
proof -
  let ?ts = "[(PENDING_RISK, utc 1, ''a'', None), (APPROVED, utc 2, ''b'', None),
       (SUBMITTED, utc 3, ''c'', None), (PARTIALLY_FILLED, utc 4, ''d'', Some 2),
       (FILLED, utc 5, ''e'', Some (3::int))]"
  let ?o = "new_order ''c'' ''p'' ''AAPL'' 3"
  have "(case ?o of Inl _ \<Rightarrow> False | Inr order \<Rightarrow>
      (case run_transitions order ?ts of Inl _ \<Rightarrow> False | Inr _ \<Rightarrow> True))"
    by code_simp
  then obtain order order' where r: "?o = Inr order" "run_transitions order ?ts = Inr order'"
    by (auto split: sum.splits)
  then show ?thesis using order_run_bounded [OF r] by auto
qed

end
