(* ===== verification/Contracts.thy ===== *)
theory Contracts
  imports Prelude
begin

text \<open>
  The interfaces that several components share, as locales.  \<open>once_store\<close> is the contract of
  every idempotent ledger of the system: the first caller binds a key, later callers with the
  same intent read the binding back, callers with another intent are refused and change nothing.
  \<open>guarded_machine\<close> is the contract of every component that is driven by commands: each command
  keeps an invariant and moves the state up a preorder, so a whole run does.  \<open>row_cycle\<close> is the
  contract of a table whose rows only move forward.  \<open>hoare\<close> states assertions about an operation with
  separate conclusions for results and for errors.
\<close>

section \<open>Idempotent ledgers\<close>

locale once_store =
  fixes look :: "'s \<Rightarrow> 'k \<Rightarrow> 'r option"
    and ensure :: "'i \<Rightarrow> ('s, 'r) op"
    and key :: "'i \<Rightarrow> 'k"
    and fits :: "'i \<Rightarrow> 'r \<Rightarrow> bool"
    and legit :: "'i \<Rightarrow> bool"
    and good :: "'s \<Rightarrow> bool"
  assumes ensure_hit: "good s \<Longrightarrow> legit i \<Longrightarrow> ensure i s = (Inr r, t) \<Longrightarrow>
      look s (key i) = Some q \<Longrightarrow> t = s \<and> r = q \<and> fits i q"
    and ensure_miss: "good s \<Longrightarrow> legit i \<Longrightarrow> ensure i s = (Inr r, t) \<Longrightarrow>
      look s (key i) = None \<Longrightarrow> look t (key i) = Some r \<and> fits i r"
    and ensure_frame: "good s \<Longrightarrow> legit i \<Longrightarrow> ensure i s = (x, t) \<Longrightarrow>
      k \<noteq> key i \<Longrightarrow> look t k = look s k"
    and ensure_error: "good s \<Longrightarrow> legit i \<Longrightarrow> ensure i s = (Inl e, t) \<Longrightarrow> t = s"
    and ensure_good: "good s \<Longrightarrow> legit i \<Longrightarrow> ensure i s = (x, t) \<Longrightarrow> good t"
begin

text \<open>After a success the key is bound to the returned record.\<close>

lemma ensure_binds:
  assumes "good s" and "legit i" and "ensure i s = (Inr r, t)"
  shows "look t (key i) = Some r \<and> fits i r"
proof (cases "look s (key i)")
  case None
  with assms show ?thesis by (simp add: ensure_miss)
next
  case (Some q)
  then have "t = s \<and> r = q \<and> fits i q" by (rule ensure_hit [OF assms])
  with Some show ?thesis by simp
qed

text \<open>A call with another intent for a bound key is refused and changes nothing.\<close>

lemma ensure_conflict:
  assumes "good s" and "legit i" and "look s (key i) = Some q" and "\<not> fits i q"
  shows "\<exists>e. ensure i s = (Inl e, s)"
proof (cases "ensure i s")
  case (Pair x t)
  show ?thesis
  proof (cases x)
    case (Inl e)
    with Pair ensure_error [OF assms(1,2)] show ?thesis by auto
  next
    case (Inr r)
    with Pair ensure_hit [OF assms(1,2) _ assms(3)] assms(4) show ?thesis by auto
  qed
qed

text \<open>A binding, once made, survives every later call, whatever that call asks for.\<close>

lemma ensure_keeps:
  assumes "good s" and "legit i" and "look s k = Some r"
  shows "look (snd (ensure i s)) k = Some r"
proof (cases "ensure i s")
  case (Pair x t)
  show ?thesis
  proof (cases "k = key i")
    case False
    with Pair ensure_frame [OF assms(1,2) Pair False] assms(3) show ?thesis by simp
  next
    case True
    have "t = s"
    proof (cases x)
      case (Inl e)
      with Pair ensure_error [OF assms(1,2)] show ?thesis by auto
    next
      case (Inr y)
      with Pair ensure_hit [OF assms(1,2)] assms(3) True show ?thesis by auto
    qed
    with Pair assms(3) show ?thesis by simp
  qed
qed

text \<open>A run of calls, as one process or several would issue them.\<close>

fun ensure_all :: "'i list \<Rightarrow> 's \<Rightarrow> 's" where
  "ensure_all [] s = s"
| "ensure_all (i # is) s = ensure_all is (snd (ensure i s))"

lemma ensure_all_good: "good s \<Longrightarrow> list_all legit is \<Longrightarrow> good (ensure_all is s)"
proof (induction "is" arbitrary: s)
  case (Cons i "is")
  then show ?case using ensure_good [of s i "fst (ensure i s)" "snd (ensure i s)"] by simp
qed simp

lemma ensure_all_keeps:
  "good s \<Longrightarrow> list_all legit is \<Longrightarrow> look s k = Some r \<Longrightarrow> look (ensure_all is s) k = Some r"
proof (induction "is" arbitrary: s)
  case (Cons i "is")
  then have "good (snd (ensure i s))"
    using ensure_good [of s i "fst (ensure i s)" "snd (ensure i s)"] by simp
  moreover have "look (snd (ensure i s)) k = Some r"
    using Cons.prems by (simp add: ensure_keeps)
  ultimately show ?case using Cons by simp
qed simp

text \<open>
  Exactly once: whatever happened after the first success, a repetition of the call that
  succeeds returns the first record, and a call with another intent for the key is refused.
\<close>

lemma replay_returns_first:
  assumes "good s" and "legit i" and "ensure i s = (Inr r, t)" and "list_all legit is"
    and "legit j" and "key j = key i" and "ensure j (ensure_all is t) = (Inr q, u)"
  shows "q = r \<and> u = ensure_all is t"
proof -
  have t: "good t" using assms(1-3) by (rule ensure_good)
  have "look t (key i) = Some r" using ensure_binds [OF assms(1-3)] by simp
  then have "look (ensure_all is t) (key j) = Some r"
    using t assms(4,6) by (simp add: ensure_all_keeps)
  then show ?thesis
    using ensure_hit [OF ensure_all_good [OF t assms(4)] assms(5,7)] by blast
qed

lemma conflict_refused:
  assumes "good s" and "legit i" and "ensure i s = (Inr r, t)" and "list_all legit is"
    and "legit j" and "key j = key i" and "\<not> fits j r"
  shows "\<exists>e. ensure j (ensure_all is t) = (Inl e, ensure_all is t)"
proof -
  have t: "good t" using assms(1-3) by (rule ensure_good)
  have "look t (key i) = Some r" using ensure_binds [OF assms(1-3)] by simp
  then have "look (ensure_all is t) (key j) = Some r"
    using t assms(4,6) by (simp add: ensure_all_keeps)
  then show ?thesis
    using ensure_conflict [OF ensure_all_good [OF t assms(4)] assms(5)] assms(7) by blast
qed

end

section \<open>Operations that keep an invariant and only move up\<close>

text \<open>
  \<open>keeps P R m\<close>: from a good state, \<open>m\<close> ends in a good state above it, whether it returns
  or raises.  The combinators of the operations keep what their parts keep, so one lemma per
  primitive operation gives the whole handler.
\<close>

definition keeps :: "('s \<Rightarrow> bool) \<Rightarrow> ('s \<Rightarrow> 's \<Rightarrow> bool) \<Rightarrow> ('s, 'a) op \<Rightarrow> bool" where
  "keeps P R m \<longleftrightarrow> (\<forall>s. P s \<longrightarrow> P (snd (m s)) \<and> R s (snd (m s)))"

lemma keepsI:
  "(\<And>s. P s \<Longrightarrow> P (snd (m s)) \<and> R s (snd (m s))) \<Longrightarrow> keeps P R m"
  by (simp add: keeps_def)

lemma keepsD: "keeps P R m \<Longrightarrow> P s \<Longrightarrow> P (snd (m s)) \<and> R s (snd (m s))"
  by (simp add: keeps_def)

lemma keeps_attempt: "keeps P R m \<Longrightarrow> keeps P R (attemptS handles m)"
  by (simp add: keeps_def)

text \<open>On a pair of stores of which the second one is watched.\<close>

lemma keeps_on_snd: "keeps P R m \<Longrightarrow> keeps (\<lambda>p. P (snd p)) (\<lambda>p q. R (snd p) (snd q)) (on_snd m)"
  by (auto simp: keeps_def on_snd_def split: prod.split)

lemma keeps_on_fst: "(\<And>x. R x x) \<Longrightarrow> keeps (\<lambda>p. P (snd p)) (\<lambda>p q. R (snd p) (snd q)) (on_fst m)"
  by (auto simp: keeps_def on_fst_def split: prod.split)

named_theorems keeps_intro \<open>operations that keep an invariant\<close>

locale growing =
  fixes inv :: "'s \<Rightarrow> bool"
    and below :: "'s \<Rightarrow> 's \<Rightarrow> bool"
  assumes below_refl: "below s s"
    and below_trans: "inv s \<Longrightarrow> inv t \<Longrightarrow> below s t \<Longrightarrow> below t u \<Longrightarrow> below s u"
begin

lemma keeps_still: "(\<And>s. snd (m s) = s) \<Longrightarrow> keeps inv below m"
  by (simp add: keeps_def below_refl)

lemma keeps_return: "keeps inv below (returnS x)"
  by (simp add: keeps_still)

lemma keeps_raise: "keeps inv below (raiseS e)"
  by (simp add: keeps_still)

lemma keeps_read: "keeps inv below (readS f)"
  by (simp add: keeps_still)

lemma keeps_guard: "keeps inv below (guardS b e)"
  by (rule keeps_still) (simp add: guardS_run)

lemma keeps_lift: "keeps inv below (liftS r)"
  by (rule keeps_still) (simp add: liftS_run split: sum.split)

lemma keeps_bind:
  assumes m: "keeps inv below m" and f: "\<And>x. keeps inv below (f x)"
  shows "keeps inv below (bindS m f)"
proof (rule keepsI)
  fix s assume s: "inv s"
  obtain r t where mt: "m s = (r, t)" by (cases "m s")
  have t: "inv t" "below s t" using keepsD [OF m s] mt by simp_all
  show "inv (snd (bindS m f s)) \<and> below s (snd (bindS m f s))"
  proof (cases r)
    case (Inl e)
    with mt t show ?thesis by simp
  next
    case (Inr x)
    have "inv (snd (f x t))" "below t (snd (f x t))" using keepsD [OF f t(1)] by simp_all
    with Inr mt t s show ?thesis using below_trans [OF s t(1) t(2)] by simp
  qed
qed

lemma keeps_then: "keeps inv below m \<Longrightarrow> keeps inv below n \<Longrightarrow> keeps inv below (thenS m n)"
  by (simp add: thenS_def keeps_bind)

lemma keeps_transaction: "keeps inv below m \<Longrightarrow> keeps inv below (transactionS m)"
  by (auto simp: keeps_def transactionS_run below_refl split: prod.split sum.split)

lemma keeps_if: "(b \<Longrightarrow> keeps inv below m) \<Longrightarrow> (\<not> b \<Longrightarrow> keeps inv below n) \<Longrightarrow>
    keeps inv below (if b then m else n)"
  by simp

lemma keeps_option:
  "keeps inv below m \<Longrightarrow> (\<And>x. keeps inv below (f x)) \<Longrightarrow>
   keeps inv below (case opt of None \<Rightarrow> m | Some x \<Rightarrow> f x)"
  by (cases opt) simp_all

lemma keeps_sum:
  "(\<And>e. keeps inv below (g e)) \<Longrightarrow> (\<And>x. keeps inv below (f x)) \<Longrightarrow>
   keeps inv below (case r of Inl e \<Rightarrow> g e | Inr x \<Rightarrow> f x)"
  by (cases r) simp_all

lemma keeps_map:
  assumes "\<And>x. keeps inv below (f x)"
  shows "keeps inv below (mapS f xs)"
proof (induction xs)
  case Nil
  show ?case unfolding mapS.simps by (rule keeps_return)
next
  case (Cons x xs)
  then show ?case unfolding mapS.simps by (intro keeps_bind keeps_return assms)
qed

lemmas keeps_rules = keeps_return keeps_raise keeps_read keeps_guard keeps_lift keeps_bind
  keeps_then keeps_transaction keeps_attempt keeps_if keeps_option keeps_sum keeps_map

end

section \<open>Command-driven machines\<close>

locale guarded_machine = growing inv below
  for inv :: "'s \<Rightarrow> bool" and below :: "'s \<Rightarrow> 's \<Rightarrow> bool" +
  fixes exec :: "'c \<Rightarrow> 's \<Rightarrow> 's"
  assumes exec_inv: "inv s \<Longrightarrow> inv (exec c s)"
    and exec_up: "inv s \<Longrightarrow> below s (exec c s)"
begin

definition run_all :: "'c list \<Rightarrow> 's \<Rightarrow> 's" where
  "run_all cs s = fold exec cs s"

lemma run_all_inv: "inv s \<Longrightarrow> inv (run_all cs s)"
  unfolding run_all_def by (induction cs arbitrary: s) (auto intro: exec_inv)

lemma run_all_up: "inv s \<Longrightarrow> below s (run_all cs s)"
  unfolding run_all_def
proof (induction cs arbitrary: s)
  case Nil
  show ?case by (simp add: below_refl)
next
  case (Cons c cs)
  have "below s (exec c s)" using Cons.prems by (rule exec_up)
  moreover have "below (exec c s) (fold exec cs (exec c s))"
    using Cons by (simp add: exec_inv)
  ultimately show ?case
    using below_trans [OF Cons.prems exec_inv [OF Cons.prems]] by simp
qed

end

section \<open>Tables whose rows have a life cycle\<close>

text \<open>
  \<open>table_ok\<close>: the primary key is unique and every row is well-formed.  \<open>table_up\<close>: no row is lost,
  and every row has moved up its own order.
\<close>

definition table_ok :: "('r \<Rightarrow> 'k) \<Rightarrow> ('r \<Rightarrow> bool) \<Rightarrow> 'r list \<Rightarrow> bool" where
  "table_ok key row_ok t \<longleftrightarrow> keys_unique key t \<and> list_all row_ok t"

definition table_up :: "('r \<Rightarrow> 'k) \<Rightarrow> ('r \<Rightarrow> 'r \<Rightarrow> bool) \<Rightarrow> 'r list \<Rightarrow> 'r list \<Rightarrow> bool" where
  "table_up key row_up t t' \<longleftrightarrow> list_all (\<lambda>r. case tbl_find key (key r) t' of
       None \<Rightarrow> False | Some r' \<Rightarrow> row_up r r') t"

lemma table_ok_Nil [simp]: "table_ok key row_ok []"
  by (simp add: table_ok_def)

lemma table_ok_find: "table_ok key row_ok t \<Longrightarrow> tbl_find key k t = Some r \<Longrightarrow> row_ok r \<and> key r = k"
  by (auto simp: table_ok_def list_all_iff dest: tbl_find_SomeD)

lemma table_upD:
  assumes "table_up key row_up t t'" and "tbl_find key k t = Some r"
  shows "\<exists>r'. tbl_find key k t' = Some r' \<and> row_up r r'"
proof -
  have "r \<in> set t" "key r = k" using tbl_find_SomeD [OF assms(2)] by simp_all
  with assms(1) show ?thesis by (auto simp: table_up_def list_all_iff split: option.splits)
qed

text \<open>An UPDATE by key touches the one row of that key.\<close>

lemma tbl_update_one:
  assumes "keys_unique key t" and "tbl_find key k t = Some r"
  shows "tbl_update key k f t = tbl_update key k (\<lambda>q. if key q = k then f r else q) t"
proof -
  have "q = r" if "q \<in> set t" "key q = k" for q
    using that assms(2) tbl_find_unique [OF assms(1) that(1)] by simp
  then show ?thesis unfolding tbl_update_def by (intro map_cong) auto
qed

lemma table_find_update:
  assumes ok: "table_ok key row_ok t" and r: "tbl_find key k t = Some r" and same: "key (f r) = k"
  shows "tbl_find key j (tbl_update key k f t) = (if j = k then Some (f r) else tbl_find key j t)"
proof -
  let ?g = "\<lambda>q. if key q = k then f r else q"
  have uniq: "keys_unique key t" using ok by (simp add: table_ok_def)
  have "key (?g q) = key q" for q using same by simp
  from tbl_find_update [of key ?g j k t, OF this] r tbl_find_key [OF r] show ?thesis
    unfolding tbl_update_one [OF uniq r, of f] by simp
qed

lemma table_ok_update:
  assumes ok: "table_ok key row_ok t" and r: "tbl_find key k t = Some r"
    and new: "key (f r) = k" "row_ok (f r)"
  shows "table_ok key row_ok (tbl_update key k f t)"
proof -
  let ?g = "\<lambda>q. if key q = k then f r else q"
  have uniq: "keys_unique key t" using ok by (simp add: table_ok_def)
  have "key (?g q) = key q" for q using new by simp
  then have "keys_unique key (tbl_update key k ?g t)" using uniq by (intro keys_unique_update) simp_all
  moreover have "list_all row_ok (tbl_update key k ?g t)"
    using ok new by (auto simp: table_ok_def list_all_iff in_set_tbl_update)
  ultimately show ?thesis unfolding table_ok_def tbl_update_one [OF uniq r, of f] by simp
qed

locale row_cycle =
  fixes key :: "'r \<Rightarrow> 'k" and row_ok :: "'r \<Rightarrow> bool" and row_up :: "'r \<Rightarrow> 'r \<Rightarrow> bool"
  assumes row_up_refl: "row_ok r \<Longrightarrow> row_up r r"
    and row_up_trans: "row_up r s \<Longrightarrow> row_up s t \<Longrightarrow> row_up r t"
begin

lemma table_up_refl: "table_ok key row_ok t \<Longrightarrow> table_up key row_up t t"
  by (auto simp: table_ok_def table_up_def list_all_iff tbl_find_unique row_up_refl)

lemma table_upI:
  assumes "keys_unique key t"
    and "\<And>k r. tbl_find key k t = Some r \<Longrightarrow> \<exists>r'. tbl_find key k t' = Some r' \<and> row_up r r'"
  shows "table_up key row_up t t'"
  unfolding table_up_def list_all_iff
proof
  fix r assume "r \<in> set t"
  from assms(2) [OF tbl_find_unique [OF assms(1) this]]
  show "case tbl_find key (key r) t' of None \<Rightarrow> False | Some r' \<Rightarrow> row_up r r'" by auto
qed

lemma table_up_trans:
  assumes "keys_unique key s" and "table_up key row_up s t" and "table_up key row_up t u"
  shows "table_up key row_up s u"
proof (rule table_upI [OF assms(1)])
  fix k r assume "tbl_find key k s = Some r"
  from table_upD [OF assms(2) this] obtain r' where "tbl_find key k t = Some r'" "row_up r r'" by blast
  moreover from table_upD [OF assms(3) this(1)] obtain r'' where "tbl_find key k u = Some r''" "row_up r' r''"
    by blast
  ultimately show "\<exists>r'. tbl_find key k u = Some r' \<and> row_up r r'" using row_up_trans by blast
qed

text \<open>A step replaces one row by a later one of the same key, or adds a row with a new key.\<close>

lemma update_keeps:
  assumes ok: "table_ok key row_ok t" and r: "tbl_find key k t = Some r"
    and new: "key (f r) = k" "row_ok (f r)" "row_up r (f r)"
  shows "table_ok key row_ok (tbl_update key k f t) \<and> table_up key row_up t (tbl_update key k f t)"
proof -
  have "table_up key row_up t (tbl_update key k f t)"
  proof (rule table_upI)
    show "keys_unique key t" using ok by (simp add: table_ok_def)
    fix j q assume q: "tbl_find key j t = Some q"
    have "row_up q q" using table_ok_find [OF ok q] by (simp add: row_up_refl)
    with q r new(3) show "\<exists>r'. tbl_find key j (tbl_update key k f t) = Some r' \<and> row_up q r'"
      by (cases "j = k") (auto simp: table_find_update [where f = f, OF ok r new(1)])
  qed
  with table_ok_update [where f = f, OF ok r new(1,2)] show ?thesis ..
qed

lemma insert_keeps:
  assumes ok: "table_ok key row_ok t" and new: "tbl_find key (key r) t = None" "row_ok r"
  shows "table_ok key row_ok (tbl_insert r t) \<and> table_up key row_up t (tbl_insert r t)"
  using ok new tbl_find_unique [of key t]
  by (auto simp: table_ok_def table_up_def list_all_iff keys_unique_insert tbl_find_insert row_up_refl)

lemma same_keeps: "table_ok key row_ok t \<Longrightarrow> table_ok key row_ok t \<and> table_up key row_up t t"
  by (simp add: table_up_refl)

text \<open>A run of commands each of which is such a step.\<close>

lemma run_keeps:
  assumes step: "\<And>c t. table_ok key row_ok t \<Longrightarrow>
      table_ok key row_ok (exec c t) \<and> table_up key row_up t (exec c t)"
    and ok: "table_ok key row_ok t"
  shows "table_ok key row_ok (fold exec cs t) \<and> table_up key row_up t (fold exec cs t)"
  using ok
proof (induction cs arbitrary: t)
  case Nil
  then show ?case by (simp add: table_up_refl)
next
  case (Cons c cs)
  from step [OF Cons.prems, of c] Cons.IH [of "exec c t"] show ?case
    using Cons.prems by (auto simp: table_ok_def intro: table_up_trans)
qed

end

section \<open>Assertions about operations\<close>

text \<open>
  \<open>hoare P m Q E\<close>: from a state that satisfies \<open>P\<close>, \<open>m\<close> either returns a value that \<open>Q\<close> accepts in
  the state it leaves, or raises an error that \<open>E\<close> accepts there.
\<close>

definition hoare :: "('s \<Rightarrow> bool) \<Rightarrow> ('s, 'a) op \<Rightarrow> ('a \<Rightarrow> 's \<Rightarrow> bool) \<Rightarrow> (py_error \<Rightarrow> 's \<Rightarrow> bool) \<Rightarrow> bool" where
  "hoare P m Q E \<longleftrightarrow> (\<forall>s. P s \<longrightarrow> (case m s of (Inl e, t) \<Rightarrow> E e t | (Inr x, t) \<Rightarrow> Q x t))"

named_theorems hoare_rules \<open>one rule per combinator\<close>

lemma hoareI: "(\<And>s. P s \<Longrightarrow> case m s of (Inl e, t) \<Rightarrow> E e t | (Inr x, t) \<Rightarrow> Q x t) \<Longrightarrow> hoare P m Q E"
  by (simp add: hoare_def)

lemma hoareD: "hoare P m Q E \<Longrightarrow> P s \<Longrightarrow> m s = (Inr x, t) \<Longrightarrow> Q x t"
  "hoare P m Q E \<Longrightarrow> P s \<Longrightarrow> m s = (Inl e, t) \<Longrightarrow> E e t"
  by (auto simp: hoare_def)

lemma hoare_weaken:
  "hoare P m Q E \<Longrightarrow> (\<And>s. P' s \<Longrightarrow> P s) \<Longrightarrow> (\<And>x s. Q x s \<Longrightarrow> Q' x s) \<Longrightarrow> (\<And>e s. E e s \<Longrightarrow> E' e s) \<Longrightarrow>
   hoare P' m Q' E'"
  by (fastforce simp: hoare_def split: prod.splits sum.splits)

lemma hoare_return [hoare_rules]: "(\<And>s. P s \<Longrightarrow> Q x s) \<Longrightarrow> hoare P (returnS x) Q E"
  by (simp add: hoare_def)

lemma hoare_raise [hoare_rules]: "(\<And>s. P s \<Longrightarrow> E e s) \<Longrightarrow> hoare P (raiseS e) Q E"
  by (simp add: hoare_def)

lemma hoare_lift [hoare_rules]:
  "(\<And>x s. r = Inr x \<Longrightarrow> P s \<Longrightarrow> Q x s) \<Longrightarrow> (\<And>e s. r = Inl e \<Longrightarrow> P s \<Longrightarrow> E e s) \<Longrightarrow> hoare P (liftS r) Q E"
  by (cases r) (simp_all add: hoare_def liftS_run)

lemma hoare_bind [hoare_rules]:
  "hoare P m R E \<Longrightarrow> (\<And>x. hoare (R x) (f x) Q E) \<Longrightarrow> hoare P (bindS m f) Q E"
  by (fastforce simp: hoare_def bindS_run split: prod.splits sum.splits)

lemma hoare_then [hoare_rules]:
  "hoare P m (\<lambda>_. R) E \<Longrightarrow> hoare R n Q E \<Longrightarrow> hoare P (thenS m n) Q E"
  unfolding thenS_def by (rule hoare_bind)

lemma hoare_attempt [hoare_rules]:
  "hoare P m (\<lambda>x. Q (Inr x)) (\<lambda>e. Q (Inl e)) \<Longrightarrow> hoare P (attemptS (\<lambda>_. True) m) Q E"
  by (fastforce simp: hoare_def attemptS_run split: prod.splits sum.splits)

lemma hoare_if [hoare_rules]:
  "(b \<Longrightarrow> hoare P m Q E) \<Longrightarrow> (\<not> b \<Longrightarrow> hoare P n Q E) \<Longrightarrow> hoare P (if b then m else n) Q E"
  by simp

lemma hoare_snd:
  "(\<And>b. hoare (\<lambda>l. P (b, l)) m (\<lambda>x l. Q x (b, l)) (\<lambda>e l. E e (b, l))) \<Longrightarrow> hoare P (on_snd m) Q E"
  by (fastforce simp: hoare_def on_snd_def split: prod.splits sum.splits)

lemma hoare_run:
  assumes "hoare P m (\<lambda>_. Q) (\<lambda>_. Q)" and "P s"
  shows "Q (snd (m s))"
  using assms hoareD [OF assms(1,2)] by (cases "m s"; cases "fst (m s)") simp_all

end
