(* ===== verification/OrderLedger.thy ===== *)
theory OrderLedger
  imports TradePlan OrderState Contracts
begin

text \<open>
  \<open>execution/ledger.py\<close>: the durable, idempotent SQLite ledger of orders, order events and trade
  plans.  A table is the list of its rows; a JSON column holds the value it encodes, and reading
  it back runs the model's validation again, as \<open>model_validate_json\<close> does.  The constraints of
  the schema (primary keys, UNIQUE, CHECK, the foreign key) are checks of the writing operations.
\<close>

section \<open>Tables\<close>

record order_row =
  or_client_order_id :: string
  or_broker_order_id :: "string option"
  or_plan_id :: string
  or_symbol :: string
  or_requested_shares :: int
  or_state :: OrderState
  or_lifecycle :: OrderLifecycle
  or_created_at_utc :: datetime
  or_updated_at_utc :: datetime

record order_event_row =
  oe_client_order_id :: string
  oe_event :: OrderEvent

record plan_row =
  pr_plan_id :: string
  pr_client_order_id :: string
  pr_trace_id :: string
  pr_symbol :: string
  pr_trade_date :: date
  pr_plan :: TradePlan
  pr_created_at_utc :: datetime

record order_ledger =
  lg_orders :: "order_row list"
  lg_order_events :: "order_event_row list"
  lg_trade_plans :: "plan_row list"

definition empty_ledger :: order_ledger where
  "empty_ledger = \<lparr>lg_orders = [], lg_order_events = [], lg_trade_plans = []\<rparr>"

abbreviation find_order :: "string \<Rightarrow> order_ledger \<Rightarrow> order_row option" where
  "find_order cid s \<equiv> tbl_find or_client_order_id cid (lg_orders s)"

abbreviation find_plan :: "string \<Rightarrow> order_ledger \<Rightarrow> plan_row option" where
  "find_plan pid s \<equiv> tbl_find pr_plan_id pid (lg_trade_plans s)"

section \<open>Plans\<close>

definition get_plan :: "string \<Rightarrow> (order_ledger, TradePlan option) op" where
  "get_plan pid = bindS (readS (find_plan pid)) (\<lambda>row. case row of
       None \<Rightarrow> returnS None
     | Some r \<Rightarrow> bindS (liftS (validate_plan (pr_plan r))) (\<lambda>p. returnS (Some p)))"

definition list_plans :: "(order_ledger, TradePlan list) op" where
  "list_plans = bindS (readS (\<lambda>s. sort_key (\<lambda>r. instant (pr_created_at_utc r))
                                     (sort_key pr_plan_id (lg_trade_plans s))))
     (mapS (\<lambda>r. liftS (validate_plan (pr_plan r))))"

text \<open>Python's \<open>==\<close> on two plans: field by field, decimals by value.\<close>

definition same_plan :: "TradePlan \<Rightarrow> TradePlan \<Rightarrow> bool" where
  "same_plan p q \<longleftrightarrow>
     tp_plan_id p = tp_plan_id q \<and> tp_trace_id p = tp_trace_id q \<and>
     tp_strategy_version p = tp_strategy_version q \<and> tp_symbol p = tp_symbol q \<and>
     tp_trade_date p = tp_trade_date q \<and>
     instant (tp_decision_asof_utc p) = instant (tp_decision_asof_utc q) \<and>
     instant (tp_created_at_utc p) = instant (tp_created_at_utc q) \<and>
     tp_side p = tp_side q \<and> tp_entry_order_type p = tp_entry_order_type q \<and>
     tp_time_in_force p = tp_time_in_force q \<and> tp_extended_hours p = tp_extended_hours q \<and>
     tp_quantity p = tp_quantity q \<and> dec_eq (tp_reference_price p) (tp_reference_price q) \<and>
     rel_option dec_eq (tp_entry_limit_price p) (tp_entry_limit_price q) \<and>
     dec_eq (tp_take_profit_price p) (tp_take_profit_price q) \<and>
     dec_eq (tp_stop_loss_price p) (tp_stop_loss_price q) \<and>
     instant (tp_time_stop_utc p) = instant (tp_time_stop_utc q) \<and>
     tp_source_snapshot_ids p = tp_source_snapshot_ids q \<and> tp_provenance p = tp_provenance q"

definition insert_plan :: "TradePlan \<Rightarrow> (order_ledger, unit) op" where
  \<comment> \<open>the INSERT with its two uniqueness constraints\<close>
  "insert_plan plan =
     bindS (readS (\<lambda>s. list_all (\<lambda>r. pr_plan_id r \<noteq> tp_plan_id plan \<and>
                          pr_client_order_id r \<noteq> plan_client_order_id plan) (lg_trade_plans s)))
     (\<lambda>free. thenS (guardS free (IntegrityError ''trade_plans''))
       (writeS (\<lambda>s. s\<lparr>lg_trade_plans := tbl_insert
          \<lparr>pr_plan_id = tp_plan_id plan, pr_client_order_id = plan_client_order_id plan,
           pr_trace_id = tp_trace_id plan, pr_symbol = tp_symbol plan,
           pr_trade_date = tp_trade_date plan, pr_plan = plan,
           pr_created_at_utc = tp_created_at_utc plan\<rparr> (lg_trade_plans s)\<rparr>)))"

definition record_plan :: "TradePlan \<Rightarrow> (order_ledger, TradePlan) op" where
  "record_plan plan = transactionS (bindS (readS (find_plan (tp_plan_id plan))) (\<lambda>row. case row of
       Some r \<Rightarrow> bindS (liftS (validate_plan (pr_plan r))) (\<lambda>existing.
         if \<not> same_plan existing plan
         then raiseS (OrderLedgerConflictError ''plan_id already belongs to a different TradePlan'')
         else returnS existing)
     | None \<Rightarrow> thenS (insert_plan plan) (returnS plan)))"

section \<open>Orders\<close>

definition unknown_order :: "string \<Rightarrow> py_error" where
  "unknown_order cid = KeyError (''unknown client_order_id: '' @ cid)"

definition get_broker_order_id :: "string \<Rightarrow> (order_ledger, string option) op" where
  "get_broker_order_id cid = bindS (readS (find_order cid)) (\<lambda>row. case row of
       None \<Rightarrow> raiseS (unknown_order cid)
     | Some r \<Rightarrow> returnS (or_broker_order_id r))"

definition broker_id_free :: "string \<Rightarrow> string \<Rightarrow> order_ledger \<Rightarrow> bool" where
  \<comment> \<open>the UNIQUE constraint on \<open>broker_order_id\<close>, for an update of the row of \<open>cid\<close>\<close>
  "broker_id_free cid bid s \<longleftrightarrow>
     list_all (\<lambda>r. or_client_order_id r = cid \<or> or_broker_order_id r \<noteq> Some bid) (lg_orders s)"

definition record_broker_order_id :: "string \<Rightarrow> string \<Rightarrow> (order_ledger, unit) op" where
  "record_broker_order_id cid bid =
     thenS (guardS (\<not> is_blank bid) (ValueError ''broker_order_id is required''))
     (transactionS (bindS (readS (find_order cid)) (\<lambda>row. case row of
        None \<Rightarrow> raiseS (unknown_order cid)
      | Some r \<Rightarrow>
          if or_broker_order_id r \<noteq> None \<and> or_broker_order_id r \<noteq> Some bid
          then raiseS (OrderLedgerConflictError
                 ''client order ID is already bound to a different broker order'')
          else bindS (readS (broker_id_free cid bid)) (\<lambda>free.
            thenS (guardS free (IntegrityError ''orders.broker_order_id''))
            (writeS (\<lambda>s. s\<lparr>lg_orders := tbl_update or_client_order_id cid
                               (\<lambda>r. r\<lparr>or_broker_order_id := Some bid\<rparr>) (lg_orders s)\<rparr>))))))"

definition read_order :: "string \<Rightarrow> (order_ledger, OrderLifecycle option) op" where
  "read_order cid = bindS (readS (find_order cid)) (\<lambda>row. case row of
       None \<Rightarrow> returnS None
     | Some r \<Rightarrow> bindS (liftS (validate_lifecycle (or_lifecycle r))) (\<lambda>o'. returnS (Some o')))"

definition get_order :: "string \<Rightarrow> (order_ledger, OrderLifecycle option) op" where
  "get_order cid = read_order cid"

definition list_orders :: "(order_ledger, OrderLifecycle list) op" where
  "list_orders = bindS (readS (\<lambda>s. sort_key (\<lambda>r. instant (or_created_at_utc r))
                                      (sort_key or_client_order_id (lg_orders s))))
     (mapS (\<lambda>r. liftS (validate_lifecycle (or_lifecycle r))))"

definition require_ledger_utc :: "datetime \<Rightarrow> (order_ledger, unit) op" where
  "require_ledger_utc value =
     guardS (is_utc value) (ValueError ''ledger timestamps must be timezone-aware UTC'')"

definition same_intent :: "OrderLifecycle \<Rightarrow> OrderLifecycle \<Rightarrow> bool" where
  "same_intent a b \<longleftrightarrow> ol_plan_id a = ol_plan_id b \<and> ol_symbol a = ol_symbol b \<and>
     ol_requested_shares a = ol_requested_shares b"

definition order_row_of :: "OrderLifecycle \<Rightarrow> datetime \<Rightarrow> order_row" where
  "order_row_of order tm =
     \<lparr>or_client_order_id = ol_client_order_id order, or_broker_order_id = None,
      or_plan_id = ol_plan_id order, or_symbol = ol_symbol order,
      or_requested_shares = ol_requested_shares order, or_state = ol_state order,
      or_lifecycle = order, or_created_at_utc = tm, or_updated_at_utc = tm\<rparr>"

definition create_order :: "OrderLifecycle \<Rightarrow> datetime \<Rightarrow> (order_ledger, OrderLifecycle) op" where
  "create_order order created_at_utc = thenS (require_ledger_utc created_at_utc)
     (transactionS (bindS (read_order (ol_client_order_id order)) (\<lambda>existing. case existing of
        Some e \<Rightarrow>
          if \<not> same_intent e order
          then raiseS (OrderLedgerConflictError
                 ''client_order_id already belongs to a different order intent'')
          else returnS e
      | None \<Rightarrow>
          thenS (guardS (0 < ol_requested_shares order) (IntegrityError ''orders.requested_shares''))
          (thenS (writeS (\<lambda>s. s\<lparr>lg_orders :=
                     tbl_insert (order_row_of order created_at_utc) (lg_orders s)\<rparr>))
            (returnS order)))))"

definition event_key_free :: "string \<Rightarrow> OrderEvent \<Rightarrow> order_ledger \<Rightarrow> bool" where
  \<comment> \<open>the primary key (client_order_id, sequence) and the CHECKs of \<open>order_events\<close>\<close>
  "event_key_free cid ev s \<longleftrightarrow> 0 < ev_sequence ev \<and> 0 \<le> ev_filled_shares ev \<and>
     list_all (\<lambda>e. oe_client_order_id e \<noteq> cid \<or> ev_sequence (oe_event e) \<noteq> ev_sequence ev)
       (lg_order_events s)"

definition write_transition :: "string \<Rightarrow> OrderLifecycle \<Rightarrow> datetime \<Rightarrow> (order_ledger, unit) op" where
  "write_transition cid updated tm = (let ev = last (ol_events updated) in
     thenS (writeS (\<lambda>s. s\<lparr>lg_orders := tbl_update or_client_order_id cid
              (\<lambda>r. r\<lparr>or_state := ol_state updated, or_lifecycle := updated,
                      or_updated_at_utc := tm\<rparr>) (lg_orders s)\<rparr>))
     (bindS (readS (event_key_free cid ev)) (\<lambda>free.
        thenS (guardS free (IntegrityError ''order_events''))
        (writeS (\<lambda>s. s\<lparr>lg_order_events := tbl_insert
            \<lparr>oe_client_order_id = cid, oe_event = ev\<rparr> (lg_order_events s)\<rparr>)))))"

definition transition_order ::
    "string \<Rightarrow> OrderState \<Rightarrow> datetime \<Rightarrow> string \<Rightarrow> int option \<Rightarrow> (order_ledger, OrderLifecycle) op"
  where
  "transition_order cid next_state tm provenance filled_shares = thenS (require_ledger_utc tm)
     (transactionS (bindS (read_order cid) (\<lambda>current. case current of
        None \<Rightarrow> raiseS (unknown_order cid)
      | Some c \<Rightarrow> bindS (liftS (apply_transition c next_state tm provenance filled_shares))
          (\<lambda>updated. thenS (write_transition cid updated tm) (returnS updated)))))"

section \<open>The ledger invariant\<close>

text \<open>An order as the constructor and \<open>apply_transition\<close> return it.\<close>

definition valid_order :: "OrderLifecycle \<Rightarrow> bool" where
  "valid_order o' \<longleftrightarrow> validate_lifecycle o' = Inr o' \<and> order_ok o'"

definition row_ok :: "order_row \<Rightarrow> bool" where
  "row_ok r \<longleftrightarrow> valid_order (or_lifecycle r) \<and>
     or_client_order_id r = ol_client_order_id (or_lifecycle r) \<and>
     or_plan_id r = ol_plan_id (or_lifecycle r) \<and> or_symbol r = ol_symbol (or_lifecycle r) \<and>
     or_requested_shares r = ol_requested_shares (or_lifecycle r) \<and>
     or_state r = ol_state (or_lifecycle r)"

definition events_of :: "string \<Rightarrow> order_ledger \<Rightarrow> OrderEvent list" where
  "events_of cid s = map oe_event (filter (\<lambda>e. oe_client_order_id e = cid) (lg_order_events s))"

definition plan_row_ok :: "plan_row \<Rightarrow> bool" where
  "plan_row_ok r \<longleftrightarrow> validate_plan (pr_plan r) = Inr (pr_plan r) \<and>
     pr_plan_id r = tp_plan_id (pr_plan r) \<and> pr_client_order_id r = plan_client_order_id (pr_plan r)"

definition broker_ids_unique :: "order_row list \<Rightarrow> bool" where
  "broker_ids_unique os \<longleftrightarrow>
     (\<forall>r \<in> set os. \<forall>q \<in> set os. \<forall>b.
        or_broker_order_id r = Some b \<and> or_broker_order_id q = Some b \<longrightarrow>
        or_client_order_id r = or_client_order_id q)"

definition ledger_ok :: "order_ledger \<Rightarrow> bool" where
  "ledger_ok s \<longleftrightarrow>
     keys_unique or_client_order_id (lg_orders s) \<and> (\<forall>r \<in> set (lg_orders s). row_ok r) \<and>
     broker_ids_unique (lg_orders s) \<and>
     (\<forall>r \<in> set (lg_orders s). events_of (or_client_order_id r) s = ol_events (or_lifecycle r)) \<and>
     (\<forall>e \<in> set (lg_order_events s). find_order (oe_client_order_id e) s \<noteq> None) \<and>
     keys_unique pr_plan_id (lg_trade_plans s) \<and> (\<forall>r \<in> set (lg_trade_plans s). plan_row_ok r)"

lemma ledger_okI:
  assumes "keys_unique or_client_order_id (lg_orders s)" and "\<And>r. r \<in> set (lg_orders s) \<Longrightarrow> row_ok r"
    and "broker_ids_unique (lg_orders s)"
    and "\<And>r. r \<in> set (lg_orders s) \<Longrightarrow> events_of (or_client_order_id r) s = ol_events (or_lifecycle r)"
    and "\<And>e. e \<in> set (lg_order_events s) \<Longrightarrow> find_order (oe_client_order_id e) s \<noteq> None"
    and "keys_unique pr_plan_id (lg_trade_plans s)"
    and "\<And>r. r \<in> set (lg_trade_plans s) \<Longrightarrow> plan_row_ok r"
  shows "ledger_ok s"
  using assms by (simp add: ledger_ok_def)

lemma ledger_okD:
  assumes "ledger_ok s"
  shows "keys_unique or_client_order_id (lg_orders s)" and "\<And>r. r \<in> set (lg_orders s) \<Longrightarrow> row_ok r"
    and "broker_ids_unique (lg_orders s)"
    and "\<And>r. r \<in> set (lg_orders s) \<Longrightarrow> events_of (or_client_order_id r) s = ol_events (or_lifecycle r)"
    and "\<And>e. e \<in> set (lg_order_events s) \<Longrightarrow> find_order (oe_client_order_id e) s \<noteq> None"
    and "keys_unique pr_plan_id (lg_trade_plans s)"
    and "\<And>r. r \<in> set (lg_trade_plans s) \<Longrightarrow> plan_row_ok r"
  using assms by (simp_all add: ledger_ok_def)

lemma broker_ids_unique_insert:
  "broker_ids_unique os \<Longrightarrow> or_broker_order_id r = None \<Longrightarrow> broker_ids_unique (tbl_insert r os)"
  unfolding broker_ids_unique_def set_tbl_insert by (metis insertE option.distinct(1))

text \<open>What a row of an updated table looks like, when the update keeps the key.\<close>

lemma tbl_update_origin:
  assumes "q \<in> set (tbl_update key k f t)"
  obtains p where "p \<in> set t" and "q = (if key p = k then f p else p)"
  using assms by (auto simp: set_tbl_update)

lemma broker_ids_unique_same:
  assumes u: "broker_ids_unique os"
    and f: "\<And>r. or_client_order_id (f r) = or_client_order_id r"
      "\<And>r. or_broker_order_id (f r) = or_broker_order_id r"
  shows "broker_ids_unique (tbl_update or_client_order_id cid f os)"
  unfolding broker_ids_unique_def
proof (intro ballI allI impI)
  fix r q b
  assume rin: "r \<in> set (tbl_update or_client_order_id cid f os)"
    and qin: "q \<in> set (tbl_update or_client_order_id cid f os)"
    and b: "or_broker_order_id r = Some b \<and> or_broker_order_id q = Some b"
  obtain r' where r: "r' \<in> set os" "r = (if or_client_order_id r' = cid then f r' else r')"
    using rin by (rule tbl_update_origin)
  obtain q' where q: "q' \<in> set os" "q = (if or_client_order_id q' = cid then f q' else q')"
    using qin by (rule tbl_update_origin)
  have "or_broker_order_id r' = Some b" "or_broker_order_id q' = Some b"
    "or_client_order_id r' = or_client_order_id r" "or_client_order_id q' = or_client_order_id q"
    using b f r(2) q(2) by (auto split: if_splits)
  then show "or_client_order_id r = or_client_order_id q"
    using u r(1) q(1) unfolding broker_ids_unique_def by metis
qed

lemma broker_ids_unique_bind:
  assumes u: "broker_ids_unique os"
    and free: "list_all (\<lambda>r. or_client_order_id r = cid \<or> or_broker_order_id r \<noteq> Some bid) os"
  shows "broker_ids_unique
           (tbl_update or_client_order_id cid (\<lambda>r. r\<lparr>or_broker_order_id := Some bid\<rparr>) os)"
  unfolding broker_ids_unique_def
proof (intro ballI allI impI)
  let ?f = "\<lambda>r. r\<lparr>or_broker_order_id := Some bid\<rparr>"
  fix r q b
  assume rin: "r \<in> set (tbl_update or_client_order_id cid ?f os)"
    and qin: "q \<in> set (tbl_update or_client_order_id cid ?f os)"
    and b: "or_broker_order_id r = Some b \<and> or_broker_order_id q = Some b"
  obtain r' where r: "r' \<in> set os" "r = (if or_client_order_id r' = cid then ?f r' else r')"
    using rin by (rule tbl_update_origin)
  obtain q' where q: "q' \<in> set os" "q = (if or_client_order_id q' = cid then ?f q' else q')"
    using qin by (rule tbl_update_origin)
  have "or_client_order_id r' = cid \<or> or_broker_order_id r' \<noteq> Some bid"
    "or_client_order_id q' = cid \<or> or_broker_order_id q' \<noteq> Some bid"
    using free r(1) q(1) by (auto simp: list_all_iff)
  moreover have "or_broker_order_id r' = Some b \<Longrightarrow> or_broker_order_id q' = Some b \<Longrightarrow>
      or_client_order_id r' = or_client_order_id q'"
    using u r(1) q(1) unfolding broker_ids_unique_def by metis
  ultimately show "or_client_order_id r = or_client_order_id q"
    using r(2) q(2) b by (auto split: if_splits)
qed

lemma ledger_ok_empty: "ledger_ok empty_ledger"
  by (simp add: ledger_ok_def empty_ledger_def broker_ids_unique_def)

lemma ledger_ok_row:
  assumes "ledger_ok s" and "find_order cid s = Some r"
  shows "row_ok r" and "or_client_order_id r = cid" and "r \<in> set (lg_orders s)"
    and "events_of cid s = ol_events (or_lifecycle r)"
  using assms tbl_find_SomeD [OF assms(2)] by (auto simp: ledger_ok_def)

lemma ledger_ok_plan:
  assumes "ledger_ok s" and "find_plan pid s = Some r"
  shows "validate_plan (pr_plan r) = Inr (pr_plan r)" and "tp_plan_id (pr_plan r) = pid"
  using assms tbl_find_SomeD [OF assms(2)] by (auto simp: ledger_ok_def plan_row_ok_def)

lemma read_order_ok:
  "ledger_ok s \<Longrightarrow> read_order cid s = (Inr (map_option or_lifecycle (find_order cid s)), s)"
  using ledger_ok_row(1)
  by (auto simp: read_order_def run row_ok_def valid_order_def split: option.split)

lemma events_of_other:
  "events_of cid (s\<lparr>lg_orders := os\<rparr>) = events_of cid s"
  by (simp add: events_of_def)

subsection \<open>record_plan\<close>

lemma same_plan_refl [simp]: "same_plan p p"
  by (simp add: same_plan_def dec_eq_def option.rel_refl)

lemma record_plan_cases:
  assumes ok: "ledger_ok s" and v: "validate_plan plan = Inr plan"
  shows "record_plan plan s =
     (case find_plan (tp_plan_id plan) s of
        Some r \<Rightarrow>
          if same_plan (pr_plan r) plan then (Inr (pr_plan r), s)
          else (Inl (OrderLedgerConflictError ''plan_id already belongs to a different TradePlan''), s)
      | None \<Rightarrow> (Inr plan, s\<lparr>lg_trade_plans := tbl_insert
          \<lparr>pr_plan_id = tp_plan_id plan, pr_client_order_id = plan_client_order_id plan,
           pr_trace_id = tp_trace_id plan, pr_symbol = tp_symbol plan,
           pr_trade_date = tp_trade_date plan, pr_plan = plan,
           pr_created_at_utc = tp_created_at_utc plan\<rparr> (lg_trade_plans s)\<rparr>))"
proof (cases "find_plan (tp_plan_id plan) s")
  case (Some r)
  then show ?thesis
    using ledger_ok_plan [OF ok Some] by (simp add: record_plan_def run)
next
  case None
  then have "\<forall>r \<in> set (lg_trade_plans s). pr_plan_id r \<noteq> tp_plan_id plan"
    by (metis imageI tbl_find_None_iff)
  moreover have "\<forall>r \<in> set (lg_trade_plans s). pr_client_order_id r = plan_client_order_id (pr_plan r)
      \<and> pr_plan_id r = tp_plan_id (pr_plan r)"
    using ok by (auto simp: ledger_ok_def plan_row_ok_def)
  ultimately have "list_all (\<lambda>r. pr_plan_id r \<noteq> tp_plan_id plan \<and>
       pr_client_order_id r \<noteq> plan_client_order_id plan) (lg_trade_plans s)"
    unfolding list_all_iff by (metis plan_client_order_id_inject)
  with None show ?thesis by (simp add: record_plan_def insert_plan_def run)
qed

lemma record_plan_ok:
  assumes ok: "ledger_ok s" and v: "validate_plan plan = Inr plan"
  shows "ledger_ok (snd (record_plan plan s))"
  using ok v
  by (auto simp: record_plan_cases [OF ok v] ledger_ok_def plan_row_ok_def broker_ids_unique_def
      events_of_def tbl split: option.split)

subsection \<open>create_order\<close>

lemma create_order_cases:
  assumes ok: "ledger_ok s" and v: "valid_order order"
  shows "create_order order tm s =
     (if \<not> is_utc tm then (Inl (ValueError ''ledger timestamps must be timezone-aware UTC''), s)
      else case find_order (ol_client_order_id order) s of
        Some r \<Rightarrow>
          if same_intent (or_lifecycle r) order then (Inr (or_lifecycle r), s)
          else (Inl (OrderLedgerConflictError
                  ''client_order_id already belongs to a different order intent''), s)
      | None \<Rightarrow> (Inr order, s\<lparr>lg_orders := tbl_insert (order_row_of order tm) (lg_orders s)\<rparr>))"
  using v
  by (auto simp: create_order_def require_ledger_utc_def run read_order_ok [OF ok] valid_order_def
      order_ok_def split: option.split)

lemma events_of_unbound:
  assumes "ledger_ok s" and "find_order cid s = None"
  shows "events_of cid s = []"
  using assms by (auto simp: ledger_ok_def events_of_def filter_empty_conv)

lemma create_order_ok:
  assumes ok: "ledger_ok s" and v: "valid_order order" and fresh: "ol_events order = []"
  shows "ledger_ok (snd (create_order order tm s))"
proof (cases "is_utc tm \<and> find_order (ol_client_order_id order) s = None")
  case True
  let ?r = "order_row_of order tm"
  let ?t = "s\<lparr>lg_orders := tbl_insert ?r (lg_orders s)\<rparr>"
  have key: "or_client_order_id ?r = ol_client_order_id order" by (simp add: order_row_of_def)
  note okD = ledger_okD [OF ok]
  have empty: "events_of (ol_client_order_id order) s = []"
    using ok True by (simp add: events_of_unbound)
  have "ledger_ok ?t"
  proof (rule ledger_okI)
    show "keys_unique or_client_order_id (lg_orders ?t)"
      using okD(1) True key by (simp add: keys_unique_insert)
    show "broker_ids_unique (lg_orders ?t)"
      using okD(3) by (simp add: broker_ids_unique_insert order_row_of_def)
    show "row_ok r" if "r \<in> set (lg_orders ?t)" for r
      using that v okD(2) by (auto simp: row_ok_def order_row_of_def)
    show "events_of (or_client_order_id r) ?t = ol_events (or_lifecycle r)"
      if "r \<in> set (lg_orders ?t)" for r
      using that empty fresh okD(4) by (auto simp: events_of_other order_row_of_def)
    show "find_order (oe_client_order_id e) ?t \<noteq> None" if "e \<in> set (lg_order_events ?t)" for e
      using that okD(5) [of e] by (auto simp: tbl split: option.split)
  qed (use okD(6,7) in simp_all)
  with True show ?thesis by (simp add: create_order_cases [OF ok v])
next
  case False
  then have "snd (create_order order tm s) = s"
    by (auto simp: create_order_cases [OF ok v] split: option.split)
  with ok show ?thesis by simp
qed

subsection \<open>record_broker_order_id\<close>

lemma record_broker_order_id_Inr:
  assumes "record_broker_order_id cid bid s = (Inr u, t)"
  obtains r where "find_order cid s = Some r" and "\<not> is_blank bid"
    and "or_broker_order_id r = None \<or> or_broker_order_id r = Some bid" and "broker_id_free cid bid s"
    and "t = s\<lparr>lg_orders := tbl_update or_client_order_id cid
                  (\<lambda>r. r\<lparr>or_broker_order_id := Some bid\<rparr>) (lg_orders s)\<rparr>"
  using assms
  by (auto simp: record_broker_order_id_def thenS_eq_Inr bindS_eq_Inr split: option.splits if_splits)

lemma record_broker_order_id_Inl:
  "record_broker_order_id cid bid s = (Inl e, t) \<Longrightarrow> t = s"
  by (auto simp: record_broker_order_id_def thenS_def bindS_eq_Inl transactionS_eq_Inl)

lemma row_ok_broker [simp]: "row_ok (r\<lparr>or_broker_order_id := b\<rparr>) = row_ok r"
  by (simp add: row_ok_def)

lemma record_broker_order_id_ok:
  assumes ok: "ledger_ok s"
  shows "ledger_ok (snd (record_broker_order_id cid bid s))"
proof (cases "fst (record_broker_order_id cid bid s)")
  case (Inl e)
  then have "snd (record_broker_order_id cid bid s) = s"
    by (metis record_broker_order_id_Inl prod.collapse)
  with ok show ?thesis by simp
next
  case (Inr u)
  let ?os = "tbl_update or_client_order_id cid (\<lambda>r. r\<lparr>or_broker_order_id := Some bid\<rparr>) (lg_orders s)"
  obtain free: "broker_id_free cid bid s"
    and t: "snd (record_broker_order_id cid bid s) = s\<lparr>lg_orders := ?os\<rparr>"
    using Inr record_broker_order_id_Inr [of cid bid s u "snd (record_broker_order_id cid bid s)"]
    by (metis prod.collapse)
  note okD = ledger_okD [OF ok]
  show ?thesis unfolding t
  proof (rule ledger_okI)
    show "row_ok r" if "r \<in> set (lg_orders (s\<lparr>lg_orders := ?os\<rparr>))" for r
      using that okD(2) by (auto simp: in_set_tbl_update)
    show "events_of (or_client_order_id r) (s\<lparr>lg_orders := ?os\<rparr>) = ol_events (or_lifecycle r)"
      if "r \<in> set (lg_orders (s\<lparr>lg_orders := ?os\<rparr>))" for r
      using that okD(4) by (auto simp: in_set_tbl_update events_of_other)
    show "find_order (oe_client_order_id e) (s\<lparr>lg_orders := ?os\<rparr>) \<noteq> None"
      if "e \<in> set (lg_order_events (s\<lparr>lg_orders := ?os\<rparr>))" for e
      using that okD(5) [of e] by (auto simp: tbl)
    show "broker_ids_unique (lg_orders (s\<lparr>lg_orders := ?os\<rparr>))"
      using okD(3) free by (simp add: broker_ids_unique_bind broker_id_free_def)
  qed (use okD(1,6,7) in \<open>simp_all add: keys_unique_update\<close>)
qed

subsection \<open>transition_order\<close>

lemma valid_order_transition:
  assumes v: "valid_order order" and step: "apply_transition order ns tm prov fs = Inr order'"
  shows "valid_order order'"
proof -
  have "order_ok order'"
    using v step by (auto simp: valid_order_def intro: order_ok_transition)
  moreover have "validate_lifecycle order' = Inr order'"
  proof -
    have "validate_lifecycle order = Inr order" using v by (simp add: valid_order_def)
    then have "py_upper (py_strip (ol_symbol order)) = ol_symbol order" "ol_symbol order \<noteq> []"
      using validate_lifecycle_Inr [of order order]
      by (metis OrderLifecycle.select_convs(3) OrderLifecycle.surjective OrderLifecycle.update_convs(3), blast)
    then show ?thesis
      using apply_transition_Inr [OF step] by (simp add: validate_lifecycle_def)
  qed
  ultimately show ?thesis by (simp add: valid_order_def)
qed

definition after_transition :: "string \<Rightarrow> OrderLifecycle \<Rightarrow> datetime \<Rightarrow> order_ledger \<Rightarrow> order_ledger" where
  "after_transition cid updated tm s =
     s\<lparr>lg_orders := tbl_update or_client_order_id cid
          (\<lambda>r. r\<lparr>or_state := ol_state updated, or_lifecycle := updated, or_updated_at_utc := tm\<rparr>)
          (lg_orders s),
       lg_order_events := tbl_insert
          \<lparr>oe_client_order_id = cid, oe_event = last (ol_events updated)\<rparr> (lg_order_events s)\<rparr>"

text \<open>The integrity constraints never fire: the sequence number of a new event is fresh.\<close>

lemma event_key_fresh:
  assumes ok: "ledger_ok s" and row: "find_order cid s = Some r"
    and step: "apply_transition (or_lifecycle r) ns tm prov fs = Inr updated"
  shows "event_key_free cid (last (ol_events updated)) (s\<lparr>lg_orders := os\<rparr>)"
proof -
  have l: "last (ol_events updated) =
      \<lparr>ev_sequence = int (length (ol_events (or_lifecycle r))) + 1, ev_at_utc = tm,
       ev_from_state = ol_state (or_lifecycle r), ev_to_state = ns,
       ev_filled_shares = ol_filled_shares updated, ev_provenance = prov\<rparr>"
    using apply_transition_Inr(8) [OF step] by simp
  have evs: "events_of cid s = ol_events (or_lifecycle r)"
    using ledger_ok_row(4) [OF ok row] .
  have seqs: "map ev_sequence (ol_events (or_lifecycle r)) =
      map (\<lambda>i. int i + 1) [0..<length (ol_events (or_lifecycle r))]"
    using ledger_ok_row(1) [OF ok row] by (simp add: row_ok_def valid_order_def order_ok_def)
  have "ev_sequence (oe_event e) \<noteq> int (length (ol_events (or_lifecycle r))) + 1"
    if e: "e \<in> set (lg_order_events s)" "oe_client_order_id e = cid" for e
  proof -
    have "oe_event e \<in> set (events_of cid s)" using e by (auto simp: events_of_def)
    then have "ev_sequence (oe_event e) \<in> set (map ev_sequence (ol_events (or_lifecycle r)))"
      using evs by simp
    then show ?thesis unfolding seqs by auto
  qed
  then show ?thesis
    using l apply_transition_Inr(16) [OF step] by (auto simp: event_key_free_def list_all_iff)
qed

lemma transition_order_cases:
  assumes ok: "ledger_ok s"
  shows "transition_order cid ns tm prov fs s =
     (if \<not> is_utc tm then (Inl (ValueError ''ledger timestamps must be timezone-aware UTC''), s)
      else case find_order cid s of
        None \<Rightarrow> (Inl (unknown_order cid), s)
      | Some r \<Rightarrow> (case apply_transition (or_lifecycle r) ns tm prov fs of
          Inl e \<Rightarrow> (Inl e, s)
        | Inr updated \<Rightarrow> (Inr updated, after_transition cid updated tm s)))"
  using event_key_fresh [OF ok]
  by (auto simp: transition_order_def require_ledger_utc_def run read_order_ok [OF ok]
      write_transition_def Let_def after_transition_def split: option.split sum.split)

lemma after_transition_ok:
  assumes ok: "ledger_ok s" and row: "find_order cid s = Some r"
    and step: "apply_transition (or_lifecycle r) ns tm prov fs = Inr updated"
  shows "ledger_ok (after_transition cid updated tm s)"
proof -
  note tr = apply_transition_Inr [OF step]
  note r = ledger_ok_row [OF ok row]
  let ?f = "\<lambda>r. r\<lparr>or_state := ol_state updated, or_lifecycle := updated, or_updated_at_utc := tm\<rparr>"
  let ?t = "after_transition cid updated tm s"
  have v: "valid_order updated"
    using r(1) step by (auto simp: row_ok_def intro: valid_order_transition)
  have same: "q = r" if "q \<in> set (lg_orders s)" "or_client_order_id q = cid" for q
    using that row ok tbl_find_unique [of or_client_order_id "lg_orders s" q]
    by (auto simp: ledger_ok_def)
  have symb: "ol_symbol updated = ol_symbol (or_lifecycle r)"
    using r(1) tr(12) validate_lifecycle_Inr [of "or_lifecycle r" "or_lifecycle r"]
    by (metis OrderLifecycle.select_convs(3) OrderLifecycle.surjective OrderLifecycle.update_convs(3)
        row_ok_def valid_order_def)
  have new: "row_ok (?f r)" using r(1) tr v symb by (simp add: row_ok_def)
  have rows: "\<forall>q \<in> set (lg_orders ?t). row_ok q"
    using ok new same by (auto simp: after_transition_def in_set_tbl_update ledger_ok_def)
  have last_ev: "ol_events updated = ol_events (or_lifecycle r) @ [last (ol_events updated)]"
    using tr(8) by simp
  have ev_cid: "events_of cid ?t = ol_events updated"
    using r(4) last_ev by (simp add: events_of_def after_transition_def tbl_insert_def)
  have ev_other: "events_of c ?t = events_of c s" if "c \<noteq> cid" for c
    using that by (simp add: events_of_def after_transition_def tbl_insert_def)
  have evs: "\<forall>q \<in> set (lg_orders ?t). events_of (or_client_order_id q) ?t = ol_events (or_lifecycle q)"
  proof
    fix q assume "q \<in> set (lg_orders ?t)"
    then consider "q \<in> set (lg_orders s)" "or_client_order_id q \<noteq> cid"
      | p where "p \<in> set (lg_orders s)" "or_client_order_id p = cid" "q = ?f p"
      by (auto simp: after_transition_def in_set_tbl_update)
    then show "events_of (or_client_order_id q) ?t = ol_events (or_lifecycle q)"
    proof cases
      case 1
      with ok show ?thesis by (simp add: ev_other ledger_ok_def)
    next
      case 2
      then show ?thesis by (simp add: ev_cid)
    qed
  qed
  show ?thesis
  proof (rule ledger_okI)
    show "broker_ids_unique (lg_orders ?t)"
      using ledger_okD(3) [OF ok] by (simp add: after_transition_def broker_ids_unique_same)
    show "find_order (oe_client_order_id e) ?t \<noteq> None" if "e \<in> set (lg_order_events ?t)" for e
      using that ledger_okD(5) [OF ok] row by (auto simp: after_transition_def tbl)
    show "keys_unique or_client_order_id (lg_orders ?t)"
      using ledger_okD(1) [OF ok] by (simp add: after_transition_def keys_unique_update)
  qed (use rows evs ledger_okD(6,7) [OF ok] in \<open>simp_all add: after_transition_def\<close>)
qed

lemma transition_order_ok:
  assumes ok: "ledger_ok s"
  shows "ledger_ok (snd (transition_order cid ns tm prov fs s))"
  using ok by (auto simp: transition_order_cases [OF ok] after_transition_ok split: option.split sum.split)

section \<open>The ledger as an idempotent store\<close>

text \<open>
  Creating an order and recording a plan meet the contract of an idempotent ledger: the key is
  the client order id, respectively the plan id, and only validated values exist as arguments.
\<close>

definition order_of :: "order_ledger \<Rightarrow> string \<Rightarrow> OrderLifecycle option" where
  "order_of s cid = map_option or_lifecycle (find_order cid s)"

definition plan_of :: "order_ledger \<Rightarrow> string \<Rightarrow> TradePlan option" where
  "plan_of s pid = map_option pr_plan (find_plan pid s)"

definition fresh_order :: "OrderLifecycle \<Rightarrow> bool" where
  "fresh_order o' \<longleftrightarrow> valid_order o' \<and> ol_events o' = []"

lemma plan_of_insert:
  "find_plan (tp_plan_id plan) s = None \<Longrightarrow>
   plan_of (s\<lparr>lg_trade_plans := tbl_insert r (lg_trade_plans s)\<rparr>) pid =
     (if pr_plan_id r = pid \<and> plan_of s pid = None then Some (pr_plan r) else plan_of s pid)"
  by (auto simp: plan_of_def tbl split: option.split)

lemma order_of_insert:
  "order_of (s\<lparr>lg_orders := tbl_insert r (lg_orders s)\<rparr>) cid =
     (if or_client_order_id r = cid \<and> order_of s cid = None then Some (or_lifecycle r)
      else order_of s cid)"
  by (auto simp: order_of_def tbl split: option.split)

interpretation order_once: once_store order_of "\<lambda>(order, tm). create_order order tm"
  "\<lambda>(order, _). ol_client_order_id order" "\<lambda>(order, _) r. same_intent r order"
  "\<lambda>(order, _). fresh_order order" ledger_ok
proof (unfold_locales, goal_cases)
  case (1 s i r t q)
  then show ?case
    by (cases i) (auto simp: fresh_order_def create_order_cases order_of_def split: if_splits option.splits)
next
  case (2 s i r t)
  then show ?case
    by (cases i) (auto simp: fresh_order_def create_order_cases same_intent_def
        order_row_of_def order_of_def tbl split: if_splits option.splits)
next
  case (3 s i x t k)
  then show ?case
    by (cases i) (auto simp: fresh_order_def create_order_cases order_of_insert order_row_of_def
        split: if_splits option.splits)
next
  case (4 s i e t)
  then show ?case
    by (cases i) (auto simp: fresh_order_def create_order_cases split: if_splits option.splits)
next
  case (5 s i x t)
  then show ?case
    by (cases i) (metis (mono_tags, lifting) case_prod_conv create_order_ok fresh_order_def snd_conv)
qed

interpretation plan_once: once_store plan_of record_plan tp_plan_id "\<lambda>plan r. same_plan r plan"
  "\<lambda>plan. validate_plan plan = Inr plan" ledger_ok
proof (unfold_locales, goal_cases)
  case (1 s i r t q)
  then show ?case
    by (auto simp: record_plan_cases plan_of_def split: if_splits option.splits)
next
  case (2 s i r t)
  then show ?case
    by (auto simp: record_plan_cases plan_of_def tbl split: if_splits option.splits)
next
  case (3 s i x t k)
  then show ?case
    by (auto simp: record_plan_cases plan_of_def tbl split: if_splits option.splits)
next
  case (4 s i e t)
  then show ?case
    by (auto simp: record_plan_cases split: if_splits option.splits)
next
  case (5 s i x t)
  then show ?case
    by (metis record_plan_ok snd_conv)
qed

section \<open>The ledger as a command-driven machine\<close>

datatype ledger_cmd =
    RecordPlan TradePlan
  | CreateOrder OrderLifecycle datetime
  | BindBroker string string
  | Transition string OrderState datetime string "int option"

text \<open>Commands whose argument is not a validated value cannot be issued: they are skipped.\<close>

fun exec_ledger :: "ledger_cmd \<Rightarrow> order_ledger \<Rightarrow> order_ledger" where
  "exec_ledger (RecordPlan plan) s =
     (if validate_plan plan = Inr plan then snd (record_plan plan s) else s)"
| "exec_ledger (CreateOrder order tm) s =
     (if fresh_order order then snd (create_order order tm s) else s)"
| "exec_ledger (BindBroker cid bid) s = snd (record_broker_order_id cid bid s)"
| "exec_ledger (Transition cid ns tm prov fs) s = snd (transition_order cid ns tm prov fs s)"

text \<open>What may happen to a row: its identity stays, the history grows, the fill never shrinks.\<close>

definition row_below :: "order_row \<Rightarrow> order_row \<Rightarrow> bool" where
  "row_below r q \<longleftrightarrow>
     same_intent (or_lifecycle r) (or_lifecycle q) \<and> or_created_at_utc r = or_created_at_utc q \<and>
     ol_filled_shares (or_lifecycle r) \<le> ol_filled_shares (or_lifecycle q) \<and>
     (\<exists>evs. ol_events (or_lifecycle q) = ol_events (or_lifecycle r) @ evs) \<and>
     (or_broker_order_id r \<noteq> None \<longrightarrow> or_broker_order_id q = or_broker_order_id r) \<and>
     (terminal_state (or_state r) \<longrightarrow> or_lifecycle q = or_lifecycle r)"

definition ledger_below :: "order_ledger \<Rightarrow> order_ledger \<Rightarrow> bool" where
  "ledger_below s t \<longleftrightarrow>
     (\<forall>cid r. find_order cid s = Some r \<longrightarrow> (\<exists>q. find_order cid t = Some q \<and> row_below r q)) \<and>
     (\<forall>pid p. plan_of s pid = Some p \<longrightarrow> plan_of t pid = Some p)"

lemma row_below_refl: "row_below r r"
  by (simp add: row_below_def same_intent_def)

lemma row_below_trans:
  assumes rq: "row_below r q" and qp: "row_below q p" and r: "row_ok r" and q: "row_ok q"
  shows "row_below r p"
  unfolding row_below_def
proof (intro conjI impI)
  note 1 = rq [unfolded row_below_def] and 2 = qp [unfolded row_below_def]
  show "same_intent (or_lifecycle r) (or_lifecycle p)"
    using 1 2 by (simp add: same_intent_def)
  show "or_created_at_utc r = or_created_at_utc p" using 1 2 by simp
  show "ol_filled_shares (or_lifecycle r) \<le> ol_filled_shares (or_lifecycle p)" using 1 2 by linarith
  show "\<exists>evs. ol_events (or_lifecycle p) = ol_events (or_lifecycle r) @ evs" using 1 2 by auto
  show "or_broker_order_id p = or_broker_order_id r" if "or_broker_order_id r \<noteq> None"
    using that 1 2 by metis
  show "or_lifecycle p = or_lifecycle r" if t: "terminal_state (or_state r)"
  proof -
    have "or_lifecycle q = or_lifecycle r" using t 1 by blast
    moreover from this have "terminal_state (or_state q)" using t r q by (simp add: row_ok_def)
    ultimately show ?thesis using 2 by simp
  qed
qed

lemma exec_ledger_ok: "ledger_ok s \<Longrightarrow> ledger_ok (exec_ledger c s)"
  by (cases c) (simp_all add: record_plan_ok create_order_ok record_broker_order_id_ok
      transition_order_ok fresh_order_def)

text \<open>Each operation moves the ledger up this order.\<close>

lemma ledger_belowI:
  assumes "\<And>cid r. find_order cid s = Some r \<Longrightarrow> \<exists>q. find_order cid t = Some q \<and> row_below r q"
    and "\<And>pid p. plan_of s pid = Some p \<Longrightarrow> plan_of t pid = Some p"
  shows "ledger_below s t"
  using assms by (simp add: ledger_below_def)

lemma ledger_below_refl: "ledger_below s s"
  by (auto simp: ledger_below_def row_below_refl)

lemma record_plan_below:
  assumes "ledger_ok s" and "validate_plan plan = Inr plan"
  shows "ledger_below s (snd (record_plan plan s))"
proof (rule ledger_belowI)
  fix cid r assume r: "find_order cid s = Some r"
  have "lg_orders (snd (record_plan plan s)) = lg_orders s"
    by (simp add: record_plan_cases [OF assms] split: option.split)
  with r show "\<exists>q. find_order cid (snd (record_plan plan s)) = Some q \<and> row_below r q"
    by (simp add: row_below_refl)
next
  fix pid p assume "plan_of s pid = Some p"
  then show "plan_of (snd (record_plan plan s)) pid = Some p"
    using plan_once.ensure_keeps [OF assms] by blast
qed

lemma create_order_below:
  assumes "ledger_ok s" and "fresh_order order"
  shows "ledger_below s (snd (create_order order tm s))"
  using assms
  by (auto simp: ledger_below_def fresh_order_def create_order_cases plan_of_def tbl row_below_refl
      split: option.split)

lemma record_broker_order_id_below:
  "ledger_below s (snd (record_broker_order_id cid bid s))"
proof (cases "record_broker_order_id cid bid s")
  case (Pair x t)
  show ?thesis
  proof (cases x)
    case (Inl e)
    with Pair have "t = s" by (auto dest: record_broker_order_id_Inl)
    with Pair show ?thesis by (simp add: ledger_below_refl)
  next
    case (Inr u)
    with Pair show ?thesis
      by (auto elim!: record_broker_order_id_Inr intro!: ledger_belowI
          simp: tbl row_below_def same_intent_def plan_of_def)
  qed
qed

lemma row_below_transition:
  assumes row: "row_ok r" and step: "apply_transition (or_lifecycle r) ns tm prov fs = Inr updated"
  shows "row_below r (r\<lparr>or_state := ol_state updated, or_lifecycle := updated,
                         or_updated_at_utc := tm\<rparr>)"
proof -
  note tr = apply_transition_Inr [OF step]
  have "valid_order (or_lifecycle r)" using row by (simp add: row_ok_def)
  then have "ol_symbol updated = ol_symbol (or_lifecycle r)"
    using tr(12) validate_lifecycle_Inr [of "or_lifecycle r" "or_lifecycle r"]
    by (metis OrderLifecycle.select_convs(3) OrderLifecycle.surjective OrderLifecycle.update_convs(3)
        valid_order_def)
  moreover have "\<not> terminal_state (or_state r)"
    using tr(1) row terminal_iff [of "or_state r"] by (auto simp: row_ok_def)
  ultimately show ?thesis
    using tr by (simp add: row_below_def same_intent_def)
qed

lemma transition_order_below:
  assumes ok: "ledger_ok s"
  shows "ledger_below s (snd (transition_order cid ns tm prov fs s))"
proof (cases "find_order cid s")
  case None
  then show ?thesis by (simp add: transition_order_cases [OF ok] ledger_below_refl)
next
  case (Some r)
  show ?thesis
  proof (cases "apply_transition (or_lifecycle r) ns tm prov fs")
    case (Inl e)
    with Some show ?thesis by (simp add: transition_order_cases [OF ok] ledger_below_refl)
  next
    case (Inr updated)
    have row: "row_ok r" using ledger_ok_row(1) [OF ok Some] .
    have "ledger_below s (after_transition cid updated tm s)"
    proof (rule ledger_belowI)
      fix c q assume q: "find_order c s = Some q"
      then show "\<exists>p. find_order c (after_transition cid updated tm s) = Some p \<and> row_below q p"
        using Some row_below_transition [OF row Inr]
        by (auto simp: after_transition_def tbl row_below_refl)
    qed (simp add: plan_of_def after_transition_def)
    with Some Inr show ?thesis
      by (simp add: transition_order_cases [OF ok] ledger_below_refl)
  qed
qed

lemma exec_ledger_below: "ledger_ok s \<Longrightarrow> ledger_below s (exec_ledger c s)"
  by (cases c) (simp_all add: record_plan_below create_order_below record_broker_order_id_below
      transition_order_below ledger_below_refl)

lemma ledger_below_trans:
  assumes s: "ledger_ok s" and t: "ledger_ok t" and st: "ledger_below s t" and tu: "ledger_below t u"
  shows "ledger_below s u"
proof (rule ledger_belowI)
  fix cid r assume r: "find_order cid s = Some r"
  then obtain q where q: "find_order cid t = Some q" "row_below r q"
    using st unfolding ledger_below_def by blast
  then obtain p where p: "find_order cid u = Some p" "row_below q p"
    using tu unfolding ledger_below_def by blast
  have "row_below r p"
    using q(2) p(2) ledger_ok_row(1) [OF s r] ledger_ok_row(1) [OF t q(1)] by (rule row_below_trans)
  with p show "\<exists>q. find_order cid u = Some q \<and> row_below r q" by blast
next
  fix pid p assume "plan_of s pid = Some p"
  then show "plan_of u pid = Some p" using st tu by (auto simp: ledger_below_def)
qed

interpretation ledger_machine: guarded_machine ledger_ok ledger_below exec_ledger
  by unfold_locales
    (blast intro: exec_ledger_ok exec_ledger_below ledger_below_refl ledger_below_trans)+

section \<open>What the operations keep\<close>

text \<open>The same facts as rules for the handlers built from these operations.\<close>

declare ledger_machine.keeps_rules [keeps_intro]

lemma keeps_record_plan [keeps_intro]:
  "validate_plan plan = Inr plan \<Longrightarrow> keeps ledger_ok ledger_below (record_plan plan)"
  by (simp add: keeps_def record_plan_ok record_plan_below)

lemma keeps_create_order [keeps_intro]:
  "fresh_order order \<Longrightarrow> keeps ledger_ok ledger_below (create_order order tm)"
  by (simp add: keeps_def create_order_ok create_order_below fresh_order_def)

lemma keeps_record_broker_order_id [keeps_intro]:
  "keeps ledger_ok ledger_below (record_broker_order_id cid bid)"
  by (simp add: keeps_def record_broker_order_id_ok record_broker_order_id_below)

lemma keeps_transition_order [keeps_intro]:
  "keeps ledger_ok ledger_below (transition_order cid ns tm prov fs)"
  by (simp add: keeps_def transition_order_ok transition_order_below)

lemma keeps_get_order [keeps_intro]: "keeps ledger_ok ledger_below (get_order cid)"
  by (rule ledger_machine.keeps_still)
    (simp add: get_order_def read_order_def run split: option.split sum.split)

lemma keeps_get_broker_order_id [keeps_intro]:
  "keeps ledger_ok ledger_below (get_broker_order_id cid)"
  by (rule ledger_machine.keeps_still) (simp add: get_broker_order_id_def run split: option.split)

lemma mapS_lift_still: "snd (mapS (\<lambda>x. liftS (f x)) xs s) = s"
  by (induction xs) (auto simp: run split: sum.split prod.split)

lemma keeps_list_orders [keeps_intro]: "keeps ledger_ok ledger_below list_orders"
  by (rule ledger_machine.keeps_still) (simp add: list_orders_def bindS_run mapS_lift_still)

lemma keeps_list_plans [keeps_intro]: "keeps ledger_ok ledger_below list_plans"
  by (rule ledger_machine.keeps_still) (simp add: list_plans_def bindS_run mapS_lift_still)

section \<open>Properties\<close>



text \<open>An order is created once.  Whatever was written after its creation, a second call for the
  same client order id returns the order as it is now and changes nothing, provided it asks for the
  same plan, symbol and quantity; otherwise it is refused, and changes nothing.\<close>

theorem order_created_once:
  assumes ok: "ledger_ok s" and fresh: "fresh_order i" "fresh_order j"
    and first: "create_order i tm s = (Inr r, t)" and key: "ol_client_order_id j = ol_client_order_id i"
    and tm': "is_utc tm'" and u: "u = fold exec_ledger cs t"
  shows "\<exists>q. order_of u (ol_client_order_id i) = Some q \<and> same_intent r q \<and>
     create_order j tm' u =
       (if same_intent q j then (Inr q, u)
        else (Inl (OrderLedgerConflictError
                ''client_order_id already belongs to a different order intent''), u))"
proof -
  have t: "ledger_ok t" using order_once.ensure_good [of s "(i, tm)" "Inr r" t] ok fresh(1) first by simp
  have "order_of t (ol_client_order_id i) = Some r"
    using order_once.ensure_binds [of s "(i, tm)" r t] ok fresh(1) first by simp
  then obtain row where row: "find_order (ol_client_order_id i) t = Some row" "or_lifecycle row = r"
    by (auto simp: order_of_def)
  have uok: "ledger_ok u" and up: "ledger_below t u"
    using ledger_machine.run_all_inv [OF t, of cs] ledger_machine.run_all_up [OF t, of cs]
    by (simp_all add: ledger_machine.run_all_def u)
  obtain row' where row': "find_order (ol_client_order_id i) u = Some row'" "row_below row row'"
    using up row(1) unfolding ledger_below_def by metis
  let ?q = "or_lifecycle row'"
  have "valid_order j" using fresh(2) by (simp add: fresh_order_def)
  then have "create_order j tm' u =
       (if same_intent ?q j then (Inr ?q, u)
        else (Inl (OrderLedgerConflictError
                ''client_order_id already belongs to a different order intent''), u))"
    using row' tm' key by (simp add: create_order_cases [OF uok])
  moreover have "same_intent r ?q" using row(2) row'(2) by (simp add: row_below_def)
  ultimately show ?thesis using row'(1) by (intro exI [of _ ?q]) (simp add: order_of_def)
qed

lemma order_created_once_witness:
  "\<exists>i t. create_order i (utc 0) empty_ledger = (Inr i, t) \<and>
     create_order i (utc 7) (fold exec_ledger [BindBroker ''c'' ''b''] t) \<noteq> (Inr i, t)"
proof -
  let ?i = "\<lparr>ol_client_order_id = ''c'', ol_plan_id = ''p'', ol_symbol = ''AAPL'',
     ol_requested_shares = 3, ol_state = CREATED, ol_filled_shares = 0, ol_events = []\<rparr>"
  let ?t = "snd (create_order ?i (utc 0) empty_ledger)"
  let ?u = "fold exec_ledger [BindBroker ''c'' ''b''] ?t"
  have i: "fresh_order ?i" by code_simp
  have c: "create_order ?i (utc 0) empty_ledger = (Inr ?i, ?t)" by code_simp
  obtain q where "create_order ?i (utc 7) ?u =
      (if same_intent q ?i then (Inr q, ?u)
        else (Inl (OrderLedgerConflictError
                ''client_order_id already belongs to a different order intent''), ?u))"
    using order_created_once [OF ledger_ok_empty i i c refl, of "utc 7" ?u "[BindBroker ''c'' ''b'']"] by auto
  then have "snd (create_order ?i (utc 7) ?u) = ?u" by (simp split: if_splits)
  moreover have "?u \<noteq> ?t" by code_simp
  ultimately show ?thesis using c by (metis snd_conv)
qed

text \<open>A transition of a ledger order is atomic.  Either it raises and the database is as before
  (an exception of the order's own rules, never a violated constraint of the schema), or the order,
  its row and the event table advance together by exactly one event.\<close>

theorem transition_is_atomic:
  assumes ok: "ledger_ok s"
  shows "case transition_order cid ns tm prov fs s of
     (Inl e, t) \<Rightarrow> t = s \<and> (\<forall>constraint. e \<noteq> IntegrityError constraint)
   | (Inr o', t) \<Rightarrow> \<exists>r ev. find_order cid s = Some r \<and>
        apply_transition (or_lifecycle r) ns tm prov fs = Inr o' \<and>
        ol_events o' = ol_events (or_lifecycle r) @ [ev] \<and>
        find_order cid t = Some (r\<lparr>or_state := ns, or_lifecycle := o', or_updated_at_utc := tm\<rparr>) \<and>
        lg_order_events t = lg_order_events s @ [\<lparr>oe_client_order_id = cid, oe_event = ev\<rparr>]"
proof (cases "find_order cid s")
  case None
  then show ?thesis by (auto simp: transition_order_cases [OF ok] unknown_order_def)
next
  case (Some r)
  show ?thesis
  proof (cases "is_utc tm")
    case False
    with Some show ?thesis
      by (auto simp: transition_order_cases [OF ok] split: sum.split)
  next
    case tm: True
    show ?thesis
    proof (cases "apply_transition (or_lifecycle r) ns tm prov fs")
      case (Inl e)
      have "e \<noteq> IntegrityError c" for c
        using Inl by (auto simp: apply_transition_def Let_def validate_event_def validate_lifecycle_def
            split: if_splits option.splits)
      with Some Inl tm show ?thesis by (simp add: transition_order_cases [OF ok])
    next
      case (Inr o')
      note tr = apply_transition_Inr [OF Inr]
      have "find_order cid (after_transition cid o' tm s) =
          Some (r\<lparr>or_state := ns, or_lifecycle := o', or_updated_at_utc := tm\<rparr>)"
        using Some tr(2) by (simp add: after_transition_def tbl)
      with Some Inr tm tr(8) show ?thesis
        by (simp add: transition_order_cases [OF ok] after_transition_def tbl_insert_def)
    qed
  qed
qed

lemma transition_is_atomic_witness:
  "snd (transition_order ''c'' FILLED (utc 1) ''x'' None empty_ledger) = empty_ledger"
  using transition_is_atomic [OF ledger_ok_empty, of "''c''" FILLED "utc 1" "''x''" None]
  by (auto simp: empty_ledger_def split: prod.splits sum.splits)

end
