(* ===== verification/Reconcile.thy ===== *)
theory Reconcile
  imports AlpacaPaper OrderLedger
begin

text \<open>
  \<open>execution/reconcile.py\<close>: bringing one local order in line with the broker's snapshot of it.
\<close>

section \<open>The broker's statuses\<close>

definition SUBMITTED_STATUSES :: "string list" where
  "SUBMITTED_STATUSES = [''new'', ''accepted'', ''pending_new'', ''accepted_for_bidding'',
     ''calculated'', ''held'', ''stopped'', ''pending_replace'']"

definition CANCELLED_STATUSES :: "string list" where
  "CANCELLED_STATUSES = [''canceled'', ''expired'', ''replaced'', ''done_for_day'']"

definition REJECTED_STATUSES :: "string list" where
  "REJECTED_STATUSES = [''rejected'', ''suspended'']"

definition filled_shares :: "BrokerOrder \<Rightarrow> py_error + int" where
  "filled_shares order = (case parse_decimal (bo_filled_qty order) of
      None \<Rightarrow> Inl (ReconciliationError ''broker filled quantity is invalid'')
    | Some v \<Rightarrow>
       (case decimal_not_integral v of Inl e \<Rightarrow> Inl e | Inr fractional \<Rightarrow>
        case (if fractional then Inr True else decimal_lt_zero v) of Inl e \<Rightarrow> Inl e | Inr bad \<Rightarrow>
        if bad then Inl (ReconciliationError ''broker filled quantity is not a non-negative integer'')
        else case decimal_to_int v of Inl e \<Rightarrow> Inl e | Inr filled \<Rightarrow>
          if bo_qty order < filled
          then Inl (ReconciliationError ''broker filled quantity exceeds requested quantity'')
          else Inr filled))"

definition broker_target :: "string \<Rightarrow> int \<Rightarrow> OrderLifecycle \<Rightarrow> py_error + OrderState" where
  \<comment> \<open>the chain on \<open>status\<close>; \<open>current\<close> is only looked at for a complete fill\<close>
  "broker_target status filled current =
     (if status = ''filled'' then
        (if filled \<noteq> ol_requested_shares current
         then Inl (ReconciliationError ''broker filled status has inconsistent filled quantity'')
         else Inr FILLED)
      else if status = ''partially_filled'' then Inr PARTIALLY_FILLED
      else if status \<in> set CANCELLED_STATUSES then Inr CANCELLED
      else if status \<in> set REJECTED_STATUSES then Inr REJECTED
      else if status \<in> set SUBMITTED_STATUSES then Inr SUBMITTED
      else Inl (ReconciliationError (''unsupported broker order status: '' @ status)))"

definition broker_status :: "BrokerOrder \<Rightarrow> string" where
  "broker_status broker = py_lower (py_strip (bo_status broker))"

section \<open>reconcile_broker_order\<close>

definition apply_broker_status ::
    "OrderLifecycle \<Rightarrow> BrokerOrder \<Rightarrow> datetime \<Rightarrow> (order_ledger, OrderLifecycle) op" where
  \<comment> \<open>from \<open>status = ...\<close> to the end\<close>
  "apply_broker_status current broker at_utc = (let status = broker_status broker in
     bindS (liftS (filled_shares broker)) (\<lambda>filled.
     bindS (liftS (broker_target status filled current)) (\<lambda>target.
       if ol_state current \<in> {CANCELLED, REJECTED, FILLED} then
         (if target = ol_state current \<and> filled = ol_filled_shares current then returnS current
          else raiseS (ReconciliationError ''broker status conflicts with local terminal state''))
       else if target = ol_state current \<and> filled = ol_filled_shares current then returnS current
       else if target = SUBMITTED then
         (if ol_state current = SUBMITTED then returnS current
          else raiseS (ReconciliationError ''broker status regressed to submitted''))
       else transition_order (ol_client_order_id current) target at_utc
              (''alpaca.paper.status:'' @ status) (Some filled))))"

definition promote_approved ::
    "OrderLifecycle \<Rightarrow> BrokerOrder \<Rightarrow> datetime \<Rightarrow> (order_ledger, OrderLifecycle) op" where
  "promote_approved current broker at_utc =
     (if ol_state current = APPROVED
      then transition_order (ol_client_order_id current) SUBMITTED at_utc
             (''alpaca.paper.recovery:'' @ bo_id broker) None
      else returnS current)"

definition same_broker_identity :: "OrderLifecycle \<Rightarrow> BrokerOrder \<Rightarrow> bool" where
  "same_broker_identity local broker \<longleftrightarrow>
     ol_client_order_id local = bo_client_order_id broker \<and> ol_symbol local = bo_symbol broker \<and>
     ol_requested_shares local = bo_qty broker"

definition reconcile_broker_order ::
    "OrderLifecycle \<Rightarrow> BrokerOrder \<Rightarrow> datetime \<Rightarrow> (order_ledger, OrderLifecycle) op" where
  "reconcile_broker_order local broker at_utc =
     thenS (guardS (same_broker_identity local broker)
              (ReconciliationError ''broker order identity does not match local intent''))
     (thenS (record_broker_order_id (ol_client_order_id local) (bo_id broker))
     (bindS (get_order (ol_client_order_id local)) (\<lambda>found. case found of
        None \<Rightarrow> raiseS (ReconciliationError ''local order disappeared during reconciliation'')
      | Some current \<Rightarrow>
          if ol_state current \<in> {CREATED, PENDING_RISK}
          then raiseS (ReconciliationError ''broker order exists before local risk approval'')
          else bindS (promote_approved current broker at_utc) (\<lambda>current'.
                 apply_broker_status current' broker at_utc))))"

section \<open>What reconciliation keeps\<close>

lemma keeps_apply_broker_status [keeps_intro]:
  "keeps ledger_ok ledger_below (apply_broker_status current broker tm)"
  unfolding apply_broker_status_def Let_def by (intro keeps_intro)

lemma keeps_promote_approved [keeps_intro]:
  "keeps ledger_ok ledger_below (promote_approved current broker tm)"
  unfolding promote_approved_def by (intro keeps_intro)

lemma keeps_reconcile [keeps_intro]:
  "keeps ledger_ok ledger_below (reconcile_broker_order local broker tm)"
  unfolding reconcile_broker_order_def by (intro keeps_intro)

section \<open>What a reconciled order says\<close>

lemma filled_shares_Inr:
  assumes "filled_shares b = Inr n"
  shows "n \<le> bo_qty b"
    and "\<exists>d. parse_decimal (bo_filled_qty b) = Some (Finite d) \<and> of_int n = dec_val d \<and> 0 \<le> n"
proof -
  obtain v where v: "parse_decimal (bo_filled_qty b) = Some v"
    using assms by (auto simp: filled_shares_def split: option.splits)
  have n: "decimal_not_integral v = Inr False" "decimal_lt_zero v = Inr False" "decimal_to_int v = Inr n"
    "n \<le> bo_qty b"
    using assms v by (auto simp: filled_shares_def split: sum.splits if_splits)
  show "n \<le> bo_qty b" by (rule n(4))
  obtain d where d: "v = Finite d" using n by (cases v) auto
  have "of_int n = dec_val d" using n d dec_is_integral_val [of d] by simp
  moreover from this have "0 \<le> n" using n d by (simp add: not_less of_int_0_le_iff [symmetric, where ?'a = rat])
  ultimately show "\<exists>d. parse_decimal (bo_filled_qty b) = Some (Finite d) \<and> of_int n = dec_val d \<and> 0 \<le> n"
    using v d by blast
qed

lemma transition_order_Inr:
  assumes ok: "ledger_ok s" and "transition_order cid ns tm prov fs s = (Inr updated, t)"
  obtains r where "find_order cid s = Some r"
    and "apply_transition (or_lifecycle r) ns tm prov fs = Inr updated"
    and "t = after_transition cid updated tm s" and "is_utc tm"
  using assms(2) by (auto simp: transition_order_cases [OF ok] split: option.splits sum.splits if_splits)

lemma order_of_after_transition:
  "find_order cid s = Some r \<Longrightarrow> order_of (after_transition cid o' tm s) cid = Some o'"
  by (simp add: order_of_def after_transition_def tbl)

lemma find_order_after_other:
  "c \<noteq> cid \<Longrightarrow> find_order c (after_transition cid o' tm s) = find_order c s"
  by (simp add: after_transition_def tbl)

text \<open>
  The summary: the order that comes back is the one in the ledger, in the state that the broker's
  status names, with the broker's fill (an order that is still submitted may report a fill late).
\<close>

definition agrees_with_broker :: "OrderLifecycle \<Rightarrow> BrokerOrder \<Rightarrow> bool" where
  "agrees_with_broker o' broker \<longleftrightarrow>
     (\<exists>n. filled_shares broker = Inr n \<and>
        broker_target (broker_status broker) n o' = Inr (ol_state o') \<and>
        (ol_filled_shares o' = n \<or> ol_state o' = SUBMITTED))"

lemma broker_target_cong:
  "ol_requested_shares a = ol_requested_shares b \<Longrightarrow> broker_target st n a = broker_target st n b"
  by (simp only: broker_target_def)

lemma apply_broker_status_Inr:
  assumes ok: "ledger_ok s" and cur: "order_of s (ol_client_order_id current) = Some current"
    and "apply_broker_status current broker tm s = (Inr o', t)"
  shows "order_of t (ol_client_order_id current) = Some o' \<and> agrees_with_broker o' broker \<and>
         ol_client_order_id o' = ol_client_order_id current \<and>
         (\<forall>c. c \<noteq> ol_client_order_id current \<longrightarrow> find_order c t = find_order c s)"
proof -
  obtain n target where n: "filled_shares broker = Inr n"
    and target: "broker_target (broker_status broker) n current = Inr target"
    and rest: "(if ol_state current \<in> {CANCELLED, REJECTED, FILLED} then
         (if target = ol_state current \<and> n = ol_filled_shares current then returnS current
          else raiseS (ReconciliationError ''broker status conflicts with local terminal state''))
       else if target = ol_state current \<and> n = ol_filled_shares current then returnS current
       else if target = SUBMITTED then
         (if ol_state current = SUBMITTED then returnS current
          else raiseS (ReconciliationError ''broker status regressed to submitted''))
       else transition_order (ol_client_order_id current) target tm
              (''alpaca.paper.status:'' @ broker_status broker) (Some n)) s = (Inr o', t)"
    using assms(3) by (auto simp: apply_broker_status_def Let_def bindS_eq_Inr)
  consider (same) "o' = current" "t = s" "target = ol_state current"
      "n = ol_filled_shares current \<or> ol_state current = SUBMITTED"
    | (step) "transition_order (ol_client_order_id current) target tm
              (''alpaca.paper.status:'' @ broker_status broker) (Some n) s = (Inr o', t)"
    using rest by (auto split: if_splits)
  then show ?thesis
  proof cases
    case same
    with cur n target show ?thesis by (auto simp: agrees_with_broker_def)
  next
    case step
    then obtain r where r: "find_order (ol_client_order_id current) s = Some r"
      and app: "apply_transition (or_lifecycle r) target tm
          (''alpaca.paper.status:'' @ broker_status broker) (Some n) = Inr o'"
      and t: "t = after_transition (ol_client_order_id current) o' tm s"
      by (rule transition_order_Inr [OF ok])
    have [simp]: "or_lifecycle r = current" using cur r by (simp add: order_of_def)
    note tr = apply_transition_Inr [OF app]
    have "broker_target (broker_status broker) n o' = Inr target"
      using target broker_target_cong [OF tr(11)] by simp
    with tr n r show ?thesis
      by (auto simp: t agrees_with_broker_def order_of_after_transition find_order_after_other)
  qed
qed


definition broker_id_of :: "order_ledger \<Rightarrow> string \<Rightarrow> string option" where
  "broker_id_of s cid = Option.bind (find_order cid s) or_broker_order_id"

lemma order_of_eq: "order_of s cid = Some o' \<longleftrightarrow> (\<exists>r. find_order cid s = Some r \<and> or_lifecycle r = o')"
  by (auto simp: order_of_def)

lemma get_order_ok: "ledger_ok s \<Longrightarrow> get_order cid s = (Inr (order_of s cid), s)"
  by (simp add: get_order_def read_order_ok order_of_def)

lemma ledger_below_row:
  assumes "ledger_below s t" and "find_order cid s = Some r"
  obtains q where "find_order cid t = Some q" and "row_below r q"
  using assms unfolding ledger_below_def by metis

lemma order_of_cid: "ledger_ok s \<Longrightarrow> order_of s cid = Some o' \<Longrightarrow> ol_client_order_id o' = cid"
  using ledger_ok_row(1,2) by (force simp: order_of_eq row_ok_def)

lemma promote_approved_Inr:
  assumes ok: "ledger_ok s" and cur: "order_of s (ol_client_order_id current) = Some current"
    and "promote_approved current broker tm s = (Inr o', t)"
  shows "order_of t (ol_client_order_id current) = Some o' \<and>
     ol_client_order_id o' = ol_client_order_id current \<and>
     (\<forall>c. c \<noteq> ol_client_order_id current \<longrightarrow> find_order c t = find_order c s)"
proof (cases "ol_state current = APPROVED")
  case False
  with assms show ?thesis by (simp add: promote_approved_def)
next
  case True
  then have "transition_order (ol_client_order_id current) SUBMITTED tm
      (''alpaca.paper.recovery:'' @ bo_id broker) None s = (Inr o', t)"
    using assms(3) by (simp add: promote_approved_def)
  then obtain r where r: "find_order (ol_client_order_id current) s = Some r"
      and app: "apply_transition (or_lifecycle r) SUBMITTED tm
          (''alpaca.paper.recovery:'' @ bo_id broker) None = Inr o'"
      and t: "t = after_transition (ol_client_order_id current) o' tm s"
    by (rule transition_order_Inr [OF ok])
  have "or_lifecycle r = current" using cur r by (simp add: order_of_def)
  with apply_transition_Inr(9) [OF app] r show ?thesis
    by (simp add: t order_of_after_transition find_order_after_other)
qed

lemma reconcile_Inr:
  assumes ok: "ledger_ok s" and rec: "reconcile_broker_order local broker tm s = (Inr o', t)"
  shows "same_broker_identity local broker" and "ledger_ok t" and "ledger_below s t"
    and "order_of t (ol_client_order_id local) = Some o'" and "agrees_with_broker o' broker"
    and "broker_id_of t (ol_client_order_id local) = Some (bo_id broker)"
    and "\<not> is_blank (bo_id broker)"
    and "order_of s (ol_client_order_id local) \<noteq> None"
    and "\<And>c. c \<noteq> ol_client_order_id local \<Longrightarrow> find_order c t = find_order c s"
proof -
  let ?cid = "ol_client_order_id local"
  show ident: "same_broker_identity local broker"
    using rec by (simp add: reconcile_broker_order_def thenS_eq_Inr)
  obtain s1 where bind: "record_broker_order_id ?cid (bo_id broker) s = (Inr (), s1)"
    and rest: "bindS (get_order ?cid) (\<lambda>found. case found of
        None \<Rightarrow> raiseS (ReconciliationError ''local order disappeared during reconciliation'')
      | Some current \<Rightarrow>
          if ol_state current \<in> {CREATED, PENDING_RISK}
          then raiseS (ReconciliationError ''broker order exists before local risk approval'')
          else bindS (promote_approved current broker tm) (\<lambda>current'.
                 apply_broker_status current' broker tm)) s1 = (Inr o', t)"
    using rec by (auto simp: reconcile_broker_order_def thenS_eq_Inr)
  obtain r where r: "find_order ?cid s = Some r" "\<not> is_blank (bo_id broker)"
    and s1: "s1 = s\<lparr>lg_orders := tbl_update or_client_order_id ?cid
                  (\<lambda>r. r\<lparr>or_broker_order_id := Some (bo_id broker)\<rparr>) (lg_orders s)\<rparr>"
    using bind by (rule record_broker_order_id_Inr)
  show "\<not> is_blank (bo_id broker)" "order_of s ?cid \<noteq> None" using r by (simp_all add: order_of_def)
  have ok1: "ledger_ok s1" using keepsD [OF keeps_record_broker_order_id ok] bind by (metis snd_conv)
  have row1: "find_order ?cid s1 = Some (r\<lparr>or_broker_order_id := Some (bo_id broker)\<rparr>)"
    using r(1) by (simp add: s1 tbl)
  obtain current where cur: "order_of s1 ?cid = Some current"
    and go: "bindS (promote_approved current broker tm) (\<lambda>current'.
                 apply_broker_status current' broker tm) s1 = (Inr o', t)"
    using rest by (auto simp: bindS_def get_order_ok [OF ok1] split: option.splits if_splits)
  have cid: "ol_client_order_id current = ?cid" using ok1 cur by (rule order_of_cid)
  obtain o1 s2 where p: "promote_approved current broker tm s1 = (Inr o1, s2)"
    and a: "apply_broker_status o1 broker tm s2 = (Inr o', t)"
    using go by (auto simp: bindS_eq_Inr)
  have k2: "ledger_ok s2" "ledger_below s1 s2"
    using keepsD [OF keeps_promote_approved ok1] p by (metis snd_conv)+
  have k3: "ledger_ok t" "ledger_below s2 t"
    using keepsD [OF keeps_apply_broker_status k2(1)] a by (metis snd_conv)+
  show "ledger_ok t" by (rule k3(1))
  show "ledger_below s t"
    using keepsD [OF keeps_reconcile ok] rec by (metis snd_conv)
  have pr: "order_of s2 (ol_client_order_id current) = Some o1"
    "ol_client_order_id o1 = ol_client_order_id current"
    using promote_approved_Inr [OF ok1 _ p] cur cid by auto
  then have "order_of s2 (ol_client_order_id o1) = Some o1" by simp
  note ap = apply_broker_status_Inr [OF k2(1) this a]
  have "find_order c s2 = find_order c s1" if "c \<noteq> ?cid" for c
    using promote_approved_Inr [OF ok1 _ p] cur cid that by simp
  then show "find_order c t = find_order c s" if "c \<noteq> ?cid" for c
    using ap pr cid that by (simp add: s1 tbl)
  from ap pr cid show "order_of t ?cid = Some o'" "agrees_with_broker o' broker" by simp_all
  have "ledger_below s1 t"
    using k2 k3 ok1 by (blast intro: ledger_below_trans)
  then obtain q where "find_order ?cid t = Some q"
    "row_below (r\<lparr>or_broker_order_id := Some (bo_id broker)\<rparr>) q"
    using row1 by (rule ledger_below_row)
  then show "broker_id_of t ?cid = Some (bo_id broker)"
    by (auto simp: broker_id_of_def row_below_def)
qed

text \<open>Reconciling again with the same snapshot finds nothing to do.\<close>

lemma tbl_update_same:
  "(\<And>r. r \<in> set t \<Longrightarrow> key r = k \<Longrightarrow> f r = r) \<Longrightarrow> tbl_update key k f t = t"
  by (simp add: tbl_update_def map_idI)

lemma record_broker_order_id_again:
  assumes ok: "ledger_ok s" and bound: "broker_id_of s cid = Some bid" and "\<not> is_blank bid"
  shows "record_broker_order_id cid bid s = (Inr (), s)"
proof -
  obtain r where r: "find_order cid s = Some r" "or_broker_order_id r = Some bid"
    using bound by (auto simp: broker_id_of_def bind_eq_Some_conv)
  have uniq: "q = r" if "q \<in> set (lg_orders s)" "or_client_order_id q = cid" for q
    using that r(1) ledger_okD(1) [OF ok] tbl_find_unique [of or_client_order_id "lg_orders s" q] by auto
  have same: "r\<lparr>or_broker_order_id := Some bid\<rparr> = r" using r(2) by (cases r) simp
  have "tbl_update or_client_order_id cid (\<lambda>r. r\<lparr>or_broker_order_id := Some bid\<rparr>) (lg_orders s)
      = lg_orders s"
    by (rule tbl_update_same) (use uniq same in auto)
  moreover have "broker_id_free cid bid s"
    using ledger_okD(3) [OF ok] ledger_ok_row(2,3) [OF ok r(1)] r(2)
    unfolding broker_id_free_def list_all_iff broker_ids_unique_def by blast
  ultimately show ?thesis
    using assms(3) r by (simp add: record_broker_order_id_def run)
qed

lemma agrees_state:
  assumes "agrees_with_broker o' broker"
  shows "ol_state o' \<in> {FILLED, PARTIALLY_FILLED, CANCELLED, REJECTED, SUBMITTED}"
  using assms unfolding agrees_with_broker_def broker_target_def
  by (auto split: if_splits)

lemma apply_broker_status_again:
  assumes "agrees_with_broker o' broker"
  shows "apply_broker_status o' broker tm s = (Inr o', s)"
proof -
  obtain n where n: "filled_shares broker = Inr n"
    "broker_target (broker_status broker) n o' = Inr (ol_state o')"
    "ol_filled_shares o' = n \<or> ol_state o' = SUBMITTED"
    using assms by (auto simp: agrees_with_broker_def)
  then show ?thesis
    by (auto simp: apply_broker_status_def Let_def run)
qed

lemma same_identity_below:
  assumes ok: "ledger_ok s" and below: "ledger_below s t"
    and "order_of s cid = Some p" and "order_of t cid = Some q"
  shows "same_intent p q"
proof -
  obtain r where r: "find_order cid s = Some r" "or_lifecycle r = p"
    using assms(3) by (auto simp: order_of_eq)
  obtain q' where "find_order cid t = Some q'" "row_below r q'"
    using below r(1) by (rule ledger_below_row)
  with assms(4) r(2) show ?thesis by (auto simp: order_of_eq row_below_def)
qed

section \<open>Properties\<close>

text \<open>C16: a reconciliation that returns leaves the ledger consistent and above what it was, binds
  the broker's order id, and returns the ledger's order in the state that the broker's status names,
  with the broker's filled quantity (only an order still submitted may lag behind it).\<close>

theorem reconcile_agrees:
  assumes "ledger_ok s" and "reconcile_broker_order local broker tm s = (Inr o', t)"
  shows "ledger_ok t \<and> ledger_below s t \<and> order_of t (ol_client_order_id local) = Some o' \<and>
         agrees_with_broker o' broker \<and>
         broker_id_of t (ol_client_order_id local) = Some (bo_id broker)"
  using reconcile_Inr [OF assms] by simp

text \<open>Reconciling again with the same broker snapshot, at any later time, returns the same order
  and changes nothing.\<close>

theorem reconcile_replay:
  assumes ok: "ledger_ok s" and rec: "reconcile_broker_order local broker tm s = (Inr o', t)"
  shows "reconcile_broker_order local broker tm' t = (Inr o', t)"
proof -
  note r = reconcile_Inr [OF ok rec]
  have st: "ol_state o' \<notin> {CREATED, PENDING_RISK, APPROVED}"
    using agrees_state [OF r(5)] by auto
  then have "promote_approved o' broker tm' t = (Inr o', t)" by (simp add: promote_approved_def)
  with st show ?thesis
    by (simp add: reconcile_broker_order_def r(1) record_broker_order_id_again [OF r(2,6,7)] thenS_run
        guardS_run get_order_ok [OF r(2)] r(4) apply_broker_status_again [OF r(5)])
qed

text \<open>
  An exception other than ReconciliationError can escape: the status sets allow targets that the
  transition table of the order does not.
\<close>

lemma apply_broker_status_illegal:
  assumes ok: "ledger_ok s" and cur: "order_of s (ol_client_order_id current) = Some current"
    and n: "filled_shares broker = Inr n"
    and target: "broker_target (broker_status broker) n current = Inr target"
    and live: "\<not> terminal_state (ol_state current)" "target \<noteq> SUBMITTED" "target \<noteq> ol_state current"
    and illegal: "target \<notin> set (ALLOWED_TRANSITIONS (ol_state current))"
  shows "\<exists>msg. apply_broker_status current broker tm s = (Inl (ValueError msg), s)"
proof -
  obtain r where r: "find_order (ol_client_order_id current) s = Some r" "or_lifecycle r = current"
    using cur by (auto simp: order_of_eq)
  have "apply_transition current target tm (''alpaca.paper.status:'' @ broker_status broker) (Some n) =
     Inl (ValueError (''illegal order transition: '' @ state_value (ol_state current) @ '' -> ''
                            @ state_value target))"
    using illegal by (simp add: apply_transition_def)
  moreover have "transition_order (ol_client_order_id current) target tm
      (''alpaca.paper.status:'' @ broker_status broker) (Some n) s =
     (Inl (ValueError (if is_utc tm then ''illegal order transition: '' @ state_value (ol_state current)
         @ '' -> '' @ state_value target else ''ledger timestamps must be timezone-aware UTC'')), s)"
    using r calculation by (simp add: transition_order_cases [OF ok])
  moreover have "ol_state current \<notin> {CANCELLED, REJECTED, FILLED}"
    using live(1) by (auto simp: terminal_state_def)
  ultimately show ?thesis
    using n target live(2,3) by (auto simp: apply_broker_status_def Let_def run)
qed

text \<open>C19: startup cannot rely on ReconciliationError alone: for a partially filled order, or one with a
  cancel request pending, that the broker reports as rejected, the exception that leaves
  \<open>reconcile_broker_order\<close> is the ValueError of the transition table.\<close>

theorem reconcile_escapes:
  assumes ok: "ledger_ok s" and cur: "order_of s (ol_client_order_id current) = Some current"
    and st: "ol_state current \<in> {PARTIALLY_FILLED, CANCEL_PENDING}"
    and ident: "same_broker_identity current broker"
    and bind: "record_broker_order_id (ol_client_order_id current) (bo_id broker) s = (Inr (), s1)"
    and status: "broker_status broker \<in> set REJECTED_STATUSES" and n: "filled_shares broker = Inr n"
  shows "\<exists>msg. reconcile_broker_order current broker tm s = (Inl (ValueError msg), s1)"
proof -
  have ok1: "ledger_ok s1" using keepsD [OF keeps_record_broker_order_id ok] bind by (metis snd_conv)
  obtain r where r: "find_order (ol_client_order_id current) s = Some r"
    "s1 = s\<lparr>lg_orders := tbl_update or_client_order_id (ol_client_order_id current)
                  (\<lambda>r. r\<lparr>or_broker_order_id := Some (bo_id broker)\<rparr>) (lg_orders s)\<rparr>"
    using bind by (rule record_broker_order_id_Inr)
  then have cur1: "order_of s1 (ol_client_order_id current) = Some current"
    using cur by (simp add: order_of_def tbl)
  have target: "broker_target (broker_status broker) n current = Inr REJECTED"
    using status by (auto simp: broker_target_def REJECTED_STATUSES_def CANCELLED_STATUSES_def)
  have "\<exists>msg. apply_broker_status current broker tm s1 = (Inl (ValueError msg), s1)"
    by (rule apply_broker_status_illegal [OF ok1 cur1 n target]) (use st in \<open>auto simp: terminal_state_def\<close>)
  moreover have "promote_approved current broker tm s1 = (Inr current, s1)"
    using st by (auto simp: promote_approved_def)
  moreover have "ol_state current \<notin> {CREATED, PENDING_RISK}" using st by auto
  ultimately show ?thesis
    by (simp add: reconcile_broker_order_def thenS_run guardS_run ident bind get_order_ok [OF ok1] cur1)
qed

section \<open>Concrete runs\<close>

definition sample_order :: OrderLifecycle where
  "sample_order = \<lparr>ol_client_order_id = ''tsv2-p1-entry'', ol_plan_id = ''p1'', ol_symbol = ''AAPL'',
     ol_requested_shares = 10, ol_state = CREATED, ol_filled_shares = 0, ol_events = []\<rparr>"

definition sample_steps :: "ledger_cmd list" where
  "sample_steps = [CreateOrder sample_order (utc 0),
     Transition ''tsv2-p1-entry'' PENDING_RISK (utc 1) ''risk'' None,
     Transition ''tsv2-p1-entry'' APPROVED (utc 2) ''ok'' None]"

definition sample_ledger :: order_ledger where
  "sample_ledger = fold exec_ledger sample_steps empty_ledger"

definition sample_fill :: "string \<Rightarrow> string \<Rightarrow> BrokerOrder" where
  "sample_fill status qty = BrokerOrder ''b1'' ''tsv2-p1-entry'' ''AAPL'' 10 qty status
     (Some ''100.50'') (Some ''buy'') None []"

lemma ledger_ok_fold: "ledger_ok (fold exec_ledger cs empty_ledger)"
  using ledger_machine.run_all_inv [OF ledger_ok_empty] by (simp add: ledger_machine.run_all_def)

lemma sample_ledger_ok: "ledger_ok sample_ledger"
  unfolding sample_ledger_def by (rule ledger_ok_fold)

lemma reconcile_agrees_witness:
  "\<exists>o' t. reconcile_broker_order sample_order (sample_fill ''partially_filled'' ''4'') (utc 5) sample_ledger
      = (Inr o', t) \<and> ledger_ok t \<and> ol_filled_shares o' = 4"
proof -
  let ?r = "reconcile_broker_order sample_order (sample_fill ''partially_filled'' ''4'') (utc 5) sample_ledger"
  have "(case fst ?r of Inl _ \<Rightarrow> False | Inr o' \<Rightarrow> ol_filled_shares o' = 4)"
    by code_simp
  then obtain o' t where r: "?r = (Inr o', t)" "ol_filled_shares o' = 4"
    by (cases ?r) (auto split: sum.splits)
  then show ?thesis using reconcile_agrees [OF sample_ledger_ok r(1)] by blast
qed

lemma reconcile_replay_witness:
  "\<exists>o' t. reconcile_broker_order sample_order (sample_fill '' FILLED '' ''10.0'') (utc 5) sample_ledger
      = (Inr o', t) \<and>
     reconcile_broker_order sample_order (sample_fill '' FILLED '' ''10.0'') (utc 9) t = (Inr o', t)"
proof -
  let ?r = "reconcile_broker_order sample_order (sample_fill '' FILLED '' ''10.0'') (utc 5) sample_ledger"
  have "(case fst ?r of Inl _ \<Rightarrow> False | Inr _ \<Rightarrow> True)" by code_simp
  then obtain o' t where r: "?r = (Inr o', t)"
    by (cases ?r) (auto split: sum.splits)
  then show ?thesis using reconcile_replay [OF sample_ledger_ok r] by blast
qed

definition sample_partial_ledger :: order_ledger where
  "sample_partial_ledger = fold exec_ledger (sample_steps @
     [Transition ''tsv2-p1-entry'' SUBMITTED (utc 3) ''sent'' None,
      Transition ''tsv2-p1-entry'' PARTIALLY_FILLED (utc 4) ''fill'' (Some 4)]) empty_ledger"

definition sample_partial :: OrderLifecycle where
  "sample_partial = (case order_of sample_partial_ledger ''tsv2-p1-entry'' of Some o' \<Rightarrow> o' | None \<Rightarrow> sample_order)"

lemma sample_partial_ledger_ok: "ledger_ok sample_partial_ledger"
  unfolding sample_partial_ledger_def by (rule ledger_ok_fold)

lemma reconcile_escapes_witness:
  "\<exists>msg t. reconcile_broker_order sample_partial (sample_fill ''rejected'' ''4'') (utc 9)
     sample_partial_ledger = (Inl (ValueError msg), t)"
proof -
  let ?b = "sample_fill ''rejected'' ''4''"
  have bind: "record_broker_order_id (ol_client_order_id sample_partial) (bo_id ?b) sample_partial_ledger =
      (Inr (), snd (record_broker_order_id (ol_client_order_id sample_partial) (bo_id ?b) sample_partial_ledger))"
    by code_simp
  have "order_of sample_partial_ledger (ol_client_order_id sample_partial) = Some sample_partial"
    by code_simp
  moreover have "ol_state sample_partial \<in> {PARTIALLY_FILLED, CANCEL_PENDING}" by code_simp
  moreover have "same_broker_identity sample_partial ?b" by code_simp
  moreover have "broker_status ?b \<in> set REJECTED_STATUSES" by code_simp
  moreover have "filled_shares ?b = Inr 4" by code_simp
  ultimately show ?thesis
    using reconcile_escapes [OF sample_partial_ledger_ok _ _ _ bind] by blast
qed

end
