(* ===== verification/Recovery.thy ===== *)
theory Recovery
  imports Reconcile "HOL-Library.AList" "HOL-Library.Multiset"
begin

text \<open>
  \<open>execution/recovery.py\<close>: the startup reconciliation of the local order management with the
  broker.  The state is the broker together with the ledger; the broker is any implementation of
  its port.
\<close>

section \<open>Orders\<close>

type_synonym 'b desk = "'b \<times> order_ledger"

abbreviation desk_ok :: "'b desk \<Rightarrow> bool" where
  "desk_ok p \<equiv> ledger_ok (snd p)"

abbreviation desk_below :: "'b desk \<Rightarrow> 'b desk \<Rightarrow> bool" where
  "desk_below p q \<equiv> ledger_below (snd p) (snd q)"

interpretation desk: growing "\<lambda>p. ledger_ok (snd p)" "\<lambda>p q. ledger_below (snd p) (snd q)"
  by unfold_locales (blast intro: ledger_below_refl ledger_below_trans)+

declare desk.keeps_rules [keeps_intro]

lemma keeps_desk_ledger [keeps_intro]:
  "keeps ledger_ok ledger_below m \<Longrightarrow> keeps desk_ok desk_below (on_snd m)"
  by (rule keeps_on_snd)

lemma keeps_desk_broker [keeps_intro]: "keeps desk_ok desk_below (on_fst m)"
  by (rule keeps_on_fst) (rule ledger_below_refl)

fun is_reconciliation_error :: "py_error \<Rightarrow> bool" where
  "is_reconciliation_error (ReconciliationError _) = True"
| "is_reconciliation_error _ = False"

definition broker_required :: "OrderState \<Rightarrow> bool" where
  "broker_required st \<longleftrightarrow> st \<in> {SUBMITTED, PARTIALLY_FILLED, CANCEL_PENDING, FILLED}"

record order_tally =
  ot_checked :: int
  ot_matched :: int
  ot_unresolved :: "string list"

definition tally_matched :: "order_tally \<Rightarrow> order_tally" where
  "tally_matched a = a\<lparr>ot_checked := ot_checked a + 1, ot_matched := ot_matched a + 1\<rparr>"

definition tally_unresolved :: "string \<Rightarrow> order_tally \<Rightarrow> order_tally" where
  "tally_unresolved cid a =
     a\<lparr>ot_checked := ot_checked a + 1, ot_unresolved := ot_unresolved a @ [cid]\<rparr>"

definition check_order ::
    "'b broker_port \<Rightarrow> datetime \<Rightarrow> OrderLifecycle \<Rightarrow> order_tally \<Rightarrow> ('b desk, order_tally) op" where
  \<comment> \<open>the body of the loop over the local orders\<close>
  "check_order port at_utc local acc =
     (if ol_state local \<in> {CANCELLED, REJECTED} then returnS acc
      else bindS (on_fst (bp_get_order_by_client_id port (ol_client_order_id local))) (\<lambda>found.
        case found of
          None \<Rightarrow> returnS (if broker_required (ol_state local)
                          then tally_unresolved (ol_client_order_id local) acc
                          else tally_matched acc)
        | Some broker \<Rightarrow>
            bindS (attemptS is_reconciliation_error
                     (on_snd (reconcile_broker_order local broker at_utc))) (\<lambda>res. case res of
              Inl _ \<Rightarrow> returnS (tally_unresolved (ol_client_order_id local) acc)
            | Inr _ \<Rightarrow> returnS (tally_matched acc))))"

fun check_orders ::
    "'b broker_port \<Rightarrow> datetime \<Rightarrow> OrderLifecycle list \<Rightarrow> order_tally \<Rightarrow> ('b desk, order_tally) op"
  where
  "check_orders port at_utc [] acc = returnS acc"
| "check_orders port at_utc (l # ls) acc =
     bindS (check_order port at_utc l acc) (check_orders port at_utc ls)"

section \<open>Positions\<close>

text \<open>A Python dict of quantities by symbol; \<open>qty_add\<close> is \<open>d[k] = d.get(k, Decimal("0")) + q\<close>.\<close>

type_synonym quantities = "(string \<times> dec) list"

definition qty_add :: "string \<Rightarrow> dec \<Rightarrow> quantities \<Rightarrow> quantities" where
  "qty_add k q m =
     AList.update k (dec_add (case map_of m k of None \<Rightarrow> dec_of_int 0 | Some v \<Rightarrow> v) q) m"

fun managed_quantities :: "string list \<Rightarrow> OrderLifecycle list \<Rightarrow> quantities \<Rightarrow> quantities" where
  "managed_quantities plan_ids [] m = m"
| "managed_quantities plan_ids (o' # os) m =
     (if ol_plan_id o' \<notin> set plan_ids \<or> ol_filled_shares o' \<le> 0 then managed_quantities plan_ids os m
      else managed_quantities plan_ids os
             (qty_add (ol_symbol o') (dec_of_int (ol_filled_shares o')) m))"

definition long_quantity :: "PaperPosition \<Rightarrow> dec option" where
  \<comment> \<open>the quantity of a position that passes the three \<open>continue\<close>s of the loop\<close>
  "long_quantity p =
     (if py_lower (py_strip (pp_side p)) \<noteq> ''long'' then None
      else case parse_decimal (pp_qty p) of
        Some (Finite q) \<Rightarrow> if dec_val q \<le> 0 then None else Some q
      | _ \<Rightarrow> None)"

fun scan_positions ::
    "PaperPosition list \<Rightarrow> quantities \<Rightarrow> string list \<Rightarrow> quantities \<times> string list" where
  \<comment> \<open>\<open>broker_quantities\<close> and \<open>position_mismatches\<close>\<close>
  "scan_positions [] m bad = (m, bad)"
| "scan_positions (p # ps) m bad = (case long_quantity p of
      None \<Rightarrow> scan_positions ps m (pp_symbol p # bad)
    | Some q \<Rightarrow> scan_positions ps (qty_add (pp_symbol p) q m) bad)"

definition sorted_set :: "string list \<Rightarrow> string list" where
  \<comment> \<open>\<open>sorted(set(xs))\<close>\<close>
  "sorted_set xs = sort (remdups xs)"

definition wrong_quantity :: "quantities \<Rightarrow> quantities \<Rightarrow> string \<Rightarrow> bool" where
  "wrong_quantity held managed symb =
     (case (map_of held symb, map_of managed symb) of
        (Some h, Some m) \<Rightarrow> \<not> dec_eq h m | _ \<Rightarrow> False)"

section \<open>reconcile_startup\<close>

record RecoveryReport =
  rr_checked_orders :: int
  rr_matched_orders :: int
  rr_unresolved_orders :: "string list"
  rr_position_symbols :: "string list"
  rr_unmatched_position_symbols :: "string list"
  rr_position_mismatch_symbols :: "string list"
  rr_match_rate :: rat
  rr_safe_to_resume :: bool
  rr_provenance :: string

definition recovery_report ::
    "order_tally \<Rightarrow> PaperPosition list \<Rightarrow> TradePlan list \<Rightarrow> OrderLifecycle list \<Rightarrow> date
       \<Rightarrow> RecoveryReport" where
  \<comment> \<open>everything after the last call to the broker\<close>
  "recovery_report tally positions plans orders trade_date =
     (let symbols = sorted_set (map pp_symbol positions);
          plan_ids = map tp_plan_id (filter (\<lambda>p. tp_trade_date p = trade_date) plans);
          managed = managed_quantities plan_ids orders [];
          unmatched = filter (\<lambda>symb. symb \<notin> set (map fst managed)) symbols;
          (held, bad) = scan_positions positions [] [];
          mismatch = sorted_set (bad @ filter (wrong_quantity held managed) (map fst managed));
          denominator = ot_checked tally + int (length symbols);
          matched_total = ot_matched tally + int (length symbols) - int (length unmatched)
            - int (length mismatch)
      in \<lparr>rr_checked_orders = ot_checked tally, rr_matched_orders = ot_matched tally,
          rr_unresolved_orders = sort (ot_unresolved tally), rr_position_symbols = symbols,
          rr_unmatched_position_symbols = unmatched, rr_position_mismatch_symbols = mismatch,
          rr_match_rate = (if denominator \<noteq> 0 then int_truediv matched_total denominator else 1),
          rr_safe_to_resume = (ot_unresolved tally = [] \<and> unmatched = [] \<and> mismatch = []),
          rr_provenance = ''execution.recovery.reconcile_startup.v1''\<rparr>)"

definition reconcile_startup ::
    "'b broker_port \<Rightarrow> datetime \<Rightarrow> date \<Rightarrow> ('b desk, RecoveryReport) op" where
  "reconcile_startup port at_utc trade_date =
     thenS (guardS (is_utc at_utc) (ValueError ''at_utc must be timezone-aware UTC''))
     (bindS (on_snd list_orders) (\<lambda>locals.
      bindS (check_orders port at_utc locals
               \<lparr>ot_checked = 0, ot_matched = 0, ot_unresolved = []\<rparr>) (\<lambda>tally.
      bindS (on_fst (bp_list_positions port)) (\<lambda>positions.
      bindS (on_snd list_plans) (\<lambda>plans.
      bindS (on_snd list_orders) (\<lambda>orders.
        returnS (recovery_report tally positions plans orders trade_date)))))))"

section \<open>What the startup keeps\<close>

lemma keeps_check_order [keeps_intro]: "keeps desk_ok desk_below (check_order port tm l acc)"
  unfolding check_order_def by (intro keeps_intro)

lemma keeps_check_orders [keeps_intro]: "keeps desk_ok desk_below (check_orders port tm ls acc)"
proof (induction ls arbitrary: acc)
  case Nil
  show ?case unfolding check_orders.simps by (intro keeps_intro)
next
  case (Cons l ls)
  show ?case unfolding check_orders.simps by (intro keeps_intro Cons.IH)
qed

lemma keeps_reconcile_startup [keeps_intro]:
  "keeps desk_ok desk_below (reconcile_startup port tm d)"
  unfolding reconcile_startup_def by (intro keeps_intro)

section \<open>Settled orders\<close>

text \<open>An order that agrees with a snapshot which the broker returned in this pass.\<close>

definition settled :: "order_ledger \<Rightarrow> string \<Rightarrow> bool" where
  "settled s cid \<longleftrightarrow> (\<exists>o' broker. order_of s cid = Some o' \<and> agrees_with_broker o' broker \<and>
      bo_client_order_id broker = cid \<and> broker_id_of s cid = Some (bo_id broker))"

lemma check_order_Inr:
  assumes ok: "desk_ok p" and run: "check_order port tm l acc p = (Inr acc', p')"
    and fin: "ot_unresolved acc' = []"
  shows "ot_unresolved acc = []" and "broker_required (ol_state l) \<Longrightarrow> settled (snd p') (ol_client_order_id l)"
    and "\<And>c. c \<noteq> ol_client_order_id l \<Longrightarrow> find_order c (snd p') = find_order c (snd p)"
proof (atomize (full), cases "ol_state l \<in> {CANCELLED, REJECTED}")
  case True
  with run fin show "ot_unresolved acc = [] \<and>
      (broker_required (ol_state l) \<longrightarrow> settled (snd p') (ol_client_order_id l)) \<and>
      (\<forall>c. c \<noteq> ol_client_order_id l \<longrightarrow> find_order c (snd p') = find_order c (snd p))"
    by (auto simp: check_order_def broker_required_def)
next
  case False
  then obtain found b1 where g: "bp_get_order_by_client_id port (ol_client_order_id l) (fst p) = (Inr found, b1)"
    and rest: "(case found of
          None \<Rightarrow> returnS (if broker_required (ol_state l)
                          then tally_unresolved (ol_client_order_id l) acc
                          else tally_matched acc)
        | Some broker \<Rightarrow>
            bindS (attemptS is_reconciliation_error
                     (on_snd (reconcile_broker_order l broker tm))) (\<lambda>res. case res of
              Inl _ \<Rightarrow> returnS (tally_unresolved (ol_client_order_id l) acc)
            | Inr _ \<Rightarrow> returnS (tally_matched acc))) (b1, snd p) = (Inr acc', p')"
    using run by (auto simp: check_order_def bindS_eq_Inr on_fst_eq)
  show "ot_unresolved acc = [] \<and>
      (broker_required (ol_state l) \<longrightarrow> settled (snd p') (ol_client_order_id l)) \<and>
      (\<forall>c. c \<noteq> ol_client_order_id l \<longrightarrow> find_order c (snd p') = find_order c (snd p))"
  proof (cases found)
    case None
    with rest fin show ?thesis
      by (auto simp: tally_unresolved_def tally_matched_def split: if_splits)
  next
    case (Some broker)
    with rest obtain res p2 where a: "attemptS is_reconciliation_error
          (on_snd (reconcile_broker_order l broker tm)) (b1, snd p) = (Inr res, p2)"
      and k: "(case res of Inl _ \<Rightarrow> returnS (tally_unresolved (ol_client_order_id l) acc)
            | Inr _ \<Rightarrow> returnS (tally_matched acc)) p2 = (Inr acc', p')"
      by (auto simp: bindS_eq_Inr)
    obtain o' where res: "res = Inr o'"
      using k fin by (cases res) (auto simp: tally_unresolved_def)
    then have r: "reconcile_broker_order l broker tm (snd p) = (Inr o', snd p')"
      and acc: "ot_unresolved acc = []"
      using a k fin by (auto simp: on_snd_eq tally_matched_def)
    note rec = reconcile_Inr [OF ok r]
    show ?thesis using acc rec by (auto simp: settled_def same_broker_identity_def)
  qed
qed

lemma settled_frame: "find_order cid t = find_order cid s \<Longrightarrow> settled t cid = settled s cid"
  by (simp add: settled_def order_of_def broker_id_of_def)

lemma check_orders_Inr:
  assumes "desk_ok p" and "check_orders port tm ls acc p = (Inr acc', p')"
    and "ot_unresolved acc' = []" and "distinct (map ol_client_order_id ls)"
  shows "ot_unresolved acc = [] \<and>
    (\<forall>l \<in> set ls. broker_required (ol_state l) \<longrightarrow> settled (snd p') (ol_client_order_id l)) \<and>
    (\<forall>c. c \<notin> ol_client_order_id ` set ls \<longrightarrow> find_order c (snd p') = find_order c (snd p))"
  using assms
proof (induction ls arbitrary: acc p)
  case Nil
  then show ?case by simp
next
  case (Cons l ls)
  obtain acc1 p1 where one: "check_order port tm l acc p = (Inr acc1, p1)"
    and rest: "check_orders port tm ls acc1 p1 = (Inr acc', p')"
    using Cons.prems(2) by (auto simp: bindS_eq_Inr)
  have ok1: "desk_ok p1" using keepsD [OF keeps_check_order Cons.prems(1)] one by (metis snd_conv)
  have ih: "ot_unresolved acc1 = []"
    "\<forall>l \<in> set ls. broker_required (ol_state l) \<longrightarrow> settled (snd p') (ol_client_order_id l)"
    "\<forall>c. c \<notin> ol_client_order_id ` set ls \<longrightarrow> find_order c (snd p') = find_order c (snd p1)"
    using Cons.IH [OF ok1 rest Cons.prems(3)] Cons.prems(4) by auto
  note c = check_order_Inr [OF Cons.prems(1) one ih(1)]
  have keep: "find_order (ol_client_order_id l) (snd p') = find_order (ol_client_order_id l) (snd p1)"
    using ih(3) Cons.prems(4) by force
  have "broker_required (ol_state l) \<Longrightarrow> settled (snd p') (ol_client_order_id l)"
    using c(2) by (simp only: settled_frame [OF keep])
  with ih(2) have "\<forall>l' \<in> set (l # ls). broker_required (ol_state l') \<longrightarrow>
      settled (snd p') (ol_client_order_id l')" by simp
  moreover have "find_order d (snd p') = find_order d (snd p)"
    if "d \<notin> ol_client_order_id ` set (l # ls)" for d
    using c(3) [of d] ih(3) that by simp
  ultimately show ?case using c(1) by blast
qed

section \<open>Quantities\<close>

definition dec_sum :: "dec list \<Rightarrow> dec" where
  "dec_sum qs = foldl dec_add (dec_of_int 0) qs"

lemma dec_sum_snoc [simp]: "dec_sum (qs @ [q]) = dec_add (dec_sum qs) q"
  by (simp add: dec_sum_def)

definition sum_opt :: "dec list \<Rightarrow> dec option" where
  "sum_opt qs = (if qs = [] then None else Some (dec_sum qs))"

lemma map_of_qty_add:
  "map_of (qty_add k q m) j = (if j = k then Some (dec_add (case map_of m k of None \<Rightarrow> dec_of_int 0 | Some v \<Rightarrow> v) q)
     else map_of m j)"
  by (simp add: qty_add_def update_conv)

text \<open>The quantities of one symbol, as the code would list them.\<close>

definition held_of :: "string \<Rightarrow> PaperPosition list \<Rightarrow> dec list" where
  "held_of symb ps = List.map_filter long_quantity (filter (\<lambda>p. pp_symbol p = symb) ps)"

definition managed_of :: "string \<Rightarrow> string list \<Rightarrow> OrderLifecycle list \<Rightarrow> dec list" where
  "managed_of symb plan_ids os = map (\<lambda>o'. dec_of_int (ol_filled_shares o'))
     (filter (\<lambda>o'. ol_symbol o' = symb \<and> ol_plan_id o' \<in> set plan_ids \<and> 0 < ol_filled_shares o') os)"

lemma held_of_snoc: "held_of symb (ps @ [p]) =
  held_of symb ps @ (if pp_symbol p = symb then (case long_quantity p of None \<Rightarrow> [] | Some q \<Rightarrow> [q]) else [])"
  by (simp add: held_of_def List.map_filter_def split: option.split)

lemma scan_positions_append:
  "scan_positions (ps @ qs) m bad = (case scan_positions ps m bad of (m', bad') \<Rightarrow> scan_positions qs m' bad')"
  by (induction ps arbitrary: m bad) (auto split: option.split)

lemma scan_positions_held:
  "map_of (fst (scan_positions ps [] [])) symb = sum_opt (held_of symb ps)"
proof (induction ps rule: rev_induct)
  case Nil
  show ?case by (simp add: sum_opt_def held_of_def List.map_filter_def)
next
  case (snoc p ps)
  obtain m bad where mb: "scan_positions ps [] [] = (m, bad)" by (cases "scan_positions ps [] []")
  with snoc have "map_of m symb = sum_opt (held_of symb ps)" by simp
  with mb show ?case
    by (auto simp: scan_positions_append held_of_snoc map_of_qty_add sum_opt_def dec_sum_def
        split: option.split if_splits)
qed

lemma scan_positions_bad:
  "set (snd (scan_positions ps m bad)) = set bad \<union> pp_symbol ` {p \<in> set ps. long_quantity p = None}"
  by (induction ps arbitrary: m bad) (auto split: option.split)

lemma managed_quantities_append:
  "managed_quantities ids (os @ qs) m = managed_quantities ids qs (managed_quantities ids os m)"
  by (induction os arbitrary: m) auto

lemma managed_quantities_of:
  "map_of (managed_quantities ids os []) symb = sum_opt (managed_of symb ids os)"
proof (induction os rule: rev_induct)
  case Nil
  show ?case by (simp add: sum_opt_def managed_of_def)
next
  case (snoc o' os)
  then show ?case
    by (auto simp: managed_quantities_append managed_of_def map_of_qty_add sum_opt_def dec_sum_def
        split: if_splits)
qed

section \<open>Reading the whole ledger\<close>

definition orders_in :: "order_ledger \<Rightarrow> OrderLifecycle list" where
  "orders_in s = map or_lifecycle (sort_key (\<lambda>r. instant (or_created_at_utc r))
                                      (sort_key or_client_order_id (lg_orders s)))"

definition plans_in :: "order_ledger \<Rightarrow> TradePlan list" where
  "plans_in s = map pr_plan (sort_key (\<lambda>r. instant (pr_created_at_utc r))
                                     (sort_key pr_plan_id (lg_trade_plans s)))"

lemma mapS_lift_all:
  "(\<And>x. x \<in> set xs \<Longrightarrow> f x = Inr (g x)) \<Longrightarrow> mapS (\<lambda>x. liftS (f x)) xs s = (Inr (map g xs), s)"
  by (induction xs) (auto simp: run)

lemma list_orders_ok: "ledger_ok s \<Longrightarrow> list_orders s = (Inr (orders_in s), s)"
  by (auto simp: list_orders_def bindS_run orders_in_def ledger_ok_def row_ok_def valid_order_def
      intro!: mapS_lift_all)

lemma list_plans_ok: "ledger_ok s \<Longrightarrow> list_plans s = (Inr (plans_in s), s)"
  by (auto simp: list_plans_def bindS_run plans_in_def ledger_ok_def plan_row_ok_def
      intro!: mapS_lift_all)

lemma orders_in_iff:
  assumes ok: "ledger_ok s"
  shows "o' \<in> set (orders_in s) \<longleftrightarrow> order_of s (ol_client_order_id o') = Some o'"
proof
  assume "o' \<in> set (orders_in s)"
  then obtain r where r: "r \<in> set (lg_orders s)" "o' = or_lifecycle r" by (auto simp: orders_in_def)
  have "find_order (or_client_order_id r) s = Some r"
    by (rule tbl_find_unique [OF ledger_okD(1) [OF ok] r(1)])
  with ledger_okD(2) [OF ok r(1)] r show "order_of s (ol_client_order_id o') = Some o'"
    by (auto simp: order_of_def row_ok_def)
next
  assume "order_of s (ol_client_order_id o') = Some o'"
  then show "o' \<in> set (orders_in s)"
    using ledger_ok_row(3) [OF ok] by (auto simp: order_of_eq orders_in_def)
qed

lemma distinct_sort_key_map: "distinct (map g (sort_key k xs)) = distinct (map g xs)"
proof -
  have "mset (map g (sort_key k xs)) = mset (map g xs)" by (simp add: mset_map)
  then show ?thesis by (rule mset_eq_imp_distinct_iff)
qed

lemma orders_in_distinct:
  assumes "ledger_ok s"
  shows "distinct (map ol_client_order_id (orders_in s))"
proof -
  have "map (ol_client_order_id \<circ> or_lifecycle) (lg_orders s) = map or_client_order_id (lg_orders s)"
    using ledger_okD(2) [OF assms] by (intro map_cong) (simp_all add: row_ok_def)
  then have "distinct (map (ol_client_order_id \<circ> or_lifecycle) (lg_orders s))"
    using ledger_okD(1) [OF assms] unfolding keys_unique_def by (simp only:)
  then show ?thesis by (simp add: orders_in_def distinct_sort_key_map)
qed

section \<open>What a safe report means\<close>

definition plan_ids_on :: "date \<Rightarrow> order_ledger \<Rightarrow> string list" where
  "plan_ids_on d s = map tp_plan_id (filter (\<lambda>p. tp_trade_date p = d) (plans_in s))"

text \<open>A position is long and of the very size that the day's filled orders add up to.\<close>

definition position_managed :: "order_ledger \<Rightarrow> date \<Rightarrow> PaperPosition list \<Rightarrow> PaperPosition \<Rightarrow> bool" where
  "position_managed s d ps p \<longleftrightarrow> long_quantity p \<noteq> None \<and>
     managed_of (pp_symbol p) (plan_ids_on d s) (orders_in s) \<noteq> [] \<and>
     dec_eq (dec_sum (held_of (pp_symbol p) ps))
            (dec_sum (managed_of (pp_symbol p) (plan_ids_on d s) (orders_in s)))"

lemma dom_map_of: "x \<in> set (map fst m) \<longleftrightarrow> map_of m x \<noteq> None"
  by (simp add: map_of_eq_None_iff)

lemma recovery_report_safe:
  assumes safe: "rr_safe_to_resume (recovery_report tally ps (plans_in s) (orders_in s) d)"
  shows "ot_unresolved tally = [] \<and> (\<forall>p \<in> set ps. position_managed s d ps p)"
proof -
  let ?m = "managed_quantities (plan_ids_on d s) (orders_in s) []"
  obtain held bad where hb: "scan_positions ps [] [] = (held, bad)"
    by (cases "scan_positions ps [] []")
  have u: "ot_unresolved tally = []"
    and un: "filter (\<lambda>symb. symb \<notin> set (map fst ?m)) (sorted_set (map pp_symbol ps)) = []"
    and mis: "sorted_set (bad @ filter (wrong_quantity held ?m) (map fst ?m)) = []"
    using safe hb by (simp_all add: recovery_report_def Let_def plan_ids_on_def)
  have bad: "bad = []" and right: "\<forall>symb \<in> set (map fst ?m). \<not> wrong_quantity held ?m symb"
  proof -
    have "set (bad @ filter (wrong_quantity held ?m) (map fst ?m)) = {}"
      using mis unfolding sorted_set_def by (metis set_empty set_remdups set_sort)
    then show "bad = []" "\<forall>symb \<in> set (map fst ?m). \<not> wrong_quantity held ?m symb" by auto
  qed
  have "position_managed s d ps p" if p: "p \<in> set ps" for p
  proof -
    have long: "long_quantity p \<noteq> None"
      using scan_positions_bad [of ps "[]" "[]"] hb bad p by auto
    have "pp_symbol p \<in> set (map fst ?m)"
      using un p unfolding filter_empty_conv sorted_set_def by simp
    then obtain m where m: "map_of ?m (pp_symbol p) = Some m"
      by (metis dom_map_of not_None_eq)
    then have mo: "managed_of (pp_symbol p) (plan_ids_on d s) (orders_in s) \<noteq> []"
      "m = dec_sum (managed_of (pp_symbol p) (plan_ids_on d s) (orders_in s))"
      by (auto simp: managed_quantities_of sum_opt_def split: if_splits)
    have "held_of (pp_symbol p) ps \<noteq> []"
      using p long by (force simp: held_of_def List.map_filter_def filter_empty_conv)
    then have h: "map_of held (pp_symbol p) = Some (dec_sum (held_of (pp_symbol p) ps))"
      using scan_positions_held [of ps "pp_symbol p"] hb by (simp add: sum_opt_def)
    have "\<not> wrong_quantity held ?m (pp_symbol p)"
      using right \<open>pp_symbol p \<in> set (map fst ?m)\<close> by blast
    with long mo m h show ?thesis by (simp add: wrong_quantity_def position_managed_def)
  qed
  with u show ?thesis by blast
qed

lemma reconcile_startup_Inr:
  assumes ok: "desk_ok p" and run: "reconcile_startup port tm d p = (Inr rep, p')"
  obtains tally p1 ps where
    "check_orders port tm (orders_in (snd p)) \<lparr>ot_checked = 0, ot_matched = 0, ot_unresolved = []\<rparr> p
       = (Inr tally, p1)"
    and "bp_list_positions port (fst p1) = (Inr ps, fst p')" and "snd p' = snd p1" and "ledger_ok (snd p')"
    and "rep = recovery_report tally ps (plans_in (snd p')) (orders_in (snd p')) d"
proof -
  have lo: "on_snd list_orders q = (Inr (orders_in (snd q)), q)" if "desk_ok q" for q :: "'b desk"
    using that by (cases q) (simp add: on_snd_run list_orders_ok)
  have lp: "on_snd list_plans q = (Inr (plans_in (snd q)), q)" if "desk_ok q" for q :: "'b desk"
    using that by (cases q) (simp add: on_snd_run list_plans_ok)
  obtain tally p1 where c: "check_orders port tm (orders_in (snd p))
      \<lparr>ot_checked = 0, ot_matched = 0, ot_unresolved = []\<rparr> p = (Inr tally, p1)"
    and rest: "bindS (on_fst (bp_list_positions port)) (\<lambda>positions.
      bindS (on_snd list_plans) (\<lambda>plans. bindS (on_snd list_orders) (\<lambda>orders.
        returnS (recovery_report tally positions plans orders d)))) p1 = (Inr rep, p')"
    using run by (auto simp: reconcile_startup_def thenS_eq_Inr bindS_eq_Inr lo [OF ok])
  have ok1: "desk_ok p1" using keepsD [OF keeps_check_orders ok] c by (metis snd_conv)
  obtain ps p2 where l: "on_fst (bp_list_positions port) p1 = (Inr ps, p2)"
    and rest2: "bindS (on_snd list_plans) (\<lambda>plans. bindS (on_snd list_orders) (\<lambda>orders.
        returnS (recovery_report tally ps plans orders d))) p2 = (Inr rep, p')"
    using rest by (auto simp: bindS_eq_Inr)
  have ok2: "desk_ok p2" using ok1 l by (simp add: on_fst_eq)
  show thesis
    by (rule that [OF c]) (use l rest2 ok2 in \<open>auto simp: on_fst_eq bindS_def lp lo\<close>)
qed

section \<open>Properties\<close>

text \<open>Whatever the broker answers and whether it returns or raises, the startup reconciliation
  leaves a consistent ledger in which every order kept its identity, its history and at least its
  fill.\<close>

theorem startup_keeps_ledger:
  assumes "desk_ok p"
  shows "ledger_ok (snd (snd (reconcile_startup port tm d p))) \<and>
         ledger_below (snd p) (snd (snd (reconcile_startup port tm d p)))"
  using keepsD [OF keeps_reconcile_startup assms] .


text \<open>A position that is neither managed nor long is subtracted twice: the match rate drops below zero.\<close>

lemma match_rate_negative:
  "rr_match_rate (recovery_report \<lparr>ot_checked = 0, ot_matched = 0, ot_unresolved = []\<rparr>
     [\<lparr>pp_symbol = ''AAPL'', pp_qty = ''5'', pp_side = ''short''\<rparr>] [] [] (Date 2026 1 5)) = - 1"
  by code_simp

section \<open>Concrete runs\<close>

definition sample_desk :: "BrokerOrder list desk" where
  "sample_desk = ([sample_fill ''filled'' ''10''],
     fold exec_ledger (RecordPlan sample_plan # sample_steps @
       [Transition ''tsv2-p1-entry'' SUBMITTED (utc 3) ''sent'' None]) empty_ledger)"

definition sample_positions :: "PaperPosition list" where
  "sample_positions = [\<lparr>pp_symbol = ''AAPL'', pp_qty = ''10'', pp_side = ''long''\<rparr>]"

lemma sample_desk_ok: "ledger_ok (snd sample_desk)"
  unfolding sample_desk_def snd_conv by (rule ledger_ok_fold)

lemma startup_keeps_ledger_witness:
  "ledger_ok (snd (snd (reconcile_startup (sim_port True sample_positions) (utc 9) (Date 2026 1 5) sample_desk)))"
  using startup_keeps_ledger [OF sample_desk_ok] by blast


end
