(* ===== verification/Guardrails.thy ===== *)
theory Guardrails
  imports TradePlan
begin

text \<open>
  \<open>kernel/guardrails.py\<close>: the one ordered, fail-closed sequence of risk checks in front of every
  order, with the part of \<open>kernel/config.py\<close> that it reads.  Configuration floats are given by
  their decimal \<open>repr\<close> (theory PyFloat).
\<close>

section \<open>Data\<close>

datatype RiskPriority = P0 | P1 | P2

datatype RiskCode =
    P0_KILL_SWITCH | P0_NOT_PAPER | P0_ACCOUNT | P0_TRADING_BLOCKED | P0_MARKET_CLOSED
  | P0_MARKET_DATA | P1_DAILY_LOSS | P1_MAX_POSITIONS | P1_GROSS_EXPOSURE | P1_BUYING_POWER
  | P2_NOT_SELECTED | P2_EVIDENCE | P2_SIZING_CAP

fun risk_code_value :: "RiskCode \<Rightarrow> string" where
  "risk_code_value P0_KILL_SWITCH = ''P0_KILL_SWITCH''"
| "risk_code_value P0_NOT_PAPER = ''P0_NOT_PAPER''"
| "risk_code_value P0_ACCOUNT = ''P0_ACCOUNT''"
| "risk_code_value P0_TRADING_BLOCKED = ''P0_TRADING_BLOCKED''"
| "risk_code_value P0_MARKET_CLOSED = ''P0_MARKET_CLOSED''"
| "risk_code_value P0_MARKET_DATA = ''P0_MARKET_DATA''"
| "risk_code_value P1_DAILY_LOSS = ''P1_DAILY_LOSS''"
| "risk_code_value P1_MAX_POSITIONS = ''P1_MAX_POSITIONS''"
| "risk_code_value P1_GROSS_EXPOSURE = ''P1_GROSS_EXPOSURE''"
| "risk_code_value P1_BUYING_POWER = ''P1_BUYING_POWER''"
| "risk_code_value P2_NOT_SELECTED = ''P2_NOT_SELECTED''"
| "risk_code_value P2_EVIDENCE = ''P2_EVIDENCE''"
| "risk_code_value P2_SIZING_CAP = ''P2_SIZING_CAP''"

text \<open>The fields of \<open>Config\<close> that the arbitration reads.\<close>

record Config =
  cfg_max_concurrent :: int
  cfg_max_gross_exposure :: dec
  cfg_daily_loss_limit :: dec
  cfg_max_quote_age_seconds :: dec

record GuardrailContext =
  gc_evaluated_at_utc :: datetime
  gc_market_data_asof_utc :: datetime
  gc_market_data_feed :: string
  gc_paper_endpoint :: bool
  gc_kill_switch_active :: bool
  gc_market_open :: bool
  gc_account_active :: bool
  gc_account_blocked :: bool
  gc_trading_blocked :: bool
  gc_equity :: dec
  gc_daily_pnl :: dec
  gc_gross_exposure :: dec
  gc_open_position_symbols :: "string list"
  gc_buying_power :: dec
  gc_sizing_notional_cap :: dec
  gc_selected_symbols :: "string list"
  gc_selection_snapshot_ids :: "string list"

text \<open>\<open>GuardrailContext(...)\<close>: normalisers, field constraints and the model validator.\<close>

definition validate_context :: "GuardrailContext \<Rightarrow> py_error + GuardrailContext" where
  "validate_context raw =
     (let c = raw\<lparr>gc_open_position_symbols := map norm_symbol (gc_open_position_symbols raw),
                  gc_selected_symbols := map norm_symbol (gc_selected_symbols raw)\<rparr> in
      if \<not> (is_utc (gc_evaluated_at_utc c) \<and> is_utc (gc_market_data_asof_utc c))
        then Inl (ValidationError ''guardrail timestamps must be timezone-aware UTC'')
      else if gc_market_data_feed c = [] then Inl (ValidationError ''market_data_feed'')
      else if \<not> dec_positive (gc_equity c) then Inl (ValidationError ''equity'')
      else if dec_val (gc_gross_exposure c) < 0 then Inl (ValidationError ''gross_exposure'')
      else if dec_val (gc_buying_power c) < 0 then Inl (ValidationError ''buying_power'')
      else if \<not> dec_positive (gc_sizing_notional_cap c)
        then Inl (ValidationError ''sizing_notional_cap'')
      else if gc_selected_symbols c = [] then Inl (ValidationError ''selected_symbols'')
      else if gc_selection_snapshot_ids c = [] then Inl (ValidationError ''selection_snapshot_ids'')
      else if \<not> list_all float_is_finite [gc_equity c, gc_daily_pnl c, gc_gross_exposure c,
                gc_buying_power c, gc_sizing_notional_cap c]
        then Inl (ValidationError ''guardrail numeric inputs must be finite'')
      else if instant (gc_evaluated_at_utc c) < instant (gc_market_data_asof_utc c)
        then Inl (ValidationError ''market data timestamp cannot be in the future'')
      else Inr c)"

record GuardrailCheck =
  ck_priority :: RiskPriority
  ck_code :: RiskCode
  ck_passed :: bool
  ck_observed :: string
  ck_expected :: string
  ck_provenance :: string

record GuardrailVerdict =
  gv_approved :: bool
  gv_failure_code :: "RiskCode option"
  gv_checks :: "GuardrailCheck list"
  gv_provenance :: string

definition mk_check :: "RiskPriority \<Rightarrow> RiskCode \<Rightarrow> bool \<Rightarrow> string \<Rightarrow> string \<Rightarrow> GuardrailCheck" where
  "mk_check prio code passed observed expected =
     \<lparr>ck_priority = prio, ck_code = code, ck_passed = passed, ck_observed = observed,
      ck_expected = expected, ck_provenance = ''kernel.guardrails.'' @ risk_code_value code @ ''.v1''\<rparr>"

section \<open>arbitrate_trade\<close>

text \<open>The local quantities computed before the checks.\<close>

definition freshness_us :: "GuardrailContext \<Rightarrow> int" where
  "freshness_us c = instant (gc_evaluated_at_utc c) - instant (gc_market_data_asof_utc c)"

definition max_gross :: "GuardrailContext \<Rightarrow> Config \<Rightarrow> dec" where
  "max_gross c cfg = dec_mul (gc_equity c) (cfg_max_gross_exposure cfg)"

definition daily_loss_floor :: "GuardrailContext \<Rightarrow> Config \<Rightarrow> dec" where
  "daily_loss_floor c cfg = dec_minus (dec_mul (gc_equity c) (cfg_daily_loss_limit cfg))"

definition position_capacity :: "TradePlan \<Rightarrow> GuardrailContext \<Rightarrow> Config \<Rightarrow> bool" where
  "position_capacity plan c cfg \<longleftrightarrow>
     tp_symbol plan \<in> set (gc_open_position_symbols c) \<or>
     int (length (gc_open_position_symbols c)) < cfg_max_concurrent cfg"

definition evidence_bound :: "TradePlan \<Rightarrow> GuardrailContext \<Rightarrow> bool" where
  "evidence_bound plan c \<longleftrightarrow>
     (\<exists>i \<in> set (gc_selection_snapshot_ids c). i \<in> set (tp_source_snapshot_ids plan))"

definition guardrail_candidates ::
    "TradePlan \<Rightarrow> GuardrailContext \<Rightarrow> Config \<Rightarrow> GuardrailCheck list" where
  "guardrail_candidates plan c cfg =
     (let fresh = total_seconds (freshness_us c);
          max_age = float_of_repr (cfg_max_quote_age_seconds cfg);
          notional = reference_notional plan;
          exposure = dec_add (gc_gross_exposure c) notional in
      [mk_check P0 P0_KILL_SWITCH (\<not> gc_kill_switch_active c)
         (py_lower (show_bool (gc_kill_switch_active c))) ''false'',
       mk_check P0 P0_NOT_PAPER (gc_paper_endpoint c)
         (py_lower (show_bool (gc_paper_endpoint c))) ''true'',
       mk_check P0 P0_ACCOUNT (gc_account_active c \<and> \<not> gc_account_blocked c)
         (''active='' @ show_bool (gc_account_active c) @ '',blocked='' @ show_bool (gc_account_blocked c))
         ''active=true,blocked=false'',
       mk_check P0 P0_TRADING_BLOCKED (\<not> gc_trading_blocked c)
         (py_lower (show_bool (gc_trading_blocked c))) ''false'',
       mk_check P0 P0_MARKET_CLOSED (gc_market_open c)
         (py_lower (show_bool (gc_market_open c))) ''true'',
       mk_check P0 P0_MARKET_DATA
         (py_lower (gc_market_data_feed c) = ''sip'' \<and> fresh \<le> max_age)
         (''feed='' @ py_lower (gc_market_data_feed c) @ '',age_seconds='' @ format_fixed 3 fresh)
         (''feed=sip,age_seconds<='' @ format_g max_age),
       mk_check P1 P1_DAILY_LOSS (dec_lt (daily_loss_floor c cfg) (gc_daily_pnl c))
         (dec_str (gc_daily_pnl c)) (''>'' @ dec_str (daily_loss_floor c cfg)),
       mk_check P1 P1_MAX_POSITIONS (position_capacity plan c cfg)
         (show_nat (length (gc_open_position_symbols c)))
         (''<'' @ show_int (cfg_max_concurrent cfg) @ '' for a new symbol''),
       mk_check P1 P1_GROSS_EXPOSURE (dec_le exposure (max_gross c cfg))
         (dec_str exposure) (''<='' @ dec_str (max_gross c cfg)),
       mk_check P1 P1_BUYING_POWER (dec_le notional (gc_buying_power c))
         (dec_str notional) (''<='' @ dec_str (gc_buying_power c)),
       mk_check P2 P2_NOT_SELECTED (tp_symbol plan \<in> set (gc_selected_symbols c))
         (tp_symbol plan) ''symbol present in locked selection'',
       mk_check P2 P2_EVIDENCE (evidence_bound plan c)
         (py_lower (show_bool (evidence_bound plan c)))
         ''TradePlan references the locked selection snapshot'',
       mk_check P2 P2_SIZING_CAP (dec_le notional (gc_sizing_notional_cap c))
         (dec_str notional) (''<='' @ dec_str (gc_sizing_notional_cap c))])"

text \<open>The loop over the candidates: it stops at the first one that failed.\<close>

fun first_failure :: "GuardrailCheck list \<Rightarrow> GuardrailCheck list \<Rightarrow> GuardrailVerdict" where
  "first_failure completed [] =
     \<lparr>gv_approved = True, gv_failure_code = None, gv_checks = completed,
      gv_provenance = ''kernel.guardrails.arbitrate_trade.v1''\<rparr>"
| "first_failure completed (k # ks) =
     (if ck_passed k then first_failure (completed @ [k]) ks
      else \<lparr>gv_approved = False, gv_failure_code = Some (ck_code k), gv_checks = completed @ [k],
            gv_provenance = ''kernel.guardrails.arbitrate_trade.v1''\<rparr>)"

definition arbitrate_trade :: "TradePlan \<Rightarrow> GuardrailContext \<Rightarrow> Config \<Rightarrow> GuardrailVerdict" where
  "arbitrate_trade plan c cfg = first_failure [] (guardrail_candidates plan c cfg)"

section \<open>What a verdict means\<close>

lemma first_failure_approved:
  "gv_approved (first_failure done ks) \<longleftrightarrow> list_all ck_passed ks"
  by (induction ks arbitrary: "done") auto

lemma first_failure_checks:
  "gv_checks (first_failure done ks) =
     done @ takeWhile ck_passed ks @ take 1 (dropWhile ck_passed ks)"
  by (induction ks arbitrary: "done") auto

lemma first_failure_code:
  "gv_failure_code (first_failure done ks) =
     (case dropWhile ck_passed ks of [] \<Rightarrow> None | k # _ \<Rightarrow> Some (ck_code k))"
  by (induction ks arbitrary: "done") auto

lemma ck_passed_mk [simp]: "ck_passed (mk_check a b p d e) = p"
  by (simp add: mk_check_def)

lemma ck_code_mk [simp]: "ck_code (mk_check a b p d e) = b"
  by (simp add: mk_check_def)

lemma ck_priority_mk [simp]: "ck_priority (mk_check a b p d e) = a"
  by (simp add: mk_check_def)

text \<open>The conditions that an approval certifies, as one predicate on the inputs.\<close>

definition trade_permitted :: "TradePlan \<Rightarrow> GuardrailContext \<Rightarrow> Config \<Rightarrow> bool" where
  "trade_permitted plan c cfg \<longleftrightarrow>
     \<not> gc_kill_switch_active c \<and> gc_paper_endpoint c \<and>
     gc_account_active c \<and> \<not> gc_account_blocked c \<and> \<not> gc_trading_blocked c \<and> gc_market_open c \<and>
     py_lower (gc_market_data_feed c) = ''sip'' \<and>
     total_seconds (freshness_us c) \<le> float_of_repr (cfg_max_quote_age_seconds cfg) \<and>
     dec_lt (daily_loss_floor c cfg) (gc_daily_pnl c) \<and>
     position_capacity plan c cfg \<and>
     dec_le (dec_add (gc_gross_exposure c) (reference_notional plan)) (max_gross c cfg) \<and>
     dec_le (reference_notional plan) (gc_buying_power c) \<and>
     tp_symbol plan \<in> set (gc_selected_symbols c) \<and> evidence_bound plan c \<and>
     dec_le (reference_notional plan) (gc_sizing_notional_cap c)"

lemma arbitrate_approved_iff:
  "gv_approved (arbitrate_trade plan c cfg) \<longleftrightarrow> trade_permitted plan c cfg"
  unfolding arbitrate_trade_def first_failure_approved guardrail_candidates_def Let_def
    trade_permitted_def list.pred_inject ck_passed_mk
  by (simp only: conj_assoc list.pred_inject simp_thms)

section \<open>Properties\<close>


text \<open>A verdict reports the checks in their fixed order up to the first one that fails, and that
  one's code; the priorities never decrease along the report, so a lower priority is never blamed
  while a higher one fails.\<close>

theorem arbitrate_blames_first_failure:
  "\<exists>rest. guardrail_candidates plan c cfg = gv_checks (arbitrate_trade plan c cfg) @ rest \<and>
     (if gv_approved (arbitrate_trade plan c cfg)
      then rest = [] \<and> gv_failure_code (arbitrate_trade plan c cfg) = None \<and>
           list_all ck_passed (gv_checks (arbitrate_trade plan c cfg))
      else \<exists>pre k. gv_checks (arbitrate_trade plan c cfg) = pre @ [k] \<and> list_all ck_passed pre \<and>
           \<not> ck_passed k \<and> gv_failure_code (arbitrate_trade plan c cfg) = Some (ck_code k)) \<and>
     map ck_priority (guardrail_candidates plan c cfg) =
       replicate 6 P0 @ replicate 4 P1 @ replicate 3 P2"
proof -
  let ?ks = "guardrail_candidates plan c cfg" and ?v = "arbitrate_trade plan c cfg"
  have pr: "map ck_priority ?ks = replicate 6 P0 @ replicate 4 P1 @ replicate 3 P2"
    by (simp add: guardrail_candidates_def Let_def eval_nat_numeral)
  have ap: "gv_approved ?v = list_all ck_passed ?ks"
    unfolding arbitrate_trade_def by (rule first_failure_approved)
  show ?thesis
  proof (cases "dropWhile ck_passed ?ks")
    case Nil
    then have "list_all ck_passed ?ks" by (auto simp: list_all_iff dropWhile_eq_Nil_conv)
    moreover from this have "takeWhile ck_passed ?ks = ?ks" by (simp add: list_all_iff)
    ultimately show ?thesis
      using pr ap Nil unfolding arbitrate_trade_def first_failure_checks first_failure_code
      by (simp del: dropWhile_eq_Nil_conv takeWhile_eq_all_conv)
  next
    case (Cons k ks)
    have k: "\<not> ck_passed k" using Cons by (metis hd_dropWhile list.distinct(1) list.sel(1))
    have split: "?ks = takeWhile ck_passed ?ks @ k # ks" using Cons by (metis takeWhile_dropWhile_id)
    then have "k \<in> set ?ks" by (metis in_set_conv_decomp)
    with k ap have "\<not> gv_approved ?v" by (auto simp: list_all_iff)
    moreover have "list_all ck_passed (takeWhile ck_passed ?ks)"
      by (auto simp: list_all_iff dest: set_takeWhileD)
    ultimately show ?thesis
      using pr k split Cons unfolding arbitrate_trade_def first_failure_checks first_failure_code by auto
  qed
qed

end
