(* ===== verification/Engine.thy ===== *)
theory Engine
  imports Recovery Guardrails
begin

text \<open>
  \<open>execution/engine.py\<close>: from a trade plan to one idempotent paper order.  The state is the broker
  together with the order ledger; \<open>clk i\<close> is what the i-th call of \<open>datetime.now(UTC)\<close> in the text
  of \<open>execute\<close> returns.
\<close>

section \<open>The result and the pieces of execute\<close>

record PaperExecutionResult =
  er_lifecycle :: OrderLifecycle
  er_verdict :: GuardrailVerdict
  er_broker_order_id :: "string option"
  er_dry_run :: bool
  er_replayed :: bool
  er_filled_avg_price :: "string option"
  er_position_confirmed :: bool
  er_broker_identity :: string

definition local_result :: "OrderLifecycle \<Rightarrow> GuardrailVerdict \<Rightarrow> bool \<Rightarrow> PaperExecutionResult" where
  \<comment> \<open>\<open>PaperExecutionResult(lifecycle, verdict, None, dry_run, False)\<close>\<close>
  "local_result lc verdict dry =
     \<lparr>er_lifecycle = lc, er_verdict = verdict, er_broker_order_id = None, er_dry_run = dry,
      er_replayed = False, er_filled_avg_price = None, er_position_confirmed = False,
      er_broker_identity = ''unknown''\<rparr>"

definition fill_price :: "BrokerOrder \<Rightarrow> py_error + string" where
  \<comment> \<open>the checks on \<open>raw_price\<close>\<close>
  "fill_price broker_order = (case bo_filled_avg_price broker_order of
      None \<Rightarrow> Inl (ReconciliationError ''broker fill is missing average fill price confirmation'')
    | Some raw \<Rightarrow>
        if is_blank raw
        then Inl (ReconciliationError ''broker fill is missing average fill price confirmation'')
        else (case parse_decimal raw of
          None \<Rightarrow> Inl (ReconciliationError ''broker fill average price is invalid'')
        | Some price \<Rightarrow>
            if (case price of Finite d \<Rightarrow> dec_val d \<le> 0 | _ \<Rightarrow> True)
            then Inl (ReconciliationError ''broker fill average price must be positive and finite'')
            else Inr raw))"

definition confirm_quantity :: "OrderLifecycle \<Rightarrow> PaperPosition \<Rightarrow> py_error + unit" where
  \<comment> \<open>the checks on the one matching position\<close>
  "confirm_quantity lc position =
     (if py_lower (py_strip (pp_side position)) \<noteq> ''long''
      then Inl (ReconciliationError ''broker fill position is not long'')
      else (case parse_decimal (pp_qty position) of
        None \<Rightarrow> Inl (ReconciliationError ''broker fill position quantity is invalid'')
      | Some quantity \<Rightarrow>
          if (case quantity of Finite q \<Rightarrow> dec_val q < of_int (ol_filled_shares lc) | _ \<Rightarrow> True)
          then Inl (ReconciliationError ''broker fill position quantity is not confirmed'')
          else Inr ()))"

definition confirm_position :: "OrderLifecycle \<Rightarrow> PaperPosition list \<Rightarrow> py_error + unit" where
  "confirm_position lc positions =
     (let matching = filter (\<lambda>p. pp_symbol p = ol_symbol lc) positions in
      if length matching \<noteq> 1
      then Inl (ReconciliationError ''broker fill has no unique long position confirmation'')
      else confirm_quantity lc (hd matching))"

definition confirm_fill ::
    "'b broker_port \<Rightarrow> OrderLifecycle \<Rightarrow> BrokerOrder \<Rightarrow> ('b desk, string option \<times> bool) op" where
  "confirm_fill port lc broker_order =
     (if ol_state lc \<notin> {PARTIALLY_FILLED, FILLED} then returnS (None, False)
      else bindS (liftS (fill_price broker_order)) (\<lambda>raw.
           bindS (on_fst (bp_list_positions port)) (\<lambda>positions.
           thenS (liftS (confirm_position lc positions)) (returnS (Some raw, True)))))"

definition entry_request :: "TradePlan \<Rightarrow> PaperOrderRequest" where
  "entry_request plan =
     \<lparr>por_client_order_id = plan_client_order_id plan, por_symbol = tp_symbol plan,
      por_qty = tp_quantity plan, por_order_type = tp_entry_order_type plan,
      por_limit_price = map_option dec_format_f (tp_entry_limit_price plan),
      por_take_profit_price = Some (dec_format_f (tp_take_profit_price plan)),
      por_stop_loss_price = Some (dec_format_f (tp_stop_loss_price plan))\<rparr>"

section \<open>execute\<close>

definition execute_replay ::
    "'b broker_port \<Rightarrow> Config \<Rightarrow> (nat \<Rightarrow> datetime) \<Rightarrow> TradePlan \<Rightarrow> GuardrailContext \<Rightarrow> OrderLifecycle
       \<Rightarrow> ('b desk, PaperExecutionResult) op" where
  \<comment> \<open>the branch for an order that had been submitted, or had ended, before this call\<close>
  "execute_replay port cfg clk plan ctx lc =
     (let verdict = arbitrate_trade plan ctx cfg in
      if ol_state lc \<in> {CANCELLED, REJECTED} then
        bindS (on_snd (get_broker_order_id (plan_client_order_id plan))) (\<lambda>bid. returnS
          \<lparr>er_lifecycle = lc, er_verdict = verdict, er_broker_order_id = bid,
           er_dry_run = (ol_state lc = CANCELLED), er_replayed = True, er_filled_avg_price = None,
           er_position_confirmed = False, er_broker_identity = bp_broker_identity port\<rparr>)
      else bindS (on_fst (bp_get_order_by_client_id port (plan_client_order_id plan))) (\<lambda>found.
        case found of
          None \<Rightarrow> raiseS (ReconciliationError
                    ''local active order is missing from broker during replay'')
        | Some broker_order \<Rightarrow>
            bindS (on_snd (reconcile_broker_order lc broker_order (clk 0))) (\<lambda>lc'.
            bindS (confirm_fill port lc' broker_order) (\<lambda>(price, confirmed). returnS
              \<lparr>er_lifecycle = lc', er_verdict = verdict, er_broker_order_id = Some (bo_id broker_order),
               er_dry_run = (ol_state lc' = CANCELLED), er_replayed = True,
               er_filled_avg_price = price, er_position_confirmed = confirmed,
               er_broker_identity = bp_broker_identity port\<rparr>))))"

definition execute_submit ::
    "'b broker_port \<Rightarrow> (nat \<Rightarrow> datetime) \<Rightarrow> TradePlan \<Rightarrow> GuardrailVerdict
       \<Rightarrow> ('b desk, PaperExecutionResult) op" where
  \<comment> \<open>from \<open>request = PaperOrderRequest(...)\<close> to the end\<close>
  "execute_submit port clk plan verdict =
     bindS (liftS (validate_order_request (entry_request plan))) (\<lambda>request.
     bindS (on_fst (bp_submit_order port request)) (\<lambda>broker_order.
     thenS (on_snd (record_broker_order_id (plan_client_order_id plan) (bo_id broker_order)))
     (bindS (on_snd (transition_order (plan_client_order_id plan) SUBMITTED (clk 5)
               (''alpaca.paper.order:'' @ bo_id broker_order) None)) (\<lambda>lc.
      bindS (on_snd (reconcile_broker_order lc broker_order (clk 6))) (\<lambda>lc'.
      bindS (confirm_fill port lc' broker_order) (\<lambda>(price, confirmed). returnS
        \<lparr>er_lifecycle = lc', er_verdict = verdict, er_broker_order_id = Some (bo_id broker_order),
         er_dry_run = False, er_replayed = False, er_filled_avg_price = price,
         er_position_confirmed = confirmed, er_broker_identity = bp_broker_identity port\<rparr>))))))"

definition advance_to ::
    "string \<Rightarrow> OrderState \<Rightarrow> OrderState \<Rightarrow> datetime \<Rightarrow> string \<Rightarrow> OrderLifecycle
       \<Rightarrow> ('b desk, OrderLifecycle) op" where
  \<comment> \<open>\<open>if lifecycle.state is old: lifecycle = self.ledger.transition(...)\<close>\<close>
  "advance_to cid old new tm prov lc =
     (if ol_state lc = old then on_snd (transition_order cid new tm prov None) else returnS lc)"

definition failure_text :: "GuardrailVerdict \<Rightarrow> string" where
  "failure_text v = (case gv_failure_code v of None \<Rightarrow> ''None'' | Some c \<Rightarrow> risk_code_value c)"

definition execute_new ::
    "'b broker_port \<Rightarrow> Config \<Rightarrow> bool \<Rightarrow> (nat \<Rightarrow> datetime) \<Rightarrow> TradePlan \<Rightarrow> GuardrailContext
       \<Rightarrow> OrderLifecycle \<Rightarrow> ('b desk, PaperExecutionResult) op" where
  \<comment> \<open>from \<open>now = datetime.now(UTC)\<close> on\<close>
  "execute_new port cfg authorized clk plan ctx lc =
     (let cid = plan_client_order_id plan; verdict = arbitrate_trade plan ctx cfg in
      bindS (advance_to cid CREATED PENDING_RISK (clk 1) ''execution.engine.pending_risk.v1'' lc) (\<lambda>lc1.
        if \<not> gv_approved verdict then
          bindS (on_snd (transition_order cid REJECTED (clk 2)
                   (''execution.engine.guardrail.'' @ failure_text verdict) None))
            (\<lambda>lc2. returnS (local_result lc2 verdict False))
        else
          bindS (advance_to cid PENDING_RISK APPROVED (clk 3)
                   ''execution.engine.guardrails_approved.v1'' lc1) (\<lambda>_.
          bindS (readS (\<lambda>p. bp_writes_enabled port (fst p))) (\<lambda>writes.
            if \<not> writes \<or> \<not> authorized then
              bindS (on_snd (transition_order cid CANCELLED (clk 4)
                       ''execution.engine.dry_run_not_authorized.v1'' None))
                (\<lambda>lc3. returnS (local_result lc3 verdict True))
            else execute_submit port clk plan verdict))))"

definition execute ::
    "'b broker_port \<Rightarrow> Config \<Rightarrow> bool \<Rightarrow> (nat \<Rightarrow> datetime) \<Rightarrow> TradePlan \<Rightarrow> GuardrailContext
       \<Rightarrow> ('b desk, PaperExecutionResult) op" where
  "execute port cfg authorized clk plan ctx =
     thenS (on_snd (record_plan plan))
     (bindS (liftS (new_order (plan_client_order_id plan) (tp_plan_id plan) (tp_symbol plan)
                      (tp_quantity plan))) (\<lambda>intent.
      bindS (on_snd (create_order intent (tp_created_at_utc plan))) (\<lambda>lc.
        if ol_state lc \<in> {SUBMITTED, PARTIALLY_FILLED, FILLED, CANCEL_PENDING, CANCELLED, REJECTED}
        then execute_replay port cfg clk plan ctx lc
        else execute_new port cfg authorized clk plan ctx lc)))"

section \<open>What an execution keeps\<close>

definition entry_intent :: "TradePlan \<Rightarrow> OrderLifecycle" where
  "entry_intent plan =
     \<lparr>ol_client_order_id = plan_client_order_id plan, ol_plan_id = tp_plan_id plan,
      ol_symbol = tp_symbol plan, ol_requested_shares = tp_quantity plan, ol_state = CREATED,
      ol_filled_shares = 0, ol_events = []\<rparr>"

lemma entry_intent_simps [simp]:
  "ol_client_order_id (entry_intent plan) = plan_client_order_id plan"
  "ol_state (entry_intent plan) = CREATED" "ol_filled_shares (entry_intent plan) = 0"
  "ol_events (entry_intent plan) = []" "ol_symbol (entry_intent plan) = tp_symbol plan"
  by (simp_all add: entry_intent_def)

lemma plan_cid_nonempty: "plan_client_order_id p \<noteq> []"
  by (simp add: plan_client_order_id_def)

lemma new_order_plan:
  assumes "plan_ok plan"
  shows "new_order (plan_client_order_id plan) (tp_plan_id plan) (tp_symbol plan) (tp_quantity plan)
           = Inr (entry_intent plan)"
  using plan_ok_facts [OF assms]
  by (simp add: new_order_def validate_lifecycle_def entry_intent_def plan_cid_nonempty)

lemma fresh_entry_intent: "plan_ok plan \<Longrightarrow> fresh_order (entry_intent plan)"
  using plan_ok_facts [of plan] order_ok_new_order [OF new_order_plan]
  by (simp add: fresh_order_def valid_order_def validate_lifecycle_def entry_intent_def plan_cid_nonempty)

lemma keeps_confirm_fill [keeps_intro]: "keeps desk_ok desk_below (confirm_fill port lc b)"
  unfolding confirm_fill_def
  by (intro keeps_intro)

lemma keeps_advance_to [keeps_intro]: "keeps desk_ok desk_below (advance_to cid old new tm prov lc)"
  unfolding advance_to_def by (intro keeps_intro)

lemma keeps_execute_submit [keeps_intro]:
  "keeps desk_ok desk_below (execute_submit port clk plan v)"
  unfolding execute_submit_def split_def by (intro keeps_intro)

lemma keeps_execute_replay [keeps_intro]:
  "keeps desk_ok desk_below (execute_replay port cfg clk plan ctx lc)"
  unfolding execute_replay_def Let_def split_def by (intro keeps_intro)

lemma keeps_execute_new [keeps_intro]:
  "keeps desk_ok desk_below (execute_new port cfg auth clk plan ctx lc)"
  unfolding execute_new_def Let_def by (intro keeps_intro)

lemma keeps_execute:
  assumes "validate_plan plan = Inr plan"
  shows "keeps desk_ok desk_below (execute port cfg auth clk plan ctx)"
  unfolding execute_def new_order_plan [OF validate_plan_ok [OF assms]] liftS_def sum.case bindS_returnS
  by (intro keeps_intro fresh_entry_intent validate_plan_ok [OF assms] assms)

section \<open>The only way to the broker\<close>

text \<open>Operations on the ledger leave the broker alone.\<close>

interpretation broker_still: growing "\<lambda>_. True" "\<lambda>p q. fst q = fst p"
  by unfold_locales simp_all

declare broker_still.keeps_rules [keeps_intro]

lemma still_on_snd [keeps_intro]: "keeps (\<lambda>_. True) (\<lambda>p q. fst q = fst p) (on_snd m)"
  by (simp add: keeps_def on_snd_def split: prod.split)

lemma still_advance_to [keeps_intro]:
  "keeps (\<lambda>_. True) (\<lambda>p q. fst q = fst p) (advance_to cid old new tm prov lc)"
  unfolding advance_to_def by (intro keeps_intro)

lemma still_bind_cases:
  assumes "keeps (\<lambda>_. True) (\<lambda>p q. fst q = fst p) m"
    and "(\<And>f. fst (snd (bindS m f p)) = fst p) \<Longrightarrow> P"
    and "\<And>x p1. fst p1 = fst p \<Longrightarrow> (\<And>f. bindS m f p = f x p1) \<Longrightarrow> P"
  shows P
proof -
  obtain r p1 where m: "m p = (r, p1)" by (cases "m p")
  have p1: "fst p1 = fst p" using keepsD [OF assms(1) TrueI, of p] m by simp
  show P
  proof (cases r)
    case (Inl e)
    with m p1 show P by (intro assms(2)) simp
  next
    case (Inr x)
    with m p1 show P by (intro assms(3)) simp_all
  qed
qed

text \<open>The conditions under which an execution may submit.\<close>

definition submits_only_if :: "'b broker_port \<Rightarrow> Config \<Rightarrow> bool \<Rightarrow> TradePlan \<Rightarrow> GuardrailContext \<Rightarrow> 'b desk \<Rightarrow> bool" where
  "submits_only_if port cfg auth plan ctx p \<longleftrightarrow>
     trade_permitted plan ctx cfg \<and> auth \<and> bp_writes_enabled port (fst p) \<and>
     (\<forall>o'. order_of (snd p) (plan_client_order_id plan) = Some o' \<longrightarrow>
        ol_state o' \<in> {CREATED, PENDING_RISK, APPROVED})"

text \<open>Against a gated broker, everything but the submission leaves the broker's book alone.\<close>

sublocale gated_broker \<subseteq> quiet: growing "\<lambda>_. True" "\<lambda>(p :: 'b desk) q. book (fst q) = book (fst p)"
  by unfold_locales simp_all

context gated_broker
begin

lemma quiet_get: "keeps (\<lambda>_. True) (\<lambda>(p :: 'b desk) q. book (fst q) = book (fst p))
    (on_fst (bp_get_order_by_client_id port cid))"
  by (simp add: keeps_def on_fst_def get_silent split: prod.split) (metis get_silent snd_conv)

lemma quiet_positions: "keeps (\<lambda>_. True) (\<lambda>(p :: 'b desk) q. book (fst q) = book (fst p))
    (on_fst (bp_list_positions port))"
  by (simp add: keeps_def on_fst_def split: prod.split) (metis positions_silent snd_conv)

lemma quiet_ledger: "keeps (\<lambda>_. True) (\<lambda>(p :: 'b desk) q. book (fst q) = book (fst p)) (on_snd m)"
  by (simp add: keeps_def on_snd_def split: prod.split)

lemma quiet_confirm_fill:
  "keeps (\<lambda>_. True) (\<lambda>(p :: 'b desk) q. book (fst q) = book (fst p)) (confirm_fill port lc b)"
  unfolding confirm_fill_def
  by (intro quiet.keeps_rules quiet_positions)

lemma quiet_replay:
  "keeps (\<lambda>_. True) (\<lambda>(p :: 'b desk) q. book (fst q) = book (fst p))
     (execute_replay port cfg clk plan ctx lc)"
  unfolding execute_replay_def Let_def split_def
  by (intro quiet.keeps_rules quiet_get quiet_ledger quiet_confirm_fill)

text \<open>After a submission returned, the rest of the handler is quiet.\<close>

lemma quiet_after_submit:
  "keeps (\<lambda>_. True) (\<lambda>(p :: 'b desk) q. book (fst q) = book (fst p))
     (thenS (on_snd (record_broker_order_id cid (bo_id broker_order)))
     (bindS (on_snd (transition_order cid SUBMITTED tm prov None)) (\<lambda>lc.
      bindS (on_snd (reconcile_broker_order lc broker_order tm')) (\<lambda>lc'.
      bindS (confirm_fill port lc' broker_order) (\<lambda>pc. returnS (f lc' pc))))))"
  by (intro quiet.keeps_rules quiet_ledger quiet_confirm_fill)

lemma submit_book:
  "book (fst (snd (execute_submit port clk plan v p))) = book (fst p) \<or>
   (\<exists>req. validate_order_request (entry_request plan) = Inr req \<and>
      book (fst (snd (execute_submit port clk plan v p))) =
        book (snd (bp_submit_order port req (fst p))))"
proof (cases "validate_order_request (entry_request plan)")
  case (Inl e)
  then show ?thesis by (simp add: execute_submit_def bindS_def liftS_run)
next
  case (Inr req)
  obtain r b1 where s: "bp_submit_order port req (fst p) = (r, b1)"
    by (cases "bp_submit_order port req (fst p)")
  show ?thesis
  proof (cases r)
    case (Inl e)
    with Inr s show ?thesis
      by (simp add: execute_submit_def bindS_def liftS_run on_fst_def)
  next
    case (Inr broker_order)
    have "book (fst (snd (execute_submit port clk plan v p))) = book b1"
      unfolding execute_submit_def split_def \<open>validate_order_request (entry_request plan) = Inr req\<close>
        liftS_def sum.case bindS_returnS
      using keepsD [OF quiet_after_submit TrueI, where s = "(b1, snd p)"]
      by (simp add: bindS_def [of "on_fst _"] on_fst_def s Inr)
    with \<open>validate_order_request (entry_request plan) = Inr req\<close> s show ?thesis by simp
  qed
qed


lemma execute_new_book:
  "book (fst (snd (execute_new port cfg auth clk plan ctx lc p))) = book (fst p) \<or>
   (gv_approved (arbitrate_trade plan ctx cfg) \<and> auth \<and> bp_writes_enabled port (fst p) \<and>
    (\<exists>req. validate_order_request (entry_request plan) = Inr req \<and>
      book (fst (snd (execute_new port cfg auth clk plan ctx lc p))) =
        book (snd (bp_submit_order port req (fst p)))))"
proof -
  let ?cid = "plan_client_order_id plan" and ?v = "arbitrate_trade plan ctx cfg"
  let ?m1 = "advance_to ?cid CREATED PENDING_RISK (clk 1) ''execution.engine.pending_risk.v1'' lc
      :: ('b desk, OrderLifecycle) op"
  let ?m2 = "\<lambda>l. advance_to ?cid PENDING_RISK APPROVED (clk 3) ''execution.engine.guardrails_approved.v1'' l
      :: ('b desk, OrderLifecycle) op"
  show ?thesis
  proof (rule still_bind_cases [of ?m1 p])
    show "keeps (\<lambda>_. True) (\<lambda>p q. fst q = fst p) ?m1" by (intro keeps_intro)
  next
    assume "\<And>f :: OrderLifecycle \<Rightarrow> ('b desk, PaperExecutionResult) op. fst (snd (bindS ?m1 f p)) = fst p"
    then show ?thesis by (simp add: execute_new_def Let_def)
  next
    fix l1 p1 assume p1: "fst p1 = fst p" and m1: "\<And>f :: OrderLifecycle \<Rightarrow> ('b desk, PaperExecutionResult) op. bindS ?m1 f p = f l1 p1"
    show ?thesis
    proof (cases "gv_approved ?v")
      case False
      let ?m = "on_snd (transition_order ?cid REJECTED (clk 2)
          (''execution.engine.guardrail.'' @ failure_text ?v) None) :: ('b desk, OrderLifecycle) op"
      have "keeps (\<lambda>_. True) (\<lambda>p q. fst q = fst p) (bindS ?m (\<lambda>lc2. returnS (local_result lc2 ?v False)))"
        by (intro keeps_intro)
      from keepsD [OF this TrueI, of p1] False p1 m1 show ?thesis
        by (simp add: execute_new_def Let_def)
    next
      case True
      show ?thesis
      proof (rule still_bind_cases [of "?m2 l1" p1])
        show "keeps (\<lambda>_. True) (\<lambda>p q. fst q = fst p) (?m2 l1)" by (intro keeps_intro)
      next
        assume "\<And>f :: OrderLifecycle \<Rightarrow> ('b desk, PaperExecutionResult) op. fst (snd (bindS (?m2 l1) f p1)) = fst p1"
        with m1 p1 True show ?thesis by (simp add: execute_new_def Let_def)
      next
        fix l2 p2 assume p2: "fst p2 = fst p1" and m2: "\<And>f :: OrderLifecycle \<Rightarrow> ('b desk, PaperExecutionResult) op. bindS (?m2 l1) f p1 = f l2 p2"
        show ?thesis
        proof (cases "bp_writes_enabled port (fst p) \<and> auth")
          case False
          let ?m = "on_snd (transition_order ?cid CANCELLED (clk 4)
              ''execution.engine.dry_run_not_authorized.v1'' None) :: ('b desk, OrderLifecycle) op"
          have "keeps (\<lambda>_. True) (\<lambda>p q. fst q = fst p) (bindS ?m (\<lambda>lc2. returnS (local_result lc2 ?v True)))"
            by (intro keeps_intro)
          from keepsD [OF this TrueI, of p2] False p1 p2 m1 m2 True show ?thesis
            by (auto simp: execute_new_def Let_def bindS_def [of "readS _"])
        next
          case wr: True
          have "execute_new port cfg auth clk plan ctx lc p = execute_submit port clk plan ?v p2"
            using True wr m1 m2 p1 p2 by (simp add: execute_new_def Let_def bindS_def [of "readS _"])
          with submit_book [of clk plan ?v p2] True wr p1 p2 show ?thesis by auto
        qed
      qed
    qed
  qed
qed

lemma execute_book:
  assumes ok: "ledger_ok (snd p)" and v: "validate_plan plan = Inr plan"
  shows "book (fst (snd (execute port cfg auth clk plan ctx p))) = book (fst p) \<or>
    (submits_only_if port cfg auth plan ctx p \<and>
     (\<exists>req. validate_order_request (entry_request plan) = Inr req \<and>
       book (fst (snd (execute port cfg auth clk plan ctx p))) =
         book (snd (bp_submit_order port req (fst p)))))"
proof -
  let ?m1 = "on_snd (record_plan plan) :: ('b desk, TradePlan) op"
  let ?m2 = "on_snd (create_order (entry_intent plan) (tp_created_at_utc plan)) :: ('b desk, OrderLifecycle) op"
  have fresh: "fresh_order (entry_intent plan)"
    by (rule fresh_entry_intent [OF validate_plan_ok [OF v]])
  have ex: "execute port cfg auth clk plan ctx p = bindS ?m1 (\<lambda>_. bindS ?m2 (\<lambda>lc.
        if ol_state lc \<in> {SUBMITTED, PARTIALLY_FILLED, FILLED, CANCEL_PENDING, CANCELLED, REJECTED}
        then execute_replay port cfg clk plan ctx lc
        else execute_new port cfg auth clk plan ctx lc)) p"
    by (simp add: execute_def thenS_def new_order_plan [OF validate_plan_ok [OF v]] liftS_def)
  obtain r1 s1 where rp: "record_plan plan (snd p) = (r1, s1)" by (cases "record_plan plan (snd p)")
  have s1: "ledger_ok s1" "lg_orders s1 = lg_orders (snd p)"
    using keepsD [OF keeps_record_plan [OF v] ok] rp record_plan_cases [OF ok v]
    by (auto split: option.splits if_splits)
  obtain r2 s2 where co: "create_order (entry_intent plan) (tp_created_at_utc plan) s1 = (r2, s2)"
    by (cases "create_order (entry_intent plan) (tp_created_at_utc plan) s1")
  show ?thesis
  proof (cases "\<exists>x lc. r1 = Inr x \<and> r2 = Inr lc")
    case False
    then have "fst (snd (execute port cfg auth clk plan ctx p)) = fst p"
      using rp co by (cases r1; cases r2) (simp_all add: ex bindS_run on_snd_def)
    then show ?thesis by simp
  next
    case True
    then obtain x lc where r: "r1 = Inr x" "r2 = Inr lc" by blast
    let ?p2 = "(fst p, s2)"
    have run: "execute port cfg auth clk plan ctx p =
       (if ol_state lc \<in> {SUBMITTED, PARTIALLY_FILLED, FILLED, CANCEL_PENDING, CANCELLED, REJECTED}
        then execute_replay port cfg clk plan ctx lc
        else execute_new port cfg auth clk plan ctx lc) ?p2"
      using rp co r by (simp add: ex bindS_run on_snd_def)
    have lc: "order_of (snd p) (plan_client_order_id plan) = Some o' \<Longrightarrow> o' = lc" for o'
      using co r s1 fresh
      by (auto simp: create_order_cases [OF s1(1)] fresh_order_def order_of_def entry_intent_def
          split: if_splits)
    show ?thesis
    proof (cases "ol_state lc \<in> {SUBMITTED, PARTIALLY_FILLED, FILLED, CANCEL_PENDING, CANCELLED, REJECTED}")
      case True
      then show ?thesis using keepsD [OF quiet_replay TrueI, where s = ?p2] by (simp add: run)
    next
      case False
      then have st: "ol_state lc \<in> {CREATED, PENDING_RISK, APPROVED}" by (cases "ol_state lc") auto
      have "execute port cfg auth clk plan ctx p = execute_new port cfg auth clk plan ctx lc ?p2"
        using False by (simp add: run)
      with execute_new_book [of cfg auth clk plan ctx lc ?p2] lc st show ?thesis
        by (auto simp: submits_only_if_def arbitrate_approved_iff)
    qed
  qed
qed

end

section \<open>Going forward\<close>

lemma valid_symbol:
  assumes "valid_order o1"
  shows "py_upper (py_strip (ol_symbol o1)) = ol_symbol o1 \<and> ol_symbol o1 \<noteq> []"
proof -
  have v: "validate_lifecycle o1 = Inr o1" using assms by (simp add: valid_order_def)
  have "ol_symbol o1 = ol_symbol (o1\<lparr>ol_symbol := py_upper (py_strip (ol_symbol o1))\<rparr>)"
    using validate_lifecycle_Inr [OF v] by (rule arg_cong [OF conjunct1])
  with validate_lifecycle_Inr [OF v] show ?thesis by simp
qed

lemma apply_transition_forward:
  assumes v: "valid_order o1" and ns: "ns \<in> set (ALLOWED_TRANSITIONS (ol_state o1))"
    and "ns \<noteq> PARTIALLY_FILLED" "ns \<noteq> FILLED" and "is_utc tm" and "prov \<noteq> []"
  shows "\<exists>o2. apply_transition o1 ns tm prov None = Inr o2"
proof -
  have "is_aware tm" using assms(5) by (cases tm) auto
  then show ?thesis
    using assms valid_symbol [OF v]
    by (simp add: apply_transition_def validate_event_def validate_lifecycle_def valid_order_def
        order_ok_def)
qed

lemma transition_forward:
  assumes ok: "ledger_ok s" and o1: "order_of s cid = Some o1"
    and ns: "ns \<in> set (ALLOWED_TRANSITIONS (ol_state o1))" "ns \<noteq> PARTIALLY_FILLED" "ns \<noteq> FILLED"
    and tm: "is_utc tm" and prov: "prov \<noteq> []"
  obtains o2 t where "transition_order cid ns tm prov None s = (Inr o2, t)" and "ol_state o2 = ns"
    and "order_of t cid = Some o2" and "ledger_ok t" and "same_intent o1 o2"
    and "\<And>c. broker_id_of t c = broker_id_of s c"
proof -
  obtain r where r: "find_order cid s = Some r" "or_lifecycle r = o1" using o1 by (auto simp: order_of_eq)
  have v: "valid_order o1" using ledger_ok_row(1) [OF ok r(1)] r(2) by (simp add: row_ok_def)
  obtain o2 where a: "apply_transition o1 ns tm prov None = Inr o2"
    using apply_transition_forward [OF v ns tm prov] by blast
  then have t: "transition_order cid ns tm prov None s = (Inr o2, after_transition cid o2 tm s)"
    using r tm by (simp add: transition_order_cases [OF ok])
  show thesis
  proof (rule that [OF t])
    show "ol_state o2 = ns" by (rule apply_transition_Inr(2) [OF a])
    show "order_of (after_transition cid o2 tm s) cid = Some o2"
      using r(1) by (rule order_of_after_transition)
    show "ledger_ok (after_transition cid o2 tm s)"
      using keepsD [OF keeps_transition_order ok] t by (metis snd_conv)
    show "same_intent o1 o2"
      using apply_transition_Inr(10,11,12) [OF a] valid_symbol [OF v] by (simp add: same_intent_def)
    show "broker_id_of (after_transition cid o2 tm s) c = broker_id_of s c" for c
      by (cases "find_order cid s") (auto simp: broker_id_of_def after_transition_def tbl)
  qed
qed

lemma bind_broker_forward:
  assumes ok: "ledger_ok s" and o1: "order_of s cid = Some o1" and none: "broker_id_of s cid = None"
    and free: "\<forall>c. broker_id_of s c \<noteq> Some bid" and "\<not> is_blank bid"
  obtains t where "record_broker_order_id cid bid s = (Inr (), t)" and "order_of t cid = Some o1"
    and "ledger_ok t" and "broker_id_of t cid = Some bid"
proof -
  obtain r where r: "find_order cid s = Some r" "or_lifecycle r = o1" using o1 by (auto simp: order_of_eq)
  have "or_broker_order_id q \<noteq> Some bid" if q: "q \<in> set (lg_orders s)" for q
    using spec [OF free, of "or_client_order_id q"] tbl_find_unique [OF ledger_okD(1) [OF ok] q]
    by (simp add: broker_id_of_def)
  then have "broker_id_free cid bid s" by (simp add: broker_id_free_def list_all_iff)
  moreover have "or_broker_order_id r = None" using none r by (simp add: broker_id_of_def)
  ultimately have t: "record_broker_order_id cid bid s = (Inr (), s\<lparr>lg_orders := tbl_update or_client_order_id cid
      (\<lambda>r. r\<lparr>or_broker_order_id := Some bid\<rparr>) (lg_orders s)\<rparr>)" (is "_ = (_, ?t)")
    using r assms(5) by (simp add: record_broker_order_id_def run)
  show thesis
  proof (rule that [OF t])
    show "order_of ?t cid = Some o1" using r by (simp add: order_of_def tbl)
    show "ledger_ok ?t" using keepsD [OF keeps_record_broker_order_id ok] t by (metis snd_conv)
    show "broker_id_of ?t cid = Some bid" using r by (simp add: broker_id_of_def tbl)
  qed
qed

lemma record_plan_forward:
  assumes ok: "ledger_ok s" and v: "validate_plan plan = Inr plan" and none: "plan_of s (tp_plan_id plan) = None"
  obtains t where "record_plan plan s = (Inr plan, t)" and "ledger_ok t" and "lg_orders t = lg_orders s"
  using that [of "snd (record_plan plan s)"] keepsD [OF keeps_record_plan [OF v] ok] none
  by (cases "find_plan (tp_plan_id plan) s") (simp_all add: record_plan_cases [OF ok v] plan_of_def)

lemma create_order_forward:
  assumes ok: "ledger_ok s" and fresh: "fresh_order o1" and none: "order_of s (ol_client_order_id o1) = None"
    and tm: "is_utc tm"
  obtains t where "create_order o1 tm s = (Inr o1, t)" and "ledger_ok t"
    and "order_of t (ol_client_order_id o1) = Some o1" and "broker_id_of t (ol_client_order_id o1) = None"
    and "\<And>c. c \<noteq> ol_client_order_id o1 \<Longrightarrow> broker_id_of t c = broker_id_of s c"
proof -
  have v: "valid_order o1" using fresh by (simp add: fresh_order_def)
  have f: "find_order (ol_client_order_id o1) s = None" using none by (simp add: order_of_def)
  then have t: "create_order o1 tm s = (Inr o1, s\<lparr>lg_orders := tbl_insert (order_row_of o1 tm) (lg_orders s)\<rparr>)"
    (is "_ = (_, ?t)") using tm by (simp add: create_order_cases [OF ok v])
  show thesis
  proof (rule that [OF t])
    show "ledger_ok ?t" using keepsD [OF keeps_create_order [OF fresh] ok] t by (metis snd_conv)
    show "order_of ?t (ol_client_order_id o1) = Some o1" "broker_id_of ?t (ol_client_order_id o1) = None"
      using f by (simp_all add: order_of_def broker_id_of_def tbl order_row_of_def)
    show "broker_id_of ?t c = broker_id_of s c" if "c \<noteq> ol_client_order_id o1" for c
      using that by (simp add: broker_id_of_def tbl order_row_of_def split: option.split)
  qed
qed

text \<open>An accepted order is found in order by the reconciliation that follows the submission.\<close>

lemma reconcile_accepted:
  assumes ok: "ledger_ok s" and o1: "order_of s cid = Some o1" and st: "ol_state o1 = SUBMITTED"
    and ident: "same_broker_identity o1 b" and bid: "broker_id_of s cid = Some (bo_id b)" "\<not> is_blank (bo_id b)"
    and status: "broker_target (broker_status b) n o1 = Inr SUBMITTED" and n: "filled_shares b = Inr n"
  shows "reconcile_broker_order o1 b tm s = (Inr o1, s)"
proof -
  have cid: "ol_client_order_id o1 = cid" using ok o1 by (rule order_of_cid)
  have "agrees_with_broker o1 b" using st status n by (simp add: agrees_with_broker_def)
  then show ?thesis
    using st by (simp add: reconcile_broker_order_def thenS_run guardS_run ident cid
        record_broker_order_id_again [OF ok bid] get_order_ok [OF ok] o1 promote_approved_def
        apply_broker_status_again)
qed

lemma broker_target_submitted:
  "status \<in> set SUBMITTED_STATUSES \<Longrightarrow> broker_target status n o' = Inr SUBMITTED"
  by (auto simp: broker_target_def SUBMITTED_STATUSES_def CANCELLED_STATUSES_def REJECTED_STATUSES_def)

section \<open>Properties\<close>

text \<open>Whatever the broker answers, and whether the call returns or raises, an execution leaves the
  ledger consistent: every order keeps its identity, its broker order, its history and its fill.\<close>

theorem execute_keeps_ledger:
  assumes "ledger_ok (snd p)" and "validate_plan plan = Inr plan"
  shows "ledger_ok (snd (snd (execute port cfg auth clk plan ctx p))) \<and>
         ledger_below (snd p) (snd (snd (execute port cfg auth clk plan ctx p)))"
  using keepsD [OF keeps_execute [OF assms(2)] assms(1)] .

text \<open>C1: through the direct adapter an execution sends the broker at most one writing request, the
  POST of this plan's own order, and only if the guardrails approve, the session is authorized,
  writes are enabled and the order had not been submitted before: a dry run, a refused plan and a
  replay send nothing.\<close>

theorem execute_at_most_one_post:
  assumes ok: "ledger_ok (snd p)" and v: "validate_plan plan = Inr plan"
  shows "let sent = snd (fst p);
             sent' = snd (fst (snd (execute (direct_alpaca (recorded env)) cfg auth clk plan ctx p)))
    in sent' = sent \<or>
      (trade_permitted plan ctx cfg \<and> auth \<and> ae_writes_enabled env (fst (fst p)) \<and>
       (\<forall>o'. order_of (snd p) (plan_client_order_id plan) = Some o' \<longrightarrow>
          ol_state o' \<in> {CREATED, PENDING_RISK, APPROVED}) \<and>
       (\<exists>payload. order_payload (entry_request plan) = Inr payload \<and> sent' = sent @ [post_order payload]))"
proof -
  let ?port = "direct_alpaca (recorded env)"
  have sub: "snd (snd (bp_submit_order ?port req b)) = snd b \<or>
      (\<exists>payload. order_payload req = Inr payload \<and> snd (snd (bp_submit_order ?port req b)) = snd b @ [post_order payload])"
    for req b
    using submit_idempotent_log [of env "por_client_order_id req" _ b]
    by (cases "order_payload req") (auto simp: direct_alpaca_def bindS_def liftS_run)
  have req: "validate_order_request r = Inr q \<Longrightarrow> q = r" for r q
    by (auto simp: validate_order_request_def split: option.splits if_splits)
  have direct_writes: "bp_writes_enabled ?port q = ae_writes_enabled env (fst q)" for q
    by (simp add: direct_alpaca_def)
  show ?thesis
    using alpaca_gate.execute_book [OF ok v, of env cfg auth clk ctx] sub [of "entry_request plan" "fst p"]
    by (auto simp: Let_def submits_only_if_def direct_writes dest!: req)
qed

text \<open>C15: the whole path of an approved plan: a plan and an order that the ledger does not know yet, an
  authorized session, and a broker that accepts the order give a submitted order, bound to the
  broker's order id, after exactly one submission.\<close>

theorem execute_submits:
  assumes ok: "ledger_ok s" and v: "validate_plan plan = Inr plan"
    and new: "plan_of s (tp_plan_id plan) = None" "order_of s (plan_client_order_id plan) = None"
    and clk: "\<And>i. is_utc (clk i)"
    and permitted: "trade_permitted plan ctx cfg" "bp_writes_enabled port b"
    and req: "validate_order_request (entry_request plan) = Inr (entry_request plan)"
    and accepted: "bp_submit_order port (entry_request plan) b = (Inr bo, b')"
      "same_broker_identity (entry_intent plan) bo" "broker_status bo \<in> set SUBMITTED_STATUSES"
      "filled_shares bo = Inr n"
    and bid: "\<not> is_blank (bo_id bo)" "\<forall>c. broker_id_of s c \<noteq> Some (bo_id bo)"
  shows "\<exists>res t. execute port cfg True clk plan ctx (b, s) = (Inr res, (b', t)) \<and>
     er_broker_order_id res = Some (bo_id bo) \<and> \<not> er_dry_run res \<and> \<not> er_replayed res \<and>
     ol_state (er_lifecycle res) = SUBMITTED \<and>
     order_of t (plan_client_order_id plan) = Some (er_lifecycle res) \<and>
     broker_id_of t (plan_client_order_id plan) = Some (bo_id bo)"
proof -
  let ?cid = "plan_client_order_id plan" and ?o0 = "entry_intent plan" and ?v = "arbitrate_trade plan ctx cfg"
  have pok: "plan_ok plan" using v by (rule validate_plan_ok)
  have cid: "ol_client_order_id ?o0 = ?cid" and st0: "ol_state ?o0 = CREATED"
    by (simp_all add: entry_intent_def)
  obtain s1 where s1: "record_plan plan s = (Inr plan, s1)" "ledger_ok s1" "lg_orders s1 = lg_orders s"
    using record_plan_forward [OF ok v new(1)] .
  have same1: "order_of s1 c = order_of s c" "broker_id_of s1 c = broker_id_of s c" for c
    using s1(3) by (simp_all add: order_of_def broker_id_of_def)
  obtain s2 where s2: "create_order ?o0 (tp_created_at_utc plan) s1 = (Inr ?o0, s2)" "ledger_ok s2"
      "order_of s2 ?cid = Some ?o0" "broker_id_of s2 ?cid = None"
      "\<And>c. c \<noteq> ?cid \<Longrightarrow> broker_id_of s2 c = broker_id_of s1 c"
    using create_order_forward [OF s1(2) fresh_entry_intent [OF pok], of "tp_created_at_utc plan"]
      plan_ok_facts(5) [OF pok] new(2) by (auto simp: cid same1)
  obtain o1 s3 where s3: "transition_order ?cid PENDING_RISK (clk 1) ''execution.engine.pending_risk.v1'' None s2 = (Inr o1, s3)"
      "ol_state o1 = PENDING_RISK" "order_of s3 ?cid = Some o1" "ledger_ok s3" "same_intent ?o0 o1"
      "\<And>c. broker_id_of s3 c = broker_id_of s2 c"
    using transition_forward [OF s2(2,3), of PENDING_RISK "clk 1" "''execution.engine.pending_risk.v1''"]
      clk st0 by auto
  obtain o2 s4 where s4: "transition_order ?cid APPROVED (clk 3) ''execution.engine.guardrails_approved.v1'' None s3 = (Inr o2, s4)"
      "ol_state o2 = APPROVED" "order_of s4 ?cid = Some o2" "ledger_ok s4" "same_intent o1 o2"
      "\<And>c. broker_id_of s4 c = broker_id_of s3 c"
    using transition_forward [OF s3(4,3), of APPROVED "clk 3" "''execution.engine.guardrails_approved.v1''"]
      clk s3(2) by auto
  have free4: "\<forall>c. broker_id_of s4 c \<noteq> Some (bo_id bo)"
    using bid(2) s2(4,5) by (metis option.distinct(1) same1(2) s3(6) s4(6))
  obtain s5 where s5: "record_broker_order_id ?cid (bo_id bo) s4 = (Inr (), s5)" "order_of s5 ?cid = Some o2"
      "ledger_ok s5" "broker_id_of s5 ?cid = Some (bo_id bo)"
    using bind_broker_forward [OF s4(4,3) _ free4 bid(1)] s2(4) s3(6) s4(6) by auto
  obtain o3 s6 where s6: "transition_order ?cid SUBMITTED (clk 5) (''alpaca.paper.order:'' @ bo_id bo) None s5 = (Inr o3, s6)"
      "ol_state o3 = SUBMITTED" "order_of s6 ?cid = Some o3" "ledger_ok s6" "same_intent o2 o3"
      "\<And>c. broker_id_of s6 c = broker_id_of s5 c"
    using transition_forward [OF s5(3,2), of SUBMITTED "clk 5" "''alpaca.paper.order:'' @ bo_id bo"]
      clk s4(2) by auto
  have "same_intent ?o0 o3" using s3(5) s4(5) s6(5) by (simp add: same_intent_def)
  moreover have "ol_client_order_id o3 = ?cid" using s6(4,3) by (rule order_of_cid)
  ultimately have ident: "same_broker_identity o3 bo"
    using accepted(2) cid by (simp add: same_broker_identity_def same_intent_def)
  have rec: "reconcile_broker_order o3 bo (clk 6) s6 = (Inr o3, s6)"
    using reconcile_accepted [OF s6(4,3,2) ident _ bid(1) _ accepted(4)] s5(4) s6(6)
      broker_target_submitted [OF accepted(3)] by simp
  have sub: "execute_submit port clk plan ?v (b, s4) = (Inr
      \<lparr>er_lifecycle = o3, er_verdict = ?v, er_broker_order_id = Some (bo_id bo), er_dry_run = False,
       er_replayed = False, er_filled_avg_price = None, er_position_confirmed = False,
       er_broker_identity = bp_broker_identity port\<rparr>, (b', s6))"
    by (simp add: execute_submit_def req liftS_def on_fst_run on_snd_run bindS_def thenS_def
        accepted(1) s5(1) s6(1) [simplified] s6(2) rec confirm_fill_def)
  have "execute port cfg True clk plan ctx (b, s) = execute_submit port clk plan ?v (b, s4)"
    using permitted s1(1) s2(1) s3(1,2) s4(1) st0
    by (simp add: execute_def execute_new_def Let_def new_order_plan [OF pok] liftS_def thenS_def bindS_def
        on_snd_run advance_to_def arbitrate_approved_iff)
  with sub s6(2,3,6) s5(4) show ?thesis by auto
qed

text \<open>A plan whose order had been approved but not yet recorded as submitted is rejected locally as
  soon as the guardrails refuse it, and the broker is not asked: an order that the broker accepted
  before the process stopped is left out of the ledger for good.\<close>

theorem execute_rejects_unasked:
  assumes ok: "ledger_ok s" and v: "validate_plan plan = Inr plan"
    and known: "plan_of s (tp_plan_id plan) = Some plan" "order_of s (plan_client_order_id plan) = Some o1"
    and intent: "same_intent o1 (entry_intent plan)" and st: "ol_state o1 = APPROVED"
    and refused: "\<not> trade_permitted plan ctx cfg" and tm: "is_utc (clk 2)"
  shows "\<exists>res t. execute port cfg auth clk plan ctx (b, s) = (Inr res, (b, t)) \<and>
     ol_state (er_lifecycle res) = REJECTED \<and>
     order_of t (plan_client_order_id plan) = Some (er_lifecycle res)"
proof -
  let ?cid = "plan_client_order_id plan" and ?v = "arbitrate_trade plan ctx cfg"
  have pok: "plan_ok plan" using v by (rule validate_plan_ok)
  obtain r where r: "find_order ?cid s = Some r" "or_lifecycle r = o1" using known(2) by (auto simp: order_of_eq)
  have rp: "record_plan plan s = (Inr plan, s)"
    using known(1) by (auto simp: record_plan_cases [OF ok v] plan_of_def)
  have valid: "valid_order (entry_intent plan)"
    using fresh_entry_intent [OF pok] by (simp add: fresh_order_def)
  have co: "create_order (entry_intent plan) (tp_created_at_utc plan) s = (Inr o1, s)"
    using r intent plan_ok_facts(5) [OF pok]
    by (simp add: create_order_cases [OF ok valid])
  have fw: "\<exists>o2 t. transition_order ?cid REJECTED (clk 2) prov None s = (Inr o2, t) \<and>
      ol_state o2 = REJECTED \<and> order_of t ?cid = Some o2" if "prov \<noteq> []" for prov
    by (rule transition_forward [OF ok known(2), of REJECTED "clk 2" prov]) (use st tm that in auto)
  have "''execution.engine.guardrail.'' @ failure_text ?v \<noteq> []" by simp
  from fw [OF this] obtain o2 t where t: "transition_order ?cid REJECTED (clk 2)
        (''execution.engine.guardrail.'' @ failure_text ?v) None s = (Inr o2, t)"
      "ol_state o2 = REJECTED" "order_of t ?cid = Some o2" by blast
  have "execute port cfg auth clk plan ctx (b, s) = (Inr (local_result o2 ?v False), (b, t))"
    using rp co t(1) [simplified] st refused
    by (simp add: execute_def execute_new_def Let_def new_order_plan [OF pok] liftS_def thenS_def bindS_def
        on_snd_run advance_to_def arbitrate_approved_iff)
  with t show ?thesis by (auto simp: local_result_def)
qed

lemma confirm_quantity_Inr:
  "confirm_quantity lc pos = Inr u \<Longrightarrow> py_lower (py_strip (pp_side pos)) = ''long'' \<and>
     (\<exists>d. parse_decimal (pp_qty pos) = Some (Finite d) \<and> of_int (ol_filled_shares lc) \<le> dec_val d)"
  by (auto simp: confirm_quantity_def not_less split: if_splits option.splits decimal.splits)

lemma confirm_fill_Inr:
  assumes "confirm_fill port lc bo p = (Inr (price, True), q)"
  shows "ol_state lc \<in> {PARTIALLY_FILLED, FILLED} \<and>
    (\<exists>ps pos d. bp_list_positions port (fst p) = (Inr ps, fst q) \<and>
       filter (\<lambda>x. pp_symbol x = ol_symbol lc) ps = [pos] \<and>
       py_lower (py_strip (pp_side pos)) = ''long'' \<and> parse_decimal (pp_qty pos) = Some (Finite d) \<and>
       of_int (ol_filled_shares lc) \<le> dec_val d)"
proof -
  obtain ps where l: "bp_list_positions port (fst p) = (Inr ps, fst q)"
    and c: "confirm_position lc ps = Inr ()" and st: "ol_state lc \<in> {PARTIALLY_FILLED, FILLED}"
    using assms by (auto simp: confirm_fill_def bindS_eq_Inr thenS_eq_Inr on_fst_eq split: if_splits)
  let ?m = "filter (\<lambda>x. pp_symbol x = ol_symbol lc) ps"
  have m: "length ?m = 1" "confirm_quantity lc (hd ?m) = Inr ()"
    using c by (auto simp: confirm_position_def Let_def split: if_splits)
  then obtain pos where "?m = [pos]" by (auto simp: length_Suc_conv)
  with m(2) l st confirm_quantity_Inr [of lc pos "()"] show ?thesis by auto
qed

text \<open>An execution that reports a confirmed position holds an order with a fill, and the broker
  listed, in this very call, exactly one position of the symbol: a long one of at least the filled
  size.\<close>

theorem confirmed_position_covers_fill:
  assumes "execute port cfg auth clk plan ctx p = (Inr res, q)" and "er_position_confirmed res"
  shows "ol_state (er_lifecycle res) \<in> {PARTIALLY_FILLED, FILLED} \<and>
    (\<exists>b ps pos d. bp_list_positions port b = (Inr ps, fst q) \<and>
       filter (\<lambda>x. pp_symbol x = ol_symbol (er_lifecycle res)) ps = [pos] \<and>
       py_lower (py_strip (pp_side pos)) = ''long'' \<and> parse_decimal (pp_qty pos) = Some (Finite d) \<and>
       of_int (ol_filled_shares (er_lifecycle res)) \<le> dec_val d)"
proof -
  have submit: "\<exists>p1 bo price. confirm_fill port (er_lifecycle res) bo p1 = (Inr (price, True), q)"
    if "execute_submit port clk plan v p0 = (Inr res, q)" for v p0
    using that assms(2) by (auto simp: execute_submit_def bindS_eq_Inr thenS_eq_Inr) blast
  have replay: "\<exists>p1 bo price. confirm_fill port (er_lifecycle res) bo p1 = (Inr (price, True), q)"
    if "execute_replay port cfg clk plan ctx lc p0 = (Inr res, q)" for lc p0
    using that assms(2)
    by (auto simp: execute_replay_def Let_def bindS_eq_Inr split: if_splits option.splits) blast
  have new: "\<exists>v p1. execute_submit port clk plan v p1 = (Inr res, q)"
    if "execute_new port cfg auth clk plan ctx lc p0 = (Inr res, q)" for lc p0
    using that assms(2)
    by (auto simp: execute_new_def Let_def bindS_eq_Inr local_result_def split: if_splits)
  have "\<exists>p1 bo price. confirm_fill port (er_lifecycle res) bo p1 = (Inr (price, True), q)"
    using assms(1) submit replay new
    by (auto simp: execute_def bindS_eq_Inr thenS_eq_Inr split: if_splits) blast+
  then show ?thesis using confirm_fill_Inr by blast
qed

section \<open>Concrete runs\<close>

definition sample_context :: GuardrailContext where
  "sample_context = \<lparr>gc_evaluated_at_utc = utc 2000000, gc_market_data_asof_utc = utc 1000000,
     gc_market_data_feed = ''SIP'', gc_paper_endpoint = True, gc_kill_switch_active = False,
     gc_market_open = True, gc_account_active = True, gc_account_blocked = False,
     gc_trading_blocked = False, gc_equity = Dec False 100000 0, gc_daily_pnl = Dec False 0 0,
     gc_gross_exposure = Dec False 0 0, gc_open_position_symbols = [],
     gc_buying_power = Dec False 50000 0, gc_sizing_notional_cap = Dec False 20000 0,
     gc_selected_symbols = [''AAPL''], gc_selection_snapshot_ids = [''s1'']\<rparr>"

definition sample_config :: Config where
  "sample_config = \<lparr>cfg_max_concurrent = 3, cfg_max_gross_exposure = Dec False 1 0,
     cfg_daily_loss_limit = Dec False 2 (- 2), cfg_max_quote_age_seconds = Dec False 5 0\<rparr>"

definition sample_clock :: "nat \<Rightarrow> datetime" where
  "sample_clock i = utc (10 + int i)"

lemma sample_permitted: "trade_permitted sample_plan sample_context sample_config"
  by code_simp

lemma execute_keeps_ledger_witness:
  "ledger_ok (snd (snd (execute (sim_port True []) sample_config True sample_clock sample_plan
      sample_context ([], empty_ledger))))"
  using execute_keeps_ledger [of "([], empty_ledger)" sample_plan "sim_port True []" sample_config True
      sample_clock sample_context] ledger_ok_empty sample_plan_valid by simp

definition sample_env :: "unit alpaca_env" where
  \<comment> \<open>a server that knows no order and accepts every new one\<close>
  "sample_env = \<lparr>ae_http = (\<lambda>m path params body b.
        (Inr \<lparr>hr_status_code = (if m = GET then 404 else 201), hr_json = Some (JObj [])\<rparr>, b)),
     ae_decode_order = (\<lambda>_. Inr (BrokerOrder ''b1'' ''tsv2-p1-entry'' ''AAPL'' 10 ''0'' ''new'' None None None [])),
     ae_decode_position = (\<lambda>_. Inl (ValidationError ''position'')), ae_writes_enabled = (\<lambda>_. True)\<rparr>"

lemma execute_at_most_one_post_witness:
  "snd (fst (snd (execute (direct_alpaca (recorded sample_env)) sample_config False sample_clock
      sample_plan sample_context (((), []), empty_ledger)))) = []"
  using execute_at_most_one_post [of "(((), []), empty_ledger)" sample_plan sample_env sample_config False
      sample_clock sample_context] ledger_ok_empty sample_plan_valid by (simp add: Let_def)

lemma execute_submits_witness:
  "\<exists>res t. execute (sim_port True []) sample_config True sample_clock sample_plan sample_context
       ([], empty_ledger) = (Inr res, (snd (sim_submit ''tsv2-p1-entry'' ''AAPL'' 10 ''buy'' []), t)) \<and>
     ol_state (er_lifecycle res) = SUBMITTED"
proof -
  let ?bo = "BrokerOrder ''b-tsv2-p1-entry'' ''tsv2-p1-entry'' ''AAPL'' 10 ''0'' ''accepted'' None (Some ''buy'') None []"
  have new: "plan_of empty_ledger (tp_plan_id sample_plan) = None"
    "order_of empty_ledger (plan_client_order_id sample_plan) = None"
    "\<forall>c. broker_id_of empty_ledger c \<noteq> Some (bo_id ?bo)"
    by (simp_all add: empty_ledger_def plan_of_def order_of_def broker_id_of_def)
  have clk: "is_utc (sample_clock i)" for i by (simp add: sample_clock_def)
  have w: "bp_writes_enabled (sim_port True []) []" by (simp add: sim_port_def)
  have req: "validate_order_request (entry_request sample_plan) = Inr (entry_request sample_plan)"
    by code_simp
  have acc: "bp_submit_order (sim_port True []) (entry_request sample_plan) [] =
      (Inr ?bo, snd (sim_submit ''tsv2-p1-entry'' ''AAPL'' 10 ''buy'' []))" by code_simp
  have st: "same_broker_identity (entry_intent sample_plan) ?bo" "broker_status ?bo \<in> set SUBMITTED_STATUSES"
    "filled_shares ?bo = Inr 0" "\<not> is_blank (bo_id ?bo)" by code_simp+
  show ?thesis
    using execute_submits [where plan = sample_plan and clk = sample_clock, OF ledger_ok_empty
      sample_plan_valid new(1,2) clk sample_permitted w req acc st new(3)] by blast
qed

text \<open>The process stopped between the broker's acceptance and the next write to the ledger.\<close>

definition sample_approved :: order_ledger where
  "sample_approved = fold exec_ledger (RecordPlan sample_plan # sample_steps) empty_ledger"

definition closed_market :: GuardrailContext where
  "closed_market = sample_context\<lparr>gc_market_open := False\<rparr>"

lemma execute_rejects_unasked_witness:
  "\<exists>res t. execute (sim_port True []) sample_config True sample_clock sample_plan closed_market
       ([sample_fill ''accepted'' ''0''], sample_approved) = (Inr res, ([sample_fill ''accepted'' ''0''], t)) \<and>
     ol_state (er_lifecycle res) = REJECTED"
proof -
  have ok: "ledger_ok sample_approved" unfolding sample_approved_def by (rule ledger_ok_fold)
  have pl: "plan_of sample_approved (tp_plan_id sample_plan) = Some sample_plan" by code_simp
  let ?o = "case order_of sample_approved (plan_client_order_id sample_plan) of Some o' \<Rightarrow> o' | None \<Rightarrow> sample_order"
  have o: "order_of sample_approved (plan_client_order_id sample_plan) = Some ?o" by code_simp
  have i: "same_intent ?o (entry_intent sample_plan)" "ol_state ?o = APPROVED" by code_simp+
  have r: "\<not> trade_permitted sample_plan closed_market sample_config"
    by (simp add: trade_permitted_def closed_market_def)
  have tm: "is_utc (sample_clock 2)" by (simp add: sample_clock_def)
  show ?thesis
    using execute_rejects_unasked [where clk = sample_clock and port = "sim_port True []"
        and b = "[sample_fill ''accepted'' ''0'']" and auth = True, OF ok sample_plan_valid pl o i r tm] by blast
qed

lemma confirmed_position_covers_fill_witness:
  "\<exists>res q. execute (sim_port True sample_positions) sample_config True sample_clock sample_plan
      sample_context sample_desk = (Inr res, q) \<and> ol_state (er_lifecycle res) \<in> {PARTIALLY_FILLED, FILLED}"
proof -
  let ?r = "execute (sim_port True sample_positions) sample_config True sample_clock sample_plan
      sample_context sample_desk"
  have "(case fst ?r of Inl _ \<Rightarrow> False | Inr res \<Rightarrow> er_position_confirmed res)" by code_simp
  then obtain res q where r: "?r = (Inr res, q)" "er_position_confirmed res"
    by (cases ?r) (auto split: sum.splits)
  then show ?thesis using confirmed_position_covers_fill [OF r] by blast
qed

end
