(* ===== verification/SyntheticStop.thy ===== *)
theory SyntheticStop
  imports PyFloat Contracts
begin

text \<open>
  \<open>execution/synthetic_stop.py\<close>: the deterministic decision of the extended-hours stop, one
  evaluation per snapshot.  The constructors reject non-finite decimals, so the decimal fields hold
  finite ones; the two durations are floats and are given by their values.
\<close>

section \<open>Data\<close>

datatype StopAction = OBSERVE | SUBMIT_EXIT_LIMIT | CANCEL_REPLACE_EXIT | COMPLETE | ALERT

record SyntheticStopPlan =
  sp_plan_id :: string
  sp_symbol :: string
  sp_qty :: int
  sp_stop_price :: dec
  sp_confirmation_seconds :: rat
  sp_reprice_seconds :: rat
  sp_price_buffers :: "dec list"

definition default_buffers :: "dec list" where
  "default_buffers = [Dec False 25 (- 4), Dec False 50 (- 4), Dec False 100 (- 4)]"

definition validate_stop_plan :: "SyntheticStopPlan \<Rightarrow> py_error + SyntheticStopPlan" where
  "validate_stop_plan p =
     (if is_blank (sp_plan_id p) then Inl (ValueError ''synthetic stop plan_id is required'')
      else if sp_symbol p \<noteq> py_upper (py_strip (sp_symbol p)) \<or> sp_symbol p = []
        then Inl (ValueError ''synthetic stop symbol must be normalized uppercase'')
      else if sp_qty p \<le> 0 then Inl (ValueError ''synthetic stop quantity must be positive'')
      else if dec_val (sp_stop_price p) \<le> 0
        then Inl (ValueError ''synthetic stop price must be finite and positive'')
      else if sp_confirmation_seconds p \<le> 0 \<or> sp_reprice_seconds p \<le> 0
        then Inl (ValueError ''synthetic stop timing must be finite and positive'')
      else if sp_price_buffers p = [] \<or>
              list_ex (\<lambda>v. dec_val v \<le> 0 \<or> 5 / 100 < dec_val v) (sp_price_buffers p)
        then Inl (ValueError ''synthetic stop price buffers are invalid'')
      else Inr p)"

record SyntheticStopRuntime =
  sr_below_since_utc :: "datetime option"
  sr_triggered_at_utc :: "datetime option"
  sr_last_command_at_utc :: "datetime option"
  sr_price_attempt :: int
  sr_completed_at_utc :: "datetime option"

definition initial_runtime :: SyntheticStopRuntime where
  "initial_runtime = \<lparr>sr_below_since_utc = None, sr_triggered_at_utc = None,
     sr_last_command_at_utc = None, sr_price_attempt = 0, sr_completed_at_utc = None\<rparr>"

definition validate_runtime :: "SyntheticStopRuntime \<Rightarrow> py_error + SyntheticStopRuntime" where
  "validate_runtime r =
     (if \<not> (utc_opt (sr_below_since_utc r) \<and> utc_opt (sr_triggered_at_utc r) \<and>
            utc_opt (sr_last_command_at_utc r) \<and> utc_opt (sr_completed_at_utc r))
        then Inl (ValueError ''synthetic stop timestamps must be timezone-aware UTC'')
      else if sr_price_attempt r < 0
        then Inl (ValueError ''synthetic stop price_attempt cannot be negative'')
      else Inr r)"

record SyntheticStopSnapshot =
  sn_observed_at_utc :: datetime
  sn_quote_asof_utc :: datetime
  sn_bid :: dec
  sn_ask :: dec
  sn_last_trade :: "dec option"
  sn_last_trade_asof_utc :: "datetime option"
  sn_quote_provenance :: string
  sn_trade_provenance :: "string option"
  sn_data_healthy :: bool
  sn_broker_healthy :: bool
  sn_verified_material_negative :: bool
  sn_halt_risk :: bool
  sn_filled :: bool

definition validate_snapshot :: "SyntheticStopSnapshot \<Rightarrow> py_error + SyntheticStopSnapshot" where
  "validate_snapshot s =
     (if \<not> (is_utc (sn_observed_at_utc s) \<and> is_utc (sn_quote_asof_utc s) \<and> utc_opt (sn_last_trade_asof_utc s))
        then Inl (ValueError ''synthetic stop timestamps must be timezone-aware UTC'')
      else if instant (sn_observed_at_utc s) < instant (sn_quote_asof_utc s)
        then Inl (ValueError ''synthetic stop quote cannot be from the future'')
      else if (case sn_last_trade_asof_utc s of None \<Rightarrow> False
               | Some t \<Rightarrow> instant (sn_observed_at_utc s) < instant t)
        then Inl (ValueError ''synthetic stop trade cannot be from the future'')
      else if dec_val (sn_bid s) \<le> 0 \<or> dec_lt (sn_ask s) (sn_bid s)
        then Inl (ValueError ''synthetic stop NBBO is invalid'')
      else if (case sn_last_trade s of None \<Rightarrow> False | Some d \<Rightarrow> dec_val d \<le> 0)
        then Inl (ValueError ''synthetic stop last trade is invalid'')
      else if is_blank (sn_quote_provenance s)
        then Inl (ValueError ''synthetic stop quote provenance is required'')
      else Inr s)"

record SyntheticStopDecision =
  sd_action :: StopAction
  sd_runtime :: SyntheticStopRuntime
  sd_limit_price :: "dec option"
  sd_reasons :: "string list"
  sd_blockers :: "string list"

section \<open>evaluate\<close>

definition marketable_sell_limit :: "dec \<Rightarrow> dec \<Rightarrow> py_error + dec" where
  "marketable_sell_limit bid buffer =
     dec_quantize RoundDown (- 2) (dec_mul bid (dec_sub (dec_of_int 1) buffer))"

definition buffer_at :: "SyntheticStopPlan \<Rightarrow> int \<Rightarrow> py_error + dec" where
  \<comment> \<open>\<open>plan.price_buffers[i]\<close> of a non-negative index\<close>
  "buffer_at plan i =
     (if nat i < length (sp_price_buffers plan) then Inr (sp_price_buffers plan ! nat i)
      else Inl (IndexError ''tuple index out of range''))"

definition exit_order ::
    "StopAction \<Rightarrow> SyntheticStopPlan \<Rightarrow> SyntheticStopRuntime \<Rightarrow> SyntheticStopSnapshot \<Rightarrow> int \<Rightarrow> string
       \<Rightarrow> py_error + SyntheticStopDecision" where
  \<comment> \<open>a decision that carries a limit price\<close>
  "exit_order action plan rt snap attempt reason =
     (case buffer_at plan attempt of Inl e \<Rightarrow> Inl e | Inr buffer \<Rightarrow>
      case marketable_sell_limit (sn_bid snap) buffer of Inl e \<Rightarrow> Inl e | Inr limit_price \<Rightarrow>
        Inr \<lparr>sd_action = action, sd_runtime = rt, sd_limit_price = Some limit_price,
             sd_reasons = [reason], sd_blockers = []\<rparr>)"

definition no_order ::
    "StopAction \<Rightarrow> SyntheticStopRuntime \<Rightarrow> string list \<Rightarrow> string list \<Rightarrow> py_error + SyntheticStopDecision"
  where
  "no_order action rt reasons blockers =
     Inr \<lparr>sd_action = action, sd_runtime = rt, sd_limit_price = None,
          sd_reasons = reasons, sd_blockers = blockers\<rparr>"

definition emergency_reason :: "SyntheticStopSnapshot \<Rightarrow> string option" where
  "emergency_reason snap =
     (if sn_verified_material_negative snap then Some ''verified_material_negative''
      else if sn_halt_risk snap then Some ''halt_risk'' else None)"

definition trigger ::
    "SyntheticStopRuntime \<Rightarrow> SyntheticStopSnapshot \<Rightarrow> bool \<Rightarrow> SyntheticStopRuntime" where
  \<comment> \<open>\<open>replace(runtime, below_since_utc=now, triggered_at_utc=now, last_command_at_utc=...)\<close>\<close>
  "trigger rt snap sent = rt\<lparr>sr_below_since_utc := Some (sn_observed_at_utc snap),
     sr_triggered_at_utc := Some (sn_observed_at_utc snap),
     sr_last_command_at_utc := (if sent then Some (sn_observed_at_utc snap) else None)\<rparr>"

definition trade_confirms :: "SyntheticStopPlan \<Rightarrow> SyntheticStopSnapshot \<Rightarrow> bool" where
  "trade_confirms plan snap = (case sn_last_trade snap of None \<Rightarrow> False
     | Some tr \<Rightarrow> dec_le tr (sp_stop_price plan) \<and> dec_le (sn_bid snap) (sp_stop_price plan))"

definition evaluate_below_stop ::
    "SyntheticStopPlan \<Rightarrow> SyntheticStopRuntime \<Rightarrow> SyntheticStopSnapshot \<Rightarrow> py_error + SyntheticStopDecision"
  where
  \<comment> \<open>from \<open>below_since = ...\<close> to the end of the branch\<close>
  "evaluate_below_stop plan rt snap =
     (let now = sn_observed_at_utc snap;
          below_since = (case sr_below_since_utc rt of None \<Rightarrow> now | Some t \<Rightarrow> t);
          waiting = rt\<lparr>sr_below_since_utc := Some below_since\<rparr>
      in if seconds_between now below_since < sp_confirmation_seconds plan
         then no_order OBSERVE waiting [] [''awaiting_two_second_confirmation'']
         else exit_order SUBMIT_EXIT_LIMIT plan
                (waiting\<lparr>sr_triggered_at_utc := Some now, sr_last_command_at_utc := Some now\<rparr>)
                snap 0 ''nbbo_below_stop_for_two_seconds'')"

definition evaluate_untriggered ::
    "SyntheticStopPlan \<Rightarrow> SyntheticStopRuntime \<Rightarrow> SyntheticStopSnapshot \<Rightarrow> py_error + SyntheticStopDecision"
  where
  "evaluate_untriggered plan rt snap =
     (if \<not> sn_data_healthy snap then
        let attempt = int (length (sp_price_buffers plan)) - 1;
            triggered = (trigger rt snap (sn_broker_healthy snap))\<lparr>sr_price_attempt := attempt\<rparr>
        in if \<not> sn_broker_healthy snap
           then no_order ALERT triggered [''market_data_unhealthy''] [''broker_unavailable_during_exit'']
           else exit_order SUBMIT_EXIT_LIMIT plan triggered snap attempt ''market_data_unhealthy''
      else case emergency_reason snap of
        Some reason \<Rightarrow>
          let triggered = trigger rt snap (sn_broker_healthy snap) in
          if \<not> sn_broker_healthy snap
          then no_order ALERT triggered [reason] [''broker_unavailable_during_exit'']
          else exit_order SUBMIT_EXIT_LIMIT plan triggered snap 0 reason
      | None \<Rightarrow>
          if trade_confirms plan snap
          then exit_order SUBMIT_EXIT_LIMIT plan (trigger rt snap True) snap 0 ''trade_and_nbbo_confirmed_stop''
          else if dec_lt (sp_stop_price plan) (sn_bid snap)
          then no_order OBSERVE (rt\<lparr>sr_below_since_utc := None\<rparr>) [] []
          else evaluate_below_stop plan rt snap)"

definition evaluate_triggered ::
    "SyntheticStopPlan \<Rightarrow> SyntheticStopRuntime \<Rightarrow> SyntheticStopSnapshot \<Rightarrow> py_error + SyntheticStopDecision"
  where
  "evaluate_triggered plan rt snap =
     (let now = sn_observed_at_utc snap in
      if \<not> sn_broker_healthy snap
      then no_order ALERT rt [''synthetic_stop_triggered''] [''broker_unavailable_during_exit'']
      else case sr_last_command_at_utc rt of
        None \<Rightarrow> exit_order SUBMIT_EXIT_LIMIT plan (rt\<lparr>sr_last_command_at_utc := Some now\<rparr>) snap
                  (sr_price_attempt rt) ''broker_recovered_exit_retry''
      | Some last_command \<Rightarrow>
          if sp_reprice_seconds plan \<le> seconds_between now last_command then
            let attempt = min (sr_price_attempt rt + 1) (int (length (sp_price_buffers plan)) - 1) in
            exit_order CANCEL_REPLACE_EXIT plan
              (rt\<lparr>sr_last_command_at_utc := Some now, sr_price_attempt := attempt\<rparr>) snap attempt
              ''synthetic_stop_reprice''
          else no_order OBSERVE rt [] [''exit_order_pending''])"

definition evaluate ::
    "SyntheticStopPlan \<Rightarrow> SyntheticStopRuntime \<Rightarrow> SyntheticStopSnapshot \<Rightarrow> py_error + SyntheticStopDecision"
  where
  "evaluate plan rt snap =
     (if sn_filled snap \<or> sr_completed_at_utc rt \<noteq> None then
        no_order COMPLETE
          (if sr_completed_at_utc rt \<noteq> None then rt
           else rt\<lparr>sr_completed_at_utc := Some (sn_observed_at_utc snap)\<rparr>)
          [''synthetic_stop_filled''] []
      else if sr_triggered_at_utc rt = None then evaluate_untriggered plan rt snap
      else evaluate_triggered plan rt snap)"

section \<open>Runs\<close>

text \<open>
  The runtime that a history of snapshots leads to: the engine is called once per snapshot, and a
  call that raises stores nothing.
\<close>

inductive stop_run :: "SyntheticStopPlan \<Rightarrow> SyntheticStopSnapshot list \<Rightarrow> SyntheticStopRuntime \<Rightarrow> bool"
  for plan :: SyntheticStopPlan where
  start: "stop_run plan [] initial_runtime"
| tick: "stop_run plan hist rt \<Longrightarrow> evaluate plan rt snap = Inr d \<Longrightarrow>
    stop_run plan (hist @ [snap]) (sd_runtime d)"

inductive_cases stop_run_snocE: "stop_run plan (hist @ [snap]) rt"

lemmas eval_defs = evaluate_def evaluate_untriggered_def evaluate_triggered_def evaluate_below_stop_def
  Let_def trigger_def

lemma exit_order_iff:
  "exit_order action plan rt snap attempt reason = Inr d \<longleftrightarrow>
     nat attempt < length (sp_price_buffers plan) \<and>
     (\<exists>lp. marketable_sell_limit (sn_bid snap) (sp_price_buffers plan ! nat attempt) = Inr lp \<and>
        d = \<lparr>sd_action = action, sd_runtime = rt, sd_limit_price = Some lp,
             sd_reasons = [reason], sd_blockers = []\<rparr>)"
  by (auto simp: exit_order_def buffer_at_def split: sum.splits if_splits)

lemma no_order_iff:
  "no_order action rt reasons blockers = Inr d \<longleftrightarrow>
     d = \<lparr>sd_action = action, sd_runtime = rt, sd_limit_price = None,
          sd_reasons = reasons, sd_blockers = blockers\<rparr>"
  by (auto simp: no_order_def)

lemmas decision_iff = exit_order_iff no_order_iff

text \<open>What every evaluation keeps.\<close>

definition runtime_ok :: "SyntheticStopPlan \<Rightarrow> SyntheticStopRuntime \<Rightarrow> bool" where
  "runtime_ok plan rt \<longleftrightarrow>
     0 \<le> sr_price_attempt rt \<and> sr_price_attempt rt < int (length (sp_price_buffers plan)) \<and>
     (sr_triggered_at_utc rt = None \<longrightarrow> sr_price_attempt rt = 0 \<and> sr_last_command_at_utc rt = None)"

lemma runtime_ok_initial: "sp_price_buffers plan \<noteq> [] \<Longrightarrow> runtime_ok plan initial_runtime"
  by (simp add: runtime_ok_def initial_runtime_def)

definition stop_progress :: "SyntheticStopRuntime \<Rightarrow> SyntheticStopRuntime \<Rightarrow> bool" where
  "stop_progress rt rt' \<longleftrightarrow>
     sr_price_attempt rt \<le> sr_price_attempt rt' \<and>
     (sr_triggered_at_utc rt \<noteq> None \<longrightarrow> sr_triggered_at_utc rt' = sr_triggered_at_utc rt) \<and>
     (sr_completed_at_utc rt \<noteq> None \<longrightarrow> rt' = rt)"

lemma evaluate_keeps:
  assumes ok: "runtime_ok plan rt" and e: "evaluate plan rt snap = Inr d"
  shows "runtime_ok plan (sd_runtime d) \<and> stop_progress rt (sd_runtime d)"
proof -
  consider (complete) "sn_filled snap \<or> sr_completed_at_utc rt \<noteq> None"
    | (idle) "\<not> sn_filled snap" "sr_completed_at_utc rt = None" "sr_triggered_at_utc rt = None"
        "evaluate_untriggered plan rt snap = Inr d"
    | (live) "\<not> sn_filled snap" "sr_completed_at_utc rt = None" "sr_triggered_at_utc rt \<noteq> None"
        "evaluate_triggered plan rt snap = Inr d"
    using e by (cases "sr_triggered_at_utc rt = None") (auto simp: evaluate_def split: if_splits)
  then show ?thesis
  proof cases
    case complete
    with e ok show ?thesis
      by (auto simp: evaluate_def runtime_ok_def stop_progress_def no_order_iff)
  next
    case idle
    from idle(4) ok idle(2,3) show ?thesis
      by (auto simp: evaluate_untriggered_def evaluate_below_stop_def Let_def trigger_def runtime_ok_def
          stop_progress_def decision_iff split: if_splits option.splits)
  next
    case live
    from live(4) ok live(2,3) show ?thesis
      by (auto simp: evaluate_triggered_def Let_def runtime_ok_def stop_progress_def decision_iff
          split: if_splits option.splits)
  qed
qed

lemma stop_run_ok: "stop_run plan hist rt \<Longrightarrow> sp_price_buffers plan \<noteq> [] \<Longrightarrow> runtime_ok plan rt"
  by (induction rule: stop_run.induct) (auto simp: runtime_ok_initial evaluate_keeps)

section \<open>The engine as a machine driven by snapshots\<close>

fun tick_runtime :: "SyntheticStopPlan \<Rightarrow> SyntheticStopSnapshot \<Rightarrow> SyntheticStopRuntime \<Rightarrow> SyntheticStopRuntime"
  where
  "tick_runtime plan snap rt = (case evaluate plan rt snap of Inl _ \<Rightarrow> rt | Inr d \<Rightarrow> sd_runtime d)"

lemma stop_progress_refl: "stop_progress rt rt"
  by (simp add: stop_progress_def)

interpretation stop_machine: guarded_machine "runtime_ok plan" stop_progress "tick_runtime plan" for plan
proof (unfold_locales, goal_cases)
  case 1
  show ?case by (rule stop_progress_refl)
next
  case (2 rt rt' rt'')
  then show ?case by (auto simp: stop_progress_def)
next
  case (3 rt snap)
  then show ?case by (auto simp: evaluate_keeps split: sum.split)
next
  case (4 rt snap)
  then show ?case by (auto simp: evaluate_keeps stop_progress_refl split: sum.split)
qed

section \<open>Why a stop triggers\<close>

text \<open>The quote has been at or below the stop in every snapshot since the first of \<open>suf\<close>.\<close>

definition below_since :: "SyntheticStopPlan \<Rightarrow> SyntheticStopSnapshot list \<Rightarrow> datetime \<Rightarrow> bool" where
  "below_since plan hist t \<longleftrightarrow> (\<exists>pre suf. hist = pre @ suf \<and> suf \<noteq> [] \<and>
     sn_observed_at_utc (hd suf) = t \<and> (\<forall>s \<in> set suf. dec_le (sn_bid s) (sp_stop_price plan)))"

lemma below_since_snoc:
  assumes "below_since plan hist t" and "dec_le (sn_bid snap) (sp_stop_price plan)"
  shows "below_since plan (hist @ [snap]) t"
proof -
  obtain pre suf where "hist = pre @ suf" "suf \<noteq> []" "sn_observed_at_utc (hd suf) = t"
    "\<forall>s \<in> set suf. dec_le (sn_bid s) (sp_stop_price plan)"
    using assms(1) by (auto simp: below_since_def)
  with assms(2) show ?thesis
    unfolding below_since_def by (intro exI [of _ pre] exI [of _ "suf @ [snap]"]) auto
qed

lemma below_since_now:
  "dec_le (sn_bid snap) (sp_stop_price plan) \<Longrightarrow> below_since plan (hist @ [snap]) (sn_observed_at_utc snap)"
  unfolding below_since_def by (intro exI [of _ hist] exI [of _ "[snap]"]) simp

definition watching :: "SyntheticStopPlan \<Rightarrow> SyntheticStopSnapshot list \<Rightarrow> SyntheticStopRuntime \<Rightarrow> bool" where
  "watching plan hist rt \<longleftrightarrow>
     (sr_triggered_at_utc rt = None \<and> sr_completed_at_utc rt = None \<longrightarrow>
      (case sr_below_since_utc rt of None \<Rightarrow> True | Some t \<Rightarrow> below_since plan hist t))"

lemma evaluate_untriggered_watching:
  assumes w: "watching plan hist rt" and st: "sr_triggered_at_utc rt = None" "sr_completed_at_utc rt = None"
    and e: "evaluate_untriggered plan rt snap = Inr d"
  shows "watching plan (hist @ [snap]) (sd_runtime d)"
proof (cases "evaluate_below_stop plan rt snap = Inr d \<and> dec_le (sn_bid snap) (sp_stop_price plan)")
  case True
  have "case sr_below_since_utc rt of None \<Rightarrow> True | Some t \<Rightarrow> below_since plan hist t"
    using w st by (simp add: watching_def)
  with True show ?thesis
    by (auto simp: evaluate_below_stop_def Let_def decision_iff watching_def below_since_now
        intro: below_since_snoc split: if_splits option.splits)
next
  case False
  with e st show ?thesis
    by (auto simp: evaluate_untriggered_def Let_def trigger_def decision_iff watching_def dec_lt_def dec_le_def
        split: if_splits option.splits)
qed

lemma stop_run_watching: "stop_run plan hist rt \<Longrightarrow> watching plan hist rt"
proof (induction rule: stop_run.induct)
  case start
  show ?case by (simp add: watching_def initial_runtime_def)
next
  case (tick hist rt snap d)
  show ?case
  proof (cases "sn_filled snap \<or> sr_completed_at_utc rt \<noteq> None")
    case True
    with tick(2) show ?thesis by (auto simp: evaluate_def watching_def no_order_iff)
  next
    case live: False
    show ?thesis
    proof (cases "sr_triggered_at_utc rt = None")
      case True
      with live tick show ?thesis by (auto simp: evaluate_def intro: evaluate_untriggered_watching)
    next
      case False
      with live tick(2) show ?thesis
        by (auto simp: evaluate_def evaluate_triggered_def Let_def decision_iff watching_def
            split: if_splits option.splits)
    qed
  qed
qed

definition stop_justified ::
    "SyntheticStopPlan \<Rightarrow> SyntheticStopSnapshot list \<Rightarrow> SyntheticStopSnapshot \<Rightarrow> bool" where
  "stop_justified plan hist snap \<longleftrightarrow>
     \<not> sn_data_healthy snap \<or> sn_verified_material_negative snap \<or> sn_halt_risk snap \<or>
     trade_confirms plan snap \<or>
     (\<exists>t. below_since plan (hist @ [snap]) t \<and>
        sp_confirmation_seconds plan \<le> seconds_between (sn_observed_at_utc snap) t)"

lemma untriggered_justified:
  assumes w: "watching plan hist rt" and st: "sr_triggered_at_utc rt = None" "sr_completed_at_utc rt = None"
    and e: "evaluate_untriggered plan rt snap = Inr d" and trig: "sr_triggered_at_utc (sd_runtime d) \<noteq> None"
  shows "stop_justified plan hist snap"
proof (rule ccontr)
  assume no: "\<not> stop_justified plan hist snap"
  then have calm: "sn_data_healthy snap" "emergency_reason snap = None" "\<not> trade_confirms plan snap"
    by (auto simp: stop_justified_def emergency_reason_def)
  have below: "dec_le (sn_bid snap) (sp_stop_price plan)"
    using e calm trig st by (auto simp: evaluate_untriggered_def no_order_iff dec_lt_def dec_le_def split: if_splits)
  then have eb: "evaluate_below_stop plan rt snap = Inr d"
    using e calm by (auto simp: evaluate_untriggered_def dec_lt_def dec_le_def)
  let ?t = "case sr_below_since_utc rt of None \<Rightarrow> sn_observed_at_utc snap | Some t \<Rightarrow> t"
  have "below_since plan (hist @ [snap]) ?t"
    using w st below by (auto simp: watching_def below_since_now intro: below_since_snoc split: option.splits)
  moreover have "sp_confirmation_seconds plan \<le> seconds_between (sn_observed_at_utc snap) ?t"
    using eb trig st by (auto simp: evaluate_below_stop_def Let_def decision_iff not_less split: if_splits)
  ultimately show False using no by (auto simp: stop_justified_def)
qed

section \<open>Properties\<close>

text \<open>Over any sequence of snapshots the stop only moves forward: once triggered it stays triggered
  at the same time, the price attempt never decreases and always selects an existing buffer, and a
  completed stop never changes again.\<close>

theorem synthetic_stop_run:
  assumes "runtime_ok plan rt"
  shows "runtime_ok plan (fold (tick_runtime plan) snaps rt) \<and>
         stop_progress rt (fold (tick_runtime plan) snaps rt)"
  using stop_machine.run_all_inv [OF assms] stop_machine.run_all_up [OF assms]
  by (simp add: stop_machine.run_all_def)

text \<open>C14: a stop triggers only for a reason: unhealthy data, a verified negative event, halt risk, a
  trade and a bid at or below the stop, or a bid that was at or below the stop in every snapshot of
  a window at least as long as the confirmation time, up to and including this one.\<close>

theorem trigger_is_justified:
  assumes run: "stop_run plan hist rt" and e: "evaluate plan rt snap = Inr d"
    and before: "sr_triggered_at_utc rt = None" and after: "sr_triggered_at_utc (sd_runtime d) \<noteq> None"
  shows "stop_justified plan hist snap \<and> sr_triggered_at_utc (sd_runtime d) = Some (sn_observed_at_utc snap)"
proof (cases "sn_filled snap \<or> sr_completed_at_utc rt \<noteq> None")
  case True
  with e before after show ?thesis by (auto simp: evaluate_def no_order_iff split: if_splits)
next
  case False
  then have e': "evaluate_untriggered plan rt snap = Inr d"
    using e before by (simp add: evaluate_def)
  have "sr_triggered_at_utc (sd_runtime d) = Some (sn_observed_at_utc snap)"
    using e' before after
    by (auto simp: evaluate_untriggered_def evaluate_below_stop_def Let_def trigger_def decision_iff
        split: if_splits option.splits)
  moreover have "stop_justified plan hist snap"
    using untriggered_justified [OF stop_run_watching [OF run] before _ e' after] False by blast
  ultimately show ?thesis by simp
qed

text \<open>A triggered stop keeps working on the exit: with a healthy broker and an unfilled position,
  as soon as the repricing time has passed since the last command (or no command has been sent) the
  evaluation returns a sell command, stamped with the current time, at the next price step, and the
  step count is capped by the last buffer.\<close>

theorem triggered_stop_acts:
  assumes ok: "runtime_ok plan rt" and trig: "sr_triggered_at_utc rt \<noteq> None"
    and live: "\<not> sn_filled snap" "sr_completed_at_utc rt = None" "sn_broker_healthy snap"
    and due: "\<And>t. sr_last_command_at_utc rt = Some t \<Longrightarrow>
        sp_reprice_seconds plan \<le> seconds_between (sn_observed_at_utc snap) t"
    and priced: "\<And>b. b \<in> set (sp_price_buffers plan) \<Longrightarrow> \<exists>lp. marketable_sell_limit (sn_bid snap) b = Inr lp"
  shows "\<exists>d lp. evaluate plan rt snap = Inr d \<and> sd_limit_price d = Some lp \<and>
     sr_last_command_at_utc (sd_runtime d) = Some (sn_observed_at_utc snap) \<and>
     (if sr_last_command_at_utc rt = None
      then sd_action d = SUBMIT_EXIT_LIMIT \<and> sr_price_attempt (sd_runtime d) = sr_price_attempt rt
      else sd_action d = CANCEL_REPLACE_EXIT \<and> sr_price_attempt (sd_runtime d) =
             min (sr_price_attempt rt + 1) (int (length (sp_price_buffers plan)) - 1))"
proof -
  have pr: "\<exists>lp. marketable_sell_limit (sn_bid snap) (sp_price_buffers plan ! nat i) = Inr lp"
    if "0 \<le> i" "i < int (length (sp_price_buffers plan))" for i
    using that by (intro priced nth_mem) linarith
  have eo: "\<exists>d lp. exit_order action plan r snap i reason = Inr d \<and> sd_limit_price d = Some lp \<and>
      sd_runtime d = r \<and> sd_action d = action"
    if "0 \<le> i" "i < int (length (sp_price_buffers plan))" for i action r reason
    using pr [OF that] that by (auto simp: exit_order_def buffer_at_def)
  show ?thesis
  proof (cases "sr_last_command_at_utc rt")
    case None
    let ?r = "rt\<lparr>sr_last_command_at_utc := Some (sn_observed_at_utc snap)\<rparr>"
    obtain d lp where "exit_order SUBMIT_EXIT_LIMIT plan ?r snap (sr_price_attempt rt) ''broker_recovered_exit_retry'' = Inr d"
      "sd_limit_price d = Some lp" "sd_runtime d = ?r" "sd_action d = SUBMIT_EXIT_LIMIT"
      using eo [of "sr_price_attempt rt" SUBMIT_EXIT_LIMIT ?r "''broker_recovered_exit_retry''"] ok
      by (auto simp: runtime_ok_def)
    with None trig live show ?thesis by (auto simp: evaluate_def evaluate_triggered_def Let_def)
  next
    case (Some t)
    let ?i = "min (sr_price_attempt rt + 1) (int (length (sp_price_buffers plan)) - 1)"
    let ?r = "rt\<lparr>sr_last_command_at_utc := Some (sn_observed_at_utc snap), sr_price_attempt := ?i\<rparr>"
    have "0 \<le> ?i" "?i < int (length (sp_price_buffers plan))" using ok by (auto simp: runtime_ok_def)
    then obtain d lp where "exit_order CANCEL_REPLACE_EXIT plan ?r snap ?i ''synthetic_stop_reprice'' = Inr d"
      "sd_limit_price d = Some lp" "sd_runtime d = ?r" "sd_action d = CANCEL_REPLACE_EXIT"
      using eo [of ?i CANCEL_REPLACE_EXIT ?r "''synthetic_stop_reprice''"] by auto
    with Some trig live due [OF Some] show ?thesis by (auto simp: evaluate_def evaluate_triggered_def Let_def)
  qed
qed

section \<open>The limit price\<close>

lemma one_minus_buffer:
  assumes e: "- 27 \<le> dec_exp b" "dec_exp b \<le> 0" and b: "0 < dec_val b" "dec_val b \<le> 5 / 100"
  shows "dec_val (dec_sub (dec_of_int 1) b) = 1 - dec_val b" and "\<not> dec_neg (dec_sub (dec_of_int 1) b)"
    and "dec_coeff (dec_sub (dec_of_int 1) b) \<le> 10 ^ nat (- dec_exp b)"
proof -
  let ?k = "nat (- dec_exp b)" and ?n = "(10::int) ^ nat (- dec_exp b) - int (dec_coeff b)"
  have neg: "\<not> dec_neg b" using b(1) by (rule dec_val_positive_sign)
  have scale: "pow10 (dec_exp b) * 10 ^ ?k = 1" using e(2) by (simp add: pow10_def)
  have "of_nat (dec_coeff b) = dec_val b * 10 ^ ?k"
    using neg scale by (simp add: dec_val_def mult.assoc)
  also have "\<dots> \<le> 1 * 10 ^ ?k" using b(2) by (intro mult_right_mono) simp_all
  finally have "(of_nat (dec_coeff b) :: rat) \<le> of_nat (10 ^ ?k)" by simp
  then have c: "dec_coeff b \<le> 10 ^ ?k" by (simp only: of_nat_le_iff)
  then have n: "0 \<le> ?n" "nat ?n \<le> 10 ^ ?k" by (simp_all add: nat_diff_distrib' nat_power_eq)
  have "(10::nat) ^ ?k \<le> 10 ^ 27" using e(1) by (intro power_increasing) simp_all
  also have "(10::nat) ^ 27 < 10 ^ context_prec" by (simp add: context_prec_def)
  finally have fits: "nat ?n < 10 ^ context_prec" by (rule le_less_trans [OF n(2)])
  have digits: "num_digits (nat ?n) \<le> context_prec"
    using fits by (rule num_digits_le) (simp add: context_prec_def)
  let ?m = "Dec (\<not> dec_neg b) (dec_coeff b) (dec_exp b)"
  have m: "min (dec_exp (dec_of_int 1)) (dec_exp ?m) = dec_exp b" using e(2) by (simp add: dec_of_int_def)
  have sc: "signed_coeff (dec_of_int 1) (dec_exp b) + signed_coeff ?m (dec_exp b) = ?n"
    using neg by (simp add: signed_coeff_def dec_of_int_def)
  have "dec_val (dec_add (dec_of_int 1) ?m) = dec_val (dec_of_int 1) + dec_val ?m"
    by (rule dec_add_exact) (use fits n(1) in \<open>simp only: m sc abs_of_nonneg\<close>)
  moreover have "dec_val ?m = - dec_val b" using neg by (simp add: dec_val_def)
  ultimately show "dec_val (dec_sub (dec_of_int 1) b) = 1 - dec_val b"
    by (simp add: dec_sub_def)
  have "dec_sub (dec_of_int 1) b = Dec False (nat ?n) (dec_exp b)"
    using n(1) digits neg unfolding dec_sub_def dec_add_def Let_def m sc
    by (simp add: dec_fix_id dec_of_int_def)
  then show "\<not> dec_neg (dec_sub (dec_of_int 1) b)"
    "dec_coeff (dec_sub (dec_of_int 1) b) \<le> 10 ^ nat (- dec_exp b)"
    using n(2) by simp_all
qed

lemma sell_limit_bounds:
  assumes lp: "marketable_sell_limit bid b = Inr lp" and bid: "0 < dec_val bid"
    and e: "- 27 \<le> dec_exp b" "dec_exp b \<le> 0" and b: "0 < dec_val b" "dec_val b \<le> 5 / 100"
    and fits: "dec_coeff bid * 10 ^ nat (- dec_exp b) < 10 ^ 28"
  shows "dec_val lp \<le> dec_val bid * (1 - dec_val b) \<and>
         dec_val bid * (1 - dec_val b) < dec_val lp + 1 / 100"
proof -
  let ?f = "dec_sub (dec_of_int 1) b"
  note f = one_minus_buffer [OF e b]
  have "dec_coeff bid * dec_coeff ?f \<le> dec_coeff bid * 10 ^ nat (- dec_exp b)"
    using f(3) by (intro mult_left_mono) simp_all
  also note fits
  finally have small: "dec_coeff bid * dec_coeff ?f < 10 ^ context_prec"
    by (simp only: context_prec_def)
  have val: "dec_val (dec_mul bid ?f) = dec_val bid * (1 - dec_val b)"
    using dec_mul_exact [OF small] f(1) by simp
  then have "0 < dec_val (dec_mul bid ?f)" using bid b(2) by simp
  then have "\<not> dec_neg (dec_mul bid ?f)" by (rule dec_val_positive_sign)
  with lp val show ?thesis
    using quantize_down_le [of "- 2" "dec_mul bid ?f" lp]
    by (simp add: marketable_sell_limit_def pow10_def)
qed

lemma evaluate_limit_price:
  assumes "evaluate plan rt snap = Inr d" and "sd_limit_price d = Some lp"
  shows "\<exists>b \<in> set (sp_price_buffers plan). marketable_sell_limit (sn_bid snap) b = Inr lp"
  using assms
  by (auto simp: evaluate_def evaluate_untriggered_def evaluate_triggered_def evaluate_below_stop_def
      Let_def decision_iff split: if_splits option.splits)

text \<open>Every exit order of the stop is priced off the current bid: the limit lies at most one cent
  below the bid reduced by a configured buffer and never above it, so no command gives away more
  than five percent and one cent of the bid.\<close>

theorem exit_limit_near_bid:
  assumes plan: "validate_stop_plan plan = Inr plan" and snap: "validate_snapshot snap = Inr snap"
    and e: "evaluate plan rt snap = Inr d" and lp: "sd_limit_price d = Some lp"
    and exact: "\<forall>b \<in> set (sp_price_buffers plan). - 27 \<le> dec_exp b \<and> dec_exp b \<le> 0 \<and>
        dec_coeff (sn_bid snap) * 10 ^ nat (- dec_exp b) < 10 ^ 28"
  shows "\<exists>b \<in> set (sp_price_buffers plan).
     dec_val lp \<le> dec_val (sn_bid snap) * (1 - dec_val b) \<and>
     dec_val (sn_bid snap) * (1 - dec_val b) < dec_val lp + 1 / 100 \<and>
     dec_val (sn_bid snap) * (95 / 100) - 1 / 100 < dec_val lp \<and> dec_lt lp (sn_bid snap)"
proof -
  obtain b where b: "b \<in> set (sp_price_buffers plan)" "marketable_sell_limit (sn_bid snap) b = Inr lp"
    using evaluate_limit_price [OF e lp] by blast
  have bid: "0 < dec_val (sn_bid snap)"
    using snap by (auto simp: validate_snapshot_def not_le split: if_splits)
  have pb: "0 < dec_val b" "dec_val b \<le> 5 / 100"
    using plan b(1) by (auto simp: validate_stop_plan_def list_ex_iff not_le not_less split: if_splits)
  have ex: "- 27 \<le> dec_exp b" "dec_exp b \<le> 0" "dec_coeff (sn_bid snap) * 10 ^ nat (- dec_exp b) < 10 ^ 28"
    using exact b(1) by blast+
  note r = sell_limit_bounds [OF b(2) bid ex(1,2) pb ex(3)]
  have "dec_val (sn_bid snap) * (95 / 100) \<le> dec_val (sn_bid snap) * (1 - dec_val b)"
    using bid pb(2) by (intro mult_left_mono) simp_all
  moreover have "dec_val (sn_bid snap) * (1 - dec_val b) < dec_val (sn_bid snap) * 1"
    using bid pb(1) by (intro mult_strict_left_mono) simp_all
  ultimately show ?thesis using r b(1) by (intro bexI [of _ b]) (auto simp: dec_lt_def)
qed

section \<open>Concrete runs\<close>

definition sample_stop :: SyntheticStopPlan where
  "sample_stop = \<lparr>sp_plan_id = ''s1'', sp_symbol = ''AAPL'', sp_qty = 10, sp_stop_price = Dec False 98 0,
     sp_confirmation_seconds = 2, sp_reprice_seconds = 2, sp_price_buffers = default_buffers\<rparr>"

definition sample_snap :: "int \<Rightarrow> dec \<Rightarrow> SyntheticStopSnapshot" where
  "sample_snap us bid = \<lparr>sn_observed_at_utc = utc us, sn_quote_asof_utc = utc us, sn_bid = bid,
     sn_ask = Dec False 200 0, sn_last_trade = None, sn_last_trade_asof_utc = None,
     sn_quote_provenance = ''q'', sn_trade_provenance = None, sn_data_healthy = True,
     sn_broker_healthy = True, sn_verified_material_negative = False, sn_halt_risk = False, sn_filled = False\<rparr>"

lemma sample_stop_ok: "runtime_ok sample_stop initial_runtime"
  by (simp add: runtime_ok_def initial_runtime_def sample_stop_def default_buffers_def)

lemma synthetic_stop_run_witness:
  "runtime_ok sample_stop (fold (tick_runtime sample_stop)
     [sample_snap 0 (Dec False 97 0), sample_snap 2000000 (Dec False 97 0)] initial_runtime)"
  using synthetic_stop_run [OF sample_stop_ok] by blast

lemma trigger_is_justified_witness:
  "stop_justified sample_stop [sample_snap 0 (Dec False 97 0)] (sample_snap 2000000 (Dec False 97 0))"
proof -
  let ?s = "sample_snap 0 (Dec False 97 0)" and ?u = "sample_snap 2000000 (Dec False 97 0)"
  have a: "(case evaluate sample_stop initial_runtime ?s of Inl _ \<Rightarrow> False | Inr d \<Rightarrow>
      sr_triggered_at_utc (sd_runtime d) = None \<and>
      (case evaluate sample_stop (sd_runtime d) ?u of Inl _ \<Rightarrow> False
       | Inr d' \<Rightarrow> sr_triggered_at_utc (sd_runtime d') \<noteq> None))" by code_simp
  then obtain d d' where d: "evaluate sample_stop initial_runtime ?s = Inr d"
    "sr_triggered_at_utc (sd_runtime d) = None"
    "evaluate sample_stop (sd_runtime d) ?u = Inr d'" "sr_triggered_at_utc (sd_runtime d') \<noteq> None"
    by (auto split: sum.splits)
  have "stop_run sample_stop ([] @ [?s]) (sd_runtime d)"
    by (rule stop_run.tick [OF stop_run.start d(1)])
  then show ?thesis using trigger_is_justified [OF _ d(3,2,4)] by simp
qed

definition sample_triggered :: SyntheticStopRuntime where
  "sample_triggered = \<lparr>sr_below_since_utc = Some (utc 0), sr_triggered_at_utc = Some (utc 2000000),
     sr_last_command_at_utc = Some (utc 2000000), sr_price_attempt = 0, sr_completed_at_utc = None\<rparr>"

lemma triggered_stop_acts_witness:
  "\<exists>d. evaluate sample_stop sample_triggered (sample_snap 5000000 (Dec False 97 0)) = Inr d \<and>
     sd_action d = CANCEL_REPLACE_EXIT"
proof -
  let ?u = "sample_snap 5000000 (Dec False 97 0)"
  have ok: "runtime_ok sample_stop sample_triggered"
    by (simp add: runtime_ok_def sample_triggered_def sample_stop_def default_buffers_def)
  have tr: "sr_triggered_at_utc sample_triggered \<noteq> None" "sr_completed_at_utc sample_triggered = None"
    "sr_last_command_at_utc sample_triggered = Some (utc 2000000)"
    by (simp_all add: sample_triggered_def)
  have u: "\<not> sn_filled ?u" "sn_broker_healthy ?u" by (simp_all add: sample_snap_def)
  have "sp_reprice_seconds sample_stop \<le> seconds_between (sn_observed_at_utc ?u) (utc 2000000)"
    by code_simp
  then have due: "sp_reprice_seconds sample_stop \<le> seconds_between (sn_observed_at_utc ?u) t"
    if "sr_last_command_at_utc sample_triggered = Some t" for t
    using that tr(3) by simp
  let ?f = "marketable_sell_limit (Dec False 97 0)"
  have "\<not> isl (?f (Dec False 25 (- 4))) \<and> \<not> isl (?f (Dec False 50 (- 4))) \<and> \<not> isl (?f (Dec False 100 (- 4)))"
    by code_simp
  moreover have "set (sp_price_buffers sample_stop) = {Dec False 25 (- 4), Dec False 50 (- 4), Dec False 100 (- 4)}"
    by (simp add: sample_stop_def default_buffers_def)
  moreover have "sn_bid ?u = Dec False 97 0" by (simp add: sample_snap_def)
  ultimately have "\<not> isl (marketable_sell_limit (sn_bid ?u) b)" if "b \<in> set (sp_price_buffers sample_stop)" for b
    using that by (metis empty_iff insert_iff)
  then have priced: "\<exists>lp. marketable_sell_limit (sn_bid ?u) b = Inr lp"
    if "b \<in> set (sp_price_buffers sample_stop)" for b
    using that by (metis isl_def sumE)
  have "\<exists>d lp. evaluate sample_stop sample_triggered ?u = Inr d \<and> sd_limit_price d = Some lp \<and>
     sr_last_command_at_utc (sd_runtime d) = Some (sn_observed_at_utc ?u) \<and>
     (if sr_last_command_at_utc sample_triggered = None
      then sd_action d = SUBMIT_EXIT_LIMIT \<and> sr_price_attempt (sd_runtime d) = sr_price_attempt sample_triggered
      else sd_action d = CANCEL_REPLACE_EXIT \<and> sr_price_attempt (sd_runtime d) =
             min (sr_price_attempt sample_triggered + 1) (int (length (sp_price_buffers sample_stop)) - 1))"
    by (rule triggered_stop_acts [OF ok tr(1) u(1) tr(2) u(2)]) (fact due, fact priced)
  then show ?thesis
    by (simp only: tr(3) option.simps if_False) (elim exE conjE, rule exI, rule conjI, assumption+)
qed

lemma exit_limit_near_bid_witness:
  "\<exists>d lp. evaluate sample_stop sample_triggered (sample_snap 5000000 (Dec False 97 0)) = Inr d \<and>
     sd_limit_price d = Some lp \<and> dec_lt lp (Dec False 97 0)"
proof -
  let ?u = "sample_snap 5000000 (Dec False 97 0)"
  have p: "validate_stop_plan sample_stop = Inr sample_stop" "validate_snapshot ?u = Inr ?u"
    by code_simp+
  have "(case evaluate sample_stop sample_triggered ?u of Inl _ \<Rightarrow> False | Inr d \<Rightarrow> sd_limit_price d \<noteq> None)"
    by code_simp
  then obtain d lp where d: "evaluate sample_stop sample_triggered ?u = Inr d" "sd_limit_price d = Some lp"
    by (auto split: sum.splits)
  have x: "\<forall>b \<in> set (sp_price_buffers sample_stop). - 27 \<le> dec_exp b \<and> dec_exp b \<le> 0 \<and>
      dec_coeff (sn_bid ?u) * 10 ^ nat (- dec_exp b) < 10 ^ 28"
    by (simp add: sample_stop_def default_buffers_def sample_snap_def)
  have "sn_bid ?u = Dec False 97 0" by (simp add: sample_snap_def)
  with exit_limit_near_bid [OF p d x] d show ?thesis by auto
qed

end
