(* ===== verification/Positions.thy ===== *)
theory Positions
  imports AlpacaPaper
begin

text \<open>
  The reading of a broker position that the exit components share: the synthetic stop, the time
  exit and the account guardian all accept a positive whole number of shares of a long position
  and nothing else.  Each has its own exceptions, which are arguments here.
\<close>

section \<open>Whole-share quantities\<close>

definition whole_share_quantity :: "py_error \<Rightarrow> py_error \<Rightarrow> string \<Rightarrow> py_error + int" where
  \<comment> \<open>\<open>invalid\<close> replaces the InvalidOperation of \<open>Decimal(text)\<close>; the comparisons of a NaN are
     outside the \<open>try\<close> and raise their own\<close>
  "whole_share_quantity invalid fractional text =
     (case parse_decimal text of None \<Rightarrow> Inl invalid | Some v \<Rightarrow>
      case decimal_le_zero v of Inl e \<Rightarrow> Inl e | Inr nonpositive \<Rightarrow>
        if nonpositive then Inl fractional
        else case decimal_not_integral v of Inl e \<Rightarrow> Inl e | Inr fraction \<Rightarrow>
          if fraction then Inl fractional else decimal_to_int v)"

definition is_long :: "PaperPosition \<Rightarrow> bool" where
  "is_long position \<longleftrightarrow> py_lower (py_strip (pp_side position)) = ''long''"

lemma dec_to_int_val:
  assumes "dec_is_integral d"
  shows "of_int (dec_to_int d) = dec_val d"
proof (cases "0 \<le> dec_exp d")
  case True
  then show ?thesis by (simp add: dec_to_int_def dec_val_def pow10_def)
next
  case False
  let ?p = "10 ^ nat (- dec_exp d) :: nat"
  have "dec_coeff d mod ?p = 0" using assms False by (simp add: dec_is_integral_def)
  then have "dec_coeff d = dec_coeff d div ?p * ?p" by (simp add: mod_eq_0_iff_dvd)
  then have "(of_nat (dec_coeff d) :: rat) = of_nat (dec_coeff d div ?p) * 10 ^ nat (- dec_exp d)"
    by (metis of_nat_mult of_nat_numeral of_nat_power)
  with False show ?thesis by (simp add: dec_to_int_def dec_val_def pow10_def)
qed

lemma whole_share_quantity_Inr:
  assumes "whole_share_quantity invalid fractional text = Inr n"
  shows "0 < n \<and> (\<exists>d. parse_decimal text = Some (Finite d) \<and> dec_val d = of_int n)"
proof -
  obtain v where v: "parse_decimal text = Some v" "decimal_le_zero v = Inr False"
    "decimal_not_integral v = Inr False" "decimal_to_int v = Inr n"
    using assms by (auto simp: whole_share_quantity_def split: option.splits sum.splits if_splits)
  then obtain d where d: "v = Finite d" by (cases v) auto
  have "of_int n = dec_val d" using v d dec_to_int_val [of d] by auto
  moreover have "0 < dec_val d" using v(2) d by simp
  ultimately have "(0::rat) < of_int n" by simp
  then have "0 < n" by (simp only: of_int_0_less_iff)
  with v(1) d \<open>of_int n = dec_val d\<close> show ?thesis by auto
qed

end
