(* ===== verification/SyntheticStopController.thy ===== *)
theory SyntheticStopController
  imports SyntheticStop Positions
begin

text \<open>
  \<open>execution/synthetic_stop_controller.py\<close>: the durable executor of the synthetic stop.  Its state is
  a broker and the table \<open>synthetic_stop_actions\<close>, whose row of a plan is the outbox: a command is
  written there before the broker hears of it, and a command without a broker order is sent again by
  the next authorized tick.  The JSON columns hold the values they encode; reading a row runs the
  constructors' checks again.  The first 16 hexadecimal digits of SHA-256 are the parameter \<open>sha16\<close>.
\<close>

section \<open>The execution ledger\<close>

record stop_row =
  sa_plan_id :: string
  sa_symbol :: string
  sa_qty :: int
  sa_stop_price :: dec
  sa_plan :: SyntheticStopPlan
  sa_runtime :: SyntheticStopRuntime
  sa_active_client_order_id :: "string option"
  sa_active_broker_order_id :: "string option"
  sa_active_limit_price :: "dec option"
  sa_active_qty :: "int option"
  sa_updated_at_utc :: datetime

type_synonym stop_ledger = "stop_row list"

abbreviation find_stop :: "string \<Rightarrow> stop_ledger \<Rightarrow> stop_row option" where
  "find_stop \<equiv> tbl_find sa_plan_id"

record SyntheticStopExecutionRecord =
  se_plan :: SyntheticStopPlan
  se_runtime :: SyntheticStopRuntime
  se_active_client_order_id :: "string option"
  se_active_broker_order_id :: "string option"
  se_active_limit_price :: "dec option"
  se_active_qty :: "int option"
  se_updated_at_utc :: datetime

definition require_stop_utc :: "datetime \<Rightarrow> (stop_ledger, unit) op" where
  "require_stop_utc value =
     guardS (is_utc value) (ValueError ''synthetic-stop execution timestamp must be UTC'')"

definition stop_record_from_row :: "stop_row option \<Rightarrow> py_error + SyntheticStopExecutionRecord" where
  "stop_record_from_row row = (case row of
       None \<Rightarrow> Inl (RuntimeError ''synthetic-stop execution record disappeared'')
     | Some r \<Rightarrow> (case validate_stop_plan (sa_plan r) of Inl e \<Rightarrow> Inl e | Inr p \<Rightarrow>
         (case validate_runtime (sa_runtime r) of Inl e \<Rightarrow> Inl e | Inr rt \<Rightarrow>
            Inr \<lparr>se_plan = p, se_runtime = rt,
              se_active_client_order_id = sa_active_client_order_id r,
              se_active_broker_order_id = sa_active_broker_order_id r,
              se_active_limit_price = sa_active_limit_price r, se_active_qty = sa_active_qty r,
              se_updated_at_utc = sa_updated_at_utc r\<rparr>)))"

text \<open>Python's \<open>==\<close> on two plans: the decimals by value.\<close>

definition same_stop_plan :: "SyntheticStopPlan \<Rightarrow> SyntheticStopPlan \<Rightarrow> bool" where
  "same_stop_plan p q \<longleftrightarrow> sp_plan_id p = sp_plan_id q \<and> sp_symbol p = sp_symbol q \<and> sp_qty p = sp_qty q \<and>
     dec_eq (sp_stop_price p) (sp_stop_price q) \<and>
     sp_confirmation_seconds p = sp_confirmation_seconds q \<and> sp_reprice_seconds p = sp_reprice_seconds q \<and>
     list_all2 dec_eq (sp_price_buffers p) (sp_price_buffers q)"

definition new_stop_row :: "SyntheticStopPlan \<Rightarrow> datetime \<Rightarrow> stop_row" where
  "new_stop_row plan at_utc =
     \<lparr>sa_plan_id = sp_plan_id plan, sa_symbol = sp_symbol plan, sa_qty = sp_qty plan,
      sa_stop_price = sp_stop_price plan, sa_plan = plan, sa_runtime = initial_runtime,
      sa_active_client_order_id = None, sa_active_broker_order_id = None,
      sa_active_limit_price = None, sa_active_qty = None, sa_updated_at_utc = at_utc\<rparr>"

definition ensure_stop ::
    "SyntheticStopPlan \<Rightarrow> datetime \<Rightarrow> (stop_ledger, SyntheticStopExecutionRecord) op" where
  "ensure_stop plan at_utc = thenS (require_stop_utc at_utc)
     (bindS (transactionS (bindS (readS (find_stop (sp_plan_id plan))) (\<lambda>row. case row of
         None \<Rightarrow> thenS (writeS (tbl_insert (new_stop_row plan at_utc))) (readS (find_stop (sp_plan_id plan)))
       | Some r \<Rightarrow> returnS (Some r)))) (\<lambda>row.
      bindS (liftS (stop_record_from_row row)) (\<lambda>record.
        if \<not> same_stop_plan (se_plan record) plan
        then raiseS (RuntimeError ''synthetic-stop plan identity conflict'')
        else returnS record)))"

definition save_stop ::
    "string \<Rightarrow> SyntheticStopRuntime \<Rightarrow> datetime \<Rightarrow> string option \<Rightarrow> string option \<Rightarrow> dec option \<Rightarrow> int option
       \<Rightarrow> (stop_ledger, SyntheticStopExecutionRecord) op" where
  "save_stop plan_id runtime at_utc client broker limit qty = thenS (require_stop_utc at_utc)
     (bindS (transactionS (bindS (readS (find_stop plan_id)) (\<lambda>row. case row of
         None \<Rightarrow> raiseS (KeyError (''unknown synthetic-stop plan: '' @ plan_id))
       | Some _ \<Rightarrow> thenS
           (writeS (tbl_update sa_plan_id plan_id (\<lambda>r. r\<lparr>sa_runtime := runtime,
              sa_active_client_order_id := client, sa_active_broker_order_id := broker,
              sa_active_limit_price := limit, sa_active_qty := qty, sa_updated_at_utc := at_utc\<rparr>)))
           (readS (find_stop plan_id))))) (\<lambda>row. liftS (stop_record_from_row row)))"

section \<open>The controller\<close>

record SyntheticStopExecutionResult =
  sx_action :: StopAction
  sx_runtime :: SyntheticStopRuntime
  sx_limit_price :: "dec option"
  sx_reasons :: "string list"
  sx_blockers :: "string list"
  sx_dry_run :: bool
  sx_broker_order_id :: "string option"

text \<open>\<open>f"{limit_price:.2f}"\<close>\<close>

definition dec_format_2f :: "dec \<Rightarrow> string" where
  "dec_format_2f d = dec_format_f (Dec (dec_neg d)
     (if - 2 \<le> dec_exp d then dec_coeff d * 10 ^ nat (dec_exp d + 2)
      else round_coeff RoundHalfEven (dec_neg d) (dec_coeff d) (nat (- 2 - dec_exp d))) (- 2))"

definition stop_request ::
    "SyntheticStopPlan \<Rightarrow> string \<Rightarrow> int \<Rightarrow> dec \<Rightarrow> py_error + PaperExtendedLimitRequest" where
  "stop_request plan client_id qty limit_price = validate_extended_limit
     \<lparr>pel_client_order_id = client_id, pel_symbol = sp_symbol plan, pel_qty = qty, pel_side = ''sell'',
      pel_limit_price = dec_format_2f limit_price\<rparr>"

definition stop_client_order_id :: "(string \<Rightarrow> string) \<Rightarrow> SyntheticStopPlan \<Rightarrow> int \<Rightarrow> string" where
  "stop_client_order_id sha16 plan attempt =
     ''tsv2-'' @ sp_symbol plan @ ''-sstop-'' @ sha16 (sp_plan_id plan) @ ''-'' @ show_int attempt"

definition stop_position_quantity :: "string \<Rightarrow> PaperPosition list \<Rightarrow> py_error + int" where
  "stop_position_quantity symb positions =
     (let matching = filter (\<lambda>p. pp_symbol p = symb) positions in
      if matching = [] then Inr 0
      else if length matching \<noteq> 1 \<or> \<not> is_long (hd matching)
      then Inl (RuntimeError ''synthetic stop requires one reconciled long position'')
      else whole_share_quantity (RuntimeError ''synthetic stop position quantity is invalid'')
             (RuntimeError ''synthetic stop requires positive whole-share quantity'')
             (pp_qty (hd matching)))"

type_synonym 'b stop_desk = "'b \<times> stop_ledger"

definition recover_pending_outbox ::
    "'b broker_port \<Rightarrow> SyntheticStopExecutionRecord \<Rightarrow> SyntheticStopSnapshot
       \<Rightarrow> ('b stop_desk, SyntheticStopExecutionRecord) op" where
  "recover_pending_outbox port record snap = (case se_active_client_order_id record of
       None \<Rightarrow> returnS record
     | Some client_id \<Rightarrow>
         bindS (on_fst (bp_get_order_by_client_id port client_id)) (\<lambda>found.
         bindS (case found of
             Some order \<Rightarrow> returnS (Some order)
           | None \<Rightarrow>
               if se_active_broker_order_id record \<noteq> None then returnS None
               else (case (se_active_limit_price record, se_active_qty record) of
                   (Some limit_price, Some qty) \<Rightarrow>
                     bindS (liftS (stop_request (se_plan record) client_id qty limit_price)) (\<lambda>request.
                     bindS (on_fst (bp_submit_extended_limit port request)) (\<lambda>order. returnS (Some order)))
                 | _ \<Rightarrow> raiseS (RuntimeError ''synthetic-stop outbox command is incomplete'')))
         (\<lambda>found'. case found' of
             None \<Rightarrow> returnS record
           | Some order \<Rightarrow>
               if Some (bo_id order) = se_active_broker_order_id record then returnS record
               else on_snd (save_stop (sp_plan_id (se_plan record)) (se_runtime record)
                      (sn_observed_at_utc snap) (Some client_id) (Some (bo_id order))
                      (se_active_limit_price record) (se_active_qty record)))))"

definition submit_stop ::
    "'b broker_port \<Rightarrow> (string \<Rightarrow> string) \<Rightarrow> SyntheticStopExecutionRecord \<Rightarrow> SyntheticStopDecision \<Rightarrow> int
       \<Rightarrow> SyntheticStopSnapshot \<Rightarrow> ('b stop_desk, SyntheticStopExecutionRecord) op" where
  "submit_stop port sha16 record decision qty snap = (case sd_limit_price decision of
       None \<Rightarrow> raiseS (RuntimeError ''synthetic stop refuses a zero-quantity sell'')
     | Some limit_price \<Rightarrow>
         if qty \<le> 0 then raiseS (RuntimeError ''synthetic stop refuses a zero-quantity sell'')
         else let client_id = stop_client_order_id sha16 (se_plan record) (sr_price_attempt (sd_runtime decision));
                  pid = sp_plan_id (se_plan record); now = sn_observed_at_utc snap in
           bindS (on_snd (save_stop pid (sd_runtime decision) now (Some client_id) None (Some limit_price)
                    (Some qty))) (\<lambda>pending.
           bindS (on_fst (bp_get_order_by_client_id port client_id)) (\<lambda>found.
           bindS (case found of
               Some order \<Rightarrow> returnS order
             | None \<Rightarrow> bindS (liftS (stop_request (se_plan record) client_id qty limit_price))
                 (\<lambda>request. on_fst (bp_submit_extended_limit port request))) (\<lambda>order.
           on_snd (save_stop pid (sd_runtime decision) now (Some client_id) (Some (bo_id order))
             (se_active_limit_price pending) (se_active_qty pending))))))"

definition stop_result :: "SyntheticStopDecision \<Rightarrow> bool \<Rightarrow> string option \<Rightarrow> SyntheticStopExecutionResult" where
  "stop_result d dry_run broker_order_id =
     \<lparr>sx_action = sd_action d, sx_runtime = sd_runtime d, sx_limit_price = sd_limit_price d,
      sx_reasons = sd_reasons d, sx_blockers = sd_blockers d, sx_dry_run = dry_run,
      sx_broker_order_id = broker_order_id\<rparr>"

definition unauthorized_result ::
    "SyntheticStopExecutionRecord \<Rightarrow> SyntheticStopDecision \<Rightarrow> SyntheticStopExecutionResult" where
  "unauthorized_result record d =
     \<lparr>sx_action = ALERT, sx_runtime = se_runtime record, sx_limit_price = sd_limit_price d,
      sx_reasons = sd_reasons d, sx_blockers = sd_blockers d @ [''paper_writes_not_authorized''],
      sx_dry_run = True, sx_broker_order_id = se_active_broker_order_id record\<rparr>"

definition perform_stop ::
    "'b broker_port \<Rightarrow> (string \<Rightarrow> string) \<Rightarrow> SyntheticStopPlan \<Rightarrow> SyntheticStopExecutionRecord
       \<Rightarrow> SyntheticStopDecision \<Rightarrow> int \<Rightarrow> SyntheticStopSnapshot
       \<Rightarrow> ('b stop_desk, SyntheticStopExecutionRecord) op" where
  \<comment> \<open>the three branches on \<open>decision.action\<close>\<close>
  "perform_stop port sha16 plan record d qty snap =
     (if sd_action d = SUBMIT_EXIT_LIMIT then
        thenS (guardS (sd_limit_price d \<noteq> None) (RuntimeError ''synthetic stop submit lacks limit price''))
          (submit_stop port sha16 record d qty snap)
      else if sd_action d = CANCEL_REPLACE_EXIT then
        thenS (guardS (sd_limit_price d \<noteq> None) (RuntimeError ''synthetic stop reprice lacks limit price''))
          (thenS (case se_active_broker_order_id record of
                    None \<Rightarrow> returnS True
                  | Some bid \<Rightarrow> on_fst (bp_cancel_order port bid))
            (submit_stop port sha16 record d qty snap))
      else on_snd (save_stop (sp_plan_id plan) (sd_runtime d) (sn_observed_at_utc snap)
             (se_active_client_order_id record) (se_active_broker_order_id record)
             (se_active_limit_price record) (se_active_qty record)))"

definition decide_stop ::
    "'b broker_port \<Rightarrow> (string \<Rightarrow> string) \<Rightarrow> bool \<Rightarrow> SyntheticStopPlan \<Rightarrow> SyntheticStopSnapshot
       \<Rightarrow> SyntheticStopExecutionRecord \<Rightarrow> ('b stop_desk, SyntheticStopExecutionResult) op" where
  \<comment> \<open>from \<open>position_qty = ...\<close> on; \<open>replace(snapshot, filled=True)\<close> repeats checks that do not
     look at \<open>filled\<close>\<close>
  "decide_stop port sha16 authorized plan snap record =
     bindS (on_fst (bp_list_positions port)) (\<lambda>positions.
     bindS (liftS (stop_position_quantity (sp_symbol plan) positions)) (\<lambda>qty.
     bindS (liftS (evaluate plan (se_runtime record)
                    (if qty = 0 then snap\<lparr>sn_filled := True\<rparr> else snap))) (\<lambda>d.
       if sd_action d \<in> {SUBMIT_EXIT_LIMIT, CANCEL_REPLACE_EXIT} \<and> \<not> authorized
       then returnS (unauthorized_result record d)
       else bindS (perform_stop port sha16 plan record d qty snap)
              (\<lambda>record'. returnS (stop_result d False (se_active_broker_order_id record'))))))"

definition tick_stop ::
    "'b broker_port \<Rightarrow> (string \<Rightarrow> string) \<Rightarrow> bool \<Rightarrow> SyntheticStopPlan \<Rightarrow> SyntheticStopSnapshot
       \<Rightarrow> ('b stop_desk, SyntheticStopExecutionResult) op" where
  "tick_stop port sha16 paper_authorized plan snap =
     bindS (on_snd (ensure_stop plan (sn_observed_at_utc snap))) (\<lambda>record0.
     bindS (readS (\<lambda>p. paper_authorized \<and> bp_writes_enabled port (fst p))) (\<lambda>authorized.
     bindS (if authorized then recover_pending_outbox port record0 snap else returnS record0) (\<lambda>record.
       decide_stop port sha16 authorized plan snap record)))"

section \<open>The ledger invariant\<close>

definition command_ok :: "stop_row \<Rightarrow> bool" where
  "command_ok r \<longleftrightarrow>
     (sa_active_client_order_id r = None \<longleftrightarrow> sa_active_limit_price r = None) \<and>
     (sa_active_client_order_id r = None \<longleftrightarrow> sa_active_qty r = None) \<and>
     (sa_active_client_order_id r = None \<longrightarrow> sa_active_broker_order_id r = None) \<and>
     (\<forall>q. sa_active_qty r = Some q \<longrightarrow> 0 < q)"

definition stop_row_ok :: "stop_row \<Rightarrow> bool" where
  "stop_row_ok r \<longleftrightarrow>
     validate_stop_plan (sa_plan r) = Inr (sa_plan r) \<and> sa_plan_id r = sp_plan_id (sa_plan r) \<and>
     validate_runtime (sa_runtime r) = Inr (sa_runtime r) \<and> runtime_ok (sa_plan r) (sa_runtime r) \<and>
     command_ok r"

definition stop_ledger_ok :: "stop_ledger \<Rightarrow> bool" where
  "stop_ledger_ok l \<longleftrightarrow> keys_unique sa_plan_id l \<and> (\<forall>r \<in> set l. stop_row_ok r)"

definition stop_ledger_below :: "stop_ledger \<Rightarrow> stop_ledger \<Rightarrow> bool" where
  "stop_ledger_below l l' \<longleftrightarrow> (\<forall>pid r. find_stop pid l = Some r \<longrightarrow>
     (\<exists>r'. find_stop pid l' = Some r' \<and> sa_plan r' = sa_plan r \<and>
           stop_progress (sa_runtime r) (sa_runtime r')))"

definition stop_record_of :: "stop_row \<Rightarrow> SyntheticStopExecutionRecord" where
  "stop_record_of r = \<lparr>se_plan = sa_plan r, se_runtime = sa_runtime r,
     se_active_client_order_id = sa_active_client_order_id r,
     se_active_broker_order_id = sa_active_broker_order_id r,
     se_active_limit_price = sa_active_limit_price r, se_active_qty = sa_active_qty r,
     se_updated_at_utc = sa_updated_at_utc r\<rparr>"

lemma stop_record_of_simps [simp]:
  "se_plan (stop_record_of r) = sa_plan r" "se_runtime (stop_record_of r) = sa_runtime r"
  "se_active_client_order_id (stop_record_of r) = sa_active_client_order_id r"
  "se_active_broker_order_id (stop_record_of r) = sa_active_broker_order_id r"
  "se_active_limit_price (stop_record_of r) = sa_active_limit_price r"
  "se_active_qty (stop_record_of r) = sa_active_qty r"
  by (simp_all add: stop_record_of_def)

lemma stop_record_from_row_ok: "stop_row_ok r \<Longrightarrow> stop_record_from_row (Some r) = Inr (stop_record_of r)"
  by (simp add: stop_record_from_row_def stop_row_ok_def stop_record_of_def)

lemma stop_ledger_row:
  "stop_ledger_ok l \<Longrightarrow> find_stop pid l = Some r \<Longrightarrow> stop_row_ok r \<and> sp_plan_id (sa_plan r) = pid"
  using tbl_find_SomeD [of sa_plan_id pid l r] unfolding stop_ledger_ok_def stop_row_ok_def by metis

lemma stop_progress_trans: "stop_progress r s \<Longrightarrow> stop_progress s t \<Longrightarrow> stop_progress r t"
  by (auto simp: stop_progress_def)

lemma stop_ledger_below_refl: "stop_ledger_below l l"
  by (simp add: stop_ledger_below_def stop_progress_refl)

lemma stop_ledger_below_trans:
  "stop_ledger_below l m \<Longrightarrow> stop_ledger_below m n \<Longrightarrow> stop_ledger_below l n"
  unfolding stop_ledger_below_def
proof (intro allI impI)
  fix pid r
  assume lm: "\<forall>pid r. find_stop pid l = Some r \<longrightarrow> (\<exists>r'. find_stop pid m = Some r' \<and>
      sa_plan r' = sa_plan r \<and> stop_progress (sa_runtime r) (sa_runtime r'))"
    and mn: "\<forall>pid r. find_stop pid m = Some r \<longrightarrow> (\<exists>r'. find_stop pid n = Some r' \<and>
      sa_plan r' = sa_plan r \<and> stop_progress (sa_runtime r) (sa_runtime r'))"
    and r: "find_stop pid l = Some r"
  obtain s where s: "find_stop pid m = Some s" "sa_plan s = sa_plan r" "stop_progress (sa_runtime r) (sa_runtime s)"
    using lm r by blast
  obtain t where t: "find_stop pid n = Some t" "sa_plan t = sa_plan s" "stop_progress (sa_runtime s) (sa_runtime t)"
    using mn s(1) by blast
  show "\<exists>r'. find_stop pid n = Some r' \<and> sa_plan r' = sa_plan r \<and> stop_progress (sa_runtime r) (sa_runtime r')"
    using t s(2) stop_progress_trans [OF s(3) t(3)] by auto
qed

lemma runtime_ok_same: "same_stop_plan p q \<Longrightarrow> runtime_ok p rt = runtime_ok q rt"
  by (auto simp: same_stop_plan_def runtime_ok_def dest: list_all2_lengthD)

text \<open>A new row is sound, and so is the ledger that holds it.\<close>

lemma new_stop_row_ok:
  assumes "validate_stop_plan plan = Inr plan"
  shows "stop_row_ok (new_stop_row plan at_utc)"
proof -
  have "sp_price_buffers plan \<noteq> []" using assms by (auto simp: validate_stop_plan_def split: if_splits)
  moreover have "validate_runtime initial_runtime = Inr initial_runtime"
    by (simp add: validate_runtime_def initial_runtime_def utc_opt_def)
  ultimately show ?thesis
    using assms by (simp add: stop_row_ok_def new_stop_row_def command_ok_def runtime_ok_initial)
qed

lemma sa_plan_id_new [simp]: "sa_plan_id (new_stop_row plan tm) = sp_plan_id plan"
  by (simp add: new_stop_row_def)

definition stop_row_for :: "SyntheticStopPlan \<Rightarrow> datetime \<Rightarrow> stop_ledger \<Rightarrow> stop_row" where
  \<comment> \<open>the row \<open>ensure_stop\<close> works on\<close>
  "stop_row_for plan at_utc l = (case find_stop (sp_plan_id plan) l of
     None \<Rightarrow> new_stop_row plan at_utc | Some r \<Rightarrow> r)"

lemma ensure_stop_outcome:
  assumes ok: "stop_ledger_ok l" and plan: "validate_stop_plan plan = Inr plan" and utc: "is_utc tm"
  defines "r \<equiv> stop_row_for plan tm l"
  obtains l' where "ensure_stop plan tm l =
      (if same_stop_plan (sa_plan r) plan then Inr (stop_record_of r)
       else Inl (RuntimeError ''synthetic-stop plan identity conflict''), l')"
    and "stop_ledger_ok l'" and "stop_ledger_below l l'" and "find_stop (sp_plan_id plan) l' = Some r"
    and "\<And>pid. pid \<noteq> sp_plan_id plan \<Longrightarrow> find_stop pid l' = find_stop pid l"
    and "find_stop (sp_plan_id plan) l \<noteq> None \<Longrightarrow> l' = l"
proof (cases "find_stop (sp_plan_id plan) l")
  case None
  let ?n = "new_stop_row plan tm" and ?l = "tbl_insert (new_stop_row plan tm) l"
  have f: "find_stop (sp_plan_id plan) ?l = Some ?n" using None by (simp add: tbl)
  have fr: "\<And>pid. pid \<noteq> sp_plan_id plan \<Longrightarrow> find_stop pid ?l = find_stop pid l"
    by (simp add: tbl split: option.split)
  have okl: "stop_ledger_ok ?l"
    using ok None new_stop_row_ok [OF plan] by (auto simp: stop_ledger_ok_def keys_unique_insert)
  have r: "r = ?n" by (simp add: r_def stop_row_for_def None)
  have "stop_ledger_below l ?l"
    using None fr by (auto simp: stop_ledger_below_def stop_progress_refl tbl split: option.split)
  moreover have "ensure_stop plan tm l =
      (if same_stop_plan (sa_plan r) plan then Inr (stop_record_of r)
       else Inl (RuntimeError ''synthetic-stop plan identity conflict''), ?l)"
    using None utc f stop_record_from_row_ok [OF new_stop_row_ok [OF plan, of tm]]
    by (simp add: ensure_stop_def require_stop_utc_def run r)
  ultimately show thesis using that [of ?l] okl f fr r None by simp
next
  case (Some q)
  then have r: "r = q" by (simp add: r_def stop_row_for_def)
  have "stop_row_ok q" using stop_ledger_row [OF ok Some] by simp
  then show thesis
    using that [of l] Some ok utc r stop_record_from_row_ok [of q]
    by (simp add: ensure_stop_def require_stop_utc_def run stop_ledger_below_refl)
qed

text \<open>The save of a sound row.\<close>

definition saved_row ::
    "stop_row \<Rightarrow> SyntheticStopRuntime \<Rightarrow> datetime \<Rightarrow> string option \<Rightarrow> string option \<Rightarrow> dec option \<Rightarrow> int option
       \<Rightarrow> stop_row" where
  "saved_row r runtime at_utc client broker limit qty =
     r\<lparr>sa_runtime := runtime, sa_active_client_order_id := client, sa_active_broker_order_id := broker,
       sa_active_limit_price := limit, sa_active_qty := qty, sa_updated_at_utc := at_utc\<rparr>"

lemma save_stop_outcome:
  fixes c b :: "string option" and lp :: "dec option" and q :: "int option"
  assumes ok: "stop_ledger_ok l" and f: "find_stop pid l = Some r" and utc: "is_utc tm"
    and rt: "validate_runtime rt = Inr rt" "runtime_ok (sa_plan r) rt" "stop_progress (sa_runtime r) rt"
  defines "r' \<equiv> saved_row r rt tm c b lp q"
  assumes cmd: "command_ok r'"
  shows "\<exists>l'. save_stop pid rt tm c b lp q l = (Inr (stop_record_of r'), l') \<and>
    stop_ledger_ok l' \<and> stop_ledger_below l l' \<and> find_stop pid l' = Some r'"
proof -
  let ?f = "\<lambda>r. saved_row r rt tm c b lp q"
  let ?l = "tbl_update sa_plan_id pid ?f l"
  have key: "\<And>r. sa_plan_id (?f r) = sa_plan_id r" by (simp add: saved_row_def)
  have row: "stop_row_ok r" using stop_ledger_row [OF ok f] by blast
  have r': "stop_row_ok r'" using row rt cmd by (simp add: stop_row_ok_def r'_def saved_row_def)
  have find: "find_stop k ?l = (if k = pid then map_option ?f (find_stop k l) else find_stop k l)" for k
    using tbl_find_update [of sa_plan_id ?f, OF key] by simp
  have f': "find_stop pid ?l = Some r'" using find f by (simp add: r'_def)
  have uniq: "keys_unique sa_plan_id l" using ok by (simp add: stop_ledger_ok_def)
  then have only: "q = r" if "q \<in> set l" "sa_plan_id q = pid" for q
    using that f tbl_find_unique [OF uniq that(1)] by simp
  have okl: "stop_ledger_ok ?l"
    using ok keys_unique_update [OF key uniq] only r'
    by (auto simp: stop_ledger_ok_def in_set_tbl_update r'_def)
  have "stop_ledger_below l ?l"
    using find f rt(3) by (auto simp: stop_ledger_below_def stop_progress_refl saved_row_def)
  moreover have "save_stop pid rt tm c b lp q l = (Inr (stop_record_of r'), ?l)"
    using f utc f' stop_record_from_row_ok [OF r'] by (simp add: save_stop_def require_stop_utc_def run saved_row_def)
  ultimately show ?thesis using okl f' by (intro exI [of _ ?l] conjI)
qed

section \<open>What a tick sends\<close>

text \<open>The order that the command stored in a row asks for.\<close>

definition row_request :: "stop_row \<Rightarrow> py_error + PaperExtendedLimitRequest" where
  "row_request r = (case (sa_active_client_order_id r, sa_active_limit_price r, sa_active_qty r) of
       (Some client_id, Some limit_price, Some qty) \<Rightarrow> stop_request (sa_plan r) client_id qty limit_price
     | _ \<Rightarrow> Inl (RuntimeError ''synthetic-stop outbox command is incomplete''))"

definition command_settled :: "stop_row \<Rightarrow> bool" where
  \<comment> \<open>a command of the row has its broker order\<close>
  "command_settled r \<longleftrightarrow> sa_active_client_order_id r \<noteq> None \<longrightarrow> sa_active_broker_order_id r \<noteq> None"

lemma stop_row_ok_parts:
  assumes "stop_row_ok r"
  shows "validate_runtime (sa_runtime r) = Inr (sa_runtime r)" and "runtime_ok (sa_plan r) (sa_runtime r)"
    and "command_ok r"
  using assms by (simp_all add: stop_row_ok_def)

text \<open>Writing the broker's order id under a stored command.\<close>

lemma rebind_outcome:
  assumes ok: "stop_ledger_ok l" and f: "find_stop pid l = Some r" and utc: "is_utc tm"
    and cid: "sa_active_client_order_id r = Some cid"
  shows "\<exists>l' r'. save_stop pid (sa_runtime r) tm (Some cid) (Some bid) (sa_active_limit_price r)
      (sa_active_qty r) l = (Inr (stop_record_of r'), l') \<and>
    stop_ledger_ok l' \<and> stop_ledger_below l l' \<and> find_stop pid l' = Some r' \<and>
    sa_plan r' = sa_plan r \<and> sa_runtime r' = sa_runtime r \<and> command_settled r' \<and> row_request r' = row_request r"
proof -
  have row: "stop_row_ok r" using stop_ledger_row [OF ok f] by blast
  note parts = stop_row_ok_parts [OF row]
  let ?r = "saved_row r (sa_runtime r) tm (Some cid) (Some bid) (sa_active_limit_price r) (sa_active_qty r)"
  have "command_ok ?r" using parts(3) cid by (simp add: command_ok_def saved_row_def)
  from save_stop_outcome [OF ok f utc parts(1,2) stop_progress_refl this]
  obtain l' where "save_stop pid (sa_runtime r) tm (Some cid) (Some bid) (sa_active_limit_price r)
      (sa_active_qty r) l = (Inr (stop_record_of ?r), l')"
    "stop_ledger_ok l'" "stop_ledger_below l l'" "find_stop pid l' = Some ?r" by blast
  moreover have "sa_plan ?r = sa_plan r" "sa_runtime ?r = sa_runtime r" "command_settled ?r"
    "row_request ?r = row_request r"
    using cid by (simp_all add: saved_row_def command_settled_def row_request_def split: option.split)
  ultimately show ?thesis by blast
qed

lemma validate_runtime_iff:
  "validate_runtime rt = Inr rt \<longleftrightarrow> utc_opt (sr_below_since_utc rt) \<and> utc_opt (sr_triggered_at_utc rt) \<and>
     utc_opt (sr_last_command_at_utc rt) \<and> utc_opt (sr_completed_at_utc rt) \<and> 0 \<le> sr_price_attempt rt"
  by (auto simp: validate_runtime_def)

definition utc_runtime :: "SyntheticStopRuntime \<Rightarrow> bool" where
  "utc_runtime rt \<longleftrightarrow> utc_opt (sr_below_since_utc rt) \<and> utc_opt (sr_triggered_at_utc rt) \<and>
     utc_opt (sr_last_command_at_utc rt) \<and> utc_opt (sr_completed_at_utc rt)"

lemma utc_opt_simps [simp]: "utc_opt None" "utc_opt (Some t) = is_utc t"
  by (simp_all add: utc_opt_def)

lemma evaluate_utc:
  assumes rt: "utc_runtime rt" and utc: "is_utc (sn_observed_at_utc snap)" and e: "evaluate plan rt snap = Inr d"
  shows "utc_runtime (sd_runtime d)"
proof -
  consider (complete) "sn_filled snap \<or> sr_completed_at_utc rt \<noteq> None"
    | (idle) "evaluate_untriggered plan rt snap = Inr d" | (live) "evaluate_triggered plan rt snap = Inr d"
    using e by (cases "sr_triggered_at_utc rt = None") (auto simp: evaluate_def split: if_splits)
  then show ?thesis
  proof cases
    case complete
    with e rt utc show ?thesis by (auto simp: evaluate_def no_order_iff utc_runtime_def split: if_splits)
  next
    case idle
    with rt utc show ?thesis
      by (auto simp: evaluate_untriggered_def evaluate_below_stop_def Let_def trigger_def utc_runtime_def
          decision_iff split: if_splits option.splits)
  next
    case live
    with rt utc show ?thesis
      by (auto simp: evaluate_triggered_def Let_def utc_runtime_def decision_iff split: if_splits option.splits)
  qed
qed

lemma evaluate_valid:
  assumes v: "validate_runtime rt = Inr rt" and ok: "runtime_ok plan rt"
    and utc: "is_utc (sn_observed_at_utc snap)" and e: "evaluate plan rt snap = Inr d"
  shows "validate_runtime (sd_runtime d) = Inr (sd_runtime d)"
proof -
  have "0 \<le> sr_price_attempt (sd_runtime d)"
    using evaluate_keeps [OF ok e] by (simp add: runtime_ok_def)
  moreover have "utc_runtime (sd_runtime d)"
    by (rule evaluate_utc [OF _ utc e]) (use v in \<open>simp only: validate_runtime_iff utc_runtime_def\<close>)
  ultimately show ?thesis by (simp only: validate_runtime_iff utc_runtime_def simp_thms)
qed

context wired_broker
begin

lemma recover_pending_outcome:
  assumes ok: "stop_ledger_ok l" and f: "find_stop pid l = Some r" and utc: "is_utc (sn_observed_at_utc snap)"
    and step: "recover_pending_outbox port (stop_record_of r) snap (b, l) = (x, (b', l'))"
  shows "stop_ledger_ok l' \<and> stop_ledger_below l l' \<and> (\<exists>r'. find_stop pid l' = Some r' \<and>
     sa_plan r' = sa_plan r \<and> sa_runtime r' = sa_runtime r \<and>
     (\<forall>rec. x = Inr rec \<longrightarrow> rec = stop_record_of r' \<and> command_settled r') \<and>
     (book b' = book b \<or> (\<exists>q. row_request r = Inr q \<and> book b' = book b @ [extended_write q])))"
proof (cases "sa_active_client_order_id r")
  case None
  with step ok f show ?thesis
    by (auto simp: recover_pending_outbox_def stop_ledger_below_refl command_settled_def)
next
  case (Some cid)
  have row: "sp_plan_id (sa_plan r) = pid" using stop_ledger_row [OF ok f] by blast
  obtain g b1 where get: "bp_get_order_by_client_id port cid b = (g, b1)" by fastforce
  have b1: "book b1 = book b" using get_silent [of cid b] get by simp
  have kept: ?thesis if "l' = l" "\<And>rec. x = Inr rec \<Longrightarrow> rec = stop_record_of r \<and> command_settled r"
    "book b' = book b \<or> (\<exists>q. row_request r = Inr q \<and> book b' = book b @ [extended_write q])"
    using that ok f stop_ledger_below_refl by blast
  have bound: ?thesis
    if save: "save_stop pid (sa_runtime r) (sn_observed_at_utc snap) (Some cid) (Some bid)
        (sa_active_limit_price r) (sa_active_qty r) l = (x, l')"
      and bk: "book b' = book b \<or> (\<exists>q. row_request r = Inr q \<and> book b' = book b @ [extended_write q])" for bid
    using rebind_outcome [OF ok f utc Some, of bid] save bk by auto
  note run' = step [unfolded recover_pending_outbox_def stop_record_of_simps Some option.case bindS_run
      on_fst_run get prod.case]
  show ?thesis
  proof (cases g)
    case (Inl e)
    then have "x = Inl e" "l' = l" "b' = b1" using run' by simp_all
    with b1 show ?thesis by (intro kept) simp_all
  next
    case (Inr found)
    note run'' = run' [unfolded Inr sum.case prod.case]
    show ?thesis
    proof (cases found)
      case found: (Some o')
      show ?thesis
      proof (cases "Some (bo_id o') = sa_active_broker_order_id r")
        case True
        then have "x = Inr (stop_record_of r)" "l' = l" "b' = b1" using run'' found by simp_all
        with b1 True [symmetric] show ?thesis by (intro kept) (simp_all add: command_settled_def)
      next
        case False
        then show ?thesis
          by (intro bound [of "bo_id o'"])
            (use run'' found row b1 in \<open>auto simp: on_snd_run split: prod.splits\<close>)
      qed
    next
      case None
      note run3 = run'' [unfolded None option.case]
      show ?thesis
      proof (cases "sa_active_broker_order_id r")
        case bid: (Some bid)
        then have "x = Inr (stop_record_of r)" "l' = l" "b' = b1" using run3 by simp_all
        with b1 bid show ?thesis by (intro kept) (simp_all add: command_settled_def)
      next
        case bid: None
        show ?thesis
        proof (cases "row_request r")
          case (Inl e)
          then have "isl x" "l' = l" "b' = b1"
            using run3 bid Some by (auto simp: row_request_def liftS_run split: option.splits)
          with b1 show ?thesis by (intro kept) auto
        next
          case (Inr q)
          obtain s b2 where sub: "bp_submit_extended_limit port q b1 = (s, b2)" by fastforce
          have b2: "book b2 \<in> {book b, book b @ [extended_write q]}"
            using extended_book [of q b1] sub b1 by simp
          obtain lp qty where cmd: "sa_active_limit_price r = Some lp" "sa_active_qty r = Some qty"
            "stop_request (sa_plan r) cid qty lp = Inr q"
            using Inr Some by (auto simp: row_request_def split: option.splits)
          note run4 = run3 [unfolded bid cmd liftS_run bindS_run sum.case prod.case option.case on_fst_run sub]
          show ?thesis
          proof (cases s)
            case (Inl e)
            then have "x = Inl e" "l' = l" "b' = b2" using run4 cmd Inl by (simp_all add: run sub)
            with b2 Inr show ?thesis by (intro kept) auto
          next
            case order: (Inr order)
            show ?thesis
              by (intro bound [of "bo_id order"])
                (use run4 order cmd row b2 Inr in \<open>auto simp: run sub split: prod.splits\<close>)
          qed
        qed
      qed
    qed
  qed
qed

lemma submit_stop_outcome:
  assumes ok: "stop_ledger_ok l" and f: "find_stop pid l = Some r" and utc: "is_utc (sn_observed_at_utc snap)"
    and rt: "validate_runtime (sd_runtime d) = Inr (sd_runtime d)" "runtime_ok (sa_plan r) (sd_runtime d)"
      "stop_progress (sa_runtime r) (sd_runtime d)"
    and step: "submit_stop port sha16 (stop_record_of r) d qty snap (b, l) = (x, (b', l'))"
  shows "stop_ledger_ok l' \<and> stop_ledger_below l l' \<and> (\<exists>r'. find_stop pid l' = Some r' \<and>
     (\<forall>rec. x = Inr rec \<longrightarrow> command_settled r') \<and>
     (book b' = book b \<or> (\<exists>q. row_request r' = Inr q \<and> book b' = book b @ [extended_write q])))"
proof (cases "\<exists>lp. sd_limit_price d = Some lp \<and> 0 < qty")
  case False
  then have "isl x \<and> l' = l \<and> b' = b"
    using step by (auto simp: submit_stop_def split: option.splits if_splits)
  with ok f show ?thesis by (auto simp: stop_ledger_below_refl)
next
  case True
  then obtain lp where lp: "sd_limit_price d = Some lp" and qty: "0 < qty" by blast
  have pid: "sp_plan_id (sa_plan r) = pid" using stop_ledger_row [OF ok f] by blast
  let ?now = "sn_observed_at_utc snap" and ?cid = "stop_client_order_id sha16 (sa_plan r) (sr_price_attempt (sd_runtime d))"
  let ?r1 = "saved_row r (sd_runtime d) ?now (Some ?cid) None (Some lp) (Some qty)"
  have cmd: "command_ok ?r1" using qty by (simp add: command_ok_def saved_row_def)
  obtain l1 where save1: "save_stop pid (sd_runtime d) ?now (Some ?cid) None (Some lp) (Some qty) l =
      (Inr (stop_record_of ?r1), l1)"
    and ok1: "stop_ledger_ok l1" and up1: "stop_ledger_below l l1" and f1: "find_stop pid l1 = Some ?r1"
    using save_stop_outcome [OF ok f utc rt cmd] by blast
  have r1 [simp]: "sa_plan ?r1 = sa_plan r" "sa_runtime ?r1 = sd_runtime d" "sa_active_limit_price ?r1 = Some lp"
    "sa_active_qty ?r1 = Some qty" "sa_active_client_order_id ?r1 = Some ?cid"
    by (simp_all add: saved_row_def)
  have req1: "row_request ?r1 = stop_request (sa_plan r) ?cid qty lp" by (simp add: row_request_def)
  note rebind = rebind_outcome [OF ok1 f1 utc r1(5), unfolded r1(1,2,3,4)]
  have pending: ?thesis if "isl x" "l' = l1"
    "book b' = book b \<or> (\<exists>q. row_request ?r1 = Inr q \<and> book b' = book b @ [extended_write q])"
    using that ok1 f1 up1 by auto
  have bound: ?thesis
    if save2: "save_stop pid (sd_runtime d) ?now (Some ?cid) (Some bid) (Some lp) (Some qty) l1 = (x, l')"
      and bk: "book b' = book b \<or> (\<exists>q. row_request ?r1 = Inr q \<and> book b' = book b @ [extended_write q])" for bid
    using rebind [of bid] save2 bk up1 by (auto intro: stop_ledger_below_trans)
  obtain g b1 where get: "bp_get_order_by_client_id port ?cid b = (g, b1)" by fastforce
  have b1: "book b1 = book b" using get_silent [of ?cid b] get by simp
  note step1 = step [unfolded submit_stop_def lp option.case stop_record_of_simps Let_def bindS_run on_snd_run
      pid save1 prod.case sum.case on_fst_run get r1]
  show ?thesis
  proof (cases g)
    case (Inl e)
    with step1 qty get b1 show ?thesis
      by (intro pending) (auto simp: on_snd_run save1 on_fst_run bindS_run pid)
  next
    case (Inr found)
    show ?thesis
    proof (cases found)
      case (Some o')
      with step1 qty Inr get b1 show ?thesis
        by (intro bound [of "bo_id o'"]) (auto simp: on_snd_run save1 on_fst_run bindS_run pid split: prod.splits)
    next
      case None
      show ?thesis
      proof (cases "row_request ?r1")
        case (Inl e)
        then have "stop_request (sa_plan r) ?cid qty lp = Inl e" using req1 by simp
        with step1 qty Inr None get b1 show ?thesis
          by (intro pending) (auto simp: on_snd_run save1 on_fst_run bindS_run liftS_run pid)
      next
        case req: (Inr q)
        have rq: "stop_request (sa_plan r) ?cid qty lp = Inr q" using req req1 by simp
        obtain s b2 where sub: "bp_submit_extended_limit port q b1 = (s, b2)" by fastforce
        have b2: "book b2 \<in> {book b, book b @ [extended_write q]}"
          using extended_book [of q b1] sub b1 by simp
        show ?thesis
        proof (cases s)
          case (Inl e)
          with step1 qty Inr None get b2 rq req sub show ?thesis
            by (intro pending) (auto simp: on_snd_run save1 on_fst_run bindS_run liftS_run pid)
        next
          case order: (Inr order)
          with step1 qty Inr None get b2 rq req sub show ?thesis
            by (intro bound [of "bo_id order"])
              (auto simp: on_snd_run save1 on_fst_run bindS_run liftS_run pid split: prod.splits)
        qed
      qed
    qed
  qed
qed

lemma perform_stop_outcome:
  assumes ok: "stop_ledger_ok l" and f: "find_stop pid l = Some r" and utc: "is_utc (sn_observed_at_utc snap)"
    and pid: "pid = sp_plan_id plan"
    and rt: "validate_runtime (sd_runtime d) = Inr (sd_runtime d)" "runtime_ok (sa_plan r) (sd_runtime d)"
      "stop_progress (sa_runtime r) (sd_runtime d)"
    and step: "perform_stop port sha16 plan (stop_record_of r) d qty snap (b, l) = (x, (b', l'))"
  shows "stop_ledger_ok l' \<and> stop_ledger_below l l' \<and> (\<exists>r'. find_stop pid l' = Some r' \<and>
     (\<forall>rec. x = Inr rec \<longrightarrow> command_settled r \<longrightarrow> command_settled r') \<and>
     (\<exists>can sub. book b' = book b @ can @ sub \<and> (can = [] \<or> (\<exists>oid. can = [cancel_write oid])) \<and>
        (sub = [] \<or> (\<exists>q. row_request r' = Inr q \<and> sub = [extended_write q])) \<and>
        (sd_action d \<notin> {SUBMIT_EXIT_LIMIT, CANCEL_REPLACE_EXIT} \<longrightarrow> can = [] \<and> sub = [])))"
proof -
  have still: ?thesis if l: "l' = l" "isl x" and bk: "book b' = book b \<or> (\<exists>oid. book b' = book b @ [cancel_write oid])"
    and act: "sd_action d \<in> {SUBMIT_EXIT_LIMIT, CANCEL_REPLACE_EXIT}"
  proof -
    have "\<exists>can. book b' = book b @ can \<and> (can = [] \<or> (\<exists>oid. can = [cancel_write oid]))"
      using bk by (metis append_Nil2)
    then have inner: "\<exists>can sub. book b' = book b @ can @ sub \<and> (can = [] \<or> (\<exists>oid. can = [cancel_write oid])) \<and>
        (sub = [] \<or> (\<exists>q. row_request r = Inr q \<and> sub = [extended_write q])) \<and>
        (sd_action d \<notin> {SUBMIT_EXIT_LIMIT, CANCEL_REPLACE_EXIT} \<longrightarrow> can = [] \<and> sub = [])"
      using act by (metis append_Nil2)
    show ?thesis unfolding l(1)
      by (intro conjI exI [of _ r] stop_ledger_below_refl ok f inner) (use l(2) in auto)
  qed
  have submitted: ?thesis
    if go: "submit_stop port sha16 (stop_record_of r) d qty snap (b1, l) = (x, (b', l'))"
      and bk: "book b1 = book b @ can" and can: "can = [] \<or> (\<exists>oid. can = [cancel_write oid])"
      and act: "sd_action d \<in> {SUBMIT_EXIT_LIMIT, CANCEL_REPLACE_EXIT}" for b1 can
  proof -
    obtain r' where r': "stop_ledger_ok l'" "stop_ledger_below l l'" "find_stop pid l' = Some r'"
      "\<forall>rec. x = Inr rec \<longrightarrow> command_settled r'"
      "book b' = book b1 \<or> (\<exists>q. row_request r' = Inr q \<and> book b' = book b1 @ [extended_write q])"
      using submit_stop_outcome [OF ok f utc rt go] by blast
    obtain sub where "book b' = book b @ can @ sub" "sub = [] \<or> (\<exists>q. row_request r' = Inr q \<and> sub = [extended_write q])"
      using r'(5) bk by (metis append_Nil2 append_assoc)
    with r' can act show ?thesis by blast
  qed
  consider (submit) "sd_action d = SUBMIT_EXIT_LIMIT" | (replace) "sd_action d = CANCEL_REPLACE_EXIT"
    | (other) "sd_action d \<notin> {SUBMIT_EXIT_LIMIT, CANCEL_REPLACE_EXIT}" by blast
  then show ?thesis
  proof cases
    case submit
    show ?thesis
    proof (cases "sd_limit_price d")
      case None
      with submit step show ?thesis by (intro still) (auto simp: perform_stop_def thenS_run guardS_run)
    next
      case (Some lp)
      with submit step show ?thesis
        by (intro submitted [of b "[]"]) (auto simp: perform_stop_def thenS_run guardS_run)
    qed
  next
    case replace
    note step' = step [unfolded perform_stop_def replace StopAction.distinct if_False simp_thms if_True
        stop_record_of_simps thenS_run guardS_run]
    show ?thesis
    proof (cases "sd_limit_price d")
      case None
      with step' replace show ?thesis by (intro still) auto
    next
      case lp: (Some lp)
      show ?thesis
      proof (cases "sa_active_broker_order_id r")
        case None
        with step' lp replace show ?thesis by (intro submitted [of b "[]"]) auto
      next
        case (Some bid)
        obtain c b1 where can: "bp_cancel_order port bid b = (c, b1)" by fastforce
        have b1: "book b1 \<in> {book b, book b @ [cancel_write bid]}" using cancel_book [of bid b] can by simp
        show ?thesis
        proof (cases c)
          case (Inl e)
          with step' lp Some can b1 replace show ?thesis by (intro still) (auto simp: on_fst_run)
        next
          case (Inr cancelled)
          with step' lp Some can have go: "submit_stop port sha16 (stop_record_of r) d qty snap (b1, l) = (x, (b', l'))"
            by (simp add: on_fst_run)
          have "\<exists>ws. book b1 = book b @ ws \<and> (ws = [] \<or> (\<exists>oid. ws = [cancel_write oid]))"
            using b1 by auto
          with go replace show ?thesis using submitted by blast
        qed
      qed
    qed
  next
    case other
    let ?r = "saved_row r (sd_runtime d) (sn_observed_at_utc snap) (sa_active_client_order_id r)
       (sa_active_broker_order_id r) (sa_active_limit_price r) (sa_active_qty r)"
    have "command_ok ?r"
      using stop_row_ok_parts(3) stop_ledger_row [OF ok f] by (auto simp: command_ok_def saved_row_def)
    from save_stop_outcome [OF ok f utc rt this]
    obtain l2 where "save_stop pid (sd_runtime d) (sn_observed_at_utc snap) (sa_active_client_order_id r)
       (sa_active_broker_order_id r) (sa_active_limit_price r) (sa_active_qty r) l = (Inr (stop_record_of ?r), l2)"
      "stop_ledger_ok l2" "stop_ledger_below l l2" "find_stop pid l2 = Some ?r" by blast
    moreover have "command_settled r \<Longrightarrow> command_settled ?r" by (simp add: command_settled_def saved_row_def)
    ultimately show ?thesis
      using step other pid by (auto simp: perform_stop_def on_snd_run)
  qed
qed

lemma decide_stop_outcome:
  assumes ok: "stop_ledger_ok l" and f: "find_stop pid l = Some r" and pid: "pid = sp_plan_id plan"
    and same: "same_stop_plan (sa_plan r) plan" and snap: "validate_snapshot snap = Inr snap"
    and step: "decide_stop port sha16 auth plan snap (stop_record_of r) (b, l) = (x, (b', l'))"
  shows "stop_ledger_ok l' \<and> stop_ledger_below l l' \<and> (\<exists>r'. find_stop pid l' = Some r' \<and>
     (\<forall>res. x = Inr res \<longrightarrow> command_settled r \<longrightarrow> command_settled r') \<and>
     (\<exists>can sub. book b' = book b @ can @ sub \<and> (can = [] \<or> (\<exists>oid. can = [cancel_write oid])) \<and>
        (sub = [] \<or> (\<exists>q. row_request r' = Inr q \<and> sub = [extended_write q])) \<and>
        (\<not> auth \<longrightarrow> can = [] \<and> sub = [])))"
proof -
  have utc: "is_utc (sn_observed_at_utc snap)" using snap by (auto simp: validate_snapshot_def split: if_splits)
  obtain g b1 where ps: "bp_list_positions port b = (g, b1)" by fastforce
  have b1: "book b1 = book b" using positions_silent [of b] ps by simp
  have still: ?thesis if "l' = l" "b' = b1"
    using that ok f b1 stop_ledger_below_refl by (metis append_Nil2)
  note step' = step [unfolded decide_stop_def bindS_run on_fst_run ps prod.case stop_record_of_simps]
  show ?thesis
  proof (cases "\<exists>ps qty. g = Inr ps \<and> stop_position_quantity (sp_symbol plan) ps = Inr qty")
    case False
    with step' show ?thesis by (intro still) (auto simp: liftS_run split: sum.splits)
  next
    case True
    then obtain psl qty where q: "g = Inr psl" "stop_position_quantity (sp_symbol plan) psl = Inr qty" by blast
    let ?snap = "if qty = 0 then snap\<lparr>sn_filled := True\<rparr> else snap"
    show ?thesis
    proof (cases "evaluate plan (sa_runtime r) ?snap")
      case (Inl e)
      with step' q show ?thesis by (intro still) (auto simp: liftS_run split: if_splits)
    next
      case e: (Inr d)
      have row: "stop_row_ok r" using stop_ledger_row [OF ok f] by blast
      have rt: "runtime_ok plan (sa_runtime r)"
        using stop_row_ok_parts(2) [OF row] runtime_ok_same [OF same] by simp
      have kept: "runtime_ok plan (sd_runtime d)" "stop_progress (sa_runtime r) (sd_runtime d)"
        using evaluate_keeps [OF rt e] by simp_all
      have valid: "validate_runtime (sd_runtime d) = Inr (sd_runtime d)"
        by (rule evaluate_valid [OF stop_row_ok_parts(1) [OF row] rt _ e]) (simp add: utc)
      show ?thesis
      proof (cases "sd_action d \<in> {SUBMIT_EXIT_LIMIT, CANCEL_REPLACE_EXIT} \<and> \<not> auth")
        case True
        with step' q e show ?thesis by (intro still) (auto simp: liftS_run split: if_splits)
      next
        case False
        obtain y b2 l2 where perf: "perform_stop port sha16 plan (stop_record_of r) d qty snap (b1, l) = (y, (b2, l2))"
          by (metis prod.exhaust)
        have out: "x = (case y of Inl e \<Rightarrow> Inl e | Inr rec \<Rightarrow> Inr (stop_result d False (se_active_broker_order_id rec)))"
          "b' = b2" "l' = l2"
          using step' q e False perf by (auto simp: liftS_run bindS_run split: sum.splits)
        have r_ok: "runtime_ok (sa_plan r) (sd_runtime d)" using kept(1) runtime_ok_same [OF same] by simp
        note o1 = perform_stop_outcome [OF ok f utc pid valid r_ok kept(2) perf, unfolded b1]
        have silent: "\<not> auth \<longrightarrow> sd_action d \<notin> {SUBMIT_EXIT_LIMIT, CANCEL_REPLACE_EXIT}" using False by blast
        have success: "\<exists>rec. y = Inr rec" if "x = Inr res" for res
          using out(1) that by (cases y) auto
        obtain r' can sub where r': "stop_ledger_ok l2" "stop_ledger_below l l2" "find_stop pid l2 = Some r'"
          "\<forall>rec. y = Inr rec \<longrightarrow> command_settled r \<longrightarrow> command_settled r'" "book b2 = book b @ can @ sub"
          "can = [] \<or> (\<exists>oid. can = [cancel_write oid])"
          "sub = [] \<or> (\<exists>q. row_request r' = Inr q \<and> sub = [extended_write q])"
          "sd_action d \<notin> {SUBMIT_EXIT_LIMIT, CANCEL_REPLACE_EXIT} \<longrightarrow> can = [] \<and> sub = []"
          using o1 by blast
        have "\<forall>res. x = Inr res \<longrightarrow> command_settled r \<longrightarrow> command_settled r'" using r'(4) success by blast
        moreover have "\<not> auth \<longrightarrow> can = [] \<and> sub = []" using r'(8) silent by blast
        ultimately show ?thesis unfolding out(2,3)
          by (intro conjI exI [of _ r'] exI [of _ can] exI [of _ sub] r'(1-7))
      qed
    qed
  qed
qed

lemma tick_stop_outcome:
  assumes ok: "stop_ledger_ok l" and plan: "validate_stop_plan plan = Inr plan"
    and snap: "validate_snapshot snap = Inr snap"
    and step: "tick_stop port sha16 auth plan snap (b, l) = (x, (b', l'))"
  shows "stop_ledger_ok l' \<and> stop_ledger_below l l' \<and>
     (\<exists>r' rec can sub. find_stop (sp_plan_id plan) l' = Some r' \<and>
        (\<forall>res. x = Inr res \<longrightarrow> auth \<and> bp_writes_enabled port b \<longrightarrow> command_settled r') \<and>
        book b' = book b @ rec @ can @ sub \<and>
        (rec = [] \<or> (\<exists>q. row_request (stop_row_for plan (sn_observed_at_utc snap) l) = Inr q \<and>
                         rec = [extended_write q])) \<and>
        (can = [] \<or> (\<exists>oid. can = [cancel_write oid])) \<and>
        (sub = [] \<or> (\<exists>q. row_request r' = Inr q \<and> sub = [extended_write q])) \<and>
        (\<not> (auth \<and> bp_writes_enabled port b) \<longrightarrow> rec = [] \<and> can = [] \<and> sub = []))"
proof -
  let ?now = "sn_observed_at_utc snap" and ?pid = "sp_plan_id plan"
  let ?r = "stop_row_for plan ?now l" and ?on = "auth \<and> bp_writes_enabled port b"
  have utc: "is_utc ?now" using snap by (auto simp: validate_snapshot_def split: if_splits)
  obtain l1 where en: "ensure_stop plan ?now l =
      (if same_stop_plan (sa_plan ?r) plan then Inr (stop_record_of ?r)
       else Inl (RuntimeError ''synthetic-stop plan identity conflict''), l1)"
    and ok1: "stop_ledger_ok l1" and up1: "stop_ledger_below l l1" and f1: "find_stop ?pid l1 = Some ?r"
    by (rule ensure_stop_outcome [OF ok plan utc])
  note step' = step [unfolded tick_stop_def bindS_run on_snd_run en readS_run prod.case fst_conv]
  show ?thesis
  proof (cases "same_stop_plan (sa_plan ?r) plan")
    case False
    then have "isl x" "l' = l1" "b' = b" using step' by auto
    with ok1 up1 f1 show ?thesis
      by (intro conjI exI [of _ ?r] exI [of _ "[]"]) auto
  next
    case same: True
    note step2 = step' [unfolded if_P [OF same] sum.case prod.case]
    show ?thesis
    proof (cases ?on)
      case False
      with step2 have d: "decide_stop port sha16 False plan snap (stop_record_of ?r) (b, l1) = (x, (b', l'))"
        by (auto split: if_splits)
      obtain r' where "stop_ledger_ok l'" "stop_ledger_below l1 l'" "find_stop ?pid l' = Some r'" "book b' = book b"
        using decide_stop_outcome [OF ok1 f1 refl same snap d] by auto
      with False stop_ledger_below_trans [OF up1] show ?thesis
        by (intro conjI exI [of _ r'] exI [of _ "[]"]) auto
    next
      case True
      obtain y b2 l2 where rv: "recover_pending_outbox port (stop_record_of ?r) snap (b, l1) = (y, (b2, l2))"
        by (metis prod.exhaust)
      obtain r2 rec where r2: "stop_ledger_ok l2" "stop_ledger_below l1 l2" "find_stop ?pid l2 = Some r2"
        "sa_plan r2 = sa_plan ?r" "\<forall>re. y = Inr re \<longrightarrow> re = stop_record_of r2 \<and> command_settled r2"
        "book b2 = book b @ rec" "rec = [] \<or> (\<exists>q. row_request ?r = Inr q \<and> rec = [extended_write q])"
        using recover_pending_outcome [OF ok1 f1 utc rv] by (metis append_Nil2)
      have up2: "stop_ledger_below l l2" by (rule stop_ledger_below_trans [OF up1 r2(2)])
      show ?thesis
      proof (cases y)
        case (Inl e)
        with step2 True rv have "isl x" "l' = l2" "b' = b2" by auto
        with r2 up2 True show ?thesis
          by (intro conjI exI [of _ r2] exI [of _ rec] exI [of _ "[]"]) auto
      next
        case (Inr re)
        with step2 True rv r2(5) have d: "decide_stop port sha16 True plan snap (stop_record_of r2) (b2, l2) = (x, (b', l'))"
          by simp
        have same2: "same_stop_plan (sa_plan r2) plan" using same r2(4) by simp
        obtain r' can sub where r': "stop_ledger_ok l'" "stop_ledger_below l2 l'" "find_stop ?pid l' = Some r'"
          "\<forall>res. x = Inr res \<longrightarrow> command_settled r2 \<longrightarrow> command_settled r'" "book b' = book b2 @ can @ sub"
          "can = [] \<or> (\<exists>oid. can = [cancel_write oid])"
          "sub = [] \<or> (\<exists>q. row_request r' = Inr q \<and> sub = [extended_write q])"
          using decide_stop_outcome [OF r2(1,3) refl same2 snap d] by blast
        have s: "\<forall>res. x = Inr res \<longrightarrow> ?on \<longrightarrow> command_settled r'" using r'(4) r2(5) Inr by blast
        have bk: "book b' = book b @ rec @ can @ sub" using r'(5) r2(6) by simp
        have off: "\<not> ?on \<longrightarrow> rec = [] \<and> can = [] \<and> sub = []" using True by blast
        show ?thesis
          by (intro conjI exI [of _ r'] exI [of _ rec] exI [of _ can] exI [of _ sub] r'(1,3,6,7) s bk off r2(7)
              stop_ledger_below_trans [OF up2 r'(2)])
      qed
    qed
  qed
qed

end

section \<open>Properties\<close>

text \<open>C20: what a tick sends is on record first.  Without authorization, or with writes disabled, nothing
  is sent.  Otherwise the broker receives, in this order, at most one resubmission of the command
  the row held before the tick, one cancellation, and one new order, and the new order is exactly
  the command that the row holds when the tick ends, whether it returns or raises: after a crash at
  any point of the submission the next tick finds the command in the outbox.\<close>

theorem tick_sends_only_recorded_commands:
  assumes ok: "stop_ledger_ok l" and plan: "validate_stop_plan plan = Inr plan"
    and snap: "validate_snapshot snap = Inr snap"
  shows "let wire' = snd (fst (snd (tick_stop (direct_alpaca (recorded env)) sha16 auth plan snap ((b, wire), l))));
             l' = snd (snd (tick_stop (direct_alpaca (recorded env)) sha16 auth plan snap ((b, wire), l)))
    in (\<not> (auth \<and> ae_writes_enabled env b) \<longrightarrow> wire' = wire) \<and>
       (\<exists>r' resent cancelled sent. find_stop (sp_plan_id plan) l' = Some r' \<and>
          wire' = wire @ resent @ cancelled @ sent \<and>
          (resent = [] \<or> (\<exists>q. row_request (stop_row_for plan (sn_observed_at_utc snap) l) = Inr q \<and>
                              resent = [post_order (extended_limit_payload q)])) \<and>
          (cancelled = [] \<or> (\<exists>oid. cancelled = [delete_order oid])) \<and>
          (sent = [] \<or> (\<exists>q. row_request r' = Inr q \<and> sent = [post_order (extended_limit_payload q)])))"
proof -
  let ?port = "direct_alpaca (recorded env)"
  obtain x b' l' where step: "tick_stop ?port sha16 auth plan snap ((b, wire), l) = (x, (b', l'))"
    by (metis prod.exhaust)
  have writes: "bp_writes_enabled ?port (b, wire) = ae_writes_enabled env b" by (simp add: direct_alpaca_def)
  obtain r' resent cancelled sent where "find_stop (sp_plan_id plan) l' = Some r'"
    "snd b' = wire @ resent @ cancelled @ sent"
    "resent = [] \<or> (\<exists>q. row_request (stop_row_for plan (sn_observed_at_utc snap) l) = Inr q \<and>
                              resent = [post_order (extended_limit_payload q)])"
    "cancelled = [] \<or> (\<exists>oid. cancelled = [delete_order oid])"
    "sent = [] \<or> (\<exists>q. row_request r' = Inr q \<and> sent = [post_order (extended_limit_payload q)])"
    "\<not> (auth \<and> ae_writes_enabled env b) \<longrightarrow> resent = [] \<and> cancelled = [] \<and> sent = []"
    using alpaca_wire.tick_stop_outcome [OF ok plan snap step] unfolding writes snd_conv by blast
  then show ?thesis unfolding step Let_def fst_conv snd_conv
    by (intro conjI exI [of _ r'] exI [of _ resent] exI [of _ cancelled] exI [of _ sent]) auto
qed

text \<open>A tick, whatever the broker answers and whether it returns or raises, leaves a sound outbox
  (unique plans, valid runtimes, complete commands) in which every plan is unchanged and every stop
  has only moved forward; and a successful authorized tick leaves no command without its broker
  order.\<close>

theorem tick_keeps_outbox:
  assumes ok: "stop_ledger_ok l" and plan: "validate_stop_plan plan = Inr plan"
    and snap: "validate_snapshot snap = Inr snap"
  shows "let result = tick_stop (direct_alpaca (recorded env)) sha16 auth plan snap ((b, wire), l);
             l' = snd (snd result)
    in stop_ledger_ok l' \<and> stop_ledger_below l l' \<and>
       (\<exists>r'. find_stop (sp_plan_id plan) l' = Some r' \<and>
          (auth \<and> ae_writes_enabled env b \<and> \<not> isl (fst result) \<longrightarrow> command_settled r'))"
proof -
  let ?port = "direct_alpaca (recorded env)"
  obtain x b' l' where step: "tick_stop ?port sha16 auth plan snap ((b, wire), l) = (x, (b', l'))"
    by (metis prod.exhaust)
  have writes: "bp_writes_enabled ?port (b, wire) = ae_writes_enabled env b" by (simp add: direct_alpaca_def)
  obtain r' where "stop_ledger_ok l'" "stop_ledger_below l l'" "find_stop (sp_plan_id plan) l' = Some r'"
    and s: "\<forall>res. x = Inr res \<longrightarrow> auth \<and> ae_writes_enabled env b \<longrightarrow> command_settled r'"
    using alpaca_wire.tick_stop_outcome [OF ok plan snap step] unfolding writes snd_conv by blast
  moreover have "auth \<and> ae_writes_enabled env b \<and> \<not> isl x \<longrightarrow> command_settled r'"
    using s by (cases x) auto
  ultimately show ?thesis unfolding step Let_def fst_conv snd_conv by blast
qed

text \<open>The runtime after a repricing at the last buffer.\<close>

lemma evaluate_reprice_attempt:
  assumes "evaluate plan rt snap = Inr d" and "sd_action d = CANCEL_REPLACE_EXIT"
  shows "sr_price_attempt (sd_runtime d) =
    min (sr_price_attempt rt + 1) (int (length (sp_price_buffers plan)) - 1)"
  using assms
  by (auto simp: evaluate_def evaluate_untriggered_def evaluate_triggered_def evaluate_below_stop_def
      Let_def decision_iff split: if_splits option.splits)

lemma submit_stop_known_order:
  assumes step: "submit_stop port sha16 record d qty snap (b, l) = (Inr rec, (b', l'))"
    and known: "\<And>b. bp_get_order_by_client_id port
       (stop_client_order_id sha16 (se_plan record) (sr_price_attempt (sd_runtime d))) b = (Inr (Some (ord b)), b)"
  shows "b' = b"
  using step
  by (auto simp: submit_stop_def Let_def bindS_eq_Inr on_snd_eq on_fst_eq known split: option.splits if_splits)

text \<open>C21: at the last price step a repricing cancels the working exit order and sends no other one.
  The client order id of a command depends on the price step alone, and the step is capped, so the
  submission finds the order that was just cancelled under its own id and takes it for the
  replacement: whatever the position, all that the broker is asked to do is to cancel.\<close>

theorem last_reprice_only_cancels:
  assumes ok: "stop_ledger_ok l" and f: "find_stop (sp_plan_id plan) l = Some r"
    and last: "sr_price_attempt (sa_runtime r) = int (length (sp_price_buffers plan)) - 1"
    and active: "sa_active_client_order_id r = Some (stop_client_order_id sha16 (sa_plan r) (sr_price_attempt (sa_runtime r)))"
      "sa_active_broker_order_id r = Some bid"
    and known: "\<And>b. bp_get_order_by_client_id port
        (stop_client_order_id sha16 (sa_plan r) (sr_price_attempt (sa_runtime r))) b = (Inr (Some (ord b)), b)"
      "\<And>b. bo_id (ord b) = bid"
    and step: "tick_stop port sha16 auth plan snap (b, l) = (Inr res, (b', l'))"
    and reprice: "sx_action res = CANCEL_REPLACE_EXIT"
  shows "b' = snd (bp_cancel_order port bid (snd (bp_list_positions port b)))"
proof -
  have row: "stop_row_ok r" using stop_ledger_row [OF ok f] by blast
  have en: "ensure_stop plan tm l = (Inr rec, l1) \<Longrightarrow> rec = stop_record_of r \<and> l1 = l" for tm rec l1
    using f stop_record_from_row_ok [OF row]
    by (auto simp: ensure_stop_def thenS_eq_Inr bindS_eq_Inr require_stop_utc_def readS_run split: if_splits)
  have rv: "recover_pending_outbox port (stop_record_of r) snap (c, l) = (Inr (stop_record_of r), (c, l))" for c
    using active known by (simp add: recover_pending_outbox_def on_fst_run bindS_run)
  obtain authorized where go: "decide_stop port sha16 authorized plan snap (stop_record_of r) (b, l) = (Inr res, (b', l'))"
    using step by (auto simp: tick_stop_def bindS_eq_Inr on_snd_eq rv dest!: en split: if_splits)
  obtain ps b1 qty d where ps: "bp_list_positions port b = (Inr ps, b1)"
    and d: "evaluate plan (sa_runtime r) (if qty = 0 then snap\<lparr>sn_filled := True\<rparr> else snap) = Inr d"
    and tail: "(if sd_action d \<in> {SUBMIT_EXIT_LIMIT, CANCEL_REPLACE_EXIT} \<and> \<not> authorized
        then returnS (unauthorized_result (stop_record_of r) d)
        else bindS (perform_stop port sha16 plan (stop_record_of r) d qty snap)
          (\<lambda>rec. returnS (stop_result d False (se_active_broker_order_id rec)))) (b1, l) = (Inr res, (b', l'))"
    using go by (auto simp: decide_stop_def bindS_eq_Inr on_fst_eq)
  obtain rec where perf: "perform_stop port sha16 plan (stop_record_of r) d qty snap (b1, l) = (Inr rec, (b', l'))"
    and res: "sx_action res = sd_action d"
    using tail reprice
    by (auto simp: bindS_eq_Inr unauthorized_result_def stop_result_def split: if_splits)
  have act: "sd_action d = CANCEL_REPLACE_EXIT" using res reprice by simp
  have att: "sr_price_attempt (sd_runtime d) = sr_price_attempt (sa_runtime r)"
    using evaluate_reprice_attempt [OF d act] last by simp
  obtain c b2 where can: "bp_cancel_order port bid b1 = (Inr c, b2)"
    and sub: "submit_stop port sha16 (stop_record_of r) d qty snap (b2, l) = (Inr rec, (b', l'))"
    using perf act active(2) by (auto simp: perform_stop_def thenS_eq_Inr on_fst_eq)
  have "b' = b2" by (rule submit_stop_known_order [OF sub, of ord]) (simp add: att known(1))
  with ps can show ?thesis by simp
qed

section \<open>Concrete runs\<close>

definition sample_outbox :: stop_ledger where
  \<comment> \<open>a triggered stop with its first command working at the broker\<close>
  "sample_outbox = [(new_stop_row sample_stop (utc 0))\<lparr>sa_runtime := sample_triggered\<lparr>sr_price_attempt := 2\<rparr>,
     sa_active_client_order_id := Some ''tsv2-AAPL-sstop-d-2'', sa_active_broker_order_id := Some ''b1'',
     sa_active_limit_price := Some (Dec False 9600 (- 2)), sa_active_qty := Some 10\<rparr>]"

definition sample_exit_order :: BrokerOrder where
  "sample_exit_order = BrokerOrder ''b1'' ''tsv2-AAPL-sstop-d-2'' ''AAPL'' 10 ''0'' ''accepted'' None (Some ''sell'') None []"

lemma sample_stop_valid:
  "validate_stop_plan sample_stop = Inr sample_stop" "validate_snapshot (sample_snap 5000000 (Dec False 97 0)) =
     Inr (sample_snap 5000000 (Dec False 97 0))"
  by code_simp+

lemma sample_outbox_ok: "stop_ledger_ok sample_outbox"
proof -
  have "validate_runtime (sample_triggered\<lparr>sr_price_attempt := 2\<rparr>) = Inr (sample_triggered\<lparr>sr_price_attempt := 2\<rparr>)"
    by code_simp
  then show ?thesis using sample_stop_valid(1)
    by (simp add: stop_ledger_ok_def sample_outbox_def keys_unique_def stop_row_ok_def new_stop_row_def
        command_ok_def runtime_ok_def sample_triggered_def sample_stop_def default_buffers_def)
qed

lemma tick_sends_only_recorded_commands_witness:
  "snd (fst (snd (tick_stop (direct_alpaca (recorded replaying_env)) (\<lambda>_. ''d'') False sample_stop
     (sample_snap 5000000 (Dec False 97 0)) (((), []), sample_outbox)))) = []"
  using tick_sends_only_recorded_commands [OF sample_outbox_ok sample_stop_valid, of replaying_env "\<lambda>_. ''d''" False "()" "[]"]
  by (simp only: Let_def simp_thms)

lemma tick_keeps_outbox_witness:
  "stop_ledger_ok (snd (snd (tick_stop (direct_alpaca (recorded replaying_env)) (\<lambda>_. ''d'') True sample_stop
     (sample_snap 5000000 (Dec False 97 0)) (((), []), sample_outbox))))"
  using tick_keeps_outbox [OF sample_outbox_ok sample_stop_valid, of replaying_env "\<lambda>_. ''d''" True "()" "[]"]
  by (simp only: Let_def simp_thms)

definition retentive_port :: "BrokerOrder list broker_port" where
  \<comment> \<open>a broker that holds the position and reports the exit order under its client id for good\<close>
  "retentive_port = (sim_port True [\<lparr>pp_symbol = ''AAPL'', pp_qty = ''10'', pp_side = ''long''\<rparr>])
     \<lparr>bp_get_order_by_client_id := (\<lambda>_ book. (Inr (Some sample_exit_order), book))\<rparr>"

lemma last_reprice_only_cancels_witness:
  "map bo_status (fst (snd (tick_stop retentive_port (\<lambda>_. ''d'') True sample_stop
     (sample_snap 5000000 (Dec False 97 0)) ([sample_exit_order], sample_outbox)))) = [''canceled'']"
proof -
  let ?t = "tick_stop retentive_port (\<lambda>_. ''d'') True sample_stop (sample_snap 5000000 (Dec False 97 0))
     ([sample_exit_order], sample_outbox)"
  let ?r = "hd sample_outbox"
  have "case fst ?t of Inl _ \<Rightarrow> False | Inr res \<Rightarrow> sx_action res = CANCEL_REPLACE_EXIT" by code_simp
  then obtain res b' l' where t: "?t = (Inr res, (b', l'))" and act: "sx_action res = CANCEL_REPLACE_EXIT"
    by (cases ?t) (auto split: sum.splits)
  have f: "find_stop (sp_plan_id sample_stop) sample_outbox = Some ?r"
    "sr_price_attempt (sa_runtime ?r) = int (length (sp_price_buffers sample_stop)) - 1"
    "sa_active_client_order_id ?r = Some (stop_client_order_id (\<lambda>_. ''d'') (sa_plan ?r) (sr_price_attempt (sa_runtime ?r)))"
    "sa_active_broker_order_id ?r = Some ''b1''"
    by code_simp+
  have k: "bp_get_order_by_client_id retentive_port
      (stop_client_order_id (\<lambda>_. ''d'') (sa_plan ?r) (sr_price_attempt (sa_runtime ?r))) b =
      (Inr (Some ((\<lambda>_. sample_exit_order) b)), b)" "bo_id ((\<lambda>_. sample_exit_order) b) = ''b1''" for b
    by (simp_all add: retentive_port_def sample_exit_order_def)
  have "b' = snd (bp_cancel_order retentive_port ''b1'' (snd (bp_list_positions retentive_port [sample_exit_order])))"
    by (rule last_reprice_only_cancels [OF sample_outbox_ok f k t act])
  then show ?thesis unfolding t fst_conv snd_conv by (simp only:) code_simp
qed

end
