(* ===== verification/TimeExit.thy ===== *)
theory TimeExit
  imports OrderLedger Positions
begin

text \<open>
  \<open>execution/time_exit.py\<close>: the exit of a long position when the time stop of its plan has passed.
  The table \<open>time_exit_actions\<close> remembers each plan's exit; one run cancels the working orders of the
  symbol, reads the position and closes it with the plan's own client order id.  The order ledger is
  only read; the first 16 hexadecimal digits of SHA-256 are the parameter \<open>sha16\<close>.
\<close>

section \<open>The exit ledger\<close>

datatype TimeExitStatus = EXIT_PLANNED | EXIT_SUBMITTED | EXIT_COMPLETE | EXIT_FAILED

record TimeExitRecord =
  tx_plan_id :: string
  tx_client_order_id :: string
  tx_symbol :: string
  tx_status :: TimeExitStatus
  tx_quantity :: "int option"
  tx_broker_order_id :: "string option"
  tx_updated_at_utc :: datetime
  tx_provenance :: string

type_synonym exit_ledger = "TimeExitRecord list"

abbreviation find_exit :: "string \<Rightarrow> exit_ledger \<Rightarrow> TimeExitRecord option" where
  "find_exit \<equiv> tbl_find tx_plan_id"

definition require_exit_utc :: "datetime \<Rightarrow> (exit_ledger, unit) op" where
  "require_exit_utc value = guardS (is_utc value) (ValueError ''time-exit timestamp must be timezone-aware UTC'')"

definition get_exit :: "string \<Rightarrow> (exit_ledger, TimeExitRecord option) op" where
  "get_exit plan_id = readS (find_exit plan_id)"

definition planned_exit :: "TradePlan \<Rightarrow> string \<Rightarrow> datetime \<Rightarrow> TimeExitRecord" where
  "planned_exit plan cid at_utc =
     \<lparr>tx_plan_id = tp_plan_id plan, tx_client_order_id = cid, tx_symbol = tp_symbol plan,
      tx_status = EXIT_PLANNED, tx_quantity = None, tx_broker_order_id = None,
      tx_updated_at_utc = at_utc, tx_provenance = ''execution.time_exit.planned.v1''\<rparr>"

definition ensure_exit :: "TradePlan \<Rightarrow> string \<Rightarrow> datetime \<Rightarrow> (exit_ledger, TimeExitRecord) op" where
  "ensure_exit plan cid at_utc = thenS (require_exit_utc at_utc)
     (transactionS (bindS (readS (find_exit (tp_plan_id plan))) (\<lambda>existing.
      bindS (case existing of
          Some r \<Rightarrow> returnS (Some r)
        | None \<Rightarrow>
            bindS (readS (list_all (\<lambda>r. tx_client_order_id r \<noteq> cid))) (\<lambda>free.
            thenS (guardS free (IntegrityError ''time_exit_actions.client_order_id''))
            (thenS (writeS (tbl_insert (planned_exit plan cid at_utc)))
            (readS (find_exit (tp_plan_id plan)))))) (\<lambda>row. case row of
          None \<Rightarrow> raiseS (RuntimeError ''time-exit record disappeared'')
        | Some record \<Rightarrow>
            if tx_client_order_id record \<noteq> cid \<or> tx_symbol record \<noteq> tp_symbol plan
            then raiseS (RuntimeError ''time-exit identity conflict'')
            else returnS record))))"

definition coalesce :: "'a option \<Rightarrow> 'a option \<Rightarrow> 'a option" where
  "coalesce a b = (case a of None \<Rightarrow> b | Some _ \<Rightarrow> a)"

definition update_exit ::
    "string \<Rightarrow> TimeExitStatus \<Rightarrow> datetime \<Rightarrow> string \<Rightarrow> int option \<Rightarrow> string option
       \<Rightarrow> (exit_ledger, TimeExitRecord) op" where
  "update_exit plan_id status at_utc provenance quantity broker_order_id =
     thenS (require_exit_utc at_utc)
     (thenS (guardS (\<not> is_blank provenance) (ValueError ''time-exit provenance is required''))
     (bindS (transactionS (bindS (readS (find_exit plan_id)) (\<lambda>row. case row of
         None \<Rightarrow> raiseS (KeyError (''unknown time-exit plan: '' @ plan_id))
       | Some current \<Rightarrow>
           if tx_status current = EXIT_COMPLETE then returnS (Some current)
           else thenS (writeS (tbl_update tx_plan_id plan_id (\<lambda>r. r\<lparr>tx_status := status,
                  tx_quantity := coalesce quantity (tx_quantity r),
                  tx_broker_order_id := coalesce broker_order_id (tx_broker_order_id r),
                  tx_updated_at_utc := at_utc, tx_provenance := provenance\<rparr>)))
                (returnS None)))) (\<lambda>finished. case finished of
         Some current \<Rightarrow> returnS current
       | None \<Rightarrow> bindS (get_exit plan_id) (\<lambda>updated. case updated of
             None \<Rightarrow> raiseS (RuntimeError ''time-exit update disappeared'')
           | Some r \<Rightarrow> returnS r))))"

section \<open>The coordinator\<close>

record TimeExitResult =
  tr_plan_id :: string
  tr_symbol :: string
  tr_status :: TimeExitStatus
  tr_dry_run :: bool
  tr_broker_order_id :: "string option"
  tr_cancelled_order_ids :: "string list"
  tr_detail :: string

definition time_exit_client_id :: "(string \<Rightarrow> string) \<Rightarrow> TradePlan \<Rightarrow> string" where
  "time_exit_client_id sha16 plan =
     ''tsv2-'' @ date_compact (tp_trade_date plan) @ ''-'' @ tp_symbol plan @ ''-time-'' @ sha16 (tp_plan_id plan)"

definition exit_long_quantity :: "PaperPosition \<Rightarrow> py_error + int" where
  "exit_long_quantity position =
     (if \<not> is_long position then Inl (ValueError ''time exit refuses any non-long position'')
      else whole_share_quantity (ValueError ''position quantity is invalid'')
             (ValueError ''time exit requires a positive whole-share position'') (pp_qty position))"

definition close_status :: "BrokerOrder \<Rightarrow> TimeExitStatus" where
  "close_status order = (let s = py_lower (py_strip (bo_status order)) in
     if s = ''filled'' then EXIT_COMPLETE
     else if s \<in> {''rejected'', ''canceled'', ''expired''} then EXIT_FAILED
     else EXIT_SUBMITTED)"

definition exit_result :: "TradePlan \<Rightarrow> bool \<Rightarrow> string list \<Rightarrow> TimeExitRecord \<Rightarrow> TimeExitResult" where
  "exit_result plan dry cancelled record =
     \<lparr>tr_plan_id = tp_plan_id plan, tr_symbol = tp_symbol plan, tr_status = tx_status record,
      tr_dry_run = dry, tr_broker_order_id = tx_broker_order_id record,
      tr_cancelled_order_ids = cancelled, tr_detail = tx_provenance record\<rparr>"

type_synonym 'b exit_desk = "'b \<times> exit_ledger"

fun cancel_working ::
    "'b broker_port \<Rightarrow> string \<Rightarrow> string \<Rightarrow> BrokerOrder list \<Rightarrow> ('b, string list) op" where
  \<comment> \<open>the loop over the open orders\<close>
  "cancel_working port symb cid [] = returnS []"
| "cancel_working port symb cid (order # orders) =
     (if bo_symbol order \<noteq> symb \<or> bo_client_order_id order = cid then cancel_working port symb cid orders
      else bindS (bp_cancel_order port (bo_id order)) (\<lambda>done.
           bindS (cancel_working port symb cid orders) (\<lambda>rest.
             returnS (if done then bo_id order # rest else rest))))"

definition position_of :: "string \<Rightarrow> PaperPosition list \<Rightarrow> PaperPosition option" where
  \<comment> \<open>\<open>{p.symbol: p for p in positions}.get(symb)\<close>: the last one listed\<close>
  "position_of symb positions = map_of (rev (map (\<lambda>p. (pp_symbol p, p)) positions)) symb"

definition close_position ::
    "'b broker_port \<Rightarrow> TradePlan \<Rightarrow> string \<Rightarrow> datetime \<Rightarrow> string list \<Rightarrow> PaperPosition option
       \<Rightarrow> ('b exit_desk, TimeExitResult) op" where
  \<comment> \<open>from \<open>position = positions.get(...)\<close> on\<close>
  "close_position port plan cid now cancelled position = (case position of
       None \<Rightarrow> bindS (on_snd (update_exit (tp_plan_id plan) EXIT_COMPLETE now
                  ''execution.time_exit.no_position_after_order_cancel.v1'' None None))
                (\<lambda>completed. returnS (exit_result plan False cancelled completed))
     | Some pos \<Rightarrow>
         bindS (liftS (exit_long_quantity pos)) (\<lambda>quantity.
         bindS (liftS (validate_close_request \<lparr>pcr_client_order_id = cid, pcr_symbol = tp_symbol plan,
                                              pcr_qty = quantity\<rparr>)) (\<lambda>request.
         bindS (on_fst (bp_submit_close_order port request)) (\<lambda>close_order.
         bindS (on_snd (update_exit (tp_plan_id plan) (close_status close_order) now
                  (''alpaca.paper.time_exit:'' @ bo_id close_order @ '':'' @ bo_status close_order)
                  (Some quantity) (Some (bo_id close_order))))
           (\<lambda>updated. returnS (exit_result plan False cancelled updated))))))"

definition run_plan ::
    "'b broker_port \<Rightarrow> (string \<Rightarrow> string) \<Rightarrow> bool \<Rightarrow> datetime \<Rightarrow> TradePlan
       \<Rightarrow> ('b exit_desk, TimeExitResult) op" where
  "run_plan port sha16 paper_authorized now plan = (let cid = time_exit_client_id sha16 plan in
     bindS (on_snd (ensure_exit plan cid now)) (\<lambda>record.
       if tx_status record = EXIT_COMPLETE then returnS (exit_result plan False [] record)
       else bindS (readS (\<lambda>p. bp_writes_enabled port (fst p))) (\<lambda>writes.
         if \<not> paper_authorized \<or> \<not> writes
         then returnS ((exit_result plan True [] record)
                \<lparr>tr_detail := ''paper time-exit writes are not authorized''\<rparr>)
         else
           bindS (on_fst (bp_list_open_orders port)) (\<lambda>orders.
           bindS (on_fst (cancel_working port (tp_symbol plan) cid orders)) (\<lambda>cancelled.
           bindS (on_fst (bp_list_positions port)) (\<lambda>positions.
             close_position port plan cid now cancelled (position_of (tp_symbol plan) positions)))))))"

definition run_due ::
    "'b broker_port \<Rightarrow> (string \<Rightarrow> string) \<Rightarrow> bool \<Rightarrow> order_ledger \<Rightarrow> datetime
       \<Rightarrow> ('b exit_desk, TimeExitResult list) op" where
  "run_due port sha16 paper_authorized orders now =
     thenS (guardS (is_utc now) (ValueError ''now_utc must be timezone-aware UTC''))
     (bindS (liftS (fst (list_plans orders))) (\<lambda>plans.
        mapS (run_plan port sha16 paper_authorized now)
          (filter (\<lambda>p. instant (tp_time_stop_utc p) \<le> instant now) plans)))"

section \<open>What the ledger keeps\<close>

definition exit_ledger_ok :: "exit_ledger \<Rightarrow> bool" where
  "exit_ledger_ok l \<longleftrightarrow> keys_unique tx_plan_id l \<and> keys_unique tx_client_order_id l"

definition exit_progress :: "TimeExitRecord \<Rightarrow> TimeExitRecord \<Rightarrow> bool" where
  "exit_progress r r' \<longleftrightarrow> tx_client_order_id r' = tx_client_order_id r \<and> tx_symbol r' = tx_symbol r \<and>
     (tx_status r = EXIT_COMPLETE \<longrightarrow> r' = r) \<and> (tx_quantity r \<noteq> None \<longrightarrow> tx_quantity r' \<noteq> None) \<and>
     (tx_broker_order_id r \<noteq> None \<longrightarrow> tx_broker_order_id r' \<noteq> None)"

definition exit_below :: "exit_ledger \<Rightarrow> exit_ledger \<Rightarrow> bool" where
  "exit_below l l' \<longleftrightarrow> (\<forall>pid r. find_exit pid l = Some r \<longrightarrow>
     (\<exists>r'. find_exit pid l' = Some r' \<and> exit_progress r r'))"

lemma exit_progress_refl: "exit_progress r r"
  by (simp add: exit_progress_def)

lemma exit_progress_trans: "exit_progress r s \<Longrightarrow> exit_progress s t \<Longrightarrow> exit_progress r t"
  by (auto simp: exit_progress_def)

lemma exit_below_refl: "exit_below l l"
  by (simp add: exit_below_def exit_progress_refl)

lemma exit_below_trans: "exit_below l m \<Longrightarrow> exit_below m n \<Longrightarrow> exit_below l n"
  unfolding exit_below_def using exit_progress_trans by blast

lemma ensure_exit_outcome:
  "ensure_exit plan cid tm l =
     (if \<not> is_utc tm then (Inl (ValueError ''time-exit timestamp must be timezone-aware UTC''), l)
      else case find_exit (tp_plan_id plan) l of
        Some r \<Rightarrow> if tx_client_order_id r \<noteq> cid \<or> tx_symbol r \<noteq> tp_symbol plan
                  then (Inl (RuntimeError ''time-exit identity conflict''), l) else (Inr r, l)
      | None \<Rightarrow> if list_all (\<lambda>r. tx_client_order_id r \<noteq> cid) l
                then (Inr (planned_exit plan cid tm), tbl_insert (planned_exit plan cid tm) l)
                else (Inl (IntegrityError ''time_exit_actions.client_order_id''), l))"
proof -
  have "find_exit (tp_plan_id plan) (tbl_insert (planned_exit plan cid tm) l) = Some (planned_exit plan cid tm)"
    if "find_exit (tp_plan_id plan) l = None"
    using that by (simp add: tbl planned_exit_def)
  then show ?thesis
    by (auto simp: ensure_exit_def require_exit_utc_def run planned_exit_def split: option.split)
qed

lemma keeps_ensure_exit [keeps_intro]: "keeps exit_ledger_ok exit_below (ensure_exit plan cid tm)"
proof (rule keepsI)
  fix l assume ok: "exit_ledger_ok l"
  have "exit_ledger_ok (tbl_insert (planned_exit plan cid tm) l)"
    if "find_exit (tp_plan_id plan) l = None" "list_all (\<lambda>r. tx_client_order_id r \<noteq> cid) l"
    using ok that by (auto simp: exit_ledger_ok_def planned_exit_def tbl tbl_find_None_iff list_all_iff
        intro!: keys_unique_insert)
  moreover have "exit_below l (tbl_insert (planned_exit plan cid tm) l)"
    by (auto simp: exit_below_def tbl exit_progress_refl)
  ultimately show "exit_ledger_ok (snd (ensure_exit plan cid tm l)) \<and> exit_below l (snd (ensure_exit plan cid tm l))"
    using ok by (auto simp: ensure_exit_outcome exit_below_refl split: option.split)
qed

definition updated_exit ::
    "TimeExitStatus \<Rightarrow> datetime \<Rightarrow> string \<Rightarrow> int option \<Rightarrow> string option \<Rightarrow> TimeExitRecord \<Rightarrow> TimeExitRecord" where
  "updated_exit status tm prov q bid r = r\<lparr>tx_status := status, tx_quantity := coalesce q (tx_quantity r),
     tx_broker_order_id := coalesce bid (tx_broker_order_id r), tx_updated_at_utc := tm, tx_provenance := prov\<rparr>"

lemma update_exit_outcome:
  "update_exit pid status tm prov q bid l =
     (if \<not> is_utc tm then (Inl (ValueError ''time-exit timestamp must be timezone-aware UTC''), l)
      else if is_blank prov then (Inl (ValueError ''time-exit provenance is required''), l)
      else case find_exit pid l of
        None \<Rightarrow> (Inl (KeyError (''unknown time-exit plan: '' @ pid)), l)
      | Some r \<Rightarrow> if tx_status r = EXIT_COMPLETE then (Inr r, l)
                  else (Inr (updated_exit status tm prov q bid r),
                        tbl_update tx_plan_id pid (updated_exit status tm prov q bid) l))"
  by (simp add: update_exit_def require_exit_utc_def get_exit_def run updated_exit_def [abs_def] tbl_find_update
      split: option.split)

lemma updated_exit_keys [simp]:
  "tx_plan_id (updated_exit status tm prov q bid r) = tx_plan_id r"
  "tx_client_order_id (updated_exit status tm prov q bid r) = tx_client_order_id r"
  by (simp_all add: updated_exit_def)

lemma updated_exit_progress:
  "tx_status r \<noteq> EXIT_COMPLETE \<Longrightarrow> exit_progress r (updated_exit status tm prov q bid r)"
  by (auto simp: exit_progress_def updated_exit_def coalesce_def split: option.split)

lemma keeps_update_exit [keeps_intro]: "keeps exit_ledger_ok exit_below (update_exit pid status tm prov q bid)"
proof (rule keepsI)
  fix l assume ok: "exit_ledger_ok l"
  have "exit_ledger_ok (tbl_update tx_plan_id pid (updated_exit status tm prov q bid) l)"
    using ok by (simp add: exit_ledger_ok_def keys_unique_def tbl_update_def if_distrib [of tx_plan_id]
        if_distrib [of tx_client_order_id] o_def cong: if_cong)
  moreover have "exit_below l (tbl_update tx_plan_id pid (updated_exit status tm prov q bid) l)"
    if "find_exit pid l = Some r" "tx_status r \<noteq> EXIT_COMPLETE" for r
    using that by (auto simp: exit_below_def tbl_find_update exit_progress_refl updated_exit_progress)
  ultimately show "exit_ledger_ok (snd (update_exit pid status tm prov q bid l)) \<and>
      exit_below l (snd (update_exit pid status tm prov q bid l))"
    using ok by (auto simp: update_exit_outcome exit_below_refl split: option.split)
qed

interpretation exit_desk: growing "\<lambda>p :: 'b exit_desk. exit_ledger_ok (snd p)"
  "\<lambda>p q. exit_below (snd p) (snd q)"
  by unfold_locales (blast intro: exit_below_refl exit_below_trans)+

lemmas exit_lift = keeps_on_snd [of exit_ledger_ok exit_below, OF keeps_ensure_exit]
  keeps_on_snd [of exit_ledger_ok exit_below, OF keeps_update_exit]
  keeps_on_fst [of exit_below exit_ledger_ok, OF exit_below_refl]

lemma keeps_close_position:
  "keeps (\<lambda>p. exit_ledger_ok (snd p)) (\<lambda>p q. exit_below (snd p) (snd q))
     (close_position port plan cid now cancelled position)"
  unfolding close_position_def by (intro exit_desk.keeps_rules exit_lift)

lemma keeps_run_plan:
  "keeps (\<lambda>p. exit_ledger_ok (snd p)) (\<lambda>p q. exit_below (snd p) (snd q)) (run_plan port sha16 auth now plan)"
  unfolding run_plan_def Let_def by (intro exit_desk.keeps_rules exit_lift keeps_close_position)

lemma keeps_run_due:
  "keeps (\<lambda>p. exit_ledger_ok (snd p)) (\<lambda>p q. exit_below (snd p) (snd q)) (run_due port sha16 auth orders now)"
  unfolding run_due_def by (intro exit_desk.keeps_rules keeps_run_plan)

interpretation exit_machine: guarded_machine "\<lambda>p :: 'b exit_desk. exit_ledger_ok (snd p)"
  "\<lambda>p q. exit_below (snd p) (snd q)"
  "\<lambda>(port, sha16, auth, orders, now) p. snd (run_due port sha16 auth orders now p)"
proof (unfold_locales, goal_cases)
  case (1 p c)
  then show ?case by (cases c) (simp add: keepsD [OF keeps_run_due])
next
  case (2 p c)
  then show ?case by (cases c) (simp add: keepsD [OF keeps_run_due])
qed

interpretation exit_once: once_store "\<lambda>l pid. find_exit pid l" "\<lambda>(plan, cid, tm). ensure_exit plan cid tm"
  "\<lambda>(plan, _, _). tp_plan_id plan" "\<lambda>(plan, cid, _) r. tx_client_order_id r = cid \<and> tx_symbol r = tp_symbol plan"
  "\<lambda>_. True" exit_ledger_ok
proof (unfold_locales, goal_cases)
  case (1 s i r t q)
  then show ?case by (cases i) (auto simp: ensure_exit_outcome split: if_splits)
next
  case (2 s i r t)
  then show ?case by (cases i) (auto simp: ensure_exit_outcome tbl planned_exit_def split: if_splits)
next
  case (3 s i x t k)
  then show ?case
    by (cases i) (auto simp: ensure_exit_outcome tbl planned_exit_def split: if_splits option.splits)
next
  case (4 s i e t)
  then show ?case by (cases i) (auto simp: ensure_exit_outcome split: if_splits option.splits)
next
  case (5 s i x t)
  then show ?case using keepsD [OF keeps_ensure_exit] by (cases i) (metis case_prod_conv snd_conv)
qed

section \<open>What a run sends\<close>

lemma position_of_Some: "position_of symb ps = Some pos \<Longrightarrow> pos \<in> set ps \<and> pp_symbol pos = symb"
  by (auto simp: position_of_def dest!: map_of_SomeD)

context wired_broker
begin

lemma cancel_working_book:
  assumes "cancel_working port symb cid orders b = (x, b')"
  shows "\<exists>oids. book b' = book b @ map cancel_write oids \<and>
    set oids \<subseteq> bo_id ` {ord \<in> set orders. bo_symbol ord = symb \<and> bo_client_order_id ord \<noteq> cid}"
  using assms
proof (induction orders arbitrary: b x b')
  case Nil
  then show ?case by simp
next
  case (Cons ord orders)
  show ?case
  proof (cases "bo_symbol ord \<noteq> symb \<or> bo_client_order_id ord = cid")
    case True
    with Cons.prems have "cancel_working port symb cid orders b = (x, b')" by simp
    from Cons.IH [OF this] show ?thesis by fastforce
  next
    case False
    obtain c b1 where can: "bp_cancel_order port (bo_id ord) b = (c, b1)" by fastforce
    obtain ws where ws: "book b1 = book b @ map cancel_write ws" "set ws \<subseteq> {bo_id ord}"
      using cancel_book [of "bo_id ord" b] can by (auto intro: that [of "[]"] that [of "[bo_id ord]"])
    show ?thesis
    proof (cases c)
      case (Inl e)
      with False Cons.prems can have "b' = b1" by (auto simp: bindS_run)
      with ws False show ?thesis by (intro exI [of _ ws]) auto
    next
      case (Inr d)
      obtain y b2 where rest: "cancel_working port symb cid orders b1 = (y, b2)" by fastforce
      with False Inr Cons.prems can have "b' = b2" by (auto simp: bindS_run split: sum.splits)
      moreover obtain oids where "book b2 = book b1 @ map cancel_write oids"
        "set oids \<subseteq> bo_id ` {o' \<in> set orders. bo_symbol o' = symb \<and> bo_client_order_id o' \<noteq> cid}"
        using Cons.IH [OF rest] by blast
      ultimately show ?thesis using ws False by (intro exI [of _ "ws @ oids"]) auto
    qed
  qed
qed

lemma close_position_book:
  assumes "close_position port plan cid now cancelled position (b, l) = (x, (b', l'))"
  shows "book b' = book b \<or> (\<exists>pos q. position = Some pos \<and> pcr_client_order_id q = cid \<and>
     pcr_symbol q = tp_symbol plan \<and> exit_long_quantity pos = Inr (pcr_qty q) \<and>
     book (snd (bp_submit_close_order port q b)) = book b @ [close_write q] \<and>
     book b' = book b @ [close_write q])"
proof (cases position)
  case None
  with assms show ?thesis
    by (auto simp: close_position_def bindS_run on_snd_run split: prod.splits sum.splits)
next
  case (Some pos)
  show ?thesis
  proof (cases "exit_long_quantity pos")
    case (Inl e)
    with Some assms show ?thesis by (auto simp: close_position_def bindS_run liftS_run)
  next
    case (Inr n)
    let ?q = "\<lparr>pcr_client_order_id = cid, pcr_symbol = tp_symbol plan, pcr_qty = n\<rparr>"
    show ?thesis
    proof (cases "validate_close_request ?q")
      case (Inl e)
      with Some Inr assms show ?thesis by (auto simp: close_position_def bindS_run liftS_run)
    next
      case v: (Inr q)
      then have q: "q = ?q" by (auto simp: validate_close_request_def split: option.splits)
      obtain y b1 where sub: "bp_submit_close_order port q b = (y, b1)" by fastforce
      have "book b1 \<in> {book b, book b @ [close_write q]}" using close_book [of q b] sub by simp
      moreover have "b' = b1"
        using Some Inr v assms sub
        by (auto simp: close_position_def bindS_run liftS_run on_fst_run on_snd_run split: prod.splits sum.splits)
      ultimately consider "book b' = book b" | "book b' = book b @ [close_write q]" by blast
      then show ?thesis
      proof cases
        case 2
        have "pcr_client_order_id q = cid" "pcr_symbol q = tp_symbol plan" "exit_long_quantity pos = Inr (pcr_qty q)"
          using Inr by (simp_all add: q)
        with 2 Some sub \<open>b' = b1\<close> show ?thesis by (intro disjI2 exI [of _ pos] exI [of _ q]) simp
      qed blast
    qed
  qed
qed

lemma run_plan_book:
  assumes step: "run_plan port sha16 auth now plan (b, l) = (x, (b', l'))"
  shows "\<exists>oids closed. book b' = book b @ map cancel_write oids @ closed \<and>
    (oids = [] \<or> (\<exists>orders b0. bp_list_open_orders port b = (Inr orders, b0) \<and>
       set oids \<subseteq> bo_id ` {ord \<in> set orders. bo_symbol ord = tp_symbol plan \<and>
                              bo_client_order_id ord \<noteq> time_exit_client_id sha16 plan})) \<and>
    (closed = [] \<or> (\<exists>q pos positions b1 b2. closed = [close_write q] \<and>
       book b1 = book b @ map cancel_write oids \<and> bp_list_positions port b1 = (Inr positions, b2) \<and>
       position_of (tp_symbol plan) positions = Some pos \<and> exit_long_quantity pos = Inr (pcr_qty q) \<and>
       pcr_client_order_id q = time_exit_client_id sha16 plan \<and> pcr_symbol q = tp_symbol plan \<and>
       book (snd (bp_submit_close_order port q b2)) = book b2 @ [close_write q])) \<and>
    (\<not> (auth \<and> bp_writes_enabled port b) \<or>
     (\<exists>r. find_exit (tp_plan_id plan) l = Some r \<and> tx_status r = EXIT_COMPLETE) \<longrightarrow> oids = [] \<and> closed = [])"
proof -
  let ?cid = "time_exit_client_id sha16 plan" and ?symb = "tp_symbol plan"
  obtain y l1 where en: "ensure_exit plan ?cid now l = (y, l1)" by fastforce
  have silent: ?thesis if "book b' = book b" using that by (intro exI [of _ "[]"]) simp
  note step' = step [unfolded run_plan_def Let_def bindS_run on_snd_run en prod.case]
  show ?thesis
  proof (cases "\<exists>r. y = Inr r \<and> tx_status r \<noteq> EXIT_COMPLETE \<and> auth \<and> bp_writes_enabled port b")
    case False
    with step' show ?thesis by (intro silent) (auto split: sum.splits if_splits)
  next
    case True
    then obtain r where r: "y = Inr r" "tx_status r \<noteq> EXIT_COMPLETE" "auth" "bp_writes_enabled port b" by blast
    have live: "\<nexists>r. find_exit (tp_plan_id plan) l = Some r \<and> tx_status r = EXIT_COMPLETE"
      using en r(1,2) by (auto simp: ensure_exit_outcome split: if_splits)
    obtain g b1 where oo: "bp_list_open_orders port b = (g, b1)" by fastforce
    have b1: "book b1 = book b" using open_orders_silent [of b] oo by simp
    note step1 = step' [unfolded r(1) sum.case prod.case if_not_P [OF r(2)] bindS_run readS_run fst_conv
        on_fst_run oo]
    show ?thesis
    proof (cases g)
      case (Inl e)
      with step1 r b1 oo show ?thesis by (intro silent) (auto simp: on_fst_run)
    next
      case g: (Inr orders)
      obtain c b2 where can: "cancel_working port ?symb ?cid orders b1 = (c, b2)" by fastforce
      obtain oids where oids: "book b2 = book b @ map cancel_write oids"
        "set oids \<subseteq> bo_id ` {ord \<in> set orders. bo_symbol ord = ?symb \<and> bo_client_order_id ord \<noteq> ?cid}"
        using cancel_working_book [OF can] b1 by auto
      have cancelled: ?thesis if "book b' = book b2"
        using that oids oo g r live by (intro exI [of _ oids] exI [of _ "[]"]) auto
      show ?thesis
      proof (cases c)
        case (Inl e)
        with step1 r g can oo show ?thesis by (intro cancelled) (auto simp: on_fst_run)
      next
        case c: (Inr cancels)
        obtain p b3 where ps: "bp_list_positions port b2 = (p, b3)" by fastforce
        have b3: "book b3 = book b2" using positions_silent [of b2] ps by simp
        show ?thesis
        proof (cases p)
          case (Inl e)
          with step1 r g can c ps b3 oo show ?thesis by (intro cancelled) (auto simp: on_fst_run)
        next
          case p: (Inr positions)
          have cl: "close_position port plan ?cid now cancels (position_of ?symb positions) (b3, l1) = (x, (b', l'))"
            using step1 r g can c ps p oo by (auto simp: on_fst_run)
          from close_position_book [OF cl] show ?thesis
          proof (elim disjE exE conjE)
            assume "book b' = book b3"
            with b3 show ?thesis by (intro cancelled) simp
          next
            fix pos q
            assume q: "position_of ?symb positions = Some pos" "pcr_client_order_id q = ?cid"
              "pcr_symbol q = ?symb" "exit_long_quantity pos = Inr (pcr_qty q)"
              "book b' = book b3 @ [close_write q]"
              "book (snd (bp_submit_close_order port q b3)) = book b3 @ [close_write q]"
            have "\<exists>qa pos positions b1 b2'. [close_write q] = [close_write qa] \<and>
               book b1 = book b @ map cancel_write oids \<and> bp_list_positions port b1 = (Inr positions, b2') \<and>
               position_of ?symb positions = Some pos \<and> exit_long_quantity pos = Inr (pcr_qty qa) \<and>
               pcr_client_order_id qa = ?cid \<and> pcr_symbol qa = ?symb \<and>
               book (snd (bp_submit_close_order port qa b2')) = book b2' @ [close_write qa]"
              using q(1-4,6) oids(1) ps p
              by (intro exI [of _ q] exI [of _ pos] exI [of _ positions] exI [of _ b2] exI [of _ b3]) simp
            note was = this
            have "book b' = book b @ map cancel_write oids @ [close_write q]" using q(5) b3 oids(1) by simp
            moreover have "bp_list_open_orders port b = (Inr orders, b1)" using oo g by simp
            ultimately show ?thesis using was oids(2) r live
              by (intro exI [of _ oids] exI [of _ "[close_write q]"] conjI) blast+
          qed
        qed
      qed
    qed
  qed
qed

end

section \<open>Properties\<close>

text \<open>C22: what the time exit of a plan sends.  Without authorization, with writes disabled or for a
  finished exit it sends nothing.  Otherwise it sends cancellations of open orders of the plan's
  symbol that are not its own, and then at most one order: a sell of exactly the whole long position
  that the broker listed after those cancellations, under the plan's exit id.\<close>

theorem time_exit_sends:
  "let wire' = snd (fst (snd (run_plan (direct_alpaca (recorded env)) sha16 auth now plan (p, l)))) in
    \<exists>oids closed. wire' = snd p @ map delete_order oids @ closed \<and>
      (oids = [] \<or> (\<exists>orders p0. direct_list_open_orders (recorded env) p = (Inr orders, p0) \<and>
         set oids \<subseteq> bo_id ` {ord \<in> set orders. bo_symbol ord = tp_symbol plan \<and>
                                bo_client_order_id ord \<noteq> time_exit_client_id sha16 plan})) \<and>
      (closed = [] \<or> (\<exists>q pos positions p1 p2. closed = [post_order (close_payload q)] \<and>
         snd p1 = snd p @ map delete_order oids \<and>
         direct_list_positions (recorded env) p1 = (Inr positions, p2) \<and>
         position_of (tp_symbol plan) positions = Some pos \<and> exit_long_quantity pos = Inr (pcr_qty q) \<and>
         pcr_client_order_id q = time_exit_client_id sha16 plan \<and> pcr_symbol q = tp_symbol plan)) \<and>
      (\<not> (auth \<and> ae_writes_enabled env (fst p)) \<or>
       (\<exists>r. find_exit (tp_plan_id plan) l = Some r \<and> tx_status r = EXIT_COMPLETE) \<longrightarrow>
       oids = [] \<and> closed = [])"
proof -
  obtain x p' l' where step: "run_plan (direct_alpaca (recorded env)) sha16 auth now plan (p, l) = (x, (p', l'))"
    by (metis prod.exhaust)
  have port: "bp_list_open_orders (direct_alpaca (recorded env)) = direct_list_open_orders (recorded env)"
    "bp_list_positions (direct_alpaca (recorded env)) = direct_list_positions (recorded env)"
    "bp_writes_enabled (direct_alpaca (recorded env)) p = ae_writes_enabled env (fst p)"
    by (simp_all add: direct_alpaca_def)
  show ?thesis using alpaca_wire.run_plan_book [OF step] unfolding port step Let_def fst_conv snd_conv
    by (elim exE conjE) (intro exI conjI; (assumption | blast))
qed

text \<open>Over any sequence of runs, with any brokers, plans and times, the exit ledger keeps its keys
  unique, never forgets an exit, its quantity or its broker order, and never touches a finished
  exit again.\<close>

theorem time_exit_runs_keep_ledger:
  fixes cmds :: "('b broker_port \<times> (string \<Rightarrow> string) \<times> bool \<times> order_ledger \<times> datetime) list"
  assumes "exit_ledger_ok l"
  shows "let l' = snd (fold (\<lambda>(port, sha16, auth, orders, now) p. snd (run_due port sha16 auth orders now p)) cmds (b, l))
    in exit_ledger_ok l' \<and> exit_below l l'"
  using exit_machine.run_all_inv [of "(b, l)" cmds] exit_machine.run_all_up [of "(b, l)" cmds] assms
  unfolding exit_machine.run_all_def Let_def by simp

text \<open>C23: an exit whose close order failed is never closed.  The exit id depends on the plan alone, so
  once the broker knows a rejected, cancelled or expired order under it, every later run finds that
  order and sends no other one.\<close>

theorem failed_exit_never_retried:
  assumes known: "\<And>p. \<exists>ord p'. direct_get_order (recorded env) (time_exit_client_id sha16 plan) p = (Inr (Some ord), p')
     \<and> close_status ord = EXIT_FAILED"
  shows "\<exists>oids. snd (fst (snd (run_plan (direct_alpaca (recorded env)) sha16 auth now plan (p, l)))) =
     snd p @ map delete_order oids"
proof -
  let ?cid = "time_exit_client_id sha16 plan" and ?port = "direct_alpaca (recorded env)"
  obtain x p' l' where step: "run_plan ?port sha16 auth now plan (p, l) = (x, (p', l'))"
    by (metis prod.exhaust)
  have quiet: "snd (snd (submit_idempotent (recorded env) ?cid payload None p2)) = snd p2" for payload p2
  proof -
    obtain ord p3 where g: "direct_get_order (recorded env) ?cid p2 = (Inr (Some ord), p3)" using known by blast
    then have "snd p3 = snd p2" using direct_get_order_log [of env ?cid p2] by simp
    with g show ?thesis by (simp add: submit_idempotent_def thenS_run bindS_run require_writes_run)
  qed
  have none: False if "pcr_client_order_id q = ?cid"
    "snd (snd (bp_submit_close_order ?port q p2)) = snd p2 @ [post_order (close_payload q)]" for q p2
    using that quiet [of "close_payload q" p2] by (simp add: direct_alpaca_def)
  obtain oids closed where w: "snd p' = snd p @ map delete_order oids @ closed"
    and c: "closed = [] \<or> (\<exists>q pos positions b1 b2. closed = [post_order (close_payload q)] \<and>
       snd b1 = snd p @ map delete_order oids \<and> bp_list_positions ?port b1 = (Inr positions, b2) \<and>
       position_of (tp_symbol plan) positions = Some pos \<and> exit_long_quantity pos = Inr (pcr_qty q) \<and>
       pcr_client_order_id q = ?cid \<and> pcr_symbol q = tp_symbol plan \<and>
       snd (snd (bp_submit_close_order ?port q b2)) = snd b2 @ [post_order (close_payload q)])"
    using alpaca_wire.run_plan_book [OF step] by blast
  have "closed = []" using c none by (elim disjE exE conjE) auto
  with w show ?thesis unfolding step by auto
qed

section \<open>Concrete runs\<close>

lemma time_exit_sends_witness:
  "snd (fst (snd (run_plan (direct_alpaca (recorded replaying_env)) (\<lambda>_. ''d'') False (utc 0) sample_plan (((), []), [])))) = []"
  using time_exit_sends [of replaying_env "\<lambda>_. ''d''" False "utc 0" sample_plan "((), [])" "[]"]
  by (simp add: Let_def)

lemma time_exit_runs_keep_ledger_witness:
  "exit_ledger_ok (snd (fold (\<lambda>(port, sha16, auth, orders, now) p. snd (run_due port sha16 auth orders now p))
     [(sim_port True [], \<lambda>_. ''d'', True, empty_ledger, utc 0)] ([], [planned_exit sample_plan ''c1'' (utc 0)])))"
proof -
  have "exit_ledger_ok [planned_exit sample_plan ''c1'' (utc 0)]"
    by (simp add: exit_ledger_ok_def keys_unique_def)
  from time_exit_runs_keep_ledger [OF this, of "[(sim_port True [], \<lambda>_. ''d'', True, empty_ledger, utc 0)]" "[]"]
  show ?thesis unfolding Let_def by (rule conjunct1)
qed

definition refusing_env :: "unit alpaca_env" where
  \<comment> \<open>a broker that holds the position and knows the exit order as rejected\<close>
  "refusing_env = \<lparr>ae_http = (\<lambda>m path params body b. (Inr \<lparr>hr_status_code = 200,
       hr_json = Some (if path = ''/v2/positions'' then JList [JNull] else if path = ''/v2/orders'' then JList []
                       else JObj [])\<rparr>, b)),
     ae_decode_order = (\<lambda>_. Inr (BrokerOrder ''b1'' ''c1'' ''AAPL'' 10 ''0'' ''rejected'' None (Some ''sell'') None [])),
     ae_decode_position = (\<lambda>_. Inr \<lparr>pp_symbol = ''AAPL'', pp_qty = ''10'', pp_side = ''long''\<rparr>),
     ae_writes_enabled = (\<lambda>_. True)\<rparr>"

lemma failed_exit_never_retried_witness:
  "\<exists>oids. snd (fst (snd (run_plan (direct_alpaca (recorded refusing_env)) (\<lambda>_. ''d'') True (utc 0) sample_plan (((), []), [])))) =
     map delete_order oids"
proof -
  have "\<exists>ord p'. direct_get_order (recorded refusing_env) cid p = (Inr (Some ord), p') \<and> close_status ord = EXIT_FAILED"
    for cid and p :: "unit \<times> wire_write list"
  proof -
    have "close_status (BrokerOrder ''b1'' ''c1'' ''AAPL'' 10 ''0'' ''rejected'' None (Some ''sell'') None []) = EXIT_FAILED"
      by code_simp
    then show ?thesis
      by (simp add: direct_get_order_def bindS_run request_raw_def recorded_http_def refusing_env_def
          decode_response_def response_object_def liftS_run)
  qed
  from failed_exit_never_retried [OF this, of "\<lambda>_. ''d''" True "utc 0" sample_plan "((), [])" "[]"]
  show ?thesis by simp
qed

end
