(* ===== verification/CloudPaper.thy ===== *)
theory CloudPaper
  imports AlpacaPaper
begin

text \<open>
  The keyless client of the isolated cloud platform (class \<open>CloudPaperBroker\<close> of
  execution/alpaca_paper.py), the second implementation of the broker port.  Every call is one
  request to the platform, which keeps orders idempotent on its side; transport and decoders are
  those of \<open>alpaca_env\<close>.  Tokens, base URL and the client's life cycle are not modelled.
\<close>

section \<open>Requests\<close>

definition PLATFORM_API_VERSION :: string where
  "PLATFORM_API_VERSION = ''v1''"

definition platform_path :: "string \<Rightarrow> string" where
  "platform_path suffix = ''/'' @ PLATFORM_API_VERSION @ ''/paper/'' @ suffix"

definition cloud_failure :: "string \<Rightarrow> py_error" where
  "cloud_failure name = BrokerError (''broker request failed: '' @ name)"

definition cloud_request ::
    "'b alpaca_env \<Rightarrow> http_method \<Rightarrow> string \<Rightarrow> (string \<times> string) list \<Rightarrow> json option
       \<Rightarrow> ('b, (string \<times> json) list) op" where
  "cloud_request env m path params body b =
     (case ae_http env m path params body b of
        (Inl name, b') \<Rightarrow> (Inl (cloud_failure name), b')
      | (Inr r, b') \<Rightarrow>
          if \<not> (200 \<le> hr_status_code r \<and> hr_status_code r < 300)
          then (Inl (cloud_failure ''HTTPStatusError''), b')
          else (case hr_json r of
              None \<Rightarrow> (Inl (cloud_failure ''JSONDecodeError''), b')
            | Some (JObj kvs) \<Rightarrow>
                if json_get ''api_version'' kvs = JStr PLATFORM_API_VERSION then (Inr kvs, b')
                else (Inl (BrokerError ''broker API response contract is invalid''), b')
            | Some _ \<Rightarrow> (Inl (BrokerError ''broker API response contract is invalid''), b')))"

section \<open>Calls\<close>

definition cloud_get_order :: "'b alpaca_env \<Rightarrow> string \<Rightarrow> ('b, BrokerOrder option) op" where
  "cloud_get_order env cid =
     bindS (cloud_request env GET (platform_path ''orders/by-client-id'') [(''client_order_id'', cid)] None)
     (\<lambda>kvs. if json_get ''order'' kvs = JNull then returnS None
            else bindS (liftS (ae_decode_order env (json_get ''order'' kvs))) (\<lambda>o'. returnS (Some o')))"

definition cloud_get_account ::
    "(json \<Rightarrow> py_error + PaperAccount) \<Rightarrow> 'b alpaca_env \<Rightarrow> ('b, PaperAccount) op" where
  "cloud_get_account decode env =
     bindS (cloud_request env GET (platform_path ''account'') [] None) (\<lambda>kvs.
       liftS (decode (json_get ''account'' kvs)))"

definition cloud_list_positions :: "'b alpaca_env \<Rightarrow> ('b, PaperPosition list) op" where
  "cloud_list_positions env =
     bindS (cloud_request env GET (platform_path ''positions'') [] None) (\<lambda>kvs.
       case json_get ''positions'' kvs of
         JList xs \<Rightarrow> mapS (\<lambda>j. liftS (ae_decode_position env j)) xs
       | _ \<Rightarrow> raiseS (BrokerError ''broker positions response was not a list''))"

definition cloud_list_open_orders :: "'b alpaca_env \<Rightarrow> ('b, BrokerOrder list) op" where
  "cloud_list_open_orders env =
     bindS (cloud_request env GET (platform_path ''orders/open'') [] None) (\<lambda>kvs.
       case json_get ''orders'' kvs of
         JList xs \<Rightarrow> mapS (\<lambda>j. liftS (ae_decode_order env j)) xs
       | _ \<Rightarrow> raiseS (BrokerError ''broker open-orders response was not a list''))"

definition cloud_cancel_order :: "'b alpaca_env \<Rightarrow> string \<Rightarrow> ('b, bool) op" where
  "cloud_cancel_order env oid = thenS (require_writes_enabled env)
     (bindS (cloud_request env DELETE (platform_path (''orders/cancel/'' @ oid)) [] None)
        (\<lambda>kvs. returnS (json_get ''cancelled'' kvs = JBool True)))"

definition cloud_body :: "string \<Rightarrow> (string \<times> json) list \<Rightarrow> json" where
  "cloud_body kind request = JObj [(''kind'', JStr kind), (''request'', JObj request)]"

definition cloud_submit ::
    "'b alpaca_env \<Rightarrow> string \<Rightarrow> (string \<times> json) list \<Rightarrow> ('b, unit) op option \<Rightarrow> ('b, BrokerOrder) op" where
  \<comment> \<open>the body that the five submitting methods share\<close>
  "cloud_submit env kind request before_submit = thenS (require_writes_enabled env)
     (thenS (case before_submit of None \<Rightarrow> returnS () | Some f \<Rightarrow> f)
     (bindS (cloud_request env POST (platform_path ''orders'') [] (Some (cloud_body kind request)))
        (\<lambda>kvs. liftS (ae_decode_order env (json_get ''order'' kvs)))))"

text \<open>\<open>request.model_dump(mode="json")\<close>\<close>

definition json_opt :: "string option \<Rightarrow> json" where
  "json_opt v = (case v of None \<Rightarrow> JNull | Some s \<Rightarrow> JStr s)"

definition dump_identity :: "string \<Rightarrow> string \<Rightarrow> int \<Rightarrow> (string \<times> json) list" where
  "dump_identity cid symb qty = [(''client_order_id'', JStr cid), (''symbol'', JStr symb), (''qty'', JInt qty)]"

definition dump_kind :: "string \<Rightarrow> string \<Rightarrow> bool \<Rightarrow> (string \<times> json) list" where
  "dump_kind side type extended = [(''side'', JStr side), (''order_type'', JStr type),
     (''time_in_force'', JStr ''day''), (''extended_hours'', JBool extended)]"

definition dump_entry :: "PaperOrderRequest \<Rightarrow> (string \<times> json) list" where
  "dump_entry r = dump_identity (por_client_order_id r) (por_symbol r) (por_qty r) @
     dump_kind ''buy'' (por_order_type r) False @
     [(''limit_price'', json_opt (por_limit_price r)),
      (''take_profit_price'', json_opt (por_take_profit_price r)),
      (''stop_loss_price'', json_opt (por_stop_loss_price r))]"

definition dump_protected :: "ProtectedPaperEntryRequest \<Rightarrow> (string \<times> json) list" where
  "dump_protected r = dump_identity (ppe_client_order_id r) (ppe_symbol r) (ppe_qty r) @
     [(''limit_price'', JStr (ppe_limit_price r)), (''stop_loss_price'', JStr (ppe_stop_loss_price r)),
      (''take_profit_price'', JStr (ppe_take_profit_price r))] @ dump_kind ''buy'' ''limit'' False"

definition dump_close :: "PaperCloseRequest \<Rightarrow> (string \<times> json) list" where
  "dump_close r = dump_identity (pcr_client_order_id r) (pcr_symbol r) (pcr_qty r) @
     dump_kind ''sell'' ''market'' False"

definition dump_stop :: "PaperStopRequest \<Rightarrow> (string \<times> json) list" where
  "dump_stop r = dump_identity (psr_client_order_id r) (psr_symbol r) (psr_qty r) @
     [(''stop_price'', JStr (psr_stop_price r))] @ dump_kind ''sell'' ''stop'' False"

definition dump_extended :: "PaperExtendedLimitRequest \<Rightarrow> (string \<times> json) list" where
  "dump_extended r = dump_identity (pel_client_order_id r) (pel_symbol r) (pel_qty r) @
     dump_kind (pel_side r) ''limit'' True @ [(''limit_price'', JStr (pel_limit_price r))]"

definition cloud_paper :: "'b alpaca_env \<Rightarrow> 'b broker_port" where
  "cloud_paper env =
     \<lparr>bp_writes_enabled = ae_writes_enabled env, bp_broker_identity = ''cloud.paper'',
      bp_get_order_by_client_id = cloud_get_order env,
      bp_list_positions = cloud_list_positions env,
      bp_list_open_orders = cloud_list_open_orders env,
      bp_cancel_order = cloud_cancel_order env,
      bp_submit_order = (\<lambda>r. cloud_submit env ''entry'' (dump_entry r) None),
      bp_submit_close_order = (\<lambda>r. cloud_submit env ''close'' (dump_close r) None),
      bp_submit_stop_order = (\<lambda>r. cloud_submit env ''protective_stop'' (dump_stop r) None),
      bp_submit_extended_limit = (\<lambda>r. cloud_submit env ''extended_limit'' (dump_extended r) None)\<rparr>"

definition cloud_submit_protected ::
    "'b alpaca_env \<Rightarrow> ProtectedPaperEntryRequest \<Rightarrow> ('b, unit) op option \<Rightarrow> ('b, BrokerOrder) op" where
  "cloud_submit_protected env r before_submit = cloud_submit env ''entry'' (dump_protected r) before_submit"

section \<open>What reaches the platform\<close>

lemma cloud_request_log:
  "snd (snd (cloud_request (recorded env) m path params body p)) =
     (if m = GET then snd p else snd p @ [(m, path, body)])"
  by (auto simp: cloud_request_def recorded_http_def split: prod.split sum.split option.split json.split)

lemma cloud_get_log: "snd (snd (cloud_get_order (recorded env) cid p)) = snd p"
  by (simp add: cloud_get_order_def snd_bindS cloud_request_log)

lemma cloud_account_log: "snd (snd (cloud_get_account decode (recorded env) p)) = snd p"
  by (simp add: cloud_get_account_def snd_bindS cloud_request_log)

lemma cloud_positions_log: "snd (snd (cloud_list_positions (recorded env) p)) = snd p"
  by (simp add: cloud_list_positions_def snd_bindS cloud_request_log split: json.split)

lemma cloud_open_orders_log: "snd (snd (cloud_list_open_orders (recorded env) p)) = snd p"
  by (simp add: cloud_list_open_orders_def snd_bindS cloud_request_log split: json.split)

definition cloud_post :: "string \<Rightarrow> (string \<times> json) list \<Rightarrow> wire_write" where
  "cloud_post kind request = (POST, platform_path ''orders'', Some (cloud_body kind request))"

definition cloud_delete :: "string \<Rightarrow> wire_write" where
  "cloud_delete oid = (DELETE, platform_path (''orders/cancel/'' @ oid), None)"

lemma cloud_submit_log:
  "snd (snd (cloud_submit (recorded env) kind request None p)) =
     (if ae_writes_enabled env (fst p) then snd p @ [cloud_post kind request] else snd p)"
  by (simp add: cloud_submit_def thenS_run require_writes_run snd_bindS cloud_request_log cloud_post_def)

lemma cloud_cancel_log:
  "snd (snd (cloud_cancel_order (recorded env) oid p)) =
     (if ae_writes_enabled env (fst p) then snd p @ [cloud_delete oid] else snd p)"
  by (simp add: cloud_cancel_order_def thenS_run require_writes_run snd_bindS cloud_request_log cloud_delete_def)

lemmas cloud_logs = cloud_get_log cloud_positions_log cloud_open_orders_log cloud_submit_log cloud_cancel_log

interpretation cloud_wire: wired_broker "cloud_paper (recorded env)" snd cloud_delete
  "\<lambda>c. cloud_post ''close'' (dump_close c)" "\<lambda>x. cloud_post ''extended_limit'' (dump_extended x)" for env
  by unfold_locales (simp_all add: cloud_paper_def cloud_logs)

end
