(* ===== verification/AccountGuardian.thy ===== *)
theory AccountGuardian
  imports CloudPaper Positions Contracts
begin

text \<open>
  \<open>execution/account_guardian.py\<close>: the check that the Paper account belongs to the system alone,
  made before any new entry.  The state is a broker and the table \<open>account_guardian_days\<close>.
  \<open>ny_time\<close> is the parameter for \<open>now_utc.astimezone(ZoneInfo("America/New_York")).time()\<close>: the
  microseconds since the local midnight.
\<close>

section \<open>The day locks\<close>

datatype AccountGuardianStatus = CLEAR | BLOCKED | DAY_LOCKED

record guardian_day =
  gd_trade_date :: date
  gd_status :: AccountGuardianStatus
  gd_reason :: "string option"
  gd_updated_at_utc :: datetime

type_synonym guardian_ledger = "guardian_day list"

abbreviation find_day :: "date \<Rightarrow> guardian_ledger \<Rightarrow> guardian_day option" where
  "find_day \<equiv> tbl_find gd_trade_date"

definition day_status :: "date \<Rightarrow> (guardian_ledger, AccountGuardianStatus option) op" where
  "day_status d = readS (\<lambda>l. map_option gd_status (find_day d l))"

definition require_guardian_utc :: "datetime \<Rightarrow> ('s, unit) op" where
  "require_guardian_utc value = guardS (is_utc value) (ValueError ''account guardian timestamp must be UTC'')"

definition lock_day :: "date \<Rightarrow> string \<Rightarrow> datetime \<Rightarrow> (guardian_ledger, unit) op" where
  \<comment> \<open>the INSERT with its ON CONFLICT DO UPDATE\<close>
  "lock_day d reason at_utc = thenS (require_guardian_utc at_utc)
     (thenS (guardS (\<not> is_blank reason) (ValueError ''account guardian lock reason is required''))
     (writeS (\<lambda>l. case find_day d l of
         None \<Rightarrow> tbl_insert \<lparr>gd_trade_date = d, gd_status = DAY_LOCKED, gd_reason = Some reason,
                             gd_updated_at_utc = at_utc\<rparr> l
       | Some _ \<Rightarrow> tbl_update gd_trade_date d (\<lambda>r. r\<lparr>gd_status := DAY_LOCKED, gd_reason := Some reason,
                             gd_updated_at_utc := at_utc\<rparr>) l)))"

section \<open>The guardian\<close>

record AccountGuardianResult =
  gr_trade_date :: date
  gr_status :: AccountGuardianStatus
  gr_new_entries_allowed :: bool
  gr_reasons :: "string list"
  gr_cancelled_order_ids :: "string list"
  gr_flatten_order_ids :: "string list"
  gr_provenance :: string

definition owned_prefix :: "string \<Rightarrow> py_error + string" where
  \<comment> \<open>the constructor's check of \<open>owned_client_order_prefix\<close>\<close>
  "owned_prefix prefix = (if prefix = [] then Inl (ValueError ''owned client-order prefix is required'')
     else Inr prefix)"

definition whole_long_quantity :: "PaperPosition \<Rightarrow> py_error + int" where
  "whole_long_quantity position =
     (if \<not> is_long position then Inl (RuntimeError ''account guardian refuses to flatten a non-long position'')
      else whole_share_quantity (RuntimeError ''account guardian position quantity is invalid'')
             (RuntimeError ''account guardian requires positive whole-share positions'') (pp_qty position))"

definition guardian_close_request :: "date \<Rightarrow> PaperPosition \<Rightarrow> py_error + PaperCloseRequest" where
  "guardian_close_request d position =
     (case whole_long_quantity position of Inl e \<Rightarrow> Inl e | Inr qty \<Rightarrow> validate_close_request
        \<lparr>pcr_client_order_id = ''tsv2-'' @ date_compact d @ ''-'' @ pp_symbol position @ ''-guardian-flat'',
         pcr_symbol = pp_symbol position, pcr_qty = qty\<rparr>)"

definition flatten_position :: "'b broker_port \<Rightarrow> date \<Rightarrow> PaperPosition \<Rightarrow> ('b, string) op" where
  "flatten_position port d position =
     bindS (liftS (guardian_close_request d position)) (\<lambda>request.
     bindS (bp_submit_close_order port request) (\<lambda>order. returnS (bo_id order)))"

definition cancel_all :: "'b broker_port \<Rightarrow> BrokerOrder list \<Rightarrow> ('b, string list) op" where
  \<comment> \<open>\<open>tuple(order.id for order in orders if self.broker.cancel_order(order.id))\<close>\<close>
  "cancel_all port orders =
     bindS (mapS (\<lambda>o'. bindS (bp_cancel_order port (bo_id o')) (\<lambda>c. returnS (bo_id o', c))) orders)
       (\<lambda>rs. returnS (map fst (filter snd rs)))"

definition guardian_result ::
    "date \<Rightarrow> AccountGuardianStatus \<Rightarrow> string list \<Rightarrow> string list \<Rightarrow> string list \<Rightarrow> string \<Rightarrow> AccountGuardianResult"
  where
  \<comment> \<open>entries are allowed in the result \<open>CLEAR\<close> only\<close>
  "guardian_result d status reasons cancelled flattened provenance =
     \<lparr>gr_trade_date = d, gr_status = status, gr_new_entries_allowed = (status = CLEAR),
      gr_reasons = reasons, gr_cancelled_order_ids = cancelled, gr_flatten_order_ids = flattened,
      gr_provenance = provenance\<rparr>"

definition guardian_reasons ::
    "string \<Rightarrow> string list \<Rightarrow> BrokerOrder list \<Rightarrow> PaperPosition list \<Rightarrow> string list" where
  "guardian_reasons prefix owned orders positions =
     (if filter (\<lambda>o'. \<not> starts_with prefix (bo_client_order_id o')) orders \<noteq> [] then [''unknown_order_detected'']
      else if filter (\<lambda>p. pp_symbol p \<notin> set owned) positions \<noteq> [] then [''unknown_position_detected''] else [])"

definition regular_hours :: "int \<Rightarrow> bool" where
  \<comment> \<open>\<open>time(9, 30) <= local_time < time(16)\<close>, in microseconds\<close>
  "regular_hours us \<longleftrightarrow> 34200000000 \<le> us \<and> us < 57600000000"

type_synonym 'b guardian_desk = "'b \<times> guardian_ledger"

definition guardian_act ::
    "'b broker_port \<Rightarrow> (datetime \<Rightarrow> int) \<Rightarrow> date \<Rightarrow> datetime \<Rightarrow> string list \<Rightarrow> BrokerOrder list \<Rightarrow> PaperPosition list
       \<Rightarrow> ('b guardian_desk, AccountGuardianResult) op" where
  \<comment> \<open>from \<open>cancelled = ...\<close> on\<close>
  "guardian_act port ny_time d now reasons orders positions =
     bindS (on_fst (cancel_all port orders)) (\<lambda>cancelled.
       if \<not> regular_hours (ny_time now)
       then returnS (guardian_result d BLOCKED (reasons @ [''extended_hours_guardian_flatten_unavailable''])
              cancelled [] ''execution.account_guardian.extended_hours_block.v1'')
       else bindS (on_fst (mapS (flatten_position port d) positions)) (\<lambda>flattened.
            thenS (on_snd (lock_day d (hd reasons) now))
              (returnS (guardian_result d DAY_LOCKED reasons cancelled flattened
                 ''execution.account_guardian.cancel_flatten_day_lock.v1''))))"

definition guardian_reconcile ::
    "'b broker_port \<Rightarrow> (datetime \<Rightarrow> int) \<Rightarrow> bool \<Rightarrow> string \<Rightarrow> date \<Rightarrow> datetime \<Rightarrow> string list
       \<Rightarrow> ('b guardian_desk, AccountGuardianResult) op" where
  "guardian_reconcile port ny_time paper_authorized prefix d now owned =
     thenS (require_guardian_utc now)
     (bindS (on_snd (day_status d)) (\<lambda>status.
        if status = Some DAY_LOCKED
        then returnS (guardian_result d DAY_LOCKED [''day_lock_already_active''] [] []
               ''execution.account_guardian.persisted_day_lock.v1'')
        else
          bindS (on_fst (bp_list_open_orders port)) (\<lambda>orders.
          bindS (on_fst (bp_list_positions port)) (\<lambda>positions.
          let reasons = guardian_reasons prefix owned orders positions in
          if reasons = [] then returnS (guardian_result d CLEAR [] [] []
               ''execution.account_guardian.exclusive_account_clear.v1'')
          else bindS (readS (\<lambda>p. bp_writes_enabled port (fst p))) (\<lambda>writes.
            if \<not> paper_authorized \<or> \<not> writes
            then returnS (guardian_result d BLOCKED reasons [] []
                   ''execution.account_guardian.mutation_not_authorized.v1'')
            else guardian_act port ny_time d now reasons orders positions)))))"

section \<open>What the ledger keeps\<close>

text \<open>Every row of the table is a lock, and a locked day stays locked.\<close>

definition guardian_ok :: "guardian_ledger \<Rightarrow> bool" where
  "guardian_ok l \<longleftrightarrow> keys_unique gd_trade_date l \<and> (\<forall>r \<in> set l. gd_status r = DAY_LOCKED \<and> gd_reason r \<noteq> None)"

definition locks_below :: "guardian_ledger \<Rightarrow> guardian_ledger \<Rightarrow> bool" where
  "locks_below l l' \<longleftrightarrow> (\<forall>d. find_day d l \<noteq> None \<longrightarrow> find_day d l' \<noteq> None)"

lemma locks_below_refl: "locks_below l l"
  by (simp add: locks_below_def)

lemma locks_below_trans: "locks_below l m \<Longrightarrow> locks_below m n \<Longrightarrow> locks_below l n"
  by (simp add: locks_below_def)

lemma lock_day_outcome:
  assumes ok: "guardian_ok l"
  obtains l' where "guardian_ok l'" and "locks_below l l'" and "find_day d l' \<noteq> None"
    and "lock_day d reason tm l =
      (if \<not> is_utc tm then (Inl (ValueError ''account guardian timestamp must be UTC''), l)
       else if is_blank reason then (Inl (ValueError ''account guardian lock reason is required''), l)
       else (Inr (), l'))"
proof (cases "find_day d l")
  case None
  let ?r = "\<lparr>gd_trade_date = d, gd_status = DAY_LOCKED, gd_reason = Some reason, gd_updated_at_utc = tm\<rparr>"
  have "guardian_ok (tbl_insert ?r l)"
    using ok None by (auto simp: guardian_ok_def keys_unique_insert)
  moreover have "locks_below l (tbl_insert ?r l)" by (auto simp: locks_below_def tbl split: option.split)
  moreover have "find_day d (tbl_insert ?r l) \<noteq> None" using None by (simp add: tbl)
  ultimately show thesis
    using None by (intro that [of "tbl_insert ?r l"]) (simp_all add: lock_day_def require_guardian_utc_def run)
next
  case (Some q)
  let ?f = "\<lambda>r :: guardian_day. r\<lparr>gd_status := DAY_LOCKED, gd_reason := Some reason, gd_updated_at_utc := tm\<rparr>"
  have key: "\<And>r. gd_trade_date (?f r) = gd_trade_date r" by simp
  have find: "find_day k (tbl_update gd_trade_date d ?f l) =
      (if k = d then map_option ?f (find_day k l) else find_day k l)" for k
    using tbl_find_update [of gd_trade_date ?f, OF key] by simp
  have "guardian_ok (tbl_update gd_trade_date d ?f l)"
    using ok keys_unique_update [of gd_trade_date ?f, OF key]
    by (auto simp: guardian_ok_def in_set_tbl_update)
  moreover have "locks_below l (tbl_update gd_trade_date d ?f l)" using find by (simp add: locks_below_def)
  moreover have "find_day d (tbl_update gd_trade_date d ?f l) \<noteq> None" using Some find by simp
  ultimately show thesis
    using Some by (intro that [of "tbl_update gd_trade_date d ?f l"])
      (simp_all add: lock_day_def require_guardian_utc_def run)
qed

lemma keeps_lock_day: "keeps guardian_ok locks_below (lock_day d reason tm)"
proof (rule keepsI)
  fix l assume ok: "guardian_ok l"
  show "guardian_ok (snd (lock_day d reason tm l)) \<and> locks_below l (snd (lock_day d reason tm l))"
    by (rule lock_day_outcome [OF ok, of d reason tm]) (simp add: ok locks_below_refl)
qed

interpretation guardian_desk: growing "\<lambda>p :: 'b guardian_desk. guardian_ok (snd p)"
  "\<lambda>p q. locks_below (snd p) (snd q)"
  by unfold_locales (blast intro: locks_below_refl locks_below_trans)+

lemma keeps_guardian_reconcile:
  "keeps (\<lambda>p. guardian_ok (snd p)) (\<lambda>p q. locks_below (snd p) (snd q))
     (guardian_reconcile port ny_time auth prefix d now owned)"
  unfolding guardian_reconcile_def guardian_act_def require_guardian_utc_def Let_def day_status_def
  by (intro guardian_desk.keeps_rules keeps_on_snd keeps_lock_day
      keeps_on_fst [of locks_below guardian_ok, OF locks_below_refl] keepsI)
    (simp_all add: locks_below_refl)

section \<open>What the guardian sends\<close>

context wired_broker
begin

lemma mapS_book:
  assumes "\<And>x b. \<exists>ws. book (snd (f x b)) = book b @ ws \<and> set ws \<subseteq> W x"
  shows "\<exists>ws. book (snd (mapS f xs b)) = book b @ ws \<and> set ws \<subseteq> \<Union> (W ` set xs)"
proof (induction xs arbitrary: b)
  case (Cons x xs)
  obtain r b1 where fx: "f x b = (r, b1)" by fastforce
  obtain ws where ws: "book b1 = book b @ ws" "set ws \<subseteq> W x" using assms [of x b] fx by auto
  show ?case
  proof (cases r)
    case (Inl e)
    with fx ws show ?thesis by (auto simp: bindS_run)
  next
    case (Inr y)
    have "snd (mapS f (x # xs) b) = snd (mapS f xs b1)"
      using fx Inr by (auto simp: bindS_run split: prod.split sum.split)
    moreover obtain vs where "book (snd (mapS f xs b1)) = book b1 @ vs" "set vs \<subseteq> \<Union> (W ` set xs)"
      using Cons.IH by blast
    ultimately show ?thesis using ws by (intro exI [of _ "ws @ vs"]) auto
  qed
qed simp

lemma cancel_all_book:
  "\<exists>ws. book (snd (cancel_all port orders b)) = book b @ ws \<and> set ws \<subseteq> cancel_write ` bo_id ` set orders"
proof -
  let ?f = "\<lambda>o'. bindS (bp_cancel_order port (bo_id o')) (\<lambda>c. returnS (bo_id o', c))"
  have "\<exists>ws. book (snd (?f o' b)) = book b @ ws \<and> set ws \<subseteq> {cancel_write (bo_id o')}" for o' b
    using cancel_book [of "bo_id o'" b] by (auto simp: bindS_run split: prod.splits sum.splits)
  from mapS_book [of ?f "\<lambda>o'. {cancel_write (bo_id o')}" orders b, OF this]
  have "\<exists>ws. book (snd (mapS ?f orders b)) = book b @ ws \<and> set ws \<subseteq> cancel_write ` bo_id ` set orders"
    unfolding UNION_singleton_eq_range image_image .
  then show ?thesis by (auto simp: cancel_all_def bindS_run split: prod.splits sum.splits)
qed

lemma flatten_book:
  "\<exists>ws. book (snd (mapS (flatten_position port d) positions b)) = book b @ ws \<and>
     (\<forall>w \<in> set ws. \<exists>pos \<in> set positions. \<exists>q. guardian_close_request d pos = Inr q \<and> w = close_write q)"
proof -
  let ?W = "\<lambda>pos. {w. \<exists>q. guardian_close_request d pos = Inr q \<and> w = close_write q}"
  have "\<exists>ws. book (snd (flatten_position port d pos b)) = book b @ ws \<and> set ws \<subseteq> ?W pos" for pos b
  proof (cases "guardian_close_request d pos")
    case (Inl e)
    then show ?thesis by (simp add: flatten_position_def bindS_run liftS_run)
  next
    case (Inr q)
    have "book (snd (bp_submit_close_order port q b)) \<in> {book b, book b @ [close_write q]}" by (rule close_book)
    then show ?thesis using Inr
      by (auto simp: flatten_position_def bindS_run liftS_run split: prod.splits sum.splits)
  qed
  from mapS_book [of "flatten_position port d" ?W positions b, OF this] show ?thesis by blast
qed

lemma guardian_act_outcome:
  assumes ok: "guardian_ok l"
    and step: "guardian_act port ny_time d now reasons orders positions (b, l) = (x, (b', l'))"
  shows "(\<exists>cans closes. book b' = book b @ cans @ closes \<and> set cans \<subseteq> cancel_write ` bo_id ` set orders \<and>
     (\<forall>w \<in> set closes. \<exists>pos \<in> set positions. \<exists>q. guardian_close_request d pos = Inr q \<and> w = close_write q)) \<and>
    (\<forall>res. x = Inr res \<longrightarrow> gr_status res \<noteq> CLEAR \<and> \<not> gr_new_entries_allowed res \<and>
       (gr_status res = DAY_LOCKED \<longrightarrow> find_day d l' \<noteq> None))"
proof -
  obtain c b1 where can: "cancel_all port orders b = (c, b1)" by fastforce
  obtain cans where cans: "book b1 = book b @ cans" "set cans \<subseteq> cancel_write ` bo_id ` set orders"
    using cancel_all_book [of orders b] can by auto
  note step' = step [unfolded guardian_act_def bindS_run on_fst_run can prod.case]
  show ?thesis
  proof (cases "(\<exists>cs. c = Inr cs) \<and> regular_hours (ny_time now)")
    case False
    with step' have "b' = b1" "\<forall>res. x = Inr res \<longrightarrow> gr_status res = BLOCKED \<and> \<not> gr_new_entries_allowed res"
      by (auto simp: guardian_result_def split: sum.splits)
    with cans show ?thesis by (intro conjI exI [of _ cans] exI [of _ "[]"]) auto
  next
    case True
    then obtain cs where cs: "c = Inr cs" by blast
    obtain y b2 where fl: "mapS (flatten_position port d) positions b1 = (y, b2)" by fastforce
    obtain closes where closes: "book b2 = book b1 @ closes"
      "\<forall>w \<in> set closes. \<exists>pos \<in> set positions. \<exists>q. guardian_close_request d pos = Inr q \<and> w = close_write q"
      using flatten_book [of d positions b1] fl by auto
    have "b' = b2 \<and> (\<forall>res. x = Inr res \<longrightarrow> gr_status res = DAY_LOCKED \<and> \<not> gr_new_entries_allowed res \<and> find_day d l' \<noteq> None)"
    proof (cases y)
      case (Inl e)
      with step' True cs fl show ?thesis by (auto simp: on_fst_run bindS_run)
    next
      case (Inr fs)
      obtain l2 where l2: "find_day d l2 \<noteq> None" "lock_day d (hd reasons) now l =
         (if \<not> is_utc now then (Inl (ValueError ''account guardian timestamp must be UTC''), l)
          else if is_blank (hd reasons) then (Inl (ValueError ''account guardian lock reason is required''), l)
          else (Inr (), l2))"
        by (rule lock_day_outcome [OF ok, of d "hd reasons" now]) (rule that)
      with step' True cs fl Inr show ?thesis
        by (auto simp: on_fst_run on_snd_run bindS_run thenS_run guardian_result_def split: if_splits)
    qed
    with cans closes show ?thesis by (intro conjI exI [of _ cans] exI [of _ closes]) auto
  qed
qed

lemma guardian_reconcile_outcome:
  assumes ok: "guardian_ok l"
    and step: "guardian_reconcile port ny_time auth prefix d now owned (b, l) = (x, (b', l'))"
  shows "(\<exists>cans closes. book b' = book b @ cans @ closes \<and>
      (cans @ closes \<noteq> [] \<longrightarrow> auth \<and> find_day d l = None \<and> (\<exists>orders positions b1 b2.
        bp_list_open_orders port b = (Inr orders, b1) \<and> bp_list_positions port b1 = (Inr positions, b2) \<and>
        guardian_reasons prefix owned orders positions \<noteq> [] \<and> bp_writes_enabled port b2 \<and>
        set cans \<subseteq> cancel_write ` bo_id ` set orders \<and>
        (\<forall>w \<in> set closes. \<exists>pos \<in> set positions. \<exists>q. guardian_close_request d pos = Inr q \<and> w = close_write q)))) \<and>
    (\<forall>res. x = Inr res \<longrightarrow> (gr_status res = DAY_LOCKED \<longrightarrow> find_day d l' \<noteq> None) \<and>
       (gr_new_entries_allowed res \<longrightarrow> find_day d l = None \<and> book b' = book b \<and> (\<exists>orders positions b1 b2.
          bp_list_open_orders port b = (Inr orders, b1) \<and> bp_list_positions port b1 = (Inr positions, b2) \<and>
          guardian_reasons prefix owned orders positions = [])))"
proof -
  have locked: "find_day d l = None \<or> map_option gd_status (find_day d l) = Some DAY_LOCKED"
    using ok tbl_find_SomeD [of gd_trade_date d l] by (cases "find_day d l") (auto simp: guardian_ok_def)
  have silent: ?thesis if "book b' = book b"
    "\<And>res. x = Inr res \<Longrightarrow> gr_status res = DAY_LOCKED \<Longrightarrow> find_day d l' \<noteq> None"
    "\<And>res. x = Inr res \<Longrightarrow> \<not> gr_new_entries_allowed res"
    using that by (intro conjI exI [of _ "[]"]) auto
  note step' = step [unfolded guardian_reconcile_def require_guardian_utc_def day_status_def thenS_run guardS_run
      bindS_run on_snd_run readS_run]
  show ?thesis
  proof (cases "is_utc now \<and> find_day d l = None")
    case False
    with step' locked show ?thesis
      by (intro silent) (auto simp: guardian_result_def on_snd_run split: if_splits)
  next
    case True
    obtain g b1 where oo: "bp_list_open_orders port b = (g, b1)" by fastforce
    have b1: "book b1 = book b" using open_orders_silent [of b] oo by simp
    show ?thesis
    proof (cases g)
      case (Inl e)
      with step' True oo b1 show ?thesis by (intro silent) (auto simp: on_snd_run on_fst_run bindS_run)
    next
      case g: (Inr orders)
      obtain h b2 where ps: "bp_list_positions port b1 = (h, b2)" by fastforce
      have b2: "book b2 = book b" using positions_silent [of b1] ps b1 by simp
      show ?thesis
      proof (cases h)
        case (Inl e)
        with step' True oo g ps b2 show ?thesis by (intro silent) (auto simp: on_snd_run on_fst_run bindS_run)
      next
        case h: (Inr positions)
        let ?reasons = "guardian_reasons prefix owned orders positions"
        consider (clear) "?reasons = []" | (off) "?reasons \<noteq> []" "\<not> (auth \<and> bp_writes_enabled port b2)"
          | (act) "?reasons \<noteq> []" "auth" "bp_writes_enabled port b2" by blast
        then show ?thesis
        proof cases
          case clear
          with step' True oo g ps h b2 have "book b' = book b" "\<forall>res. x = Inr res \<longrightarrow> gr_status res = CLEAR"
            by (auto simp: on_snd_run on_fst_run bindS_run Let_def guardian_result_def)
          with clear True oo g ps h show ?thesis
            by (intro conjI exI [of _ "[]"]) auto
        next
          case off
          with step' True oo g ps h b2 show ?thesis
            by (intro silent) (auto simp: on_snd_run on_fst_run bindS_run Let_def guardian_result_def split: if_splits)
        next
          case act
          with step' True oo g ps h have
            "guardian_act port ny_time d now ?reasons orders positions (b2, l) = (x, (b', l'))"
            by (auto simp: on_snd_run on_fst_run bindS_run Let_def)
          from guardian_act_outcome [OF ok this] obtain cans closes where
            w: "book b' = book b2 @ cans @ closes" "set cans \<subseteq> cancel_write ` bo_id ` set orders"
              "\<forall>w \<in> set closes. \<exists>pos \<in> set positions. \<exists>q. guardian_close_request d pos = Inr q \<and> w = close_write q"
            and r: "\<forall>res. x = Inr res \<longrightarrow> gr_status res \<noteq> CLEAR \<and> \<not> gr_new_entries_allowed res \<and>
              (gr_status res = DAY_LOCKED \<longrightarrow> find_day d l' \<noteq> None)" by blast
          have "bp_list_open_orders port b = (Inr orders, b1)" "bp_list_positions port b1 = (Inr positions, b2)"
            using oo g ps h by simp_all
          with w r act True b2 show ?thesis
            by (intro conjI exI [of _ cans] exI [of _ closes]) (simp, blast, blast)
        qed
      qed
    qed
  qed
qed

end

section \<open>Properties\<close>

lemma no_reasons:
  "guardian_reasons prefix owned orders positions = [] \<longleftrightarrow>
     (\<forall>ord \<in> set orders. starts_with prefix (bo_client_order_id ord)) \<and>
     (\<forall>pos \<in> set positions. pp_symbol pos \<in> set owned)"
  by (auto simp: guardian_reasons_def filter_empty_conv)

text \<open>New entries are allowed only for an account that belongs to the system alone: the day is not
  locked, every open order that the broker listed in this call carries the system's prefix, every
  position it listed is owned, and nothing was sent.\<close>

theorem guardian_clears_exclusive_account:
  assumes ok: "guardian_ok l"
    and step: "guardian_reconcile (cloud_paper (recorded env)) ny_time auth prefix d now owned (p, l) = (Inr res, (p', l'))"
    and allowed: "gr_new_entries_allowed res"
  shows "find_day d l = None \<and> snd p' = snd p \<and>
    (\<exists>orders positions p1 p2. cloud_list_open_orders (recorded env) p = (Inr orders, p1) \<and>
       cloud_list_positions (recorded env) p1 = (Inr positions, p2) \<and>
       (\<forall>ord \<in> set orders. starts_with prefix (bo_client_order_id ord)) \<and>
       (\<forall>pos \<in> set positions. pp_symbol pos \<in> set owned))"
proof -
  have port: "bp_list_open_orders (cloud_paper (recorded env)) = cloud_list_open_orders (recorded env)"
    "bp_list_positions (cloud_paper (recorded env)) = cloud_list_positions (recorded env)"
    by (simp_all add: cloud_paper_def)
  from cloud_wire.guardian_reconcile_outcome [OF ok step] allowed
  show ?thesis unfolding port no_reasons by blast
qed

text \<open>C24: what the guardian sends: nothing unless it is authorized, writes are enabled, the day is not
  locked and the account holds an unknown order or position; then only cancellations of the listed
  orders and, after them, sells of exactly the listed whole long positions.  A day reported as
  locked is locked in the table, and a locked day stays locked.\<close>

theorem guardian_sends:
  assumes ok: "guardian_ok l"
    and step: "guardian_reconcile (direct_alpaca (recorded env)) ny_time auth prefix d now owned (p, l) = (x, (p', l'))"
  shows "guardian_ok l' \<and> locks_below l l' \<and>
    (\<forall>res. x = Inr res \<longrightarrow> gr_status res = DAY_LOCKED \<longrightarrow> find_day d l' \<noteq> None) \<and>
    (\<exists>cans closes. snd p' = snd p @ cans @ closes \<and>
      (cans @ closes \<noteq> [] \<longrightarrow> auth \<and> find_day d l = None \<and> (\<exists>orders positions p1 p2.
        direct_list_open_orders (recorded env) p = (Inr orders, p1) \<and>
        direct_list_positions (recorded env) p1 = (Inr positions, p2) \<and>
        guardian_reasons prefix owned orders positions \<noteq> [] \<and> ae_writes_enabled env (fst p2) \<and>
        set cans \<subseteq> delete_order ` bo_id ` set orders \<and>
        (\<forall>w \<in> set closes. \<exists>pos \<in> set positions. \<exists>q.
           guardian_close_request d pos = Inr q \<and> w = post_order (close_payload q)))))"
proof -
  have port: "bp_list_open_orders (direct_alpaca (recorded env)) = direct_list_open_orders (recorded env)"
    "bp_list_positions (direct_alpaca (recorded env)) = direct_list_positions (recorded env)"
    "bp_writes_enabled (direct_alpaca (recorded env)) q = ae_writes_enabled env (fst q)" for q
    by (simp_all add: direct_alpaca_def)
  note out = alpaca_wire.guardian_reconcile_outcome [OF ok step, unfolded port]
  have "guardian_ok l' \<and> locks_below l l'" using keepsD [OF keeps_guardian_reconcile, of "(p, l)"] ok step
    by (metis snd_conv)
  with out show ?thesis by blast
qed

section \<open>Concrete runs\<close>

definition empty_account_env :: "unit alpaca_env" where
  \<comment> \<open>a platform without orders and positions\<close>
  "empty_account_env = \<lparr>ae_http = (\<lambda>m path params body b. (Inr \<lparr>hr_status_code = 200,
       hr_json = Some (JObj [(''api_version'', JStr ''v1''), (''orders'', JList []), (''positions'', JList [])])\<rparr>, b)),
     ae_decode_order = (\<lambda>_. Inl (ValidationError ''order'')),
     ae_decode_position = (\<lambda>_. Inl (ValidationError ''position'')), ae_writes_enabled = (\<lambda>_. True)\<rparr>"

lemma guardian_ok_empty: "guardian_ok []"
  by (simp add: guardian_ok_def)

lemma guardian_clears_exclusive_account_witness:
  "\<exists>res p' l'. guardian_reconcile (cloud_paper (recorded empty_account_env)) (\<lambda>_. 36000000000) True ''tsv2-''
     (Date 2026 7 1) (utc 0) [] (((), []), []) = (Inr res, (p', l')) \<and> gr_new_entries_allowed res \<and> snd p' = []"
proof -
  let ?g = "guardian_reconcile (cloud_paper (recorded empty_account_env)) (\<lambda>_. 36000000000) True ''tsv2-''
     (Date 2026 7 1) (utc 0) [] (((), []), [])"
  have "case fst ?g of Inl _ \<Rightarrow> False | Inr res \<Rightarrow> gr_new_entries_allowed res" by code_simp
  then obtain res p' l' where g: "?g = (Inr res, (p', l'))" "gr_new_entries_allowed res"
    by (cases ?g) (auto split: sum.splits)
  with guardian_clears_exclusive_account [OF guardian_ok_empty g] show ?thesis by auto
qed

definition foreign_position_env :: "unit alpaca_env" where
  \<comment> \<open>an account that holds ten foreign shares and accepts every order\<close>
  "foreign_position_env = \<lparr>ae_http = (\<lambda>m path params body b. (Inr
       (if m = POST then \<lparr>hr_status_code = 201, hr_json = Some (JObj [])\<rparr>
        else if path = ''/v2/positions'' then \<lparr>hr_status_code = 200, hr_json = Some (JList [JNull])\<rparr>
        else if path = ''/v2/orders'' then \<lparr>hr_status_code = 200, hr_json = Some (JList [])\<rparr>
        else \<lparr>hr_status_code = 404, hr_json = None\<rparr>), b)),
     ae_decode_order = (\<lambda>_. Inr (BrokerOrder ''b1'' ''c1'' ''AAPL'' 10 ''0'' ''accepted'' None (Some ''sell'') None [])),
     ae_decode_position = (\<lambda>_. Inr \<lparr>pp_symbol = ''AAPL'', pp_qty = ''10'', pp_side = ''long''\<rparr>),
     ae_writes_enabled = (\<lambda>_. True)\<rparr>"

lemma guardian_sends_witness:
  "\<exists>p' l'. guardian_reconcile (direct_alpaca (recorded foreign_position_env)) (\<lambda>_. 36000000000) True ''tsv2-''
     (Date 2026 7 1) (utc 0) [] (((), []), []) =
     (Inr (guardian_result (Date 2026 7 1) DAY_LOCKED [''unknown_position_detected''] [] [''b1'']
        ''execution.account_guardian.cancel_flatten_day_lock.v1''), (p', l')) \<and>
     find_day (Date 2026 7 1) l' \<noteq> None \<and> length (snd p') = 1"
proof -
  let ?g = "guardian_reconcile (direct_alpaca (recorded foreign_position_env)) (\<lambda>_. 36000000000) True ''tsv2-''
     (Date 2026 7 1) (utc 0) [] (((), []), [])"
  let ?r = "guardian_result (Date 2026 7 1) DAY_LOCKED [''unknown_position_detected''] [] [''b1'']
        ''execution.account_guardian.cancel_flatten_day_lock.v1''"
  have "case ?g of (Inr res, (p', l')) \<Rightarrow> res = ?r \<and> length (snd p') = 1 | _ \<Rightarrow> False" by code_simp
  then obtain p' l' where g: "?g = (Inr ?r, (p', l'))" and n: "length (snd p') = 1"
    by (cases ?g) (auto split: sum.splits prod.splits)
  have "gr_status ?r = DAY_LOCKED" by (simp add: guardian_result_def)
  with guardian_sends [OF guardian_ok_empty g] g n show ?thesis by blast
qed

end
