(* ===== verification/SessionLedger.thy ===== *)
theory SessionLedger
  imports PyText Contracts
begin

text \<open>
  Three small durable stores.  \<open>execution/session_ledger.py\<close>: one record per Paper session, keyed by
  the trade date.  \<open>operations/emergency_stop.py\<close>: the one-way emergency stop, a table of a single
  row.  Floats are given by their values.
\<close>

section \<open>Paper sessions\<close>

datatype PaperSessionStatus = SESSION_RUNNING | SESSION_COMPLETED | SESSION_BOUNDED_SMOKE | SESSION_FAILED

record PaperSessionRecord =
  ps_trade_date :: date
  ps_started_at_utc :: datetime
  ps_expected_close_utc :: datetime
  ps_ended_at_utc :: "datetime option"
  ps_status :: PaperSessionStatus
  ps_event_count :: int
  ps_orders_submitted :: int
  ps_reconciliation_match_rate :: rat
  ps_error_type :: "string option"

type_synonym session_ledger = "PaperSessionRecord list"

abbreviation find_session :: "date \<Rightarrow> session_ledger \<Rightarrow> PaperSessionRecord option" where
  "find_session \<equiv> tbl_find ps_trade_date"

definition require_session_utc :: "datetime \<Rightarrow> (session_ledger, unit) op" where
  "require_session_utc value = guardS (is_utc value) (ValueError ''session timestamps must be timezone-aware UTC'')"

definition started_session :: "date \<Rightarrow> datetime \<Rightarrow> datetime \<Rightarrow> rat \<Rightarrow> PaperSessionRecord" where
  \<comment> \<open>the row that the INSERT, and the DO UPDATE of a restart, leave\<close>
  "started_session d started closing rate =
     \<lparr>ps_trade_date = d, ps_started_at_utc = started, ps_expected_close_utc = closing,
      ps_ended_at_utc = None, ps_status = SESSION_RUNNING, ps_event_count = 0, ps_orders_submitted = 0,
      ps_reconciliation_match_rate = rate, ps_error_type = None\<rparr>"

definition start_session :: "date \<Rightarrow> datetime \<Rightarrow> datetime \<Rightarrow> rat \<Rightarrow> (session_ledger, unit) op" where
  "start_session d started closing rate =
     thenS (require_session_utc started) (thenS (require_session_utc closing)
     (thenS (guardS (0 \<le> rate \<and> rate \<le> 1)
              (ValueError ''reconciliation_match_rate must be between zero and one''))
     (bindS (readS (find_session d)) (\<lambda>existing. case existing of
         None \<Rightarrow> writeS (tbl_insert (started_session d started closing rate))
       | Some r \<Rightarrow>
           if ps_status r = SESSION_COMPLETED
           then raiseS (RuntimeError ''completed Paper session cannot be restarted'')
           else writeS (tbl_update ps_trade_date d (\<lambda>_. started_session d started closing rate))))))"

definition finish_session ::
    "date \<Rightarrow> datetime \<Rightarrow> PaperSessionStatus \<Rightarrow> int \<Rightarrow> int \<Rightarrow> string option \<Rightarrow> (session_ledger, unit) op" where
  "finish_session d ended status events orders error_type =
     thenS (require_session_utc ended)
     (thenS (guardS (status \<noteq> SESSION_RUNNING) (ValueError ''finish status cannot be running''))
     (thenS (guardS (0 \<le> events \<and> 0 \<le> orders) (ValueError ''session counters cannot be negative''))
     (bindS (readS (find_session d)) (\<lambda>row.
        if map_option ps_status row \<noteq> Some SESSION_RUNNING
        then raiseS (RuntimeError ''Paper session is not in running state'')
        else writeS (tbl_update ps_trade_date d (\<lambda>r. r\<lparr>ps_ended_at_utc := Some ended, ps_status := status,
               ps_event_count := events, ps_orders_submitted := orders, ps_error_type := error_type\<rparr>))))))"

definition session_records :: "(session_ledger, PaperSessionRecord list) op" where
  "session_records = readS (sort_key ps_trade_date)"

datatype session_command =
    StartSession date datetime datetime rat
  | FinishSession date datetime PaperSessionStatus int int "string option"

fun exec_session :: "session_command \<Rightarrow> session_ledger \<Rightarrow> session_ledger" where
  "exec_session (StartSession d s c r) l = snd (start_session d s c r l)"
| "exec_session (FinishSession d e st n m err) l = snd (finish_session d e st n m err l)"

definition session_ok :: "PaperSessionRecord \<Rightarrow> bool" where
  "session_ok r \<longleftrightarrow> 0 \<le> ps_event_count r \<and> 0 \<le> ps_orders_submitted r \<and>
     0 \<le> ps_reconciliation_match_rate r \<and> ps_reconciliation_match_rate r \<le> 1 \<and>
     (ps_status r = SESSION_RUNNING \<longleftrightarrow> ps_ended_at_utc r = None)"

definition session_up :: "PaperSessionRecord \<Rightarrow> PaperSessionRecord \<Rightarrow> bool" where
  \<comment> \<open>a completed session is never touched again\<close>
  "session_up r r' \<longleftrightarrow> (ps_status r = SESSION_COMPLETED \<longrightarrow> r' = r)"

abbreviation sessions_ok :: "session_ledger \<Rightarrow> bool" where
  "sessions_ok \<equiv> table_ok ps_trade_date session_ok"

abbreviation sessions_below :: "session_ledger \<Rightarrow> session_ledger \<Rightarrow> bool" where
  "sessions_below \<equiv> table_up ps_trade_date session_up"

interpretation session_rows: row_cycle ps_trade_date session_ok session_up
  by unfold_locales (auto simp: session_up_def)

lemma ps_trade_date_started [simp]: "ps_trade_date (started_session d s c r) = d"
  by (simp add: started_session_def)

lemma session_ok_started: "0 \<le> rate \<Longrightarrow> rate \<le> 1 \<Longrightarrow> session_ok (started_session d s c rate)"
  by (simp add: session_ok_def started_session_def)

lemma exec_session_keeps:
  assumes ok: "sessions_ok l"
  shows "sessions_ok (exec_session c l) \<and> sessions_below l (exec_session c l)"
proof (cases c)
  case (StartSession d s k r)
  have new: "session_ok (started_session d s k r)" if "0 \<le> r \<and> r \<le> 1" using that by (simp add: session_ok_started)
  show ?thesis
  proof (cases "find_session d l")
    case None
    then show ?thesis
      using StartSession session_rows.same_keeps [OF ok] new
        session_rows.insert_keeps [OF ok, of "started_session d s k r"]
      by (simp add: start_session_def require_session_utc_def run)
  next
    case (Some q)
    then show ?thesis
      using StartSession session_rows.same_keeps [OF ok] new
        session_rows.update_keeps [OF ok Some, of "\<lambda>_. started_session d s k r"]
      by (simp add: start_session_def require_session_utc_def run session_up_def)
  qed
next
  case (FinishSession d e st n m err)
  let ?g = "\<lambda>r. r\<lparr>ps_ended_at_utc := Some e, ps_status := st, ps_event_count := n, ps_orders_submitted := m,
      ps_error_type := err\<rparr>"
  show ?thesis
  proof (cases "find_session d l")
    case None
    then show ?thesis
      using FinishSession session_rows.same_keeps [OF ok] by (simp add: finish_session_def require_session_utc_def run)
  next
    case (Some q)
    then show ?thesis
      using FinishSession session_rows.same_keeps [OF ok] table_ok_find [OF ok Some]
        session_rows.update_keeps [OF ok Some, of ?g]
      by (cases "ps_status q")
        (simp_all add: finish_session_def require_session_utc_def run session_ok_def session_up_def)
  qed
qed

section \<open>The emergency stop\<close>

record EmergencyStopState =
  es_active :: bool
  es_activated_at_utc :: "datetime option"
  es_reason :: "string option"

text \<open>The table has at most the row \<open>singleton = 1\<close>; \<open>None\<close> is a table that lost it.\<close>

type_synonym emergency_store = "EmergencyStopState option"

definition open_emergency_stop :: "emergency_store \<Rightarrow> emergency_store" where
  \<comment> \<open>the migration's INSERT OR IGNORE\<close>
  "open_emergency_stop s = (case s of
     None \<Rightarrow> Some \<lparr>es_active = False, es_activated_at_utc = None, es_reason = None\<rparr> | Some r \<Rightarrow> Some r)"

definition read_emergency_stop :: "(emergency_store, EmergencyStopState) op" where
  "read_emergency_stop = bindS (readS (\<lambda>s. s)) (\<lambda>row. case row of
     None \<Rightarrow> raiseS (RuntimeError ''emergency-stop state disappeared'') | Some r \<Rightarrow> returnS r)"

definition activate_emergency_stop :: "datetime \<Rightarrow> string \<Rightarrow> (emergency_store, EmergencyStopState) op" where
  "activate_emergency_stop at_utc reason =
     thenS (guardS (is_utc at_utc) (ValueError ''emergency-stop timestamp must be UTC''))
     (thenS (guardS (\<not> is_blank reason) (ValueError ''emergency-stop reason is required''))
     (thenS (transactionS (bindS (readS (\<lambda>s. s)) (\<lambda>row. case row of
         None \<Rightarrow> raiseS (RuntimeError ''emergency-stop state disappeared'')
       | Some r \<Rightarrow> if es_active r then returnS ()
           else writeS (\<lambda>_. Some \<lparr>es_active = True, es_activated_at_utc = Some at_utc, es_reason = Some reason\<rparr>))))
      read_emergency_stop))"

definition emergency_ok :: "emergency_store \<Rightarrow> bool" where
  "emergency_ok s \<longleftrightarrow> (\<exists>r. s = Some r \<and>
     (es_active r \<longleftrightarrow> es_activated_at_utc r \<noteq> None) \<and> (es_active r \<longleftrightarrow> es_reason r \<noteq> None))"

definition emergency_below :: "emergency_store \<Rightarrow> emergency_store \<Rightarrow> bool" where
  "emergency_below s s' \<longleftrightarrow> (\<forall>r. s = Some r \<and> es_active r \<longrightarrow> s' = s)"

interpretation emergency_machine: guarded_machine emergency_ok emergency_below
  "\<lambda>cmd s. case cmd of None \<Rightarrow> open_emergency_stop s | Some (tm, reason) \<Rightarrow> snd (activate_emergency_stop tm reason s)"
proof (unfold_locales, goal_cases)
  case (1 s)
  show ?case by (simp add: emergency_below_def)
next
  case (2 s t u)
  then show ?case by (auto simp: emergency_below_def)
next
  case (3 s c)
  then show ?case
    by (auto simp: emergency_ok_def open_emergency_stop_def activate_emergency_stop_def read_emergency_stop_def run
        split: option.split)
next
  case (4 s c)
  then show ?case
    by (auto simp: emergency_ok_def emergency_below_def open_emergency_stop_def activate_emergency_stop_def
        read_emergency_stop_def run split: option.split)
qed

section \<open>Properties\<close>

text \<open>Over any sequence of starts and finishes, refused ones included, the session table holds one
  record per day with counters and a match rate in their ranges, a record has an end exactly when it
  no longer runs, no day is forgotten, and a completed session is never touched again.\<close>

theorem session_run:
  assumes "sessions_ok l"
  shows "sessions_ok (fold exec_session cmds l) \<and> sessions_below l (fold exec_session cmds l)"
  by (rule session_rows.run_keeps [OF exec_session_keeps assms])

lemma session_run_witness:
  "sessions_ok (fold exec_session
     [StartSession (Date 2026 7 1) (utc 0) (utc 9) 1, FinishSession (Date 2026 7 1) (utc 9) SESSION_COMPLETED 3 1 None] [])"
proof -
  have "sessions_ok []" by simp
  then show ?thesis by (rule session_run [THEN conjunct1])
qed

text \<open>The emergency stop is one-way.  A successful activation leaves it active, and once it is
  active no reopening and no further activation, whatever its time and reason, changes who stopped
  the system, when and why.\<close>

theorem emergency_stop_latches:
  assumes ok: "emergency_ok s" and act: "activate_emergency_stop tm reason s = (Inr st, s')"
  shows "es_active st \<and> s' = Some st \<and>
    fold (\<lambda>cmd s. case cmd of None \<Rightarrow> open_emergency_stop s
       | Some (t, r) \<Rightarrow> snd (activate_emergency_stop t r s)) cmds s' = s'"
proof -
  have st: "es_active st" "s' = Some st"
    using ok act by (auto simp: emergency_ok_def activate_emergency_stop_def read_emergency_stop_def run
        split: if_splits)
  have "emergency_ok s'" using emergency_machine.exec_inv [OF ok, of "Some (tm, reason)"] act by simp
  from emergency_machine.run_all_up [OF this, of cmds] st show ?thesis
    unfolding emergency_machine.run_all_def emergency_below_def by blast
qed

lemma emergency_stop_latches_witness:
  "fold (\<lambda>cmd s. case cmd of None \<Rightarrow> open_emergency_stop s
       | Some (t, r) \<Rightarrow> snd (activate_emergency_stop t r s)) [None, Some (utc 9, ''again'')]
     (snd (activate_emergency_stop (utc 5) ''drill'' (open_emergency_stop None))) =
   Some \<lparr>es_active = True, es_activated_at_utc = Some (utc 5), es_reason = Some ''drill''\<rparr>"
proof -
  let ?s = "open_emergency_stop None"
  let ?st = "\<lparr>es_active = True, es_activated_at_utc = Some (utc 5), es_reason = Some ''drill''\<rparr>"
  have a: "activate_emergency_stop (utc 5) ''drill'' ?s = (Inr ?st, Some ?st)" by code_simp
  have "emergency_ok ?s" by (simp add: emergency_ok_def open_emergency_stop_def)
  from emergency_stop_latches [OF this a, of "[None, Some (utc 9, ''again'')]"]
  show ?thesis unfolding a snd_conv by (elim conjE)
qed

end
