(* ===== verification/JobLedger.thy ===== *)
theory JobLedger
  imports PyText Contracts
begin

text \<open>
  \<open>schedule/state.py\<close>: the idempotency ledger of the scheduled research jobs.  A job of a day and a
  version has one row; a worker takes a lease on it, and only the worker that holds the current
  lease may finish it.  The clock (\<open>datetime.now(UTC)\<close>) and the fresh run token (\<open>uuid4().hex\<close>) are
  arguments; durations are microseconds.
\<close>

section \<open>The table\<close>

datatype JobStatus = JOB_RUNNING | JOB_SUCCEEDED | JOB_FAILED

record job_row =
  jr_job_name :: string
  jr_trade_date :: date
  jr_job_version :: string
  jr_status :: JobStatus
  jr_attempts :: int
  jr_started_at_utc :: datetime
  jr_finished_at_utc :: "datetime option"
  jr_error_code :: "string option"
  jr_artifact_ids :: "string list"
  jr_run_token :: "string option"

type_synonym job_ledger = "job_row list"

type_synonym job_id = "string \<times> date \<times> string"

definition job_key :: "job_row \<Rightarrow> job_id" where
  \<comment> \<open>\<open>PRIMARY KEY (job_name, trade_date, job_version)\<close>\<close>
  "job_key r = (jr_job_name r, jr_trade_date r, jr_job_version r)"

record JobRecord =
  jc_job_name :: string
  jc_trade_date :: date
  jc_job_version :: string
  jc_status :: JobStatus
  jc_attempts :: int
  jc_started_at_utc :: datetime
  jc_finished_at_utc :: "datetime option"
  jc_error_code :: "string option"
  jc_artifact_ids :: "string list"

record JobLease =
  jl_job_name :: string
  jl_trade_date :: date
  jl_job_version :: string
  jl_run_token :: string
  jl_attempt :: int

abbreviation find_job :: "job_id \<Rightarrow> job_ledger \<Rightarrow> job_row option" where
  "find_job \<equiv> tbl_find job_key"

section \<open>Operations\<close>

definition job_skipped :: "job_row \<Rightarrow> datetime \<Rightarrow> int \<Rightarrow> int \<Rightarrow> int \<Rightarrow> bool" where
  \<comment> \<open>the early returns of \<open>acquire\<close> for a job that has a row\<close>
  "job_skipped row now stale_after max_attempts retry_after \<longleftrightarrow>
     jr_status row = JOB_SUCCEEDED \<or>
     (jr_status row = JOB_RUNNING \<and> instant now - instant (jr_started_at_utc row) < stale_after) \<or>
     max_attempts \<le> jr_attempts row \<or>
     (jr_status row = JOB_FAILED \<and> (case jr_finished_at_utc row of
         None \<Rightarrow> False | Some finished \<Rightarrow> instant now - instant finished < retry_after))"

definition acquire ::
    "int \<Rightarrow> string \<Rightarrow> date \<Rightarrow> string \<Rightarrow> int \<Rightarrow> int \<Rightarrow> datetime \<Rightarrow> string \<Rightarrow> (job_ledger, JobLease option) op"
  where
  "acquire stale_after job_name trade_date job_version max_attempts retry_after now run_token =
     thenS (guardS (\<not> is_blank job_name \<and> \<not> is_blank job_version) (ValueError ''job name and version are required''))
     (thenS (guardS (0 < max_attempts \<and> 0 \<le> retry_after) (ValueError ''retry policy is invalid''))
     (transactionS (bindS (readS (find_job (job_name, trade_date, job_version))) (\<lambda>found. case found of
        None \<Rightarrow>
          thenS (writeS (tbl_insert \<lparr>jr_job_name = job_name, jr_trade_date = trade_date, jr_job_version = job_version,
             jr_status = JOB_RUNNING, jr_attempts = 1, jr_started_at_utc = now, jr_finished_at_utc = None,
             jr_error_code = None, jr_artifact_ids = [], jr_run_token = Some run_token\<rparr>))
          (returnS (Some \<lparr>jl_job_name = job_name, jl_trade_date = trade_date, jl_job_version = job_version,
             jl_run_token = run_token, jl_attempt = 1\<rparr>))
      | Some row \<Rightarrow>
          if job_skipped row now stale_after max_attempts retry_after then returnS None
          else thenS (writeS (tbl_update job_key (job_name, trade_date, job_version) (\<lambda>r. r\<lparr>jr_status := JOB_RUNNING,
             jr_attempts := jr_attempts r + 1, jr_started_at_utc := now, jr_finished_at_utc := None,
             jr_error_code := None, jr_artifact_ids := [], jr_run_token := Some run_token\<rparr>)))
          (returnS (Some \<lparr>jl_job_name = job_name, jl_trade_date = trade_date, jl_job_version = job_version,
             jl_run_token = run_token, jl_attempt = jr_attempts row + 1\<rparr>))))))"

definition lease_key :: "JobLease \<Rightarrow> job_id" where
  "lease_key lease = (jl_job_name lease, jl_trade_date lease, jl_job_version lease)"

definition finish_job ::
    "JobLease \<Rightarrow> JobStatus \<Rightarrow> string option \<Rightarrow> string list \<Rightarrow> datetime \<Rightarrow> (job_ledger, unit) op" where
  "finish_job lease status error_code artifact_ids now =
     thenS (guardS (\<forall>c \<in> set_option error_code. \<not> is_blank c) (ValueError ''error code cannot be blank''))
     (bindS (readS (find_job (lease_key lease))) (\<lambda>found. case found of
        None \<Rightarrow> raiseS (RuntimeError ''job lease is not current'')
      | Some row \<Rightarrow>
          if jr_status row = JOB_RUNNING \<and> jr_run_token row = Some (jl_run_token lease)
          then writeS (tbl_update job_key (lease_key lease) (\<lambda>r. r\<lparr>jr_status := status,
                 jr_finished_at_utc := Some now, jr_error_code := error_code, jr_artifact_ids := artifact_ids\<rparr>))
          else raiseS (RuntimeError ''job lease is not current'')))"

definition complete_job :: "JobLease \<Rightarrow> string list \<Rightarrow> datetime \<Rightarrow> (job_ledger, unit) op" where
  "complete_job lease artifact_ids now = finish_job lease JOB_SUCCEEDED None artifact_ids now"

definition fail_job :: "JobLease \<Rightarrow> string \<Rightarrow> datetime \<Rightarrow> (job_ledger, unit) op" where
  "fail_job lease error_code now = finish_job lease JOB_FAILED (Some error_code) [] now"

definition get_job :: "string \<Rightarrow> date \<Rightarrow> string \<Rightarrow> (job_ledger, JobRecord option) op" where
  "get_job job_name trade_date job_version = readS (\<lambda>l. map_option (\<lambda>row.
     \<lparr>jc_job_name = jr_job_name row, jc_trade_date = jr_trade_date row, jc_job_version = jr_job_version row,
      jc_status = jr_status row, jc_attempts = jr_attempts row, jc_started_at_utc = jr_started_at_utc row,
      jc_finished_at_utc = jr_finished_at_utc row,
      jc_error_code = (if jr_error_code row = Some [] then None else jr_error_code row),
      jc_artifact_ids = jr_artifact_ids row\<rparr>) (find_job (job_name, trade_date, job_version) l))"

section \<open>The life of a row\<close>

datatype job_command =
    AcquireJob int string date string int int datetime string
  | CompleteJob JobLease "string list" datetime
  | FailJob JobLease string datetime

fun exec_job :: "job_command \<Rightarrow> job_ledger \<Rightarrow> job_ledger" where
  "exec_job (AcquireJob st n d v m r now tok) l = snd (acquire st n d v m r now tok l)"
| "exec_job (CompleteJob lease arts now) l = snd (complete_job lease arts now l)"
| "exec_job (FailJob lease code now) l = snd (fail_job lease code now l)"

definition job_ok :: "job_row \<Rightarrow> bool" where
  "job_ok r \<longleftrightarrow> 1 \<le> jr_attempts r \<and> (jr_status r = JOB_RUNNING \<longleftrightarrow> jr_finished_at_utc r = None) \<and>
     (jr_status r = JOB_FAILED \<longleftrightarrow> jr_error_code r \<noteq> None) \<and>
     (jr_artifact_ids r \<noteq> [] \<longrightarrow> jr_status r = JOB_SUCCEEDED)"

definition job_up :: "job_row \<Rightarrow> job_row \<Rightarrow> bool" where
  \<comment> \<open>attempts are only added, a succeeded job is final, and within an attempt the lease stays\<close>
  "job_up r r' \<longleftrightarrow> jr_attempts r \<le> jr_attempts r' \<and> (jr_status r = JOB_SUCCEEDED \<longrightarrow> r' = r) \<and>
     (jr_attempts r' = jr_attempts r \<longrightarrow> jr_run_token r' = jr_run_token r \<and>
        (jr_status r = JOB_FAILED \<longrightarrow> r' = r))"

abbreviation jobs_ok :: "job_ledger \<Rightarrow> bool" where
  "jobs_ok \<equiv> table_ok job_key job_ok"

abbreviation jobs_up :: "job_ledger \<Rightarrow> job_ledger \<Rightarrow> bool" where
  "jobs_up \<equiv> table_up job_key job_up"

interpretation job_rows: row_cycle job_key job_ok job_up
  by unfold_locales (auto simp: job_up_def)

text \<open>What the two writing operations do, as one step on the row of their key.\<close>

lemma acquire_cases:
  obtains (still) "\<And>lease. fst (acquire st n d v m rt now tok l) \<noteq> Inr (Some lease)"
      "snd (acquire st n d v m rt now tok l) = l"
    | (fresh) row where "find_job (n, d, v) l = None" "job_key row = (n, d, v)" "job_ok row" "jr_attempts row = 1"
      "jr_run_token row = Some tok" "0 < m" "snd (acquire st n d v m rt now tok l) = tbl_insert row l"
      "fst (acquire st n d v m rt now tok l) = Inr (Some \<lparr>jl_job_name = n, jl_trade_date = d, jl_job_version = v,
         jl_run_token = tok, jl_attempt = 1\<rparr>)"
    | (again) row where "find_job (n, d, v) l = Some row" "jr_status row \<noteq> JOB_SUCCEEDED" "jr_attempts row < m"
      "snd (acquire st n d v m rt now tok l) = tbl_update job_key (n, d, v) (\<lambda>r. r\<lparr>jr_status := JOB_RUNNING,
         jr_attempts := jr_attempts r + 1, jr_started_at_utc := now, jr_finished_at_utc := None,
         jr_error_code := None, jr_artifact_ids := [], jr_run_token := Some tok\<rparr>) l"
      "fst (acquire st n d v m rt now tok l) = Inr (Some \<lparr>jl_job_name = n, jl_trade_date = d, jl_job_version = v,
         jl_run_token = tok, jl_attempt = jr_attempts row + 1\<rparr>)"
proof (cases "\<not> is_blank n \<and> \<not> is_blank v \<and> 0 < m \<and> 0 \<le> rt")
  case False
  then show thesis by (intro still) (auto simp: acquire_def run)
next
  case True
  show thesis
  proof (cases "find_job (n, d, v) l")
    case None
    with True show thesis by (intro fresh) (auto simp: acquire_def run job_key_def job_ok_def)
  next
    case (Some row)
    show thesis
    proof (cases "job_skipped row now st m rt")
      case skip: True
      with True Some show thesis by (intro still) (auto simp: acquire_def run)
    next
      case go: False
      with True Some show thesis by (intro again [of row]) (auto simp: acquire_def run job_skipped_def)
    qed
  qed
qed

lemma finish_cases:
  obtains (still) "\<exists>e. finish_job lease status code arts now l = (Inl e, l)"
    | (settled) row where "find_job (lease_key lease) l = Some row" "jr_status row = JOB_RUNNING"
      "jr_run_token row = Some (jl_run_token lease)"
      "finish_job lease status code arts now l = (Inr (), tbl_update job_key (lease_key lease)
         (\<lambda>r. r\<lparr>jr_status := status, jr_finished_at_utc := Some now, jr_error_code := code, jr_artifact_ids := arts\<rparr>) l)"
proof (cases "find_job (lease_key lease) l")
  case None
  then show thesis by (intro still) (simp add: finish_job_def run)
next
  case (Some row)
  show thesis
  proof (cases "(\<forall>c \<in> set_option code. \<not> is_blank c) \<and> jr_status row = JOB_RUNNING \<and>
      jr_run_token row = Some (jl_run_token lease)")
    case True
    with Some show thesis by (intro settled [of row]) (auto simp: finish_job_def run)
  next
    case False
    with Some show thesis by (intro still) (auto simp: finish_job_def run)
  qed
qed

lemma finish_job_keeps:
  assumes ok: "jobs_ok l"
    and final: "status = JOB_SUCCEEDED \<and> code = None \<or> status = JOB_FAILED \<and> code \<noteq> None \<and> arts = []"
  shows "jobs_ok (snd (finish_job lease status code arts now l)) \<and> jobs_up l (snd (finish_job lease status code arts now l))"
proof (cases rule: finish_cases [of lease status code arts now l])
  case still
  with job_rows.same_keeps [OF ok] show ?thesis by auto
next
  case (settled row)
  let ?f = "\<lambda>r. r\<lparr>jr_status := status, jr_finished_at_utc := Some now, jr_error_code := code, jr_artifact_ids := arts\<rparr>"
  have "job_key (?f row) = lease_key lease" "job_ok (?f row)" "job_up row (?f row)"
    using table_ok_find [OF ok settled(1)] settled(2) final by (auto simp: job_key_def job_ok_def job_up_def)
  from job_rows.update_keeps [where f = ?f, OF ok settled(1) this] settled(4) show ?thesis by simp
qed

lemma exec_job_keeps:
  assumes ok: "jobs_ok l"
  shows "jobs_ok (exec_job c l) \<and> jobs_up l (exec_job c l)"
proof (cases c)
  case (AcquireJob st n d v m rt now tok)
  show ?thesis
  proof (cases rule: acquire_cases [of st n d v m rt now tok l])
    case still
    with AcquireJob job_rows.same_keeps [OF ok] show ?thesis by simp
  next
    case (fresh row)
    with AcquireJob job_rows.insert_keeps [OF ok, of row] show ?thesis by simp
  next
    case (again row)
    let ?f = "\<lambda>r. r\<lparr>jr_status := JOB_RUNNING, jr_attempts := jr_attempts r + 1, jr_started_at_utc := now,
       jr_finished_at_utc := None, jr_error_code := None, jr_artifact_ids := [], jr_run_token := Some tok\<rparr>"
    have "job_key (?f row) = (n, d, v)" "job_ok (?f row)" "job_up row (?f row)"
      using table_ok_find [OF ok again(1)] again(2) by (auto simp: job_key_def job_ok_def job_up_def)
    from job_rows.update_keeps [where f = ?f, OF ok again(1) this] again(4) AcquireJob show ?thesis by simp
  qed
qed (simp_all add: complete_job_def fail_job_def finish_job_keeps [OF ok])

section \<open>Leases\<close>

text \<open>A lease is dead when the row of its job no longer runs under its token.\<close>

definition lease_dead :: "JobLease \<Rightarrow> job_ledger \<Rightarrow> bool" where
  "lease_dead lease l \<longleftrightarrow> (case find_job (lease_key lease) l of None \<Rightarrow> True
     | Some row \<Rightarrow> jr_status row \<noteq> JOB_RUNNING \<or> jr_run_token row \<noteq> Some (jl_run_token lease))"

fun issues :: "job_command \<Rightarrow> string option" where
  "issues (AcquireJob st n d v m r now tok) = Some tok"
| "issues _ = None"

fun attempt_limit :: "job_command \<Rightarrow> int" where
  "attempt_limit (AcquireJob st n d v m r now tok) = m"
| "attempt_limit _ = 0"

lemma dead_lease_refused:
  "lease_dead lease l \<Longrightarrow> complete_job lease arts now l = (Inl (RuntimeError ''job lease is not current''), l)"
  "lease_dead lease l \<Longrightarrow> \<not> is_blank code \<Longrightarrow>
     fail_job lease code now l = (Inl (RuntimeError ''job lease is not current''), l)"
  by (auto simp: lease_dead_def complete_job_def fail_job_def finish_job_def run split: option.splits)

lemma finish_keeps_dead:
  assumes ok: "jobs_ok l" and final: "status \<noteq> JOB_RUNNING" and dead: "lease_dead lease l"
  shows "lease_dead lease (snd (finish_job other status code arts now l))"
proof (cases rule: finish_cases [of other status code arts now l])
  case still
  with dead show ?thesis by auto
next
  case (settled row)
  let ?f = "\<lambda>r. r\<lparr>jr_status := status, jr_finished_at_utc := Some now, jr_error_code := code, jr_artifact_ids := arts\<rparr>"
  have key: "job_key (?f row) = lease_key other" using tbl_find_key [OF settled(1)] by (simp add: job_key_def)
  show ?thesis using dead final settled(4)
    by (simp add: lease_dead_def table_find_update [where f = ?f, OF ok settled(1) key])
qed

lemma finish_kills:
  assumes ok: "jobs_ok l" and final: "status \<noteq> JOB_RUNNING"
    and fin: "finish_job lease status code arts now l = (Inr (), l')"
  shows "lease_dead lease l'"
proof (cases rule: finish_cases [of lease status code arts now l])
  case still
  with fin show ?thesis by simp
next
  case (settled row)
  let ?f = "\<lambda>r. r\<lparr>jr_status := status, jr_finished_at_utc := Some now, jr_error_code := code, jr_artifact_ids := arts\<rparr>"
  have key: "job_key (?f row) = lease_key lease" using tbl_find_key [OF settled(1)] by (simp add: job_key_def)
  show ?thesis using final settled(4) fin
    by (simp add: lease_dead_def table_find_update [where f = ?f, OF ok settled(1) key])
qed

lemma find_acquire:
  assumes ok: "jobs_ok l" and got: "acquire st n d v m rt now tok l = (Inr (Some lease), l')"
  shows "lease_key lease = (n, d, v) \<and> jl_run_token lease = tok \<and> (\<exists>row. find_job (n, d, v) l' = Some row \<and>
    jr_run_token row = Some tok) \<and> (\<forall>k. k \<noteq> (n, d, v) \<longrightarrow> find_job k l' = find_job k l)"
proof (cases rule: acquire_cases [of st n d v m rt now tok l])
  case still
  from still(1) [of lease] got show ?thesis by simp
next
  case (fresh row)
  with got show ?thesis by (auto simp: lease_key_def tbl split: option.split)
next
  case (again row)
  let ?f = "\<lambda>r. r\<lparr>jr_status := JOB_RUNNING, jr_attempts := jr_attempts r + 1, jr_started_at_utc := now,
     jr_finished_at_utc := None, jr_error_code := None, jr_artifact_ids := [], jr_run_token := Some tok\<rparr>"
  have key: "job_key (?f row) = (n, d, v)" using tbl_find_key [OF again(1)] by (simp add: job_key_def)
  show ?thesis using again(4,5) got
    by (auto simp: lease_key_def table_find_update [where f = ?f, OF ok again(1) key])
qed

lemma acquire_keeps_dead:
  assumes ok: "jobs_ok l" and dead: "lease_dead lease l" and other: "tok \<noteq> jl_run_token lease"
  shows "lease_dead lease (snd (acquire st n d v m rt now tok l))"
proof (cases "\<exists>lease'. fst (acquire st n d v m rt now tok l) = Inr (Some lease')")
  case True
  then obtain lease' l' where got: "acquire st n d v m rt now tok l = (Inr (Some lease'), l')"
    by (metis prod.collapse)
  show ?thesis
  proof (cases "lease_key lease = (n, d, v)")
    case True
    with find_acquire [OF ok got] got other show ?thesis by (auto simp: lease_dead_def)
  next
    case False
    then have "find_job (lease_key lease) l' = find_job (lease_key lease) l" using find_acquire [OF ok got] by blast
    with dead got show ?thesis by (simp add: lease_dead_def)
  qed
next
  case False
  then show ?thesis using dead by (cases rule: acquire_cases [of st n d v m rt now tok l]) auto
qed

lemma exec_keeps_dead:
  assumes "jobs_ok l" and "lease_dead lease l" and "issues c \<noteq> Some (jl_run_token lease)"
  shows "lease_dead lease (exec_job c l)"
  using assms by (cases c) (auto simp: acquire_keeps_dead finish_keeps_dead complete_job_def fail_job_def)

lemma run_keeps_dead:
  assumes "jobs_ok l" and "lease_dead lease l" and "\<forall>c \<in> set cmds. issues c \<noteq> Some (jl_run_token lease)"
  shows "lease_dead lease (fold exec_job cmds l)"
proof -
  have "jobs_ok (fold exec_job cmds l) \<and> lease_dead lease (fold exec_job cmds l)"
  proof (rule fold_invariant [where Q = "\<lambda>c. issues c \<noteq> Some (jl_run_token lease)"])
    show "jobs_ok l \<and> lease_dead lease l" using assms by simp
  qed (use assms exec_job_keeps exec_keeps_dead in auto)
  then show ?thesis ..
qed

lemma exec_job_attempts:
  assumes ok: "jobs_ok l" and b: "list_all (\<lambda>r. jr_attempts r \<le> M) l" and lim: "attempt_limit c \<le> M"
  shows "list_all (\<lambda>r. jr_attempts r \<le> M) (exec_job c l)"
proof (cases c)
  case (AcquireJob st n d v m rt now tok)
  have "jr_attempts r < M" if "find_job k l = Some row" "jr_attempts row < M" "r \<in> set l" "job_key r = k" for r row k
    using that ok tbl_find_unique [of job_key l r] by (simp add: table_ok_def)
  with AcquireJob b lim show ?thesis
    by (cases rule: acquire_cases [of st n d v m rt now tok l])
      (force simp: list_all_iff in_set_tbl_update)+
next
  case (CompleteJob lease arts now)
  with b show ?thesis
    by (cases rule: finish_cases [of lease JOB_SUCCEEDED None arts now l])
      (auto simp: list_all_iff in_set_tbl_update complete_job_def)
next
  case (FailJob lease code now)
  with b show ?thesis
    by (cases rule: finish_cases [of lease JOB_FAILED "Some code" "[]" now l])
      (auto simp: list_all_iff in_set_tbl_update fail_job_def)
qed

section \<open>Properties\<close>

text \<open>Over any sequence of acquisitions, completions and failures the job table keeps one row per
  job, day and version; a row is finished exactly when it does not run, has an error code exactly
  when it failed, and artifacts only when it succeeded; attempts are only added and never exceed the
  largest limit that was asked for; and a succeeded job is never run or changed again.\<close>

theorem job_run:
  assumes ok: "jobs_ok l" and b: "list_all (\<lambda>r. jr_attempts r \<le> M) l"
    and lim: "\<forall>c \<in> set cmds. attempt_limit c \<le> M"
  shows "jobs_ok (fold exec_job cmds l) \<and> jobs_up l (fold exec_job cmds l) \<and>
    list_all (\<lambda>r. jr_attempts r \<le> M) (fold exec_job cmds l)"
proof -
  have "jobs_ok (fold exec_job cmds l) \<and> list_all (\<lambda>r. jr_attempts r \<le> M) (fold exec_job cmds l)"
    by (rule fold_invariant [where Q = "\<lambda>c. attempt_limit c \<le> M"])
      (use assms exec_job_keeps exec_job_attempts in auto)
  with job_rows.run_keeps [of exec_job, OF exec_job_keeps ok] show ?thesis by blast
qed

text \<open>C25: a lease is used at most once, and never after another worker took the job over.  Once a
  completion or a failure under a lease was accepted, or the job was acquired under another token,
  then after any further commands that do not issue the lease's token again, completing or failing
  under the lease is refused and changes nothing.\<close>

theorem lease_used_once:
  assumes ok: "jobs_ok l"
    and ended: "complete_job lease arts0 now0 l = (Inr (), l') \<or> fail_job lease code0 now0 l = (Inr (), l') \<or>
      (acquire st (jl_job_name lease) (jl_trade_date lease) (jl_job_version lease) m rt now0 tok l = (Inr (Some other), l')
        \<and> tok \<noteq> jl_run_token lease)"
    and fresh: "\<forall>c \<in> set cmds. issues c \<noteq> Some (jl_run_token lease)"
  shows "complete_job lease arts now (fold exec_job cmds l') =
      (Inl (RuntimeError ''job lease is not current''), fold exec_job cmds l') \<and>
    (\<not> is_blank code \<longrightarrow> fail_job lease code now (fold exec_job cmds l') =
      (Inl (RuntimeError ''job lease is not current''), fold exec_job cmds l'))"
proof -
  have "jobs_ok l' \<and> lease_dead lease l'"
    using ended
  proof (elim disjE conjE)
    assume c: "complete_job lease arts0 now0 l = (Inr (), l')"
    then show ?thesis using exec_job_keeps [OF ok, of "CompleteJob lease arts0 now0"]
        finish_kills [OF ok _ c [unfolded complete_job_def]] by simp
  next
    assume c: "fail_job lease code0 now0 l = (Inr (), l')"
    then show ?thesis using exec_job_keeps [OF ok, of "FailJob lease code0 now0"]
        finish_kills [OF ok _ c [unfolded fail_job_def]] by simp
  next
    assume c: "acquire st (jl_job_name lease) (jl_trade_date lease) (jl_job_version lease) m rt now0 tok l =
        (Inr (Some other), l')" and t: "tok \<noteq> jl_run_token lease"
    show ?thesis using find_acquire [OF ok c] t c exec_job_keeps [OF ok, of "AcquireJob st (jl_job_name lease)
        (jl_trade_date lease) (jl_job_version lease) m rt now0 tok"] by (auto simp: lease_dead_def lease_key_def)
  qed
  then have "lease_dead lease (fold exec_job cmds l')" using fresh by (auto intro: run_keeps_dead)
  then show ?thesis by (simp add: dead_lease_refused)
qed

section \<open>Concrete runs\<close>

lemma job_run_witness:
  "list_all (\<lambda>r. jr_attempts r \<le> 2) (fold exec_job
     [AcquireJob 60 ''scan'' (Date 2026 7 1) ''v1'' 2 0 (utc 0) ''a'',
      AcquireJob 60 ''scan'' (Date 2026 7 1) ''v1'' 2 0 (utc 99) ''b''] [])"
proof -
  have "jobs_ok []" "list_all (\<lambda>r. jr_attempts r \<le> 2) ([] :: job_ledger)" by simp_all
  moreover have "\<forall>c \<in> set [AcquireJob 60 ''scan'' (Date 2026 7 1) ''v1'' 2 0 (utc 0) ''a'',
      AcquireJob 60 ''scan'' (Date 2026 7 1) ''v1'' 2 0 (utc 99) ''b'']. attempt_limit c \<le> 2" by simp
  ultimately show ?thesis by (rule job_run [THEN conjunct2, THEN conjunct2])
qed

lemma lease_used_once_witness:
  "\<exists>l. find_job (''scan'', Date 2026 7 1, ''v1'') l \<noteq> None \<and>
     complete_job \<lparr>jl_job_name = ''scan'', jl_trade_date = Date 2026 7 1, jl_job_version = ''v1'',
         jl_run_token = ''a'', jl_attempt = 1\<rparr> [''x''] (utc 100) l =
       (Inl (RuntimeError ''job lease is not current''), l)"
proof -
  let ?lease = "\<lparr>jl_job_name = ''scan'', jl_trade_date = Date 2026 7 1, jl_job_version = ''v1'',
         jl_run_token = ''a'', jl_attempt = 1\<rparr>"
  let ?l = "snd (acquire 60 ''scan'' (Date 2026 7 1) ''v1'' 2 0 (utc 0) ''a'' [])"
  have ok: "jobs_ok ?l" using exec_job_keeps [of "[]" "AcquireJob 60 ''scan'' (Date 2026 7 1) ''v1'' 2 0 (utc 0) ''a''"]
    by simp
  have "(case fst (acquire 60 ''scan'' (Date 2026 7 1) ''v1'' 2 0 (utc 99) ''b'' ?l) of Inr (Some _) \<Rightarrow> True | _ \<Rightarrow> False)"
    by code_simp
  then obtain other l' where again: "acquire 60 ''scan'' (Date 2026 7 1) ''v1'' 2 0 (utc 99) ''b'' ?l = (Inr (Some other), l')"
    by (cases "acquire 60 ''scan'' (Date 2026 7 1) ''v1'' 2 0 (utc 99) ''b'' ?l") (auto split: sum.splits option.splits)
  have found: "find_job (''scan'', Date 2026 7 1, ''v1'') l' \<noteq> None" using find_acquire [OF ok again] by auto
  have step: "acquire 60 (jl_job_name ?lease) (jl_trade_date ?lease) (jl_job_version ?lease) 2 0 (utc 99) ''b'' ?l =
      (Inr (Some other), l') \<and> ''b'' \<noteq> jl_run_token ?lease"
    using again by simp
  have "complete_job ?lease [''x''] (utc 100) (fold exec_job [] l') =
      (Inl (RuntimeError ''job lease is not current''), fold exec_job [] l')"
    by (rule lease_used_once [OF ok disjI2 [OF disjI2 [OF step]], THEN conjunct1]) simp
  with found show ?thesis by (intro exI [of _ l']) simp
qed

end
