(* ===== verification/LoopOutbox.thy ===== *)
theory LoopOutbox
  imports PyJson Contracts
begin

text \<open>
  \<open>operations/loop_integration/outbox.py\<close>: the durable outbox of the reviews that are submitted to
  the external review service.  A row is staged once, claimed step by step before every remote call
  (\<open>checkpoint\<close>), and finished from the remote receipts.  The clock is an argument; the JSON column
  holds the payload as a dictionary; statuses are the literals of the code.
\<close>

section \<open>The table\<close>

datatype loop_status = PENDING | FAILED | BLOCKED_PRECONDITION | AUDIT_ONLY_BACKFILL | CREATING_TASK
  | TASK_CREATED | STARTING_RUN | REMOTE_PROCESSING | DELIVERED | REMOTE_COMPLETED | REMOTE_REJECTED

datatype loop_event_type = DAILY_REVIEW | OUTCOME | EVENT_REVIEW

record outbox_row =
  ob_event_id :: string
  ob_event_type :: loop_event_type
  ob_payload :: dict
  ob_payload_sha256 :: string
  ob_status :: loop_status
  ob_attempts :: int
  ob_remote_task_id :: "string option"
  ob_remote_run_id :: "string option"
  ob_failed_node :: "string option"
  ob_last_error_code :: "string option"
  ob_retry_after_utc :: "datetime option"
  ob_retry_count :: int
  ob_created_at_utc :: datetime
  ob_updated_at_utc :: datetime

type_synonym loop_outbox = "outbox_row list"

abbreviation find_event :: "string \<Rightarrow> loop_outbox \<Rightarrow> outbox_row option" where
  "find_event \<equiv> tbl_find ob_event_id"

record OutboxItem =
  oi_event_id :: string
  oi_event_type :: loop_event_type
  oi_payload :: dict
  oi_payload_sha256 :: string
  oi_status :: loop_status
  oi_attempts :: int
  oi_remote_task_id :: "string option"
  oi_remote_run_id :: "string option"
  oi_failed_node :: "string option"
  oi_last_error_code :: "string option"
  oi_retry_after_utc :: "datetime option"
  oi_retry_count :: int

definition outbox_item :: "outbox_row \<Rightarrow> OutboxItem" where
  "outbox_item row = \<lparr>oi_event_id = ob_event_id row, oi_event_type = ob_event_type row,
     oi_payload = ob_payload row, oi_payload_sha256 = ob_payload_sha256 row, oi_status = ob_status row,
     oi_attempts = ob_attempts row, oi_remote_task_id = ob_remote_task_id row,
     oi_remote_run_id = ob_remote_run_id row, oi_failed_node = ob_failed_node row,
     oi_last_error_code = ob_last_error_code row, oi_retry_after_utc = ob_retry_after_utc row,
     oi_retry_count = ob_retry_count row\<rparr>"

definition trading_date :: "outbox_row \<Rightarrow> json" where
  \<comment> \<open>\<open>json_extract(payload_json, '$.trading_date')\<close>; \<open>JNull\<close> is SQL's NULL, equal to nothing\<close>
  "trading_date row = json_get ''trading_date'' (ob_payload row)"

definition sql_eq :: "json \<Rightarrow> json \<Rightarrow> bool" where
  "sql_eq x y \<longleftrightarrow> x \<noteq> JNull \<and> x = y"

definition loop_terminal :: "loop_status \<Rightarrow> bool" where
  "loop_terminal s \<longleftrightarrow> s \<in> {DELIVERED, REMOTE_COMPLETED, REMOTE_REJECTED}"

definition claimed :: "outbox_row \<Rightarrow> bool" where
  \<comment> \<open>\<open>remote_task_id IS NOT NULL OR status IN ('creating_task','starting_run')\<close>\<close>
  "claimed row \<longleftrightarrow> ob_remote_task_id row \<noteq> None \<or> ob_status row \<in> {CREATING_TASK, STARTING_RUN}"

section \<open>Reading\<close>

definition get_event :: "string \<Rightarrow> (loop_outbox, OutboxItem option) op" where
  "get_event event_id = readS (\<lambda>l. map_option outbox_item (find_event event_id l))"

definition limit_rows :: "int \<Rightarrow> 'a list \<Rightarrow> 'a list" where
  \<comment> \<open>SQLite: a negative LIMIT is none\<close>
  "limit_rows n xs = (if n < 0 then xs else take (nat n) xs)"

definition pending_events :: "int \<Rightarrow> (loop_outbox, OutboxItem list) op" where
  "pending_events limit = readS (\<lambda>l. map outbox_item (limit_rows limit
     (sort_key (\<lambda>r. instant (ob_created_at_utc r)) (sort_key ob_event_id
       (filter (\<lambda>r. ob_status r = PENDING \<or> ob_status r = FAILED) l)))))"

definition submitted_review :: "date \<Rightarrow> (loop_outbox, OutboxItem option) op" where
  \<comment> \<open>the newest one; SQLite leaves open which of several rows of the same instant\<close>
  "submitted_review d = readS (\<lambda>l.
     case rev (sort_key (\<lambda>r. instant (ob_created_at_utc r)) (filter (\<lambda>r. ob_event_type r = DAILY_REVIEW \<and>
            sql_eq (trading_date r) (JStr (date_iso d)) \<and> claimed r) l)) of
       [] \<Rightarrow> None | r # _ \<Rightarrow> Some (outbox_item r))"

definition recoverable_reviews :: "datetime \<Rightarrow> int \<Rightarrow> (loop_outbox, OutboxItem list) op" where
  "recoverable_reviews now limit = readS (\<lambda>l. map outbox_item (limit_rows limit
     (sort_key (\<lambda>r. instant (case ob_retry_after_utc r of None \<Rightarrow> ob_created_at_utc r | Some t \<Rightarrow> t))
       (filter (\<lambda>r. ob_event_type r = DAILY_REVIEW \<and> ob_remote_task_id r \<noteq> None \<and>
          ob_status r \<in> {REMOTE_PROCESSING, TASK_CREATED, FAILED} \<and>
          (case ob_retry_after_utc r of None \<Rightarrow> True | Some t \<Rightarrow> instant t \<le> instant now)) l))))"

section \<open>Writing\<close>

definition stage_event ::
    "string \<Rightarrow> loop_event_type \<Rightarrow> dict \<Rightarrow> string \<Rightarrow> datetime \<Rightarrow> (loop_outbox, OutboxItem) op" where
  "stage_event event_id event_type payload sha now =
     bindS (readS (find_event event_id)) (\<lambda>found. case found of
       Some row \<Rightarrow>
         if ob_payload_sha256 row \<noteq> sha
         then raiseS (ValueError ''Loop event identity collided with different content'')
         else returnS (outbox_item row)
     | None \<Rightarrow>
         thenS (writeS (tbl_insert \<lparr>ob_event_id = event_id, ob_event_type = event_type, ob_payload = payload,
            ob_payload_sha256 = sha, ob_status = PENDING, ob_attempts = 0, ob_remote_task_id = None,
            ob_remote_run_id = None, ob_failed_node = None, ob_last_error_code = None,
            ob_retry_after_utc = None, ob_retry_count = 0, ob_created_at_utc = now, ob_updated_at_utc = now\<rparr>))
         (bindS (get_event event_id) (\<lambda>item. case item of
            None \<Rightarrow> raiseS (RuntimeError ''staged Loop outbox item disappeared'')
          | Some i \<Rightarrow> returnS i)))"

definition plus_minutes :: "datetime \<Rightarrow> int \<Rightarrow> datetime" where
  "plus_minutes t m = (case t of Naive us \<Rightarrow> Naive (us + m * 60000000) | Aware us off \<Rightarrow> Aware (us + m * 60000000) off)"

definition retry_minutes :: "int \<Rightarrow> int" where
  \<comment> \<open>\<open>(1, 5, 15, 60)[min(count, 3)]\<close>\<close>
  "retry_minutes n = [1, 5, 15, 60] ! nat (min n 3)"

definition defer_retry :: "string \<Rightarrow> string \<Rightarrow> datetime \<Rightarrow> (loop_outbox, unit) op" where
  "defer_retry event_id error_code now = transactionS (bindS (readS (find_event event_id)) (\<lambda>found. case found of
       None \<Rightarrow> raiseS (KeyError event_id)
     | Some row \<Rightarrow>
         if loop_terminal (ob_status row) then returnS ()
         else writeS (tbl_update ob_event_id event_id (\<lambda>r. r\<lparr>ob_retry_count := ob_retry_count r + 1,
                ob_retry_after_utc := Some (plus_minutes now (retry_minutes (ob_retry_count row))),
                ob_last_error_code := Some (take 128 error_code), ob_updated_at_utc := now\<rparr>))))"

definition loop_predecessors :: "loop_status \<Rightarrow> loop_status list option" where
  "loop_predecessors s = (case s of
     CREATING_TASK \<Rightarrow> Some [PENDING, FAILED, BLOCKED_PRECONDITION, AUDIT_ONLY_BACKFILL]
   | TASK_CREATED \<Rightarrow> Some [CREATING_TASK]
   | STARTING_RUN \<Rightarrow> Some [TASK_CREATED]
   | REMOTE_PROCESSING \<Rightarrow> Some [STARTING_RUN]
   | _ \<Rightarrow> None)"

definition rival :: "string \<Rightarrow> loop_outbox \<Rightarrow> bool" where
  \<comment> \<open>another claimed review of the same day\<close>
  "rival event_id l \<longleftrightarrow> (case find_event event_id l of None \<Rightarrow> False
     | Some own \<Rightarrow> list_ex (\<lambda>r. ob_event_id r \<noteq> event_id \<and> ob_event_type r = DAILY_REVIEW \<and>
         sql_eq (trading_date r) (trading_date own) \<and> claimed r) l)"

definition checkpoint ::
    "string \<Rightarrow> loop_status \<Rightarrow> string option \<Rightarrow> string option \<Rightarrow> datetime \<Rightarrow> (loop_outbox, unit) op" where
  "checkpoint event_id status task_id run_id now = (case loop_predecessors status of
       None \<Rightarrow> raiseS (KeyError ''status'')
     | Some allowed \<Rightarrow> transactionS
         (thenS (bindS (readS (rival event_id)) (\<lambda>conflict. guardS (\<not> (status = CREATING_TASK \<and> conflict))
                   (RuntimeError ''Loop daily review already claimed with different evidence'')))
         (bindS (readS (find_event event_id)) (\<lambda>found.
            if (case found of None \<Rightarrow> False | Some r \<Rightarrow> ob_status r \<in> set allowed \<and> ob_remote_run_id r = None \<and>
                  (status = CREATING_TASK \<longrightarrow> ob_remote_task_id r = None))
            then writeS (tbl_update ob_event_id event_id (\<lambda>r. r\<lparr>ob_status := status, ob_remote_task_id := task_id,
                   ob_remote_run_id := run_id, ob_attempts := ob_attempts r + 1, ob_updated_at_utc := now,
                   ob_last_error_code := None\<rparr>))
            else raiseS (RuntimeError ''Loop submission already claimed; reconcile original receipt'')))))"

definition record_error :: "string \<Rightarrow> string \<Rightarrow> datetime \<Rightarrow> (loop_outbox, unit) op" where
  "record_error event_id error_code now = writeS (tbl_update ob_event_id event_id (\<lambda>r.
     r\<lparr>ob_last_error_code := Some (take 128 error_code), ob_updated_at_utc := now\<rparr>))"

definition mark_local_block :: "string \<Rightarrow> loop_status \<Rightarrow> string \<Rightarrow> datetime \<Rightarrow> (loop_outbox, unit) op" where
  "mark_local_block event_id status err now = bindS (readS (find_event event_id)) (\<lambda>found.
     if (case found of None \<Rightarrow> False | Some r \<Rightarrow> ob_remote_task_id r = None \<and> ob_remote_run_id r = None \<and>
           ob_status r \<in> {PENDING, FAILED, BLOCKED_PRECONDITION, AUDIT_ONLY_BACKFILL})
     then writeS (tbl_update ob_event_id event_id (\<lambda>r. r\<lparr>ob_status := status,
            ob_last_error_code := Some (take 128 err), ob_updated_at_utc := now\<rparr>))
     else raiseS (RuntimeError ''cannot replace a claimed Loop submission with local rejection''))"

definition coalesced :: "'a option \<Rightarrow> 'a option \<Rightarrow> 'a option" where
  "coalesced new old = (case new of None \<Rightarrow> old | Some x \<Rightarrow> Some x)"

definition same_receipt :: "'a option \<Rightarrow> 'a option \<Rightarrow> bool" where
  \<comment> \<open>\<open>(? IS NULL OR col IS NULL OR col = ?)\<close>\<close>
  "same_receipt new old \<longleftrightarrow> new = None \<or> old = None \<or> old = new"

definition finish_event ::
    "string \<Rightarrow> loop_status \<Rightarrow> string option \<Rightarrow> string option \<Rightarrow> string option \<Rightarrow> string option \<Rightarrow> datetime
       \<Rightarrow> (loop_outbox, unit) op" where
  "finish_event event_id status error_code task_id run_id failed_node now =
     bindS (readS (find_event event_id)) (\<lambda>found. case found of
       None \<Rightarrow> raiseS (KeyError event_id)
     | Some row \<Rightarrow>
         if loop_terminal (ob_status row) then returnS ()
         else if same_receipt task_id (ob_remote_task_id row) \<and> same_receipt run_id (ob_remote_run_id row)
         then writeS (tbl_update ob_event_id event_id (\<lambda>r. r\<lparr>ob_status := status, ob_attempts := ob_attempts r + 1,
                ob_remote_task_id := coalesced task_id (ob_remote_task_id r),
                ob_remote_run_id := coalesced run_id (ob_remote_run_id r), ob_failed_node := failed_node,
                ob_last_error_code := error_code, ob_updated_at_utc := now\<rparr>))
         else raiseS (RuntimeError ''Loop remote receipt identity changed''))"

definition mark_remote_rejected :: "string \<Rightarrow> string \<Rightarrow> datetime \<Rightarrow> (loop_outbox, unit) op" where
  "mark_remote_rejected event_id error_code now =
     finish_event event_id REMOTE_REJECTED (Some error_code) None None None now"

definition mark_delivered ::
    "string \<Rightarrow> string option \<Rightarrow> string option \<Rightarrow> datetime \<Rightarrow> (loop_outbox, unit) op" where
  "mark_delivered event_id task_id run_id now = finish_event event_id DELIVERED None task_id run_id None now"

definition mark_remote_processing :: "string \<Rightarrow> string \<Rightarrow> string \<Rightarrow> datetime \<Rightarrow> (loop_outbox, unit) op" where
  "mark_remote_processing event_id task_id run_id now =
     thenS (guardS (task_id \<noteq> [] \<and> run_id \<noteq> []) (ValueError ''remote processing requires task and run identifiers''))
     (finish_event event_id REMOTE_PROCESSING None (Some task_id) (Some run_id) None now)"

definition mark_remote_completed :: "string \<Rightarrow> string \<Rightarrow> string \<Rightarrow> datetime \<Rightarrow> (loop_outbox, unit) op" where
  "mark_remote_completed event_id task_id run_id now =
     thenS (guardS (task_id \<noteq> [] \<and> run_id \<noteq> []) (ValueError ''remote completion requires task and run identifiers''))
     (finish_event event_id REMOTE_COMPLETED None (Some task_id) (Some run_id) None now)"

definition mark_failed ::
    "string \<Rightarrow> string \<Rightarrow> string option \<Rightarrow> string option \<Rightarrow> string option \<Rightarrow> datetime \<Rightarrow> (loop_outbox, unit) op"
  where
  "mark_failed event_id error_code task_id run_id failed_node now =
     finish_event event_id FAILED (Some (take 128 error_code)) task_id run_id failed_node now"

definition mark_blocked_precondition :: "string \<Rightarrow> string \<Rightarrow> datetime \<Rightarrow> (loop_outbox, unit) op" where
  "mark_blocked_precondition event_id error_code now = mark_local_block event_id BLOCKED_PRECONDITION error_code now"

definition mark_audit_only_backfill :: "string \<Rightarrow> string \<Rightarrow> datetime \<Rightarrow> (loop_outbox, unit) op" where
  "mark_audit_only_backfill event_id error_code now = mark_local_block event_id AUDIT_ONLY_BACKFILL error_code now"

section \<open>The life of a row\<close>

definition outbox_row_ok :: "outbox_row \<Rightarrow> bool" where
  "outbox_row_ok r \<longleftrightarrow> 0 \<le> ob_attempts r \<and> 0 \<le> ob_retry_count r"

definition outbox_up :: "outbox_row \<Rightarrow> outbox_row \<Rightarrow> bool" where
  \<comment> \<open>the event never changes, counters only grow, the run receipt is final, and a finished row keeps all
    but its last error\<close>
  "outbox_up r r' \<longleftrightarrow> ob_event_type r' = ob_event_type r \<and> ob_payload r' = ob_payload r \<and>
     ob_payload_sha256 r' = ob_payload_sha256 r \<and> ob_created_at_utc r' = ob_created_at_utc r \<and>
     ob_attempts r \<le> ob_attempts r' \<and> ob_retry_count r \<le> ob_retry_count r' \<and>
     (ob_remote_run_id r \<noteq> None \<longrightarrow> ob_remote_run_id r' = ob_remote_run_id r \<and>
        (ob_remote_task_id r \<noteq> None \<longrightarrow> ob_remote_task_id r' = ob_remote_task_id r)) \<and>
     (loop_terminal (ob_status r) \<longrightarrow> ob_status r' = ob_status r \<and> ob_attempts r' = ob_attempts r \<and>
        ob_retry_count r' = ob_retry_count r \<and> ob_retry_after_utc r' = ob_retry_after_utc r \<and>
        ob_remote_task_id r' = ob_remote_task_id r \<and> ob_remote_run_id r' = ob_remote_run_id r \<and>
        ob_failed_node r' = ob_failed_node r)"

abbreviation outbox_ok :: "loop_outbox \<Rightarrow> bool" where
  "outbox_ok \<equiv> table_ok ob_event_id outbox_row_ok"

abbreviation outbox_below :: "loop_outbox \<Rightarrow> loop_outbox \<Rightarrow> bool" where
  "outbox_below \<equiv> table_up ob_event_id outbox_up"

interpretation outbox_rows: row_cycle ob_event_id outbox_row_ok outbox_up
proof (unfold_locales, goal_cases)
  case (1 r)
  show ?case by (simp add: outbox_up_def)
next
  case (2 r s t)
  have "ob_attempts r \<le> ob_attempts t" "ob_retry_count r \<le> ob_retry_count t" using 2 by (simp_all add: outbox_up_def)
  with 2 show ?case unfolding outbox_up_def by simp
qed

text \<open>
  Every write of the outbox changes one row that is there, or adds a row.  \<open>row_step\<close> is the contract
  of the writes that keep the table and the order of its rows.
\<close>

definition row_step :: "(loop_outbox, 'a) op \<Rightarrow> bool" where
  "row_step m \<longleftrightarrow> keeps outbox_ok outbox_below m"

lemma row_step_update:
  assumes up: "\<And>r. P r \<Longrightarrow> outbox_row_ok r \<Longrightarrow>
      ob_event_id (f r r) = ob_event_id r \<and> outbox_row_ok (f r r) \<and> outbox_up r (f r r)"
    and m: "\<And>l. snd (m l) = l \<or> (\<exists>r. find_event e l = Some r \<and> P r \<and> snd (m l) = tbl_update ob_event_id e (f r) l)"
  shows "row_step m"
  unfolding row_step_def
proof (rule keepsI)
  fix l assume ok: "outbox_ok l"
  from m [of l] show "outbox_ok (snd (m l)) \<and> outbox_below l (snd (m l))"
  proof (elim disjE exE conjE)
    assume "snd (m l) = l"
    with outbox_rows.same_keeps [OF ok] show ?thesis by simp
  next
    fix r assume r: "find_event e l = Some r" "P r" and s: "snd (m l) = tbl_update ob_event_id e (f r) l"
    have "outbox_row_ok r" "ob_event_id r = e" using table_ok_find [OF ok r(1)] by simp_all
    with up [OF r(2)] have "ob_event_id (f r r) = e" "outbox_row_ok (f r r)" "outbox_up r (f r r)" by simp_all
    from outbox_rows.update_keeps [where f = "f r", OF ok r(1) this] s show ?thesis by simp
  qed
qed

lemma row_step_still: "(\<And>l. snd (m l) = l) \<Longrightarrow> row_step m"
  using row_step_update [of "\<lambda>_. False" "\<lambda>_ r. r" m] by blast

text \<open>The row that each write leaves.\<close>

definition deferred :: "string \<Rightarrow> datetime \<Rightarrow> outbox_row \<Rightarrow> outbox_row \<Rightarrow> outbox_row" where
  "deferred code now row r = r\<lparr>ob_retry_count := ob_retry_count r + 1,
     ob_retry_after_utc := Some (plus_minutes now (retry_minutes (ob_retry_count row))),
     ob_last_error_code := Some (take 128 code), ob_updated_at_utc := now\<rparr>"

definition advanced :: "loop_status \<Rightarrow> string option \<Rightarrow> string option \<Rightarrow> datetime \<Rightarrow> outbox_row \<Rightarrow> outbox_row" where
  "advanced status task_id run_id now r = r\<lparr>ob_status := status, ob_remote_task_id := task_id,
     ob_remote_run_id := run_id, ob_attempts := ob_attempts r + 1, ob_updated_at_utc := now, ob_last_error_code := None\<rparr>"

definition finished ::
    "loop_status \<Rightarrow> string option \<Rightarrow> string option \<Rightarrow> string option \<Rightarrow> string option \<Rightarrow> datetime \<Rightarrow> outbox_row \<Rightarrow> outbox_row"
  where
  "finished status error_code task_id run_id failed_node now r = r\<lparr>ob_status := status, ob_attempts := ob_attempts r + 1,
     ob_remote_task_id := coalesced task_id (ob_remote_task_id r),
     ob_remote_run_id := coalesced run_id (ob_remote_run_id r), ob_failed_node := failed_node,
     ob_last_error_code := error_code, ob_updated_at_utc := now\<rparr>"

definition blocked :: "loop_status \<Rightarrow> string \<Rightarrow> datetime \<Rightarrow> outbox_row \<Rightarrow> outbox_row" where
  "blocked status code now r = r\<lparr>ob_status := status, ob_last_error_code := Some (take 128 code), ob_updated_at_utc := now\<rparr>"

definition noted :: "string \<Rightarrow> datetime \<Rightarrow> outbox_row \<Rightarrow> outbox_row" where
  "noted code now r = r\<lparr>ob_last_error_code := Some (take 128 code), ob_updated_at_utc := now\<rparr>"

lemma defer_retry_cases:
  "snd (defer_retry e code now l) = l \<or> (\<exists>r. find_event e l = Some r \<and> \<not> loop_terminal (ob_status r) \<and>
     snd (defer_retry e code now l) = tbl_update ob_event_id e (deferred code now r) l)"
  by (cases "find_event e l") (auto simp: defer_retry_def run deferred_def [abs_def])

definition may_advance :: "loop_status \<Rightarrow> outbox_row \<Rightarrow> bool" where
  "may_advance status r \<longleftrightarrow> (\<exists>allowed. loop_predecessors status = Some allowed \<and> ob_status r \<in> set allowed) \<and>
     ob_remote_run_id r = None \<and> (status = CREATING_TASK \<longrightarrow> ob_remote_task_id r = None)"

lemma checkpoint_run:
  assumes "find_event e l = Some r"
  shows "checkpoint e status t rn now l =
    (if loop_predecessors status = None then (Inl (KeyError ''status''), l)
     else if status = CREATING_TASK \<and> rival e l
     then (Inl (RuntimeError ''Loop daily review already claimed with different evidence''), l)
     else if may_advance status r then (Inr (), tbl_update ob_event_id e (advanced status t rn now) l)
     else (Inl (RuntimeError ''Loop submission already claimed; reconcile original receipt''), l))"
  using assms
  by (cases "loop_predecessors status")
    (auto simp: checkpoint_def run may_advance_def advanced_def [abs_def])

lemma checkpoint_missing:
  "find_event e l = None \<Longrightarrow> checkpoint e status t rn now l =
     (Inl (if loop_predecessors status = None then KeyError ''status''
           else RuntimeError ''Loop submission already claimed; reconcile original receipt''), l)"
  by (cases "loop_predecessors status") (simp_all add: checkpoint_def run rival_def)

definition plain_error :: "py_error \<Rightarrow> bool" where
  \<comment> \<open>not an exception that carries remote receipts\<close>
  "plain_error err \<longleftrightarrow> (case err of LoopRemoteRejectedError _ \<Rightarrow> False | LoopRunIncompleteError _ _ \<Rightarrow> False
     | LoopRunFailedError _ _ _ _ \<Rightarrow> False | _ \<Rightarrow> True)"

lemma checkpoint_cases:
  obtains (refused) "\<exists>err. checkpoint e status t rn now l = (Inl err, l) \<and> plain_error err"
    | (claims) r where "find_event e l = Some r" "may_advance status r" "status = CREATING_TASK \<longrightarrow> \<not> rival e l"
      "checkpoint e status t rn now l = (Inr (), tbl_update ob_event_id e (advanced status t rn now) l)"
proof (cases "find_event e l")
  case None
  then show thesis by (intro refused) (simp add: checkpoint_missing plain_error_def)
next
  case (Some r)
  show thesis
  proof (cases "loop_predecessors status \<noteq> None \<and> may_advance status r \<and> \<not> (status = CREATING_TASK \<and> rival e l)")
    case True
    with claims [OF Some] show thesis by (simp add: checkpoint_run [OF Some])
  next
    case False
    then show thesis by (intro refused) (auto simp: checkpoint_run [OF Some] plain_error_def)
  qed
qed

lemma finish_event_cases:
  obtains (still) "snd (finish_event e status code t rn node now l) = l"
    | (finishes) r where "find_event e l = Some r" "\<not> loop_terminal (ob_status r)"
      "same_receipt t (ob_remote_task_id r)" "same_receipt rn (ob_remote_run_id r)"
      "finish_event e status code t rn node now l =
         (Inr (), tbl_update ob_event_id e (finished status code t rn node now) l)"
proof (cases "find_event e l")
  case None
  then show thesis by (intro still) (simp add: finish_event_def run)
next
  case (Some r)
  show thesis
  proof (cases "\<not> loop_terminal (ob_status r) \<and> same_receipt t (ob_remote_task_id r) \<and> same_receipt rn (ob_remote_run_id r)")
    case True
    with Some show thesis by (intro finishes [of r]) (auto simp: finish_event_def run finished_def [abs_def])
  next
    case False
    with Some show thesis by (intro still) (auto simp: finish_event_def run)
  qed
qed

lemma mark_local_block_cases:
  "snd (mark_local_block e status code now l) = l \<or> (\<exists>r. find_event e l = Some r \<and>
     (ob_remote_task_id r = None \<and> ob_remote_run_id r = None \<and>
      ob_status r \<in> {PENDING, FAILED, BLOCKED_PRECONDITION, AUDIT_ONLY_BACKFILL}) \<and>
     snd (mark_local_block e status code now l) =
       tbl_update ob_event_id e (blocked status code now) l)"
  by (cases "find_event e l") (auto simp: mark_local_block_def run blocked_def [abs_def])

lemma tbl_update_missing: "tbl_find key k t = None \<Longrightarrow> tbl_update key k f t = t"
  unfolding tbl_update_def by (intro map_idI) (auto simp: tbl_find_None_iff)

lemma record_error_cases:
  "snd (record_error e code now l) = l \<or> (\<exists>r. find_event e l = Some r \<and> True \<and>
     snd (record_error e code now l) = tbl_update ob_event_id e (noted code now) l)"
  by (cases "find_event e l") (auto simp: record_error_def noted_def [abs_def] tbl_update_missing)

lemma row_step_defer: "row_step (defer_retry e code now)"
  by (rule row_step_update [OF _ defer_retry_cases]) (simp add: deferred_def outbox_row_ok_def outbox_up_def)

lemma row_step_record_error: "row_step (record_error e code now)"
  by (rule row_step_update [OF _ record_error_cases]) (simp add: noted_def outbox_row_ok_def outbox_up_def)

lemma row_step_local_block: "row_step (mark_local_block e status code now)"
  by (rule row_step_update [OF _ mark_local_block_cases])
    (auto simp: blocked_def outbox_row_ok_def outbox_up_def loop_terminal_def)

lemma may_advance_live: "may_advance status r \<Longrightarrow> \<not> loop_terminal (ob_status r)"
  by (auto simp: may_advance_def loop_predecessors_def loop_terminal_def split: loop_status.splits)

lemma row_step_checkpoint: "row_step (checkpoint e status t rn now)"
proof (rule row_step_update)
  fix l
  show "snd (checkpoint e status t rn now l) = l \<or> (\<exists>r. find_event e l = Some r \<and> may_advance status r \<and>
      snd (checkpoint e status t rn now l) = tbl_update ob_event_id e (advanced status t rn now) l)"
    by (cases rule: checkpoint_cases [of e status t rn now l]) auto
next
  fix r assume "may_advance status r" "outbox_row_ok r"
  then show "ob_event_id (advanced status t rn now r) = ob_event_id r \<and> outbox_row_ok (advanced status t rn now r) \<and>
      outbox_up r (advanced status t rn now r)"
    using may_advance_live [of status r] by (simp add: advanced_def outbox_row_ok_def outbox_up_def may_advance_def)
qed

lemma row_step_finish: "row_step (finish_event e status code t rn node now)"
proof (rule row_step_update)
  fix l
  show "snd (finish_event e status code t rn node now l) = l \<or> (\<exists>r. find_event e l = Some r \<and>
      (\<not> loop_terminal (ob_status r) \<and> same_receipt t (ob_remote_task_id r) \<and> same_receipt rn (ob_remote_run_id r)) \<and>
      snd (finish_event e status code t rn node now l) =
        tbl_update ob_event_id e (finished status code t rn node now) l)"
    by (cases rule: finish_event_cases [of e status code t rn node now l]) auto
qed (auto simp: finished_def outbox_row_ok_def outbox_up_def same_receipt_def coalesced_def split: option.split)

lemma row_step_stage: "row_step (stage_event e ty payload sha now)"
  unfolding row_step_def
proof (rule keepsI)
  fix l assume ok: "outbox_ok l"
  show "outbox_ok (snd (stage_event e ty payload sha now l)) \<and> outbox_below l (snd (stage_event e ty payload sha now l))"
  proof (cases "find_event e l")
    case None
    let ?row = "\<lparr>ob_event_id = e, ob_event_type = ty, ob_payload = payload, ob_payload_sha256 = sha,
       ob_status = PENDING, ob_attempts = 0, ob_remote_task_id = None, ob_remote_run_id = None, ob_failed_node = None,
       ob_last_error_code = None, ob_retry_after_utc = None, ob_retry_count = 0, ob_created_at_utc = now,
       ob_updated_at_utc = now\<rparr>"
    have "snd (stage_event e ty payload sha now l) = tbl_insert ?row l"
      using None by (simp add: stage_event_def get_event_def run split: option.split)
    moreover have "find_event (ob_event_id ?row) l = None" "outbox_row_ok ?row" using None by (simp_all add: outbox_row_ok_def)
    ultimately show ?thesis using outbox_rows.insert_keeps [OF ok, of ?row] by simp
  next
    case (Some row)
    then show ?thesis using outbox_rows.same_keeps [OF ok] by (simp add: stage_event_def run)
  qed
qed

section \<open>Runs of the outbox\<close>

datatype outbox_command =
    Stage string loop_event_type dict string datetime
  | DeferRetry string string datetime
  | Checkpoint string loop_status "string option" "string option" datetime
  | RecordError string string datetime
  | MarkDelivered string "string option" "string option" datetime
  | MarkRemoteProcessing string string string datetime
  | MarkRemoteCompleted string string string datetime
  | MarkRemoteRejected string string datetime
  | MarkFailed string string "string option" "string option" "string option" datetime
  | MarkBlockedPrecondition string string datetime
  | MarkAuditOnlyBackfill string string datetime

fun exec_outbox :: "outbox_command \<Rightarrow> loop_outbox \<Rightarrow> loop_outbox" where
  "exec_outbox (Stage e ty p sha now) l = snd (stage_event e ty p sha now l)"
| "exec_outbox (DeferRetry e code now) l = snd (defer_retry e code now l)"
| "exec_outbox (Checkpoint e s t rn now) l = snd (checkpoint e s t rn now l)"
| "exec_outbox (RecordError e code now) l = snd (record_error e code now l)"
| "exec_outbox (MarkDelivered e t rn now) l = snd (mark_delivered e t rn now l)"
| "exec_outbox (MarkRemoteProcessing e t rn now) l = snd (mark_remote_processing e t rn now l)"
| "exec_outbox (MarkRemoteCompleted e t rn now) l = snd (mark_remote_completed e t rn now l)"
| "exec_outbox (MarkRemoteRejected e code now) l = snd (mark_remote_rejected e code now l)"
| "exec_outbox (MarkFailed e code t rn node now) l = snd (mark_failed e code t rn node now l)"
| "exec_outbox (MarkBlockedPrecondition e code now) l = snd (mark_blocked_precondition e code now l)"
| "exec_outbox (MarkAuditOnlyBackfill e code now) l = snd (mark_audit_only_backfill e code now l)"

lemma row_step_guarded: "row_step m \<Longrightarrow> row_step (thenS (guardS b e) m)"
  unfolding row_step_def keeps_def by (simp add: run outbox_rows.same_keeps)

lemma exec_outbox_keeps:
  assumes ok: "outbox_ok l"
  shows "outbox_ok (exec_outbox c l) \<and> outbox_below l (exec_outbox c l)"
proof -
  have step: "row_step m \<Longrightarrow> outbox_ok (snd (m l)) \<and> outbox_below l (snd (m l))" for m :: "(loop_outbox, 'a) op"
    using ok unfolding row_step_def keeps_def by blast
  show ?thesis
    by (cases c) (simp_all add: step row_step_stage row_step_defer row_step_checkpoint row_step_record_error
        row_step_finish row_step_guarded row_step_local_block mark_delivered_def mark_remote_processing_def
        mark_remote_completed_def mark_remote_rejected_def mark_failed_def mark_blocked_precondition_def
        mark_audit_only_backfill_def)
qed

section \<open>Properties\<close>

text \<open>C26: over any sequence of outbox operations with any arguments, the outbox keeps one row per event,
  never loses or rewrites an event, only adds attempts and retries, never changes a run receipt or
  the task it belongs to, and never changes a delivered, completed or rejected event other than its
  last error note.\<close>

theorem outbox_run:
  assumes "outbox_ok l"
  shows "outbox_ok (fold exec_outbox cmds l) \<and> outbox_below l (fold exec_outbox cmds l)"
  by (rule outbox_rows.run_keeps [OF exec_outbox_keeps assms])

lemma outbox_run_witness:
  "outbox_ok (fold exec_outbox
     [Stage ''e1'' DAILY_REVIEW [(''trading_date'', JStr ''2026-07-01'')] ''h'' (utc 0),
      Checkpoint ''e1'' CREATING_TASK None None (utc 1)] [])"
proof -
  have "outbox_ok []" by simp
  then show ?thesis by (rule outbox_run [THEN conjunct1])
qed

end
