(* ===== verification/LoopReview.thy ===== *)
theory LoopReview
  imports LoopOutbox
begin

text \<open>
  The submission of a daily review to the external review service: the remote calls of class
  \<open>LoopClient\<close> (operations/loop_integration/client.py) and the program
  scripts/sync_loop_daily_review.py that drives them through the outbox.  The HTTP transport, the
  decoding of the stored envelope and the checks made before a task is created are parameters;
  \<open>clk i\<close> is the value of the clock at the i-th place the code reads it.
\<close>

section \<open>The remote calls\<close>

text \<open>\<open>_request\<close> raises \<open>LoopRemoteRejectedError\<close> for status 422 and a transport error for the rest.\<close>

datatype loop_failure = Rejected422 string | TransportFailure string

text \<open>What comes before the first checkpoint of \<open>submit_review\<close>: evidence checks, the task's body, and the
  GET requests that validate the control contracts.\<close>

datatype preparation = Prepared json | PreconditionFailed string | BackfillOnly string
  | PreparationRejected string | PreparationFailed string

record 'b loop_env =
  le_request :: "string \<Rightarrow> string \<Rightarrow> json option \<Rightarrow> 'b \<Rightarrow> (loop_failure + json) \<times> 'b"
  le_prepare :: "dict \<Rightarrow> 'b \<Rightarrow> preparation \<times> 'b"
  le_envelope_sha256 :: "dict \<Rightarrow> py_error + string"
  le_repr :: "json \<Rightarrow> string"

definition loop_request :: "'b loop_env \<Rightarrow> string \<Rightarrow> string \<Rightarrow> json option \<Rightarrow> ('b, json) op" where
  "loop_request env m path body b = (case le_request env m path body b of
     (Inr v, b') \<Rightarrow> (Inr v, b')
   | (Inl (Rejected422 code), b') \<Rightarrow> (Inl (LoopRemoteRejectedError code), b')
   | (Inl (TransportFailure name), b') \<Rightarrow> (Inl (RequestError name), b'))"

definition loop_prepare :: "'b loop_env \<Rightarrow> dict \<Rightarrow> ('b, json) op" where
  "loop_prepare env payload b = (case le_prepare env payload b of
     (Prepared body, b') \<Rightarrow> (Inr body, b')
   | (PreconditionFailed code, b') \<Rightarrow> (Inl (LoopPreconditionError code), b')
   | (BackfillOnly code, b') \<Rightarrow> (Inl (AuditOnlyBackfillRequired code), b')
   | (PreparationRejected code, b') \<Rightarrow> (Inl (LoopRemoteRejectedError code), b')
   | (PreparationFailed name, b') \<Rightarrow> (Inl (RequestError name), b'))"

definition receipt_id :: "(json \<Rightarrow> string) \<Rightarrow> string \<Rightarrow> json \<Rightarrow> py_error + string" where
  \<comment> \<open>\<open>isinstance(v, dict) and str(v.get("id") or "")\<close>, else the error\<close>
  "receipt_id repr message v = (case v of
     JObj kvs \<Rightarrow> (let s = text_or_empty repr (json_get ''id'' kvs) in
        if s = [] then Inl (RuntimeError message) else Inr s)
   | _ \<Rightarrow> Inl (RuntimeError message))"

definition failed_event :: "json \<Rightarrow> bool" where
  "failed_event ev \<longleftrightarrow> (case ev of
     JObj kvs \<Rightarrow> json_get ''event'' kvs = JStr ''quant_step_failed'' \<or> json_get ''type'' kvs = JStr ''quant_step_failed''
   | _ \<Rightarrow> False)"

definition or_default :: "string \<Rightarrow> string \<Rightarrow> string" where
  "or_default s d = (if s = [] then d else s)"

definition run_failure :: "(json \<Rightarrow> string) \<Rightarrow> dict \<Rightarrow> py_error + (string \<times> string)" where
  \<comment> \<open>the newest failed step among the events, else the result; a string or an object as \<open>events\<close> iterates
    over strings, a number does not iterate\<close>
  "run_failure repr kvs = (let text = text_or_empty repr;
       from_result = (let result = (case json_get ''result'' kvs of JObj r \<Rightarrow> r | _ \<Rightarrow> []) in
         Inr (text (json_get ''failed_step_id'' result), or_default (text (json_get ''error_code'' result)) ''LOOP_RUN_FAILED''))
     in if \<not> json_truthy (json_get ''events'' kvs) then from_result
        else case json_get ''events'' kvs of
          JList evs \<Rightarrow> (case find failed_event (rev evs) of
              Some (JObj ev) \<Rightarrow> Inr (text (json_get ''step_id'' ev), or_default (text (json_get ''error_type'' ev)) ''LOOP_RUN_FAILED'')
            | _ \<Rightarrow> from_result)
        | JInt _ \<Rightarrow> Inl (TypeError ''not reversible'')
        | JBool _ \<Rightarrow> Inl (TypeError ''not reversible'')
        | _ \<Rightarrow> from_result)"

definition review_result :: "(json \<Rightarrow> string) \<Rightarrow> json \<Rightarrow> string \<Rightarrow> string \<Rightarrow> py_error + (string \<times> string)" where
  "review_result repr v task_id run_id = (case v of
     JObj kvs \<Rightarrow> (let status = py_upper (text_or_empty repr (json_get ''status'' kvs)) in
        if status = ''COMPLETED'' then Inr (task_id, run_id)
        else if status = ''FAILED'' then (case run_failure repr kvs of
            Inl e \<Rightarrow> Inl e
          | Inr (node, code) \<Rightarrow> Inl (LoopRunFailedError task_id run_id node code))
        else Inl (LoopRunIncompleteError task_id run_id))
   | _ \<Rightarrow> Inl (RuntimeError ''Loop run response lacks run id''))"

type_synonym 'b loop_desk = "'b \<times> loop_outbox"

definition start_review_run ::
    "'b loop_env \<Rightarrow> string \<Rightarrow> (nat \<Rightarrow> datetime) \<Rightarrow> string \<Rightarrow> ('b loop_desk, string \<times> string) op" where
  "start_review_run env event_id clk task_id =
     thenS (on_snd (checkpoint event_id STARTING_RUN (Some task_id) None (clk 2)))
     (bindS (on_fst (loop_request env ''POST'' (''/api/v1/tasks/'' @ task_id @ ''/run'') (Some (JObj [(''approve'', JBool False)]))))
       (\<lambda>run.
      bindS (liftS (receipt_id (le_repr env) ''Loop run response lacks run id'' run)) (\<lambda>run_id.
      thenS (on_snd (checkpoint event_id REMOTE_PROCESSING (Some task_id) (Some run_id) (clk 3)))
        (liftS (review_result (le_repr env) run task_id run_id)))))"

definition submit_review ::
    "'b loop_env \<Rightarrow> string \<Rightarrow> dict \<Rightarrow> (nat \<Rightarrow> datetime) \<Rightarrow> ('b loop_desk, string \<times> string) op" where
  "submit_review env event_id payload clk =
     bindS (on_fst (loop_prepare env payload)) (\<lambda>task_payload.
     thenS (on_snd (checkpoint event_id CREATING_TASK None None (clk 0)))
     (bindS (on_fst (loop_request env ''POST'' ''/api/v1/tasks'' (Some task_payload))) (\<lambda>task.
      bindS (liftS (receipt_id (le_repr env) ''Loop create-task response lacks task id'' task)) (\<lambda>task_id.
      thenS (on_snd (checkpoint event_id TASK_CREATED (Some task_id) None (clk 1)))
        (start_review_run env event_id clk task_id)))))"

definition get_review_run :: "'b loop_env \<Rightarrow> string \<Rightarrow> string \<Rightarrow> ('b loop_desk, string \<times> string) op" where
  "get_review_run env task_id run_id =
     bindS (on_fst (loop_request env ''GET'' (''/api/v1/tasks/'' @ task_id) None)) (\<lambda>task.
       liftS (case task of
          JObj kvs \<Rightarrow> (if json_get ''id'' kvs \<noteq> JStr task_id then Inl (RuntimeError ''Loop task receipt identity mismatch'')
            else let status = py_upper (text_or_empty (le_repr env) (json_get ''status'' kvs)) in
              if status = ''COMPLETED'' then Inr (task_id, run_id)
              else if status = ''FAILED'' then Inl (LoopRunFailedError task_id run_id [] ''LOOP_TASK_FAILED'')
              else Inl (LoopRunIncompleteError task_id run_id))
        | _ \<Rightarrow> Inl (RuntimeError ''Loop task receipt identity mismatch'')))"

section \<open>The driver\<close>

definition error_name :: "py_error \<Rightarrow> string" where
  \<comment> \<open>\<open>type(exc).__name__\<close> of the exceptions that can arrive\<close>
  "error_name e = (case e of ValueError _ \<Rightarrow> ''ValueError'' | KeyError _ \<Rightarrow> ''KeyError'' | TypeError _ \<Rightarrow> ''TypeError''
     | ValidationError _ \<Rightarrow> ''ValidationError'' | RequestError name \<Rightarrow> name
     | LoopPreconditionError _ \<Rightarrow> ''LoopPreconditionError''
     | AuditOnlyBackfillRequired _ \<Rightarrow> ''AuditOnlyBackfillRequired'' | _ \<Rightarrow> ''RuntimeError'')"

text \<open>What the programs print: the status and the ids or the error code beside it.\<close>

record LoopReceipt =
  lt_status :: string
  lt_task_id :: "string option"
  lt_run_id :: "string option"
  lt_detail :: string

definition loop_receipt :: "string \<Rightarrow> string option \<Rightarrow> string option \<Rightarrow> string \<Rightarrow> LoopReceipt" where
  "loop_receipt status task_id run_id detail =
     \<lparr>lt_status = status, lt_task_id = task_id, lt_run_id = run_id, lt_detail = detail\<rparr>"

definition given :: "string option \<Rightarrow> bool" where
  \<comment> \<open>the truth value of an optional string\<close>
  "given v \<longleftrightarrow> (case v of None \<Rightarrow> False | Some s \<Rightarrow> s \<noteq> [])"

definition settle_resumed ::
    "string \<Rightarrow> OutboxItem \<Rightarrow> datetime \<Rightarrow> (nat \<Rightarrow> datetime) \<Rightarrow> py_error + (string \<times> string)
       \<Rightarrow> (loop_outbox, LoopReceipt) op" where
  \<comment> \<open>the handlers of \<open>resume_submitted_review\<close> and what follows them\<close>
  "settle_resumed event_id item now clk outcome = (let receipt = (\<lambda>status detail.
       loop_receipt status (oi_remote_task_id item) (oi_remote_run_id item) detail) in
     case outcome of
       Inr (task, rn) \<Rightarrow> thenS (mark_delivered event_id (Some task) (Some rn) (clk 4))
         (returnS (loop_receipt ''delivered'' (Some task) (Some rn) []))
     | Inl (LoopRunIncompleteError task rn) \<Rightarrow>
         thenS (mark_remote_processing event_id task rn (clk 4))
         (thenS (defer_retry event_id ''REMOTE_PROCESSING'' now)
         (returnS (loop_receipt ''remote_processing'' (oi_remote_task_id item) (Some rn) [])))
     | Inl (LoopRunFailedError task rn node code) \<Rightarrow>
         thenS (mark_failed event_id code (Some task) (Some rn) (Some node) (clk 4))
         (thenS (mark_remote_rejected event_id code (clk 5)) (returnS (receipt ''remote_failed'' [])))
     | Inl (LoopRemoteRejectedError code) \<Rightarrow>
         thenS (mark_remote_rejected event_id code (clk 4)) (returnS (receipt ''remote_rejected'' code))
     | Inl e \<Rightarrow> thenS (defer_retry event_id (error_name e) now) (returnS (receipt ''retryable_failure'' (error_name e))))"

definition resume_submitted_review ::
    "'b loop_env \<Rightarrow> OutboxItem \<Rightarrow> datetime \<Rightarrow> (nat \<Rightarrow> datetime) \<Rightarrow> ('b loop_desk, LoopReceipt) op" where
  "resume_submitted_review env item now clk = (let event_id = oi_event_id item; receipt = (\<lambda>status detail.
       loop_receipt status (oi_remote_task_id item) (oi_remote_run_id item) detail);
     handle = (\<lambda>m. bindS (attemptS (\<lambda>_. True) m) (\<lambda>outcome. on_snd (settle_resumed event_id item now clk outcome))) in
     bindS (liftS (le_envelope_sha256 env (oi_payload item))) (\<lambda>sha.
       if sha \<noteq> oi_payload_sha256 item then raiseS (ValueError ''persisted Loop review content hash mismatch'')
       else if oi_status item \<in> {DELIVERED, REMOTE_COMPLETED} then returnS (receipt ''delivered'' [])
       else if oi_status item = REMOTE_REJECTED then returnS (receipt ''remote_failed'' [])
       else if oi_status item \<in> {CREATING_TASK, STARTING_RUN} then returnS (receipt ''reconciliation_required'' [])
       else if (case oi_retry_after_utc item of None \<Rightarrow> False | Some t \<Rightarrow> instant now < instant t)
         then returnS (receipt ''retry_scheduled'' [])
       else if given (oi_remote_task_id item) \<and> given (oi_remote_run_id item)
         then handle (get_review_run env (the (oi_remote_task_id item)) (the (oi_remote_run_id item)))
       else if oi_status item = TASK_CREATED \<and> given (oi_remote_task_id item)
         then handle (start_review_run env event_id clk (the (oi_remote_task_id item)))
       else returnS (receipt ''reconciliation_required'' [])))"

definition settle_submitted ::
    "string \<Rightarrow> (nat \<Rightarrow> datetime) \<Rightarrow> py_error + (string \<times> string) \<Rightarrow> (loop_outbox, LoopReceipt) op" where
  \<comment> \<open>the handlers of the submission in \<open>main\<close> and what follows them\<close>
  "settle_submitted event_id clk outcome = (case outcome of
       Inr (task, rn) \<Rightarrow> thenS (mark_delivered event_id (Some task) (Some rn) (clk 4))
         (returnS (loop_receipt ''delivered'' (Some task) (Some rn) []))
     | Inl (LoopRunIncompleteError task rn) \<Rightarrow>
         thenS (mark_remote_processing event_id task rn (clk 4))
         (thenS (defer_retry event_id ''REMOTE_PROCESSING'' (clk 5))
         (returnS (loop_receipt ''remote_processing'' (Some task) (Some rn) [])))
     | Inl (AuditOnlyBackfillRequired code) \<Rightarrow>
         thenS (mark_audit_only_backfill event_id code (clk 4)) (returnS (loop_receipt ''audit_only_backfill'' None None []))
     | Inl (LoopPreconditionError code) \<Rightarrow>
         thenS (mark_blocked_precondition event_id code (clk 4)) (returnS (loop_receipt ''blocked_precondition'' None None []))
     | Inl (LoopRemoteRejectedError code) \<Rightarrow>
         thenS (mark_remote_rejected event_id code (clk 4)) (returnS (loop_receipt ''remote_rejected'' None None code))
     | Inl (LoopRunFailedError task rn node code) \<Rightarrow>
         thenS (mark_failed event_id code (Some task) (Some rn) (Some node) (clk 4))
           (raiseS (LoopRunFailedError task rn node code))
     | Inl e \<Rightarrow> thenS (record_error event_id (error_name e) (clk 4)) (raiseS e))"

definition drive_review ::
    "'b loop_env \<Rightarrow> string \<Rightarrow> dict \<Rightarrow> OutboxItem \<Rightarrow> (nat \<Rightarrow> datetime) \<Rightarrow> ('b loop_desk, string \<times> string) op" where
  \<comment> \<open>the body of the \<open>try\<close>\<close>
  "drive_review env event_id payload staged clk =
     (if given (oi_remote_task_id staged) \<and> given (oi_remote_run_id staged)
      then get_review_run env (the (oi_remote_task_id staged)) (the (oi_remote_run_id staged))
      else if oi_status staged = TASK_CREATED \<and> given (oi_remote_task_id staged)
      then start_review_run env event_id clk (the (oi_remote_task_id staged))
      else if oi_status staged \<in> {CREATING_TASK, STARTING_RUN} \<or> given (oi_remote_task_id staged)
      then raiseS (RuntimeError ''Loop submission outcome unknown; reconcile before resubmission'')
      else submit_review env event_id payload clk)"

definition section_field :: "string \<Rightarrow> string \<Rightarrow> dict \<Rightarrow> json" where
  \<comment> \<open>\<open>envelope.<section>.get(key)\<close>\<close>
  "section_field part key payload = (case json_get part payload of JObj kvs \<Rightarrow> json_get key kvs | _ \<Rightarrow> JNull)"

definition claimed_item :: "OutboxItem \<Rightarrow> bool" where
  "claimed_item item \<longleftrightarrow> given (oi_remote_task_id item) \<or> oi_status item \<in> {CREATING_TASK, STARTING_RUN}"

definition submit_staged ::
    "'b loop_env \<Rightarrow> string \<Rightarrow> dict \<Rightarrow> OutboxItem \<Rightarrow> (nat \<Rightarrow> datetime) \<Rightarrow> ('b loop_desk, LoopReceipt) op" where
  \<comment> \<open>from the test of \<open>staged.status\<close> on; \<open>payload\<close> is the envelope's\<close>
  "submit_staged env event_id payload staged clk =
     (if oi_status staged \<in> {DELIVERED, REMOTE_COMPLETED}
      then returnS (loop_receipt ''delivered'' (oi_remote_task_id staged) (oi_remote_run_id staged) [])
      else if section_field ''risk_policy'' ''status'' payload \<noteq> JStr ''available'' \<and>
        section_field ''execution_summary'' ''orders_authorized'' payload \<noteq> JBool False
      then thenS (on_snd (mark_blocked_precondition event_id ''EFFECTIVE_MODERN_PLAN_UNAVAILABLE'' (clk 7)))
        (returnS (loop_receipt ''blocked_precondition'' None None []))
      else bindS (attemptS (\<lambda>_. True) (drive_review env event_id payload staged clk))
        (\<lambda>outcome. on_snd (settle_submitted event_id clk outcome)))"

definition stage_review ::
    "'b loop_env \<Rightarrow> bool \<Rightarrow> string \<Rightarrow> dict \<Rightarrow> string \<Rightarrow> (nat \<Rightarrow> datetime) \<Rightarrow> ('b loop_desk, LoopReceipt) op" where
  \<comment> \<open>\<open>main\<close> from \<open>previous = outbox.get(...)\<close> on; the envelope that it built from the day's files is given
    by its event id, payload and hash\<close>
  "stage_review env stage_only event_id payload sha clk =
     bindS (on_snd (get_event event_id)) (\<lambda>previous.
     bindS (if \<not> stage_only \<and> (case previous of None \<Rightarrow> False | Some p \<Rightarrow> claimed_item p)
            then bindS (liftS (le_envelope_sha256 env (oi_payload (the previous)))) (\<lambda>h.
                   if h \<noteq> oi_payload_sha256 (the previous)
                   then raiseS (ValueError ''persisted Loop review content hash mismatch'')
                   else returnS (oi_payload (the previous), the previous))
            else bindS (on_snd (stage_event event_id DAILY_REVIEW payload sha (clk 6))) (\<lambda>item. returnS (payload, item)))
       (\<lambda>(content, staged). if stage_only then returnS (loop_receipt ''staged'' None None [])
                 else submit_staged env event_id content staged clk))"

definition sync_daily_review ::
    "'b loop_env \<Rightarrow> bool \<Rightarrow> date \<Rightarrow> string \<Rightarrow> dict \<Rightarrow> string \<Rightarrow> (nat \<Rightarrow> datetime) \<Rightarrow> ('b loop_desk, LoopReceipt) op" where
  \<comment> \<open>\<open>main\<close>: a day with a claimed review is resumed before anything is built\<close>
  "sync_daily_review env stage_only trade_date event_id payload sha clk =
     bindS (if stage_only then returnS None else on_snd (submitted_review trade_date)) (\<lambda>prior. case prior of
       Some item \<Rightarrow> resume_submitted_review env item (clk 8) clk
     | None \<Rightarrow> stage_review env stage_only event_id payload sha clk)"

end
