(* ===== verification/LoopSafety.thy ===== *)
theory LoopSafety
  imports LoopReview
begin

text \<open>
  That the review service is never asked twice: over any runs of the two programs, at most one task
  and at most one run per trading day, whatever the service answers.  The remote calls are
  recorded beside the environment's own state.
\<close>

section \<open>Recording the remote calls\<close>

record loop_post =
  lp_day :: json
  lp_path :: string
  lp_rejected :: bool

definition loop_post :: "json \<Rightarrow> string \<Rightarrow> bool \<Rightarrow> loop_post" where
  "loop_post day path rejected = \<lparr>lp_day = day, lp_path = path, lp_rejected = rejected\<rparr>"

definition recorded_loop :: "json \<Rightarrow> 'b loop_env \<Rightarrow> ('b \<times> loop_post list) loop_env" where
  \<comment> \<open>the same environment with the log of its POST requests, made for the review of \<open>day\<close>\<close>
  "recorded_loop day env = \<lparr>
     le_request = (\<lambda>m path body (b, posts). case le_request env m path body b of (r, b') \<Rightarrow>
       (r, (b', if m = ''POST''
                then posts @ [loop_post day path (case r of Inl (Rejected422 _) \<Rightarrow> True | _ \<Rightarrow> False)] else posts))),
     le_prepare = (\<lambda>payload (b, posts). case le_prepare env payload b of (r, b') \<Rightarrow> (r, (b', posts))),
     le_envelope_sha256 = le_envelope_sha256 env, le_repr = le_repr env\<rparr>"

definition creates :: "json \<Rightarrow> loop_post list \<Rightarrow> nat" where
  \<comment> \<open>tasks created for the day and not rejected as malformed\<close>
  "creates day posts = length (filter (\<lambda>p. lp_day p = day \<and> lp_path p = ''/api/v1/tasks'' \<and> \<not> lp_rejected p) posts)"

definition starts :: "json \<Rightarrow> loop_post list \<Rightarrow> nat" where
  "starts day posts = length (filter (\<lambda>p. lp_day p = day \<and> lp_path p \<noteq> ''/api/v1/tasks'') posts)"

lemma creates_snoc [simp]:
  "creates day (posts @ [loop_post d path rej]) =
     creates day posts + (if d = day \<and> path = ''/api/v1/tasks'' \<and> \<not> rej then 1 else 0)"
  by (simp add: creates_def loop_post_def)

lemma starts_snoc [simp]:
  "starts day (posts @ [loop_post d path rej]) = starts day posts + (if d = day \<and> path \<noteq> ''/api/v1/tasks'' then 1 else 0)"
  by (simp add: starts_def loop_post_def)

section \<open>The invariant\<close>

definition daily :: "json \<Rightarrow> outbox_row \<Rightarrow> bool" where
  "daily day r \<longleftrightarrow> ob_event_type r = DAILY_REVIEW \<and> trading_date r = day"

definition started :: "outbox_row \<Rightarrow> bool" where
  "started r \<longleftrightarrow> ob_remote_task_id r \<noteq> None \<and> ob_status r \<noteq> CREATING_TASK \<and> ob_status r \<noteq> TASK_CREATED"

text \<open>One claimed review per day, and every remote call is accounted for by it.\<close>

definition one_claim :: "loop_outbox \<Rightarrow> bool" where
  "one_claim l \<longleftrightarrow> (\<forall>r \<in> set l. \<forall>q \<in> set l. \<forall>day. day \<noteq> JNull \<and> daily day r \<and> daily day q \<and> claimed r \<and> claimed q \<longrightarrow>
     ob_event_id r = ob_event_id q)"

definition accounted :: "loop_post list \<Rightarrow> loop_outbox \<Rightarrow> bool" where
  "accounted posts l \<longleftrightarrow> (\<forall>day. day \<noteq> JNull \<longrightarrow> creates day posts \<le> 1 \<and> starts day posts \<le> 1 \<and>
     (0 < creates day posts \<longrightarrow> (\<exists>r \<in> set l. daily day r \<and> claimed r)) \<and>
     (0 < starts day posts \<longrightarrow> (\<exists>r \<in> set l. daily day r \<and> started r)))"

definition named :: "(string \<Rightarrow> json) \<Rightarrow> loop_outbox \<Rightarrow> bool" where
  \<comment> \<open>\<open>day_of\<close> tells the day of each event id that names a review\<close>
  "named day_of l \<longleftrightarrow> (\<forall>r \<in> set l. (day_of (ob_event_id r) \<noteq> JNull \<longrightarrow> daily (day_of (ob_event_id r)) r) \<and>
     (ob_event_type r = DAILY_REVIEW \<longrightarrow> trading_date r \<noteq> JNull \<and> day_of (ob_event_id r) = trading_date r))"

definition loop_safe :: "(string \<Rightarrow> json) \<Rightarrow> loop_post list \<Rightarrow> loop_outbox \<Rightarrow> bool" where
  "loop_safe day_of posts l \<longleftrightarrow> outbox_ok l \<and> one_claim l \<and> accounted posts l \<and> named day_of l"

lemma one_claimD:
  "loop_safe day_of posts l \<Longrightarrow> r \<in> set l \<Longrightarrow> q \<in> set l \<Longrightarrow> day \<noteq> JNull \<Longrightarrow> daily day r \<Longrightarrow> daily day q \<Longrightarrow>
     claimed r \<Longrightarrow> claimed q \<Longrightarrow> ob_event_id r = ob_event_id q"
  unfolding loop_safe_def one_claim_def by blast

lemma accountedD:
  assumes "loop_safe day_of posts l" and "day \<noteq> JNull"
  shows "creates day posts \<le> 1" "starts day posts \<le> 1"
    "0 < creates day posts \<Longrightarrow> \<exists>q \<in> set l. daily day q \<and> claimed q"
    "0 < starts day posts \<Longrightarrow> \<exists>q \<in> set l. daily day q \<and> started q"
  using assms by (simp_all add: loop_safe_def accounted_def)

lemma started_claimed: "started r \<Longrightarrow> claimed r"
  by (auto simp: started_def claimed_def)

lemma loop_safe_unique: "loop_safe day_of posts l \<Longrightarrow> keys_unique ob_event_id l"
  by (simp add: loop_safe_def table_ok_def)

text \<open>A row with an id is the row the table finds.\<close>

lemma same_row:
  assumes "loop_safe day_of posts l" and "find_event e l = Some r" and "q \<in> set l" and "ob_event_id q = e"
  shows "q = r"
  using assms tbl_find_unique [OF loop_safe_unique [OF assms(1)] assms(3)] by simp

text \<open>The day's claimed review is unique.\<close>

lemma claimed_unique:
  assumes safe: "loop_safe day_of posts l" and r: "find_event e l = Some r" "daily day r" "claimed r"
    and q: "q \<in> set l" "daily day q" "claimed q" and d: "day \<noteq> JNull"
  shows "q = r"
proof -
  have "r \<in> set l" "ob_event_id r = e" using tbl_find_SomeD [OF r(1)] by simp_all
  then have "ob_event_id q = e"
    using one_claimD [OF safe q(1) \<open>r \<in> set l\<close> d q(2) r(2) q(3) r(3)] by simp
  then show ?thesis by (rule same_row [OF safe r(1) q(1)])
qed

section \<open>What one write may do\<close>

text \<open>
  An update of one row keeps the invariant if it leaves the event alone, claims the row only if it was
  claimed or has no rival, gives a claim up only if no task was created for the day, and keeps a
  started review started.
\<close>

lemma in_updated:
  assumes "loop_safe day_of posts l" and "find_event e l = Some r"
  shows "q \<in> set (tbl_update ob_event_id e f l) \<longleftrightarrow> q = f r \<or> (q \<in> set l \<and> ob_event_id q \<noteq> e)"
  unfolding in_set_tbl_update using same_row [OF assms] tbl_find_SomeD [OF assms(2)] by blast

text \<open>\<open>same_event\<close>: an update leaves the identity of the row alone.\<close>

definition same_event :: "outbox_row \<Rightarrow> outbox_row \<Rightarrow> bool" where
  "same_event r r' \<longleftrightarrow> ob_event_id r' = ob_event_id r \<and> ob_event_type r' = ob_event_type r \<and> ob_payload r' = ob_payload r"

lemma daily_same: "same_event r r' \<Longrightarrow> daily d r' = daily d r"
  by (simp add: same_event_def daily_def trading_date_def)

lemma one_claim_update:
  assumes safe: "loop_safe day_of posts l" and r: "find_event e l = Some r" and same: "same_event r (f r)"
    and claim: "claimed (f r) \<Longrightarrow> claimed r \<or> \<not> rival e l"
  shows "one_claim (tbl_update ob_event_id e f l)"
proof -
  have ide: "ob_event_id r = e" and inl: "r \<in> set l" using tbl_find_SomeD [OF r] by simp_all
  have own: False if q: "q \<in> set l" "ob_event_id q \<noteq> e" "daily d q" "claimed q"
    and d: "d \<noteq> JNull" "daily d (f r)" "claimed (f r)" for q d
  proof (cases "claimed r")
    case True
    then show False using one_claimD [OF safe q(1) inl d(1) q(3) _ q(4)] d(2) daily_same [OF same] q(2) ide by simp
  next
    case False
    with claim d have "\<not> rival e l" by blast
    then show False using q d daily_same [OF same, of d] r
      by (auto simp: rival_def list_ex_iff daily_def sql_eq_def)
  qed
  show ?thesis unfolding one_claim_def
  proof (intro ballI allI impI)
    fix p q d assume pq: "p \<in> set (tbl_update ob_event_id e f l)" "q \<in> set (tbl_update ob_event_id e f l)"
      "d \<noteq> JNull \<and> daily d p \<and> daily d q \<and> claimed p \<and> claimed q"
    note mem = in_updated [OF safe r, of _ f]
    show "ob_event_id p = ob_event_id q"
    proof (cases "ob_event_id p = e \<or> ob_event_id q = e")
      case True
      with pq own [of p d] own [of q d] same ide mem show ?thesis by (metis same_event_def)
    next
      case False
      with pq mem same ide have "p \<in> set l" "q \<in> set l" by (metis same_event_def)+
      with pq(3) one_claimD [OF safe, of p q d] show ?thesis by blast
    qed
  qed
qed

text \<open>A row that witnesses a claim or a start is found after the update too.\<close>

lemma witness_updated:
  assumes safe: "loop_safe day_of posts l" and r: "find_event e l = Some r" and same: "same_event r (f r)"
    and q: "q \<in> set l" "daily d q" "P q" and keep: "daily d r \<Longrightarrow> P r \<Longrightarrow> P (f r)"
  shows "\<exists>q \<in> set (tbl_update ob_event_id e f l). daily d q \<and> P q"
proof (cases "ob_event_id q = e")
  case True
  then have "q = r" by (rule same_row [OF safe r q(1)])
  then have "f r \<in> set (tbl_update ob_event_id e f l) \<and> daily d (f r) \<and> P (f r)"
    using q keep in_updated [OF safe r, of "f r" f] daily_same [OF same] by blast
  then show ?thesis by blast
next
  case False
  then have "q \<in> set (tbl_update ob_event_id e f l)" using q(1) in_updated [OF safe r, of q f] by blast
  with q show ?thesis by blast
qed

lemma loop_safe_update:
  assumes safe: "loop_safe day_of posts l" and r: "find_event e l = Some r"
    and ok: "outbox_row_ok (f r)" and same: "same_event r (f r)"
    and claim: "claimed (f r) \<Longrightarrow> claimed r \<or> \<not> rival e l"
    and unclaim: "claimed r \<Longrightarrow> ob_event_type r = DAILY_REVIEW \<Longrightarrow> claimed (f r) \<or> creates (trading_date r) posts = 0"
    and stay: "started r \<Longrightarrow> started (f r)"
  shows "loop_safe day_of posts (tbl_update ob_event_id e f l)"
proof -
  let ?l = "tbl_update ob_event_id e f l"
  have ide: "ob_event_id r = e" using tbl_find_key [OF r] .
  then have key: "ob_event_id (f r) = e" using same by (simp add: same_event_def)
  have "outbox_ok ?l" using safe unfolding loop_safe_def by (blast intro: table_ok_update [where f = f] r key ok)
  moreover have "one_claim ?l" by (rule one_claim_update [where f = f, OF safe r same claim])
  moreover have "accounted posts ?l"
    unfolding accounted_def
  proof (intro allI impI conjI)
    fix d :: json assume d: "d \<noteq> JNull"
    note a = accountedD [OF safe d]
    show "creates d posts \<le> 1" "starts d posts \<le> 1" by (fact a)+
    show "\<exists>q \<in> set ?l. daily d q \<and> claimed q" if pos: "0 < creates d posts"
    proof -
      obtain q where q: "q \<in> set l" "daily d q" "claimed q" using a(3) [OF pos] by blast
      have "daily d r \<Longrightarrow> claimed r \<Longrightarrow> claimed (f r)" using unclaim pos by (auto simp: daily_def)
      from witness_updated [where f = f, OF safe r same q this] show ?thesis .
    qed
    show "\<exists>q \<in> set ?l. daily d q \<and> started q" if pos: "0 < starts d posts"
    proof -
      obtain q where q: "q \<in> set l" "daily d q" "started q" using a(4) [OF pos] by blast
      from witness_updated [where f = f, OF safe r same q stay] show ?thesis .
    qed
  qed
  moreover have "named day_of ?l"
    unfolding named_def
  proof (rule ballI)
    fix q assume "q \<in> set ?l"
    then consider "q = f r" | "q \<in> set l" using in_updated [OF safe r, of q f] by blast
    then show "(day_of (ob_event_id q) \<noteq> JNull \<longrightarrow> daily (day_of (ob_event_id q)) q) \<and>
      (ob_event_type q = DAILY_REVIEW \<longrightarrow> trading_date q \<noteq> JNull \<and> day_of (ob_event_id q) = trading_date q)"
    proof cases
      case 1
      have "(day_of e \<noteq> JNull \<longrightarrow> daily (day_of e) r) \<and>
          (ob_event_type r = DAILY_REVIEW \<longrightarrow> trading_date r \<noteq> JNull \<and> day_of e = trading_date r)"
        using safe ide tbl_find_SomeD [OF r] unfolding loop_safe_def named_def by blast
      with 1 key same daily_same [OF same] show ?thesis by (simp add: same_event_def trading_date_def)
    next
      case 2
      with safe show ?thesis unfolding loop_safe_def named_def by blast
    qed
  qed
  ultimately show ?thesis unfolding loop_safe_def by blast
qed

text \<open>A remote call is accounted for by a row of the day that is claimed, or started for a run.\<close>

lemma loop_safe_post:
  assumes safe: "loop_safe day_of posts l" and r: "find_event e l = Some r" "daily d r"
    and create: "path = ''/api/v1/tasks'' \<Longrightarrow> claimed r \<and> creates d posts = 0"
    and start: "path \<noteq> ''/api/v1/tasks'' \<Longrightarrow> started r \<and> starts d posts = 0"
  shows "loop_safe day_of (posts @ [loop_post d path rej]) l"
proof -
  have inl: "r \<in> set l" using tbl_find_SomeD [OF r(1)] by simp
  have "accounted (posts @ [loop_post d path rej]) l"
    unfolding accounted_def
  proof (intro allI impI)
    fix day assume "day \<noteq> JNull"
    note a = accountedD [OF safe this]
    show "creates day (posts @ [loop_post d path rej]) \<le> 1 \<and> starts day (posts @ [loop_post d path rej]) \<le> 1 \<and>
      (0 < creates day (posts @ [loop_post d path rej]) \<longrightarrow> (\<exists>r \<in> set l. daily day r \<and> claimed r)) \<and>
      (0 < starts day (posts @ [loop_post d path rej]) \<longrightarrow> (\<exists>r \<in> set l. daily day r \<and> started r))"
      using a r(2) inl create start by (auto split: if_splits)
  qed
  with safe show ?thesis by (simp add: loop_safe_def)
qed

section \<open>Assertions about the row of one review\<close>

text \<open>
  \<open>at_row day_of e R\<close>: the desk is safe and the row of event \<open>e\<close> satisfies \<open>R\<close>.  \<open>raised\<close> is what every
  step guarantees when it raises: an exception with a receipt finds the task bound, a rejection
  finds a review that may be given up.
\<close>

type_synonym 'b safe_desk = "('b \<times> loop_post list) \<times> loop_outbox"

definition at_row ::
    "(string \<Rightarrow> json) \<Rightarrow> string \<Rightarrow> (outbox_row \<Rightarrow> loop_post list \<Rightarrow> bool) \<Rightarrow> 'b safe_desk \<Rightarrow> bool" where
  "at_row day_of e R p \<longleftrightarrow> loop_safe day_of (snd (fst p)) (snd p) \<and>
     (\<exists>r. find_event e (snd p) = Some r \<and> R r (snd (fst p)))"

definition rejectable :: "json \<Rightarrow> outbox_row \<Rightarrow> loop_post list \<Rightarrow> bool" where
  "rejectable d r posts \<longleftrightarrow> (claimed r \<longrightarrow> ob_remote_task_id r \<noteq> None \<or> creates d posts = 0)"

definition raisable :: "json \<Rightarrow> py_error \<Rightarrow> outbox_row \<Rightarrow> loop_post list \<Rightarrow> bool" where
  "raisable d err r posts \<longleftrightarrow> (case err of LoopRemoteRejectedError _ \<Rightarrow> rejectable d r posts
     | LoopRunIncompleteError _ _ \<Rightarrow> ob_remote_task_id r \<noteq> None
     | LoopRunFailedError _ _ _ _ \<Rightarrow> ob_remote_task_id r \<noteq> None | _ \<Rightarrow> True)"

abbreviation raised :: "(string \<Rightarrow> json) \<Rightarrow> string \<Rightarrow> py_error \<Rightarrow> 'b safe_desk \<Rightarrow> bool" where
  "raised day_of e err \<equiv> at_row day_of e (raisable (day_of e) err)"

lemma at_row_mono: "at_row day_of e P p \<Longrightarrow> (\<And>r posts. P r posts \<Longrightarrow> Q r posts) \<Longrightarrow> at_row day_of e Q p"
  by (auto simp: at_row_def)

lemma raisable_plain: "plain_error err \<Longrightarrow> raisable d err r posts"
  by (auto simp: raisable_def plain_error_def split: py_error.splits)

text \<open>The row of a review is a daily review of its day.\<close>

lemma named_row:
  assumes "loop_safe day_of posts l" and "find_event e l = Some r" and "day_of e \<noteq> JNull"
  shows "daily (day_of e) r"
  using assms tbl_find_SomeD [OF assms(2)] unfolding loop_safe_def named_def by blast

text \<open>A write of the outbox, given by the row that it leaves.\<close>

lemma hoare_write:
  assumes d: "day_of e \<noteq> JNull"
    and cases: "\<And>l. snd (m l) = l \<or> (\<exists>r. find_event e l = Some r \<and> C r \<and> snd (m l) = tbl_update ob_event_id e (f r) l)"
    and still: "\<And>r posts. P r posts \<Longrightarrow> Q r posts"
    and step: "\<And>r posts. outbox_row_ok r \<Longrightarrow> P r posts \<Longrightarrow> C r \<Longrightarrow> outbox_row_ok (f r r) \<and> same_event r (f r r) \<and>
        (claimed (f r r) \<longrightarrow> claimed r) \<and>
        (claimed r \<longrightarrow> claimed (f r r) \<or> creates (day_of e) posts = 0) \<and> (started r \<longrightarrow> started (f r r)) \<and> Q (f r r) posts"
  shows "hoare (at_row day_of e P) (on_snd m) (\<lambda>_. at_row day_of e Q) (\<lambda>_. at_row day_of e Q)"
proof (rule hoare_snd, rule hoareI)
  fix b :: "'b \<times> loop_post list" and l assume "at_row day_of e P (b, l)"
  then obtain r where safe: "loop_safe day_of (snd b) l" and r: "find_event e l = Some r" and p: "P r (snd b)"
    by (auto simp: at_row_def)
  have "at_row day_of e Q (b, snd (m l))"
    using cases [of l]
  proof (elim disjE exE conjE)
    assume "snd (m l) = l"
    with safe r still [OF p] show ?thesis by (simp add: at_row_def)
  next
    fix q assume "find_event e l = Some q" and c: "C q" and w: "snd (m l) = tbl_update ob_event_id e (f q) l"
    with r have q: "q = r" by simp
    have ok: "outbox_ok l" using safe by (simp add: loop_safe_def)
    note s = step [OF _ p c [unfolded q]]
    have rok: "outbox_row_ok r" "ob_event_id r = e" using table_ok_find [OF ok r] by simp_all
    have day: "trading_date r = day_of e" using named_row [OF safe r d] by (simp add: daily_def)
    have key: "ob_event_id (f r r) = e" using s [OF rok(1)] rok(2) by (simp add: same_event_def)
    have "loop_safe day_of (snd b) (tbl_update ob_event_id e (f r) l)"
      by (rule loop_safe_update [where f = "f r", OF safe r]) (use s [OF rok(1)] day in auto)
    moreover have "find_event e (tbl_update ob_event_id e (f r) l) = Some (f r r)"
      using table_find_update [where f = "f r" and j = e, OF ok r key] by simp
    ultimately show ?thesis using s [OF rok(1)] w q by (simp add: at_row_def)
  qed
  then show "case m l of (Inl err, t) \<Rightarrow> at_row day_of e Q (b, t) | (Inr x, t) \<Rightarrow> at_row day_of e Q (b, t)"
    by (cases "m l"; cases "fst (m l)") simp_all
qed

section \<open>The steps of a submission\<close>

lemma hoare_checkpoint:
  assumes d: "day_of e \<noteq> JNull"
    and step: "\<And>r posts l. loop_safe day_of posts l \<Longrightarrow> find_event e l = Some r \<Longrightarrow> P r posts \<Longrightarrow>
      may_advance status r \<Longrightarrow> status = CREATING_TASK \<longrightarrow> \<not> rival e l \<Longrightarrow>
      (claimed r \<longrightarrow> claimed (advanced status t rn now r) \<or> creates (day_of e) posts = 0) \<and>
      (claimed (advanced status t rn now r) \<longrightarrow> claimed r \<or> \<not> rival e l) \<and>
      (started r \<longrightarrow> started (advanced status t rn now r)) \<and> Q (advanced status t rn now r) posts"
  shows "hoare (at_row day_of e P) (on_snd (checkpoint e status t rn now)) (\<lambda>_. at_row day_of e Q) (raised day_of e)"
proof (rule hoare_snd, rule hoareI)
  fix b :: "'b \<times> loop_post list" and l assume "at_row day_of e P (b, l)"
  then obtain r where safe: "loop_safe day_of (snd b) l" and r: "find_event e l = Some r" and p: "P r (snd b)"
    by (auto simp: at_row_def)
  show "case checkpoint e status t rn now l of (Inl err, l') \<Rightarrow> raised day_of e err (b, l')
      | (Inr x, l') \<Rightarrow> at_row day_of e Q (b, l')"
  proof (cases rule: checkpoint_cases [of e status t rn now l])
    case refused
    with safe r show ?thesis by (auto simp: at_row_def raisable_plain)
  next
    case (claims q)
    with r have m: "may_advance status r" by simp
    let ?f = "advanced status t rn now"
    have ok: "outbox_ok l" using safe by (simp add: loop_safe_def)
    have rok: "outbox_row_ok r" "ob_event_id r = e" using table_ok_find [OF ok r] by simp_all
    have fr: "outbox_row_ok (?f r)" "same_event r (?f r)" "ob_event_id (?f r) = e"
      using rok by (simp_all add: advanced_def outbox_row_ok_def same_event_def)
    have day: "trading_date r = day_of e" using named_row [OF safe r d] by (simp add: daily_def)
    note s = step [OF safe r p m claims(3)]
    have "loop_safe day_of (snd b) (tbl_update ob_event_id e ?f l)"
      by (rule loop_safe_update [where f = ?f, OF safe r fr(1,2)]) (use s day in auto)
    moreover have "find_event e (tbl_update ob_event_id e ?f l) = Some (?f r)"
      using table_find_update [where f = ?f and j = e, OF ok r fr(3)] by simp
    ultimately show ?thesis using s claims(4) by (simp add: at_row_def)
  qed
qed

lemma hoare_creating:
  assumes d: "day_of e \<noteq> JNull"
  shows "hoare (at_row day_of e P) (on_snd (checkpoint e CREATING_TASK None None now))
    (\<lambda>_. at_row day_of e (\<lambda>r posts. ob_status r = CREATING_TASK \<and> creates (day_of e) posts = 0)) (raised day_of e)"
proof (rule hoare_checkpoint [where day_of = day_of and e = e, OF d])
  fix r posts l
  assume safe: "loop_safe day_of posts l" and r: "find_event e l = Some r" and m: "may_advance CREATING_TASK r"
    and free: "CREATING_TASK = CREATING_TASK \<longrightarrow> \<not> rival e l"
  have un: "\<not> claimed r" using m by (auto simp: may_advance_def loop_predecessors_def claimed_def)
  have day: "daily (day_of e) r" by (rule named_row [OF safe r d])
  have "creates (day_of e) posts = 0"
  proof (rule ccontr)
    assume "creates (day_of e) posts \<noteq> 0"
    then obtain q where q: "q \<in> set l" "daily (day_of e) q" "claimed q" using accountedD(3) [OF safe d] by auto
    have "ob_event_id q \<noteq> e" using same_row [OF safe r q(1)] q(3) un by blast
    with q day r d have "rival e l" by (auto simp: rival_def list_ex_iff daily_def sql_eq_def)
    with free show False by simp
  qed
  then show "(claimed r \<longrightarrow> claimed (advanced CREATING_TASK None None now r) \<or> creates (day_of e) posts = 0) \<and>
      (claimed (advanced CREATING_TASK None None now r) \<longrightarrow> claimed r \<or> \<not> rival e l) \<and>
      (started r \<longrightarrow> started (advanced CREATING_TASK None None now r)) \<and>
      ob_status (advanced CREATING_TASK None None now r) = CREATING_TASK \<and> creates (day_of e) posts = 0"
    using free un by (auto simp: advanced_def dest: started_claimed)
qed

lemma hoare_created:
  assumes d: "day_of e \<noteq> JNull"
  shows "hoare (at_row day_of e P) (on_snd (checkpoint e TASK_CREATED (Some tid) None now))
    (\<lambda>_. at_row day_of e (\<lambda>r _. ob_remote_task_id r \<noteq> None)) (raised day_of e)"
  by (rule hoare_checkpoint [where day_of = day_of and e = e, OF d])
    (auto simp: may_advance_def loop_predecessors_def advanced_def claimed_def started_def)

lemma hoare_starting:
  assumes d: "day_of e \<noteq> JNull"
  shows "hoare (at_row day_of e (\<lambda>r _. ob_remote_task_id r \<noteq> None)) (on_snd (checkpoint e STARTING_RUN (Some tid) None now))
    (\<lambda>_. at_row day_of e (\<lambda>r posts. started r \<and> starts (day_of e) posts = 0)) (raised day_of e)"
proof (rule hoare_checkpoint [where day_of = day_of and e = e, OF d])
  fix r posts l
  assume safe: "loop_safe day_of posts l" and r: "find_event e l = Some r" and t: "ob_remote_task_id r \<noteq> None"
    and m: "may_advance STARTING_RUN r"
  have c: "claimed r" "\<not> started r"
    using t m by (auto simp: claimed_def started_def may_advance_def loop_predecessors_def)
  have day: "daily (day_of e) r" by (rule named_row [OF safe r d])
  have "starts (day_of e) posts = 0"
  proof (rule ccontr)
    assume "starts (day_of e) posts \<noteq> 0"
    then obtain q where q: "q \<in> set l" "daily (day_of e) q" "started q" using accountedD(4) [OF safe d] by auto
    have "q = r" by (rule claimed_unique [OF safe r day c(1) q(1,2) started_claimed [OF q(3)] d])
    with q(3) c(2) show False by simp
  qed
  with c t show "(claimed r \<longrightarrow> claimed (advanced STARTING_RUN (Some tid) None now r) \<or> creates (day_of e) posts = 0) \<and>
      (claimed (advanced STARTING_RUN (Some tid) None now r) \<longrightarrow> claimed r \<or> \<not> rival e l) \<and>
      (started r \<longrightarrow> started (advanced STARTING_RUN (Some tid) None now r)) \<and>
      started (advanced STARTING_RUN (Some tid) None now r) \<and> starts (day_of e) posts = 0"
    by (auto simp: advanced_def claimed_def started_def)
qed

lemma hoare_processing:
  assumes d: "day_of e \<noteq> JNull"
  shows "hoare (at_row day_of e (\<lambda>r _. started r)) (on_snd (checkpoint e REMOTE_PROCESSING (Some tid) (Some rn) now))
    (\<lambda>_. at_row day_of e (\<lambda>r _. ob_remote_task_id r \<noteq> None)) (raised day_of e)"
  by (rule hoare_checkpoint [where day_of = day_of and e = e, OF d]) (auto simp: advanced_def claimed_def started_def)

text \<open>The remote calls.\<close>

lemma recorded_request:
  "loop_request (recorded_loop day env) m path body (b, posts) = (case loop_request env m path body b of (x, b') \<Rightarrow>
     (x, (b', if m = ''POST'' then posts @ [loop_post day path (case x of Inl (LoopRemoteRejectedError _) \<Rightarrow> True | _ \<Rightarrow> False)]
              else posts)))"
  by (simp add: loop_request_def recorded_loop_def split: prod.split sum.split loop_failure.split)

lemma loop_request_error:
  "loop_request env m path body b = (Inl err, b') \<Longrightarrow> (\<exists>code. err = LoopRemoteRejectedError code) \<or> (\<exists>n. err = RequestError n)"
  by (auto simp: loop_request_def split: prod.splits sum.splits loop_failure.splits)

lemma hoare_post:
  fixes env :: "'b loop_env"
  assumes d: "day_of e \<noteq> JNull"
    and row: "\<And>r posts rej. P r posts \<Longrightarrow>
      (path = ''/api/v1/tasks'' \<longrightarrow> claimed r \<and> creates (day_of e) posts = 0) \<and>
      (path \<noteq> ''/api/v1/tasks'' \<longrightarrow> started r \<and> starts (day_of e) posts = 0) \<and> Q r"
    and rej: "\<And>r posts. P r posts \<Longrightarrow> rejectable (day_of e) r (posts @ [loop_post (day_of e) path True])"
  shows "hoare (at_row day_of e P) (on_fst (loop_request (recorded_loop (day_of e) env) ''POST'' path body))
    (\<lambda>_. at_row day_of e (\<lambda>r _. Q r)) (raised day_of e)"
proof (rule hoareI)
  fix p :: "('b \<times> loop_post list) \<times> loop_outbox" assume "at_row day_of e P p"
  then obtain r where safe: "loop_safe day_of (snd (fst p)) (snd p)" and r: "find_event e (snd p) = Some r"
    and pr: "P r (snd (fst p))" by (auto simp: at_row_def)
  obtain b posts l where p: "p = ((b, posts), l)" by (metis prod.exhaust)
  obtain x b' where x: "loop_request env ''POST'' path body b = (x, b')" by (metis prod.exhaust)
  let ?posts = "posts @ [loop_post (day_of e) path (case x of Inl (LoopRemoteRejectedError _) \<Rightarrow> True | _ \<Rightarrow> False)]"
  have run: "on_fst (loop_request (recorded_loop (day_of e) env) ''POST'' path body) p = (x, ((b', ?posts), l))"
    by (simp add: p on_fst_run recorded_request x)
  have safe': "loop_safe day_of ?posts l"
    by (rule loop_safe_post [where r = r]) (use safe r pr p row named_row [OF safe r d] in auto)
  show "case on_fst (loop_request (recorded_loop (day_of e) env) ''POST'' path body) p of
      (Inl err, t) \<Rightarrow> raised day_of e err t | (Inr v, t) \<Rightarrow> at_row day_of e (\<lambda>r _. Q r) t"
  proof (cases x)
    case (Inr v)
    with safe' r pr p row [of r posts] show ?thesis unfolding run by (simp add: at_row_def)
  next
    case (Inl err)
    with loop_request_error [of env "''POST''" path body b err b'] x
    consider code where "err = LoopRemoteRejectedError code" | n where "err = RequestError n" by blast
    then show ?thesis
    proof cases
      case 1
      with Inl safe' r p rej [of r posts] pr show ?thesis unfolding run by (simp add: at_row_def raisable_def)
    next
      case 2
      with Inl safe' r p show ?thesis unfolding run by (simp add: at_row_def raisable_def)
    qed
  qed
qed

lemma hoare_get:
  fixes env :: "'b loop_env"
  assumes rej: "\<And>r posts. P r posts \<Longrightarrow> rejectable (day_of e) r posts"
  shows "hoare (at_row day_of e P) (on_fst (loop_request (recorded_loop day env) ''GET'' path body))
    (\<lambda>_. at_row day_of e P) (raised day_of e)"
proof (rule hoareI)
  fix p :: "('b \<times> loop_post list) \<times> loop_outbox" assume row: "at_row day_of e P p"
  obtain b posts l where p: "p = ((b, posts), l)" by (metis prod.exhaust)
  obtain x b' where x: "loop_request env ''GET'' path body b = (x, b')" by (metis prod.exhaust)
  have run: "on_fst (loop_request (recorded_loop day env) ''GET'' path body) p = (x, ((b', posts), l))"
    by (simp add: p on_fst_run recorded_request x)
  show "case on_fst (loop_request (recorded_loop day env) ''GET'' path body) p of
      (Inl err, t) \<Rightarrow> raised day_of e err t | (Inr v, t) \<Rightarrow> at_row day_of e P t"
    unfolding run using row rej loop_request_error [of env "''GET''" path body b _ b'] x
    by (cases x) (auto simp: at_row_def p raisable_def)
qed

lemma hoare_prepare:
  fixes env :: "'b loop_env"
  assumes rej: "\<And>r posts. P r posts \<Longrightarrow> rejectable (day_of e) r posts"
  shows "hoare (at_row day_of e P) (on_fst (loop_prepare (recorded_loop day env) payload))
    (\<lambda>_. at_row day_of e P) (raised day_of e)"
proof (rule hoareI)
  fix p :: "('b \<times> loop_post list) \<times> loop_outbox" assume row: "at_row day_of e P p"
  obtain b posts l where p: "p = ((b, posts), l)" by (metis prod.exhaust)
  obtain x b' where x: "le_prepare env payload b = (x, b')" by (metis prod.exhaust)
  show "case on_fst (loop_prepare (recorded_loop day env) payload) p of
      (Inl err, t) \<Rightarrow> raised day_of e err t | (Inr v, t) \<Rightarrow> at_row day_of e P t"
    using row rej x by (cases x)
      (auto simp: p on_fst_run loop_prepare_def recorded_loop_def at_row_def raisable_def)
qed

text \<open>Pure steps: a value goes on, an error is plain or carries the ids of a bound task.\<close>

lemma hoare_pure:
  assumes "\<And>x r posts. v = Inr x \<Longrightarrow> P r posts \<Longrightarrow> Q x r posts"
    and "\<And>err r posts. v = Inl err \<Longrightarrow> P r posts \<Longrightarrow> raisable (day_of e) err r posts"
  shows "hoare (at_row day_of e P) (liftS v) (\<lambda>x. at_row day_of e (Q x)) (raised day_of e)"
  using assms by (intro hoare_lift) (auto simp: at_row_def)

lemma receipt_id_error: "receipt_id repr message v = Inl err \<Longrightarrow> plain_error err"
  by (auto simp: receipt_id_def plain_error_def Let_def split: json.splits if_splits)

lemma bound_raisable: "ob_remote_task_id r \<noteq> None \<Longrightarrow> raisable d err r posts"
  by (simp add: raisable_def rejectable_def split: py_error.split)

lemma started_bound: "started r \<Longrightarrow> ob_remote_task_id r \<noteq> None"
  by (simp add: started_def)

abbreviation bound :: "outbox_row \<Rightarrow> loop_post list \<Rightarrow> bool" where
  "bound r posts \<equiv> ob_remote_task_id r \<noteq> None"

lemma hoare_start_review_run:
  assumes d: "day_of e \<noteq> JNull"
  shows "hoare (at_row day_of e bound) (start_review_run (recorded_loop (day_of e) env) e clk tid)
    (\<lambda>_. at_row day_of e bound) (raised day_of e)"
  unfolding start_review_run_def
proof (intro hoare_then hoare_bind)
  show "hoare (at_row day_of e bound) (on_snd (checkpoint e STARTING_RUN (Some tid) None (clk 2)))
      (\<lambda>_. at_row day_of e (\<lambda>r posts. started r \<and> starts (day_of e) posts = 0)) (raised day_of e)"
    using d by (rule hoare_starting)
next
  show "hoare (at_row day_of e (\<lambda>r posts. started r \<and> starts (day_of e) posts = 0))
      (on_fst (loop_request (recorded_loop (day_of e) env) ''POST'' (''/api/v1/tasks/'' @ tid @ ''/run'')
        (Some (JObj [(''approve'', JBool False)])))) (\<lambda>_. at_row day_of e (\<lambda>r _. started r)) (raised day_of e)"
    by (rule hoare_post [where day_of = day_of and e = e, OF d]) (auto simp: rejectable_def dest: started_bound)
next
  fix run_ack
  show "hoare (at_row day_of e (\<lambda>r _. started r))
      (liftS (receipt_id (le_repr (recorded_loop (day_of e) env)) ''Loop run response lacks run id'' run_ack))
      (\<lambda>_. at_row day_of e (\<lambda>r _. started r)) (raised day_of e)"
    by (rule hoare_pure) (auto dest: started_bound intro: bound_raisable)
next
  fix run_ack run_id
  show "hoare (at_row day_of e (\<lambda>r _. started r)) (on_snd (checkpoint e REMOTE_PROCESSING (Some tid) (Some run_id) (clk 3)))
      (\<lambda>_. at_row day_of e bound) (raised day_of e)"
    using d by (rule hoare_processing)
next
  fix run_ack run_id
  show "hoare (at_row day_of e bound) (liftS (review_result (le_repr (recorded_loop (day_of e) env)) run_ack tid run_id))
      (\<lambda>_. at_row day_of e bound) (raised day_of e)"
    by (rule hoare_pure) (auto intro: bound_raisable)
qed

lemma hoare_submit_review:
  assumes d: "day_of e \<noteq> JNull"
  shows "hoare (at_row day_of e (\<lambda>r _. ob_status r \<notin> {CREATING_TASK, STARTING_RUN}))
    (submit_review (recorded_loop (day_of e) env) e payload clk) (\<lambda>_. at_row day_of e bound) (raised day_of e)"
  unfolding submit_review_def
proof (intro hoare_then hoare_bind)
  show "hoare (at_row day_of e (\<lambda>r _. ob_status r \<notin> {CREATING_TASK, STARTING_RUN}))
      (on_fst (loop_prepare (recorded_loop (day_of e) env) payload))
      (\<lambda>_. at_row day_of e (\<lambda>r _. ob_status r \<notin> {CREATING_TASK, STARTING_RUN})) (raised day_of e)"
    by (rule hoare_prepare) (auto simp: rejectable_def claimed_def)
next
  show "hoare (at_row day_of e (\<lambda>r _. ob_status r \<notin> {CREATING_TASK, STARTING_RUN}))
      (on_snd (checkpoint e CREATING_TASK None None (clk 0)))
      (\<lambda>_. at_row day_of e (\<lambda>r posts. ob_status r = CREATING_TASK \<and> creates (day_of e) posts = 0)) (raised day_of e)"
    using d by (rule hoare_creating)
next
  fix body
  show "hoare (at_row day_of e (\<lambda>r posts. ob_status r = CREATING_TASK \<and> creates (day_of e) posts = 0))
      (on_fst (loop_request (recorded_loop (day_of e) env) ''POST'' ''/api/v1/tasks'' (Some body)))
      (\<lambda>_. at_row day_of e (\<lambda>r _. True)) (raised day_of e)"
    by (rule hoare_post [where day_of = day_of and e = e, OF d]) (auto simp: rejectable_def claimed_def)
next
  fix task
  show "hoare (at_row day_of e (\<lambda>r _. True))
      (liftS (receipt_id (le_repr (recorded_loop (day_of e) env)) ''Loop create-task response lacks task id'' task))
      (\<lambda>_. at_row day_of e (\<lambda>r _. True)) (raised day_of e)"
    by (rule hoare_pure) (auto dest: receipt_id_error intro: raisable_plain)
next
  fix tid
  show "hoare (at_row day_of e (\<lambda>r _. True)) (on_snd (checkpoint e TASK_CREATED (Some tid) None (clk 1)))
      (\<lambda>_. at_row day_of e bound) (raised day_of e)"
    using d by (rule hoare_created)
next
  fix tid
  show "hoare (at_row day_of e bound) (start_review_run (recorded_loop (day_of e) env) e clk tid)
      (\<lambda>_. at_row day_of e bound) (raised day_of e)"
    using d by (rule hoare_start_review_run)
qed

lemma hoare_get_review_run:
  "hoare (at_row day_of e bound) (get_review_run (recorded_loop day env) tid run_id)
     (\<lambda>_. at_row day_of e bound) (raised day_of e)"
  unfolding get_review_run_def
proof (rule hoare_bind)
  show "hoare (at_row day_of e bound) (on_fst (loop_request (recorded_loop day env) ''GET'' (''/api/v1/tasks/'' @ tid) None))
      (\<lambda>_. at_row day_of e bound) (raised day_of e)"
    by (rule hoare_get) (simp add: rejectable_def)
qed (rule hoare_pure, auto intro: bound_raisable)

section \<open>Settling the outcome\<close>

lemma on_snd_then: "on_snd (thenS m n) = thenS (on_snd m) (on_snd n)"
  by (rule ext) (auto simp: on_snd_def thenS_run split: prod.split sum.split)

lemma on_snd_return: "on_snd (returnS x) = returnS x"
  by (rule ext) (auto simp: on_snd_def)

lemma on_snd_raise: "on_snd (raiseS e) = raiseS e"
  by (rule ext) (auto simp: on_snd_def)

lemma on_snd_guard: "on_snd (guardS b e) = guardS b e"
  by (cases b) (simp_all add: guardS_def on_snd_return on_snd_raise)

abbreviation safe_desk :: "(string \<Rightarrow> json) \<Rightarrow> 'b safe_desk \<Rightarrow> bool" where
  "safe_desk day_of p \<equiv> loop_safe day_of (snd (fst p)) (snd p)"

lemma at_row_safe: "at_row day_of e P p \<Longrightarrow> safe_desk day_of p"
  by (simp add: at_row_def)

lemma hoare_finish:
  assumes d: "day_of e \<noteq> JNull"
    and fin: "status \<noteq> CREATING_TASK" "status \<noteq> STARTING_RUN" "status \<noteq> TASK_CREATED"
    and P: "\<And>r posts. P r posts \<Longrightarrow> rejectable (day_of e) r posts \<and> (t \<noteq> None \<longrightarrow> claimed r)"
  shows "hoare (at_row day_of e P) (on_snd (finish_event e status code t rn node now))
    (\<lambda>_. at_row day_of e (rejectable (day_of e))) (\<lambda>_. at_row day_of e (rejectable (day_of e)))"
proof (rule hoare_write [where day_of = day_of and e = e and C = "\<lambda>_. True"
      and f = "\<lambda>_. finished status code t rn node now", OF d])
  fix l
  show "snd (finish_event e status code t rn node now l) = l \<or> (\<exists>r. find_event e l = Some r \<and> True \<and>
      snd (finish_event e status code t rn node now l) = tbl_update ob_event_id e (finished status code t rn node now) l)"
    by (cases rule: finish_event_cases [of e status code t rn node now l]) auto
next
  fix r posts assume "outbox_row_ok r" "P r posts"
  with P [of r posts] fin show "outbox_row_ok (finished status code t rn node now r) \<and>
      same_event r (finished status code t rn node now r) \<and>
      (claimed (finished status code t rn node now r) \<longrightarrow> claimed r) \<and>
      (claimed r \<longrightarrow> claimed (finished status code t rn node now r) \<or> creates (day_of e) posts = 0) \<and>
      (started r \<longrightarrow> started (finished status code t rn node now r)) \<and>
      rejectable (day_of e) (finished status code t rn node now r) posts"
    by (cases t) (auto simp: finished_def outbox_row_ok_def same_event_def claimed_def started_def rejectable_def coalesced_def)
qed (use P in blast)

text \<open>Notes and retries change nothing that matters here.\<close>

lemma hoare_note:
  assumes d: "day_of e \<noteq> JNull"
  shows "hoare (at_row day_of e P) (on_snd (record_error e code now))
    (\<lambda>_. at_row day_of e (\<lambda>_ _. True)) (\<lambda>_. at_row day_of e (\<lambda>_ _. True))"
  by (rule hoare_write [where day_of = day_of and e = e, OF d record_error_cases])
    (auto simp: noted_def outbox_row_ok_def same_event_def claimed_def started_def)

lemma hoare_defer:
  assumes d: "day_of e \<noteq> JNull"
  shows "hoare (at_row day_of e P) (on_snd (defer_retry e code now))
    (\<lambda>_. at_row day_of e (\<lambda>_ _. True)) (\<lambda>_. at_row day_of e (\<lambda>_ _. True))"
  by (rule hoare_write [where day_of = day_of and e = e, OF d defer_retry_cases])
    (auto simp: deferred_def outbox_row_ok_def same_event_def claimed_def started_def)

lemma hoare_block:
  assumes d: "day_of e \<noteq> JNull" and s: "status \<noteq> CREATING_TASK" "status \<noteq> STARTING_RUN"
  shows "hoare (at_row day_of e P) (on_snd (mark_local_block e status code now))
    (\<lambda>_. at_row day_of e (\<lambda>_ _. True)) (\<lambda>_. at_row day_of e (\<lambda>_ _. True))"
  by (rule hoare_write [where day_of = day_of and e = e, OF d mark_local_block_cases])
    (use s in \<open>auto simp: blocked_def outbox_row_ok_def same_event_def claimed_def started_def\<close>)

text \<open>The same with the conclusions that a handler needs: a row that may be given up, a safe desk.\<close>

lemma finish_safe:
  assumes "day_of e \<noteq> JNull"
    and "status \<noteq> CREATING_TASK" "status \<noteq> STARTING_RUN" "status \<noteq> TASK_CREATED"
    and "\<And>r posts. P r posts \<Longrightarrow> rejectable (day_of e) r posts \<and> (t \<noteq> None \<longrightarrow> claimed r)"
  shows "hoare (at_row day_of e P) (on_snd (finish_event e status code t rn node now))
    (\<lambda>_. at_row day_of e (rejectable (day_of e))) (\<lambda>_. safe_desk day_of)"
  by (rule hoare_weaken [OF hoare_finish [where day_of = day_of and e = e and P = P, OF assms]])
    (auto simp: at_row_def)

lemma quiet_safe:
  assumes "hoare (at_row day_of e P) m (\<lambda>_. at_row day_of e Q) (\<lambda>_. at_row day_of e Q)"
  shows "hoare (at_row day_of e P) m (\<lambda>_. safe_desk day_of) (\<lambda>_. safe_desk day_of)"
  by (rule hoare_weaken [OF assms]) (auto simp: at_row_def)

lemma hoare_guard: "(\<And>s. P s \<Longrightarrow> E e s) \<Longrightarrow> hoare P (guardS b e) (\<lambda>_. P) E"
  by (simp add: hoare_def guardS_run)

lemma hoare_done: "hoare P m (\<lambda>_. safe_desk day_of) E \<Longrightarrow> hoare P (thenS m (returnS x)) (\<lambda>_. safe_desk day_of) E"
  by (rule hoare_then) (auto intro: hoare_return)

lemma bound_rejectable: "bound r posts \<Longrightarrow> rejectable d r posts \<and> (t \<noteq> None \<longrightarrow> claimed r)"
  by (simp add: rejectable_def claimed_def)

lemma safe_delivered:
  assumes d: "day_of e \<noteq> JNull"
  shows "hoare (at_row day_of e bound) (on_snd (mark_delivered e t rn now)) (\<lambda>_. safe_desk day_of) (\<lambda>_. safe_desk day_of)"
  unfolding mark_delivered_def
  by (rule hoare_weaken [OF finish_safe [where day_of = day_of and e = e and P = bound, OF d]])
    (auto simp: bound_rejectable at_row_def)

lemma bound_processing:
  assumes d: "day_of e \<noteq> JNull"
  shows "hoare (at_row day_of e bound) (on_snd (mark_remote_processing e t rn now))
     (\<lambda>_. at_row day_of e (rejectable (day_of e))) (\<lambda>_. safe_desk day_of)"
  unfolding mark_remote_processing_def on_snd_then on_snd_guard
proof (rule hoare_then)
  show "hoare (at_row day_of e bound) (guardS (t \<noteq> [] \<and> rn \<noteq> []) (ValueError ''remote processing requires task and run identifiers''))
     (\<lambda>_. at_row day_of e bound) (\<lambda>_. safe_desk day_of)"
    by (rule hoare_guard) (rule at_row_safe)
qed (rule finish_safe [where day_of = day_of and e = e, OF d]; simp add: bound_rejectable)

lemma bound_failed:
  assumes d: "day_of e \<noteq> JNull"
  shows "hoare (at_row day_of e bound) (on_snd (mark_failed e code t rn node now))
     (\<lambda>_. at_row day_of e (rejectable (day_of e))) (\<lambda>_. safe_desk day_of)"
  unfolding mark_failed_def by (rule finish_safe [where day_of = day_of and e = e, OF d]) (simp_all add: bound_rejectable)

lemma safe_rejected:
  assumes d: "day_of e \<noteq> JNull"
  shows "hoare (at_row day_of e (rejectable (day_of e))) (on_snd (mark_remote_rejected e code now))
     (\<lambda>_. safe_desk day_of) (\<lambda>_. safe_desk day_of)"
  unfolding mark_remote_rejected_def
  by (rule hoare_weaken [OF finish_safe [where day_of = day_of and e = e and P = "rejectable (day_of e)", OF d]])
    (auto simp: at_row_def)

lemma safe_note:
  assumes "day_of e \<noteq> JNull"
  shows "hoare (at_row day_of e P) (on_snd (record_error e code now)) (\<lambda>_. safe_desk day_of) (\<lambda>_. safe_desk day_of)"
    "hoare (at_row day_of e P) (on_snd (defer_retry e code now)) (\<lambda>_. safe_desk day_of) (\<lambda>_. safe_desk day_of)"
    "hoare (at_row day_of e P) (on_snd (mark_blocked_precondition e code now)) (\<lambda>_. safe_desk day_of) (\<lambda>_. safe_desk day_of)"
    "hoare (at_row day_of e P) (on_snd (mark_audit_only_backfill e code now)) (\<lambda>_. safe_desk day_of) (\<lambda>_. safe_desk day_of)"
  unfolding mark_blocked_precondition_def mark_audit_only_backfill_def
  using assms by (auto intro!: quiet_safe hoare_note hoare_defer hoare_block)

text \<open>What the outcome of the remote calls leaves, and what every handler makes of it.\<close>

definition outcome_row :: "(string \<Rightarrow> json) \<Rightarrow> string \<Rightarrow> py_error + 'a \<Rightarrow> 'b safe_desk \<Rightarrow> bool" where
  "outcome_row day_of e outcome p = (case outcome of Inr _ \<Rightarrow> at_row day_of e bound p | Inl err \<Rightarrow> raised day_of e err p)"

lemma outcome_bound:
  "outcome_row day_of e (Inr x) = at_row day_of e bound"
  "outcome_row day_of e (Inl (LoopRunIncompleteError t rn)) = at_row day_of e bound"
  "outcome_row day_of e (Inl (LoopRunFailedError t rn node code)) = at_row day_of e bound"
  "outcome_row day_of e (Inl (LoopRemoteRejectedError code)) = at_row day_of e (rejectable (day_of e))"
  by (rule ext, simp add: outcome_row_def raisable_def [abs_def])+

lemma outcome_raised: "outcome_row day_of e (Inl err) = at_row day_of e (raisable (day_of e) err)"
  by (rule ext) (simp add: outcome_row_def)

lemma hoare_settle_submitted:
  assumes d: "day_of e \<noteq> JNull"
  shows "hoare (outcome_row day_of e outcome) (on_snd (settle_submitted e clk outcome))
    (\<lambda>_. safe_desk day_of) (\<lambda>_. safe_desk day_of)"
proof (cases outcome)
  case (Inr p)
  then show ?thesis unfolding Inr outcome_bound settle_submitted_def
    by (cases p) (simp add: on_snd_then on_snd_return del: not_None_eq,
      rule hoare_done, rule safe_delivered [where day_of = day_of and e = e, OF d])
next
  case (Inl err)
  show ?thesis
  proof (cases err)
    case (LoopRunIncompleteError t rn)
    then show ?thesis unfolding Inl LoopRunIncompleteError outcome_bound settle_submitted_def
      by (simp add: on_snd_then on_snd_return del: not_None_eq)
        (rule hoare_then [OF bound_processing [where day_of = day_of and e = e, OF d]], rule hoare_done, rule safe_note [where day_of = day_of and e = e, OF d])
  next
    case (LoopRunFailedError t rn node code)
    then show ?thesis unfolding Inl LoopRunFailedError outcome_bound settle_submitted_def
      by (simp add: on_snd_then on_snd_raise del: not_None_eq)
        (rule hoare_then [OF bound_failed [where day_of = day_of and e = e, OF d]], rule hoare_raise, rule at_row_safe)
  next
    case (LoopRemoteRejectedError code)
    then show ?thesis unfolding Inl LoopRemoteRejectedError outcome_bound settle_submitted_def
      by (simp add: on_snd_then on_snd_return del: not_None_eq)
        (rule hoare_done, rule safe_rejected [where day_of = day_of and e = e, OF d])
  qed (auto simp: Inl settle_submitted_def on_snd_then on_snd_return on_snd_raise outcome_raised
      intro!: hoare_done hoare_then hoare_raise safe_note [where day_of = day_of and e = e, OF d])
qed

lemma hoare_settle_resumed:
  assumes d: "day_of e \<noteq> JNull"
  shows "hoare (outcome_row day_of e outcome) (on_snd (settle_resumed e item now clk outcome))
    (\<lambda>_. safe_desk day_of) (\<lambda>_. safe_desk day_of)"
proof (cases outcome)
  case (Inr p)
  then show ?thesis unfolding Inr outcome_bound settle_resumed_def
    by (cases p) (simp add: on_snd_then on_snd_return del: not_None_eq,
      rule hoare_done, rule safe_delivered [where day_of = day_of and e = e, OF d])
next
  case (Inl err)
  show ?thesis
  proof (cases err)
    case (LoopRunIncompleteError t rn)
    then show ?thesis unfolding Inl LoopRunIncompleteError outcome_bound settle_resumed_def
      by (simp add: on_snd_then on_snd_return del: not_None_eq)
        (rule hoare_then [OF bound_processing [where day_of = day_of and e = e, OF d]], rule hoare_done, rule safe_note [where day_of = day_of and e = e, OF d])
  next
    case (LoopRunFailedError t rn node code)
    then show ?thesis unfolding Inl LoopRunFailedError outcome_bound settle_resumed_def
      by (simp add: on_snd_then on_snd_return del: not_None_eq)
        (rule hoare_then [OF bound_failed [where day_of = day_of and e = e, OF d]], rule hoare_done, rule safe_rejected [where day_of = day_of and e = e, OF d])
  next
    case (LoopRemoteRejectedError code)
    then show ?thesis unfolding Inl LoopRemoteRejectedError outcome_bound settle_resumed_def
      by (simp add: on_snd_then on_snd_return del: not_None_eq)
        (rule hoare_done, rule safe_rejected [where day_of = day_of and e = e, OF d])
  qed (auto simp: Inl settle_resumed_def on_snd_then on_snd_return outcome_raised
      intro!: hoare_done safe_note [where day_of = day_of and e = e, OF d])
qed

section \<open>The programs\<close>

text \<open>What a program does with the calls: it settles their outcome.\<close>

lemma hoare_handled:
  fixes m :: "('b safe_desk, 'x) op" and settle :: "py_error + 'x \<Rightarrow> (loop_outbox, 'y) op"
  assumes "hoare (at_row day_of e P) m (\<lambda>_. at_row day_of e bound) (raised day_of e)"
    and "\<And>outcome. hoare (outcome_row day_of e outcome :: 'b safe_desk \<Rightarrow> bool) (on_snd (settle outcome))
      (\<lambda>_. safe_desk day_of) (\<lambda>_. safe_desk day_of)"
  shows "hoare (at_row day_of e P) (bindS (attemptS (\<lambda>_. True) m) (\<lambda>outcome. on_snd (settle outcome)))
    (\<lambda>_. safe_desk day_of) (\<lambda>_. safe_desk day_of)"
proof (rule hoare_bind)
  show "hoare (at_row day_of e P) (attemptS (\<lambda>_. True) m) (outcome_row day_of e) (\<lambda>_. safe_desk day_of)"
    by (rule hoare_attempt, rule hoare_weaken [OF assms(1)]) (simp_all add: outcome_row_def)
qed (rule assms(2))

abbreviation as_read :: "OutboxItem \<Rightarrow> outbox_row \<Rightarrow> loop_post list \<Rightarrow> bool" where
  "as_read item r posts \<equiv> outbox_item r = item"

lemma as_read_bound: "outbox_item r = item \<Longrightarrow> given (oi_remote_task_id item) \<Longrightarrow> ob_remote_task_id r \<noteq> None"
  by (auto simp: outbox_item_def given_def split: option.splits)

lemma given_bound [dest]: "given (oi_remote_task_id (outbox_item r)) \<Longrightarrow> \<exists>t. ob_remote_task_id r = Some t"
  by (auto simp: outbox_item_def given_def split: option.splits)

lemma hoare_drive_review:
  assumes d: "day_of e \<noteq> JNull"
  shows "hoare (at_row day_of e (as_read staged)) (drive_review (recorded_loop (day_of e) env) e payload staged clk)
    (\<lambda>_. at_row day_of e bound) (raised day_of e)"
  unfolding drive_review_def
proof (intro hoare_if)
  assume "given (oi_remote_task_id staged) \<and> given (oi_remote_run_id staged)"
  then show "hoare (at_row day_of e (as_read staged)) (get_review_run (recorded_loop (day_of e) env)
      (the (oi_remote_task_id staged)) (the (oi_remote_run_id staged))) (\<lambda>_. at_row day_of e bound) (raised day_of e)"
    by (intro hoare_weaken [OF hoare_get_review_run]) (auto elim!: at_row_mono dest: as_read_bound)
next
  assume "oi_status staged = TASK_CREATED \<and> given (oi_remote_task_id staged)"
  then show "hoare (at_row day_of e (as_read staged)) (start_review_run (recorded_loop (day_of e) env) e clk
      (the (oi_remote_task_id staged))) (\<lambda>_. at_row day_of e bound) (raised day_of e)"
    by (intro hoare_weaken [OF hoare_start_review_run [where day_of = day_of and e = e, OF d]])
      (auto elim!: at_row_mono dest: as_read_bound)
next
  show "hoare (at_row day_of e (as_read staged))
      (raiseS (RuntimeError ''Loop submission outcome unknown; reconcile before resubmission''))
      (\<lambda>_. at_row day_of e bound) (raised day_of e)"
    by (rule hoare_raise) (auto elim!: at_row_mono simp: raisable_def)
next
  assume "\<not> (oi_status staged \<in> {CREATING_TASK, STARTING_RUN} \<or> given (oi_remote_task_id staged))"
  then show "hoare (at_row day_of e (as_read staged)) (submit_review (recorded_loop (day_of e) env) e payload clk)
      (\<lambda>_. at_row day_of e bound) (raised day_of e)"
    by (intro hoare_weaken [OF hoare_submit_review [where day_of = day_of and e = e, OF d]])
      (auto elim!: at_row_mono simp: outbox_item_def)
qed

lemma hoare_submit_staged:
  assumes d: "day_of e \<noteq> JNull"
  shows "hoare (at_row day_of e (as_read staged)) (submit_staged (recorded_loop (day_of e) env) e payload staged clk)
    (\<lambda>_. safe_desk day_of) (\<lambda>_. safe_desk day_of)"
  unfolding submit_staged_def
proof (intro hoare_if)
  show "hoare (at_row day_of e (as_read staged))
      (returnS (loop_receipt ''delivered'' (oi_remote_task_id staged) (oi_remote_run_id staged) []))
      (\<lambda>_. safe_desk day_of) (\<lambda>_. safe_desk day_of)"
    by (rule hoare_return) (rule at_row_safe)
next
  show "hoare (at_row day_of e (as_read staged))
      (thenS (on_snd (mark_blocked_precondition e ''EFFECTIVE_MODERN_PLAN_UNAVAILABLE'' (clk 7)))
        (returnS (loop_receipt ''blocked_precondition'' None None []))) (\<lambda>_. safe_desk day_of) (\<lambda>_. safe_desk day_of)"
    by (intro hoare_done safe_note [where day_of = day_of and e = e, OF d])
next
  show "hoare (at_row day_of e (as_read staged))
      (bindS (attemptS (\<lambda>_. True) (drive_review (recorded_loop (day_of e) env) e payload staged clk))
        (\<lambda>outcome. on_snd (settle_submitted e clk outcome))) (\<lambda>_. safe_desk day_of) (\<lambda>_. safe_desk day_of)"
    by (intro hoare_handled hoare_drive_review hoare_settle_submitted d)
qed

lemma hoare_resume:
  assumes e: "e = oi_event_id item" and d: "day_of e \<noteq> JNull"
  shows "hoare (at_row day_of e (as_read item)) (resume_submitted_review (recorded_loop (day_of e) env) item now clk)
    (\<lambda>_. safe_desk day_of) (\<lambda>_. safe_desk day_of)"
proof -
  have quit: "hoare (at_row day_of e (as_read item)) (returnS x) (\<lambda>_. safe_desk day_of) (\<lambda>_. safe_desk day_of)" for x :: LoopReceipt
    by (rule hoare_return) (rule at_row_safe)
  have get: "hoare (at_row day_of e (as_read item))
      (bindS (attemptS (\<lambda>_. True) (get_review_run (recorded_loop (day_of e) env) t rn))
        (\<lambda>outcome. on_snd (settle_resumed e item now clk outcome))) (\<lambda>_. safe_desk day_of) (\<lambda>_. safe_desk day_of)"
    if "given (oi_remote_task_id item)" for t rn
    by (intro hoare_handled hoare_settle_resumed d hoare_weaken [OF hoare_get_review_run])
      (use that in \<open>auto elim!: at_row_mono dest: as_read_bound\<close>)
  have start: "hoare (at_row day_of e (as_read item))
      (bindS (attemptS (\<lambda>_. True) (start_review_run (recorded_loop (day_of e) env) e clk t))
        (\<lambda>outcome. on_snd (settle_resumed e item now clk outcome))) (\<lambda>_. safe_desk day_of) (\<lambda>_. safe_desk day_of)"
    if "given (oi_remote_task_id item)" for t
    by (intro hoare_handled hoare_settle_resumed d
        hoare_weaken [OF hoare_start_review_run [where day_of = day_of and e = e, OF d]])
      (use that in \<open>auto elim!: at_row_mono dest: as_read_bound\<close>)
  show ?thesis
    unfolding resume_submitted_review_def Let_def e [symmetric]
  proof (rule hoare_bind)
    show "hoare (at_row day_of e (as_read item)) (liftS (le_envelope_sha256 (recorded_loop (day_of e) env) (oi_payload item)))
        (\<lambda>_. at_row day_of e (as_read item)) (\<lambda>_. safe_desk day_of)"
      by (rule hoare_lift) (auto dest: at_row_safe)
  next
    fix sha
    show "hoare (at_row day_of e (as_read item))
       (if sha \<noteq> oi_payload_sha256 item then raiseS (ValueError ''persisted Loop review content hash mismatch'')
        else if oi_status item \<in> {DELIVERED, REMOTE_COMPLETED}
        then returnS (loop_receipt ''delivered'' (oi_remote_task_id item) (oi_remote_run_id item) [])
        else if oi_status item = REMOTE_REJECTED
        then returnS (loop_receipt ''remote_failed'' (oi_remote_task_id item) (oi_remote_run_id item) [])
        else if oi_status item \<in> {CREATING_TASK, STARTING_RUN}
        then returnS (loop_receipt ''reconciliation_required'' (oi_remote_task_id item) (oi_remote_run_id item) [])
        else if (case oi_retry_after_utc item of None \<Rightarrow> False | Some t \<Rightarrow> instant now < instant t)
        then returnS (loop_receipt ''retry_scheduled'' (oi_remote_task_id item) (oi_remote_run_id item) [])
        else if given (oi_remote_task_id item) \<and> given (oi_remote_run_id item)
        then bindS (attemptS (\<lambda>_. True) (get_review_run (recorded_loop (day_of e) env)
               (the (oi_remote_task_id item)) (the (oi_remote_run_id item))))
             (\<lambda>outcome. on_snd (settle_resumed e item now clk outcome))
        else if oi_status item = TASK_CREATED \<and> given (oi_remote_task_id item)
        then bindS (attemptS (\<lambda>_. True) (start_review_run (recorded_loop (day_of e) env) e clk (the (oi_remote_task_id item))))
             (\<lambda>outcome. on_snd (settle_resumed e item now clk outcome))
        else returnS (loop_receipt ''reconciliation_required'' (oi_remote_task_id item) (oi_remote_run_id item) []))
       (\<lambda>_. safe_desk day_of) (\<lambda>_. safe_desk day_of)"
      by (intro hoare_if quit get start hoare_raise) (auto dest: at_row_safe)
  qed
qed

text \<open>Staging adds an unclaimed row.\<close>

definition fresh_row :: "string \<Rightarrow> dict \<Rightarrow> string \<Rightarrow> datetime \<Rightarrow> outbox_row" where
  "fresh_row e payload sha now = \<lparr>ob_event_id = e, ob_event_type = DAILY_REVIEW, ob_payload = payload,
     ob_payload_sha256 = sha, ob_status = PENDING, ob_attempts = 0, ob_remote_task_id = None, ob_remote_run_id = None,
     ob_failed_node = None, ob_last_error_code = None, ob_retry_after_utc = None, ob_retry_count = 0,
     ob_created_at_utc = now, ob_updated_at_utc = now\<rparr>"

lemma loop_safe_insert:
  assumes safe: "loop_safe day_of posts l" and new: "find_event e l = None"
    and day: "day_of e \<noteq> JNull" "json_get ''trading_date'' payload = day_of e"
  shows "loop_safe day_of posts (tbl_insert (fresh_row e payload sha now) l)"
proof -
  let ?r = "fresh_row e payload sha now"
  have r: "\<not> claimed ?r" "ob_event_id ?r = e" "outbox_row_ok ?r" "trading_date ?r = day_of e" "ob_event_type ?r = DAILY_REVIEW"
    using day by (simp_all add: fresh_row_def claimed_def outbox_row_ok_def trading_date_def)
  have "outbox_ok (tbl_insert ?r l)"
    using outbox_rows.insert_keeps [of l ?r] safe new r by (simp add: loop_safe_def)
  moreover have "one_claim (tbl_insert ?r l)"
    using safe r(1) by (auto simp: loop_safe_def one_claim_def)
  moreover have "accounted posts (tbl_insert ?r l)"
  proof -
    have "accounted posts l" using safe by (simp add: loop_safe_def)
    then show ?thesis unfolding accounted_def set_tbl_insert by blast
  qed
  moreover have "named day_of (tbl_insert ?r l)"
  proof -
    have "(day_of (ob_event_id ?r) \<noteq> JNull \<longrightarrow> daily (day_of (ob_event_id ?r)) ?r) \<and>
        (ob_event_type ?r = DAILY_REVIEW \<longrightarrow> trading_date ?r \<noteq> JNull \<and> day_of (ob_event_id ?r) = trading_date ?r)"
      unfolding daily_def r(2,4,5) using day(1) by blast
    moreover have "named day_of l" using safe by (simp add: loop_safe_def)
    ultimately show ?thesis unfolding named_def set_tbl_insert by blast
  qed
  ultimately show ?thesis by (simp add: loop_safe_def)
qed

lemma hoare_stage:
  assumes day: "day_of e \<noteq> JNull" "json_get ''trading_date'' payload = day_of e"
  shows "hoare (safe_desk day_of) (on_snd (stage_event e DAILY_REVIEW payload sha now))
    (\<lambda>item. at_row day_of e (as_read item)) (\<lambda>_. safe_desk day_of)"
proof (rule hoare_snd, rule hoareI)
  fix b :: "'b \<times> loop_post list" and l assume safe: "safe_desk day_of (b, l)"
  show "case stage_event e DAILY_REVIEW payload sha now l of (Inl err, l') \<Rightarrow> safe_desk day_of (b, l')
      | (Inr item, l') \<Rightarrow> at_row day_of e (as_read item) (b, l')"
  proof (cases "find_event e l")
    case None
    have "stage_event e DAILY_REVIEW payload sha now l =
        (Inr (outbox_item (fresh_row e payload sha now)), tbl_insert (fresh_row e payload sha now) l)"
      using None by (simp add: stage_event_def get_event_def run fresh_row_def tbl)
    then show ?thesis using loop_safe_insert [where day_of = day_of and e = e, OF _ None day] safe None
      by (simp add: at_row_def tbl fresh_row_def)
  next
    case (Some r)
    with safe show ?thesis by (auto simp: stage_event_def run at_row_def)
  qed
qed

lemma read_row:
  "safe_desk day_of p \<Longrightarrow> previous = map_option outbox_item (find_event e (snd p)) \<Longrightarrow> previous \<noteq> None \<Longrightarrow>
     at_row day_of e (as_read (the previous)) p"
  by (cases "find_event e (snd p)") (simp_all add: at_row_def)

lemma hoare_stage_review:
  fixes env :: "'b loop_env"
  assumes day: "day_of e \<noteq> JNull" "json_get ''trading_date'' payload = day_of e"
  shows "hoare (safe_desk day_of) (stage_review (recorded_loop (day_of e) env) stage_only e payload sha clk)
    (\<lambda>_. safe_desk day_of) (\<lambda>_. safe_desk day_of)"
  unfolding stage_review_def
proof (rule hoare_bind)
  let ?read = "\<lambda>previous (p :: 'b safe_desk). safe_desk day_of p \<and> previous = map_option outbox_item (find_event e (snd p))"
  show "hoare (safe_desk day_of) (on_snd (get_event e)) ?read (\<lambda>_. safe_desk day_of)"
    by (rule hoare_snd) (simp add: hoare_def get_event_def)
  fix previous
  let ?staged = "if \<not> stage_only \<and> (case previous of None \<Rightarrow> False | Some p \<Rightarrow> claimed_item p)
     then bindS (liftS (le_envelope_sha256 (recorded_loop (day_of e) env) (oi_payload (the previous)))) (\<lambda>h.
            if h \<noteq> oi_payload_sha256 (the previous)
            then raiseS (ValueError ''persisted Loop review content hash mismatch'')
            else returnS (oi_payload (the previous), the previous))
     else bindS (on_snd (stage_event e DAILY_REVIEW payload sha (clk 6))) (\<lambda>item. returnS (payload, item))"
  have old: "hoare (?read previous) (bindS (liftS v) (\<lambda>h.
            if h \<noteq> oi_payload_sha256 (the previous)
            then raiseS (ValueError ''persisted Loop review content hash mismatch'')
            else returnS (oi_payload (the previous), the previous)))
     (\<lambda>(content, staged). at_row day_of e (as_read staged)) (\<lambda>_. safe_desk day_of)"
    if "previous \<noteq> None" for v
  proof (rule hoare_bind)
    show "hoare (?read previous) (liftS v) (\<lambda>_. ?read previous) (\<lambda>_. safe_desk day_of)"
      by (rule hoare_lift) simp_all
    show "hoare (?read previous) (if h \<noteq> oi_payload_sha256 (the previous)
            then raiseS (ValueError ''persisted Loop review content hash mismatch'')
            else returnS (oi_payload (the previous), the previous))
        (\<lambda>(content, staged). at_row day_of e (as_read staged)) (\<lambda>_. safe_desk day_of)" for h
    proof (intro hoare_if hoare_raise hoare_return)
      fix p assume "?read previous p"
      with that show "(case (oi_payload (the previous), the previous) of
          (content, staged) \<Rightarrow> at_row day_of e (as_read staged)) p" unfolding prod.case by (blast intro: read_row)
    qed (erule conjunct1)
  qed
  have new: "hoare (?read previous) (bindS (on_snd (stage_event e DAILY_REVIEW payload sha (clk 6))) (\<lambda>item. returnS (payload, item)))
     (\<lambda>(content, staged). at_row day_of e (as_read staged)) (\<lambda>_. safe_desk day_of)"
  proof (rule hoare_bind)
    show "hoare (?read previous) (on_snd (stage_event e DAILY_REVIEW payload sha (clk 6)))
        (\<lambda>item. at_row day_of e (as_read item)) (\<lambda>_. safe_desk day_of)"
      by (rule hoare_weaken [OF hoare_stage [where day_of = day_of and e = e, OF day]]) simp_all
  qed (rule hoare_return, simp)
  show "hoare (?read previous) (bindS ?staged (\<lambda>(content, staged).
      if stage_only then returnS (loop_receipt ''staged'' None None [])
      else submit_staged (recorded_loop (day_of e) env) e content staged clk))
      (\<lambda>_. safe_desk day_of) (\<lambda>_. safe_desk day_of)"
  proof (rule hoare_bind)
    show "hoare (?read previous) ?staged (\<lambda>(content, staged). at_row day_of e (as_read staged)) (\<lambda>_. safe_desk day_of)"
      by (rule hoare_if [OF old new]) (auto split: option.splits)
    fix x :: "dict \<times> OutboxItem"
    obtain content staged where x: "x = (content, staged)" by (cases x)
    have "hoare (at_row day_of e (as_read staged)) (returnS (loop_receipt ''staged'' None None []))
        (\<lambda>_. safe_desk day_of) (\<lambda>_. safe_desk day_of)" by (rule hoare_return) (rule at_row_safe)
    then show "hoare (case x of (content, staged) \<Rightarrow> at_row day_of e (as_read staged))
        (case x of (content, staged) \<Rightarrow> if stage_only then returnS (loop_receipt ''staged'' None None [])
           else submit_staged (recorded_loop (day_of e) env) e content staged clk)
        (\<lambda>_. safe_desk day_of) (\<lambda>_. safe_desk day_of)"
      unfolding x prod.case by (rule hoare_if) (rule hoare_submit_staged [where day_of = day_of and e = e, OF day(1)])
  qed
qed

text \<open>A row that the outbox returns is the row of its event.\<close>

lemma item_row:
  assumes safe: "loop_safe day_of posts l" and r: "r \<in> set l" "ob_event_type r = DAILY_REVIEW"
  shows "find_event (oi_event_id (outbox_item r)) l = Some r" "day_of (oi_event_id (outbox_item r)) = trading_date r"
    "trading_date r \<noteq> JNull"
  using tbl_find_unique [OF loop_safe_unique [OF safe] r(1)] safe r
  by (auto simp: outbox_item_def loop_safe_def named_def)

lemma resume_safe:
  assumes safe: "loop_safe day_of posts l" and r: "r \<in> set l" "ob_event_type r = DAILY_REVIEW"
  shows "safe_desk day_of (snd (resume_submitted_review (recorded_loop (trading_date r) env) (outbox_item r) now clk ((b, posts), l)))"
proof -
  note i = item_row [OF safe r]
  have "at_row day_of (oi_event_id (outbox_item r)) (as_read (outbox_item r)) ((b, posts), l)"
    using safe i(1) by (simp add: at_row_def)
  moreover have "hoare (at_row day_of (oi_event_id (outbox_item r)) (as_read (outbox_item r)))
      (resume_submitted_review (recorded_loop (trading_date r) env) (outbox_item r) now clk)
      (\<lambda>_. safe_desk day_of) (\<lambda>_. safe_desk day_of)"
    using hoare_resume [OF refl, of day_of "outbox_item r" env now clk] i(2,3) by simp
  ultimately show ?thesis by (rule hoare_run [rotated])
qed

lemma submitted_review_row:
  assumes "submitted_review d l = (Inr (Some item), l')"
  shows "l' = l \<and> (\<exists>r \<in> set l. item = outbox_item r \<and> ob_event_type r = DAILY_REVIEW \<and> trading_date r = JStr (date_iso d))"
proof -
  let ?rows = "rev (sort_key (\<lambda>r. instant (ob_created_at_utc r)) (filter (\<lambda>r. ob_event_type r = DAILY_REVIEW \<and>
      sql_eq (trading_date r) (JStr (date_iso d)) \<and> claimed r) l))"
  have "submitted_review d l = (Inr (case ?rows of [] \<Rightarrow> None | r # _ \<Rightarrow> Some (outbox_item r)), l)"
    by (simp add: submitted_review_def)
  with assms have "(Inr (case ?rows of [] \<Rightarrow> None | r # _ \<Rightarrow> Some (outbox_item r)), l) =
      (Inr (Some item) :: py_error + OutboxItem option, l')" by (rule trans [OF sym, rotated])
  then have l': "l' = l" and "(case ?rows of [] \<Rightarrow> None | r # _ \<Rightarrow> Some (outbox_item r)) = Some item" by blast+
  then obtain r rs where r: "?rows = r # rs" "item = outbox_item r" by (cases ?rows) simp_all
  then have "r \<in> set ?rows" by (simp only: list.set_intros)
  then have "r \<in> set l \<and> ob_event_type r = DAILY_REVIEW \<and> sql_eq (trading_date r) (JStr (date_iso d))"
    by simp
  with l' r(2) show ?thesis by (auto simp: sql_eq_def)
qed

lemma sync_safe:
  assumes safe: "loop_safe day_of posts l"
    and day: "day_of e = JStr (date_iso d)" "json_get ''trading_date'' payload = JStr (date_iso d)"
  shows "safe_desk day_of (snd (sync_daily_review (recorded_loop (JStr (date_iso d)) env) stage_only d e payload sha clk ((b, posts), l)))"
proof -
  have stage: "safe_desk day_of (snd (stage_review (recorded_loop (JStr (date_iso d)) env) stage_only e payload sha clk ((b, posts), l)))"
  proof -
    have "hoare (safe_desk day_of) (stage_review (recorded_loop (day_of e) env) stage_only e payload sha clk)
        (\<lambda>_. safe_desk day_of) (\<lambda>_. safe_desk day_of)"
      by (rule hoare_stage_review) (simp_all add: day)
    from hoare_run [OF this, of "((b, posts), l)"] safe day show ?thesis by simp
  qed
  show ?thesis
  proof (cases "stage_only \<or> (\<exists>x. submitted_review d l = (Inr None, x))")
    case True
    with stage show ?thesis
      by (auto simp: sync_daily_review_def bindS_run on_snd_run submitted_review_def)
  next
    case False
    then obtain item where item: "submitted_review d l = (Inr (Some item), l)" "\<not> stage_only"
      by (auto simp: submitted_review_def)
    from submitted_review_row [OF item(1)] obtain r where
      r: "r \<in> set l" "item = outbox_item r" "ob_event_type r = DAILY_REVIEW" "trading_date r = JStr (date_iso d)" by blast
    from resume_safe [OF safe r(1,3), of env "clk 8" clk b] show ?thesis
      unfolding sync_daily_review_def using item r(2,4) by (simp add: bindS_run on_snd_run)
  qed
qed

section \<open>Properties\<close>

text \<open>The two programs as commands: the daily program, and one item of the recovery program
  (scripts/resume_loop_reviews.py), each against an environment of its own.\<close>

datatype 'b review_command =
    SyncReview "'b loop_env" bool date string dict string "nat \<Rightarrow> datetime"
  | ResumeReview "'b loop_env" nat datetime "nat \<Rightarrow> datetime"

fun exec_review :: "'b review_command \<Rightarrow> 'b safe_desk \<Rightarrow> 'b safe_desk" where
  "exec_review (SyncReview env stage_only d e payload sha clk) p =
     snd (sync_daily_review (recorded_loop (JStr (date_iso d)) env) stage_only d e payload sha clk p)"
| "exec_review (ResumeReview env i now clk) p = (case fst (recoverable_reviews now 5 (snd p)) of
     Inl _ \<Rightarrow> p
   | Inr items \<Rightarrow> if i < length items
       then snd (resume_submitted_review (recorded_loop (json_get ''trading_date'' (oi_payload (items ! i))) env)
              (items ! i) now clk p)
       else p)"

fun dated :: "(string \<Rightarrow> json) \<Rightarrow> 'b review_command \<Rightarrow> bool" where
  \<comment> \<open>the envelope of a day carries the day\<close>
  "dated day_of (SyncReview env stage_only d e payload sha clk) \<longleftrightarrow>
     day_of e = JStr (date_iso d) \<and> json_get ''trading_date'' payload = JStr (date_iso d)"
| "dated day_of (ResumeReview env i now clk) \<longleftrightarrow> True"

lemma exec_review_safe:
  assumes "safe_desk day_of p" and "dated day_of c"
  shows "safe_desk day_of (exec_review c p)"
proof -
  obtain b posts l where p: "p = ((b, posts), l)" by (metis prod.exhaust)
  with assms(1) have safe: "loop_safe day_of posts l" by simp
  show ?thesis
  proof (cases c)
    case (SyncReview env stage_only d e payload sha clk)
    with assms(2) sync_safe [OF safe, of e d payload env stage_only sha clk b] show ?thesis by (simp add: p)
  next
    case (ResumeReview env i now clk)
    obtain items where items: "fst (recoverable_reviews now 5 l) = Inr items" by (simp add: recoverable_reviews_def)
    show ?thesis
    proof (cases "i < length items")
      case True
      then have "items ! i \<in> set items" by simp
      then obtain r where r: "r \<in> set l" "items ! i = outbox_item r" "ob_event_type r = DAILY_REVIEW"
        using items by (auto simp: recoverable_reviews_def limit_rows_def dest!: in_set_takeD)
      have "json_get ''trading_date'' (oi_payload (items ! i)) = trading_date r"
        by (simp add: r(2) outbox_item_def trading_date_def)
      with True resume_safe [OF safe r(1,3), of env now clk b] r(2) items show ?thesis
        by (simp add: ResumeReview p)
    next
      case False
      with safe items show ?thesis by (simp add: ResumeReview p)
    qed
  qed
qed

text \<open>C27: the review service is asked once.  Over any sequence of runs of the daily program and of the
  recovery program, with any answers, rejections, failures and delays of the service, at most one
  task that the service did not reject is created and at most one run is started for each trading
  day, and at most one review of the day is claimed in the outbox.\<close>

theorem review_asked_once:
  assumes "loop_safe day_of posts l" and "\<forall>c \<in> set cmds. dated day_of c"
  shows "case fold exec_review cmds ((b, posts), l) of ((b', posts'), l') \<Rightarrow>
    one_claim l' \<and> (\<forall>day. day \<noteq> JNull \<longrightarrow> creates day posts' \<le> 1 \<and> starts day posts' \<le> 1)"
proof -
  have "safe_desk day_of (fold exec_review cmds ((b, posts), l))"
    by (rule fold_invariant [where Q = "dated day_of"]) (use assms exec_review_safe in auto)
  then show ?thesis
    by (auto simp: loop_safe_def accounted_def split: prod.split)
qed

section \<open>A concrete run\<close>

definition accepting_service :: "unit loop_env" where
  \<comment> \<open>a service that accepts every request and keeps its runs going\<close>
  "accepting_service = \<lparr>le_request = (\<lambda>m path body b. (Inr (JObj [(''id'', JStr ''t1''), (''status'', JStr ''RUNNING'')]), b)),
     le_prepare = (\<lambda>payload b. (Prepared (JObj payload), b)), le_envelope_sha256 = (\<lambda>_. Inr ''h''), le_repr = (\<lambda>_. [])\<rparr>"

lemma loop_safe_empty: "loop_safe day_of [] []"
  by (simp add: loop_safe_def one_claim_def accounted_def creates_def starts_def named_def)

abbreviation sample_sync :: "unit review_command" where
  "sample_sync \<equiv> SyncReview accepting_service False (Date 2026 7 1) ''e1'' [(''trading_date'', JStr ''2026-07-01''),
     (''risk_policy'', JObj [(''status'', JStr ''available'')])] ''h'' (\<lambda>n. utc (int n))"

lemma review_asked_once_witness:
  "creates (JStr ''2026-07-01'') (snd (fst (fold exec_review [sample_sync, sample_sync] (((), []), [])))) \<le> 1"
proof -
  have "date_iso (Date 2026 7 1) = ''2026-07-01''" by code_simp
  then have "\<forall>c \<in> set [sample_sync, sample_sync]. dated (\<lambda>_. JStr ''2026-07-01'') c"
    by (simp add: json_get_def)
  from review_asked_once [OF loop_safe_empty this, of "()"] show ?thesis
    by (cases "fold exec_review [sample_sync, sample_sync] (((), []), [])") (auto simp del: fold_simps)
qed

end
