(* ===== verification/PremarketEntry.thy ===== *)
theory PremarketEntry
  imports PyFloat Contracts
begin

text \<open>
  \<open>execution/premarket_entry.py\<close>: the ten-second life cycle of a premarket probe order, one evaluation
  per snapshot.  The constructors reject non-finite decimals and floats, so the decimal fields hold
  finite ones and the two durations are given by their values.
\<close>

section \<open>Data\<close>

datatype PremarketEntryAction = OBSERVE | SUBMIT_LIMIT | CANCEL_REPLACE | CANCEL_REMAINDER | COMPLETE | ABANDON

record PremarketEntryPlan =
  ep_plan_id :: string
  ep_symbol :: string
  ep_target_qty :: int
  ep_reference_price :: dec
  ep_reprice_seconds :: rat
  ep_total_ttl_seconds :: rat
  ep_max_reprices :: int
  ep_max_chase_fraction :: dec

definition validate_entry_plan :: "PremarketEntryPlan \<Rightarrow> py_error + PremarketEntryPlan" where
  "validate_entry_plan p =
     (if is_blank (ep_plan_id p) then Inl (ValueError ''premarket entry plan_id is required'')
      else if ep_symbol p = [] \<or> ep_symbol p \<noteq> py_upper (py_strip (ep_symbol p))
        then Inl (ValueError ''premarket entry symbol must be normalized uppercase'')
      else if ep_target_qty p \<le> 0
        then Inl (ValueError ''premarket entry target quantity must be positive'')
      else if dec_val (ep_reference_price p) \<le> 0
        then Inl (ValueError ''premarket entry reference price is invalid'')
      else if ep_reprice_seconds p \<le> 0 \<or> ep_total_ttl_seconds p \<le> ep_reprice_seconds p
        then Inl (ValueError ''premarket entry timing is invalid'')
      else if ep_max_reprices p < 0
        then Inl (ValueError ''premarket entry max reprices cannot be negative'')
      else if dec_val (ep_max_chase_fraction p) < 0 \<or> 2 / 100 < dec_val (ep_max_chase_fraction p)
        then Inl (ValueError ''premarket entry chase cap is invalid'')
      else Inr p)"

record PremarketEntryRuntime =
  er_started_at_utc :: "datetime option"
  er_last_command_at_utc :: "datetime option"
  er_attempt :: int
  er_completed_at_utc :: "datetime option"

definition initial_entry :: PremarketEntryRuntime where
  "initial_entry = \<lparr>er_started_at_utc = None, er_last_command_at_utc = None, er_attempt = 0,
     er_completed_at_utc = None\<rparr>"

definition validate_entry_runtime :: "PremarketEntryRuntime \<Rightarrow> py_error + PremarketEntryRuntime" where
  "validate_entry_runtime r =
     (if \<not> (utc_opt (er_started_at_utc r) \<and> utc_opt (er_last_command_at_utc r) \<and>
            utc_opt (er_completed_at_utc r))
        then Inl (ValueError ''premarket entry timestamp must be UTC'')
      else if er_attempt r < 0 then Inl (ValueError ''premarket entry attempt cannot be negative'')
      else Inr r)"

record PremarketEntrySnapshot =
  es_observed_at_utc :: datetime
  es_quote_asof_utc :: datetime
  es_bid :: dec
  es_ask :: dec
  es_filled_qty :: int
  es_order_working :: bool
  es_quote_provenance :: string
  es_data_healthy :: bool
  es_broker_healthy :: bool

definition validate_entry_snapshot :: "PremarketEntrySnapshot \<Rightarrow> py_error + PremarketEntrySnapshot" where
  "validate_entry_snapshot s =
     (if \<not> (is_utc (es_observed_at_utc s) \<and> is_utc (es_quote_asof_utc s))
        then Inl (ValueError ''premarket entry timestamp must be UTC'')
      else if instant (es_observed_at_utc s) < instant (es_quote_asof_utc s)
        then Inl (ValueError ''premarket entry quote cannot be from the future'')
      else if dec_val (es_bid s) \<le> 0 \<or> dec_lt (es_ask s) (es_bid s)
        then Inl (ValueError ''premarket entry NBBO is invalid'')
      else if es_filled_qty s < 0
        then Inl (ValueError ''premarket entry filled quantity cannot be negative'')
      else if is_blank (es_quote_provenance s)
        then Inl (ValueError ''premarket entry quote provenance is required'')
      else Inr s)"

record PremarketEntryDecision =
  ed_action :: PremarketEntryAction
  ed_runtime :: PremarketEntryRuntime
  ed_limit_price :: "dec option"
  ed_remaining_qty :: int
  ed_protection_required_qty :: int
  ed_reasons :: "string list"
  ed_blockers :: "string list"

section \<open>evaluate\<close>

definition bounded_buy_limit :: "PremarketEntryPlan \<Rightarrow> dec \<Rightarrow> py_error + dec" where
  "bounded_buy_limit plan ask =
     (case dec_quantize RoundDown (- 2)
             (dec_mul (ep_reference_price plan) (dec_add (dec_of_int 1) (ep_max_chase_fraction plan)))
      of Inl e \<Rightarrow> Inl e | Inr cap \<Rightarrow>
      case dec_quantize RoundUp (- 2) ask of Inl e \<Rightarrow> Inl e | Inr ask_cent \<Rightarrow>
        Inr (if dec_lt cap ask_cent then cap else ask_cent))"

definition entry_filled :: "PremarketEntryPlan \<Rightarrow> PremarketEntrySnapshot \<Rightarrow> int" where
  "entry_filled plan snap = min (es_filled_qty snap) (ep_target_qty plan)"

definition entry_remaining :: "PremarketEntryPlan \<Rightarrow> PremarketEntrySnapshot \<Rightarrow> int" where
  "entry_remaining plan snap = ep_target_qty plan - entry_filled plan snap"

definition entry_command ::
    "PremarketEntryAction \<Rightarrow> PremarketEntryPlan \<Rightarrow> PremarketEntryRuntime \<Rightarrow> PremarketEntrySnapshot
       \<Rightarrow> int \<Rightarrow> string \<Rightarrow> py_error + PremarketEntryDecision" where
  \<comment> \<open>a decision that carries a limit price\<close>
  "entry_command action plan rt snap protection reason =
     (case bounded_buy_limit plan (es_ask snap) of Inl e \<Rightarrow> Inl e | Inr limit_price \<Rightarrow>
        Inr \<lparr>ed_action = action, ed_runtime = rt, ed_limit_price = Some limit_price,
             ed_remaining_qty = entry_remaining plan snap, ed_protection_required_qty = protection,
             ed_reasons = [reason], ed_blockers = []\<rparr>)"

definition entry_close ::
    "PremarketEntryPlan \<Rightarrow> PremarketEntryRuntime \<Rightarrow> PremarketEntrySnapshot \<Rightarrow> string \<Rightarrow> string list
       \<Rightarrow> py_error + PremarketEntryDecision" where
  \<comment> \<open>the entry ends before its target: the remainder is cancelled, or the whole entry abandoned\<close>
  "entry_close plan rt snap reason blockers =
     Inr \<lparr>ed_action = (if 0 < entry_filled plan snap then CANCEL_REMAINDER else ABANDON),
          ed_runtime = rt\<lparr>er_completed_at_utc := Some (es_observed_at_utc snap)\<rparr>,
          ed_limit_price = None, ed_remaining_qty = entry_remaining plan snap,
          ed_protection_required_qty = entry_filled plan snap,
          ed_reasons = [reason], ed_blockers = blockers\<rparr>"

definition entry_working ::
    "PremarketEntryPlan \<Rightarrow> PremarketEntryRuntime \<Rightarrow> PremarketEntrySnapshot \<Rightarrow> datetime
       \<Rightarrow> py_error + PremarketEntryDecision" where
  \<comment> \<open>from \<open>elapsed_total = ...\<close> to the end of \<open>evaluate\<close>\<close>
  "entry_working plan rt snap started =
     (let now = es_observed_at_utc snap in
      if ep_total_ttl_seconds plan \<le> seconds_between now started
      then entry_close plan rt snap
             (if 0 < entry_filled plan snap then ''entry_ttl_partial_fill'' else ''entry_ttl_unfilled'') []
      else case er_last_command_at_utc rt of
        None \<Rightarrow> Inl (RuntimeError ''started premarket entry lacks last command time'')
      | Some last_command \<Rightarrow>
          if es_order_working snap \<and> er_attempt rt < ep_max_reprices plan \<and>
             ep_reprice_seconds plan \<le> seconds_between now last_command
          then entry_command CANCEL_REPLACE plan
                 (rt\<lparr>er_attempt := er_attempt rt + 1, er_last_command_at_utc := Some now\<rparr>)
                 snap (entry_filled plan snap) ''premarket_limit_reprice''
          else Inr \<lparr>ed_action = OBSERVE, ed_runtime = rt, ed_limit_price = None,
                    ed_remaining_qty = entry_remaining plan snap,
                    ed_protection_required_qty = entry_filled plan snap,
                    ed_reasons = [], ed_blockers = [''entry_order_pending'']\<rparr>)"

definition evaluate_entry ::
    "PremarketEntryPlan \<Rightarrow> PremarketEntryRuntime \<Rightarrow> PremarketEntrySnapshot
       \<Rightarrow> py_error + PremarketEntryDecision" where
  "evaluate_entry plan rt snap =
     (let now = es_observed_at_utc snap in
      if entry_remaining plan snap = 0 \<or> er_completed_at_utc rt \<noteq> None then
        Inr \<lparr>ed_action = COMPLETE,
             ed_runtime = (if er_completed_at_utc rt \<noteq> None then rt
                           else rt\<lparr>er_completed_at_utc := Some now\<rparr>),
             ed_limit_price = None, ed_remaining_qty = 0,
             ed_protection_required_qty = entry_filled plan snap,
             ed_reasons = [''premarket_target_filled''], ed_blockers = []\<rparr>
      else if \<not> es_data_healthy snap \<or> \<not> es_broker_healthy snap then
        entry_close plan rt snap ''entry_fault_fail_closed''
          [if \<not> es_data_healthy snap then ''market_data_unhealthy'' else ''broker_unhealthy'']
      else case er_started_at_utc rt of
        None \<Rightarrow> entry_command SUBMIT_LIMIT plan
                  (rt\<lparr>er_started_at_utc := Some now, er_last_command_at_utc := Some now\<rparr>)
                  snap 0 ''premarket_probe_started''
      | Some started \<Rightarrow> entry_working plan rt snap started)"

section \<open>Runs\<close>

text \<open>
  What the engine has answered so far, oldest first, and the runtime it has left: the engine is called
  once per snapshot, and a call that raises stores nothing.
\<close>

inductive entry_run ::
    "PremarketEntryPlan \<Rightarrow> (PremarketEntrySnapshot \<times> PremarketEntryDecision) list \<Rightarrow> PremarketEntryRuntime \<Rightarrow> bool"
  for plan :: PremarketEntryPlan where
  start: "entry_run plan [] initial_entry"
| tick: "entry_run plan steps rt \<Longrightarrow> evaluate_entry plan rt snap = Inr d \<Longrightarrow>
    entry_run plan (steps @ [(snap, d)]) (ed_runtime d)"

definition entry_ok :: "PremarketEntryPlan \<Rightarrow> PremarketEntryRuntime \<Rightarrow> bool" where
  "entry_ok plan rt \<longleftrightarrow> 0 \<le> er_attempt rt \<and> er_attempt rt \<le> ep_max_reprices plan \<and>
     (er_started_at_utc rt = None \<longrightarrow> er_attempt rt = 0) \<and>
     (er_started_at_utc rt \<noteq> None \<longrightarrow> er_last_command_at_utc rt \<noteq> None)"

lemma entry_command_iff:
  "entry_command action plan rt snap protection reason = Inr d \<longleftrightarrow>
     (\<exists>lp. bounded_buy_limit plan (es_ask snap) = Inr lp \<and>
        d = \<lparr>ed_action = action, ed_runtime = rt, ed_limit_price = Some lp,
             ed_remaining_qty = entry_remaining plan snap, ed_protection_required_qty = protection,
             ed_reasons = [reason], ed_blockers = []\<rparr>)"
  by (auto simp: entry_command_def split: sum.splits)

lemmas entry_eval_defs = evaluate_entry_def entry_working_def entry_close_def Let_def

section \<open>The protocol of an entry\<close>

text \<open>
  The specification: an entry is idle, then works one order that is repriced a bounded number of
  times, then is over.  A closed entry only reports completion.
\<close>

datatype entry_phase = Idle | Working int | Over

definition phase_of :: "PremarketEntryRuntime \<Rightarrow> entry_phase" where
  "phase_of rt = (if er_completed_at_utc rt \<noteq> None then Over
     else if er_started_at_utc rt = None then Idle else Working (er_attempt rt))"

inductive entry_move :: "int \<Rightarrow> entry_phase \<Rightarrow> PremarketEntryAction \<Rightarrow> entry_phase \<Rightarrow> bool"
  for limit :: int where
  submit: "entry_move limit Idle SUBMIT_LIMIT (Working 0)"
| wait: "entry_move limit (Working n) OBSERVE (Working n)"
| reprice: "n < limit \<Longrightarrow> entry_move limit (Working n) CANCEL_REPLACE (Working (n + 1))"
| close: "p \<noteq> Over \<Longrightarrow> a \<in> {COMPLETE, CANCEL_REMAINDER, ABANDON} \<Longrightarrow> entry_move limit p a Over"
| over: "entry_move limit Over COMPLETE Over"

inductive entry_protocol :: "int \<Rightarrow> PremarketEntryAction list \<Rightarrow> entry_phase \<Rightarrow> bool"
  for limit :: int where
  idle: "entry_protocol limit [] Idle"
| move: "entry_protocol limit as p \<Longrightarrow> entry_move limit p a q \<Longrightarrow> entry_protocol limit (as @ [a]) q"

inductive_simps move_idle [simp]: "entry_move limit Idle a q"
inductive_simps move_working [simp]: "entry_move limit (Working n) a q"
inductive_simps move_over [simp]: "entry_move limit Over a q"

definition times_sent :: "PremarketEntryAction \<Rightarrow> PremarketEntryAction list \<Rightarrow> int" where
  "times_sent a as = int (length (filter (\<lambda>x. x = a) as))"

lemma protocol_counts:
  assumes "entry_protocol limit as p" and "0 \<le> limit"
  shows "case p of
      Idle \<Rightarrow> as = []
    | Working n \<Rightarrow> times_sent SUBMIT_LIMIT as = 1 \<and> times_sent CANCEL_REPLACE as = n \<and> 0 \<le> n \<and> n \<le> limit
    | Over \<Rightarrow> times_sent SUBMIT_LIMIT as \<le> 1 \<and> times_sent CANCEL_REPLACE as \<le> limit"
  using assms
proof (induction rule: entry_protocol.induct)
  case idle
  show ?case by simp
next
  case (move as p a q)
  then show ?case by (cases p) (auto simp: times_sent_def)
qed

lemma evaluate_entry_moves:
  assumes ok: "entry_ok plan rt" and e: "evaluate_entry plan rt snap = Inr d"
  shows "entry_ok plan (ed_runtime d)"
    and "entry_move (ep_max_reprices plan) (phase_of rt) (ed_action d) (phase_of (ed_runtime d))"
proof -
  have "entry_ok plan (ed_runtime d) \<and>
      entry_move (ep_max_reprices plan) (phase_of rt) (ed_action d) (phase_of (ed_runtime d))"
  proof (cases "entry_remaining plan snap = 0 \<or> er_completed_at_utc rt \<noteq> None")
    case True
    with e ok show ?thesis
      by (cases "er_started_at_utc rt") (auto simp: evaluate_entry_def phase_of_def entry_ok_def Let_def)
  next
    case live: False
    show ?thesis
    proof (cases "er_started_at_utc rt")
      case None
      with e ok live show ?thesis
        by (auto simp: entry_eval_defs entry_command_iff phase_of_def entry_ok_def split: if_splits)
    next
      case (Some started)
      with e ok live show ?thesis
        by (auto simp: entry_eval_defs entry_command_iff phase_of_def entry_ok_def
            split: if_splits option.splits)
    qed
  qed
  then show "entry_ok plan (ed_runtime d)"
    "entry_move (ep_max_reprices plan) (phase_of rt) (ed_action d) (phase_of (ed_runtime d))" by auto
qed

lemma entry_run_ok:
  assumes "entry_run plan steps rt" and "0 \<le> ep_max_reprices plan"
  shows "entry_ok plan rt"
  using assms
proof (induction rule: entry_run.induct)
  case start
  then show ?case by (simp add: entry_ok_def initial_entry_def)
next
  case (tick steps rt snap d)
  then show ?case by (auto intro: evaluate_entry_moves(1))
qed

section \<open>The limit price\<close>

lemma evaluate_entry_limit:
  assumes "evaluate_entry plan rt snap = Inr d"
  shows "(ed_limit_price d \<noteq> None \<longleftrightarrow> ed_action d \<in> {SUBMIT_LIMIT, CANCEL_REPLACE}) \<and>
     (\<forall>lp. ed_limit_price d = Some lp \<longrightarrow> bounded_buy_limit plan (es_ask snap) = Inr lp \<and>
        ed_remaining_qty d = entry_remaining plan snap \<and> entry_remaining plan snap \<noteq> 0 \<and>
        es_data_healthy snap \<and> es_broker_healthy snap)"
  using assms by (auto simp: entry_eval_defs entry_command_iff split: if_splits option.splits)

lemma bounded_buy_limit_bounds:
  assumes lp: "bounded_buy_limit plan ask = Inr lp"
    and ref: "0 < dec_val (ep_reference_price plan)" and ask: "0 < dec_val ask"
    and chase: "0 \<le> dec_val (ep_max_chase_fraction plan)"
    and sum: "dec_val (dec_add (dec_of_int 1) (ep_max_chase_fraction plan)) = 1 + dec_val (ep_max_chase_fraction plan)"
    and prod: "dec_coeff (ep_reference_price plan) * dec_coeff (dec_add (dec_of_int 1) (ep_max_chase_fraction plan))
                 < 10 ^ context_prec"
  shows "dec_val lp \<le> dec_val (ep_reference_price plan) * (1 + dec_val (ep_max_chase_fraction plan))"
    and "dec_val lp < dec_val ask + 1 / 100"
    and "dec_val ask \<le> dec_val lp \<or>
         dec_val (ep_reference_price plan) * (1 + dec_val (ep_max_chase_fraction plan)) < dec_val lp + 1 / 100"
proof -
  let ?p = "dec_mul (ep_reference_price plan) (dec_add (dec_of_int 1) (ep_max_chase_fraction plan))"
  obtain cap up where q: "dec_quantize RoundDown (- 2) ?p = Inr cap" "dec_quantize RoundUp (- 2) ask = Inr up"
    and l: "lp = (if dec_lt cap up then cap else up)"
    using lp by (auto simp: bounded_buy_limit_def split: sum.splits)
  have val: "dec_val ?p = dec_val (ep_reference_price plan) * (1 + dec_val (ep_max_chase_fraction plan))"
    using dec_mul_exact [OF prod] sum by simp
  also have "0 < \<dots>" using ref chase by simp
  finally have "\<not> dec_neg ?p" by (rule dec_val_positive_sign)
  note cap = quantize_down_le [OF q(1) this, unfolded val]
  have pos: "\<not> dec_neg ask" using ask by (rule dec_val_positive_sign)
  note up = quantize_ceiling_ge [OF q(2) [unfolded quantize_up_ceiling [OF pos]] pos]
  have cent: "pow10 (- 2) = 1 / 100" by (simp add: pow10_def)
  show "dec_val lp \<le> dec_val (ep_reference_price plan) * (1 + dec_val (ep_max_chase_fraction plan))"
    using cap(1) l by (auto simp: dec_lt_def)
  show "dec_val lp < dec_val ask + 1 / 100"
    using up(2) l cent by (auto simp: dec_lt_def)
  show "dec_val ask \<le> dec_val lp \<or>
      dec_val (ep_reference_price plan) * (1 + dec_val (ep_max_chase_fraction plan)) < dec_val lp + 1 / 100"
    using cap(4) up(1) l cent by auto
qed

lemma bounded_buy_limit_cents: "bounded_buy_limit plan ask = Inr lp \<Longrightarrow> dec_exp lp = - 2"
  by (auto simp: bounded_buy_limit_def dest: quantize_val split: sum.splits if_splits)

lemma one_plus_fraction:
  assumes e: "- 20 \<le> dec_exp c" "dec_exp c \<le> 0" and c: "0 \<le> dec_val c" "dec_val c \<le> 1"
  shows "dec_val (dec_add (dec_of_int 1) c) = 1 + dec_val c"
    and "dec_coeff (dec_add (dec_of_int 1) c) \<le> 2 * 10 ^ 20"
proof -
  let ?k = "nat (- dec_exp c)" and ?s = "signed_coeff c (dec_exp c)"
  have val: "dec_val c = of_int ?s * pow10 (dec_exp c)"
    by (simp add: dec_val_def signed_coeff_def)
  have scale: "of_int ?s = dec_val c * 10 ^ ?k"
    using e(2) by (simp add: val pow10_def)
  have "0 \<le> (of_int ?s :: rat)" "(of_int ?s :: rat) \<le> of_int (10 ^ ?k)"
    using c by (simp_all add: scale mult_right_le_one_le mult_left_le_one_le)
  then have s: "0 \<le> ?s" "?s \<le> 10 ^ ?k" by (simp_all only: of_int_0_le_iff of_int_le_iff)
  have "(10::int) ^ ?k \<le> 10 ^ 20" using e(1) by (intro power_increasing) simp_all
  with s have n: "0 \<le> 10 ^ ?k + ?s" "nat (10 ^ ?k + ?s) \<le> 2 * 10 ^ 20" by simp_all
  have m: "min (dec_exp (dec_of_int 1)) (dec_exp c) = dec_exp c" using e(2) by (simp add: dec_of_int_def)
  have one: "signed_coeff (dec_of_int 1) (dec_exp c) = 10 ^ ?k"
    by (simp add: signed_coeff_def dec_of_int_def)
  have fits: "nat (10 ^ ?k + ?s) < 10 ^ context_prec"
    by (rule le_less_trans [OF n(2)]) (simp add: context_prec_def)
  have digits: "num_digits (nat (10 ^ ?k + ?s)) \<le> context_prec"
    using fits by (rule num_digits_le) (simp add: context_prec_def)
  have "dec_val (dec_add (dec_of_int 1) c) = dec_val (dec_of_int 1) + dec_val c"
    by (rule dec_add_exact) (use fits n(1) in \<open>simp only: m one abs_of_nonneg\<close>)
  then show "dec_val (dec_add (dec_of_int 1) c) = 1 + dec_val c" by simp
  have "dec_coeff (dec_add (dec_of_int 1) c) = nat (10 ^ ?k + ?s)"
    using n(1) digits unfolding dec_add_def Let_def m one by (simp add: dec_fix_id)
  then show "dec_coeff (dec_add (dec_of_int 1) c) \<le> 2 * 10 ^ 20" using n(2) by simp
qed

section \<open>Properties\<close>

text \<open>C32: the engine refines the protocol of an entry.  The actions of any run are one the protocol
  allows, and lead to the phase the runtime stands for: an entry sends one order at most and replaces
  it at most the configured number of times; after it is over it only reports completion.\<close>

theorem entry_refines_protocol:
  assumes run: "entry_run plan steps rt" and plan: "0 \<le> ep_max_reprices plan"
  defines "actions \<equiv> map (\<lambda>(snap, d). ed_action d) steps"
  shows "entry_protocol (ep_max_reprices plan) actions (phase_of rt) \<and>
     times_sent SUBMIT_LIMIT actions \<le> 1 \<and> times_sent CANCEL_REPLACE actions \<le> ep_max_reprices plan"
proof -
  have "entry_protocol (ep_max_reprices plan) (map (\<lambda>(snap, d). ed_action d) steps) (phase_of rt)"
    using run
  proof (induction rule: entry_run.induct)
    case start
    show ?case by (simp add: phase_of_def initial_entry_def entry_protocol.idle)
  next
    case (tick steps rt snap d)
    show ?case
      using entry_protocol.move [OF tick.IH evaluate_entry_moves(2) [OF entry_run_ok [OF tick(1) plan] tick(2)]]
      by simp
  qed
  with protocol_counts [OF this plan] plan show ?thesis
    unfolding actions_def by (auto simp: times_sent_def split: entry_phase.splits)
qed

text \<open>A priced command of the entry buys no more than what is missing, on healthy data and a healthy
  broker, at a whole number of cents that never exceeds the reference price raised by the chase cap;
  it reaches the ask, rounded up to a cent, unless the cap stops it.\<close>

theorem entry_limit_bounded:
  assumes plan: "validate_entry_plan plan = Inr plan" and snap: "validate_entry_snapshot snap = Inr snap"
    and e: "evaluate_entry plan rt snap = Inr d" and lp: "ed_limit_price d = Some lp"
    and exact: "- 20 \<le> dec_exp (ep_max_chase_fraction plan)" "dec_exp (ep_max_chase_fraction plan) \<le> 0"
      "dec_coeff (ep_reference_price plan) < 10 ^ 7"
  shows "es_data_healthy snap \<and> es_broker_healthy snap \<and>
     0 < ed_remaining_qty d \<and> ed_remaining_qty d + entry_filled plan snap = ep_target_qty plan \<and>
     dec_exp lp = - 2 \<and>
     dec_val lp \<le> dec_val (ep_reference_price plan) * (1 + dec_val (ep_max_chase_fraction plan)) \<and>
     dec_val lp < dec_val (es_ask snap) + 1 / 100 \<and>
     (dec_val (es_ask snap) \<le> dec_val lp \<or>
      dec_val (ep_reference_price plan) * (1 + dec_val (ep_max_chase_fraction plan)) < dec_val lp + 1 / 100)"
proof -
  let ?ref = "ep_reference_price plan" and ?chase = "ep_max_chase_fraction plan"
  have ref: "0 < dec_val ?ref" "0 \<le> dec_val ?chase" "dec_val ?chase \<le> 1" and target: "0 < ep_target_qty plan"
    using plan by (auto simp: validate_entry_plan_def split: if_splits)
  have ask: "0 < dec_val (es_ask snap)"
    using snap by (auto simp: validate_entry_snapshot_def dec_lt_def split: if_splits)
  note one = one_plus_fraction [OF exact(1,2) ref(2,3)]
  have "dec_coeff ?ref * dec_coeff (dec_add (dec_of_int 1) ?chase) \<le> 10 ^ 7 * (2 * 10 ^ 20)"
    using one(2) exact(3) by (intro mult_mono) simp_all
  also have "(10::nat) ^ 7 * (2 * 10 ^ 20) < 10 ^ context_prec" by (simp add: context_prec_def)
  finally have fits: "dec_coeff ?ref * dec_coeff (dec_add (dec_of_int 1) ?chase) < 10 ^ context_prec" .
  have l: "bounded_buy_limit plan (es_ask snap) = Inr lp" "ed_remaining_qty d = entry_remaining plan snap"
    "entry_remaining plan snap \<noteq> 0" "es_data_healthy snap" "es_broker_healthy snap"
    using evaluate_entry_limit [OF e] lp by auto
  note bounds = bounded_buy_limit_bounds [OF l(1) ref(1) ask ref(2) one(1) fits]
  from l(2-5) bounds bounded_buy_limit_cents [OF l(1)] show ?thesis
    by (simp add: entry_remaining_def entry_filled_def)
qed

text \<open>C33: an entry ends.  Once the time to live has passed since its start, the next evaluation closes it
  and asks to protect exactly the filled quantity; every later evaluation leaves the runtime alone,
  reports completion and still asks to protect what is filled.  The reason it gives then is
  \<open>premarket_target_filled\<close> with nothing remaining, also for an entry that was abandoned unfilled.\<close>

theorem entry_ends:
  assumes started: "er_started_at_utc rt = Some t" and live: "er_completed_at_utc rt = None"
    and late: "ep_total_ttl_seconds plan \<le> seconds_between (es_observed_at_utc snap) t"
  shows "\<exists>d. evaluate_entry plan rt snap = Inr d \<and> phase_of (ed_runtime d) = Over \<and>
     ed_action d \<in> {COMPLETE, CANCEL_REMAINDER, ABANDON} \<and>
     (ed_action d = ABANDON \<longrightarrow> entry_filled plan snap \<le> 0) \<and>
     ed_protection_required_qty d = entry_filled plan snap \<and>
     (\<forall>later. evaluate_entry plan (ed_runtime d) later = Inr
        \<lparr>ed_action = COMPLETE, ed_runtime = ed_runtime d, ed_limit_price = None, ed_remaining_qty = 0,
         ed_protection_required_qty = entry_filled plan later,
         ed_reasons = [''premarket_target_filled''], ed_blockers = []\<rparr>)"
proof -
  have closed: "evaluate_entry plan r later = Inr
      \<lparr>ed_action = COMPLETE, ed_runtime = r, ed_limit_price = None, ed_remaining_qty = 0,
       ed_protection_required_qty = entry_filled plan later,
       ed_reasons = [''premarket_target_filled''], ed_blockers = []\<rparr>"
    if "er_completed_at_utc r \<noteq> None" for r later
    using that by (simp add: evaluate_entry_def)
  show ?thesis
  proof (cases "evaluate_entry plan rt snap")
    case (Inl err)
    with started live late show ?thesis by (auto simp: entry_eval_defs split: if_splits)
  next
    case (Inr d)
    then have "er_completed_at_utc (ed_runtime d) \<noteq> None \<and>
        ed_action d \<in> {COMPLETE, CANCEL_REMAINDER, ABANDON} \<and>
        (ed_action d = ABANDON \<longrightarrow> entry_filled plan snap \<le> 0) \<and>
        ed_protection_required_qty d = entry_filled plan snap"
      using started live late by (auto simp: entry_eval_defs split: if_splits)
    with Inr closed [of "ed_runtime d"] show ?thesis by (auto simp: phase_of_def)
  qed
qed

section \<open>A concrete entry\<close>

definition sample_entry_plan :: PremarketEntryPlan where
  "sample_entry_plan = \<lparr>ep_plan_id = ''p1'', ep_symbol = ''AAPL'', ep_target_qty = 10,
     ep_reference_price = Dec False 10000 (- 2), ep_reprice_seconds = 3, ep_total_ttl_seconds = 10,
     ep_max_reprices = 2, ep_max_chase_fraction = Dec False 3 (- 3)\<rparr>"

definition sample_entry_snap :: "int \<Rightarrow> int \<Rightarrow> PremarketEntrySnapshot" where
  "sample_entry_snap us filled = \<lparr>es_observed_at_utc = utc us, es_quote_asof_utc = utc us,
     es_bid = Dec False 9990 (- 2), es_ask = Dec False 10005 (- 2), es_filled_qty = filled,
     es_order_working = True, es_quote_provenance = ''q'', es_data_healthy = True, es_broker_healthy = True\<rparr>"

definition sample_entry_started :: PremarketEntryRuntime where
  "sample_entry_started = \<lparr>er_started_at_utc = Some (utc 0), er_last_command_at_utc = Some (utc 0),
     er_attempt = 0, er_completed_at_utc = None\<rparr>"

definition sample_entry_order :: PremarketEntryDecision where
  "sample_entry_order = \<lparr>ed_action = SUBMIT_LIMIT, ed_runtime = sample_entry_started,
     ed_limit_price = Some (Dec False 10005 (- 2)), ed_remaining_qty = 10, ed_protection_required_qty = 0,
     ed_reasons = [''premarket_probe_started''], ed_blockers = []\<rparr>"

lemma sample_entry_first:
  "evaluate_entry sample_entry_plan initial_entry (sample_entry_snap 0 0) = Inr sample_entry_order"
  by code_simp

lemma entry_refines_protocol_witness:
  "entry_protocol 2 [SUBMIT_LIMIT] (Working 0) \<and> times_sent CANCEL_REPLACE [SUBMIT_LIMIT] \<le> 2"
proof -
  have run: "entry_run sample_entry_plan ([] @ [(sample_entry_snap 0 0, sample_entry_order)])
      (ed_runtime sample_entry_order)"
    by (rule entry_run.tick [OF entry_run.start sample_entry_first])
  have "0 \<le> ep_max_reprices sample_entry_plan" "ep_max_reprices sample_entry_plan = 2"
    "phase_of (ed_runtime sample_entry_order) = Working 0" "ed_action sample_entry_order = SUBMIT_LIMIT"
    by (simp_all add: sample_entry_plan_def phase_of_def sample_entry_order_def sample_entry_started_def)
  with entry_refines_protocol [OF run] show ?thesis by simp
qed

lemma entry_limit_bounded_witness:
  "dec_val (Dec False 10005 (- 2)) \<le> dec_val (ep_reference_price sample_entry_plan)
     * (1 + dec_val (ep_max_chase_fraction sample_entry_plan))"
proof -
  have ok: "validate_entry_plan sample_entry_plan = Inr sample_entry_plan"
    "validate_entry_snapshot (sample_entry_snap 0 0) = Inr (sample_entry_snap 0 0)"
    "ed_limit_price sample_entry_order = Some (Dec False 10005 (- 2))"
    "- 20 \<le> dec_exp (ep_max_chase_fraction sample_entry_plan)"
    "dec_exp (ep_max_chase_fraction sample_entry_plan) \<le> 0"
    "dec_coeff (ep_reference_price sample_entry_plan) < 10 ^ 7"
    by code_simp+
  show ?thesis using entry_limit_bounded [OF ok(1,2) sample_entry_first ok(3-6)] by blast
qed

lemma entry_ends_witness:
  "\<exists>d. evaluate_entry sample_entry_plan sample_entry_started (sample_entry_snap 10000000 4) = Inr d \<and>
     phase_of (ed_runtime d) = Over \<and> ed_protection_required_qty d = 4"
proof -
  have h: "er_started_at_utc sample_entry_started = Some (utc 0)" "er_completed_at_utc sample_entry_started = None"
    "ep_total_ttl_seconds sample_entry_plan \<le> seconds_between (es_observed_at_utc (sample_entry_snap 10000000 4)) (utc 0)"
    "entry_filled sample_entry_plan (sample_entry_snap 10000000 4) = 4"
    by code_simp+
  show ?thesis using entry_ends [OF h(1-3)] h(4) by auto
qed

end
