(* ===== verification/IntradayPolicy.thy ===== *)
theory IntradayPolicy
  imports PyFloat
begin

text \<open>
  \<open>kernel/intraday_policy.py\<close>: the decision of the intraday policy on one point-in-time snapshot.
  Floats are the rationals they denote (the constructors reject the non-finite ones), a float literal
  that is not exact is written \<open>fl q\<close>.  The New York clock comes from the zone database: it is the
  parameter \<open>ny\<close>, which gives the local time of an instant in microseconds since midnight.
\<close>

section \<open>Data\<close>

datatype EntryRoute = CATALYST | FACTOR_ORDER_FLOW

datatype PolicyAction = OBSERVE | ENTER_PROBE | HOLD | UPGRADE | EXIT | TRIM_TO_TAIL | REDUCE_TAIL

datatype TailMode = STANDARD | HIGH_RIGHT_TAIL | A_PLUS_PLUS

record TailEvidence =
  te_mode :: TailMode
  te_initial_fraction :: rat
  te_reduction_stage :: int
  te_fifteen_minute_structure_valid :: bool
  te_below_anchored_vwap_5m_bars :: int
  te_order_flow_below_45_seconds :: int
  te_failed_reclaim :: bool
  te_current_r :: rat
  te_maximum_favorable_excursion_r :: rat
  te_chandelier_stop_hit :: bool
  te_hard_breakdown :: bool

definition validate_tail :: "TailEvidence \<Rightarrow> py_error + TailEvidence" where
  "validate_tail t =
     (if \<not> (0 < te_initial_fraction t \<and> te_initial_fraction t \<le> fl (30 / 100))
        then Inl (ValueError ''tail initial_fraction must be in (0, 0.30]'')
      else if te_reduction_stage t \<noteq> 0 \<and> te_reduction_stage t \<noteq> 1
        then Inl (ValueError ''tail reduction_stage must be 0 or 1'')
      else if min (te_below_anchored_vwap_5m_bars t) (te_order_flow_below_45_seconds t) < 0
        then Inl (ValueError ''tail confirmation counters cannot be negative'')
      else if te_maximum_favorable_excursion_r t < te_current_r t
        then Inl (ValueError ''tail MFE cannot be below current R'')
      else Inr t)"

record DecisionMetric =
  dm_value :: "rat option"
  dm_asof_utc :: datetime
  dm_provenance :: string

definition validate_metric :: "DecisionMetric \<Rightarrow> py_error + DecisionMetric" where
  "validate_metric m =
     (if \<not> is_utc (dm_asof_utc m) then Inl (ValueError ''metric asof_utc must be timezone-aware UTC'')
      else if is_blank (dm_provenance m) then Inl (ValueError ''metric provenance is required'')
      else if (case dm_value m of None \<Rightarrow> False | Some v \<Rightarrow> \<not> (0 \<le> v \<and> v \<le> 100))
        then Inl (ValueError ''metric value must be between 0 and 100 when available'')
      else Inr m)"

record PolicySnapshot =
  po_trade_date :: date
  po_observed_at_utc :: datetime
  po_route :: EntryRoute
  po_catalyst :: DecisionMetric
  po_factor :: DecisionMetric
  po_order_flow :: DecisionMetric
  po_execution :: DecisionMetric
  po_right_tail :: DecisionMetric
  po_technical_structure_valid :: bool
  po_negative_news_clear :: "bool option"
  po_material_negative :: bool
  po_data_healthy :: bool
  po_agents_healthy :: bool
  po_push_healthy :: bool
  po_has_position :: bool
  po_position_fraction :: rat
  po_average_entry_price :: "rat option"
  po_last_price :: "rat option"
  po_approved_account_risk_fraction :: rat
  po_main_profit_realized :: bool
  po_a_plus_plus_approved :: bool
  po_tail :: "TailEvidence option"
  po_first_target_reward_r :: "rat option"
  po_weighted_expected_reward_r :: "rat option"
  po_reward_risk_provenance :: "string option"

definition optional_positive :: "string \<Rightarrow> rat option \<Rightarrow> py_error option" where
  "optional_positive name v = (case v of None \<Rightarrow> None | Some x \<Rightarrow>
     if x \<le> 0 then Some (ValueError (name @ '' must be finite and positive when available'')) else None)"

definition provenance_missing :: "PolicySnapshot \<Rightarrow> bool" where
  \<comment> \<open>\<open>not (self.reward_risk_provenance or "").strip()\<close>\<close>
  "provenance_missing s = (case po_reward_risk_provenance s of None \<Rightarrow> True | Some p \<Rightarrow> is_blank p)"

definition snapshot_metrics :: "PolicySnapshot \<Rightarrow> DecisionMetric list" where
  "snapshot_metrics s = [po_catalyst s, po_factor s, po_order_flow s, po_execution s, po_right_tail s]"

definition snapshot_error :: "PolicySnapshot \<Rightarrow> py_error option" where
  \<comment> \<open>the checks of \<open>__post_init__\<close>, in their order\<close>
  "snapshot_error s =
     (if \<not> is_utc (po_observed_at_utc s)
        then Some (ValueError ''observed_at_utc must be timezone-aware UTC'')
      else if \<not> (0 \<le> po_position_fraction s \<and> po_position_fraction s \<le> 1)
        then Some (ValueError ''position_fraction must be between 0 and 1'')
      else if po_has_position s \<noteq> (0 < po_position_fraction s)
        then Some (ValueError ''has_position must agree with position_fraction'')
      else case optional_positive ''average_entry_price'' (po_average_entry_price s) of Some e \<Rightarrow> Some e | None \<Rightarrow>
      case optional_positive ''last_price'' (po_last_price s) of Some e \<Rightarrow> Some e | None \<Rightarrow>
      if \<not> (0 < po_approved_account_risk_fraction s \<and> po_approved_account_risk_fraction s \<le> fl (35 / 10000))
        then Some (ValueError ''approved_account_risk_fraction must be in (0, 0.0035]'')
      else case optional_positive ''first_target_reward_r'' (po_first_target_reward_r s) of Some e \<Rightarrow> Some e | None \<Rightarrow>
      case optional_positive ''weighted_expected_reward_r'' (po_weighted_expected_reward_r s) of Some e \<Rightarrow> Some e
      | None \<Rightarrow>
      if (po_first_target_reward_r s \<noteq> None \<or> po_weighted_expected_reward_r s \<noteq> None) \<and> provenance_missing s
        then Some (ValueError ''reward/risk provenance is required when values are available'')
      else if list_ex (\<lambda>m. instant (po_observed_at_utc s) < instant (dm_asof_utc m)) (snapshot_metrics s)
        then Some (ValueError ''decision metric cannot be from the future'')
      else None)"

text \<open>A snapshot that its constructor and those of its parts accept.\<close>

definition snapshot_ok :: "PolicySnapshot \<Rightarrow> bool" where
  "snapshot_ok s \<longleftrightarrow> snapshot_error s = None \<and>
     list_all (\<lambda>m. validate_metric m = Inr m) (snapshot_metrics s) \<and>
     (case po_tail s of None \<Rightarrow> True | Some t \<Rightarrow> validate_tail t = Inr t)"

record PolicyDecision =
  pd_action :: PolicyAction
  pd_target_position_fraction :: rat
  pd_max_account_risk_fraction :: rat
  pd_reasons :: "string list"
  pd_blockers :: "string list"
  pd_tail_mode :: "TailMode option"

section \<open>Decisions\<close>

definition clock :: "int \<Rightarrow> int \<Rightarrow> int" where
  \<comment> \<open>\<open>time(h, m)\<close>\<close>
  "clock h m = (h * 60 + m) * 60000000"

definition decide ::
    "PolicyAction \<Rightarrow> rat \<Rightarrow> rat \<Rightarrow> string list \<Rightarrow> string list \<Rightarrow> TailMode option \<Rightarrow> PolicyDecision" where
  "decide action target risk reasons blockers mode =
     \<lparr>pd_action = action, pd_target_position_fraction = target, pd_max_account_risk_fraction = risk,
      pd_reasons = reasons, pd_blockers = blockers, pd_tail_mode = mode\<rparr>"

definition exit_because :: "string \<Rightarrow> TailMode option \<Rightarrow> PolicyDecision" where
  "exit_because reason mode = decide EXIT 0 0 [reason] [] mode"

definition metric_at_least :: "DecisionMetric \<Rightarrow> rat \<Rightarrow> bool" where
  \<comment> \<open>\<open>m.value is not None and m.value >= bound\<close>\<close>
  "metric_at_least m bound = (case dm_value m of None \<Rightarrow> False | Some v \<Rightarrow> bound \<le> v)"

definition prices_compare :: "PolicySnapshot \<Rightarrow> (rat \<Rightarrow> rat \<Rightarrow> bool) \<Rightarrow> bool" where
  \<comment> \<open>both prices are known and \<open>last_price\<close> compares to \<open>average_entry_price\<close>\<close>
  "prices_compare s cmp = (case po_average_entry_price s of None \<Rightarrow> False | Some entry \<Rightarrow>
     case po_last_price s of None \<Rightarrow> False | Some last_price \<Rightarrow> cmp last_price entry)"

definition allowed_giveback_r :: "TailEvidence \<Rightarrow> rat" where
  "allowed_giveback_r t = min 2 (max 1 (fl (te_maximum_favorable_excursion_r t * fl (30 / 100))))"

definition soft_breaks :: "TailEvidence \<Rightarrow> nat" where
  "soft_breaks t = length (filter id [\<not> te_fifteen_minute_structure_valid t,
     2 \<le> te_below_anchored_vwap_5m_bars t, 300 \<le> te_order_flow_below_45_seconds t])"

definition tail_decision :: "PolicySnapshot \<Rightarrow> TailEvidence \<Rightarrow> PolicyDecision" where
  "tail_decision s t =
     (let mode = Some (te_mode t) in
      if te_hard_breakdown t then exit_because ''tail_hard_breakdown'' mode
      else if te_chandelier_stop_hit t then exit_because ''tail_chandelier_stop'' mode
      else if te_reduction_stage t = 1 \<and> te_failed_reclaim t then exit_because ''tail_failed_reclaim'' mode
      else if allowed_giveback_r t < fl (te_maximum_favorable_excursion_r t - te_current_r t)
        then exit_because ''tail_profit_giveback_limit'' mode
      else if te_reduction_stage t = 0 \<and> 2 \<le> soft_breaks t
        then decide REDUCE_TAIL (fl (te_initial_fraction t / 2)) 0 [''tail_two_soft_breaks_confirmed''] [] mode
      else decide HOLD (po_position_fraction s) 0
             [if soft_breaks t = 1 then ''tail_single_warning_tolerated'' else ''tail_trend_intact''] [] mode)"

definition tail_choice :: "PolicySnapshot \<Rightarrow> TailMode \<times> rat \<times> string" where
  \<comment> \<open>the mode, the fraction and the stem of the reason\<close>
  "tail_choice s =
     (if metric_at_least (po_right_tail s) 85 \<and> po_a_plus_plus_approved s \<and>
         metric_at_least (po_catalyst s) 95 \<and> metric_at_least (po_order_flow s) 85 \<and>
         metric_at_least (po_execution s) 85
      then (A_PLUS_PLUS, fl (30 / 100), ''a_plus_plus_tail'')
      else if metric_at_least (po_right_tail s) 70 then (HIGH_RIGHT_TAIL, 25 / 100, ''high_right_tail'')
      else (STANDARD, fl (20 / 100), ''standard_tail''))"

definition main_profit_decision :: "PolicySnapshot \<Rightarrow> PolicyDecision" where
  "main_profit_decision s = (case tail_choice s of (mode, fraction, stem) \<Rightarrow>
     if fraction < po_position_fraction s
     then decide TRIM_TO_TAIL fraction 0 [stem @ ''_started''] [] (Some mode)
     else decide HOLD (po_position_fraction s) 0 [stem @ ''_active''] [] (Some mode))"

definition closed_to_entries :: "PolicySnapshot \<Rightarrow> int \<Rightarrow> string option" where
  \<comment> \<open>the early returns of a snapshot without a position\<close>
  "closed_to_entries s local =
     (if po_has_position s then None
      else if clock 12 0 \<le> local then Some ''new_entries_cutoff_reached''
      else if \<not> clock 7 0 \<le> local then Some ''premarket_entry_not_started''
      else if clock 9 25 \<le> local \<and> local < clock 9 31 then Some ''opening_transition_frozen''
      else case (po_first_target_reward_r s, po_weighted_expected_reward_r s) of
        (Some first, Some weighted) \<Rightarrow>
          if provenance_missing s then Some ''reward_risk_unavailable''
          else if first < 5 / 2 then Some ''first_target_below_2_5r''
          else if weighted < 3 then Some ''weighted_expected_reward_below_3r''
          else None
      | _ \<Rightarrow> Some ''reward_risk_unavailable'')"

definition all_clear :: "PolicySnapshot \<Rightarrow> bool" where
  \<comment> \<open>the conditions that every route and confirmation repeats\<close>
  "all_clear s \<longleftrightarrow> po_technical_structure_valid s \<and> po_negative_news_clear s = Some True \<and>
     \<not> po_material_negative s \<and> po_data_healthy s \<and> po_agents_healthy s \<and> po_push_healthy s"

definition catalyst_scores :: "PolicySnapshot \<Rightarrow> bool" where
  "catalyst_scores s \<longleftrightarrow> po_route s = CATALYST \<and> metric_at_least (po_catalyst s) 75 \<and>
     metric_at_least (po_order_flow s) 60 \<and> metric_at_least (po_execution s) 70"

definition factor_scores :: "PolicySnapshot \<Rightarrow> bool" where
  "factor_scores s \<longleftrightarrow> metric_at_least (po_factor s) 65 \<and>
     metric_at_least (po_order_flow s) 75 \<and> metric_at_least (po_execution s) 75"

definition opening_hold :: "PolicySnapshot \<Rightarrow> int \<Rightarrow> bool" where
  "opening_hold s local \<longleftrightarrow> clock 9 25 \<le> local \<and> local < clock 9 31 \<and> po_has_position s \<and>
     \<not> po_material_negative s \<and> po_data_healthy s \<and> po_agents_healthy s \<and> po_push_healthy s \<and>
     po_technical_structure_valid s"

definition opening_confirmation_passed :: "PolicySnapshot \<Rightarrow> int \<Rightarrow> bool" where
  "opening_confirmation_passed s local \<longleftrightarrow> clock 9 31 \<le> local \<and> po_has_position s \<and>
     po_position_fraction s = 25 / 100 \<and> prices_compare s (\<lambda>p entry. entry \<le> p) \<and>
     catalyst_scores s \<and> all_clear s"

definition catalyst_expired :: "PolicySnapshot \<Rightarrow> int \<Rightarrow> bool" where
  "catalyst_expired s local \<longleftrightarrow> clock 10 0 \<le> local \<and> po_has_position s \<and>
     po_position_fraction s = 25 / 100 \<and> po_route s = CATALYST"

definition below_entry :: "PolicySnapshot \<Rightarrow> int \<Rightarrow> bool" where
  "below_entry s local \<longleftrightarrow> clock 9 31 \<le> local \<and> po_has_position s \<and>
     prices_compare s (\<lambda>p entry. p < entry) \<and> po_technical_structure_valid s \<and> \<not> po_material_negative s"

definition catalyst_neutral :: "PolicySnapshot \<Rightarrow> int \<Rightarrow> bool" where
  "catalyst_neutral s local \<longleftrightarrow> clock 9 35 \<le> local \<and> local < clock 10 0 \<and> po_has_position s \<and>
     po_position_fraction s = 25 / 100 \<and> po_route s = CATALYST \<and> metric_at_least (po_catalyst s) 75 \<and>
     metric_at_least (po_order_flow s) 45 \<and> \<not> metric_at_least (po_order_flow s) 60 \<and> all_clear s"

definition factor_unconfirmed :: "PolicySnapshot \<Rightarrow> int \<Rightarrow> bool" where
  "factor_unconfirmed s local \<longleftrightarrow> clock 9 35 \<le> local \<and> po_has_position s \<and>
     po_position_fraction s = 25 / 100 \<and> po_route s = FACTOR_ORDER_FLOW \<and>
     (\<not> factor_scores s \<or> \<not> po_technical_structure_valid s)"

definition score_blockers :: "string \<Rightarrow> DecisionMetric \<Rightarrow> rat \<Rightarrow> string \<Rightarrow> string list" where
  "score_blockers name m bound shown = (case dm_value m of
     None \<Rightarrow> [name @ ''_score_unavailable'']
   | Some v \<Rightarrow> if v < bound then [name @ ''_score_below_'' @ shown] else [])"

definition observe_blockers :: "PolicySnapshot \<Rightarrow> string list" where
  "observe_blockers s =
     (let found =
        (if po_technical_structure_valid s then [] else [''technical_structure_invalid'']) @
        (if po_negative_news_clear s \<noteq> Some True then [''negative_news_not_cleared''] else []) @
        (if po_material_negative s then [''verified_material_negative''] else []) @
        (if po_data_healthy s then [] else [''market_data_unhealthy'']) @
        (if po_agents_healthy s then [] else [''required_agent_unhealthy'']) @
        (if po_push_healthy s then [] else [''push_unhealthy'']) @
        (case po_route s of
           CATALYST \<Rightarrow>
             score_blockers ''catalyst'' (po_catalyst s) 75 ''75'' @
             score_blockers ''order_flow'' (po_order_flow s) 60 ''60'' @
             score_blockers ''execution'' (po_execution s) 70 ''70''
         | FACTOR_ORDER_FLOW \<Rightarrow>
             score_blockers ''factor'' (po_factor s) 65 ''65'' @
             score_blockers ''order_flow'' (po_order_flow s) 75 ''75'' @
             score_blockers ''execution'' (po_execution s) 75 ''75'')
      in if found = [] then [''entry_conditions_not_met''] else found)"

definition session_decision :: "PolicySnapshot \<Rightarrow> int \<Rightarrow> PolicyDecision" where
  \<comment> \<open>from \<open>opening_transition_hold_only\<close> to the end of \<open>evaluate\<close>\<close>
  "session_decision s local =
     (if opening_hold s local
        then decide HOLD (po_position_fraction s) 0 [''opening_transition_hold_only''] [] None
      else if opening_confirmation_passed s local
        then decide UPGRADE (50 / 100) (po_approved_account_risk_fraction s) [''opening_confirmation_passed''] [] None
      else if catalyst_expired s local then exit_because ''catalyst_probe_unconfirmed_at_1000'' None
      else if below_entry s local
        then decide HOLD (po_position_fraction s) 0 [] [''averaging_down_forbidden''] None
      else if catalyst_neutral s local
        then decide HOLD (25 / 100) (fl (15 / 10000)) [''catalyst_probe_neutral_until_1000''] [] None
      else if factor_unconfirmed s local then exit_because ''factor_probe_unconfirmed_at_0935'' None
      else if clock 7 0 \<le> local \<and> catalyst_scores s \<and> all_clear s \<and> \<not> po_has_position s
        then decide ENTER_PROBE (25 / 100) (fl (15 / 10000)) [''catalyst_route_passed''] [] None
      else if clock 7 0 \<le> local \<and> po_route s = FACTOR_ORDER_FLOW \<and> factor_scores s \<and>
              all_clear s \<and> \<not> po_has_position s
        then decide ENTER_PROBE (25 / 100) (fl (10 / 10000)) [''factor_order_flow_route_passed''] [] None
      else decide OBSERVE (po_position_fraction s) 0 [] (observe_blockers s) None)"

definition evaluate_policy :: "(datetime \<Rightarrow> int) \<Rightarrow> PolicySnapshot \<Rightarrow> PolicyDecision" where
  "evaluate_policy ny s =
     (let local = ny (po_observed_at_utc s); held = po_has_position s in
      if held \<and> clock 12 0 \<le> local then exit_because ''intraday_force_exit_1200'' None
      else if held \<and> po_material_negative s then exit_because ''verified_material_negative'' None
      else if held \<and> \<not> po_agents_healthy s then exit_because ''required_agent_unhealthy'' None
      else if held \<and> \<not> po_data_healthy s then exit_because ''market_data_unhealthy'' None
      else if held \<and> \<not> po_push_healthy s \<and> po_technical_structure_valid s
        then decide HOLD (po_position_fraction s) 0 [] [''push_unhealthy_adds_disabled''] None
      else case (if held then po_tail s else None) of
        Some t \<Rightarrow> tail_decision s t
      | None \<Rightarrow>
          if held \<and> po_main_profit_realized s then main_profit_decision s
          else case closed_to_entries s local of
            Some blocker \<Rightarrow> decide OBSERVE 0 0 [] [blocker] None
          | None \<Rightarrow> session_decision s local)"

section \<open>When the policy enters and exits\<close>

definition entry_window :: "int \<Rightarrow> bool" where
  "entry_window local \<longleftrightarrow> (clock 7 0 \<le> local \<and> local < clock 9 25) \<or> (clock 9 31 \<le> local \<and> local < clock 12 0)"

definition reward_covers_risk :: "PolicySnapshot \<Rightarrow> bool" where
  "reward_covers_risk s \<longleftrightarrow> \<not> provenance_missing s \<and>
     (\<exists>first. po_first_target_reward_r s = Some first \<and> 5 / 2 \<le> first) \<and>
     (\<exists>weighted. po_weighted_expected_reward_r s = Some weighted \<and> 3 \<le> weighted)"

text \<open>The conditions of a new position, as the policy documents them.\<close>

definition entry_permitted :: "PolicySnapshot \<Rightarrow> int \<Rightarrow> bool" where
  "entry_permitted s local \<longleftrightarrow> \<not> po_has_position s \<and> entry_window local \<and> reward_covers_risk s \<and> all_clear s \<and>
     (case po_route s of CATALYST \<Rightarrow> catalyst_scores s | FACTOR_ORDER_FLOW \<Rightarrow> factor_scores s)"

definition tail_broken :: "TailEvidence \<Rightarrow> bool" where
  "tail_broken t \<longleftrightarrow> te_hard_breakdown t \<or> te_chandelier_stop_hit t \<or>
     (te_reduction_stage t = 1 \<and> te_failed_reclaim t) \<or>
     allowed_giveback_r t < fl (te_maximum_favorable_excursion_r t - te_current_r t)"

definition probe_failed :: "PolicySnapshot \<Rightarrow> int \<Rightarrow> bool" where
  \<comment> \<open>a quarter position whose route has not been confirmed in its time; a factor probe that trades
      below its entry price is held instead\<close>
  "probe_failed s local \<longleftrightarrow>
     (catalyst_expired s local \<and> \<not> opening_confirmation_passed s local) \<or>
     (factor_unconfirmed s local \<and> \<not> below_entry s local)"

definition exit_due :: "PolicySnapshot \<Rightarrow> int \<Rightarrow> bool" where
  "exit_due s local \<longleftrightarrow> po_has_position s \<and>
     (clock 12 0 \<le> local \<or> po_material_negative s \<or> \<not> po_agents_healthy s \<or> \<not> po_data_healthy s \<or>
      (po_push_healthy s \<or> \<not> po_technical_structure_valid s) \<and>
      (case po_tail s of
         Some t \<Rightarrow> tail_broken t
       | None \<Rightarrow> \<not> po_main_profit_realized s \<and> probe_failed s local))"

lemmas decision_simps = decide_def exit_because_def

lemma clocks [simp]:
  "clock 7 0 = 25200000000" "clock 9 25 = 33900000000" "clock 9 31 = 34260000000"
  "clock 9 35 = 34500000000" "clock 10 0 = 36000000000" "clock 12 0 = 43200000000"
  by (simp_all add: clock_def)

lemma decide_action [simp]: "pd_action (decide a t r xs bs m) = a" "pd_action (exit_because x m) = EXIT"
  by (simp_all add: decision_simps)

lemma tail_decision_action:
  "pd_action (tail_decision s t) = (if tail_broken t then EXIT
     else if te_reduction_stage t = 0 \<and> 2 \<le> soft_breaks t then REDUCE_TAIL else HOLD)"
  by (simp add: tail_decision_def tail_broken_def Let_def)

lemma main_profit_action: "pd_action (main_profit_decision s) \<in> {TRIM_TO_TAIL, HOLD}"
  by (simp add: main_profit_decision_def split: prod.split)

lemma flat_conditions:
  assumes "\<not> po_has_position s"
  shows "\<not> opening_hold s local" "\<not> opening_confirmation_passed s local" "\<not> catalyst_expired s local"
    "\<not> below_entry s local" "\<not> catalyst_neutral s local" "\<not> factor_unconfirmed s local"
  using assms by (simp_all add: opening_hold_def opening_confirmation_passed_def catalyst_expired_def
    below_entry_def catalyst_neutral_def factor_unconfirmed_def)

lemma closed_to_entries_None:
  assumes "\<not> po_has_position s"
  shows "closed_to_entries s local = None \<longleftrightarrow> entry_window local \<and> reward_covers_risk s"
  using assms
  by (auto simp: closed_to_entries_def entry_window_def reward_covers_risk_def not_le not_less
      split: option.splits if_splits)



section \<open>Well-formed decisions\<close>

text \<open>
  What a decision may ask for.  Only an entry and an upgrade raise the exposure, to a quarter and to
  half of the position; a hold keeps it, a trim lowers it, an exit closes it.  The reduced tail is half
  of the fraction the tail started with, whatever is held now.
\<close>

definition target_ok :: "PolicySnapshot \<Rightarrow> PolicyDecision \<Rightarrow> bool" where
  "target_ok s d \<longleftrightarrow>
     (case pd_action d of
        OBSERVE \<Rightarrow> pd_target_position_fraction d = po_position_fraction s
      | ENTER_PROBE \<Rightarrow> po_position_fraction s = 0 \<and> pd_target_position_fraction d = 1 / 4
      | HOLD \<Rightarrow> 0 < po_position_fraction s \<and> pd_target_position_fraction d = po_position_fraction s
      | UPGRADE \<Rightarrow> po_position_fraction s = 1 / 4 \<and> pd_target_position_fraction d = 1 / 2
      | EXIT \<Rightarrow> 0 < po_position_fraction s \<and> pd_target_position_fraction d = 0
      | TRIM_TO_TAIL \<Rightarrow> 0 < pd_target_position_fraction d \<and>
                        pd_target_position_fraction d < po_position_fraction s
      | REDUCE_TAIL \<Rightarrow> 0 < po_position_fraction s \<and> (\<exists>t. po_tail s = Some t \<and>
                        pd_target_position_fraction d = fl (te_initial_fraction t / 2)))"

definition risk_ok :: "PolicyDecision \<Rightarrow> bool" where
  "risk_ok d \<longleftrightarrow> 0 \<le> pd_max_account_risk_fraction d \<and> pd_max_account_risk_fraction d \<le> fl (35 / 10000) \<and>
     (pd_action d \<notin> {ENTER_PROBE, UPGRADE, HOLD} \<longrightarrow> pd_max_account_risk_fraction d = 0)"

definition explained :: "PolicyDecision \<Rightarrow> bool" where
  \<comment> \<open>a decision has a reason or a blocker, never both; what changes the position has a reason\<close>
  "explained d \<longleftrightarrow> (pd_reasons d = [] \<longleftrightarrow> pd_blockers d \<noteq> []) \<and>
     (pd_action d \<notin> {OBSERVE, HOLD} \<longrightarrow> pd_reasons d \<noteq> [])"

definition decision_ok :: "PolicySnapshot \<Rightarrow> PolicyDecision \<Rightarrow> bool" where
  "decision_ok s d \<longleftrightarrow> 0 \<le> pd_target_position_fraction d \<and> pd_target_position_fraction d \<le> 1 \<and>
     target_ok s d \<and> risk_ok d \<and> explained d"

lemma literals:
  "fl (15 / 10000) \<le> fl (35 / 10000)" "fl (10 / 10000) \<le> fl (35 / 10000)" "0 \<le> fl (15 / 10000)"
  "0 \<le> fl (10 / 10000)" "0 < fl (30 / 100)" "0 < fl (20 / 100)" "fl (30 / 100) \<le> 1" "0 \<le> fl (35 / 10000)"
  "fl (20 / 100) \<le> 1"
  by code_simp+

lemma snapshot_ok_facts:
  assumes "snapshot_ok s"
  shows "0 \<le> po_position_fraction s" "po_position_fraction s \<le> 1"
    "po_has_position s \<longleftrightarrow> 0 < po_position_fraction s"
    "0 < po_approved_account_risk_fraction s" "po_approved_account_risk_fraction s \<le> fl (35 / 10000)"
    "\<And>t. po_tail s = Some t \<Longrightarrow> 0 < te_initial_fraction t \<and> te_initial_fraction t \<le> fl (30 / 100)"
  using assms
  by (auto simp: snapshot_ok_def snapshot_error_def validate_tail_def not_less not_le
      split: if_splits option.splits)

lemma observe_blockers_nonempty: "observe_blockers s \<noteq> []"
  by (simp add: observe_blockers_def Let_def)

lemma half_tail:
  assumes "0 < q" "q \<le> fl (30 / 100)"
  shows "0 \<le> fl (q / 2)" "fl (q / 2) \<le> 1"
proof -
  have "fl 0 \<le> fl (q / 2)" using assms by (intro fl_mono) simp
  then show "0 \<le> fl (q / 2)" by (simp add: fl_def)
  have "q / 2 \<le> 1" using assms literals(7) by linarith
  then have "fl (q / 2) \<le> fl 1" by (rule fl_mono)
  moreover have "fl 1 = 1" by code_simp
  ultimately show "fl (q / 2) \<le> 1" by simp
qed

lemmas decision_ok_defs = decision_ok_def target_ok_def risk_ok_def explained_def

lemma exit_ok: "snapshot_ok s \<Longrightarrow> po_has_position s \<Longrightarrow> decision_ok s (exit_because reason mode)"
  using literals(8) by (simp add: decision_ok_defs decision_simps snapshot_ok_facts(3))

lemma hold_ok:
  assumes ok: "snapshot_ok s" "po_has_position s" and why: "reasons = [] \<longleftrightarrow> blockers \<noteq> []"
    and risk: "0 \<le> risk" "risk \<le> fl (35 / 10000)"
  shows "decision_ok s (decide HOLD (po_position_fraction s) risk reasons blockers mode)"
  using snapshot_ok_facts(1-3) [OF ok(1)] ok(2) why risk by (simp add: decision_ok_defs decision_simps)

lemma tail_decision_ok:
  assumes ok: "snapshot_ok s" "po_has_position s" and t: "po_tail s = Some t"
  shows "decision_ok s (tail_decision s t)"
proof -
  have "decision_ok s (decide REDUCE_TAIL (fl (te_initial_fraction t / 2)) 0 [reason] [] mode)" for reason mode
    using half_tail snapshot_ok_facts(6) [OF ok(1) t] t literals(8) ok snapshot_ok_facts(3) [OF ok(1)]
    by (simp add: decision_ok_defs decision_simps)
  with ok literals(8) show ?thesis by (simp add: tail_decision_def Let_def exit_ok hold_ok)
qed

lemma main_profit_ok:
  assumes ok: "snapshot_ok s" "po_has_position s"
  shows "decision_ok s (main_profit_decision s)"
proof -
  obtain mode fraction stem where c: "tail_choice s = (mode, fraction, stem)" by (cases "tail_choice s")
  then have f: "0 < fraction" "fraction \<le> 1"
    using literals(5-7,9) by (auto simp: tail_choice_def split: if_splits)
  with ok c literals(8) show ?thesis
    by (simp add: main_profit_decision_def hold_ok) (simp add: decision_ok_defs decision_simps)
qed

lemma session_ok:
  assumes ok: "snapshot_ok s"
  shows "decision_ok s (session_decision s local)"
proof (cases "po_has_position s")
  case True
  have neutral: "decision_ok s (decide HOLD (25 / 100) (fl (15 / 10000)) [reason] [] None)"
    if "catalyst_neutral s local" for reason
  proof -
    have q: "po_position_fraction s = 25 / 100" using that by (simp add: catalyst_neutral_def)
    show ?thesis using hold_ok [OF ok True _ literals(3,1), of "[reason]" "[]" None] by (simp add: q)
  qed
  have up: "decision_ok s (decide UPGRADE (50 / 100) (po_approved_account_risk_fraction s) [reason] [] None)"
    if "opening_confirmation_passed s local" for reason
    using that snapshot_ok_facts(4,5) [OF ok]
    by (simp add: opening_confirmation_passed_def decision_ok_defs decision_simps)
  have observe: "decision_ok s (decide OBSERVE (po_position_fraction s) 0 [] (observe_blockers s) None)"
    using snapshot_ok_facts(1,2) [OF ok] literals(8) observe_blockers_nonempty [of s]
    by (simp add: decision_ok_defs decision_simps)
  from True ok up neutral observe literals show ?thesis
    by (simp add: session_decision_def hold_ok exit_ok)
next
  case False
  then have flat: "po_position_fraction s = 0" using snapshot_ok_facts(1,3) [OF ok] by linarith
  have enter: "decision_ok s (decide ENTER_PROBE (25 / 100) risk [reason] [] None)"
    if "0 \<le> risk" "risk \<le> fl (35 / 10000)" for risk reason
    using that flat by (simp add: decision_ok_defs decision_simps)
  have observe: "decision_ok s (decide OBSERVE (po_position_fraction s) 0 [] (observe_blockers s) None)"
    using flat literals(8) observe_blockers_nonempty [of s] by (simp add: decision_ok_defs decision_simps)
  from False enter observe literals(1-4) show ?thesis
    by (simp add: session_decision_def flat_conditions)
qed

text \<open>C36: every decision on a snapshot the constructors accept is well-formed: the target is a fraction, only
  an entry or an upgrade may raise it, to a quarter and a half, the risk stays within 0.35 percent and
  is zero when nothing is bought or held, and the decision explains itself.\<close>

theorem policy_decision_well_formed:
  assumes ok: "snapshot_ok s"
  shows "decision_ok s (evaluate_policy ny s)"
proof -
  have shut: "decision_ok s (decide OBSERVE 0 0 [] [b] None)" if "closed_to_entries s local = Some b" for b local
  proof -
    have "\<not> po_has_position s" using that by (auto simp: closed_to_entries_def split: if_splits)
    then have "po_position_fraction s = 0" using snapshot_ok_facts(1,3) [OF ok] by linarith
    then show ?thesis using literals(8) by (simp add: decision_ok_defs decision_simps)
  qed
  show ?thesis
    using exit_ok [OF ok] hold_ok [OF ok] tail_decision_ok [OF ok] main_profit_ok [OF ok] session_ok [OF ok] shut
      literals(8)
    by (simp add: evaluate_policy_def Let_def split: option.split)
qed

section \<open>Concrete snapshots\<close>

definition sample_metric :: "rat \<Rightarrow> DecisionMetric" where
  "sample_metric v = \<lparr>dm_value = Some v, dm_asof_utc = utc 0, dm_provenance = ''m''\<rparr>"

definition sample_policy_snapshot :: PolicySnapshot where
  "sample_policy_snapshot = \<lparr>po_trade_date = Date 2026 9 14, po_observed_at_utc = utc 0,
     po_route = FACTOR_ORDER_FLOW, po_catalyst = sample_metric 50, po_factor = sample_metric 60,
     po_order_flow = sample_metric 80, po_execution = sample_metric 80, po_right_tail = sample_metric 50,
     po_technical_structure_valid = True, po_negative_news_clear = Some True, po_material_negative = False,
     po_data_healthy = True, po_agents_healthy = True, po_push_healthy = True, po_has_position = True,
     po_position_fraction = 1 / 4, po_average_entry_price = Some 100, po_last_price = Some 99,
     po_approved_account_risk_fraction = fl (35 / 10000), po_main_profit_realized = False,
     po_a_plus_plus_approved = False, po_tail = None, po_first_target_reward_r = None,
     po_weighted_expected_reward_r = None, po_reward_risk_provenance = None\<rparr>"

lemma sample_snapshot_ok: "snapshot_ok sample_policy_snapshot"
  by code_simp

lemma policy_decision_well_formed_witness:
  "decision_ok sample_policy_snapshot (evaluate_policy (\<lambda>_. clock 9 40) sample_policy_snapshot)"
  by (rule policy_decision_well_formed [OF sample_snapshot_ok])

text \<open>
  A factor probe whose factor score has fallen below the entry threshold is due to exit at 09:35, but
  the earlier check for a price below the entry holds it.
\<close>

lemma losing_factor_probe_held:
  "factor_unconfirmed sample_policy_snapshot (clock 9 40) \<and>
   evaluate_policy (\<lambda>_. clock 9 40) sample_policy_snapshot =
     decide HOLD (1 / 4) 0 [] [''averaging_down_forbidden''] None"
  by code_simp

text \<open>The constructor does not tie a tail's initial fraction to what is held, so a reduction can ask for more.\<close>

definition sample_tail_snapshot :: PolicySnapshot where
  "sample_tail_snapshot = sample_policy_snapshot\<lparr>po_position_fraction := 1 / 16,
     po_tail := Some \<lparr>te_mode = STANDARD, te_initial_fraction = 1 / 4, te_reduction_stage = 0,
       te_fifteen_minute_structure_valid = False, te_below_anchored_vwap_5m_bars = 2,
       te_order_flow_below_45_seconds = 0, te_failed_reclaim = False, te_current_r = 0,
       te_maximum_favorable_excursion_r = 0, te_chandelier_stop_hit = False, te_hard_breakdown = False\<rparr>\<rparr>"

lemma reduced_tail_may_grow:
  "snapshot_ok sample_tail_snapshot \<and>
   evaluate_policy (\<lambda>_. clock 9 40) sample_tail_snapshot =
     decide REDUCE_TAIL (1 / 8) 0 [''tail_two_soft_breaks_confirmed''] [] (Some STANDARD) \<and>
   po_position_fraction sample_tail_snapshot < 1 / 8"
  by code_simp

end
