(* ===== verification/IbkrDesk.thy ===== *)
theory IbkrDesk
  imports PyJson PyDecimal Contracts
begin

text \<open>
  \<open>execution/ibkr_execution.py\<close>: the execution desk for Interactive Brokers, as one state that commands
  act on.  The broker adapter behind \<open>BrokerPort\<close>, the clock, the token factory and the digest of a
  warning are parameters; the state of the world they act on is the first half of a state, the desk
  (its fields and its SQLite table) the second.  A lock serializes the commands.  \<open>ib_repr\<close> is Python's
  \<open>str\<close> of a float, list or dict, \<open>ib_error_text\<close> its \<open>str\<close> of an exception; the Chinese words of the
  confirmation phrases are held as UTF-8 bytes.
\<close>

section \<open>The broker port\<close>

record BrokerAccountSnapshot =
  ba_account_id :: string
  ba_api_read_only :: bool
  ba_positions :: "dict list"
  ba_open_orders :: "dict list"

record BrokerOrderRequest =
  bo_client_order_id :: string
  bo_account_id :: string
  bo_symbol :: string
  bo_security_type :: string
  bo_exchange :: string
  bo_currency :: string
  bo_order_type :: string
  bo_tif :: string
  bo_side :: string
  bo_operation :: string
  bo_quantity :: int
  bo_limit_price :: dec

record BrokerWhatIf =
  bw_accepted :: bool
  bw_estimated_commission :: "dec option"
  bw_initial_margin_change :: "dec option"
  bw_warning :: "string option"

record BrokerSubmission =
  bs_status :: string
  bs_order_id :: int
  bs_perm_id :: "int option"
  bs_order_ref :: string

text \<open>The adapter's calls (each may raise), the clock and the token factory.\<close>

record 'w ibkr_io =
  ib_is_connected :: "'w \<Rightarrow> bool"
  ib_connect :: "string \<Rightarrow> int \<Rightarrow> int \<Rightarrow> ('w, unit) op"
  ib_disconnect :: "('w, unit) op"
  ib_account_snapshot :: "('w, BrokerAccountSnapshot) op"
  ib_what_if :: "BrokerOrderRequest \<Rightarrow> ('w, BrokerWhatIf) op"
  ib_submit :: "BrokerOrderRequest \<Rightarrow> string \<Rightarrow> ('w, BrokerSubmission) op"
  ib_find_by_order_ref :: "string \<Rightarrow> ('w, BrokerSubmission option) op"
  ib_clock :: "('w, datetime) op"
  ib_token :: "('w, string) op"
  ib_repr :: "json \<Rightarrow> string"
  ib_error_text :: "py_error \<Rightarrow> string"
  ib_warning_hash :: "string \<Rightarrow> string"

section \<open>The desk\<close>

record IbkrConfig =
  kc_host :: string
  kc_client_id :: int
  kc_max_notional :: dec
  kc_preview_ttl :: int
  kc_arm_ttl :: int

definition LIVE_PORT :: int where "LIVE_PORT = 4001"

definition live_mode :: string where "live_mode = ''live''"

record IbkrIntent =
  ki_client_order_id :: string
  ki_symbol :: string
  ki_security_type :: string
  ki_exchange :: string
  ki_currency :: string
  ki_order_type :: string
  ki_tif :: string
  ki_action :: string
  ki_quantity :: int
  ki_limit_price :: string
  ki_notional :: string

text \<open>A row of the table; \<open>intent_json\<close> is canonical JSON, so the text is held as the value.\<close>

record ibkr_row =
  ir_idempotency_key :: string
  ir_mode :: string
  ir_account_id :: string
  ir_client_id :: int
  ir_client_order_id :: string
  ir_intent :: IbkrIntent
  ir_status :: string
  ir_broker_order_id :: "int option"
  ir_perm_id :: "int option"
  ir_order_ref :: string
  ir_last_error :: "string option"
  ir_created_at_utc :: datetime
  ir_updated_at_utc :: datetime

type_synonym ibkr_orders = "ibkr_row list"

record ExecutionPreview =
  xp_preview_id :: string
  xp_mode :: string
  xp_account_masked :: "string option"
  xp_intent :: IbkrIntent
  xp_accepted :: bool
  xp_estimated_commission :: "string option"
  xp_initial_margin_change :: "string option"
  xp_warning :: "string option"
  xp_confirmation_phrase :: string
  xp_warning_confirmation_hash :: "string option"
  xp_expires_at_utc :: datetime
  xp_request :: BrokerOrderRequest

record ibkr_desk =
  kd_live_account :: "string option"
  kd_connected :: bool
  kd_writes_armed :: bool
  kd_armed_until_utc :: "datetime option"
  kd_account :: "BrokerAccountSnapshot option"
  kd_account_refreshed_at_utc :: "datetime option"
  kd_last_error :: "string option"
  kd_preview :: "ExecutionPreview option"
  kd_orders :: ibkr_orders

definition open_desk ::
    "string option \<Rightarrow> string \<Rightarrow> int \<Rightarrow> decimal \<Rightarrow> int \<Rightarrow> int \<Rightarrow> ibkr_orders \<Rightarrow> py_error + IbkrConfig \<times> ibkr_desk" where
  \<comment> \<open>the constructor, on the table the ledger file holds\<close>
  "open_desk live_account host client_id max_notional preview_ttl arm_ttl orders =
     (case max_notional of Finite cap \<Rightarrow>
        if dec_val cap \<le> 0 then Inl (ValueError ''max_notional must be positive and finite'')
        else if preview_ttl \<le> 0 \<or> 60000000 < preview_ttl
          then Inl (ValueError ''preview_ttl must be between 0 and 60 seconds'')
        else if arm_ttl \<le> 0 \<or> 300000000 < arm_ttl
          then Inl (ValueError ''arm_ttl must be between 0 and 5 minutes'')
        else if client_id < 0 then Inl (ValueError ''client_id must be a non-negative integer'')
        else if is_blank host then Inl (ValueError ''IBKR host is required'')
        else let account = py_strip (case live_account of None \<Rightarrow> [] | Some a \<Rightarrow> a) in
          Inr (\<lparr>kc_host = py_strip host, kc_client_id = client_id, kc_max_notional = cap,
                kc_preview_ttl = preview_ttl, kc_arm_ttl = arm_ttl\<rparr>,
               \<lparr>kd_live_account = (if account = [] then None else Some account), kd_connected = False,
                kd_writes_armed = False, kd_armed_until_utc = None, kd_account = None,
                kd_account_refreshed_at_utc = None, kd_last_error = None, kd_preview = None,
                kd_orders = orders\<rparr>)
      | _ \<Rightarrow> Inl (ValueError ''max_notional must be positive and finite''))"

type_synonym ('w, 'a) desk_op = "('w \<times> ibkr_desk, 'a) op"

abbreviation get_desk :: "(ibkr_desk \<Rightarrow> 'a) \<Rightarrow> ('w, 'a) desk_op" where
  "get_desk f \<equiv> on_snd (readS f)"

abbreviation put_desk :: "(ibkr_desk \<Rightarrow> ibkr_desk) \<Rightarrow> ('w, unit) desk_op" where
  "put_desk f \<equiv> on_snd (writeS f)"

definition mask_account :: "string option \<Rightarrow> string option" where
  "mask_account account_id = (case account_id of None \<Rightarrow> None | Some a \<Rightarrow>
     if a = [] then None
     else if length a \<le> 4 then Some (replicate (length a) CHR ''*'')
     else Some (take 1 a @ replicate (length a - 5) CHR ''*'' @ drop (length a - 4) a))"

definition masked_text :: "string option \<Rightarrow> string" where
  \<comment> \<open>the masked account inside an f-string\<close>
  "masked_text m = (case m of None \<Rightarrow> ''None'' | Some s \<Rightarrow> s)"

definition desk_mask :: "ibkr_desk \<Rightarrow> string option" where
  "desk_mask d = mask_account (map_option ba_account_id (kd_account d))"

definition account_bound :: "ibkr_desk \<Rightarrow> bool" where
  "account_bound d \<longleftrightarrow> (case (kd_account d, kd_live_account d) of
     (Some a, Some live) \<Rightarrow> ba_account_id a = live | _ \<Rightarrow> False)"

section \<open>Health, clock and arming\<close>

definition disarmed :: "ibkr_desk \<Rightarrow> ibkr_desk" where
  "disarmed d = d\<lparr>kd_writes_armed := False, kd_armed_until_utc := None\<rparr>"

definition utc_now :: "'w ibkr_io \<Rightarrow> ('w, datetime) desk_op" where
  "utc_now io = bindS (on_fst (ib_clock io)) (\<lambda>value.
     thenS (guardS (is_utc value) (ValueError ''execution clock must return timezone-aware UTC''))
       (returnS value))"

definition expire_arm :: "'w ibkr_io \<Rightarrow> ('w, unit) desk_op" where
  "expire_arm io = bindS (get_desk kd_armed_until_utc) (\<lambda>until. case until of
     None \<Rightarrow> returnS ()
   | Some t \<Rightarrow> bindS (utc_now io) (\<lambda>now.
       if instant t \<le> instant now then put_desk disarmed else returnS ()))"

definition lost_connection :: "ibkr_desk \<Rightarrow> ibkr_desk" where
  "lost_connection d = (disarmed d)\<lparr>kd_connected := False, kd_preview := None,
     kd_last_error := Some ''connection_lost''\<rparr>"

definition sync_broker_health :: "'w ibkr_io \<Rightarrow> ('w, unit) desk_op" where
  "sync_broker_health io = bindS (get_desk kd_connected) (\<lambda>connected.
     if \<not> connected then returnS ()
     else bindS (on_fst (readS (ib_is_connected io))) (\<lambda>alive.
       if alive then returnS () else put_desk lost_connection))"

definition refresh_account :: "'w ibkr_io \<Rightarrow> ('w, unit) desk_op" where
  "refresh_account io = bindS (get_desk kd_connected) (\<lambda>connected.
     thenS (guardS connected (RuntimeError ''IBKR is not connected''))
     (bindS (attemptS (\<lambda>_. True) (on_fst (ib_account_snapshot io))) (\<lambda>found. case found of
        Inl e \<Rightarrow> thenS (put_desk (\<lambda>d. d\<lparr>kd_last_error := Some ''account_refresh_timeout''\<rparr>)) (raiseS e)
      | Inr account \<Rightarrow> bindS (get_desk kd_live_account) (\<lambda>live.
          if live \<noteq> None \<and> live \<noteq> Some (ba_account_id account)
          then thenS (put_desk (\<lambda>d. (disarmed d)\<lparr>kd_preview := None, kd_account := None,
                   kd_account_refreshed_at_utc := None, kd_connected := False,
                   kd_last_error := Some ''account_mismatch''\<rparr>))
               (thenS (on_fst (ib_disconnect io))
                 (raiseS (RuntimeError ''connected IBKR account does not match bound live account'')))
          else thenS (put_desk (\<lambda>d. d\<lparr>kd_account := Some account\<rparr>))
               (bindS (utc_now io) (\<lambda>now. put_desk (\<lambda>d. d\<lparr>kd_account_refreshed_at_utc := Some now,
                  kd_last_error := None\<rparr>)))))))"

section \<open>The table\<close>

definition uncertain :: "ibkr_row \<Rightarrow> bool" where
  "uncertain r \<longleftrightarrow> ir_status r = ''submitting'' \<or> ir_status r = ''unknown''"

definition recovery_required :: "ibkr_desk \<Rightarrow> bool" where
  "recovery_required d \<longleftrightarrow> list_ex uncertain (kd_orders d)"

definition order_key :: "IbkrConfig \<Rightarrow> BrokerOrderRequest \<Rightarrow> string" where
  "order_key cfg req = live_mode @ '':'' @ bo_account_id req @ '':'' @ show_int (kc_client_id cfg) @ '':'' @
     bo_client_order_id req"

definition new_row :: "IbkrConfig \<Rightarrow> BrokerOrderRequest \<Rightarrow> IbkrIntent \<Rightarrow> string \<Rightarrow> datetime \<Rightarrow> ibkr_row" where
  "new_row cfg req intent order_ref now =
     \<lparr>ir_idempotency_key = order_key cfg req, ir_mode = live_mode, ir_account_id = bo_account_id req,
      ir_client_id = kc_client_id cfg, ir_client_order_id = bo_client_order_id req, ir_intent = intent,
      ir_status = ''submitting'', ir_broker_order_id = None, ir_perm_id = None, ir_order_ref = order_ref,
      ir_last_error = None, ir_created_at_utc = now, ir_updated_at_utc = now\<rparr>"

definition create_or_read_order ::
    "'w ibkr_io \<Rightarrow> IbkrConfig \<Rightarrow> BrokerOrderRequest \<Rightarrow> IbkrIntent \<Rightarrow> string \<Rightarrow> ('w, ibkr_row \<times> bool) desk_op" where
  \<comment> \<open>the row and \<open>created_now\<close>\<close>
  "create_or_read_order io cfg req intent order_ref =
     bindS (utc_now io) (\<lambda>now.
     bindS (get_desk (\<lambda>d. tbl_find ir_idempotency_key (order_key cfg req) (kd_orders d))) (\<lambda>found. case found of
       Some row \<Rightarrow> returnS (row, False)
     | None \<Rightarrow> bindS (get_desk (\<lambda>d. tbl_find ir_order_ref order_ref (kd_orders d))) (\<lambda>taken.
         thenS (guardS (taken = None) (IntegrityError ''UNIQUE constraint failed: ibkr_execution_orders.order_ref''))
         (thenS (put_desk (\<lambda>d. d\<lparr>kd_orders := tbl_insert (new_row cfg req intent order_ref now) (kd_orders d)\<rparr>))
           (returnS (new_row cfg req intent order_ref now, True))))))"

definition read_order :: "string \<Rightarrow> ('w, ibkr_row) desk_op" where
  "read_order order_ref = bindS (get_desk (\<lambda>d. tbl_find ir_order_ref order_ref (kd_orders d))) (\<lambda>found.
     case found of None \<Rightarrow> raiseS (RuntimeError ''IBKR order ledger entry disappeared'') | Some row \<Rightarrow> returnS row)"

definition settled_row ::
    "string \<Rightarrow> int option \<Rightarrow> int option \<Rightarrow> string option \<Rightarrow> datetime \<Rightarrow> ibkr_row \<Rightarrow> ibkr_row" where
  "settled_row status broker_order_id perm_id last_error now r =
     r\<lparr>ir_status := status, ir_broker_order_id := broker_order_id, ir_perm_id := perm_id,
       ir_last_error := last_error, ir_updated_at_utc := now\<rparr>"

definition update_order ::
    "'w ibkr_io \<Rightarrow> string \<Rightarrow> string \<Rightarrow> int option \<Rightarrow> int option \<Rightarrow> string option \<Rightarrow> ('w, unit) desk_op" where
  "update_order io order_ref status broker_order_id perm_id last_error =
     bindS (utc_now io) (\<lambda>now. put_desk (\<lambda>d. d\<lparr>kd_orders :=
       tbl_update ir_order_ref order_ref (settled_row status broker_order_id perm_id last_error now) (kd_orders d)\<rparr>))"

section \<open>Positions and open orders\<close>

definition get_or :: "string \<Rightarrow> json \<Rightarrow> dict \<Rightarrow> json" where
  \<comment> \<open>\<open>d.get(key, default)\<close>\<close>
  "get_or k dflt kvs = (case json_find k kvs of None \<Rightarrow> dflt | Some v \<Rightarrow> v)"

definition clean_upper :: "(json \<Rightarrow> string) \<Rightarrow> json \<Rightarrow> string" where
  "clean_upper repr v = py_upper (py_strip (py_str repr v))"

fun decimal_plus :: "decimal \<Rightarrow> decimal \<Rightarrow> decimal" where
  \<comment> \<open>a sum of numbers that are not negative\<close>
  "decimal_plus (Finite a) (Finite b) = Finite (dec_add a b)"
| "decimal_plus (Finite _) b = b"
| "decimal_plus a _ = a"

fun decimal_minus :: "decimal \<Rightarrow> decimal \<Rightarrow> py_error + decimal" where
  \<comment> \<open>a difference of such sums\<close>
  "decimal_minus (Finite a) (Finite b) = Inr (Finite (dec_sub a b))"
| "decimal_minus (Finite _) b = Inr (Infinity True)"
| "decimal_minus a (Finite _) = Inr a"
| "decimal_minus _ _ = Inl InvalidOperation"

fun exceeds :: "dec \<Rightarrow> decimal \<Rightarrow> bool" where
  \<comment> \<open>\<open>q > available\<close>\<close>
  "exceeds q (Finite a) = dec_lt a q"
| "exceeds q (Infinity neg) = neg"
| "exceeds q (NaN _) = False"

fun decimal_positive :: "decimal \<Rightarrow> bool" where
  "decimal_positive (Finite a) = (0 < dec_val a)"
| "decimal_positive (Infinity neg) = (\<not> neg)"
| "decimal_positive (NaN _) = False"

fun sum_quantities :: "(json \<Rightarrow> string) \<Rightarrow> json list \<Rightarrow> decimal \<Rightarrow> py_error + decimal" where
  \<comment> \<open>text that is no number is skipped, and so is what is not positive; a NaN does not compare\<close>
  "sum_quantities repr [] acc = Inr acc"
| "sum_quantities repr (v # vs) acc = (case parse_decimal (py_str repr v) of
     None \<Rightarrow> sum_quantities repr vs acc
   | Some (NaN _) \<Rightarrow> Inl InvalidOperation
   | Some (Infinity True) \<Rightarrow> sum_quantities repr vs acc
   | Some (Infinity False) \<Rightarrow> sum_quantities repr vs (decimal_plus acc (Infinity False))
   | Some (Finite q) \<Rightarrow> if 0 < dec_val q then sum_quantities repr vs (decimal_plus acc (Finite q))
                      else sum_quantities repr vs acc)"

definition long_position_quantity ::
    "(json \<Rightarrow> string) \<Rightarrow> BrokerAccountSnapshot option \<Rightarrow> string \<Rightarrow> py_error + decimal" where
  "long_position_quantity repr account symbol = (case account of
     None \<Rightarrow> Inr (Finite (dec_of_int 0))
   | Some a \<Rightarrow> sum_quantities repr
       (map (\<lambda>p. get_or ''quantity'' (get_or ''position'' (JInt 0) p) p)
         (filter (\<lambda>p. clean_upper repr (get_or ''symbol'' (JStr []) p) = symbol) (ba_positions a)))
       (Finite (dec_of_int 0)))"

definition terminal_statuses :: "string list" where
  "terminal_statuses = [''filled'', ''cancelled'', ''canceled'', ''apicancelled'', ''rejected'', ''inactive'']"

definition working :: "(json \<Rightarrow> string) \<Rightarrow> dict \<Rightarrow> bool" where
  "working repr order \<longleftrightarrow>
     \<not> List.member terminal_statuses (py_lower (py_strip (py_str repr (get_or ''status'' (JStr []) order))))"

definition active_open_quantity ::
    "(json \<Rightarrow> string) \<Rightarrow> BrokerAccountSnapshot option \<Rightarrow> string \<Rightarrow> string \<Rightarrow> py_error + decimal" where
  "active_open_quantity repr account symbol side = (case account of
     None \<Rightarrow> Inr (Finite (dec_of_int 0))
   | Some a \<Rightarrow> sum_quantities repr
       (map (\<lambda>p. get_or ''remaining'' (get_or ''quantity'' (JInt 0) p) p)
         (filter (\<lambda>p. clean_upper repr (get_or ''symbol'' (JStr []) p) = symbol \<and>
                      clean_upper repr (get_or ''side'' (get_or ''action'' (JStr []) p) p) = side \<and>
                      working repr p) (ba_open_orders a)))
       (Finite (dec_of_int 0)))"

definition active_orders_count :: "(json \<Rightarrow> string) \<Rightarrow> BrokerAccountSnapshot option \<Rightarrow> int" where
  "active_orders_count repr account = (case account of None \<Rightarrow> 0
     | Some a \<Rightarrow> int (length (filter (working repr) (ba_open_orders a))))"

section \<open>Normalizing an order\<close>

definition required_fields :: "string list" where
  \<comment> \<open>in sorted order, as the error message lists them\<close>
  "required_fields = [''action'', ''client_order_id'', ''currency'', ''exchange'', ''limit_price'',
     ''order_type'', ''quantity'', ''security_type'', ''symbol'', ''tif'']"

definition fixed_values :: "(string \<times> string) list" where
  "fixed_values = [(''security_type'', ''STK''), (''exchange'', ''SMART''), (''currency'', ''USD''),
     (''order_type'', ''LMT''), (''tif'', ''DAY'')]"

fun join :: "string \<Rightarrow> string list \<Rightarrow> string" where
  "join sep [] = []"
| "join sep [x] = x"
| "join sep (x # y # xs) = x @ sep @ join sep (y # xs)"

definition stock_symbol :: "string \<Rightarrow> bool" where
  \<comment> \<open>\<open>[A-Z][A-Z0-9.-]{0,14}\<close>\<close>
  "stock_symbol s = (case s of [] \<Rightarrow> False | c # cs \<Rightarrow> is_upper c \<and> length cs \<le> 14 \<and>
     list_all (\<lambda>x. is_upper x \<or> is_digit x \<or> x = CHR ''.'' \<or> x = CHR ''-'') cs)"

definition safe_code :: "string \<Rightarrow> bool" where
  \<comment> \<open>\<open>[A-Za-z0-9_.-]{1,80}\<close>\<close>
  "safe_code s \<longleftrightarrow> 1 \<le> length s \<and> length s \<le> 80 \<and>
     list_all (\<lambda>x. is_upper x \<or> is_lower x \<or> is_digit x \<or> x = CHR ''_'' \<or> x = CHR ''.'' \<or> x = CHR ''-'') s"

definition order_price :: "(json \<Rightarrow> string) \<Rightarrow> json \<Rightarrow> py_error + dec" where
  "order_price repr v = (case parse_decimal (py_str repr v) of
     None \<Rightarrow> Inl (ValueError ''limit_price must be numeric'')
   | Some (Finite p) \<Rightarrow> if dec_val p \<le> 0 then Inl (ValueError ''limit_price must be positive and finite'')
                      else dec_quantize RoundHalfEven (- 2) p
   | Some _ \<Rightarrow> Inl (ValueError ''limit_price must be positive and finite''))"

definition order_cap :: "(json \<Rightarrow> string) \<Rightarrow> dec \<Rightarrow> dict \<Rightarrow> py_error + dec" where
  \<comment> \<open>\<open>min(self.max_notional, Decimal(str(command_cap)))\<close>; minus infinity fails the check on the cap\<close>
  "order_cap repr max_notional raw = (case json_find ''max_notional'' raw of
     None \<Rightarrow> Inr max_notional
   | Some v \<Rightarrow> (case parse_decimal (py_str repr v) of
       Some (Finite c) \<Rightarrow> Inr (if dec_lt c max_notional then c else max_notional)
     | Some (Infinity False) \<Rightarrow> Inr max_notional
     | Some (Infinity True) \<Rightarrow> Inl (ValueError ''order exceeds max_notional'')
     | _ \<Rightarrow> Inl (ValueError ''max_notional must be numeric'')))"

definition two_places :: "dec \<Rightarrow> string" where
  \<comment> \<open>\<open>f"{d:.2f}"\<close>\<close>
  "two_places d = dec_format_f (Dec (dec_neg d)
     (if - 2 \<le> dec_exp d then dec_coeff d * 10 ^ nat (dec_exp d + 2)
      else round_coeff RoundHalfEven (dec_neg d) (dec_coeff d) (nat (- 2 - dec_exp d))) (- 2))"

definition order_fields_error :: "dict \<Rightarrow> py_error option" where
  "order_fields_error raw =
     (let keys = map fst raw;
          missing = filter (\<lambda>f. \<not> List.member keys f) required_fields;
          extras = sort (filter (\<lambda>f. \<not> List.member (''max_notional'' # required_fields) f) keys)
      in if missing \<noteq> [] then Some (ValueError (''missing order fields: '' @ join '', '' missing))
         else if extras \<noteq> [] then Some (ValueError (''unknown order fields: '' @ join '', '' extras))
         else None)"

definition fixed_fields_error :: "(json \<Rightarrow> string) \<Rightarrow> dict \<Rightarrow> py_error option" where
  "fixed_fields_error repr raw = map_option (\<lambda>(field, expected). ValueError (field @ '' must be '' @ expected))
     (find (\<lambda>(field, expected). clean_upper repr (json_get field raw) \<noteq> expected) fixed_values)"

definition order_room ::
    "(json \<Rightarrow> string) \<Rightarrow> BrokerAccountSnapshot \<Rightarrow> string \<Rightarrow> string \<Rightarrow> int \<Rightarrow> py_error + unit" where
  \<comment> \<open>no second buy of a symbol, and no sale of more than what is held and not already for sale\<close>
  "order_room repr account operation symbol quantity =
     (if operation = ''OpenLong''
      then (case active_open_quantity repr (Some account) symbol ''BUY'' of Inl e \<Rightarrow> Inl e | Inr open_buys \<Rightarrow>
        if decimal_positive open_buys
        then Inl (ValueError ''an active BUY order already exists for this symbol'') else Inr ())
      else (case long_position_quantity repr (Some account) symbol of Inl e \<Rightarrow> Inl e | Inr held \<Rightarrow>
        case active_open_quantity repr (Some account) symbol ''SELL'' of Inl e \<Rightarrow> Inl e | Inr selling \<Rightarrow>
        case decimal_minus held selling of Inl e \<Rightarrow> Inl e | Inr available \<Rightarrow>
        if exceeds (dec_of_int quantity) available
        then Inl (ValueError ''ReduceLong quantity exceeds the current long position'') else Inr ()))"

definition normalized_intent :: "string \<Rightarrow> string \<Rightarrow> string \<Rightarrow> int \<Rightarrow> dec \<Rightarrow> dec \<Rightarrow> IbkrIntent" where
  "normalized_intent client_order_id symbol operation quantity price notional =
     \<lparr>ki_client_order_id = client_order_id, ki_symbol = symbol, ki_security_type = ''STK'',
      ki_exchange = ''SMART'', ki_currency = ''USD'', ki_order_type = ''LMT'', ki_tif = ''DAY'',
      ki_action = operation, ki_quantity = quantity, ki_limit_price = two_places price,
      ki_notional = two_places notional\<rparr>"

definition normalized_request ::
    "BrokerAccountSnapshot \<Rightarrow> string \<Rightarrow> string \<Rightarrow> string \<Rightarrow> int \<Rightarrow> dec \<Rightarrow> BrokerOrderRequest" where
  "normalized_request account client_order_id symbol operation quantity price =
     \<lparr>bo_client_order_id = client_order_id, bo_account_id = ba_account_id account, bo_symbol = symbol,
      bo_security_type = ''STK'', bo_exchange = ''SMART'', bo_currency = ''USD'', bo_order_type = ''LMT'',
      bo_tif = ''DAY'', bo_side = (if operation = ''OpenLong'' then ''BUY'' else ''SELL''),
      bo_operation = operation, bo_quantity = quantity, bo_limit_price = price\<rparr>"

definition order_quantity :: "json \<Rightarrow> py_error + int" where
  "order_quantity v = (case v of JInt n \<Rightarrow> if 0 < n then Inr n else Inl (ValueError ''quantity must be a positive integer'')
     | _ \<Rightarrow> Inl (ValueError ''quantity must be a positive integer''))"

definition normalize_amounts ::
    "(json \<Rightarrow> string) \<Rightarrow> dec \<Rightarrow> BrokerAccountSnapshot \<Rightarrow> dict \<Rightarrow> string \<Rightarrow> string
       \<Rightarrow> py_error + BrokerOrderRequest \<times> IbkrIntent" where
  \<comment> \<open>from the quantity to the end of \<open>_normalize_order\<close>\<close>
  "normalize_amounts repr max_notional account raw symbol operation =
     (case order_quantity (json_get ''quantity'' raw) of Inl e \<Rightarrow> Inl e | Inr quantity \<Rightarrow>
      case order_price repr (json_get ''limit_price'' raw) of Inl e \<Rightarrow> Inl e | Inr price \<Rightarrow>
      case order_cap repr max_notional raw of Inl e \<Rightarrow> Inl e | Inr cap \<Rightarrow>
      let notional = dec_mul price (dec_of_int quantity);
          client_order_id = py_strip (py_str repr (json_get ''client_order_id'' raw)) in
      if dec_val cap \<le> 0 \<or> (operation = ''OpenLong'' \<and> dec_lt cap notional)
        then Inl (ValueError ''order exceeds max_notional'')
      else if \<not> safe_code client_order_id
        then Inl (ValueError ''client_order_id must contain only letters, digits, dot, dash, or underscore'')
      else case order_room repr account operation symbol quantity of Inl e \<Rightarrow> Inl e | Inr _ \<Rightarrow>
        Inr (normalized_request account client_order_id symbol operation quantity price,
             normalized_intent client_order_id symbol operation quantity price notional))"

definition normalize_order ::
    "(json \<Rightarrow> string) \<Rightarrow> dec \<Rightarrow> BrokerAccountSnapshot option \<Rightarrow> dict \<Rightarrow> py_error + BrokerOrderRequest \<times> IbkrIntent"
  where
  "normalize_order repr max_notional account raw =
     (case account of None \<Rightarrow> Inl (RuntimeError ''IBKR is not connected'') | Some a \<Rightarrow>
      case order_fields_error raw of Some e \<Rightarrow> Inl e | None \<Rightarrow>
      let symbol = clean_upper repr (json_get ''symbol'' raw);
          operation = py_str repr (json_get ''action'' raw) in
      if \<not> stock_symbol symbol then Inl (ValueError ''symbol must be a US stock symbol'')
      else case fixed_fields_error repr raw of Some e \<Rightarrow> Inl e | None \<Rightarrow>
      if operation \<noteq> ''OpenLong'' \<and> operation \<noteq> ''ReduceLong''
        then Inl (ValueError ''action must be OpenLong or ReduceLong'')
      else normalize_amounts repr max_notional a raw symbol operation)"

section \<open>Replies\<close>

record RecentOrder =
  ro_client_order_id :: string
  ro_broker_order_id :: "int option"
  ro_perm_id :: "int option"
  ro_account_masked :: "string option"
  ro_symbol :: string
  ro_action :: string
  ro_quantity :: int
  ro_limit_price :: string
  ro_status :: string
  ro_updated_at_utc :: datetime

record ExecutionSnapshot =
  xs_max_order_notional :: string
  xs_connected :: bool
  xs_account_masked :: "string option"
  xs_account_bound :: bool
  xs_api_read_only :: bool
  xs_writes_armed :: bool
  xs_armed_until_utc :: "datetime option"
  xs_positions :: "dict list"
  xs_open_orders :: "dict list"
  xs_account_snapshot_stale :: bool
  xs_orders_left_working :: int
  xs_recovery_required :: bool
  xs_last_error :: "string option"
  xs_arm_confirmation_phrase :: "string option"
  xs_binding_confirmation_phrase :: "string option"
  xs_account_refreshed_at_utc :: "datetime option"
  xs_recent_orders :: "RecentOrder list"

record ExecutionReceipt =
  xr_status :: string
  xr_client_order_id :: string
  xr_broker_order_id :: "int option"
  xr_perm_id :: "int option"
  xr_order_ref :: string
  xr_mode :: string
  xr_account_masked :: "string option"
  xr_last_error_code :: "string option"
  xr_orders_left_working :: int
  xr_post_submit_snapshot_refreshed :: "bool option"
  xr_snapshot_refresh_error :: "string option"

record AccountBindingReceipt =
  xb_actual_account_id :: string
  xb_account_masked :: "string option"
  xb_account_bound :: bool

datatype ibkr_reply = SnapshotReply ExecutionSnapshot | PreviewReply ExecutionPreview
  | ReceiptReply ExecutionReceipt | BindingReply AccountBindingReceipt

text \<open>The Chinese words for ``arm live orders'', ``bind the live account'', ``confirm the live order'' and ``warning''.\<close>

definition arm_words :: string where
  "arm_words = map char_of [0xE5, 0x90, 0xAF, 0xE7, 0x94, 0xA8, 0xE5, 0xAE, 0x9E, 0xE7, 0x9B, 0x98,
     0xE4, 0xB8, 0x8B, 0xE5, 0x8D, 0x95, 0x20 :: nat]"

definition bind_words :: string where
  "bind_words = map char_of [0xE7, 0xBB, 0x91, 0xE5, 0xAE, 0x9A, 0xE5, 0xAE, 0x9E, 0xE7, 0x9B, 0x98,
     0xE8, 0xB4, 0xA6, 0xE6, 0x88, 0xB7, 0x20 :: nat]"

definition confirm_words :: string where
  "confirm_words = map char_of [0xE7, 0xA1, 0xAE, 0xE8, 0xAE, 0xA4, 0xE5, 0xAE, 0x9E, 0xE7, 0x9B, 0x98,
     0xE4, 0xB8, 0x8B, 0xE5, 0x8D, 0x95, 0x20 :: nat]"

definition warning_words :: string where
  "warning_words = map char_of [0x20, 0xE8, 0xAD, 0xA6, 0xE5, 0x91, 0x8A :: nat]"

definition recent_order :: "ibkr_row \<Rightarrow> RecentOrder" where
  "recent_order r = \<lparr>ro_client_order_id = ir_client_order_id r, ro_broker_order_id = ir_broker_order_id r,
     ro_perm_id = ir_perm_id r, ro_account_masked = mask_account (Some (ir_account_id r)),
     ro_symbol = ki_symbol (ir_intent r), ro_action = ki_action (ir_intent r),
     ro_quantity = ki_quantity (ir_intent r), ro_limit_price = ki_limit_price (ir_intent r),
     ro_status = ir_status r, ro_updated_at_utc = ir_updated_at_utc r\<rparr>"

definition recent_orders :: "ibkr_orders \<Rightarrow> RecentOrder list" where
  \<comment> \<open>\<open>ORDER BY updated_at_utc DESC, client_order_id DESC LIMIT 50\<close>\<close>
  "recent_orders orders = map recent_order (take 50 (rev
     (sort_key (\<lambda>r. instant (ir_updated_at_utc r)) (sort_key ir_client_order_id orders))))"

definition execution_snapshot :: "'w ibkr_io \<Rightarrow> IbkrConfig \<Rightarrow> ibkr_desk \<Rightarrow> ExecutionSnapshot" where
  "execution_snapshot io cfg d = (let account = kd_account d; masked = desk_mask d; bound = account_bound d in
     \<lparr>xs_max_order_notional = dec_format_f (kc_max_notional cfg), xs_connected = kd_connected d,
      xs_account_masked = masked, xs_account_bound = bound,
      xs_api_read_only = (case account of None \<Rightarrow> True | Some a \<Rightarrow> ba_api_read_only a),
      xs_writes_armed = kd_writes_armed d, xs_armed_until_utc = kd_armed_until_utc d,
      xs_positions = (case account of None \<Rightarrow> [] | Some a \<Rightarrow> ba_positions a),
      xs_open_orders = (case account of None \<Rightarrow> [] | Some a \<Rightarrow> ba_open_orders a),
      xs_account_snapshot_stale = (account \<noteq> None \<and> \<not> kd_connected d),
      xs_orders_left_working = active_orders_count (ib_repr io) account,
      xs_recovery_required = recovery_required d, xs_last_error = kd_last_error d,
      xs_arm_confirmation_phrase = (if kd_connected d \<and> account \<noteq> None \<and> bound
        then Some (arm_words @ masked_text masked) else None),
      xs_binding_confirmation_phrase = (if kd_connected d \<and> account \<noteq> None \<and> \<not> bound
        then Some (bind_words @ masked_text masked) else None),
      xs_account_refreshed_at_utc = kd_account_refreshed_at_utc d,
      xs_recent_orders = recent_orders (kd_orders d)\<rparr>)"

definition snapshot :: "'w ibkr_io \<Rightarrow> IbkrConfig \<Rightarrow> ('w, ibkr_reply) desk_op" where
  "snapshot io cfg = thenS (sync_broker_health io) (thenS (expire_arm io)
     (get_desk (\<lambda>d. SnapshotReply (execution_snapshot io cfg d))))"

definition stored_order_response :: "'w ibkr_io \<Rightarrow> ibkr_row \<Rightarrow> ('w, ExecutionReceipt) desk_op" where
  "stored_order_response io stored = get_desk (\<lambda>d.
     \<lparr>xr_status = ir_status stored, xr_client_order_id = ir_client_order_id stored,
      xr_broker_order_id = ir_broker_order_id stored, xr_perm_id = ir_perm_id stored,
      xr_order_ref = ir_order_ref stored, xr_mode = ir_mode stored,
      xr_account_masked = mask_account (Some (ir_account_id stored)),
      xr_last_error_code = ir_last_error stored,
      xr_orders_left_working = active_orders_count (ib_repr io) (kd_account d),
      xr_post_submit_snapshot_refreshed = None, xr_snapshot_refresh_error = None\<rparr>)"

definition refresh_after_receipt :: "'w ibkr_io \<Rightarrow> ExecutionReceipt \<Rightarrow> ('w, ibkr_reply) desk_op" where
  "refresh_after_receipt io receipt =
     bindS (attemptS (\<lambda>_. True) (refresh_account io)) (\<lambda>refreshed.
     bindS (case refreshed of
         Inl _ \<Rightarrow> thenS (put_desk (\<lambda>d. d\<lparr>kd_last_error := Some ''account_refresh_timeout''\<rparr>))
           (returnS (receipt\<lparr>xr_post_submit_snapshot_refreshed := Some False,
              xr_snapshot_refresh_error := Some ''account_refresh_timeout''\<rparr>))
       | Inr _ \<Rightarrow> returnS (receipt\<lparr>xr_post_submit_snapshot_refreshed := Some True,
              xr_snapshot_refresh_error := None\<rparr>)) (\<lambda>receipt.
     get_desk (\<lambda>d. ReceiptReply (receipt\<lparr>xr_orders_left_working :=
       active_orders_count (ib_repr io) (kd_account d)\<rparr>))))"

section \<open>Recovering uncertain orders\<close>

definition is_timeout :: "py_error \<Rightarrow> bool" where
  "is_timeout e = (case e of TimeoutError _ \<Rightarrow> True | _ \<Rightarrow> False)"

definition clear_preview :: "ibkr_desk \<Rightarrow> ibkr_desk" where
  "clear_preview d = d\<lparr>kd_preview := None\<rparr>"

definition recover_uncertain_order :: "'w ibkr_io \<Rightarrow> ibkr_row \<Rightarrow> ('w, ibkr_reply) desk_op" where
  "recover_uncertain_order io stored =
     bindS (attemptS is_timeout (on_fst (ib_find_by_order_ref io (ir_order_ref stored)))) (\<lambda>asked.
     thenS (case (case asked of Inl _ \<Rightarrow> None | Inr found \<Rightarrow> found) of
         Some found \<Rightarrow> update_order io (ir_order_ref stored) (bs_status found) (Some (bs_order_id found))
           (bs_perm_id found) None
       | None \<Rightarrow> if ir_status stored = ''submitting''
           then update_order io (ir_order_ref stored) ''unknown'' None None (Some ''recovery_lookup_empty'')
           else returnS ())
     (thenS (put_desk clear_preview)
     (bindS (read_order (ir_order_ref stored)) (\<lambda>row.
      bindS (stored_order_response io row) (\<lambda>receipt. returnS (ReceiptReply receipt))))))"

definition uncertain_orders :: "IbkrConfig \<Rightarrow> ibkr_desk \<Rightarrow> ibkr_row list" where
  "uncertain_orders cfg d = (case kd_account d of None \<Rightarrow> [] | Some a \<Rightarrow>
     sort_key (\<lambda>r. instant (ir_created_at_utc r)) (sort_key ir_client_order_id
       (filter (\<lambda>r. ir_account_id r = ba_account_id a \<and> ir_client_id r = kc_client_id cfg \<and> uncertain r)
         (kd_orders d))))"

definition recover_uncertain_orders :: "'w ibkr_io \<Rightarrow> IbkrConfig \<Rightarrow> ('w, unit) desk_op" where
  "recover_uncertain_orders io cfg = bindS (get_desk (uncertain_orders cfg)) (\<lambda>rows.
     thenS (mapS (recover_uncertain_order io) rows) (returnS ()))"

section \<open>The commands\<close>

definition connect_live :: "'w ibkr_io \<Rightarrow> IbkrConfig \<Rightarrow> ('w, ibkr_reply) desk_op" where
  "connect_live io cfg =
     thenS (on_fst (ib_disconnect io))
     (thenS (put_desk (\<lambda>d. (disarmed d)\<lparr>kd_connected := False, kd_account := None,
        kd_account_refreshed_at_utc := None, kd_preview := None, kd_last_error := None\<rparr>))
     (bindS (attemptS (\<lambda>_. True) (on_fst (thenS (ib_connect io (kc_host cfg) LIVE_PORT (kc_client_id cfg))
          (ib_account_snapshot io)))) (\<lambda>found. case found of
        Inl e \<Rightarrow> thenS (on_fst (ib_disconnect io))
          (thenS (put_desk (\<lambda>d. d\<lparr>kd_last_error := Some (if ib_error_text io e = [] then ''connection_failed''
             else ib_error_text io e)\<rparr>)) (raiseS e))
      | Inr account \<Rightarrow> bindS (get_desk kd_live_account) (\<lambda>expected.
          if expected \<noteq> None \<and> expected \<noteq> Some (ba_account_id account)
          then thenS (on_fst (ib_disconnect io))
            (thenS (put_desk (\<lambda>d. d\<lparr>kd_last_error := Some ''account_mismatch''\<rparr>))
              (raiseS (RuntimeError ''connected IBKR account does not match configured mode account'')))
          else thenS (put_desk (\<lambda>d. d\<lparr>kd_account := Some account\<rparr>))
            (bindS (utc_now io) (\<lambda>now.
             thenS (put_desk (\<lambda>d. d\<lparr>kd_account_refreshed_at_utc := Some now, kd_connected := True\<rparr>))
             (bindS (get_desk account_bound) (\<lambda>bound.
              thenS (if bound then recover_uncertain_orders io cfg else returnS ()) (snapshot io cfg)))))))))"

definition disconnect_desk :: "'w ibkr_io \<Rightarrow> IbkrConfig \<Rightarrow> ('w, ibkr_reply) desk_op" where
  "disconnect_desk io cfg =
     thenS (on_fst (ib_disconnect io))
     (thenS (put_desk (\<lambda>d. (disarmed d)\<lparr>kd_connected := False, kd_preview := None, kd_last_error := None\<rparr>))
       (snapshot io cfg))"

definition require_connected :: "('w, BrokerAccountSnapshot) desk_op" where
  \<comment> \<open>\<open>if not self.connected or self.account is None: raise\<close>\<close>
  "require_connected = bindS (get_desk (\<lambda>d. (kd_connected d, kd_account d))) (\<lambda>(connected, account).
     case account of Some a \<Rightarrow> if connected then returnS a else raiseS (RuntimeError ''IBKR is not connected'')
     | None \<Rightarrow> raiseS (RuntimeError ''IBKR is not connected''))"

definition require_bound :: "('w, unit) desk_op" where
  "require_bound = bindS (get_desk account_bound) (\<lambda>bound.
     guardS bound (RuntimeError ''IBKR account is not bound''))"

definition require_settled :: "('w, unit) desk_op" where
  "require_settled = bindS (get_desk recovery_required) (\<lambda>pending.
     guardS (\<not> pending) (RuntimeError ''recovery_required: resolve uncertain IBKR orders first''))"

definition arm :: "'w ibkr_io \<Rightarrow> IbkrConfig \<Rightarrow> dict \<Rightarrow> ('w, ibkr_reply) desk_op" where
  "arm io cfg command = bindS require_connected (\<lambda>account. thenS require_bound
     (thenS (guardS (\<not> ba_api_read_only account) (RuntimeError ''IBKR API is read-only''))
     (thenS (guardS (json_get ''confirmation'' command =
          JStr (arm_words @ masked_text (mask_account (Some (ba_account_id account)))))
          (RuntimeError ''arm confirmation does not match''))
     (thenS (put_desk (\<lambda>d. d\<lparr>kd_writes_armed := True\<rparr>))
     (bindS (utc_now io) (\<lambda>now.
      thenS (put_desk (\<lambda>d. d\<lparr>kd_armed_until_utc := Some (utc (instant now + kc_arm_ttl cfg))\<rparr>))
        (snapshot io cfg)))))))"

definition bind_account :: "'w ibkr_io \<Rightarrow> IbkrConfig \<Rightarrow> dict \<Rightarrow> ('w, ibkr_reply) desk_op" where
  "bind_account io cfg command = bindS require_connected (\<lambda>account.
     bindS (get_desk account_bound) (\<lambda>bound.
     thenS (guardS (\<not> bound) (RuntimeError ''IBKR account is already bound''))
     (thenS (guardS (json_get ''confirmation'' command =
          JStr (bind_words @ masked_text (mask_account (Some (ba_account_id account)))))
          (RuntimeError ''account binding confirmation does not match''))
     (thenS (put_desk (\<lambda>d. (disarmed d)\<lparr>kd_live_account := Some (ba_account_id account), kd_preview := None\<rparr>))
     (thenS (recover_uncertain_orders io cfg)
       (returnS (BindingReply \<lparr>xb_actual_account_id = ba_account_id account,
          xb_account_masked = mask_account (Some (ba_account_id account)), xb_account_bound = True\<rparr>)))))))"

definition raw_order :: "dict \<Rightarrow> py_error \<Rightarrow> py_error + dict" where
  \<comment> \<open>the command's order, or the error for a value that is no mapping\<close>
  "raw_order command e = (case json_get ''order'' command of JObj kvs \<Rightarrow> Inr kvs | _ \<Rightarrow> Inl e)"

definition what_if_error :: "BrokerWhatIf \<Rightarrow> py_error" where
  "what_if_error w = RuntimeError (case bw_warning w of None \<Rightarrow> ''IBKR what-if rejected the order''
     | Some s \<Rightarrow> if s = [] then ''IBKR what-if rejected the order'' else s)"

definition new_preview ::
    "'w ibkr_io \<Rightarrow> IbkrConfig \<Rightarrow> string option \<Rightarrow> BrokerOrderRequest \<Rightarrow> IbkrIntent \<Rightarrow> BrokerWhatIf
       \<Rightarrow> datetime \<Rightarrow> string \<Rightarrow> ExecutionPreview" where
  "new_preview io cfg masked req intent w now token =
     (let hash = (case bw_warning w of None \<Rightarrow> None
         | Some s \<Rightarrow> if s = [] then None else Some (ib_warning_hash io s));
          phrase = confirm_words @ masked_text masked @ '' '' @ bo_operation req @ '' '' @
            show_int (bo_quantity req) @ '' '' @ bo_symbol req @ '' @'' @ two_places (bo_limit_price req) @
            '' '' @ token
      in \<lparr>xp_preview_id = ''preview-'' @ token, xp_mode = live_mode, xp_account_masked = masked,
          xp_intent = intent, xp_accepted = bw_accepted w,
          xp_estimated_commission = map_option dec_format_f (bw_estimated_commission w),
          xp_initial_margin_change = map_option dec_format_f (bw_initial_margin_change w),
          xp_warning = bw_warning w,
          xp_confirmation_phrase = (case hash of None \<Rightarrow> phrase | Some h \<Rightarrow> phrase @ warning_words @ h),
          xp_warning_confirmation_hash = hash,
          xp_expires_at_utc = utc (instant now + kc_preview_ttl cfg), xp_request = req\<rparr>)"

definition preview_order :: "'w ibkr_io \<Rightarrow> IbkrConfig \<Rightarrow> dict \<Rightarrow> ('w, ibkr_reply) desk_op" where
  "preview_order io cfg command =
     thenS require_connected (thenS require_bound (thenS require_settled
     (thenS (refresh_account io)
     (bindS (liftS (raw_order command (ValueError ''preview order is required''))) (\<lambda>raw.
      bindS (get_desk (\<lambda>d. normalize_order (ib_repr io) (kc_max_notional cfg) (kd_account d) raw)) (\<lambda>n.
      bindS (liftS n) (\<lambda>(req, intent).
      bindS (on_fst (ib_what_if io req)) (\<lambda>w.
      thenS (guardS (bw_accepted w) (what_if_error w))
      (bindS (utc_now io) (\<lambda>now.
       bindS (on_fst (ib_token io)) (\<lambda>token.
       bindS (get_desk desk_mask) (\<lambda>masked.
       thenS (put_desk (\<lambda>d. d\<lparr>kd_preview := Some (new_preview io cfg masked req intent w now token)\<rparr>))
         (returnS (PreviewReply (new_preview io cfg masked req intent w now token)))))))))))))))"

definition safe_error_code :: "string \<Rightarrow> string \<Rightarrow> string" where
  "safe_error_code value fallback = (if safe_code (py_strip value) then py_strip value else fallback)"

definition submit_failure :: "py_error \<Rightarrow> string \<times> string" where
  \<comment> \<open>the status and the error code that each exception handler of the submission stores\<close>
  "submit_failure e = (case e of
     BrokerOrderRejected code \<Rightarrow> (''rejected'', safe_error_code code ''broker_rejected'')
   | TimeoutError _ \<Rightarrow> (''unknown'', ''broker_timeout'')
   | _ \<Rightarrow> (''unknown'', ''broker_exception''))"

definition send_order :: "'w ibkr_io \<Rightarrow> BrokerOrderRequest \<Rightarrow> string \<Rightarrow> ('w, ibkr_reply) desk_op" where
  \<comment> \<open>from \<open>self._disarm()\<close> before the submission to the end of \<open>_submit\<close>\<close>
  "send_order io req order_ref =
     thenS (put_desk disarmed)
     (bindS (attemptS (\<lambda>_. True) (on_fst (ib_submit io req order_ref))) (\<lambda>sent. case sent of
        Inl e \<Rightarrow>
          thenS (update_order io order_ref (fst (submit_failure e)) None None (Some (snd (submit_failure e))))
          (thenS (put_desk clear_preview)
          (bindS (read_order order_ref) (\<lambda>row.
           bindS (stored_order_response io row) (\<lambda>receipt. returnS (ReceiptReply receipt)))))
      | Inr submission \<Rightarrow>
          thenS (update_order io order_ref (bs_status submission) (Some (bs_order_id submission))
             (bs_perm_id submission) None)
          (thenS (put_desk clear_preview)
          (bindS (read_order order_ref) (\<lambda>row.
           bindS (stored_order_response io row) (refresh_after_receipt io))))))"

definition selected_account :: "('w, BrokerAccountSnapshot) desk_op" where
  \<comment> \<open>\<open>self.account\<close> where it is dereferenced\<close>
  "selected_account = bindS (get_desk kd_account) (\<lambda>account. case account of
     None \<Rightarrow> raiseS (TypeError ''no account'') | Some a \<Rightarrow> returnS a)"

definition order_reference :: "IbkrConfig \<Rightarrow> BrokerAccountSnapshot \<Rightarrow> BrokerOrderRequest \<Rightarrow> string" where
  "order_reference cfg account req = ''vq:'' @ live_mode @ '':'' @ ba_account_id account @ '':'' @
     show_int (kc_client_id cfg) @ '':'' @ bo_client_order_id req"

definition matching_preview :: "dict \<Rightarrow> ('w, ExecutionPreview) desk_op" where
  "matching_preview command = bindS (get_desk kd_preview) (\<lambda>p. case p of
     None \<Rightarrow> raiseS (RuntimeError ''a matching preview is required'')
   | Some preview \<Rightarrow> if json_get ''preview_id'' command = JStr (xp_preview_id preview) then returnS preview
       else raiseS (RuntimeError ''a matching preview is required''))"

definition confirm_order :: "'w ibkr_io \<Rightarrow> IbkrConfig \<Rightarrow> dict \<Rightarrow> ExecutionPreview \<Rightarrow> ('w, unit) desk_op" where
  \<comment> \<open>from the check of the selected account to the second what-if\<close>
  "confirm_order io cfg command preview =
     bindS (get_desk desk_mask) (\<lambda>masked.
     thenS (guardS (xp_mode preview = live_mode \<and> xp_account_masked preview = masked)
       (RuntimeError ''preview no longer matches the selected mode and account''))
     (bindS (utc_now io) (\<lambda>now.
      thenS (if instant (xp_expires_at_utc preview) < instant now
        then thenS (put_desk clear_preview) (raiseS (RuntimeError ''preview expired'')) else returnS ())
      (thenS (guardS (json_get ''confirmation'' command = JStr (xp_confirmation_phrase preview))
        (RuntimeError ''live order confirmation does not match''))
      (bindS (liftS (raw_order command (RuntimeError ''live order must exactly match its preview''))) (\<lambda>raw.
       thenS (refresh_account io)
       (bindS (get_desk (\<lambda>d. normalize_order (ib_repr io) (kc_max_notional cfg) (kd_account d) raw)) (\<lambda>n.
        bindS (liftS n) (\<lambda>(_, intent).
        thenS (guardS (intent = xp_intent preview) (RuntimeError ''live order must exactly match its preview''))
        (bindS (on_fst (ib_what_if io (xp_request preview))) (\<lambda>w.
         thenS (guardS (bw_accepted w) (what_if_error w))
           (guardS (bw_warning w = xp_warning preview)
             (RuntimeError ''IBKR what-if warning changed; create a new preview'')))))))))))))"

definition place_order :: "'w ibkr_io \<Rightarrow> IbkrConfig \<Rightarrow> ExecutionPreview \<Rightarrow> ('w, ibkr_reply) desk_op" where
  \<comment> \<open>from \<open>order_ref = ...\<close> on\<close>
  "place_order io cfg preview = bindS selected_account (\<lambda>account.
     let req = xp_request preview; order_ref = order_reference cfg account req in
     bindS (create_or_read_order io cfg req (xp_intent preview) order_ref) (\<lambda>(existing, created_now).
     thenS (guardS (ir_intent existing = xp_intent preview)
       (RuntimeError ''client_order_id already belongs to a different intent''))
     (if \<not> uncertain existing
      then thenS (put_desk (clear_preview \<circ> disarmed))
        (bindS (stored_order_response io existing) (refresh_after_receipt io))
      else if \<not> created_now then recover_uncertain_order io existing
      else send_order io req order_ref)))"

definition submit_order :: "'w ibkr_io \<Rightarrow> IbkrConfig \<Rightarrow> dict \<Rightarrow> ('w, ibkr_reply) desk_op" where
  "submit_order io cfg command =
     thenS require_connected (thenS require_bound (thenS require_settled
     (bindS (get_desk kd_writes_armed) (\<lambda>armed.
      thenS (guardS armed (RuntimeError ''IBKR writes are not armed''))
     (bindS (matching_preview command) (\<lambda>preview.
      thenS (confirm_order io cfg command preview) (place_order io cfg preview)))))))"

definition recover_desk :: "'w ibkr_io \<Rightarrow> IbkrConfig \<Rightarrow> ('w, ibkr_reply) desk_op" where
  "recover_desk io cfg = thenS require_connected (thenS require_bound
     (thenS (put_desk (clear_preview \<circ> disarmed)) (thenS (recover_uncertain_orders io cfg) (snapshot io cfg))))"

definition handle :: "'w ibkr_io \<Rightarrow> IbkrConfig \<Rightarrow> dict \<Rightarrow> ('w, ibkr_reply) desk_op" where
  "handle io cfg command =
     thenS (sync_broker_health io) (thenS (expire_arm io)
     (let kind = get_or ''kind'' (json_get ''type'' command) command in
      if kind = JStr ''snapshot'' then snapshot io cfg
      else if kind = JStr ''arm'' then arm io cfg command
      else if kind = JStr ''bind_account'' then bind_account io cfg command
      else if kind = JStr ''disarm'' then thenS (put_desk disarmed) (snapshot io cfg)
      else if kind = JStr ''preview'' then preview_order io cfg command
      else if kind = JStr ''submit'' then submit_order io cfg command
      else if kind = JStr ''recover'' then recover_desk io cfg
      else if kind = JStr ''disconnect'' then disconnect_desk io cfg
      else if kind = JStr ''switch'' \<and> json_get ''mode'' command \<noteq> JStr ''live''
        then raiseS (ValueError ''execution is live-only; paper switching is not supported'')
      else if kind = JStr ''switch'' \<or> kind = JStr ''connect'' then connect_live io cfg
      else raiseS (KeyError (''unknown IBKR execution command: '' @ py_str (ib_repr io) kind))))"

end
