(* ===== verification/IbkrSafety.thy ===== *)
theory IbkrSafety
  imports IbkrDesk
begin

text \<open>
  What the execution desk of \<open>IbkrDesk\<close> promises: an order is sent to the broker at most once, and only
  by a confirmed command on an armed, bound and settled desk; the table never loses a row and a settled
  row never changes.  Submissions are recorded beside the state of the world.
\<close>

section \<open>Recording the submissions\<close>

type_synonym sent = "(BrokerOrderRequest \<times> string) list"

definition recorded_io :: "'w ibkr_io \<Rightarrow> ('w \<times> sent) ibkr_io" where
  \<comment> \<open>the same port with the log of the orders it was asked to submit\<close>
  "recorded_io io = \<lparr>ib_is_connected = (\<lambda>(w, log). ib_is_connected io w),
     ib_connect = (\<lambda>h p c. on_fst (ib_connect io h p c)), ib_disconnect = on_fst (ib_disconnect io),
     ib_account_snapshot = on_fst (ib_account_snapshot io), ib_what_if = (\<lambda>r. on_fst (ib_what_if io r)),
     ib_submit = (\<lambda>r ref. thenS (on_snd (writeS (\<lambda>log. log @ [(r, ref)]))) (on_fst (ib_submit io r ref))),
     ib_find_by_order_ref = (\<lambda>ref. on_fst (ib_find_by_order_ref io ref)), ib_clock = on_fst (ib_clock io),
     ib_token = on_fst (ib_token io), ib_repr = ib_repr io, ib_error_text = ib_error_text io,
     ib_warning_hash = ib_warning_hash io\<rparr>"

section \<open>Assertions about the log and the desk\<close>

type_synonym desk_assertion = "sent \<Rightarrow> ibkr_desk \<Rightarrow> bool"

definition on_desk :: "desk_assertion \<Rightarrow> ('w \<times> sent) \<times> ibkr_desk \<Rightarrow> bool" where
  "on_desk P s = P (snd (fst s)) (snd s)"

definition triple :: "desk_assertion \<Rightarrow> ('w \<times> sent, 'a) desk_op \<Rightarrow> ('a \<Rightarrow> desk_assertion) \<Rightarrow> desk_assertion \<Rightarrow> bool" where
  \<comment> \<open>\<open>S\<close> is what an exception leaves\<close>
  "triple P m Q S = hoare (on_desk P) m (\<lambda>x. on_desk (Q x)) (\<lambda>_. on_desk S)"

definition quiet :: "('w \<times> sent, 'a) op \<Rightarrow> bool" where
  "quiet m \<longleftrightarrow> (\<forall>s. snd (snd (m s)) = snd s)"

lemma quiet_on_fst: "quiet (on_fst m)"
  by (simp add: quiet_def on_fst_def split: prod.split)

lemma quiet_then: "quiet m \<Longrightarrow> quiet n \<Longrightarrow> quiet (thenS m n)"
  by (auto simp: quiet_def thenS_def bindS_def split: prod.splits sum.splits) (metis snd_conv)+

lemma quiet_recorded:
  "quiet (ib_connect (recorded_io io) h p c)" "quiet (ib_disconnect (recorded_io io))"
  "quiet (ib_account_snapshot (recorded_io io))" "quiet (ib_what_if (recorded_io io) r)"
  "quiet (ib_find_by_order_ref (recorded_io io) ref)" "quiet (ib_clock (recorded_io io))"
  "quiet (ib_token (recorded_io io))"
  by (simp_all add: recorded_io_def quiet_on_fst)

named_theorems desk_rules \<open>one rule per construct, backward, with the precondition carried along\<close>

lemma triple_conseq:
  "triple P m Q S \<Longrightarrow> (\<And>l d. P' l d \<Longrightarrow> P l d) \<Longrightarrow> (\<And>x l d. Q x l d \<Longrightarrow> Q' x l d) \<Longrightarrow>
   (\<And>l d. S l d \<Longrightarrow> S' l d) \<Longrightarrow> triple P' m Q' S'"
  unfolding triple_def by (erule hoare_weaken) (auto simp: on_desk_def)

lemma triple_pre: "triple P m Q S \<Longrightarrow> (\<And>l d. P' l d \<Longrightarrow> P l d) \<Longrightarrow> triple P' m Q S"
  by (erule triple_conseq) auto

lemma triple_bind: "triple P m R S \<Longrightarrow> (\<And>x. triple (R x) (f x) Q S) \<Longrightarrow> triple P (bindS m f) Q S"
  unfolding triple_def by (rule hoare_bind)

lemma triple_then: "triple P m (\<lambda>_. R) S \<Longrightarrow> triple R n Q S \<Longrightarrow> triple P (thenS m n) Q S"
  unfolding triple_def by (rule hoare_then)

lemma triple_return [desk_rules]: "(\<And>l d. P l d \<Longrightarrow> Q x l d) \<Longrightarrow> triple P (returnS x) Q S"
  unfolding triple_def by (rule hoare_return) (simp add: on_desk_def)

lemma triple_raise [desk_rules]: "(\<And>l d. P l d \<Longrightarrow> S l d) \<Longrightarrow> triple P (raiseS e) Q S"
  unfolding triple_def by (rule hoare_raise) (simp add: on_desk_def)

lemma triple_get [desk_rules]: "(\<And>l d. P l d \<Longrightarrow> Q (f d) l d) \<Longrightarrow> triple P (get_desk f) Q S"
  by (auto simp: triple_def hoare_def on_desk_def on_snd_def readS_def)

lemma triple_put [desk_rules]: "(\<And>l d. P l d \<Longrightarrow> Q () l (f d)) \<Longrightarrow> triple P (put_desk f) Q S"
  by (auto simp: triple_def hoare_def on_desk_def on_snd_def writeS_def)

lemma triple_guard [desk_rules]:
  "(\<And>l d. P l d \<Longrightarrow> b \<Longrightarrow> Q () l d) \<Longrightarrow> (\<And>l d. P l d \<Longrightarrow> \<not> b \<Longrightarrow> S l d) \<Longrightarrow> triple P (guardS b e) Q S"
  by (auto simp: triple_def hoare_def on_desk_def guardS_def)

lemma triple_ex:
  fixes m :: "('w \<times> sent, 'a) desk_op"
  shows "(\<And>y. triple (P y) m Q S) \<Longrightarrow> triple (\<lambda>l d. \<exists>y. P y l d) m Q S"
  unfolding triple_def
proof (rule hoareI)
  fix s :: "('w \<times> sent) \<times> ibkr_desk" assume all: "\<And>y. hoare (on_desk (P y)) m (\<lambda>x. on_desk (Q x)) (\<lambda>_. on_desk S)"
    and "on_desk (\<lambda>l d. \<exists>y. P y l d) s"
  then obtain y where "on_desk (P y) s" by (auto simp: on_desk_def)
  obtain r t where "m s = (r, t)" by (rule prod.exhaust)
  with hoareD [OF all [of y] \<open>on_desk (P y) s\<close>]
  show "case m s of (Inl e, t) \<Rightarrow> on_desk S t | (Inr x, t) \<Rightarrow> on_desk (Q x) t"
    by (cases r) simp_all
qed

lemma bind_get [desk_rules]:
  "(\<And>x. triple (\<lambda>l d. P l d \<and> x = f d) (g x) Q S) \<Longrightarrow> triple P (bindS (get_desk f) g) Q S"
  by (rule triple_bind [where R = "\<lambda>x l d. P l d \<and> x = f d"]) (auto intro: triple_get)

lemma then_put [desk_rules]:
  "triple (\<lambda>l d. \<exists>d0. P l d0 \<and> d = f d0) n Q S \<Longrightarrow> triple P (thenS (put_desk f) n) Q S"
  by (rule triple_then [where R = "\<lambda>l d. \<exists>d0. P l d0 \<and> d = f d0"]) (auto intro: triple_put)

lemma then_guard [desk_rules]:
  "(\<And>l d. P l d \<Longrightarrow> \<not> b \<Longrightarrow> S l d) \<Longrightarrow> (b \<Longrightarrow> triple P n Q S) \<Longrightarrow> triple P (thenS (guardS b e) n) Q S"
  by (cases b) (simp_all add: guardS_def thenS_def bindS_returnS triple_raise triple_def hoare_def on_desk_def bindS_run)

lemma bind_lift [desk_rules]:
  "(\<And>e l d. r = Inl e \<Longrightarrow> P l d \<Longrightarrow> S l d) \<Longrightarrow> (\<And>x. r = Inr x \<Longrightarrow> triple P (f x) Q S) \<Longrightarrow>
   triple P (bindS (liftS r) f) Q S"
  by (cases r) (simp_all add: liftS_def triple_def hoare_def on_desk_def bindS_run)

lemma then_return [desk_rules]: "triple P n Q S \<Longrightarrow> triple P (thenS (returnS x) n) Q S"
  by (simp add: thenS_def bindS_returnS)

lemma then_if [desk_rules]:
  "(b \<Longrightarrow> triple P (thenS m n) Q S) \<Longrightarrow> (\<not> b \<Longrightarrow> triple P (thenS m' n) Q S) \<Longrightarrow>
   triple P (thenS (if b then m else m') n) Q S"
  by simp

lemma bind_return [desk_rules]: "triple P (f x) Q S \<Longrightarrow> triple P (bindS (returnS x) f) Q S"
  by (simp add: bindS_returnS)

lemma bind_then [desk_rules]: "triple P (thenS m (bindS n f)) Q S \<Longrightarrow> triple P (bindS (thenS m n) f) Q S"
  by (auto simp: triple_def hoare_def run split: prod.splits sum.splits)

lemma bind_case_sum [desk_rules]:
  "(\<And>e. v = Inl e \<Longrightarrow> triple P (bindS (g e) h) Q S) \<Longrightarrow> (\<And>x. v = Inr x \<Longrightarrow> triple P (bindS (f x) h) Q S) \<Longrightarrow>
   triple P (bindS (case v of Inl e \<Rightarrow> g e | Inr x \<Rightarrow> f x) h) Q S"
  by (cases v) simp_all

lemma then_then [desk_rules]: "triple P (thenS m (thenS n k)) Q S \<Longrightarrow> triple P (thenS (thenS m n) k) Q S"
  by (auto simp: triple_def hoare_def run split: prod.splits sum.splits)

lemma then_raise [desk_rules]: "(\<And>l d. P l d \<Longrightarrow> S l d) \<Longrightarrow> triple P (thenS (raiseS e) n) Q S"
  by (simp add: triple_def hoare_def on_desk_def run)

lemma triple_pure: "(F \<Longrightarrow> triple P m Q S) \<Longrightarrow> triple (\<lambda>l d. P l d \<and> F) m Q S"
  by (auto simp: triple_def hoare_def on_desk_def)

lemma triple_fact: "(\<And>l d. P l d \<Longrightarrow> F) \<Longrightarrow> (F \<Longrightarrow> triple P m Q S) \<Longrightarrow> triple P m Q S"
  by (auto simp: triple_def hoare_def on_desk_def)

lemma triple_if [desk_rules]:
  "(b \<Longrightarrow> triple P m Q S) \<Longrightarrow> (\<not> b \<Longrightarrow> triple P n Q S) \<Longrightarrow> triple P (if b then m else n) Q S"
  by simp

lemma triple_case_option [desk_rules]:
  "(v = None \<Longrightarrow> triple P m Q S) \<Longrightarrow> (\<And>x. v = Some x \<Longrightarrow> triple P (f x) Q S) \<Longrightarrow>
   triple P (case v of None \<Rightarrow> m | Some x \<Rightarrow> f x) Q S"
  by (cases v) simp_all

lemma triple_case_sum [desk_rules]:
  "(\<And>e. v = Inl e \<Longrightarrow> triple P (g e) Q S) \<Longrightarrow> (\<And>x. v = Inr x \<Longrightarrow> triple P (f x) Q S) \<Longrightarrow>
   triple P (case v of Inl e \<Rightarrow> g e | Inr x \<Rightarrow> f x) Q S"
  by (cases v) simp_all

lemma triple_case_pair [desk_rules]:
  "(\<And>x y. v = (x, y) \<Longrightarrow> triple P (f x y) Q S) \<Longrightarrow> triple P (case v of (x, y) \<Rightarrow> f x y) Q S"
  by (cases v) simp_all

text \<open>Calls of the port leave the desk and the log alone.\<close>

lemma triple_world:
  fixes m :: "('w \<times> sent, 'a) op"
  assumes "quiet m" and "\<And>l d. P l d \<Longrightarrow> S l d"
  shows "triple P (on_fst m) (\<lambda>_. P) S"
  unfolding triple_def
proof (rule hoareI)
  fix s :: "('w \<times> sent) \<times> ibkr_desk" assume s: "on_desk P s"
  have "snd (snd (m (fst s))) = snd (fst s)" using assms(1) unfolding quiet_def by blast
  with s assms(2) show "case on_fst m s of (Inl e, t) \<Rightarrow> on_desk S t | (Inr x, t) \<Rightarrow> on_desk P t"
    by (auto simp: on_fst_def on_desk_def split: prod.split sum.split)
qed

lemma bind_world:
  "quiet m \<Longrightarrow> (\<And>l d. P l d \<Longrightarrow> S l d) \<Longrightarrow> (\<And>x. triple P (f x) Q S) \<Longrightarrow> triple P (bindS (on_fst m) f) Q S"
  by (rule triple_bind [OF triple_world])

lemma then_world:
  "quiet m \<Longrightarrow> (\<And>l d. P l d \<Longrightarrow> S l d) \<Longrightarrow> triple P n Q S \<Longrightarrow> triple P (thenS (on_fst m) n) Q S"
  by (rule triple_then [OF triple_world])

lemmas port_rules = quiet_recorded [THEN bind_world] quiet_recorded [THEN then_world]

declare port_rules [desk_rules]

lemma triple_attempt:
  fixes m :: "('w \<times> sent, 'a) desk_op"
  assumes "triple P m (\<lambda>x. R (Inr x)) E" and "\<And>e l d. E l d \<Longrightarrow> R (Inl e) l d" and "\<And>l d. E l d \<Longrightarrow> S l d"
  shows "triple P (attemptS handles m) R S"
  unfolding triple_def
proof (rule hoareI)
  fix s :: "('w \<times> sent) \<times> ibkr_desk" assume s: "on_desk P s"
  show "case attemptS handles m s of (Inl e, t) \<Rightarrow> on_desk S t | (Inr x, t) \<Rightarrow> on_desk (R x) t"
  proof -
    obtain r t where m: "m s = (r, t)" by (rule prod.exhaust)
    show ?thesis
      using hoareD [OF assms(1) [unfolded triple_def] s] assms(2,3) m
      by (cases r) (auto simp: attemptS_run on_desk_def)
  qed
qed

lemma bind_attempt_world:
  "quiet m \<Longrightarrow> (\<And>l d. P l d \<Longrightarrow> S l d) \<Longrightarrow> (\<And>x. triple P (f x) Q S) \<Longrightarrow>
   triple P (bindS (attemptS handles (on_fst m)) f) Q S"
  by (rule triple_bind [where R = "\<lambda>_. P"], rule triple_attempt [where E = P], rule triple_world) auto

lemmas attempt_rules = quiet_recorded [THEN bind_attempt_world]
  bind_attempt_world [OF quiet_then [OF quiet_recorded(1) quiet_recorded(3)]]

declare attempt_rules [desk_rules]

lemma triple_run:
  assumes "triple P m (\<lambda>_. Q) Q" and "P (snd (fst s)) (snd s)"
  shows "Q (snd (fst (snd (m s)))) (snd (snd (m s)))"
  using hoare_run [of "on_desk P" m "on_desk Q"] assms by (simp add: triple_def on_desk_def)

section \<open>The invariant of the desk\<close>

definition row_ok :: "ibkr_row \<Rightarrow> bool" where
  \<comment> \<open>the key and the reference spell out the row's own fields\<close>
  "row_ok r \<longleftrightarrow> ir_order_ref r = ''vq:'' @ ir_idempotency_key r \<and>
     ir_idempotency_key r = ir_mode r @ '':'' @ ir_account_id r @ '':'' @ show_int (ir_client_id r) @ '':'' @
       ir_client_order_id r"

definition row_up :: "int \<Rightarrow> ibkr_row \<Rightarrow> ibkr_row \<Rightarrow> bool" where
  \<comment> \<open>only an uncertain row of this client changes, and only in what the broker reported\<close>
  "row_up client r r' \<longleftrightarrow>
     ir_idempotency_key r' = ir_idempotency_key r \<and> ir_order_ref r' = ir_order_ref r \<and>
     ir_mode r' = ir_mode r \<and> ir_account_id r' = ir_account_id r \<and> ir_client_id r' = ir_client_id r \<and>
     ir_client_order_id r' = ir_client_order_id r \<and> ir_intent r' = ir_intent r \<and>
     ir_created_at_utc r' = ir_created_at_utc r \<and>
     (\<not> uncertain r \<or> ir_client_id r \<noteq> client \<longrightarrow> r' = r)"

interpretation ibkr_rows: row_cycle ir_order_ref row_ok "row_up client" for client
  by unfold_locales (auto simp: row_up_def)

definition preview_ok :: "ibkr_desk \<Rightarrow> ExecutionPreview \<Rightarrow> bool" where
  "preview_ok d p \<longleftrightarrow> kd_live_account d = Some (bo_account_id (xp_request p))"

definition desk_ok :: "ibkr_desk \<Rightarrow> bool" where
  "desk_ok d \<longleftrightarrow> table_ok ir_order_ref row_ok (kd_orders d) \<and>
     (kd_writes_armed d \<or> kd_preview d \<noteq> None \<longrightarrow> kd_connected d \<and> account_bound d) \<and>
     (\<forall>p. kd_preview d = Some p \<longrightarrow> preview_ok d p)"

definition times_submitted :: "string \<Rightarrow> sent \<Rightarrow> nat" where
  "times_submitted ref lg = length (filter (\<lambda>(req, r). r = ref) lg)"

definition accounted :: "sent \<Rightarrow> ibkr_orders \<Rightarrow> bool" where
  \<comment> \<open>an order was submitted at most once, and only after its row was written\<close>
  "accounted lg orders \<longleftrightarrow> (\<forall>ref. times_submitted ref lg \<le> 1 \<and>
     (tbl_find ir_order_ref ref orders = None \<longrightarrow> times_submitted ref lg = 0))"

definition steady :: "bool \<Rightarrow> int \<Rightarrow> sent \<Rightarrow> ibkr_orders \<Rightarrow> desk_assertion" where
  \<comment> \<open>nothing more was sent than \<open>lg\<close>, and the rows of \<open>orders\<close> are still there\<close>
  "steady armed client lg orders l d \<longleftrightarrow> l = lg \<and> keys_unique ir_order_ref orders \<and> desk_ok d \<and> accounted lg (kd_orders d) \<and>
     table_up ir_order_ref (row_up client) orders (kd_orders d) \<and> (kd_writes_armed d \<longrightarrow> armed)"

lemma find_settled:
  "tbl_find ir_order_ref k (tbl_update ir_order_ref ref (settled_row st oid pid err now) t) =
     (if k = ref then map_option (settled_row st oid pid err now) (tbl_find ir_order_ref k t)
      else tbl_find ir_order_ref k t)"
  by (rule tbl_find_update) (simp add: settled_row_def)

lemma settle_up:
  assumes ok: "table_ok ir_order_ref row_ok t"
    and row: "\<And>r. tbl_find ir_order_ref ref t = Some r \<Longrightarrow> uncertain r \<and> ir_client_id r = client"
  shows "table_ok ir_order_ref row_ok (tbl_update ir_order_ref ref (settled_row st oid pid err now) t) \<and>
    table_up ir_order_ref (row_up client) t (tbl_update ir_order_ref ref (settled_row st oid pid err now) t)"
proof (cases "tbl_find ir_order_ref ref t")
  case None
  then have "tbl_update ir_order_ref ref (settled_row st oid pid err now) t = t"
    by (auto simp: tbl_find_None_iff tbl_update_def image_iff intro!: map_idI)
  then show ?thesis using ibkr_rows.same_keeps [OF ok] by simp
next
  case (Some r)
  show ?thesis
    by (rule ibkr_rows.update_keeps [OF ok Some])
      (use Some row [OF Some] table_ok_find [OF ok Some] in \<open>auto simp: settled_row_def row_ok_def row_up_def\<close>)
qed

lemma accounted_same:
  assumes "\<And>k. (tbl_find ir_order_ref k t' = None) = (tbl_find ir_order_ref k t = None)"
  shows "accounted lg t' = accounted lg t"
  by (simp add: accounted_def assms)

lemma steady_orders:
  assumes st: "steady a client lg T l d"
    and up: "table_ok ir_order_ref row_ok t \<and> table_up ir_order_ref (row_up client) (kd_orders d) t"
    and acc: "accounted lg t"
  shows "steady a client lg T l (d\<lparr>kd_orders := t\<rparr>)"
proof -
  have "table_up ir_order_ref (row_up client) T t"
    using st up ibkr_rows.table_up_trans [of T client "kd_orders d" t] by (simp add: steady_def)
  with st up acc show ?thesis by (simp add: steady_def desk_ok_def preview_ok_def account_bound_def)
qed

lemma steady_settle:
  assumes st: "steady a client lg T l d"
    and row: "\<And>r. tbl_find ir_order_ref ref (kd_orders d) = Some r \<Longrightarrow> uncertain r \<and> ir_client_id r = client"
  shows "steady a client lg T l (d\<lparr>kd_orders := tbl_update ir_order_ref ref
    (settled_row status oid pid err now) (kd_orders d)\<rparr>)"
proof (rule steady_orders [OF st])
  have ok: "table_ok ir_order_ref row_ok (kd_orders d)" using st by (simp add: steady_def desk_ok_def)
  show "table_ok ir_order_ref row_ok (tbl_update ir_order_ref ref (settled_row status oid pid err now) (kd_orders d)) \<and>
      table_up ir_order_ref (row_up client) (kd_orders d)
        (tbl_update ir_order_ref ref (settled_row status oid pid err now) (kd_orders d))"
    by (rule settle_up [OF ok row])
  have "accounted lg (kd_orders d)" using st by (simp add: steady_def)
  then show "accounted lg (tbl_update ir_order_ref ref (settled_row status oid pid err now) (kd_orders d))"
    by (simp add: accounted_def find_settled)
qed

text \<open>What leaves the table alone.\<close>

lemma steady_simps:
  "steady a client lg T l (d\<lparr>kd_last_error := e\<rparr>) = steady a client lg T l d"
  "steady a client lg T l (d\<lparr>kd_account_refreshed_at_utc := t\<rparr>) = steady a client lg T l d"
  by (simp_all add: steady_def desk_ok_def preview_ok_def account_bound_def)

lemma steady_disarmed: "steady a client lg T l d \<Longrightarrow> steady a' client lg T l (disarmed d)"
  by (simp add: steady_def desk_ok_def preview_ok_def account_bound_def disarmed_def)

lemma steady_clear: "steady a client lg T l d \<Longrightarrow> steady a client lg T l (clear_preview d)"
  by (simp add: steady_def desk_ok_def account_bound_def clear_preview_def)

lemma steady_idle:
  \<comment> \<open>a desk without a preview and not armed\<close>
  assumes "steady a client lg T l d" and "kd_orders d' = kd_orders d" and "\<not> kd_writes_armed d'" and "kd_preview d' = None"
  shows "steady a' client lg T l d'"
  using assms by (simp add: steady_def desk_ok_def)

lemma steady_account:
  assumes "steady a client lg T l d" and "kd_live_account d = None \<or> kd_live_account d = Some (ba_account_id x)"
  shows "steady a client lg T l (d\<lparr>kd_account := Some x\<rparr>)"
  using assms by (auto simp: steady_def desk_ok_def preview_ok_def account_bound_def split: option.splits)

section \<open>Every command keeps the invariant\<close>

lemma bind_utc_now [desk_rules]:
  assumes "\<And>l d. P l d \<Longrightarrow> S l d" and "\<And>t. is_utc t \<Longrightarrow> triple P (f t) Q S"
  shows "triple P (bindS (utc_now (recorded_io io)) f) Q S"
proof -
  have "triple P (utc_now (recorded_io io)) (\<lambda>t l d. P l d \<and> is_utc t) S"
    unfolding utc_now_def by (intro desk_rules) (use assms(1) in auto)
  then show ?thesis
  proof (rule triple_bind)
    fix t show "triple (\<lambda>l d. P l d \<and> is_utc t) (f t) Q S"
      using assms(2) [of t] by (cases "is_utc t") (auto simp: triple_def hoare_def on_desk_def)
  qed
qed

lemma then_expire [desk_rules]:
  assumes "\<And>l d. P l d \<Longrightarrow> S l d" and "\<And>l d. P l d \<Longrightarrow> P l (disarmed d)" and "triple P n Q S"
  shows "triple P (thenS (expire_arm (recorded_io io)) n) Q S"
proof (rule triple_then [OF _ assms(3)])
  show "triple P (expire_arm (recorded_io io)) (\<lambda>_. P) S"
    unfolding expire_arm_def by (intro desk_rules) (use assms(1,2) in auto)
qed

lemma then_sync [desk_rules]:
  assumes "\<And>l d. P l d \<Longrightarrow> S l d" and "\<And>l d. P l d \<Longrightarrow> P l (lost_connection d)" and "triple P n Q S"
  shows "triple P (thenS (sync_broker_health (recorded_io io)) n) Q S"
proof (rule triple_then [OF _ assms(3)])
  have "quiet (readS (ib_is_connected (recorded_io io)))" by (simp add: quiet_def readS_def)
  note port = bind_world [OF this]
  show "triple P (sync_broker_health (recorded_io io)) (\<lambda>_. P) S"
    unfolding sync_broker_health_def by (intro desk_rules port) (use assms(1,2) in auto)
qed

text \<open>The account is read again: what it may leave is listed case by case.\<close>

definition mismatched :: "ibkr_desk \<Rightarrow> ibkr_desk" where
  "mismatched d = (disarmed d)\<lparr>kd_preview := None, kd_account := None, kd_account_refreshed_at_utc := None,
     kd_connected := False, kd_last_error := Some ''account_mismatch''\<rparr>"

definition refreshed :: "BrokerAccountSnapshot \<Rightarrow> datetime \<Rightarrow> ibkr_desk \<Rightarrow> ibkr_desk" where
  "refreshed a now d = d\<lparr>kd_account := Some a, kd_account_refreshed_at_utc := Some now, kd_last_error := None\<rparr>"

lemma triple_refresh:
  assumes same: "\<And>l d. P l d \<Longrightarrow> S l d"
    and failed: "\<And>l d. P l d \<Longrightarrow> S l (d\<lparr>kd_last_error := Some ''account_refresh_timeout''\<rparr>)"
    and other: "\<And>l d. P l d \<Longrightarrow> S l (mismatched d)"
    and found: "\<And>l d a. P l d \<Longrightarrow> kd_live_account d = None \<or> kd_live_account d = Some (ba_account_id a) \<Longrightarrow>
        S l (d\<lparr>kd_account := Some a\<rparr>)"
    and okay: "\<And>l d a now. P l d \<Longrightarrow> kd_connected d \<Longrightarrow>
        kd_live_account d = None \<or> kd_live_account d = Some (ba_account_id a) \<Longrightarrow> Q () l (refreshed a now d)"
  shows "triple P (refresh_account (recorded_io io)) Q S"
  unfolding refresh_account_def
  by (intro desk_rules) (use assms in \<open>auto simp: mismatched_def refreshed_def\<close>)

lemma then_refresh:
  assumes "\<And>l d. P l d \<Longrightarrow> S l d"
    and "\<And>l d. P l d \<Longrightarrow> S l (d\<lparr>kd_last_error := Some ''account_refresh_timeout''\<rparr>)"
    and "\<And>l d. P l d \<Longrightarrow> S l (mismatched d)"
    and "\<And>l d a. P l d \<Longrightarrow> kd_live_account d = None \<or> kd_live_account d = Some (ba_account_id a) \<Longrightarrow>
        S l (d\<lparr>kd_account := Some a\<rparr>)"
    and "triple (\<lambda>l d. \<exists>d0 a now. P l d0 \<and> kd_connected d0 \<and> d = refreshed a now d0 \<and>
        (kd_live_account d0 = None \<or> kd_live_account d0 = Some (ba_account_id a))) n Q S"
  shows "triple P (thenS (refresh_account (recorded_io io)) n) Q S"
  by (rule triple_then [OF triple_refresh assms(5)]) (use assms(1-4) in blast)+

lemma steady_mismatched: "steady a client lg T l d \<Longrightarrow> steady a' client lg T l (mismatched d)"
  by (erule steady_idle) (simp_all add: mismatched_def disarmed_def)

lemma steady_lost: "steady a client lg T l d \<Longrightarrow> steady a' client lg T l (lost_connection d)"
  by (erule steady_idle) (simp_all add: lost_connection_def disarmed_def)

lemma steady_refreshed:
  "steady a client lg T l d \<Longrightarrow> kd_live_account d = None \<or> kd_live_account d = Some (ba_account_id x) \<Longrightarrow>
   steady a client lg T l (refreshed x now d)"
  using steady_account [of a client lg T l d x]
  by (simp add: refreshed_def steady_def desk_ok_def preview_ok_def account_bound_def)

lemmas steady_rules = steady_disarmed steady_clear steady_mismatched steady_lost steady_refreshed steady_account

text \<open>Recovering uncertain orders.\<close>

definition stored :: "string \<Rightarrow> string \<Rightarrow> int option \<Rightarrow> int option \<Rightarrow> string option \<Rightarrow> datetime \<Rightarrow> ibkr_desk \<Rightarrow> ibkr_desk"
  where
  "stored ref status oid pid err now d =
     d\<lparr>kd_orders := tbl_update ir_order_ref ref (settled_row status oid pid err now) (kd_orders d)\<rparr>"

lemma then_update [desk_rules]:
  assumes "\<And>l d. P l d \<Longrightarrow> S l d"
    and "\<And>now. triple (\<lambda>l d. \<exists>d0. P l d0 \<and> d = stored ref status oid pid err now d0) n Q S"
  shows "triple P (thenS (update_order (recorded_io io) ref status oid pid err) n) Q S"
proof (rule triple_then)
  show "triple P (update_order (recorded_io io) ref status oid pid err)
      (\<lambda>_ l d. \<exists>now d0. P l d0 \<and> d = stored ref status oid pid err now d0) S"
    unfolding update_order_def by (intro desk_rules) (use assms(1) in \<open>auto simp: stored_def\<close>)
  show "triple (\<lambda>l d. \<exists>now d0. P l d0 \<and> d = stored ref status oid pid err now d0) n Q S"
    by (rule triple_ex) (rule assms(2))
qed

lemma bind_read [desk_rules]:
  assumes "\<And>l d. P l d \<Longrightarrow> S l d"
    and "\<And>row. triple (\<lambda>l d. P l d \<and> tbl_find ir_order_ref ref (kd_orders d) = Some row) (f row) Q S"
  shows "triple P (bindS (read_order ref) f) Q S"
proof (rule triple_bind)
  show "triple P (read_order ref) (\<lambda>row l d. P l d \<and> tbl_find ir_order_ref ref (kd_orders d) = Some row) S"
    unfolding read_order_def by (intro desk_rules) (use assms(1) in auto)
  show "triple (\<lambda>l d. P l d \<and> tbl_find ir_order_ref ref (kd_orders d) = Some row) (f row) Q S" for row
    by (rule assms(2))
qed

lemma bind_response [desk_rules]:
  assumes "\<And>x. triple P (f x) Q S"
  shows "triple P (bindS (stored_order_response io row) f) Q S"
  unfolding stored_order_response_def by (rule bind_get, rule triple_pre [OF assms]) simp

lemma then_case_option [desk_rules]:
  "(v = None \<Longrightarrow> triple P (thenS m n) Q S) \<Longrightarrow> (\<And>x. v = Some x \<Longrightarrow> triple P (thenS (f x) n) Q S) \<Longrightarrow>
   triple P (thenS (case v of None \<Rightarrow> m | Some x \<Rightarrow> f x) n) Q S"
  by (cases v) simp_all

definition pending :: "bool \<Rightarrow> int \<Rightarrow> sent \<Rightarrow> ibkr_orders \<Rightarrow> ibkr_row list \<Rightarrow> desk_assertion" where
  "pending a client lg T rows l d \<longleftrightarrow> steady a client lg T l d \<and>
     (\<forall>r \<in> set rows. tbl_find ir_order_ref (ir_order_ref r) (kd_orders d) = Some r \<and> uncertain r \<and>
        ir_client_id r = client)"

lemma pending_stored:
  assumes "pending a client lg T (r # rows) l d" and "ir_order_ref r \<notin> ir_order_ref ` set rows"
  shows "pending a client lg T rows l (stored (ir_order_ref r) status oid pid err now d)"
proof -
  have "steady a client lg T l (stored (ir_order_ref r) status oid pid err now d)"
    unfolding stored_def by (rule steady_settle) (use assms(1) in \<open>auto simp: pending_def\<close>)
  moreover have "ir_order_ref q \<noteq> ir_order_ref r" if "q \<in> set rows" for q
    using assms(2) that by (metis imageI)
  then have "tbl_find ir_order_ref (ir_order_ref q) (kd_orders (stored (ir_order_ref r) status oid pid err now d)) =
      tbl_find ir_order_ref (ir_order_ref q) (kd_orders d)" if "q \<in> set rows" for q
    using that by (simp add: stored_def find_settled)
  ultimately show ?thesis using assms(1) by (simp add: pending_def)
qed

lemma pending_clear: "pending a client lg T rows l d \<Longrightarrow> pending a client lg T rows l (clear_preview d)"
  using steady_clear by (auto simp: pending_def clear_preview_def)

lemma pending_tail: "pending a client lg T (r # rows) l d \<Longrightarrow> pending a client lg T rows l d"
  by (simp add: pending_def)

lemma pending_steady: "pending a client lg T rows l d \<Longrightarrow> steady a client lg T l d"
  by (simp add: pending_def)

lemma pending_done:
  "pending a client lg T (r # rows) l d \<Longrightarrow> ir_order_ref r \<notin> ir_order_ref ` set rows \<Longrightarrow>
   pending a client lg T rows l (clear_preview (stored (ir_order_ref r) status oid pid err now d))"
  by (rule pending_clear) (rule pending_stored)

lemma triple_recover_order:
  assumes r: "ir_order_ref r \<notin> ir_order_ref ` set rows"
  shows "triple (pending a client lg T (r # rows)) (recover_uncertain_order (recorded_io io) r)
    (\<lambda>_. pending a client lg T rows) (steady a client lg T)"
  unfolding recover_uncertain_order_def
  by (intro desk_rules)
    (use r in \<open>auto dest: pending_steady intro: pending_clear pending_stored pending_tail steady_clear
      pending_done pending_steady [OF pending_done] pending_steady [OF pending_stored]\<close>)

lemma triple_recover_rows:
  assumes "distinct (map ir_order_ref rows)"
  shows "triple (pending a client lg T rows) (mapS (recover_uncertain_order (recorded_io io)) rows)
    (\<lambda>_. steady a client lg T) (steady a client lg T)"
  using assms
proof (induction rows)
  case Nil
  show ?case unfolding mapS.simps by (intro desk_rules) (rule pending_steady)
next
  case (Cons r rows)
  then have r: "ir_order_ref r \<notin> ir_order_ref ` set rows" by simp
  have IH: "triple (pending a client lg T rows) (mapS (recover_uncertain_order (recorded_io io)) rows)
    (\<lambda>_. steady a client lg T) (steady a client lg T)" using Cons by simp
  show ?case
    unfolding mapS.simps
    by (rule triple_bind [OF triple_recover_order [OF r]], rule triple_bind [OF IH], intro desk_rules)
qed

lemma uncertain_orders_pending:
  assumes "steady a (kc_client_id cfg) lg T l d"
  shows "pending a (kc_client_id cfg) lg T (uncertain_orders cfg d) l d"
    and "distinct (map ir_order_ref (uncertain_orders cfg d))"
proof -
  have keys: "keys_unique ir_order_ref (kd_orders d)"
    using assms by (simp add: steady_def desk_ok_def table_ok_def)
  then have "distinct (map ir_order_ref (filter q (kd_orders d)))" for q
    by (simp add: keys_unique_def distinct_map_filter)
  then show "distinct (map ir_order_ref (uncertain_orders cfg d))"
    by (simp add: uncertain_orders_def distinct_map split: option.split)
  show "pending a (kc_client_id cfg) lg T (uncertain_orders cfg d) l d"
    using assms tbl_find_unique [OF keys] by (auto simp: pending_def uncertain_orders_def split: option.splits)
qed

lemma then_recover [desk_rules]:
  assumes P: "\<And>l d. P l d \<Longrightarrow> steady a (kc_client_id cfg) lg T l d"
    and n: "triple (steady a (kc_client_id cfg) lg T) n Q (steady a (kc_client_id cfg) lg T)"
  shows "triple P (thenS (recover_uncertain_orders (recorded_io io) cfg) n) Q (steady a (kc_client_id cfg) lg T)"
proof (rule triple_then [OF _ n])
  let ?S = "steady a (kc_client_id cfg) lg T"
  show "triple P (recover_uncertain_orders (recorded_io io) cfg) (\<lambda>_. steady a (kc_client_id cfg) lg T) ?S"
    unfolding recover_uncertain_orders_def
  proof (intro bind_get, rule triple_then [where R = "steady a (kc_client_id cfg) lg T"])
    fix rows
    show "triple (\<lambda>l d. P l d \<and> rows = uncertain_orders cfg d)
        (mapS (recover_uncertain_order (recorded_io io)) rows) (\<lambda>_. steady a (kc_client_id cfg) lg T) ?S"
    proof (cases "distinct (map ir_order_ref rows)")
      case True
      show ?thesis
        by (rule triple_conseq [OF triple_recover_rows [OF True]])
          (use P uncertain_orders_pending in auto)
    next
      case False
      then have "\<not> (P l d \<and> rows = uncertain_orders cfg d)" for l d
        using P uncertain_orders_pending(2) by blast
      then show ?thesis by (auto simp: triple_def hoare_def on_desk_def)
    qed
    show "triple (steady a (kc_client_id cfg) lg T) (returnS ()) (\<lambda>_. steady a (kc_client_id cfg) lg T) ?S"
      by (intro desk_rules)
  qed
qed

text \<open>The commands that send nothing.\<close>

lemma bind_connected [desk_rules]:
  assumes "\<And>l d. P l d \<Longrightarrow> S l d"
    and "\<And>a. triple (\<lambda>l d. P l d \<and> kd_connected d \<and> kd_account d = Some a) (f a) Q S"
  shows "triple P (bindS require_connected f) Q S"
proof (rule triple_bind)
  show "triple P require_connected (\<lambda>a l d. P l d \<and> kd_connected d \<and> kd_account d = Some a) S"
    unfolding require_connected_def by (intro desk_rules) (use assms(1) in auto)
  show "triple (\<lambda>l d. P l d \<and> kd_connected d \<and> kd_account d = Some a) (f a) Q S" for a
    by (rule assms(2))
qed

lemma then_connected [desk_rules]:
  assumes "\<And>l d. P l d \<Longrightarrow> S l d"
    and "triple (\<lambda>l d. P l d \<and> kd_connected d \<and> kd_account d \<noteq> None) n Q S"
  shows "triple P (thenS require_connected n) Q S"
  unfolding thenS_def
  by (rule bind_connected [OF assms(1)], assumption, rule triple_pre [OF assms(2)]) auto

lemma then_bound [desk_rules]:
  assumes "\<And>l d. P l d \<Longrightarrow> S l d" and "triple (\<lambda>l d. P l d \<and> account_bound d) n Q S"
  shows "triple P (thenS require_bound n) Q S"
proof (rule triple_then [OF _ assms(2)])
  show "triple P require_bound (\<lambda>_ l d. P l d \<and> account_bound d) S"
    unfolding require_bound_def by (intro desk_rules) (use assms(1) in auto)
qed

lemma then_settled [desk_rules]:
  assumes "\<And>l d. P l d \<Longrightarrow> S l d" and "triple (\<lambda>l d. P l d \<and> \<not> recovery_required d) n Q S"
  shows "triple P (thenS require_settled n) Q S"
proof (rule triple_then [OF _ assms(2)])
  show "triple P require_settled (\<lambda>_ l d. P l d \<and> \<not> recovery_required d) S"
    unfolding require_settled_def by (intro desk_rules) (use assms(1) in auto)
qed

lemma triple_snapshot [desk_rules]:
  assumes P: "\<And>l d. P l d \<Longrightarrow> steady a client lg T l d"
  shows "triple P (snapshot (recorded_io io) cfg) (\<lambda>_. steady a client lg T) (steady a client lg T)"
proof (rule triple_pre [OF _ P])
  show "triple (steady a client lg T) (snapshot (recorded_io io) cfg) (\<lambda>_. steady a client lg T)
      (steady a client lg T)"
    unfolding snapshot_def by (intro desk_rules) (auto intro: steady_disarmed steady_lost)
qed

abbreviation harmless :: "bool \<Rightarrow> int \<Rightarrow> sent \<Rightarrow> ibkr_orders \<Rightarrow> ('w \<times> sent, 'a) desk_op \<Rightarrow> bool" where
  "harmless a client lg T m \<equiv> triple (steady a client lg T) m (\<lambda>_. steady a client lg T) (steady a client lg T)"

lemma steady_armed:
  "steady True client lg T l d \<Longrightarrow> kd_connected d \<Longrightarrow> account_bound d \<Longrightarrow>
   steady True client lg T l (d\<lparr>kd_writes_armed := True\<rparr>)"
  "steady a client lg T l (d\<lparr>kd_armed_until_utc := t\<rparr>) = steady a client lg T l d"
  by (simp_all add: steady_def desk_ok_def preview_ok_def account_bound_def)

lemma arm_harmless: "harmless True (kc_client_id cfg) lg T (arm (recorded_io io) cfg command)"
  unfolding arm_def by (intro desk_rules) (auto simp: steady_armed)

lemma disarm_harmless: "harmless a (kc_client_id cfg) lg T (thenS (put_desk disarmed) (snapshot (recorded_io io) cfg))"
  by (intro desk_rules) (auto intro: steady_disarmed)

lemma disconnect_harmless: "harmless a (kc_client_id cfg) lg T (disconnect_desk (recorded_io io) cfg)"
  unfolding disconnect_desk_def by (intro desk_rules) (auto intro: steady_idle simp: disarmed_def)

lemma recover_harmless: "harmless a (kc_client_id cfg) lg T (recover_desk (recorded_io io) cfg)"
  unfolding recover_desk_def by (intro desk_rules) (auto intro: steady_disarmed steady_clear)

lemma bind_account_harmless: "harmless a (kc_client_id cfg) lg T (bind_account (recorded_io io) cfg command)"
  unfolding bind_account_def by (intro desk_rules) (auto intro: steady_idle simp: disarmed_def)

lemma connect_harmless: "harmless a (kc_client_id cfg) lg T (connect_live (recorded_io io) cfg)"
  unfolding connect_live_def by (intro desk_rules) (auto intro: steady_idle simp: disarmed_def)

lemma normalize_account:
  assumes "normalize_order repr cap account raw = Inr (req, intent)"
  shows "\<exists>a. account = Some a \<and> bo_account_id req = ba_account_id a"
  using assms
  by (auto simp: normalize_order_def normalize_amounts_def normalized_request_def Let_def
      split: option.splits if_splits sum.splits)

lemma steady_previewed:
  "steady a client lg T l d \<Longrightarrow> kd_connected d \<Longrightarrow> account_bound d \<Longrightarrow>
   kd_live_account d = Some (bo_account_id (xp_request p)) \<Longrightarrow>
   steady a client lg T l (d\<lparr>kd_preview := Some p\<rparr>)"
  by (simp add: steady_def desk_ok_def preview_ok_def account_bound_def)

lemma bound_live: "account_bound d \<Longrightarrow> \<exists>a. kd_account d = Some a \<and> kd_live_account d = Some (ba_account_id a)"
  by (auto simp: account_bound_def split: option.splits)

lemma refreshed_simps [simp]:
  "kd_account (refreshed a now d) = Some a" "kd_live_account (refreshed a now d) = kd_live_account d"
  "kd_connected (refreshed a now d) = kd_connected d" "kd_orders (refreshed a now d) = kd_orders d"
  "kd_preview (refreshed a now d) = kd_preview d" "kd_writes_armed (refreshed a now d) = kd_writes_armed d"
  by (simp_all add: refreshed_def)

lemma steady_bound_refreshed:
  assumes "steady a client lg T l d" and "account_bound d"
    and "kd_live_account d = None \<or> kd_live_account d = Some (ba_account_id x)"
  shows "steady a client lg T l (refreshed x now d) \<and> account_bound (refreshed x now d)"
  using assms bound_live [OF assms(2)] by (auto simp: steady_refreshed account_bound_def)

text \<open>A refresh on a bound desk leaves it bound, with the same table.\<close>

lemma then_refresh_bound:
  assumes P: "\<And>l d. P l d \<Longrightarrow> steady a client lg T l d \<and> account_bound d \<and> F (kd_orders d) (kd_live_account d)"
    and n: "triple (\<lambda>l d. (steady a client lg T l d \<and> kd_connected d \<and> account_bound d) \<and>
        F (kd_orders d) (kd_live_account d)) n Q (steady a client lg T)"
  shows "triple P (thenS (refresh_account (recorded_io io)) n) Q (steady a client lg T)"
proof (rule then_refresh)
  show "triple (\<lambda>l d. \<exists>d0 x now. P l d0 \<and> kd_connected d0 \<and> d = refreshed x now d0 \<and>
      (kd_live_account d0 = None \<or> kd_live_account d0 = Some (ba_account_id x))) n Q (steady a client lg T)"
    by (rule triple_pre [OF n]) (use P steady_bound_refreshed in force)
qed (use P in \<open>auto intro: steady_account steady_mismatched simp: steady_simps\<close>)

lemma preview_harmless: "harmless a (kc_client_id cfg) lg T (preview_order (recorded_io io) cfg command)"
proof -
  have put: "steady a (kc_client_id cfg) lg T l (d\<lparr>kd_preview := Some p\<rparr>)"
    if "steady a (kc_client_id cfg) lg T l d" "kd_connected d" "account_bound d"
      and req: "Inr (xp_request p, intent) = normalize_order repr cap (kd_account d) raw" for l d p repr cap raw intent
    using that(1-3) bound_live [OF that(3)] normalize_account [OF req [symmetric]] by (auto intro: steady_previewed)
  show ?thesis
    unfolding preview_order_def
    by (intro desk_rules then_refresh_bound [where F = "\<lambda>_ _. True"])
      (auto intro!: put simp: new_preview_def Let_def)
qed

section \<open>Submitting an order\<close>

lemma triple_attempt_all:
  assumes "triple P m (\<lambda>x. R (Inr x)) E" and "\<And>e l d. E l d \<Longrightarrow> R (Inl e) l d"
  shows "triple P (attemptS (\<lambda>_. True) m) R S"
  unfolding triple_def
  by (rule hoare_attempt, rule hoare_weaken [OF assms(1) [unfolded triple_def]])
    (use assms(2) in \<open>auto simp: on_desk_def\<close>)

lemma bind_submit:
  fixes io :: "'w ibkr_io"
  assumes "\<And>x. triple (\<lambda>l d. \<exists>l0. P l0 d \<and> l = l0 @ [(req, ref)]) (f x) Q S"
  shows "triple P (bindS (attemptS (\<lambda>_. True) (on_fst (ib_submit (recorded_io io) req ref))) f) Q S"
proof (rule triple_bind [OF triple_attempt_all assms])
  show "triple P (on_fst (ib_submit (recorded_io io) req ref)) (\<lambda>_ l d. \<exists>l0. P l0 d \<and> l = l0 @ [(req, ref)])
      (\<lambda>l d. \<exists>l0. P l0 d \<and> l = l0 @ [(req, ref)])"
    by (auto simp: triple_def hoare_def on_desk_def recorded_io_def run split: prod.split sum.split)
qed

lemma refresh_receipt_harmless: "harmless a client lg T (refresh_after_receipt (recorded_io io) receipt)"
proof -
  have "triple (steady a client lg T) (refresh_account (recorded_io io))
      (\<lambda>_. steady a client lg T) (steady a client lg T)"
    by (rule triple_refresh) (auto intro: steady_account steady_mismatched steady_refreshed simp: steady_simps)
  note refresh = triple_bind [OF triple_attempt_all [OF this]]
  show ?thesis
    unfolding refresh_after_receipt_def by (rule refresh) (auto intro!: desk_rules simp: steady_simps)
qed

lemma pending_sent:
  assumes "pending True client lg T [row] l d" and "times_submitted (ir_order_ref row) lg = 0"
  shows "pending False client (lg @ [(req, ir_order_ref row)]) T [row] (l @ [(req, ir_order_ref row)]) (disarmed d)"
proof -
  have "accounted (lg @ [(req, ir_order_ref row)]) (kd_orders d)"
    using assms by (auto simp: pending_def steady_def accounted_def times_submitted_def)
  with assms(1) show ?thesis
    by (auto simp: pending_def steady_def desk_ok_def preview_ok_def account_bound_def disarmed_def)
qed

lemma triple_send:
  fixes io :: "'w ibkr_io"
  assumes new: "times_submitted (ir_order_ref row) lg = 0"
  shows "triple (pending True client lg T [row]) (send_order (recorded_io io) req (ir_order_ref row))
    (\<lambda>_. steady False client (lg @ [(req, ir_order_ref row)]) T)
    (steady False client (lg @ [(req, ir_order_ref row)]) T)"
proof -
  let ?P = "pending False client (lg @ [(req, ir_order_ref row)]) T"
  let ?S = "steady False client (lg @ [(req, ir_order_ref row)]) T"
  have put: "?S l (stored (ir_order_ref row) status oid pid err now d)"
    "?S l (clear_preview (stored (ir_order_ref row) status oid pid err now d))"
    if "?P [row] l d" for l status oid pid err now d
    using pending_stored [OF that] pending_done [OF that] by (auto simp: pending_def)
  note refresh = triple_pre [OF refresh_receipt_harmless [where io = io and client = client and a = False
      and lg = "lg @ [(req, ir_order_ref row)]" and T = T]]
  show ?thesis
    unfolding send_order_def
    by (rule then_put, rule bind_submit, rule triple_pre [where P = "?P [row]"], intro desk_rules refresh)
      (auto simp: put dest: pending_steady intro: pending_sent [OF _ new])
qed

text \<open>The row of a new order is written before the order is sent.\<close>

definition reference_of :: "IbkrConfig \<Rightarrow> BrokerOrderRequest \<Rightarrow> string" where
  "reference_of cfg req = ''vq:'' @ order_key cfg req"

lemma new_row_simps [simp]:
  "ir_order_ref (new_row cfg req intent ref now) = ref" "uncertain (new_row cfg req intent ref now)"
  "ir_client_id (new_row cfg req intent ref now) = kc_client_id cfg"
  by (simp_all add: new_row_def uncertain_def)

lemma steady_inserted:
  assumes st: "steady a client lg T l d" and new: "tbl_find ir_order_ref (reference_of cfg req) (kd_orders d) = None"
  shows "steady a client lg T l (d\<lparr>kd_orders := tbl_insert
    (new_row cfg req intent (reference_of cfg req) now) (kd_orders d)\<rparr>)"
proof (rule steady_orders [OF st])
  let ?r = "new_row cfg req intent (reference_of cfg req) now"
  have ok: "table_ok ir_order_ref row_ok (kd_orders d)" using st by (simp add: steady_def desk_ok_def)
  have "row_ok ?r" by (simp add: row_ok_def new_row_def reference_of_def order_key_def)
  then show "table_ok ir_order_ref row_ok (tbl_insert ?r (kd_orders d)) \<and>
      table_up ir_order_ref (row_up client) (kd_orders d) (tbl_insert ?r (kd_orders d))"
    by (intro ibkr_rows.insert_keeps [OF ok]) (simp_all add: new)
  have "accounted lg (kd_orders d)" using st by (simp add: steady_def)
  then show "accounted lg (tbl_insert ?r (kd_orders d))"
    by (auto simp: accounted_def tbl split: option.splits)
qed

definition created :: "IbkrConfig \<Rightarrow> sent \<Rightarrow> ibkr_orders \<Rightarrow> BrokerOrderRequest \<Rightarrow> ibkr_row \<times> bool \<Rightarrow> desk_assertion" where
  "created cfg lg T req result l d \<longleftrightarrow> steady True (kc_client_id cfg) lg T l d \<and>
     (if snd result
      then pending True (kc_client_id cfg) lg T [fst result] l d \<and> ir_order_ref (fst result) = reference_of cfg req \<and>
           tbl_find ir_order_ref (reference_of cfg req) T = None \<and> times_submitted (reference_of cfg req) lg = 0
      else fst result \<in> set T)"

lemma triple_create:
  assumes "ref = reference_of cfg req"
  shows "triple (\<lambda>l d. steady True (kc_client_id cfg) lg T l d \<and> kd_orders d = T)
    (create_or_read_order (recorded_io io) cfg req intent ref) (created cfg lg T req)
    (steady True (kc_client_id cfg) lg T)"
proof -
  have ins: "created cfg lg T req (new_row cfg req intent (reference_of cfg req) now, True) l
      (d\<lparr>kd_orders := tbl_insert (new_row cfg req intent (reference_of cfg req) now) (kd_orders d)\<rparr>)"
    if "steady True (kc_client_id cfg) lg T l d" "kd_orders d = T" "None = tbl_find ir_order_ref (reference_of cfg req) T"
    for l d now T
    using steady_inserted [OF that(1)] that(1,2) that(3) [symmetric]
    by (auto simp: created_def pending_def tbl steady_def accounted_def split: option.split)
  have old: "created cfg lg T req (row, False) l d"
    if "steady True (kc_client_id cfg) lg T l d" "tbl_find ir_idempotency_key k T = Some row" for l d row k T
    using that(1) tbl_find_SomeD [OF that(2)] by (simp add: created_def)
  show ?thesis
    unfolding create_or_read_order_def assms by (intro desk_rules) (auto intro: ins old)
qed

text \<open>The checks between the preview and the row.\<close>

lemma triple_confirm:
  assumes P: "\<And>l d. P l d \<Longrightarrow> steady a client lg T l d \<and> account_bound d \<and> F (kd_orders d) (kd_live_account d)"
  shows "triple P (confirm_order (recorded_io io) cfg command preview)
    (\<lambda>_ l d. ((steady a client lg T l d \<and> kd_connected d \<and> account_bound d) \<and> F (kd_orders d) (kd_live_account d)) \<and>
       json_get ''confirmation'' command = JStr (xp_confirmation_phrase preview))
    (steady a client lg T)"
  unfolding confirm_order_def
  by (intro desk_rules then_refresh_bound [where F = F]) (use P in \<open>auto intro: steady_clear\<close>)

lemma bind_matching [desk_rules]:
  assumes "\<And>l d. P l d \<Longrightarrow> S l d"
    and "\<And>p. json_get ''preview_id'' command = JStr (xp_preview_id p) \<Longrightarrow>
        triple (\<lambda>l d. P l d \<and> kd_preview d = Some p) (f p) Q S"
  shows "triple P (bindS (matching_preview command) f) Q S"
proof (rule triple_bind)
  show "triple P (matching_preview command) (\<lambda>p l d. (P l d \<and> kd_preview d = Some p) \<and>
      json_get ''preview_id'' command = JStr (xp_preview_id p)) S"
    unfolding matching_preview_def by (intro desk_rules) (use assms(1) in auto)
  show "triple (\<lambda>l d. (P l d \<and> kd_preview d = Some p) \<and> json_get ''preview_id'' command = JStr (xp_preview_id p))
      (f p) Q S" for p
    by (rule triple_pure) (rule assms(2))
qed

lemma bind_selected [desk_rules]:
  assumes "\<And>l d. P l d \<Longrightarrow> S l d" and "\<And>a. triple (\<lambda>l d. P l d \<and> kd_account d = Some a) (f a) Q S"
  shows "triple P (bindS selected_account f) Q S"
proof (rule triple_bind)
  show "triple P selected_account (\<lambda>a l d. P l d \<and> kd_account d = Some a) S"
    unfolding selected_account_def by (intro desk_rules) (use assms(1) in auto)
  show "triple (\<lambda>l d. P l d \<and> kd_account d = Some a) (f a) Q S" for a by (rule assms(2))
qed

definition authorized :: "dict \<Rightarrow> ibkr_desk \<Rightarrow> ExecutionPreview \<Rightarrow> bool" where
  \<comment> \<open>what the desk and the operator's command must agree on before an order leaves\<close>
  "authorized command d p \<longleftrightarrow> kd_connected d \<and> account_bound d \<and> \<not> recovery_required d \<and> kd_writes_armed d \<and>
     kd_preview d = Some p \<and> json_get ''preview_id'' command = JStr (xp_preview_id p) \<and>
     json_get ''confirmation'' command = JStr (xp_confirmation_phrase p)"

definition outcome :: "IbkrConfig \<Rightarrow> dict \<Rightarrow> ibkr_desk \<Rightarrow> sent \<Rightarrow> desk_assertion" where
  \<comment> \<open>either nothing was sent, or the previewed order was, by authority, and the desk is disarmed\<close>
  "outcome cfg command d0 lg l d \<longleftrightarrow> steady True (kc_client_id cfg) lg (kd_orders d0) l d \<or>
     (\<exists>p. authorized command d0 p \<and>
        tbl_find ir_order_ref (reference_of cfg (xp_request p)) (kd_orders d0) = None \<and>
        steady False (kc_client_id cfg) (lg @ [(xp_request p, reference_of cfg (xp_request p))]) (kd_orders d0) l d)"

lemma reference_bound:
  "account_bound d \<Longrightarrow> kd_account d = Some a \<Longrightarrow> kd_live_account d = Some (bo_account_id req) \<Longrightarrow>
   order_reference cfg a req = reference_of cfg req"
  by (simp add: account_bound_def order_reference_def reference_of_def order_key_def)

lemma triple_created:
  assumes auth: "authorized command d0 p"
  shows "triple (created cfg lg (kd_orders d0) (xp_request p) (existing, created_now))
    (thenS (guardS b e)
       (if \<not> uncertain existing
        then thenS (put_desk (clear_preview \<circ> disarmed))
          (bindS (stored_order_response (recorded_io io) existing) (refresh_after_receipt (recorded_io io)))
        else if \<not> created_now then recover_uncertain_order (recorded_io io) existing
        else send_order (recorded_io io) (xp_request p) (reference_of cfg (xp_request p))))
    (\<lambda>_. outcome cfg command d0 lg) (outcome cfg command d0 lg)"
proof -
  have calm: "steady True (kc_client_id cfg) lg (kd_orders d0) l d \<Longrightarrow> outcome cfg command d0 lg l d" for l d
    by (simp add: outcome_def)
  show ?thesis
  proof (cases "uncertain existing")
    case False
    have "triple (steady True (kc_client_id cfg) lg (kd_orders d0))
      (thenS (guardS b e) (thenS (put_desk (clear_preview \<circ> disarmed))
        (bindS (stored_order_response (recorded_io io) existing) (refresh_after_receipt (recorded_io io)))))
      (\<lambda>_. steady True (kc_client_id cfg) lg (kd_orders d0)) (steady True (kc_client_id cfg) lg (kd_orders d0))"
      by (intro desk_rules triple_pre [OF refresh_receipt_harmless]) (auto intro: steady_clear steady_disarmed)
    then show ?thesis
      unfolding if_P [OF False] by (rule triple_conseq) (auto simp: created_def calm)
  next
    case True
    let ?req = "xp_request p"
    define new where "new \<longleftrightarrow> created_now \<and> ir_order_ref existing = reference_of cfg ?req \<and>
      tbl_find ir_order_ref (reference_of cfg ?req) (kd_orders d0) = None \<and>
      times_submitted (reference_of cfg ?req) lg = 0"
    have sent: "outcome cfg command d0 lg l d"
      if "steady False (kc_client_id cfg) (lg @ [(?req, reference_of cfg ?req)]) (kd_orders d0) l d" new for l d
      using auth that unfolding outcome_def new_def by blast
    show ?thesis
    proof (rule triple_fact [where F = new])
      fix l d assume "created cfg lg (kd_orders d0) ?req (existing, created_now) l d"
      with True auth show new
        by (auto simp: new_def created_def authorized_def recovery_required_def list_ex_iff split: if_splits)
    next
      assume new: new
      then have row: "ir_order_ref existing = reference_of cfg ?req" "times_submitted (ir_order_ref existing) lg = 0" created_now
        by (simp_all add: new_def)
      have "triple (created cfg lg (kd_orders d0) ?req (existing, created_now))
          (send_order (recorded_io io) ?req (reference_of cfg ?req)) (\<lambda>_. outcome cfg command d0 lg) (outcome cfg command d0 lg)"
        using triple_send [OF row(2), of "kc_client_id cfg" "kd_orders d0" io ?req] unfolding row(1)
        by (rule triple_conseq) (use row(3) new sent in \<open>auto simp: created_def\<close>)
      then have "triple (created cfg lg (kd_orders d0) ?req (existing, created_now))
          (thenS (guardS b e) (send_order (recorded_io io) ?req (reference_of cfg ?req)))
          (\<lambda>_. outcome cfg command d0 lg) (outcome cfg command d0 lg)"
        by (intro then_guard) (auto simp: created_def calm)
      with True row(3) show ?thesis by simp
    qed
  qed
qed

lemma steady_preview_account:
  "steady a client lg T l d \<Longrightarrow> kd_preview d = Some p \<Longrightarrow> kd_live_account d = Some (bo_account_id (xp_request p))"
  by (simp add: steady_def desk_ok_def preview_ok_def)

lemma triple_place:
  assumes auth: "authorized command d0 p"
    and pre: "\<And>l d. P l d \<Longrightarrow> steady True (kc_client_id cfg) lg (kd_orders d0) l d \<and> account_bound d \<and>
      kd_orders d = kd_orders d0 \<and> kd_live_account d = Some (bo_account_id (xp_request p))"
  shows "triple P (place_order (recorded_io io) cfg p) (\<lambda>_. outcome cfg command d0 lg) (outcome cfg command d0 lg)"
  unfolding place_order_def Let_def
proof (rule bind_selected)
  fix l d assume "P l d"
  with pre show "outcome cfg command d0 lg l d" by (simp add: outcome_def)
next
  fix a
  let ?req = "xp_request p" and ?S = "steady True (kc_client_id cfg) lg (kd_orders d0)"
  show "triple (\<lambda>l d. P l d \<and> kd_account d = Some a)
    (bindS (create_or_read_order (recorded_io io) cfg ?req (xp_intent p) (order_reference cfg a ?req))
      (\<lambda>(existing, created_now). thenS (guardS (ir_intent existing = xp_intent p)
           (RuntimeError ''client_order_id already belongs to a different intent''))
         (if \<not> uncertain existing
          then thenS (put_desk (clear_preview \<circ> disarmed))
            (bindS (stored_order_response (recorded_io io) existing) (refresh_after_receipt (recorded_io io)))
          else if \<not> created_now then recover_uncertain_order (recorded_io io) existing
          else send_order (recorded_io io) ?req (order_reference cfg a ?req))))
    (\<lambda>_. outcome cfg command d0 lg) (outcome cfg command d0 lg)"
  proof (rule triple_fact [where F = "order_reference cfg a ?req = reference_of cfg ?req"])
    fix l d assume "P l d \<and> kd_account d = Some a"
    with pre show "order_reference cfg a ?req = reference_of cfg ?req" using reference_bound by blast
  next
    assume ref: "order_reference cfg a ?req = reference_of cfg ?req"
    have "triple (\<lambda>l d. P l d \<and> kd_account d = Some a)
        (create_or_read_order (recorded_io io) cfg ?req (xp_intent p) (order_reference cfg a ?req))
        (created cfg lg (kd_orders d0) ?req) (outcome cfg command d0 lg)"
      by (rule triple_conseq [OF triple_create [OF ref]]) (use pre in \<open>auto simp: outcome_def\<close>)
    then show ?thesis
      unfolding ref by (rule triple_bind, intro triple_case_pair, hypsubst) (rule triple_created [OF auth])
  qed
qed

lemma submit_outcome:
  "triple (\<lambda>l d. steady True (kc_client_id cfg) lg (kd_orders d0) l d \<and> (kd_writes_armed d \<longrightarrow> d = d0))
     (submit_order (recorded_io io) cfg command) (\<lambda>_. outcome cfg command d0 lg) (outcome cfg command d0 lg)"
proof -
  let ?steady = "steady True (kc_client_id cfg) lg (kd_orders d0)"
  have calm: "?steady l d \<Longrightarrow> outcome cfg command d0 lg l d" for l d by (simp add: outcome_def)
  have rest: "triple P (thenS (confirm_order (recorded_io io) cfg command p) (place_order (recorded_io io) cfg p))
      (\<lambda>_. outcome cfg command d0 lg) (outcome cfg command d0 lg)"
    if id: "json_get ''preview_id'' command = JStr (xp_preview_id p)"
      and P: "\<And>l d. P l d \<Longrightarrow> ?steady l d \<and> d = d0 \<and> kd_connected d \<and> account_bound d \<and> \<not> recovery_required d \<and>
        kd_writes_armed d \<and> kd_preview d = Some p" for P p
  proof (rule triple_fact [where F = "kd_connected d0 \<and> account_bound d0 \<and> \<not> recovery_required d0 \<and>
      kd_writes_armed d0 \<and> kd_preview d0 = Some p \<and> kd_live_account d0 = Some (bo_account_id (xp_request p))"])
    fix l d assume "P l d"
    with P [of l d] steady_preview_account [of True "kc_client_id cfg" lg "kd_orders d0" l d p]
    show "kd_connected d0 \<and> account_bound d0 \<and> \<not> recovery_required d0 \<and>
      kd_writes_armed d0 \<and> kd_preview d0 = Some p \<and> kd_live_account d0 = Some (bo_account_id (xp_request p))" by blast
  next
    assume d0: "kd_connected d0 \<and> account_bound d0 \<and> \<not> recovery_required d0 \<and>
      kd_writes_armed d0 \<and> kd_preview d0 = Some p \<and> kd_live_account d0 = Some (bo_account_id (xp_request p))"
    let ?F = "\<lambda>orders live. orders = kd_orders d0 \<and> live = Some (bo_account_id (xp_request p))"
    have "triple P (confirm_order (recorded_io io) cfg command p)
        (\<lambda>_ l d. ((?steady l d \<and> kd_connected d \<and> account_bound d) \<and> ?F (kd_orders d) (kd_live_account d)) \<and>
          json_get ''confirmation'' command = JStr (xp_confirmation_phrase p)) (outcome cfg command d0 lg)"
      by (rule triple_conseq [OF triple_confirm [where F = ?F and P = P]]) (use P d0 calm in auto)
    then show "triple P (thenS (confirm_order (recorded_io io) cfg command p) (place_order (recorded_io io) cfg p))
      (\<lambda>_. outcome cfg command d0 lg) (outcome cfg command d0 lg)"
    proof (rule triple_then, intro triple_pure)
      assume "json_get ''confirmation'' command = JStr (xp_confirmation_phrase p)"
      with d0 id have "authorized command d0 p" by (simp add: authorized_def)
      then show "triple (\<lambda>l d. (?steady l d \<and> kd_connected d \<and> account_bound d) \<and> ?F (kd_orders d) (kd_live_account d))
        (place_order (recorded_io io) cfg p) (\<lambda>_. outcome cfg command d0 lg) (outcome cfg command d0 lg)"
        by (rule triple_place) auto
    qed
  qed
  show ?thesis
    unfolding submit_order_def
    by (intro desk_rules rest) (auto dest: calm)
qed

section \<open>Any command\<close>

definition command_kind :: "dict \<Rightarrow> json" where
  "command_kind command = get_or ''kind'' (json_get ''type'' command) command"

lemma steady_start:
  assumes "desk_ok d" and "accounted lg (kd_orders d)"
  shows "steady True client lg (kd_orders d) lg d"
  using assms ibkr_rows.table_up_refl [of "kd_orders d" client] by (simp add: steady_def desk_ok_def table_ok_def)

lemma handle_outcome:
  "triple (\<lambda>l d. steady True (kc_client_id cfg) lg (kd_orders d0) l d \<and> d = d0) (handle (recorded_io io) cfg command)
     (\<lambda>_ l d. outcome cfg command d0 lg l d \<and> (l = lg \<or> command_kind command = JStr ''submit''))
     (\<lambda>l d. outcome cfg command d0 lg l d \<and> (l = lg \<or> command_kind command = JStr ''submit''))"
proof -
  let ?steady = "steady True (kc_client_id cfg) lg (kd_orders d0)"
  let ?near = "\<lambda>l d. ?steady l d \<and> (kd_writes_armed d \<longrightarrow> d = d0)"
  let ?S = "\<lambda>l d. outcome cfg command d0 lg l d \<and> (l = lg \<or> command_kind command = JStr ''submit'')"
  have calm: "?steady l d \<Longrightarrow> ?S l d" for l d by (simp add: outcome_def steady_def)
  have near: "triple ?near m (\<lambda>_. ?S) ?S" if "harmless True (kc_client_id cfg) lg (kd_orders d0) m"
    for m :: "('a \<times> sent, ibkr_reply) desk_op"
    by (rule triple_conseq [OF that]) (auto simp: calm)
  have submit: "triple ?near (submit_order (recorded_io io) cfg command) (\<lambda>_. ?S) ?S"
    if "command_kind command = JStr ''submit''"
    by (rule triple_conseq [OF submit_outcome]) (auto simp: that)
  have raise: "triple ?near (raiseS e) (\<lambda>_. ?S) ?S" for e
    by (rule triple_raise, erule conjE, erule calm)
  have snap: "harmless True (kc_client_id cfg) lg (kd_orders d0) (snapshot (recorded_io io) cfg)"
    by (rule triple_snapshot)
  have same: "?steady l d \<Longrightarrow> l = lg" for l d by (simp add: steady_def)
  show ?thesis
    unfolding handle_def command_kind_def [symmetric] Let_def
    by (rule triple_pre [where P = ?near], rule then_sync [rotated 2], rule then_expire [rotated 2],
        intro triple_if raise near snap arm_harmless bind_account_harmless disarm_harmless preview_harmless
          recover_harmless disconnect_harmless connect_harmless submit)
      (auto simp: calm disarmed_def lost_connection_def intro: same
        dest: steady_disarmed [of True "kc_client_id cfg" lg "kd_orders d0" _ _ True, unfolded disarmed_def]
          steady_lost [of True "kc_client_id cfg" lg "kd_orders d0" _ _ True, unfolded lost_connection_def disarmed_def])
qed

text \<open>What a command leaves behind.\<close>

lemma handle_step:
  assumes ok: "desk_ok d" "accounted lg (kd_orders d)" and run: "snd (handle (recorded_io io) cfg command ((w, lg), d)) = ((w', lg'), d')"
  shows "outcome cfg command d lg lg' d'" and "lg' = lg \<or> command_kind command = JStr ''submit''"
  using triple_run [OF handle_outcome [of cfg lg d io command], of "((w, lg), d)"] run steady_start [OF ok] by simp_all

lemma outcome_keeps:
  assumes "outcome cfg command d lg lg' d'"
  shows "desk_ok d' \<and> accounted lg' (kd_orders d') \<and>
    table_up ir_order_ref (row_up (kc_client_id cfg)) (kd_orders d) (kd_orders d')"
  using assms by (auto simp: outcome_def steady_def)

definition run_commands ::
    "'w ibkr_io \<Rightarrow> IbkrConfig \<Rightarrow> dict list \<Rightarrow> ('w \<times> sent) \<times> ibkr_desk \<Rightarrow> ('w \<times> sent) \<times> ibkr_desk" where
  "run_commands io cfg commands s = fold (\<lambda>c t. snd (handle (recorded_io io) cfg c t)) commands s"

lemma run_snoc:
  "run_commands io cfg (cs @ [c]) s = snd (handle (recorded_io io) cfg c (run_commands io cfg cs s))"
  by (simp add: run_commands_def)

lemma desk_run_keeps:
  assumes "desk_ok d" and "accounted lg (kd_orders d)" and "run_commands io cfg commands ((w, lg), d) = ((w', lg'), d')"
  shows "desk_ok d' \<and> accounted lg' (kd_orders d') \<and>
    table_up ir_order_ref (row_up (kc_client_id cfg)) (kd_orders d) (kd_orders d')"
  using assms(3)
proof (induction commands arbitrary: w' lg' d' rule: rev_induct)
  case Nil
  then show ?case
    using assms(1,2) ibkr_rows.table_up_refl [of "kd_orders d" "kc_client_id cfg"] by (simp add: run_commands_def desk_ok_def)
next
  case (snoc c cs)
  obtain w1 l1 d1 where mid: "run_commands io cfg cs ((w, lg), d) = ((w1, l1), d1)" by (metis prod.exhaust)
  note IH = snoc.IH [OF mid]
  have "snd (handle (recorded_io io) cfg c ((w1, l1), d1)) = ((w', lg'), d')"
    using snoc.prems mid by (simp add: run_snoc)
  note step = outcome_keeps [OF handle_step(1) [OF _ _ this]]
  have "keys_unique ir_order_ref (kd_orders d)" using assms(1) by (simp add: desk_ok_def table_ok_def)
  with IH step show ?case by (blast intro: ibkr_rows.table_up_trans)
qed

section \<open>Properties\<close>

text \<open>C37: what a command may send.  It sends nothing, or it is a submit command and sends the one order of
  the stored preview: the desk was connected, bound to its account, armed and without an uncertain
  order, the command named the preview and repeated its confirmation phrase, and the table had no row
  of that order.  The desk is disarmed afterwards, and the row is in the table.\<close>

theorem order_needs_authority:
  assumes "desk_ok d" and "accounted lg (kd_orders d)"
    and "snd (handle (recorded_io io) cfg command ((w, lg), d)) = ((w', lg'), d')"
  shows "lg' = lg \<or>
    (\<exists>p. command_kind command = JStr ''submit'' \<and> authorized command d p \<and>
       lg' = lg @ [(xp_request p, reference_of cfg (xp_request p))] \<and>
       tbl_find ir_order_ref (reference_of cfg (xp_request p)) (kd_orders d) = None \<and>
       tbl_find ir_order_ref (reference_of cfg (xp_request p)) (kd_orders d') \<noteq> None \<and>
       \<not> kd_writes_armed d')"
proof (cases "lg' = lg")
  case False
  then obtain p where p: "authorized command d p"
      "tbl_find ir_order_ref (reference_of cfg (xp_request p)) (kd_orders d) = None"
      "steady False (kc_client_id cfg) (lg @ [(xp_request p, reference_of cfg (xp_request p))]) (kd_orders d) lg' d'"
    using handle_step(1) [OF assms] by (auto simp: outcome_def steady_def)
  let ?ref = "reference_of cfg (xp_request p)"
  have l: "lg' = lg @ [(xp_request p, ?ref)]" "accounted lg' (kd_orders d')" "\<not> kd_writes_armed d'"
    using p(3) by (auto simp: steady_def)
  have "0 < times_submitted ?ref lg'" by (simp add: l(1) times_submitted_def)
  with l(2) have "tbl_find ir_order_ref ?ref (kd_orders d') \<noteq> None" by (auto simp: accounted_def)
  with False handle_step(2) [OF assms] p(1,2) l show ?thesis by blast
qed simp

text \<open>C38: over any sequence of commands, whatever the broker answers or raises and whenever the clock moves,
  no order reference is submitted twice, and only with its row in the table; no row is lost, its key,
  its intent and its creation never change, and a row that is settled, or that another client wrote,
  never changes at all.\<close>

theorem ibkr_orders_once:
  assumes "desk_ok d" and "accounted lg (kd_orders d)"
    and "run_commands io cfg commands ((w, lg), d) = ((w', lg'), d')"
  shows "times_submitted ref lg' \<le> 1 \<and> accounted lg' (kd_orders d') \<and> desk_ok d' \<and>
    table_up ir_order_ref (row_up (kc_client_id cfg)) (kd_orders d) (kd_orders d')"
  using desk_run_keeps [OF assms] by (auto simp: accounted_def)


section \<open>A concrete desk\<close>

definition sample_account :: BrokerAccountSnapshot where
  "sample_account = \<lparr>ba_account_id = ''U1234567'', ba_api_read_only = False,
     ba_positions = [], ba_open_orders = []\<rparr>"

definition sample_io :: "unit ibkr_io" where
  "sample_io = \<lparr>ib_is_connected = (\<lambda>_. True), ib_connect = (\<lambda>_ _ _. returnS ()), ib_disconnect = returnS (),
     ib_account_snapshot = returnS sample_account,
     ib_what_if = (\<lambda>_. returnS \<lparr>bw_accepted = True, bw_estimated_commission = None,
        bw_initial_margin_change = None, bw_warning = None\<rparr>),
     ib_submit = (\<lambda>_ ref. returnS \<lparr>bs_status = ''Submitted'', bs_order_id = 7, bs_perm_id = None, bs_order_ref = ref\<rparr>),
     ib_find_by_order_ref = (\<lambda>_. returnS None), ib_clock = returnS (utc 0), ib_token = returnS ''AB12'',
     ib_repr = (\<lambda>_. []), ib_error_text = (\<lambda>_. []), ib_warning_hash = (\<lambda>_. [])\<rparr>"

definition sample_cfg :: IbkrConfig where
  "sample_cfg = \<lparr>kc_host = ''127.0.0.1'', kc_client_id = 71, kc_max_notional = Dec False 10000 0,
     kc_preview_ttl = 30000000, kc_arm_ttl = 300000000\<rparr>"

definition sample_desk :: "ibkr_orders \<Rightarrow> ibkr_desk" where
  "sample_desk orders = \<lparr>kd_live_account = Some ''U1234567'', kd_connected = False, kd_writes_armed = False,
     kd_armed_until_utc = None, kd_account = None, kd_account_refreshed_at_utc = None, kd_last_error = None,
     kd_preview = None, kd_orders = orders\<rparr>"

definition sample_order :: json where
  "sample_order = JObj [(''client_order_id'', JStr ''c1''), (''symbol'', JStr ''AAPL''), (''security_type'', JStr ''STK''),
     (''exchange'', JStr ''SMART''), (''currency'', JStr ''USD''), (''order_type'', JStr ''LMT''), (''tif'', JStr ''DAY''),
     (''action'', JStr ''OpenLong''), (''quantity'', JInt 10), (''limit_price'', JStr ''100'')]"

definition sample_phrase :: string where
  "sample_phrase = confirm_words @ ''U***4567 OpenLong 10 AAPL @100.00 AB12''"

definition sample_session :: "dict list" where
  "sample_session = [[(''kind'', JStr ''connect'')],
     [(''kind'', JStr ''arm''), (''confirmation'', JStr (arm_words @ ''U***4567''))],
     [(''kind'', JStr ''preview''), (''order'', sample_order)]]"

definition sample_submit :: dict where
  "sample_submit = [(''kind'', JStr ''submit''), (''preview_id'', JStr ''preview-AB12''),
     (''confirmation'', JStr sample_phrase), (''order'', sample_order)]"

lemma sample_sends:
  "map snd (snd (fst (run_commands sample_io sample_cfg (sample_session @ [sample_submit]) (((), []), sample_desk [])))) =
     [''vq:live:U1234567:71:c1'']"
  by code_simp

lemma sample_ibkr_ok: "desk_ok (sample_desk [])" "accounted [] (kd_orders (sample_desk []))"
  by (simp_all add: desk_ok_def sample_desk_def accounted_def times_submitted_def)

lemma order_needs_authority_witness:
  "\<exists>p d'. authorized sample_submit (snd (run_commands sample_io sample_cfg sample_session (((), []), sample_desk []))) p \<and>
     snd (run_commands sample_io sample_cfg (sample_session @ [sample_submit]) (((), []), sample_desk [])) = d' \<and>
     \<not> kd_writes_armed d'"
proof -
  obtain w lg d where a: "run_commands sample_io sample_cfg sample_session (((), []), sample_desk []) = ((w, lg), d)"
    by (metis prod.exhaust)
  obtain w' lg' d' where b: "snd (handle (recorded_io sample_io) sample_cfg sample_submit ((w, lg), d)) = ((w', lg'), d')"
    by (metis prod.exhaust)
  then have c: "run_commands sample_io sample_cfg (sample_session @ [sample_submit]) (((), []), sample_desk []) = ((w', lg'), d')"
    by (simp add: run_snoc a)
  have "snd (fst (run_commands sample_io sample_cfg sample_session (((), []), sample_desk []))) = []" by code_simp
  then have "lg' \<noteq> lg" using sample_sends a c by auto
  with order_needs_authority [OF _ _ b] desk_run_keeps [OF sample_ibkr_ok a] a c show ?thesis by auto
qed

lemma ibkr_orders_once_witness:
  "times_submitted ''vq:live:U1234567:71:c1'' (snd (fst (run_commands sample_io sample_cfg
     (sample_session @ [sample_submit, sample_submit]) (((), []), sample_desk [])))) \<le> 1"
proof -
  obtain w lg d where a: "run_commands sample_io sample_cfg (sample_session @ [sample_submit, sample_submit])
      (((), []), sample_desk []) = ((w, lg), d)"
    by (metis prod.exhaust)
  then show ?thesis using ibkr_orders_once [OF sample_ibkr_ok a] by simp
qed

definition sample_foreign :: ibkr_row where
  "sample_foreign = new_row (sample_cfg\<lparr>kc_client_id := 72\<rparr>)
     (normalized_request sample_account ''c9'' ''AAPL'' ''OpenLong'' 10 (Dec False 10000 (- 2)))
     (normalized_intent ''c9'' ''AAPL'' ''OpenLong'' 10 (Dec False 10000 (- 2)) (Dec False 100000 (- 2)))
     ''vq:live:U1234567:72:c9'' (utc 0)"


end
