(* ===== verification/IbkrLimits.thy ===== *)
theory IbkrLimits
  imports IbkrDesk
begin

text \<open>
  What an order that the desk of \<open>IbkrDesk\<close> has normalized asks for: the account it is for, the bounds
  on its price, quantity and notional, and the room it needs.
\<close>

section \<open>The steps of the normalization\<close>

lemma normalize_order_Inr:
  assumes "normalize_order repr cap account raw = Inr (req, intent)"
  obtains a symbol operation where "account = Some a" "stock_symbol symbol"
    "operation = ''OpenLong'' \<or> operation = ''ReduceLong''"
    "normalize_amounts repr cap a raw symbol operation = Inr (req, intent)"
  using assms by (auto simp: normalize_order_def Let_def split: option.splits if_splits)

lemma order_quantity_Inr: "order_quantity v = Inr n \<Longrightarrow> 0 < n"
  by (auto simp: order_quantity_def split: json.splits if_splits)

lemma dec_val_not_neg: "\<not> dec_neg d \<Longrightarrow> 0 \<le> dec_val d"
  by (simp add: dec_val_def less_imp_le)

lemma order_price_Inr:
  assumes "order_price repr v = Inr p"
  shows "dec_exp p = - 2 \<and> \<not> dec_neg p \<and> 0 \<le> dec_val p"
proof -
  from assms obtain q where q: "0 < dec_val q" "dec_quantize RoundHalfEven (- 2) q = Inr p"
    by (auto simp: order_price_def not_le split: option.splits decimal.splits if_splits)
  from quantize_val [OF q(2)] dec_val_positive_sign [OF q(1)] show ?thesis by (simp add: dec_val_not_neg)
qed

lemma order_cap_Inr: "order_cap repr cap raw = Inr c \<Longrightarrow> dec_val c \<le> dec_val cap"
  by (auto simp: order_cap_def dec_lt_def split: option.splits decimal.splits if_splits bool.splits)

lemma order_room_open:
  assumes "order_room repr a ''OpenLong'' symbol n = Inr u"
  shows "\<exists>buys. active_open_quantity repr (Some a) symbol ''BUY'' = Inr buys \<and> \<not> decimal_positive buys"
  using assms by (auto simp: order_room_def split: sum.splits if_splits)

lemma order_room_reduce:
  assumes "order_room repr a ''ReduceLong'' symbol n = Inr u"
  shows "\<exists>held selling available. long_position_quantity repr (Some a) symbol = Inr held \<and>
     active_open_quantity repr (Some a) symbol ''SELL'' = Inr selling \<and>
     decimal_minus held selling = Inr available \<and> \<not> exceeds (dec_of_int n) available"
  using assms by (auto simp: order_room_def split: sum.splits if_splits)

section \<open>Properties\<close>

definition order_within :: "(json \<Rightarrow> string) \<Rightarrow> BrokerAccountSnapshot \<Rightarrow> dec \<Rightarrow> BrokerOrderRequest \<Rightarrow> bool" where
  \<comment> \<open>a buy stays within the cap and is the only one of its symbol; a sale reduces what is held\<close>
  "order_within repr a cap req \<longleftrightarrow>
     (bo_operation req = ''OpenLong'' \<and> bo_side req = ''BUY'' \<and>
        dec_val (bo_limit_price req) * of_int (bo_quantity req) \<le> dec_val cap \<and>
        (\<exists>buys. active_open_quantity repr (Some a) (bo_symbol req) ''BUY'' = Inr buys \<and> \<not> decimal_positive buys)) \<or>
     (bo_operation req = ''ReduceLong'' \<and> bo_side req = ''SELL'' \<and>
        (\<exists>held selling available. long_position_quantity repr (Some a) (bo_symbol req) = Inr held \<and>
           active_open_quantity repr (Some a) (bo_symbol req) ''SELL'' = Inr selling \<and>
           decimal_minus held selling = Inr available \<and> \<not> exceeds (dec_of_int (bo_quantity req)) available))"

text \<open>C40: a normalized order is for the connected account, a day limit order of a whole positive number of
  shares at a whole number of cents that is not negative.  A buy costs no more than the desk's notional
  cap and is the only working buy of its symbol; a sale asks for no more than the long position less
  what is already for sale.\<close>

theorem normalized_order_bounds:
  assumes n: "normalize_order repr cap account raw = Inr (req, intent)"
    and exact: "dec_coeff (bo_limit_price req) * nat (bo_quantity req) < 10 ^ 28"
  shows "\<exists>a. account = Some a \<and> bo_account_id req = ba_account_id a \<and> order_within repr a cap req \<and>
     0 < bo_quantity req \<and> dec_exp (bo_limit_price req) = - 2 \<and> 0 \<le> dec_val (bo_limit_price req) \<and>
     bo_order_type req = ''LMT'' \<and> bo_tif req = ''DAY'' \<and> safe_code (bo_client_order_id req)"
proof -
  obtain a symbol operation where a: "account = Some a" "operation = ''OpenLong'' \<or> operation = ''ReduceLong''"
    "normalize_amounts repr cap a raw symbol operation = Inr (req, intent)"
    using normalize_order_Inr [OF n] by metis
  obtain quantity price c u where q: "order_quantity (json_get ''quantity'' raw) = Inr quantity"
      "order_price repr (json_get ''limit_price'' raw) = Inr price" "order_cap repr cap raw = Inr c"
      "\<not> (operation = ''OpenLong'' \<and> dec_lt c (dec_mul price (dec_of_int quantity)))"
      "order_room repr a operation symbol quantity = Inr u"
    and req: "req = normalized_request a (bo_client_order_id req) symbol operation quantity price"
      "safe_code (bo_client_order_id req)"
    using a(3) by (auto simp: normalize_amounts_def Let_def normalized_request_def split: sum.splits if_splits)
  have fields: "bo_quantity req = quantity" "bo_limit_price req = price" "bo_symbol req = symbol"
    "bo_operation req = operation" "bo_side req = (if operation = ''OpenLong'' then ''BUY'' else ''SELL'')"
    "bo_account_id req = ba_account_id a" "bo_order_type req = ''LMT''" "bo_tif req = ''DAY''"
    by (subst req(1), simp add: normalized_request_def)+
  note qty = order_quantity_Inr [OF q(1)] and p = order_price_Inr [OF q(2)]
  have "dec_coeff price * dec_coeff (dec_of_int quantity) < 10 ^ context_prec"
    using exact qty fields by (simp add: dec_of_int_def context_prec_def)
  then have "dec_val (dec_mul price (dec_of_int quantity)) = dec_val price * of_int quantity"
    by (simp add: dec_mul_exact)
  then have "order_within repr a cap req"
    using a(2) q(4,5) order_cap_Inr [OF q(3)] order_room_open order_room_reduce
    unfolding order_within_def fields by (auto simp: dec_lt_def)
  with a(1) fields qty p req(2) show ?thesis by simp
qed

section \<open>Concrete orders\<close>

definition sample_raw :: "string \<Rightarrow> dict" where
  "sample_raw price = [(''client_order_id'', JStr ''c1''), (''symbol'', JStr ''AAPL''), (''security_type'', JStr ''STK''),
     (''exchange'', JStr ''SMART''), (''currency'', JStr ''USD''), (''order_type'', JStr ''LMT''), (''tif'', JStr ''DAY''),
     (''action'', JStr ''OpenLong''), (''quantity'', JInt 10), (''limit_price'', JStr price)]"

definition sample_holder :: BrokerAccountSnapshot where
  "sample_holder = \<lparr>ba_account_id = ''U1'', ba_api_read_only = False, ba_positions = [], ba_open_orders = []\<rparr>"

definition sample_request :: "dec \<Rightarrow> BrokerOrderRequest" where
  "sample_request price = normalized_request sample_holder ''c1'' ''AAPL'' ''OpenLong'' 10 price"

definition sample_intent :: "dec \<Rightarrow> dec \<Rightarrow> IbkrIntent" where
  "sample_intent price notional = normalized_intent ''c1'' ''AAPL'' ''OpenLong'' 10 price notional"

lemma normalized_order_bounds_witness:
  "order_within (\<lambda>_. []) sample_holder (Dec False 10000 0) (sample_request (Dec False 10000 (- 2)))"
proof -
  have n: "normalize_order (\<lambda>_. []) (Dec False 10000 0) (Some sample_holder) (sample_raw ''100'') =
      Inr (sample_request (Dec False 10000 (- 2)), sample_intent (Dec False 10000 (- 2)) (Dec False 100000 (- 2)))"
    by code_simp
  have "dec_coeff (bo_limit_price (sample_request (Dec False 10000 (- 2)))) *
      nat (bo_quantity (sample_request (Dec False 10000 (- 2)))) < 10 ^ 28"
    by code_simp
  from normalized_order_bounds [OF n this] show ?thesis by simp
qed

text \<open>The sign of the price is checked before it is rounded to cents, so a price below half a cent becomes zero.\<close>

lemma tiny_price_becomes_zero:
  "normalize_order (\<lambda>_. []) (Dec False 10000 0) (Some sample_holder) (sample_raw ''0.004'') =
     Inr (sample_request (Dec False 0 (- 2)), sample_intent (Dec False 0 (- 2)) (Dec False 0 (- 2)))"
  by code_simp

end
