(* ===== verification/AutoLedger.thy ===== *)
theory AutoLedger
  imports IntradayPolicy PremarketEntry
begin

text \<open>
  The tables of the autonomous Paper session (\<open>PaperSessionLedger\<close> in
  \<open>execution/autonomous_paper_session.py\<close>): day locks, commands, premarket entries, the life cycle and
  the tail of a position, and the evaluation summaries.  A column that holds JSON holds the value; a
  premarket row is validated again when it is read.  Dates are compared as dates, their ISO texts being
  unique.
\<close>

section \<open>Plans and actions\<close>

datatype SessionAction = SESSION_OBSERVE | DATA_BLOCKED | WRITES_BLOCKED | SOFT_LOSS_BLOCK | ENTRY_SUBMITTED
  | REDUCE_SUBMITTED | EXIT_SUBMITTED | STOP_EXIT_SUBMITTED | PROTECTION_SUBMITTED | ACCOUNT_GUARDIAN_LOCK
  | HARD_LOSS_FLATTEN | SESSION_DAY_LOCKED

fun action_text :: "PolicyAction \<Rightarrow> string" where
  \<comment> \<open>\<open>PolicyAction.value\<close>\<close>
  "action_text IntradayPolicy.OBSERVE = ''observe''"
| "action_text ENTER_PROBE = ''enter_probe''"
| "action_text HOLD = ''hold''"
| "action_text UPGRADE = ''upgrade''"
| "action_text EXIT = ''exit''"
| "action_text TRIM_TO_TAIL = ''trim_to_tail''"
| "action_text REDUCE_TAIL = ''reduce_tail''"

record AutonomousPaperPlan =
  au_plan_id :: string
  au_symbol :: string
  au_trade_date :: date
  au_reference_price :: dec
  au_hard_stop :: dec
  au_max_notional_fraction :: dec
  au_full_risk_fraction :: dec
  au_source_snapshot_ids :: "string list"
  au_provenance :: string
  au_max_spread_ratio :: dec
  au_take_profit_1 :: "dec option"
  au_take_profit_2 :: "dec option"

definition nonpositive_opt :: "dec option \<Rightarrow> bool" where
  "nonpositive_opt v = (case v of None \<Rightarrow> False | Some d \<Rightarrow> dec_val d \<le> 0)"

definition not_above :: "dec option \<Rightarrow> dec \<Rightarrow> bool" where
  "not_above v bound = (case v of None \<Rightarrow> False | Some d \<Rightarrow> dec_le d bound)"

definition targets_cross :: "AutonomousPaperPlan \<Rightarrow> bool" where
  "targets_cross p = (case (au_take_profit_1 p, au_take_profit_2 p) of
     (Some first, Some second) \<Rightarrow> dec_lt second first | _ \<Rightarrow> False)"

definition autonomous_plan_error :: "AutonomousPaperPlan \<Rightarrow> string option" where
  \<comment> \<open>the checks of \<open>__post_init__\<close> in their order; the decimal fields are finite\<close>
  "autonomous_plan_error p =
     (if is_blank (au_plan_id p) then Some ''autonomous Paper plan_id is required''
      else if au_symbol p = [] \<or> au_symbol p \<noteq> py_upper (py_strip (au_symbol p))
        then Some ''autonomous Paper symbol must be normalized uppercase''
      else if dec_val (au_reference_price p) \<le> 0 then Some ''reference_price must be finite and positive''
      else if dec_val (au_hard_stop p) \<le> 0 then Some ''hard_stop must be finite and positive''
      else if dec_val (au_max_notional_fraction p) \<le> 0
        then Some ''max_notional_fraction must be finite and positive''
      else if dec_val (au_full_risk_fraction p) \<le> 0 then Some ''full_risk_fraction must be finite and positive''
      else if dec_val (au_max_spread_ratio p) \<le> 0 then Some ''max_spread_ratio must be finite and positive''
      else if nonpositive_opt (au_take_profit_1 p)
        then Some ''take_profit_1 must be finite and positive when available''
      else if nonpositive_opt (au_take_profit_2 p)
        then Some ''take_profit_2 must be finite and positive when available''
      else if dec_le (au_reference_price p) (au_hard_stop p)
        then Some ''hard_stop must be below reference_price for long-only plans''
      else if not_above (au_take_profit_1 p) (au_reference_price p)
        then Some ''take_profit_1 must be above reference_price''
      else if not_above (au_take_profit_2 p) (au_reference_price p)
        then Some ''take_profit_2 must be above reference_price''
      else if targets_cross p then Some ''take_profit_2 must not be below take_profit_1''
      else if 1 < dec_val (au_max_notional_fraction p) then Some ''max_notional_fraction cannot exceed one''
      else if 35 / 10000 < dec_val (au_full_risk_fraction p) then Some ''full_risk_fraction cannot exceed 0.35%''
      else if 1 / 100 < dec_val (au_max_spread_ratio p) then Some ''max_spread_ratio cannot exceed 1%''
      else if au_source_snapshot_ids p = [] \<or> list_ex is_blank (au_source_snapshot_ids p)
        then Some ''source snapshot IDs are required''
      else if is_blank (au_provenance p) then Some ''autonomous Paper plan provenance is required''
      else None)"

definition validate_autonomous_plan :: "AutonomousPaperPlan \<Rightarrow> py_error + AutonomousPaperPlan" where
  "validate_autonomous_plan p = (case autonomous_plan_error p of Some m \<Rightarrow> Inl (ValueError m) | None \<Rightarrow> Inr p)"

section \<open>Tables\<close>

record paper_day =
  pd_trade_date :: date
  pd_reason :: string
  pd_updated_at_utc :: datetime

record paper_command =
  pc_command_id :: string
  pc_trade_date :: date
  pc_kind :: string
  pc_symbol :: string
  pc_broker_order_id :: "string option"
  pc_completed :: bool
  pc_updated_at_utc :: datetime

record premarket_row =
  pm_plan_id :: string
  pm_plan :: PremarketEntryPlan
  pm_runtime :: PremarketEntryRuntime
  pm_active_client_order_id :: "string option"
  pm_active_broker_order_id :: "string option"
  pm_updated_at_utc :: datetime

record lifecycle_row =
  pl_plan_id :: string
  pl_main_profit_realized :: bool
  pl_updated_at_utc :: datetime

record tail_row =
  pt_plan_id :: string
  pt_maximum_favorable_excursion_r :: rat
  pt_order_flow_below_45_seconds :: int
  pt_last_observed_at_utc :: datetime
  pt_order_flow_below_active :: bool

record evaluation_row =
  pv_plan_id :: string
  pv_symbol :: string
  pv_trade_date :: date
  pv_evaluation_count :: int
  pv_observe_count :: int
  pv_data_blocked_count :: int
  pv_runtime_failure_count :: int
  pv_submitted_order_count :: int
  pv_first_observed_at_utc :: datetime
  pv_last_observed_at_utc :: datetime
  pv_last_action :: SessionAction
  pv_last_reasons :: "string list"

record paper_ledger =
  pa_days :: "paper_day list"
  pa_commands :: "paper_command list"
  pa_premarket :: "premarket_row list"
  pa_lifecycle :: "lifecycle_row list"
  pa_tails :: "tail_row list"
  pa_evaluations :: "evaluation_row list"

definition empty_paper_ledger :: paper_ledger where
  "empty_paper_ledger = \<lparr>pa_days = [], pa_commands = [], pa_premarket = [], pa_lifecycle = [], pa_tails = [],
     pa_evaluations = []\<rparr>"

type_synonym 'a paper_op = "(paper_ledger, 'a) op"

definition require_paper_utc :: "datetime \<Rightarrow> ('s, unit) op" where
  "require_paper_utc value = guardS (is_utc value) (ValueError ''autonomous Paper timestamp must be UTC'')"

section \<open>Day locks\<close>

definition paper_day_locked :: "date \<Rightarrow> bool paper_op" where
  \<comment> \<open>every row has the status \<open>locked\<close>\<close>
  "paper_day_locked d = readS (\<lambda>l. tbl_find pd_trade_date d (pa_days l) \<noteq> None)"

definition lock_paper_day :: "date \<Rightarrow> string \<Rightarrow> datetime \<Rightarrow> unit paper_op" where
  "lock_paper_day d reason at_utc = thenS (require_paper_utc at_utc)
     (thenS (guardS (\<not> is_blank reason) (ValueError ''Paper day-lock reason is required''))
     (writeS (\<lambda>l. l\<lparr>pa_days := (case tbl_find pd_trade_date d (pa_days l) of
         None \<Rightarrow> tbl_insert \<lparr>pd_trade_date = d, pd_reason = reason, pd_updated_at_utc = at_utc\<rparr> (pa_days l)
       | Some _ \<Rightarrow> tbl_update pd_trade_date d (\<lambda>r. r\<lparr>pd_reason := reason, pd_updated_at_utc := at_utc\<rparr>)
           (pa_days l))\<rparr>)))"

section \<open>Commands\<close>

abbreviation find_command :: "string \<Rightarrow> paper_ledger \<Rightarrow> paper_command option" where
  "find_command cid l \<equiv> tbl_find pc_command_id cid (pa_commands l)"

record CommandRecord =
  cr_command_id :: string
  cr_broker_order_id :: "string option"
  cr_completed :: bool

definition new_command :: "string \<Rightarrow> date \<Rightarrow> string \<Rightarrow> string \<Rightarrow> datetime \<Rightarrow> paper_command" where
  "new_command cid d kind symb at_utc = \<lparr>pc_command_id = cid, pc_trade_date = d, pc_kind = kind,
     pc_symbol = symb, pc_broker_order_id = None, pc_completed = False, pc_updated_at_utc = at_utc\<rparr>"

definition ensure_command :: "string \<Rightarrow> date \<Rightarrow> string \<Rightarrow> string \<Rightarrow> datetime \<Rightarrow> CommandRecord paper_op" where
  \<comment> \<open>INSERT OR IGNORE, then the row that is there\<close>
  "ensure_command cid d kind symb at_utc = thenS (require_paper_utc at_utc)
     (thenS (guardS (\<not> is_blank cid \<and> \<not> is_blank kind \<and> \<not> is_blank symb)
        (ValueError ''Paper command identity is incomplete''))
     (thenS (writeS (\<lambda>l. if find_command cid l = None
        then l\<lparr>pa_commands := tbl_insert (new_command cid d kind symb at_utc) (pa_commands l)\<rparr> else l))
     (bindS (readS (find_command cid)) (\<lambda>row. case row of
        None \<Rightarrow> raiseS (RuntimeError ''Paper command identity conflict'')
      | Some r \<Rightarrow> thenS (guardS (pc_trade_date r = d \<and> pc_kind r = kind \<and> pc_symbol r = symb)
            (RuntimeError ''Paper command identity conflict''))
          (returnS \<lparr>cr_command_id = cid, cr_broker_order_id = pc_broker_order_id r,
             cr_completed = pc_completed r\<rparr>)))))"

definition completed_command :: "datetime \<Rightarrow> string option \<Rightarrow> paper_command \<Rightarrow> paper_command" where
  \<comment> \<open>the SET clause, with its COALESCE\<close>
  "completed_command at_utc oid r = r\<lparr>pc_completed := True,
     pc_broker_order_id := (case oid of None \<Rightarrow> pc_broker_order_id r | Some b \<Rightarrow> Some b),
     pc_updated_at_utc := at_utc\<rparr>"

definition complete_command :: "string \<Rightarrow> datetime \<Rightarrow> string option \<Rightarrow> unit paper_op" where
  "complete_command cid at_utc oid = thenS (require_paper_utc at_utc)
     (bindS (readS (find_command cid)) (\<lambda>row. case row of
        None \<Rightarrow> raiseS (KeyError (''unknown Paper command: '' @ cid))
      | Some _ \<Rightarrow> writeS (\<lambda>l. l\<lparr>pa_commands :=
          tbl_update pc_command_id cid (completed_command at_utc oid) (pa_commands l)\<rparr>)))"

definition entry_component_client_ids :: "date \<Rightarrow> string \<Rightarrow> string \<Rightarrow> string list paper_op" where
  "entry_component_client_ids d symb component =
     thenS (guardS (component = ''main'' \<or> component = ''tail'')
       (ValueError ''entry component must be main or tail''))
     (readS (\<lambda>l. map pc_command_id (sort_key pc_command_id (filter (\<lambda>r. pc_trade_date r = d \<and> pc_symbol r = symb \<and>
        pc_completed r \<and> (pc_kind r = ''regular_'' @ action_text ENTER_PROBE @ ''_'' @ component \<or>
        pc_kind r = ''regular_'' @ action_text UPGRADE @ ''_'' @ component)) (pa_commands l)))))"

section \<open>Premarket entries\<close>

abbreviation find_premarket :: "string \<Rightarrow> paper_ledger \<Rightarrow> premarket_row option" where
  "find_premarket pid l \<equiv> tbl_find pm_plan_id pid (pa_premarket l)"

definition premarket_record :: "premarket_row option \<Rightarrow> py_error + premarket_row" where
  \<comment> \<open>\<open>_premarket_record\<close>: the constructors check plan and runtime again\<close>
  "premarket_record row = (case row of None \<Rightarrow> Inl (RuntimeError ''premarket entry record disappeared'')
   | Some r \<Rightarrow> (case validate_entry_plan (pm_plan r) of Inl e \<Rightarrow> Inl e | Inr _ \<Rightarrow>
      case validate_entry_runtime (pm_runtime r) of Inl e \<Rightarrow> Inl e | Inr _ \<Rightarrow> Inr r))"

definition same_entry_plan :: "PremarketEntryPlan \<Rightarrow> PremarketEntryPlan \<Rightarrow> bool" where
  \<comment> \<open>equality of the dataclasses: decimals are equal when their values are\<close>
  "same_entry_plan p q \<longleftrightarrow> ep_plan_id p = ep_plan_id q \<and> ep_symbol p = ep_symbol q \<and>
     ep_target_qty p = ep_target_qty q \<and> dec_eq (ep_reference_price p) (ep_reference_price q) \<and>
     ep_reprice_seconds p = ep_reprice_seconds q \<and> ep_total_ttl_seconds p = ep_total_ttl_seconds q \<and>
     ep_max_reprices p = ep_max_reprices q \<and> dec_eq (ep_max_chase_fraction p) (ep_max_chase_fraction q)"

definition ensure_premarket :: "PremarketEntryPlan \<Rightarrow> datetime \<Rightarrow> premarket_row paper_op" where
  "ensure_premarket plan at_utc = thenS (require_paper_utc at_utc)
     (thenS (writeS (\<lambda>l. if find_premarket (ep_plan_id plan) l = None
        then l\<lparr>pa_premarket := tbl_insert \<lparr>pm_plan_id = ep_plan_id plan, pm_plan = plan, pm_runtime = initial_entry,
          pm_active_client_order_id = None, pm_active_broker_order_id = None, pm_updated_at_utc = at_utc\<rparr>
          (pa_premarket l)\<rparr> else l))
     (bindS (readS (find_premarket (ep_plan_id plan))) (\<lambda>row.
      bindS (liftS (premarket_record row)) (\<lambda>r.
      thenS (guardS (same_entry_plan (pm_plan r) plan) (RuntimeError ''premarket entry plan identity conflict''))
        (returnS r)))))"

definition get_premarket :: "string \<Rightarrow> premarket_row option paper_op" where
  "get_premarket pid = bindS (readS (find_premarket pid)) (\<lambda>row. case row of None \<Rightarrow> returnS None
     | Some r \<Rightarrow> bindS (liftS (premarket_record row)) (\<lambda>r'. returnS (Some r')))"

definition save_premarket ::
    "string \<Rightarrow> PremarketEntryRuntime \<Rightarrow> string option \<Rightarrow> string option \<Rightarrow> datetime \<Rightarrow> premarket_row paper_op" where
  "save_premarket pid rt client broker at_utc = thenS (require_paper_utc at_utc)
     (bindS (readS (find_premarket pid)) (\<lambda>found. case found of
        None \<Rightarrow> raiseS (KeyError (''unknown premarket entry plan: '' @ pid))
      | Some _ \<Rightarrow> thenS (writeS (\<lambda>l. l\<lparr>pa_premarket := tbl_update pm_plan_id pid
            (\<lambda>r. r\<lparr>pm_runtime := rt, pm_active_client_order_id := client, pm_active_broker_order_id := broker,
              pm_updated_at_utc := at_utc\<rparr>) (pa_premarket l)\<rparr>))
          (bindS (readS (find_premarket pid)) (\<lambda>row. liftS (premarket_record row)))))"

section \<open>The life cycle of a position\<close>

definition main_profit_realized :: "string \<Rightarrow> bool paper_op" where
  "main_profit_realized pid = readS (\<lambda>l. case tbl_find pl_plan_id pid (pa_lifecycle l) of
     None \<Rightarrow> False | Some r \<Rightarrow> pl_main_profit_realized r)"

definition mark_main_profit_realized :: "string \<Rightarrow> datetime \<Rightarrow> unit paper_op" where
  "mark_main_profit_realized pid at_utc = thenS (require_paper_utc at_utc)
     (thenS (guardS (\<not> is_blank pid) (ValueError ''Paper lifecycle plan ID is required''))
     (writeS (\<lambda>l. l\<lparr>pa_lifecycle := (case tbl_find pl_plan_id pid (pa_lifecycle l) of
         None \<Rightarrow> tbl_insert \<lparr>pl_plan_id = pid, pl_main_profit_realized = True, pl_updated_at_utc = at_utc\<rparr>
           (pa_lifecycle l)
       | Some _ \<Rightarrow> tbl_update pl_plan_id pid
           (\<lambda>r. r\<lparr>pl_main_profit_realized := True, pl_updated_at_utc := at_utc\<rparr>) (pa_lifecycle l))\<rparr>)))"

definition order_flow_below :: "rat option \<Rightarrow> bool" where
  "order_flow_below v = (case v of None \<Rightarrow> False | Some x \<Rightarrow> x < 45)"

definition below_seconds :: "tail_row \<Rightarrow> bool \<Rightarrow> datetime \<Rightarrow> int" where
  \<comment> \<open>the confirmation time after an observation that follows the one in the row\<close>
  "below_seconds r below_active observed =
     (let gap = \<lfloor>seconds_between observed (pt_last_observed_at_utc r)\<rfloor> in
      if below_active \<and> pt_order_flow_below_active r \<and> 0 \<le> gap \<and> gap \<le> 30
      then pt_order_flow_below_45_seconds r + gap else 0)"

definition advance_tail_runtime :: "string \<Rightarrow> datetime \<Rightarrow> rat \<Rightarrow> rat option \<Rightarrow> tail_row paper_op" where
  \<comment> \<open>\<open>current_r\<close> is a finite float\<close>
  "advance_tail_runtime pid observed current_r order_flow = thenS (require_paper_utc observed)
     (thenS (guardS (\<not> is_blank pid) (ValueError ''Paper tail runtime plan ID is required''))
     (let below_active = order_flow_below order_flow;
          row = (\<lambda>maximum seconds. \<lparr>pt_plan_id = pid, pt_maximum_favorable_excursion_r = maximum,
            pt_order_flow_below_45_seconds = seconds, pt_last_observed_at_utc = observed,
            pt_order_flow_below_active = below_active\<rparr>) in
      bindS (readS (\<lambda>l. tbl_find pt_plan_id pid (pa_tails l))) (\<lambda>found. case found of
        None \<Rightarrow> thenS (writeS (\<lambda>l. l\<lparr>pa_tails := tbl_insert (row current_r 0) (pa_tails l)\<rparr>))
          (returnS (row current_r 0))
      | Some r \<Rightarrow> thenS (guardS (instant (pt_last_observed_at_utc r) \<le> instant observed)
            (ValueError ''Paper tail observation cannot move backwards''))
          (let r' = row (max (pt_maximum_favorable_excursion_r r) current_r)
             (below_seconds r below_active observed) in
           thenS (writeS (\<lambda>l. l\<lparr>pa_tails := tbl_update pt_plan_id pid (\<lambda>_. r') (pa_tails l)\<rparr>)) (returnS r')))))"

section \<open>Evaluation summaries\<close>

definition distinct_first :: "'a list \<Rightarrow> 'a list" where
  \<comment> \<open>\<open>tuple(dict.fromkeys(xs))\<close>\<close>
  "distinct_first xs = rev (remdups (rev xs))"

definition record_plan_evaluation ::
    "AutonomousPaperPlan \<Rightarrow> SessionAction \<Rightarrow> string list \<Rightarrow> string list \<Rightarrow> string list \<Rightarrow> datetime
       \<Rightarrow> unit paper_op" where
  "record_plan_evaluation plan action reasons degraded submitted at_utc = thenS (require_paper_utc at_utc)
     (let observe = of_bool (action = SESSION_OBSERVE); blocked = of_bool (action = DATA_BLOCKED);
          failed = of_bool (degraded \<noteq> []); orders = int (length submitted);
          values = distinct_first (reasons @ degraded) in
      writeS (\<lambda>l. l\<lparr>pa_evaluations := (case tbl_find pv_plan_id (au_plan_id plan) (pa_evaluations l) of
        None \<Rightarrow> tbl_insert \<lparr>pv_plan_id = au_plan_id plan, pv_symbol = au_symbol plan,
            pv_trade_date = au_trade_date plan, pv_evaluation_count = 1, pv_observe_count = observe,
            pv_data_blocked_count = blocked, pv_runtime_failure_count = failed,
            pv_submitted_order_count = orders, pv_first_observed_at_utc = at_utc,
            pv_last_observed_at_utc = at_utc, pv_last_action = action, pv_last_reasons = values\<rparr> (pa_evaluations l)
      | Some _ \<Rightarrow> tbl_update pv_plan_id (au_plan_id plan) (\<lambda>r. r\<lparr>
            pv_evaluation_count := pv_evaluation_count r + 1,
            pv_observe_count := pv_observe_count r + observe,
            pv_data_blocked_count := pv_data_blocked_count r + blocked,
            pv_runtime_failure_count := pv_runtime_failure_count r + failed,
            pv_submitted_order_count := pv_submitted_order_count r + orders,
            pv_last_observed_at_utc := at_utc, pv_last_action := action, pv_last_reasons := values\<rparr>)
          (pa_evaluations l))\<rparr>))"

definition plan_evaluation_summaries :: "date \<Rightarrow> evaluation_row list paper_op" where
  "plan_evaluation_summaries d = readS (\<lambda>l. sort_key pv_symbol (sort_key pv_plan_id
     (filter (\<lambda>r. pv_trade_date r = d) (pa_evaluations l))))"

end
