(* ===== verification/PyRepr.thy ===== *)
theory PyRepr
  imports PyFloat
begin

text \<open>
  \<open>repr\<close> and \<open>str\<close> of a float: the shortest decimal that \<open>float\<close> reads back, the nearest one when there
  are several.  \<open>repr_dec\<close> is \<open>Decimal(str(x))\<close>, with the exponent that the text has.
\<close>

definition repr_candidates :: "rat \<Rightarrow> nat \<Rightarrow> dec list" where
  \<comment> \<open>the decimals of \<open>n\<close> digits next to a positive \<open>x\<close> that read back as \<open>x\<close>\<close>
  "repr_candidates x n = (let e = log10_floor x - int n + 1; m = nat \<lfloor>x / pow10 e\<rfloor> in
     filter (\<lambda>d. fl (dec_val d) = x) [Dec False m e, Dec False (m + 1) e])"

fun nearest_repr :: "rat \<Rightarrow> dec list \<Rightarrow> dec" where
  "nearest_repr x [d, d'] = (let a = x - dec_val d; b = dec_val d' - x in
     if a < b \<or> (a = b \<and> even (dec_coeff d)) then d else d')"
| "nearest_repr x (d # ds) = d"
| "nearest_repr x [] = Dec False 0 (- 1)"

fun shortest_repr :: "rat \<Rightarrow> nat \<Rightarrow> nat \<Rightarrow> dec" where
  \<comment> \<open>at least \<open>n\<close> digits; seventeen are always enough\<close>
  "shortest_repr x n 0 = nearest_repr x []"
| "shortest_repr x n (Suc k) = (case repr_candidates x n of
     [] \<Rightarrow> shortest_repr x (n + 1) k | d # ds \<Rightarrow> nearest_repr x (d # ds))"

definition repr_dec :: "rat \<Rightarrow> dec" where
  \<comment> \<open>a whole number below ten to the sixteenth is printed with \<open>.0\<close>\<close>
  "repr_dec x = (if x = 0 then Dec False 0 (- 1) else
     case shortest_repr \<bar>x\<bar> 1 17 of Dec _ c e \<Rightarrow>
       if 0 \<le> e \<and> \<bar>x\<bar> < 10 ^ 16 then Dec (x < 0) (c * 10 ^ nat (e + 1)) (- 1) else Dec (x < 0) c e)"

end
