(* ===== verification/AutoSession.thy ===== *)
theory AutoSession
  imports AutoLedger AccountGuardian SyntheticStopController PyRepr
begin

text \<open>
  \<open>PaperSessionOrchestrator\<close> of \<open>execution/autonomous_paper_session.py\<close>: one tick of the autonomous Paper
  session, and the fail-closed exit.  The state is a broker and the three groups of tables that share the
  SQLite file: the session's own, the synthetic stop's and the account guardian's.  The pattern
  \<open>ensure_command\<close>, submit, \<open>complete_command\<close>, which the code writes out for every order, is \<open>once\<close>.
\<close>

section \<open>Snapshots, results and the environment\<close>

record PaperSessionSnapshot =
  sq_policy :: PolicySnapshot
  sq_bid :: dec
  sq_ask :: dec
  sq_quote_asof_utc :: datetime
  sq_quote_provenance :: string
  sq_last_trade :: "dec option"
  sq_last_trade_asof_utc :: "datetime option"
  sq_trade_provenance :: "string option"
  sq_halt_risk :: bool
  sq_below_anchored_vwap_5m_bars :: int
  sq_failed_vwap_reclaim :: bool
  sq_chandelier_stop_hit :: bool
  sq_tail_hard_breakdown :: bool

abbreviation observed_at :: "PaperSessionSnapshot \<Rightarrow> datetime" where
  "observed_at s \<equiv> po_observed_at_utc (sq_policy s)"

definition paper_snapshot_error :: "PaperSessionSnapshot \<Rightarrow> string option" where
  \<comment> \<open>the checks of \<open>__post_init__\<close>; the decimals are finite\<close>
  "paper_snapshot_error s =
     (if \<not> is_utc (sq_quote_asof_utc s) then Some ''autonomous Paper timestamp must be UTC''
      else if instant (observed_at s) < instant (sq_quote_asof_utc s) then Some ''Paper quote cannot be from the future''
      else if dec_val (sq_bid s) \<le> 0 \<or> dec_lt (sq_ask s) (sq_bid s) then Some ''Paper NBBO is invalid''
      else if is_blank (sq_quote_provenance s) then Some ''Paper quote provenance is required''
      else if \<not> utc_opt (sq_last_trade_asof_utc s) then Some ''autonomous Paper timestamp must be UTC''
      else if (case sq_last_trade_asof_utc s of None \<Rightarrow> False | Some t \<Rightarrow> instant (observed_at s) < instant t)
        then Some ''Paper trade cannot be from the future''
      else if (sq_last_trade s = None) \<noteq> (sq_last_trade_asof_utc s = None)
        then Some ''Paper last trade and timestamp must be provided together''
      else if nonpositive_opt (sq_last_trade s) then Some ''Paper last trade is invalid''
      else if sq_last_trade s \<noteq> None \<and> (case sq_trade_provenance s of None \<Rightarrow> True | Some p \<Rightarrow> is_blank p)
        then Some ''Paper trade provenance is required''
      else if sq_below_anchored_vwap_5m_bars s < 0 then Some ''Paper below-VWAP bar count cannot be negative''
      else None)"

record PaperSessionResult =
  sr_action :: SessionAction
  sr_decision :: "PolicyDecision option"
  sr_daily_return :: dec
  sr_day_locked :: bool
  sr_new_entries_allowed :: bool
  sr_cancelled_order_ids :: "string list"
  sr_flatten_order_ids :: "string list"
  sr_reasons :: "string list"
  sr_submitted_order_ids :: "string list"

definition session_result ::
    "SessionAction \<Rightarrow> PolicyDecision option \<Rightarrow> dec \<Rightarrow> bool \<Rightarrow> bool \<Rightarrow> string list \<Rightarrow> string list \<Rightarrow> string list
       \<Rightarrow> string list \<Rightarrow> PaperSessionResult" where
  \<comment> \<open>a result without its provenance, a constant of each branch\<close>
  "session_result action decision daily locked entries cancelled flattened reasons submitted =
     \<lparr>sr_action = action, sr_decision = decision, sr_daily_return = daily, sr_day_locked = locked,
      sr_new_entries_allowed = entries, sr_cancelled_order_ids = cancelled, sr_flatten_order_ids = flattened,
      sr_reasons = reasons, sr_submitted_order_ids = submitted\<rparr>"

record session_stores =
  ss_paper :: paper_ledger
  ss_stops :: stop_ledger
  ss_guardian :: guardian_ledger

type_synonym 'b session_desk = "'b \<times> session_stores"
type_synonym ('b, 'a) session_op = "('b session_desk, 'a) op"

record 'b session_env =
  sv_port :: "'b broker_port"
  sv_get_account :: "('b, PaperAccount) op"
  sv_ny_time :: "datetime \<Rightarrow> int"
  sv_sha12 :: "string \<Rightarrow> string"
  sv_sha16 :: "string \<Rightarrow> string"
  sv_authorized :: bool
  sv_owned :: "string list"

definition session_env_ok :: "'b session_env \<Rightarrow> bool" where
  \<comment> \<open>the constructor's check of \<open>owned_symbols\<close>\<close>
  "session_env_ok env \<longleftrightarrow> sv_owned env \<noteq> [] \<and> list_all (\<lambda>s. s = py_upper (py_strip s)) (sv_owned env)"

definition on_paper :: "'a paper_op \<Rightarrow> ('b, 'a) session_op" where
  "on_paper m p = (case m (ss_paper (snd p)) of (r, l) \<Rightarrow> (r, (fst p, (snd p)\<lparr>ss_paper := l\<rparr>)))"

definition on_stops :: "('b stop_desk, 'a) op \<Rightarrow> ('b, 'a) session_op" where
  "on_stops m p = (case m (fst p, ss_stops (snd p)) of (r, (b, l)) \<Rightarrow> (r, (b, (snd p)\<lparr>ss_stops := l\<rparr>)))"

definition on_guard :: "('b guardian_desk, 'a) op \<Rightarrow> ('b, 'a) session_op" where
  "on_guard m p = (case m (fst p, ss_guardian (snd p)) of (r, (b, l)) \<Rightarrow> (r, (b, (snd p)\<lparr>ss_guardian := l\<rparr>)))"

definition may_write :: "'b session_env \<Rightarrow> ('b, bool) session_op" where
  \<comment> \<open>\<open>self.paper_authorized and self.broker.writes_enabled\<close>\<close>
  "may_write env = readS (\<lambda>p. sv_authorized env \<and> bp_writes_enabled (sv_port env) (fst p))"

definition is_regular :: "'b session_env \<Rightarrow> datetime \<Rightarrow> bool" where
  "is_regular env now = regular_hours (sv_ny_time env now)"

definition is_premarket :: "'b session_env \<Rightarrow> datetime \<Rightarrow> bool" where
  "is_premarket env now \<longleftrightarrow> clock 7 0 \<le> sv_ny_time env now \<and> sv_ny_time env now < clock 9 25"

section \<open>Numbers\<close>

definition positive_decimal :: "string \<Rightarrow> string \<Rightarrow> py_error + dec" where
  "positive_decimal value name = (case parse_decimal value of
     None \<Rightarrow> Inl (ValueError (''Paper account '' @ name @ '' is invalid''))
   | Some (Finite d) \<Rightarrow> if dec_val d \<le> 0
       then Inl (ValueError (''Paper account '' @ name @ '' must be finite and positive'')) else Inr d
   | Some _ \<Rightarrow> Inl (ValueError (''Paper account '' @ name @ '' must be finite and positive'')))"

definition daily_return :: "PaperAccount \<Rightarrow> py_error + dec" where
  "daily_return account = (case positive_decimal (pat_equity account) ''equity'' of Inl e \<Rightarrow> Inl e | Inr equity \<Rightarrow>
     case positive_decimal (pat_last_equity account) ''last_equity'' of Inl e \<Rightarrow> Inl e | Inr last_equity \<Rightarrow>
     case dec_div equity last_equity of Inl e \<Rightarrow> Inl e | Inr q \<Rightarrow> Inr (dec_sub q (dec_of_int 1)))"

definition dec_floor :: "dec \<Rightarrow> int" where
  \<comment> \<open>\<open>int(d.to_integral_value(rounding=ROUND_FLOOR))\<close>\<close>
  "dec_floor d = \<lfloor>dec_val d\<rfloor>"

definition full_quantity :: "AutonomousPaperPlan \<Rightarrow> dec \<Rightarrow> py_error + int" where
  "full_quantity plan equity =
     (case dec_div (dec_mul equity (au_full_risk_fraction plan))
             (dec_sub (au_reference_price plan) (au_hard_stop plan)) of Inl e \<Rightarrow> Inl e | Inr by_risk \<Rightarrow>
      case dec_div (dec_mul equity (au_max_notional_fraction plan)) (au_reference_price plan) of
        Inl e \<Rightarrow> Inl e | Inr by_notional \<Rightarrow> Inr (min (dec_floor by_risk) (dec_floor by_notional)))"

definition target_quantity :: "AutonomousPaperPlan \<Rightarrow> dec \<Rightarrow> rat \<Rightarrow> py_error + int" where
  "target_quantity plan equity fraction =
     (if dec_val (dec_sub (au_reference_price plan) (au_hard_stop plan)) \<le> 0 then Inr 0
      else case full_quantity plan equity of Inl e \<Rightarrow> Inl e
        | Inr n \<Rightarrow> Inr (dec_floor (dec_mul (dec_of_int n) (repr_dec fraction))))"

definition tail_mode_and_fraction :: "PolicySnapshot \<Rightarrow> TailMode \<times> rat" where
  "tail_mode_and_fraction s =
     (if metric_at_least (po_right_tail s) 85 \<and> po_a_plus_plus_approved s \<and>
         metric_at_least (po_catalyst s) 95 \<and> metric_at_least (po_order_flow s) 85 \<and>
         metric_at_least (po_execution s) 85
      then (A_PLUS_PLUS, fl (30 / 100))
      else if metric_at_least (po_right_tail s) 70 then (HIGH_RIGHT_TAIL, 25 / 100)
      else (STANDARD, fl (20 / 100)))"

definition tail_fraction :: "PolicySnapshot \<Rightarrow> rat" where
  "tail_fraction s = snd (tail_mode_and_fraction s)"

definition session_long_quantity :: "PaperPosition \<Rightarrow> py_error + int" where
  \<comment> \<open>\<open>_whole_long_quantity\<close>\<close>
  "session_long_quantity position =
     (if \<not> is_long position then Inl (RuntimeError ''autonomous Paper execution is permanently long-only'')
      else whole_share_quantity (RuntimeError ''Paper position quantity is invalid'')
             (RuntimeError ''Paper position quantity must be a positive whole number'') (pp_qty position))"

definition position_quantity :: "string \<Rightarrow> PaperPosition list \<Rightarrow> py_error + int" where
  "position_quantity symb positions = (case filter (\<lambda>p. pp_symbol p = symb) positions of
     [] \<Rightarrow> Inr 0 | [p] \<Rightarrow> session_long_quantity p
   | _ \<Rightarrow> Inl (RuntimeError ''Paper broker returned duplicate symbol positions''))"

definition held_quantity :: "'b session_env \<Rightarrow> string \<Rightarrow> ('b, int) session_op" where
  \<comment> \<open>\<open>_position_quantity(symbol, self.broker.list_positions())\<close>\<close>
  "held_quantity env symb = bindS (on_fst (bp_list_positions (sv_port env)))
     (\<lambda>positions. liftS (position_quantity symb positions))"

definition entry_order_filled :: "BrokerOrder \<Rightarrow> bool" where
  "entry_order_filled order = (case parse_decimal (bo_filled_qty order) of
     Some (Finite d) \<Rightarrow> py_lower (py_strip (bo_status order)) = ''filled'' \<and> of_int (bo_qty order) \<le> dec_val d
   | _ \<Rightarrow> False)"

definition marketable_exit_limit :: "dec \<Rightarrow> py_error + dec" where
  "marketable_exit_limit bid = dec_quantize RoundFloor (- 2)
     (dec_mul bid (dec_sub (dec_of_int 1) (Dec False 25 (- 4))))"

definition quote_is_fresh :: "datetime \<Rightarrow> datetime \<Rightarrow> bool" where
  \<comment> \<open>\<open>0 <= (observed - asof).total_seconds() <= 30\<close>\<close>
  "quote_is_fresh observed asof = (let age = seconds_between observed asof in 0 \<le> age \<and> age \<le> 30)"

section \<open>Client order ids\<close>

fun join_colon :: "string list \<Rightarrow> string" where
  \<comment> \<open>\<open>":".join(parts)\<close>\<close>
  "join_colon [] = []"
| "join_colon [p] = p"
| "join_colon (p # q # ps) = p @ '':'' @ join_colon (q # ps)"

definition dated_id :: "AutonomousPaperPlan \<Rightarrow> string \<Rightarrow> string" where
  "dated_id plan rest = ''tsv2-'' @ date_compact (au_trade_date plan) @ ''-'' @ au_symbol plan @ ''-'' @ rest"

definition flatten_client_order_id :: "'b session_env \<Rightarrow> date \<Rightarrow> string \<Rightarrow> string" where
  "flatten_client_order_id env d symb = ''tsv2-'' @ date_compact d @ ''-'' @ symb @ ''-hard-flat-'' @
     sv_sha12 env (date_iso d @ '':'' @ symb @ '':hard-loss'')"

definition decision_close_client_order_id :: "'b session_env \<Rightarrow> AutonomousPaperPlan \<Rightarrow> PolicyDecision \<Rightarrow> string" where
  "decision_close_client_order_id env plan decision = dated_id plan (''exit-'' @
     sv_sha12 env (join_colon (au_plan_id plan # pd_reasons decision @ [''exit''])))"

definition fail_closed_client_order_id :: "'b session_env \<Rightarrow> AutonomousPaperPlan \<Rightarrow> string \<Rightarrow> string" where
  "fail_closed_client_order_id env plan reason = dated_id plan (''fault-'' @
     sv_sha12 env (au_plan_id plan @ '':'' @ reason @ '':runtime-fail-closed''))"

definition reduction_client_order_id ::
    "'b session_env \<Rightarrow> AutonomousPaperPlan \<Rightarrow> PolicyDecision \<Rightarrow> int \<Rightarrow> string" where
  "reduction_client_order_id env plan decision target_qty = dated_id plan (''reduce-'' @
     sv_sha12 env (join_colon
       (au_plan_id plan # action_text (pd_action decision) # show_int target_qty # pd_reasons decision)))"

definition entry_client_order_id ::
    "'b session_env \<Rightarrow> AutonomousPaperPlan \<Rightarrow> PolicyDecision \<Rightarrow> string \<Rightarrow> string \<Rightarrow> string" where
  "entry_client_order_id env plan decision phase component =
     dated_id plan (phase @ ''-'' @ component @ ''-'' @ action_text (pd_action decision) @ ''-'' @
       sv_sha12 env (join_colon [au_plan_id plan, phase, component, action_text (pd_action decision),
         format_fixed 4 (pd_target_position_fraction decision)]))"

definition premarket_client_order_id :: "'b session_env \<Rightarrow> PremarketEntryPlan \<Rightarrow> int \<Rightarrow> string" where
  "premarket_client_order_id env plan attempt = ''tsv2-'' @ ep_symbol plan @ ''-premarket-'' @
     sv_sha12 env (ep_plan_id plan) @ ''-'' @ show_int attempt"

definition premarket_protection_client_order_id :: "'b session_env \<Rightarrow> AutonomousPaperPlan \<Rightarrow> int \<Rightarrow> string" where
  "premarket_protection_client_order_id env plan qty = dated_id plan (''premarket-protect-'' @ show_int qty @ ''-'' @
     sv_sha12 env (au_plan_id plan @ '':premarket-regular-stop:'' @ show_int qty @ '':'' @
       dec_str (au_hard_stop plan)))"

definition premarket_entry_id :: "AutonomousPaperPlan \<Rightarrow> string" where
  "premarket_entry_id plan = au_plan_id plan @ '':premarket-probe''"

section \<open>Commands that are sent once\<close>

definition once ::
    "string \<Rightarrow> date \<Rightarrow> string \<Rightarrow> string \<Rightarrow> datetime \<Rightarrow> ('b, BrokerOrder) session_op
       \<Rightarrow> ('b, bool \<times> string option) session_op" where
  \<comment> \<open>whether the order was submitted now, and its broker id\<close>
  "once cid d kind symb now submit =
     bindS (on_paper (ensure_command cid d kind symb now)) (\<lambda>command.
       if cr_completed command then returnS (False, cr_broker_order_id command)
       else bindS submit (\<lambda>order. thenS (on_paper (complete_command cid now (Some (bo_id order))))
              (returnS (True, Some (bo_id order)))))"

definition cancel_order_once :: "'b session_env \<Rightarrow> date \<Rightarrow> BrokerOrder \<Rightarrow> datetime \<Rightarrow> ('b, bool) session_op" where
  "cancel_order_once env d order now = (let cid = ''cancel:'' @ date_iso d @ '':'' @ bo_id order in
     bindS (on_paper (ensure_command cid d ''cancel'' (bo_symbol order) now)) (\<lambda>record.
       if cr_completed record then returnS False
       else bindS (on_fst (bp_cancel_order (sv_port env) (bo_id order))) (\<lambda>gone.
         if gone then thenS (on_paper (complete_command cid now None)) (returnS True) else returnS False)))"

definition cancel_listed :: "'b session_env \<Rightarrow> date \<Rightarrow> datetime \<Rightarrow> BrokerOrder list \<Rightarrow> ('b, string list) session_op" where
  \<comment> \<open>the loop over the open orders; the ids of those that were cancelled\<close>
  "cancel_listed env d now orders =
     bindS (mapS (\<lambda>order. bindS (cancel_order_once env d order now) (\<lambda>gone. returnS (bo_id order, gone))) orders)
       (\<lambda>rs. returnS (map fst (filter snd rs)))"

definition close_order :: "'b session_env \<Rightarrow> string \<Rightarrow> string \<Rightarrow> int \<Rightarrow> ('b, BrokerOrder) session_op" where
  "close_order env cid symb qty = bindS (liftS (validate_close_request
       \<lparr>pcr_client_order_id = cid, pcr_symbol = symb, pcr_qty = qty\<rparr>))
     (\<lambda>request. on_fst (bp_submit_close_order (sv_port env) request))"

definition extended_order ::
    "'b session_env \<Rightarrow> string \<Rightarrow> string \<Rightarrow> int \<Rightarrow> string \<Rightarrow> dec \<Rightarrow> ('b, BrokerOrder) session_op" where
  "extended_order env cid symb qty side limit_price = bindS (liftS (validate_extended_limit
       \<lparr>pel_client_order_id = cid, pel_symbol = symb, pel_qty = qty, pel_side = side,
        pel_limit_price = dec_format_2f limit_price\<rparr>))
     (\<lambda>request. on_fst (bp_submit_extended_limit (sv_port env) request))"

definition session_exit_order ::
    "'b session_env \<Rightarrow> datetime \<Rightarrow> string \<Rightarrow> string \<Rightarrow> int \<Rightarrow> dec \<Rightarrow> ('b, BrokerOrder) session_op" where
  \<comment> \<open>a market close in regular hours, a marketable limit otherwise\<close>
  "session_exit_order env now cid symb qty bid =
     (if is_regular env now then close_order env cid symb qty
      else bindS (liftS (marketable_exit_limit bid)) (extended_order env cid symb qty ''sell''))"

section \<open>Exits\<close>

definition open_orders_of :: "'b session_env \<Rightarrow> string \<Rightarrow> ('b, BrokerOrder list) session_op" where
  "open_orders_of env symb = bindS (on_fst (bp_list_open_orders (sv_port env)))
     (\<lambda>orders. returnS (filter (\<lambda>order. bo_symbol order = symb) orders))"

definition flatten_session_position ::
    "'b session_env \<Rightarrow> AutonomousPaperPlan \<Rightarrow> PaperSessionSnapshot \<Rightarrow> PaperPosition \<Rightarrow> ('b, string list) session_op" where
  \<comment> \<open>one pass of the second loop of \<open>_cancel_and_flatten\<close>\<close>
  "flatten_session_position env plan snap position =
     (if pp_symbol position \<noteq> au_symbol plan then returnS []
      else bindS (liftS (session_long_quantity position)) (\<lambda>qty.
        let cid = flatten_client_order_id env (au_trade_date plan) (pp_symbol position); now = observed_at snap in
        bindS (once cid (au_trade_date plan) ''hard_loss_flatten'' (pp_symbol position) now
          (session_exit_order env now cid (pp_symbol position) qty (sq_bid snap)))
        (\<lambda>(fresh, broker_id). returnS (if fresh then (case broker_id of None \<Rightarrow> [] | Some b \<Rightarrow> [b]) else []))))"

definition cancel_and_flatten ::
    "'b session_env \<Rightarrow> AutonomousPaperPlan \<Rightarrow> PaperSessionSnapshot \<Rightarrow> ('b, string list \<times> string list) session_op" where
  "cancel_and_flatten env plan snap =
     bindS (on_fst (bp_list_open_orders (sv_port env))) (\<lambda>orders.
     bindS (cancel_listed env (au_trade_date plan) (observed_at snap) orders) (\<lambda>cancelled.
     bindS (on_fst (bp_list_positions (sv_port env))) (\<lambda>positions.
     bindS (mapS (flatten_session_position env plan snap) positions) (\<lambda>flattened.
       returnS (cancelled, concat flattened)))))"

definition cancel_symbol_and_close ::
    "'b session_env \<Rightarrow> AutonomousPaperPlan \<Rightarrow> PolicyDecision \<Rightarrow> PaperSessionSnapshot
       \<Rightarrow> ('b, string list \<times> string list) session_op" where
  "cancel_symbol_and_close env plan decision snap =
     bindS (open_orders_of env (au_symbol plan)) (\<lambda>orders.
     bindS (cancel_listed env (au_trade_date plan) (observed_at snap) orders) (\<lambda>cancelled.
     bindS (on_fst (bp_list_positions (sv_port env))) (\<lambda>positions.
     let matching = filter (\<lambda>p. pp_symbol p = au_symbol plan) positions in
     if 1 < length matching then raiseS (RuntimeError ''Paper broker returned duplicate symbol positions'')
     else if matching = [] then returnS (cancelled, [])
     else bindS (liftS (session_long_quantity (hd matching))) (\<lambda>qty.
       let cid = decision_close_client_order_id env plan decision; now = observed_at snap in
       bindS (once cid (au_trade_date plan) ''policy_exit'' (au_symbol plan) now
         (session_exit_order env now cid (au_symbol plan) qty (sq_bid snap)))
       (\<lambda>(fresh, broker_id).
         returnS (cancelled, if fresh then (case broker_id of None \<Rightarrow> [] | Some b \<Rightarrow> [b]) else []))))))"

definition reduce_to_target ::
    "'b session_env \<Rightarrow> AutonomousPaperPlan \<Rightarrow> PaperSessionSnapshot \<Rightarrow> PolicyDecision \<Rightarrow> PaperAccount
       \<Rightarrow> ('b, string list \<times> string option) session_op" where
  "reduce_to_target env plan snap decision account =
     bindS (liftS (positive_decimal (pat_equity account) ''equity'')) (\<lambda>equity.
     bindS (liftS (target_quantity plan equity (pd_target_position_fraction decision))) (\<lambda>target_qty.
     bindS (held_quantity env (au_symbol plan)) (\<lambda>current_qty.
     if current_qty - target_qty \<le> 0 then returnS ([], None)
     else bindS (open_orders_of env (au_symbol plan)) (\<lambda>orders.
       bindS (cancel_listed env (au_trade_date plan) (observed_at snap) orders) (\<lambda>cancelled.
       let cid = reduction_client_order_id env plan decision target_qty; now = observed_at snap in
       bindS (once cid (au_trade_date plan) (action_text (pd_action decision)) (au_symbol plan) now
         (session_exit_order env now cid (au_symbol plan) (current_qty - target_qty) (sq_bid snap)))
       (\<lambda>(_, broker_id). returnS (cancelled, broker_id)))))))"

section \<open>Protection\<close>

definition order_is_active :: "string list \<Rightarrow> BrokerOrder \<Rightarrow> bool" where
  "order_is_active statuses order \<longleftrightarrow> py_lower (py_strip (bo_status order)) \<in> set statuses"

definition working_statuses :: "string list" where
  "working_statuses = [''new'', ''accepted'', ''pending_new'', ''partially_filled'']"

definition ensure_premarket_regular_stop ::
    "'b session_env \<Rightarrow> AutonomousPaperPlan \<Rightarrow> PaperSessionSnapshot \<Rightarrow> ('b, bool \<times> string option) session_op" where
  "ensure_premarket_regular_stop env plan snap = (let now = observed_at snap in
     if \<not> is_regular env now then returnS (False, None)
     else bindS (on_paper (get_premarket (premarket_entry_id plan))) (\<lambda>found. case found of
       None \<Rightarrow> returnS (False, None)
     | Some premarket \<Rightarrow> bindS (held_quantity env (au_symbol plan)) (\<lambda>position_qty.
       if position_qty \<le> 0 then returnS (False, None)
       else let qty = min position_qty (ep_target_qty (pm_plan premarket));
                cid = premarket_protection_client_order_id env plan qty in
         bindS (on_fst (bp_get_order_by_client_id (sv_port env) cid)) (\<lambda>existing. case existing of
           Some order \<Rightarrow> if order_is_active (working_statuses @ [''held'']) order then returnS (False, None)
             else raiseS (RuntimeError ''premarket protective stop is no longer active'')
         | None \<Rightarrow> bindS (may_write env) (\<lambda>writes.
             if \<not> writes then returnS (True, None)
             else bindS (on_paper (ensure_command cid (au_trade_date plan) ''premarket_regular_protection''
                 (au_symbol plan) now)) (\<lambda>command.
               if cr_completed command
               then raiseS (RuntimeError ''premarket protective stop disappeared after submission'')
               else bindS (liftS (validate_stop_request \<lparr>psr_client_order_id = cid, psr_symbol = au_symbol plan,
                     psr_qty = qty, psr_stop_price = dec_format_2f (au_hard_stop plan)\<rparr>)) (\<lambda>request.
                 bindS (on_fst (bp_submit_stop_order (sv_port env) request)) (\<lambda>order.
                 thenS (on_paper (complete_command cid now (Some (bo_id order))))
                   (returnS (False, Some (bo_id order)))))))))))"

definition extended_stop_plan :: "AutonomousPaperPlan \<Rightarrow> int \<Rightarrow> SyntheticStopPlan" where
  "extended_stop_plan plan qty = \<lparr>sp_plan_id = au_plan_id plan @ '':extended-stop'', sp_symbol = au_symbol plan,
     sp_qty = qty, sp_stop_price = au_hard_stop plan, sp_confirmation_seconds = 2, sp_reprice_seconds = 2,
     sp_price_buffers = default_buffers\<rparr>"

definition account_is_active :: "PaperAccount \<Rightarrow> bool" where
  "account_is_active account \<longleftrightarrow> py_upper (py_strip (pat_status account)) = ''ACTIVE'' \<and>
     \<not> pat_account_blocked account \<and> \<not> pat_trading_blocked account"

definition stop_snapshot :: "PaperSessionSnapshot \<Rightarrow> PaperAccount \<Rightarrow> SyntheticStopSnapshot" where
  "stop_snapshot snap account = \<lparr>sn_observed_at_utc = observed_at snap, sn_quote_asof_utc = sq_quote_asof_utc snap,
     sn_bid = sq_bid snap, sn_ask = sq_ask snap, sn_last_trade = sq_last_trade snap,
     sn_last_trade_asof_utc = sq_last_trade_asof_utc snap, sn_quote_provenance = sq_quote_provenance snap,
     sn_trade_provenance = sq_trade_provenance snap, sn_data_healthy = po_data_healthy (sq_policy snap),
     sn_broker_healthy = account_is_active account,
     sn_verified_material_negative = po_material_negative (sq_policy snap),
     sn_halt_risk = sq_halt_risk snap, sn_filled = False\<rparr>"

definition run_extended_hours_stop ::
    "'b session_env \<Rightarrow> AutonomousPaperPlan \<Rightarrow> PaperSessionSnapshot \<Rightarrow> PaperAccount
       \<Rightarrow> ('b, SyntheticStopExecutionResult option) session_op" where
  "run_extended_hours_stop env plan snap account =
     (if is_regular env (observed_at snap) then returnS None
      else bindS (held_quantity env (au_symbol plan)) (\<lambda>position_qty.
        if position_qty \<le> 0 then returnS None
        else bindS (on_paper (get_premarket (premarket_entry_id plan))) (\<lambda>found.
          let planned = (case found of None \<Rightarrow> position_qty | Some r \<Rightarrow> ep_target_qty (pm_plan r)) in
          bindS (liftS (validate_stop_plan (extended_stop_plan plan planned))) (\<lambda>stop_plan.
          bindS (liftS (validate_snapshot (stop_snapshot snap account))) (\<lambda>stop_snap.
          bindS (on_stops (tick_stop (sv_port env) (sv_sha16 env) (sv_authorized env) stop_plan stop_snap)) (\<lambda>result.
            returnS (if sx_action result \<in> {SUBMIT_EXIT_LIMIT, CANCEL_REPLACE_EXIT} then Some result else None)))))))"

section \<open>Entries\<close>

definition premarket_entry_snapshot ::
    "PaperSessionSnapshot \<Rightarrow> PremarketEntryPlan \<Rightarrow> int \<Rightarrow> bool \<Rightarrow> PremarketEntrySnapshot" where
  "premarket_entry_snapshot snap plan filled_qty order_working = \<lparr>es_observed_at_utc = observed_at snap,
     es_quote_asof_utc = sq_quote_asof_utc snap, es_bid = sq_bid snap, es_ask = sq_ask snap,
     es_filled_qty = min filled_qty (ep_target_qty plan), es_order_working = order_working,
     es_quote_provenance = sq_quote_provenance snap, es_data_healthy = po_data_healthy (sq_policy snap),
     es_broker_healthy = True\<rparr>"

definition open_premarket ::
    "AutonomousPaperPlan \<Rightarrow> int \<Rightarrow> datetime \<Rightarrow> premarket_row paper_op" where
  \<comment> \<open>the record of the plan's premarket entry, created on first use\<close>
  "open_premarket plan target_qty now = bindS (get_premarket (premarket_entry_id plan)) (\<lambda>found. case found of
       Some record \<Rightarrow> returnS record
     | None \<Rightarrow> bindS (liftS (validate_entry_plan \<lparr>ep_plan_id = premarket_entry_id plan, ep_symbol = au_symbol plan,
           ep_target_qty = target_qty, ep_reference_price = au_reference_price plan, ep_reprice_seconds = 3,
           ep_total_ttl_seconds = 10, ep_max_reprices = 2, ep_max_chase_fraction = Dec False 3 (- 3)\<rparr>))
         (\<lambda>entry_plan. ensure_premarket entry_plan now))"

definition send_premarket_order ::
    "'b session_env \<Rightarrow> AutonomousPaperPlan \<Rightarrow> premarket_row \<Rightarrow> PremarketEntryDecision \<Rightarrow> datetime
       \<Rightarrow> ('b, string option) session_op" where
  \<comment> \<open>the branch of \<open>SUBMIT_LIMIT\<close> and \<open>CANCEL_REPLACE\<close>\<close>
  "send_premarket_order env plan record decision now = (case ed_limit_price decision of
       None \<Rightarrow> raiseS (RuntimeError ''premarket entry submit lacks limit price'')
     | Some limit_price \<Rightarrow>
         let cid = premarket_client_order_id env (pm_plan record) (er_attempt (ed_runtime decision)) in
         bindS (once cid (au_trade_date plan) ''premarket_entry'' (au_symbol plan) now
           (extended_order env cid (au_symbol plan) (ed_remaining_qty decision) ''buy'' limit_price))
         (\<lambda>(_, broker_id).
         thenS (on_paper (save_premarket (ep_plan_id (pm_plan record)) (ed_runtime decision) (Some cid) broker_id now))
           (returnS broker_id)))"

definition run_premarket_entry ::
    "'b session_env \<Rightarrow> AutonomousPaperPlan \<Rightarrow> PaperSessionSnapshot \<Rightarrow> int \<Rightarrow> int \<Rightarrow> ('b, string option) session_op" where
  "run_premarket_entry env plan snap target_qty filled_qty = (let now = observed_at snap in
     bindS (on_paper (open_premarket plan target_qty now)) (\<lambda>record.
     bindS (case pm_active_client_order_id record of None \<Rightarrow> returnS None
       | Some cid \<Rightarrow> on_fst (bp_get_order_by_client_id (sv_port env) cid)) (\<lambda>active.
     let working = (case active of None \<Rightarrow> False | Some order \<Rightarrow> order_is_active working_statuses order) in
     bindS (liftS (validate_entry_snapshot (premarket_entry_snapshot snap (pm_plan record) filled_qty working)))
       (\<lambda>entry_snap.
     bindS (liftS (evaluate_entry (pm_plan record) (pm_runtime record) entry_snap)) (\<lambda>decision.
     thenS (if ed_action decision \<in> {CANCEL_REPLACE, CANCEL_REMAINDER, ABANDON}
       then (case active of None \<Rightarrow> returnS ()
         | Some order \<Rightarrow> thenS (cancel_order_once env (au_trade_date plan) order now) (returnS ()))
       else returnS ())
     (if ed_action decision \<in> {SUBMIT_LIMIT, CANCEL_REPLACE}
      then send_premarket_order env plan record decision now
      else let over = ed_action decision \<in> {CANCEL_REMAINDER, ABANDON, PremarketEntry.COMPLETE};
               client = (if over then None else pm_active_client_order_id record);
               broker = (if over then None else pm_active_broker_order_id record) in
        thenS (on_paper (save_premarket (ep_plan_id (pm_plan record)) (ed_runtime decision) client broker now))
          (returnS broker)))))))"

definition component_quantities ::
    "AutonomousPaperPlan \<Rightarrow> dec \<Rightarrow> PolicySnapshot \<Rightarrow> PolicyDecision \<Rightarrow> int \<Rightarrow> py_error + (string \<times> int) list" where
  \<comment> \<open>from \<open>full_qty = ...\<close> to \<open>component_quantities = ...\<close>\<close>
  "component_quantities plan equity policy decision desired_qty =
     (case target_quantity plan equity 1 of Inl e \<Rightarrow> Inl e | Inr full_qty \<Rightarrow>
      case target_quantity plan equity (tail_fraction policy) of Inl e \<Rightarrow> Inl e | Inr tail_qty \<Rightarrow>
      case target_quantity plan equity (if pd_action decision = ENTER_PROBE then 0 else 25 / 100) of
        Inl e \<Rightarrow> Inl e | Inr prior_total_qty \<Rightarrow>
      let tail_target_qty = min desired_qty tail_qty;
          prior_tail_qty = min prior_total_qty
            (dec_floor (dec_mul (dec_of_int full_qty) (repr_dec (tail_fraction policy)))) in
      Inr [(''tail'', tail_target_qty - prior_tail_qty),
           (''main'', (desired_qty - tail_target_qty) - (prior_total_qty - prior_tail_qty))])"

definition entry_take_profit :: "AutonomousPaperPlan \<Rightarrow> PaperSessionSnapshot \<Rightarrow> py_error + dec" where
  "entry_take_profit plan snap = dec_quantize RoundHalfUp (- 2) (case au_take_profit_1 plan of Some tp \<Rightarrow> tp
     | None \<Rightarrow> dec_add (sq_ask snap) (dec_mul (dec_sub (sq_ask snap) (au_hard_stop plan))
         (repr_dec (case po_first_target_reward_r (sq_policy snap) of None \<Rightarrow> 5 / 2
            | Some r \<Rightarrow> if r = 0 then 5 / 2 else r))))"

definition submit_component ::
    "'b session_env \<Rightarrow> AutonomousPaperPlan \<Rightarrow> PolicyDecision \<Rightarrow> datetime \<Rightarrow> dec \<Rightarrow> string \<times> int
       \<Rightarrow> ('b, string list) session_op" where
  \<comment> \<open>one pass of the loop over the components\<close>
  "submit_component env plan decision now take_profit = (\<lambda>(component, quantity).
     if quantity \<le> 0 then returnS []
     else let cid = entry_client_order_id env plan decision ''regular'' component in
       bindS (once cid (au_trade_date plan) (''regular_'' @ action_text (pd_action decision) @ ''_'' @ component)
           (au_symbol plan) now
         (bindS (liftS (validate_order_request \<lparr>por_client_order_id = cid, por_symbol = au_symbol plan,
             por_qty = quantity, por_order_type = ''market'', por_limit_price = None,
             por_take_profit_price = (if component = ''main'' then Some (dec_format_2f take_profit) else None),
             por_stop_loss_price = Some (dec_format_2f (au_hard_stop plan))\<rparr>))
           (\<lambda>request. on_fst (bp_submit_order (sv_port env) request))))
       (\<lambda>(_, broker_id). returnS (case broker_id of None \<Rightarrow> [] | Some b \<Rightarrow> [b])))"

definition submit_regular_entry ::
    "'b session_env \<Rightarrow> AutonomousPaperPlan \<Rightarrow> PaperSessionSnapshot \<Rightarrow> PolicyDecision \<Rightarrow> dec \<Rightarrow> int \<Rightarrow> int
       \<Rightarrow> ('b, string list) session_op" where
  \<comment> \<open>the part of \<open>_submit_entry\<close> after the premarket branch\<close>
  "submit_regular_entry env plan snap decision equity desired_qty delta =
     bindS (liftS (component_quantities plan equity (sq_policy snap) decision desired_qty)) (\<lambda>components.
     bindS (liftS (entry_take_profit plan snap)) (\<lambda>take_profit.
     bindS (mapS (submit_component env plan decision (observed_at snap) take_profit) components) (\<lambda>submitted.
     thenS (guardS (sum_list (map snd components) = delta)
         (RuntimeError ''regular entry component allocation is inconsistent''))
       (returnS (concat submitted)))))"

definition submit_entry ::
    "'b session_env \<Rightarrow> AutonomousPaperPlan \<Rightarrow> PaperSessionSnapshot \<Rightarrow> PolicyDecision \<Rightarrow> PaperAccount
       \<Rightarrow> ('b, string list) session_op" where
  "submit_entry env plan snap decision account = (let now = observed_at snap in
     if \<not> quote_is_fresh now (sq_quote_asof_utc snap) then returnS []
     else if \<not> is_premarket env now \<and> \<not> is_regular env now then returnS []
     else if \<not> account_is_active account then returnS []
     else bindS (liftS (positive_decimal (pat_equity account) ''equity'')) (\<lambda>equity.
       bindS (liftS (target_quantity plan equity (pd_target_position_fraction decision))) (\<lambda>desired_qty.
       bindS (held_quantity env (au_symbol plan)) (\<lambda>current_qty.
       if desired_qty - current_qty \<le> 0 then returnS []
       else if is_premarket env now
       then bindS (run_premarket_entry env plan snap desired_qty current_qty)
         (\<lambda>oid. returnS (case oid of None \<Rightarrow> [] | Some b \<Rightarrow> [b]))
       else submit_regular_entry env plan snap decision equity desired_qty (desired_qty - current_qty)))))"

end
