(* ===== verification/AutoTick.thy ===== *)
theory AutoTick
  imports AutoSession
begin

text \<open>
  \<open>tick\<close> and \<open>fail_closed\<close> of \<open>PaperSessionOrchestrator\<close> (\<open>execution/autonomous_paper_session.py\<close>).  A
  snapshot that was accepted by its constructor stays so when the life cycle and the tail evidence are
  filled in, so \<open>replace\<close> only checks the new tail evidence.
\<close>

section \<open>The life cycle\<close>

definition tail_evidence ::
    "PaperSessionSnapshot \<Rightarrow> TailMode \<Rightarrow> rat \<Rightarrow> rat \<Rightarrow> tail_row \<Rightarrow> TailEvidence" where
  "tail_evidence snap mode fraction current_r state =
     \<lparr>te_mode = mode, te_initial_fraction = fraction,
      te_reduction_stage = of_bool (po_position_fraction (sq_policy snap) \<le> fl (fraction / 2)),
      te_fifteen_minute_structure_valid = po_technical_structure_valid (sq_policy snap),
      te_below_anchored_vwap_5m_bars = sq_below_anchored_vwap_5m_bars snap,
      te_order_flow_below_45_seconds = pt_order_flow_below_45_seconds state,
      te_failed_reclaim = sq_failed_vwap_reclaim snap, te_current_r = current_r,
      te_maximum_favorable_excursion_r = pt_maximum_favorable_excursion_r state,
      te_chandelier_stop_hit = sq_chandelier_stop_hit snap, te_hard_breakdown = sq_tail_hard_breakdown snap\<rparr>"

definition with_tail_evidence ::
    "AutonomousPaperPlan \<Rightarrow> PaperSessionSnapshot \<Rightarrow> ('b, PaperSessionSnapshot) session_op" where
  "with_tail_evidence plan snap = (let policy = sq_policy snap in
     case (po_average_entry_price policy, po_last_price policy) of
       (Some entry, Some last_price) \<Rightarrow>
         if \<not> po_main_profit_realized policy then returnS snap
         else (case tail_mode_and_fraction policy of (mode, fraction) \<Rightarrow>
           if fraction < po_position_fraction policy then returnS snap
           else let risk = fl (entry - float_of_repr (au_hard_stop plan)) in
             if risk \<le> 0 then raiseS (RuntimeError ''tail risk per share is not positive'')
             else let current_r = fl (fl (last_price - entry) / risk) in
               bindS (on_paper (advance_tail_runtime (au_plan_id plan) (po_observed_at_utc policy) current_r
                 (dm_value (po_order_flow policy)))) (\<lambda>state.
               bindS (liftS (validate_tail (tail_evidence snap mode fraction current_r state))) (\<lambda>tail.
                 returnS (snap\<lparr>sq_policy := policy\<lparr>po_tail := Some tail\<rparr>\<rparr>))))
     | _ \<Rightarrow> returnS snap)"

definition realized :: "PaperSessionSnapshot \<Rightarrow> PaperSessionSnapshot" where
  "realized snap = snap\<lparr>sq_policy := (sq_policy snap)\<lparr>po_main_profit_realized := True\<rparr>\<rparr>"

definition with_lifecycle_state ::
    "'b session_env \<Rightarrow> AutonomousPaperPlan \<Rightarrow> PaperSessionSnapshot \<Rightarrow> PaperAccount
       \<Rightarrow> ('b, PaperSessionSnapshot) session_op" where
  "with_lifecycle_state env plan snap account =
     (if \<not> po_has_position (sq_policy snap) then returnS snap
      else bindS (if po_main_profit_realized (sq_policy snap) then returnS True
             else on_paper (main_profit_realized (au_plan_id plan))) (\<lambda>done_before.
      if done_before then with_tail_evidence plan (realized snap)
      else bindS (on_paper (entry_component_client_ids (au_trade_date plan) (au_symbol plan) ''main'')) (\<lambda>cids.
      if cids = [] then returnS snap
      else bindS (mapS (\<lambda>cid. on_fst (bp_get_order_by_client_id (sv_port env) cid)) cids) (\<lambda>orders.
      if list_ex (\<lambda>order. case order of None \<Rightarrow> True | Some b \<Rightarrow> \<not> entry_order_filled b) orders then returnS snap
      else bindS (liftS (positive_decimal (pat_equity account) ''equity'')) (\<lambda>equity.
      bindS (liftS (target_quantity plan equity (tail_fraction (sq_policy snap)))) (\<lambda>tail_qty.
      bindS (held_quantity env (au_symbol plan)) (\<lambda>current_qty.
      if current_qty \<le> 0 \<or> tail_qty < current_qty then returnS snap
      else thenS (on_paper (mark_main_profit_realized (au_plan_id plan) (observed_at snap)))
        (with_tail_evidence plan (realized snap)))))))))"

section \<open>tick\<close>

definition session_decision_of ::
    "'b session_env \<Rightarrow> AutonomousPaperPlan \<Rightarrow> PaperSessionSnapshot \<Rightarrow> PolicyDecision" where
  \<comment> \<open>the policy's decision, or the exit at the second target\<close>
  "session_decision_of env plan snap =
     (if po_has_position (sq_policy snap) \<and>
         (case au_take_profit_2 plan of None \<Rightarrow> False | Some tp \<Rightarrow> dec_le tp (sq_bid snap))
      then exit_because ''take_profit_2_reached'' None
      else evaluate_policy (sv_ny_time env) (sq_policy snap))"

definition soft_loss :: "dec \<Rightarrow> bool" where
  "soft_loss daily \<longleftrightarrow> dec_val daily \<le> - (15 / 1000)"

definition hard_loss :: "dec \<Rightarrow> bool" where
  "hard_loss daily \<longleftrightarrow> dec_val daily \<le> - (2 / 100)"

definition opens :: "PolicyDecision \<Rightarrow> bool" where
  "opens decision \<longleftrightarrow> pd_action decision \<in> {ENTER_PROBE, UPGRADE}"

definition continue_premarket ::
    "'b session_env \<Rightarrow> AutonomousPaperPlan \<Rightarrow> PaperSessionSnapshot \<Rightarrow> ('b, string option) session_op" where
  \<comment> \<open>an active premarket entry goes on whatever the decision is\<close>
  "continue_premarket env plan snap = bindS (on_paper (get_premarket (premarket_entry_id plan))) (\<lambda>active.
     case active of
       Some record \<Rightarrow> if er_completed_at_utc (pm_runtime record) = None \<and> is_premarket env (observed_at snap)
         then bindS (held_quantity env (au_symbol plan)) (\<lambda>filled.
           run_premarket_entry env plan snap (ep_target_qty (pm_plan record)) filled)
         else returnS None
     | None \<Rightarrow> returnS None)"

definition tick_rest ::
    "'b session_env \<Rightarrow> AutonomousPaperPlan \<Rightarrow> PaperSessionSnapshot \<Rightarrow> PaperAccount \<Rightarrow> dec \<Rightarrow> PolicyDecision
       \<Rightarrow> ('b, PaperSessionResult) session_op" where
  \<comment> \<open>from \<open>continued_entry_order_id = None\<close> to the end\<close>
  "tick_rest env plan snap account daily decision =
     (let entries = \<not> soft_loss daily in
      bindS (continue_premarket env plan snap) (\<lambda>continued.
      bindS (run_extended_hours_stop env plan snap account) (\<lambda>stop_result.
        returnS (case stop_result of
          Some stop \<Rightarrow> session_result STOP_EXIT_SUBMITTED (Some decision) daily False entries [] []
            (sx_reasons stop) (case sx_broker_order_id stop of None \<Rightarrow> [] | Some b \<Rightarrow> [b])
        | None \<Rightarrow> (case continued of
            Some b \<Rightarrow> session_result ENTRY_SUBMITTED (Some decision) daily False entries [] []
              [''premarket_entry_lifecycle_active''] [b]
          | None \<Rightarrow> session_result SESSION_OBSERVE (Some decision) daily False entries [] []
              (pd_reasons decision) [])))))"

definition blocked_result ::
    "SessionAction \<Rightarrow> PolicyDecision \<Rightarrow> dec \<Rightarrow> string list \<Rightarrow> PaperSessionResult" where
  "blocked_result action decision daily reasons =
     session_result action (Some decision) daily False False [] [] reasons []"

definition tick_exit ::
    "'b session_env \<Rightarrow> AutonomousPaperPlan \<Rightarrow> PaperSessionSnapshot \<Rightarrow> dec \<Rightarrow> PolicyDecision
       \<Rightarrow> ('b, PaperSessionResult) session_op" where
  "tick_exit env plan snap daily decision = bindS (may_write env) (\<lambda>writes.
     if \<not> writes then returnS (blocked_result WRITES_BLOCKED decision daily
         (pd_reasons decision @ [''paper_exit_writes_not_authorized'']))
     else bindS (cancel_symbol_and_close env plan decision snap) (\<lambda>(cancelled, flattened).
       returnS (session_result EXIT_SUBMITTED (Some decision) daily False (\<not> soft_loss daily)
         cancelled flattened (pd_reasons decision) [])))"

definition tick_entry ::
    "'b session_env \<Rightarrow> AutonomousPaperPlan \<Rightarrow> PaperSessionSnapshot \<Rightarrow> PaperAccount \<Rightarrow> dec \<Rightarrow> PolicyDecision
       \<Rightarrow> ('b, PaperSessionResult) session_op" where
  "tick_entry env plan snap account daily decision =
     (if \<not> quote_is_fresh (observed_at snap) (sq_quote_asof_utc snap)
      then returnS (blocked_result DATA_BLOCKED decision daily (pd_reasons decision @ [''quote_stale'']))
      else bindS (may_write env) (\<lambda>writes.
        if \<not> writes then returnS (blocked_result WRITES_BLOCKED decision daily
            (pd_reasons decision @ [''paper_entry_writes_not_authorized'']))
        else bindS (submit_entry env plan snap decision account) (\<lambda>ids.
          if ids \<noteq> [] then returnS (session_result ENTRY_SUBMITTED (Some decision) daily False True [] []
              (pd_reasons decision) ids)
          else tick_rest env plan snap account daily decision)))"

definition tick_reduction ::
    "'b session_env \<Rightarrow> AutonomousPaperPlan \<Rightarrow> PaperSessionSnapshot \<Rightarrow> PaperAccount \<Rightarrow> dec \<Rightarrow> PolicyDecision
       \<Rightarrow> ('b, PaperSessionResult) session_op" where
  "tick_reduction env plan snap account daily decision = bindS (may_write env) (\<lambda>writes.
     if \<not> writes then returnS (blocked_result WRITES_BLOCKED decision daily
         (pd_reasons decision @ [''paper_reduction_writes_not_authorized'']))
     else bindS (reduce_to_target env plan snap decision account) (\<lambda>(cancelled, reduced). case reduced of
       Some b \<Rightarrow> returnS (session_result REDUCE_SUBMITTED (Some decision) daily False
         (\<not> soft_loss daily) cancelled [b] (pd_reasons decision) [b])
     | None \<Rightarrow> tick_rest env plan snap account daily decision))"

definition tick_decided ::
    "'b session_env \<Rightarrow> AutonomousPaperPlan \<Rightarrow> PaperSessionSnapshot \<Rightarrow> PaperAccount \<Rightarrow> dec \<Rightarrow> PolicyDecision
       \<Rightarrow> ('b, PaperSessionResult) session_op" where
  \<comment> \<open>from \<open>soft_loss_active = ...\<close> on\<close>
  "tick_decided env plan snap account daily decision =
     (if soft_loss daily \<and> opens decision
      then returnS (blocked_result SOFT_LOSS_BLOCK decision daily [''daily_soft_loss_new_entries_disabled''])
      else if pd_action decision = EXIT then tick_exit env plan snap daily decision
      else bindS (ensure_premarket_regular_stop env plan snap) (\<lambda>(required, stop_id).
        if required then returnS (blocked_result WRITES_BLOCKED decision daily
            [''premarket_position_protection_not_authorized''])
        else case stop_id of
          Some b \<Rightarrow> returnS (session_result PROTECTION_SUBMITTED (Some decision) daily False False [] []
            [''premarket_regular_stop_attached''] [b])
        | None \<Rightarrow>
            if opens decision then tick_entry env plan snap account daily decision
            else if pd_action decision \<in> {TRIM_TO_TAIL, REDUCE_TAIL}
            then tick_reduction env plan snap account daily decision
            else tick_rest env plan snap account daily decision))"

definition tick_hard_loss ::
    "'b session_env \<Rightarrow> AutonomousPaperPlan \<Rightarrow> PaperSessionSnapshot \<Rightarrow> dec \<Rightarrow> bool
       \<Rightarrow> ('b, PaperSessionResult) session_op" where
  "tick_hard_loss env plan snap daily locked = bindS (may_write env) (\<lambda>writes.
     if \<not> writes then returnS (session_result WRITES_BLOCKED None daily locked False [] []
         [''daily_hard_loss_writes_not_authorized''] [])
     else bindS (cancel_and_flatten env plan snap) (\<lambda>(cancelled, flattened).
       thenS (on_paper (lock_paper_day (au_trade_date plan) ''daily_hard_loss_limit_reached'' (observed_at snap)))
         (returnS (session_result HARD_LOSS_FLATTEN None daily True False cancelled flattened
           [''daily_hard_loss_limit_reached''] []))))"

definition guardian_block :: "AccountGuardianResult \<Rightarrow> dec \<Rightarrow> PaperSessionResult" where
  "guardian_block guardian daily = session_result
     (if gr_status guardian = DAY_LOCKED \<and> gr_reasons guardian \<noteq> [''day_lock_already_active'']
      then ACCOUNT_GUARDIAN_LOCK else SESSION_DAY_LOCKED)
     None daily (gr_status guardian = DAY_LOCKED) False (gr_cancelled_order_ids guardian)
     (gr_flatten_order_ids guardian) (gr_reasons guardian) []"

definition tick_session ::
    "'b session_env \<Rightarrow> AutonomousPaperPlan \<Rightarrow> PaperSessionSnapshot \<Rightarrow> ('b, PaperSessionResult) session_op" where
  "tick_session env plan snap =
     thenS (guardS (po_trade_date (sq_policy snap) = au_trade_date plan)
       (ValueError ''Paper plan and policy trade dates do not match''))
     (bindS (on_fst (sv_get_account env)) (\<lambda>account.
      bindS (liftS (daily_return account)) (\<lambda>daily.
      bindS (on_guard (guardian_reconcile (sv_port env) (sv_ny_time env) (sv_authorized env) ''tsv2-''
        (au_trade_date plan) (observed_at snap) (sv_owned env))) (\<lambda>guardian.
      if gr_status guardian \<noteq> CLEAR then returnS (guardian_block guardian daily)
      else bindS (on_paper (paper_day_locked (au_trade_date plan))) (\<lambda>locked.
      if hard_loss daily then tick_hard_loss env plan snap daily locked
      else if locked then returnS (session_result SESSION_DAY_LOCKED None daily True False [] []
          [''persisted_day_lock''] [])
      else bindS (with_lifecycle_state env plan snap account) (\<lambda>snap'.
        tick_decided env plan snap' account daily (session_decision_of env plan snap')))))))"

section \<open>fail_closed\<close>

definition fresh_exit_quote :: "datetime \<Rightarrow> dec option \<Rightarrow> datetime option \<Rightarrow> string option \<Rightarrow> py_error + bool" where
  "fresh_exit_quote observed bid quote_asof provenance = (case (bid, quote_asof) of
     (Some b, Some asof) \<Rightarrow>
       if dec_val b \<le> 0 \<or> (case provenance of None \<Rightarrow> True | Some p \<Rightarrow> is_blank p) then Inr False
       else if \<not> is_utc asof then Inl (ValueError ''autonomous Paper timestamp must be UTC'')
       else Inr (quote_is_fresh observed asof)
   | _ \<Rightarrow> Inr False)"

definition fail_closed_exit ::
    "'b session_env \<Rightarrow> AutonomousPaperPlan \<Rightarrow> datetime \<Rightarrow> string \<Rightarrow> dec option \<Rightarrow> dec \<Rightarrow> PaperPosition
       \<Rightarrow> ('b, PaperSessionResult) session_op" where
  \<comment> \<open>from the second \<open>cancelled = ...\<close> on\<close>
  "fail_closed_exit env plan now reason exit_bid daily position =
     bindS (open_orders_of env (au_symbol plan)) (\<lambda>orders.
     bindS (cancel_listed env (au_trade_date plan) now orders) (\<lambda>cancelled.
     let cid = fail_closed_client_order_id env plan reason in
     bindS (once cid (au_trade_date plan) ''runtime_fail_closed'' (au_symbol plan) now
       (bindS (liftS (session_long_quantity position)) (\<lambda>qty.
          if is_regular env now then close_order env cid (au_symbol plan) qty
          else case exit_bid of
            None \<Rightarrow> raiseS (RuntimeError ''validated extended exit bid disappeared'')
          | Some bid \<Rightarrow> bindS (liftS (marketable_exit_limit bid))
              (extended_order env cid (au_symbol plan) qty ''sell''))))
     (\<lambda>(_, broker_id). bindS (on_paper (paper_day_locked (au_trade_date plan))) (\<lambda>locked.
       let ids = (case broker_id of None \<Rightarrow> [] | Some b \<Rightarrow> [b]) in
       returnS (session_result EXIT_SUBMITTED None daily locked False cancelled ids [reason] ids)))))"

definition fail_closed_flat ::
    "'b session_env \<Rightarrow> AutonomousPaperPlan \<Rightarrow> datetime \<Rightarrow> string \<Rightarrow> dec \<Rightarrow> ('b, PaperSessionResult) session_op" where
  \<comment> \<open>the branch without a position\<close>
  "fail_closed_flat env plan now reason daily =
     bindS (open_orders_of env (au_symbol plan)) (\<lambda>orders.
     bindS (may_write env) (\<lambda>writes.
     if orders \<noteq> [] \<and> \<not> writes
     then bindS (on_paper (paper_day_locked (au_trade_date plan))) (\<lambda>locked. returnS
       (session_result WRITES_BLOCKED None daily locked False [] []
         [reason, ''paper_cancel_writes_not_authorized''] []))
     else bindS (cancel_listed env (au_trade_date plan) now orders) (\<lambda>cancelled.
       bindS (on_paper (paper_day_locked (au_trade_date plan))) (\<lambda>locked. returnS
         (session_result DATA_BLOCKED None daily locked False cancelled [] [reason] [])))))"

definition fail_closed_held ::
    "'b session_env \<Rightarrow> AutonomousPaperPlan \<Rightarrow> datetime \<Rightarrow> string \<Rightarrow> dec option \<Rightarrow> datetime option \<Rightarrow> string option
       \<Rightarrow> dec \<Rightarrow> PaperPosition \<Rightarrow> ('b, PaperSessionResult) session_op" where
  "fail_closed_held env plan now reason exit_bid quote_asof provenance daily position =
     bindS (may_write env) (\<lambda>writes.
     if \<not> writes
     then bindS (on_paper (paper_day_locked (au_trade_date plan))) (\<lambda>locked. returnS
       (session_result WRITES_BLOCKED None daily locked False [] []
         [reason, ''paper_exit_writes_not_authorized''] []))
     else bindS (if is_regular env now then returnS True
                 else liftS (fresh_exit_quote now exit_bid quote_asof provenance)) (\<lambda>can_price.
       if \<not> can_price
       then bindS (on_paper (paper_day_locked (au_trade_date plan))) (\<lambda>locked. returnS
         (session_result DATA_BLOCKED None daily locked False [] [] [reason, ''extended_exit_quote_unavailable''] []))
       else fail_closed_exit env plan now reason exit_bid daily position))"

definition fail_closed ::
    "'b session_env \<Rightarrow> AutonomousPaperPlan \<Rightarrow> datetime \<Rightarrow> string \<Rightarrow> dec option \<Rightarrow> datetime option \<Rightarrow> string option
       \<Rightarrow> ('b, PaperSessionResult) session_op" where
  "fail_closed env plan now reason exit_bid quote_asof provenance =
     thenS (require_paper_utc now)
     (thenS (guardS (au_symbol plan \<in> set (sv_owned env))
        (ValueError ''fail-closed plan symbol is not owned by this session''))
     (thenS (guardS (\<not> is_blank reason) (ValueError ''fail-closed reason is required''))
     (bindS (on_fst (sv_get_account env)) (\<lambda>account.
      bindS (liftS (daily_return account)) (\<lambda>daily.
      bindS (on_fst (bp_list_positions (sv_port env))) (\<lambda>listed.
      let positions = filter (\<lambda>p. pp_symbol p = au_symbol plan) listed in
      if 1 < length positions then raiseS (RuntimeError ''Paper broker returned duplicate symbol positions'')
      else if positions = [] then fail_closed_flat env plan now reason daily
      else fail_closed_held env plan now reason exit_bid quote_asof provenance daily (hd positions)))))))"

end
