(* ===== verification/AutoSafety.thy ===== *)
theory AutoSafety
  imports AutoTick
begin

text \<open>
  What the autonomous Paper session sends.  A broker is seen through its book, the list of what it was
  sent; the result is stated on the wire of the Alpaca adapter.  \<open>moved B\<close> relates two states of a session:
  what was sent in between was allowed, and without \<open>B\<close> nothing was bought.
\<close>

section \<open>Brokers that take orders\<close>

datatype broker_call = CancelCall string | CloseCall PaperCloseRequest | EntryCall PaperOrderRequest
  | StopCall PaperStopRequest | ExtendedCall PaperExtendedLimitRequest

locale trading_broker = gated_broker port book
  for port :: "'b broker_port" and book :: "'b \<Rightarrow> 'w list" +
  fixes wire :: "broker_call \<Rightarrow> 'w" and account :: "('b, PaperAccount) op"
  assumes account_silent: "book (snd (account b)) = book b"
    and cancel_call: "book (snd (bp_cancel_order port oid b)) \<in> {book b, book b @ [wire (CancelCall oid)]}"
    and close_call: "book (snd (bp_submit_close_order port c b)) \<in> {book b, book b @ [wire (CloseCall c)]}"
    and entry_call: "book (snd (bp_submit_order port r b)) \<in> {book b, book b @ [wire (EntryCall r)]}"
    and stop_call: "book (snd (bp_submit_stop_order port st b)) \<in> {book b, book b @ [wire (StopCall st)]}"
    and extended_call: "book (snd (bp_submit_extended_limit port x b)) \<in> {book b, book b @ [wire (ExtendedCall x)]}"

sublocale trading_broker \<subseteq> exits: wired_broker port book "\<lambda>oid. wire (CancelCall oid)" "\<lambda>c. wire (CloseCall c)"
    "\<lambda>x. wire (ExtendedCall x)"
  by unfold_locales (rule cancel_call close_call extended_call)+

fun alpaca_call :: "broker_call \<Rightarrow> wire_write" where
  "alpaca_call (CancelCall oid) = delete_order oid"
| "alpaca_call (CloseCall c) = post_order (close_payload c)"
| "alpaca_call (EntryCall r) = post_order (case order_payload r of Inl _ \<Rightarrow> JNull | Inr payload \<Rightarrow> payload)"
| "alpaca_call (StopCall r) = post_order (stop_payload r)"
| "alpaca_call (ExtendedCall x) = post_order (extended_limit_payload x)"

interpretation alpaca_trading: trading_broker "direct_alpaca (recorded env)" snd alpaca_call
  "direct_get_account decode (recorded env)" for env decode
proof (unfold_locales, goal_cases)
  case (2 oid b)
  then show ?case using alpaca_wire.cancel_book by simp
next
  case (3 c b)
  then show ?case using alpaca_wire.close_book by simp
next
  case (4 r b)
  then show ?case using submit_idempotent_log [of env "por_client_order_id r" "case order_payload r of Inl _ \<Rightarrow> JNull | Inr p \<Rightarrow> p" b]
    by (cases "order_payload r") (auto simp: direct_alpaca_def bindS_run liftS_run)
next
  case (5 st b)
  then show ?case using submit_idempotent_log by (simp add: direct_alpaca_def)
next
  case (6 x b)
  then show ?case using alpaca_wire.extended_book by simp
qed (simp add: direct_get_account_log)

section \<open>Commands never come back\<close>

definition command_up :: "paper_command \<Rightarrow> paper_command \<Rightarrow> bool" where
  \<comment> \<open>the identity is kept, and a completed command stays completed\<close>
  "command_up r s \<longleftrightarrow> pc_command_id s = pc_command_id r \<and> pc_trade_date s = pc_trade_date r \<and>
     pc_kind s = pc_kind r \<and> pc_symbol s = pc_symbol r \<and> (pc_completed r \<longrightarrow> pc_completed s) \<and>
     (pc_broker_order_id r \<noteq> None \<longrightarrow> pc_broker_order_id s \<noteq> None)"

interpretation commands: row_cycle pc_command_id "\<lambda>_. True" command_up
  by unfold_locales (auto simp: command_up_def)

abbreviation commands_ok :: "paper_ledger \<Rightarrow> bool" where
  "commands_ok l \<equiv> table_ok pc_command_id (\<lambda>_. True) (pa_commands l)"

abbreviation commands_up :: "paper_ledger \<Rightarrow> paper_ledger \<Rightarrow> bool" where
  "commands_up l l' \<equiv> table_up pc_command_id command_up (pa_commands l) (pa_commands l')"

definition unsent :: "string \<Rightarrow> paper_ledger \<Rightarrow> bool" where
  "unsent cid l \<longleftrightarrow> (case find_command cid l of None \<Rightarrow> True | Some r \<Rightarrow> \<not> pc_completed r)"

definition on_record :: "string \<Rightarrow> paper_ledger \<Rightarrow> bool" where
  "on_record cid l \<longleftrightarrow> find_command cid l \<noteq> None"

lemma unsent_up: "commands_up l l' \<Longrightarrow> unsent cid l' \<Longrightarrow> unsent cid l"
  by (auto simp: unsent_def command_up_def split: option.splits dest: table_upD)

lemma on_record_up: "commands_up l l' \<Longrightarrow> on_record cid l \<Longrightarrow> on_record cid l'"
  by (auto simp: on_record_def dest: table_upD)

definition ledger_same :: "paper_ledger \<Rightarrow> paper_ledger \<Rightarrow> bool" where
  \<comment> \<open>the tables that a command leaves alone\<close>
  "ledger_same l l' \<longleftrightarrow> pa_premarket l' = pa_premarket l \<and> pa_days l' = pa_days l"

lemma ensure_command_step:
  assumes ok: "commands_ok l" and step: "ensure_command cid d kind symb now l = (x, l')"
  shows "commands_ok l' \<and> commands_up l l' \<and> ledger_same l l' \<and>
    (\<forall>c. x = Inr c \<longrightarrow> on_record cid l' \<and> (\<not> cr_completed c \<longrightarrow> unsent cid l'))"
proof (cases "is_utc now \<and> \<not> is_blank cid \<and> \<not> is_blank kind \<and> \<not> is_blank symb")
  case False
  with step have "l' = l" "isl x"
    by (auto simp: ensure_command_def require_paper_utc_def run split: if_splits)
  with ok show ?thesis by (auto simp: commands.table_up_refl ledger_same_def)
next
  case True
  show ?thesis
  proof (cases "find_command cid l")
    case None
    let ?r = "new_command cid d kind symb now"
    have "find_command cid (l\<lparr>pa_commands := tbl_insert ?r (pa_commands l)\<rparr>) = Some ?r"
      using None by (simp add: tbl_find_insert new_command_def)
    with step True None have l': "l' = l\<lparr>pa_commands := tbl_insert ?r (pa_commands l)\<rparr>"
      and x: "find_command cid l' = Some ?r"
      by (auto simp: ensure_command_def require_paper_utc_def run split: if_splits)
    have "commands_ok l' \<and> commands_up l l'"
      unfolding l' using commands.insert_keeps [OF ok, of ?r] None by (simp add: new_command_def)
    with x show ?thesis by (auto simp: l' ledger_same_def on_record_def unsent_def new_command_def)
  next
    case (Some r)
    with step True have "l' = l" "\<forall>c. x = Inr c \<longrightarrow> cr_completed c = pc_completed r"
      by (auto simp: ensure_command_def require_paper_utc_def run split: if_splits)
    with Some ok show ?thesis by (auto simp: commands.table_up_refl ledger_same_def on_record_def unsent_def)
  qed
qed

lemma complete_command_step:
  assumes ok: "commands_ok l" and step: "complete_command cid now oid l = (x, l')"
  shows "commands_ok l' \<and> commands_up l l' \<and> ledger_same l l'"
proof (cases "find_command cid l")
  case None
  with step have "l' = l" by (auto simp: complete_command_def require_paper_utc_def run split: if_splits)
  with ok show ?thesis by (simp add: commands.table_up_refl ledger_same_def)
next
  case (Some r)
  have key: "pc_command_id (completed_command now oid r) = cid" "command_up r (completed_command now oid r)"
    using tbl_find_key [OF Some] by (auto simp: completed_command_def command_up_def split: option.split)
  from commands.update_keeps [where f = "completed_command now oid", OF ok Some key(1) TrueI key(2)]
  have "commands_ok l \<and> commands_up l l \<Longrightarrow> ?thesis"
    using step Some by (auto simp: complete_command_def require_paper_utc_def run ledger_same_def split: if_splits)
  with ok show ?thesis by (simp add: commands.table_up_refl)
qed

section \<open>What may be sent\<close>

definition sent_once :: "string \<Rightarrow> paper_ledger \<Rightarrow> paper_ledger \<Rightarrow> bool" where
  \<comment> \<open>the client order id was not completed before, and is on record afterwards\<close>
  "sent_once cid l l' \<longleftrightarrow> unsent cid l \<and> on_record cid l'"

definition guardian_close :: "PaperCloseRequest \<Rightarrow> bool" where
  "guardian_close c \<longleftrightarrow> (\<exists>d pos. guardian_close_request d pos = Inr c)"

definition outbox_exit :: "PaperExtendedLimitRequest \<Rightarrow> bool" where
  \<comment> \<open>a request of the synthetic stop's outbox\<close>
  "outbox_exit x \<longleftrightarrow> (\<exists>plan cid qty limit_price. stop_request plan cid qty limit_price = Inr x)"

lemma outbox_exit_sells: "outbox_exit x \<Longrightarrow> pel_side x = ''sell''"
  by (auto simp: outbox_exit_def stop_request_def validate_extended_limit_def split: option.splits if_splits)

fun allowed :: "bool \<Rightarrow> paper_ledger \<Rightarrow> paper_ledger \<Rightarrow> broker_call \<Rightarrow> bool" where
  "allowed buys l l' (CancelCall _) = True"
| "allowed buys l l' (CloseCall c) = (sent_once (pcr_client_order_id c) l l' \<or> guardian_close c)"
| "allowed buys l l' (EntryCall r) = (buys \<and> sent_once (por_client_order_id r) l l')"
| "allowed buys l l' (StopCall r) = sent_once (psr_client_order_id r) l l'"
| "allowed buys l l' (ExtendedCall x) =
     (if pel_side x = ''sell'' then sent_once (pel_client_order_id x) l l' \<or> outbox_exit x
      else buys \<and> sent_once (pel_client_order_id x) l l')"

fun is_buy :: "broker_call \<Rightarrow> bool" where
  "is_buy (EntryCall _) = True"
| "is_buy (ExtendedCall x) = (pel_side x \<noteq> ''sell'')"
| "is_buy _ = False"

lemma allowed_buys: "allowed buys l l' c \<Longrightarrow> is_buy c \<Longrightarrow> buys"
  by (cases c) auto

lemma allowed_mono: "allowed buys l l' c \<Longrightarrow> (buys \<Longrightarrow> buys') \<Longrightarrow> allowed buys' l l' c"
  by (cases c) (auto split: if_splits)

lemma sent_once_later: "sent_once cid l l' \<Longrightarrow> commands_up l' l'' \<Longrightarrow> sent_once cid l l''"
  unfolding sent_once_def by (blast intro: on_record_up)

lemma sent_once_earlier: "sent_once cid l' l'' \<Longrightarrow> commands_up l l' \<Longrightarrow> sent_once cid l l''"
  unfolding sent_once_def by (blast intro: unsent_up)

lemma allowed_later: "allowed buys l l' c \<Longrightarrow> commands_up l' l'' \<Longrightarrow> allowed buys l l'' c"
  by (cases c) (auto split: if_splits dest: sent_once_later)

lemma allowed_earlier: "allowed buys l' l'' c \<Longrightarrow> commands_up l l' \<Longrightarrow> allowed buys l l'' c"
  by (cases c) (auto split: if_splits dest: sent_once_earlier)

definition stores_ok :: "session_stores \<Rightarrow> bool" where
  "stores_ok s \<longleftrightarrow> commands_ok (ss_paper s) \<and> stop_ledger_ok (ss_stops s) \<and> guardian_ok (ss_guardian s)"

abbreviation session_ok :: "'b session_desk \<Rightarrow> bool" where
  "session_ok p \<equiv> stores_ok (snd p)"

definition days_up :: "paper_ledger \<Rightarrow> paper_ledger \<Rightarrow> bool" where
  "days_up l l' \<longleftrightarrow> (\<forall>d. tbl_find pd_trade_date d (pa_days l) \<noteq> None \<longrightarrow> tbl_find pd_trade_date d (pa_days l') \<noteq> None)"

definition ledger_up :: "bool \<Rightarrow> paper_ledger \<Rightarrow> paper_ledger \<Rightarrow> bool" where
  "ledger_up buys l l' \<longleftrightarrow> commands_up l l' \<and> days_up l l' \<and> (buys \<or> pa_premarket l' = pa_premarket l)"

lemma days_up_refl: "days_up l l"
  by (simp add: days_up_def)

lemma ledger_up_refl: "commands_ok l \<Longrightarrow> ledger_up buys l l"
  by (simp add: ledger_up_def days_up_refl commands.table_up_refl)

lemma ledger_up_trans:
  assumes "commands_ok l" and "ledger_up buys l m" and "ledger_up buys m n"
  shows "ledger_up buys l n"
proof -
  have u: "keys_unique pc_command_id (pa_commands l)" using assms(1) by (simp only: table_ok_def)
  have up: "commands_up l m" "commands_up m n" using assms(2,3) by (simp_all only: ledger_up_def)
  have "commands_up l n" by (rule commands.table_up_trans [OF u up])
  with assms(2,3) show ?thesis unfolding ledger_up_def days_up_def by auto
qed

lemma ledger_same_up: "commands_up l l' \<Longrightarrow> ledger_same l l' \<Longrightarrow> ledger_up buys l l'"
  by (simp add: ledger_up_def ledger_same_def days_up_def)

context trading_broker
begin

definition moved :: "bool \<Rightarrow> 'b session_desk \<Rightarrow> 'b session_desk \<Rightarrow> bool" where
  "moved buys p q \<longleftrightarrow> ledger_up buys (ss_paper (snd p)) (ss_paper (snd q)) \<and>
     (\<exists>calls. book (fst q) = book (fst p) @ map wire calls \<and>
        (\<forall>c \<in> set calls. allowed buys (ss_paper (snd p)) (ss_paper (snd q)) c))"

lemma movedI:
  "ledger_up buys (ss_paper (snd p)) (ss_paper (snd q)) \<Longrightarrow> book (fst q) = book (fst p) @ map wire calls \<Longrightarrow>
   (\<And>c. c \<in> set calls \<Longrightarrow> allowed buys (ss_paper (snd p)) (ss_paper (snd q)) c) \<Longrightarrow> moved buys p q"
  by (auto simp: moved_def)

lemma moved_quiet:
  "book (fst q) = book (fst p) \<Longrightarrow> ledger_up buys (ss_paper (snd p)) (ss_paper (snd q)) \<Longrightarrow> moved buys p q"
  by (rule movedI [where calls = "[]"]) simp_all

lemma moved_refl: "session_ok p \<Longrightarrow> moved buys p p"
  by (rule moved_quiet) (simp_all add: stores_ok_def ledger_up_refl)

lemma moved_trans:
  assumes ok: "session_ok p" and pq: "moved buys p q" and qr: "moved buys q r"
  shows "moved buys p r"
proof -
  let ?l = "\<lambda>s. ss_paper (snd s)"
  obtain cs where cs: "ledger_up buys (?l p) (?l q)" "book (fst q) = book (fst p) @ map wire cs"
    "\<forall>c \<in> set cs. allowed buys (?l p) (?l q) c" using pq by (auto simp: moved_def)
  obtain ds where ds: "ledger_up buys (?l q) (?l r)" "book (fst r) = book (fst q) @ map wire ds"
    "\<forall>c \<in> set ds. allowed buys (?l q) (?l r) c" using qr by (auto simp: moved_def)
  show ?thesis
  proof (rule movedI)
    show "ledger_up buys (?l p) (?l r)" using ok cs(1) ds(1) by (auto simp: stores_ok_def intro: ledger_up_trans)
    show "book (fst r) = book (fst p) @ map wire (cs @ ds)" using cs(2) ds(2) by simp
    show "allowed buys (?l p) (?l r) c" if "c \<in> set (cs @ ds)" for c
      using that cs(1,3) ds(1,3) by (auto simp: ledger_up_def intro: allowed_later allowed_earlier)
  qed
qed

lemma moved_mono: "moved False p q \<Longrightarrow> moved buys p q"
  by (auto simp: moved_def ledger_up_def intro: allowed_mono)

end

sublocale trading_broker \<subseteq> step: growing session_ok "\<lambda>p q. session_ok p \<longrightarrow> moved buys p q" for buys
  by unfold_locales (auto intro: moved_refl moved_trans)

context trading_broker
begin

abbreviation session_keeps :: "bool \<Rightarrow> ('b, 'a) session_op \<Rightarrow> bool" where
  "session_keeps buys m \<equiv> keeps session_ok (\<lambda>p q. session_ok p \<longrightarrow> moved buys p q) m"

lemma session_keepsI:
  "(\<And>p. session_ok p \<Longrightarrow> session_ok (snd (m p)) \<and> moved buys p (snd (m p))) \<Longrightarrow> session_keeps buys m"
  by (simp add: keeps_def)

lemma session_keepsD:
  "session_keeps buys m \<Longrightarrow> session_ok p \<Longrightarrow> m p = (x, q) \<Longrightarrow> session_ok q \<and> moved buys p q"
  using keepsD [of session_ok _ m p] by force

lemma session_keeps_mono: "session_keeps False m \<Longrightarrow> session_keeps buys m"
  by (auto simp: keeps_def intro: moved_mono)

lemma on_fst_snd: "snd (on_fst m p) = (snd (m (fst p)), snd p)"
  by (simp add: on_fst_def split: prod.split)

lemma keeps_broker:
  assumes "\<And>b. book (snd (m b)) \<in> {book b} \<union> {book b @ [wire c] |c. \<forall>l. allowed buys l l c}"
  shows "session_keeps buys (on_fst m)"
proof (rule session_keepsI)
  fix p :: "'b session_desk" assume ok: "session_ok p"
  let ?q = "(snd (m (fst p)), snd p)"
  have up: "ledger_up buys (ss_paper (snd p)) (ss_paper (snd ?q))" using ok by (simp add: stores_ok_def ledger_up_refl)
  from assms [of "fst p"] consider "book (fst ?q) = book (fst p)"
    | c where "book (fst ?q) = book (fst p) @ map wire [c]" "\<And>l. allowed buys l l c" by auto
  then have "moved buys p ?q"
  proof cases
    case 1
    then show ?thesis using up by (rule moved_quiet)
  next
    case 2
    from up 2(1) show ?thesis by (rule movedI) (simp add: 2(2))
  qed
  with ok show "session_ok (snd (on_fst m p)) \<and> moved buys p (snd (on_fst m p))" by (simp add: on_fst_snd)
qed

lemma keeps_silent: "(\<And>b. book (snd (m b)) = book b) \<Longrightarrow> session_keeps buys (on_fst m)"
  by (rule keeps_broker) simp

lemma keeps_reads:
  "session_keeps buys (on_fst (bp_get_order_by_client_id port cid))" "session_keeps buys (on_fst (bp_list_positions port))"
  "session_keeps buys (on_fst (bp_list_open_orders port))" "session_keeps buys (on_fst account)"
  by (simp_all add: keeps_silent get_silent positions_silent open_orders_silent account_silent)

lemma keeps_paper:
  assumes "\<And>l x l'. commands_ok l \<Longrightarrow> m l = (x, l') \<Longrightarrow> commands_ok l' \<and> ledger_up buys l l'"
  shows "session_keeps buys (on_paper m)"
proof (rule session_keepsI)
  fix p :: "'b session_desk" assume ok: "session_ok p"
  obtain x l' where step: "m (ss_paper (snd p)) = (x, l')" by fastforce
  show "session_ok (snd (on_paper m p)) \<and> moved buys p (snd (on_paper m p))"
    using ok assms [OF _ step] step by (auto simp: on_paper_def stores_ok_def intro!: moved_quiet)
qed

lemma keeps_paper_read: "(\<And>l. snd (m l) = l) \<Longrightarrow> session_keeps buys (on_paper m)"
  by (rule keeps_paper) (metis ledger_up_refl snd_conv)

lemma keeps_ensure: "session_keeps buys (on_paper (ensure_command cid d kind symb now))"
  by (rule keeps_paper) (auto dest: ensure_command_step intro: ledger_same_up)

lemma keeps_complete: "session_keeps buys (on_paper (complete_command cid now oid))"
  by (rule keeps_paper) (auto dest: complete_command_step intro: ledger_same_up)

lemma keeps_cancel: "session_keeps buys (on_fst (bp_cancel_order port oid))"
  by (rule keeps_broker) (use cancel_call in fastforce)

lemma keeps_may_write: "session_keeps buys (may_write env)"
  unfolding may_write_def by (rule step.keeps_read)

text \<open>\<open>sends c m\<close>: \<open>m\<close> leaves the tables alone and sends at most the call \<open>c\<close>, whatever \<open>m\<close> checks first.\<close>

definition sends :: "(broker_call \<Rightarrow> bool) \<Rightarrow> ('b, 'a) session_op \<Rightarrow> bool" where
  "sends C m \<longleftrightarrow> (\<forall>p. snd (snd (m p)) = snd p \<and>
     (book (fst (snd (m p))) = book (fst p) \<or> (\<exists>c. C c \<and> book (fst (snd (m p))) = book (fst p) @ [wire c])))"

lemma sendsD: "sends C m \<Longrightarrow> m p = (y, q) \<Longrightarrow> snd q = snd p \<and>
    (book (fst q) = book (fst p) \<or> (\<exists>c. C c \<and> book (fst q) = book (fst p) @ [wire c]))"
  unfolding sends_def by (drule spec [of _ p]) simp

lemma sends_lift: "(\<And>x. r = Inr x \<Longrightarrow> sends C (f x)) \<Longrightarrow> sends C (bindS (liftS r) f)"
  by (cases r) (simp_all add: sends_def bindS_run liftS_run)

lemma sends_if: "(b \<Longrightarrow> sends C m) \<Longrightarrow> (\<not> b \<Longrightarrow> sends C n) \<Longrightarrow> sends C (if b then m else n)"
  by simp

lemma sends_raise: "sends C (raiseS e)"
  by (simp add: sends_def)

lemma sends_call:
  "(\<And>b. book (snd (m b)) \<in> {book b, book b @ [wire c]}) \<Longrightarrow> C c \<Longrightarrow> sends C (on_fst m)"
  unfolding sends_def on_fst_snd by auto

lemma keeps_once:
  assumes m: "sends C m" and all: "\<And>c l l'. C c \<Longrightarrow> sent_once cid l l' \<Longrightarrow> allowed buys l l' c"
  shows "session_keeps buys (once cid d kind symb now m)"
proof (rule session_keepsI)
  fix p :: "'b session_desk" assume ok: "session_ok p"
  let ?e = "on_paper (ensure_command cid d kind symb now)"
  obtain x p1 where e: "?e p = (x, p1)" by (cases "?e p")
  have p1: "session_ok p1" "moved buys p p1" using session_keepsD [OF keeps_ensure ok e] by auto
  have st: "fst p1 = fst p \<and> (\<forall>c. x = Inr c \<longrightarrow> on_record cid (ss_paper (snd p1)) \<and>
      (\<not> cr_completed c \<longrightarrow> unsent cid (ss_paper (snd p1))))"
    using e ok ensure_command_step [of "ss_paper (snd p)" cid d kind symb now]
    by (auto simp: on_paper_def stores_ok_def split: prod.splits)
  show "session_ok (snd (once cid d kind symb now m p)) \<and> moved buys p (snd (once cid d kind symb now m p))"
  proof (cases "\<exists>c. x = Inr c \<and> \<not> cr_completed c")
    case False
    with e p1 show ?thesis by (auto simp: once_def bindS_run split: sum.split)
  next
    case True
    then obtain c where c: "x = Inr c" "\<not> cr_completed c" by blast
    let ?send = "bindS m (\<lambda>order. thenS (on_paper (complete_command cid now (Some (bo_id order))))
              (returnS (True, Some (bo_id order))))"
    obtain y p2 where s: "m p1 = (y, p2)" by (cases "m p1")
    have p2: "snd p2 = snd p1" and bk: "book (fst p2) = book (fst p1) \<or> (\<exists>k. C k \<and> book (fst p2) = book (fst p1) @ [wire k])"
      using sendsD [OF m s] by auto
    have m2: "moved buys p1 p2"
    proof -
      have up: "ledger_up buys (ss_paper (snd p1)) (ss_paper (snd p2))"
        using p1(1) by (simp add: p2 stores_ok_def ledger_up_refl)
      from bk show ?thesis
      proof
        assume "book (fst p2) = book (fst p1)"
        then show ?thesis using up by (rule moved_quiet)
      next
        assume "\<exists>k. C k \<and> book (fst p2) = book (fst p1) @ [wire k]"
        then obtain k where k: "C k" "book (fst p2) = book (fst p1) @ map wire [k]" by auto
        have "sent_once cid (ss_paper (snd p1)) (ss_paper (snd p2))" using st c by (simp add: sent_once_def p2)
        from up k(2) show ?thesis by (rule movedI) (simp add: all [OF k(1)] \<open>sent_once _ _ _\<close>)
      qed
    qed
    have ok2: "session_ok p2" using p1(1) p2 by simp
    let ?fin = "\<lambda>order. thenS (on_paper (complete_command cid now (Some (bo_id order))))
        (returnS (True, Some (bo_id order)))"
    have fin: "session_keeps buys (?fin order)" for order
      by (intro step.keeps_then step.keeps_return keeps_complete)
    have m3: "moved buys p p2" by (rule moved_trans [OF ok p1(2) m2])
    show ?thesis
    proof (cases y)
      case (Inl e')
      with e c s ok2 m3 show ?thesis by (simp add: once_def)
    next
      case (Inr order)
      obtain z p3 where z: "?fin order p2 = (z, p3)" by (cases "?fin order p2")
      with e c s Inr have "snd (once cid d kind symb now m p) = p3" by (simp add: once_def)
      with session_keepsD [OF fin ok2 z] moved_trans [OF ok m3] show ?thesis by simp
    qed
  qed
qed

end

section \<open>Every step of a session\<close>

definition exit_call :: "string \<Rightarrow> broker_call \<Rightarrow> bool" where
  "exit_call cid c = (case c of CloseCall r \<Rightarrow> pcr_client_order_id r = cid
     | ExtendedCall x \<Rightarrow> pel_side x = ''sell'' \<and> pel_client_order_id x = cid | _ \<Rightarrow> False)"

definition buy_call :: "string \<Rightarrow> broker_call \<Rightarrow> bool" where
  "buy_call cid c = (case c of EntryCall r \<Rightarrow> por_client_order_id r = cid
     | ExtendedCall x \<Rightarrow> pel_side x = ''buy'' \<and> pel_client_order_id x = cid | _ \<Rightarrow> False)"

lemma exit_call_allowed: "exit_call cid c \<Longrightarrow> sent_once cid l l' \<Longrightarrow> allowed buys l l' c"
  by (cases c) (auto simp: exit_call_def)

lemma buy_call_allowed: "buy_call cid c \<Longrightarrow> sent_once cid l l' \<Longrightarrow> allowed True l l' c"
  by (cases c) (auto simp: buy_call_def)

lemma validated_requests:
  "validate_close_request c = Inr c' \<Longrightarrow> c' = c" "validate_extended_limit x = Inr x' \<Longrightarrow> x' = x"
  "validate_order_request r = Inr r' \<Longrightarrow> r' = r" "validate_stop_request s = Inr s' \<Longrightarrow> s' = s"
  by (auto simp: validate_close_request_def validate_extended_limit_def validate_order_request_def
      validate_stop_request_def split: option.splits if_splits)

context trading_broker
begin

lemma sends_close: "sends (exit_call cid) (bindS (liftS (validate_close_request
    \<lparr>pcr_client_order_id = cid, pcr_symbol = symb, pcr_qty = qty\<rparr>)) (\<lambda>r. on_fst (bp_submit_close_order port r)))"
  by (rule sends_lift, drule validated_requests, rule sends_call, rule close_call) (simp add: exit_call_def)

lemma sends_extended:
  assumes "\<And>x. pel_client_order_id x = cid \<Longrightarrow> pel_side x = side \<Longrightarrow> C (ExtendedCall x)"
  shows "sends C (bindS (liftS (validate_extended_limit \<lparr>pel_client_order_id = cid, pel_symbol = symb, pel_qty = qty,
    pel_side = side, pel_limit_price = price\<rparr>)) (\<lambda>x. on_fst (bp_submit_extended_limit port x)))"
  by (rule sends_lift, drule validated_requests, rule sends_call, rule extended_call) (simp add: assms)

end

locale session_broker = trading_broker port book wire account
  for port :: "'b broker_port" and book :: "'b \<Rightarrow> 'w list" and wire :: "broker_call \<Rightarrow> 'w"
    and account :: "('b, PaperAccount) op" +
  fixes env :: "'b session_env"
  assumes env_port: "sv_port env = port" and env_account: "sv_get_account env = account"
begin

lemma sends_exit: "sends (exit_call cid) (session_exit_order env now cid symb qty bid)"
  unfolding session_exit_order_def close_order_def extended_order_def env_port
  by (intro sends_if sends_close sends_lift sends_extended) (simp add: exit_call_def)

lemmas step_rules = step.keeps_rules keeps_reads [folded env_port] keeps_may_write
  keeps_ensure keeps_complete keeps_cancel [folded env_port]

lemma keeps_cancel_once: "session_keeps buys (cancel_order_once env d order now)"
  unfolding cancel_order_once_def Let_def by (intro step_rules)

lemma keeps_cancel_listed: "session_keeps buys (cancel_listed env d now orders)"
  unfolding cancel_listed_def by (intro step_rules keeps_cancel_once)

lemma keeps_open_orders: "session_keeps buys (open_orders_of env symb)"
  unfolding open_orders_of_def by (intro step_rules)

lemma keeps_held: "session_keeps buys (held_quantity env symb)"
  unfolding held_quantity_def by (intro step_rules)

lemma keeps_exit_once: "sends (exit_call cid) m \<Longrightarrow> session_keeps buys (once cid d kind symb now m)"
  by (erule keeps_once) (rule exit_call_allowed)

lemma keeps_buy_once: "sends (buy_call cid) m \<Longrightarrow> session_keeps True (once cid d kind symb now m)"
  by (erule keeps_once) (rule buy_call_allowed)

lemma keeps_pair: "(\<And>x y. keeps P R (f x y)) \<Longrightarrow> keeps P R (case z of (x, y) \<Rightarrow> f x y)"
  by (cases z) simp

lemma keeps_locked: "session_keeps buys (on_paper (paper_day_locked d))"
  by (rule keeps_paper_read) (simp add: paper_day_locked_def)

lemma keeps_get_premarket: "session_keeps buys (on_paper (get_premarket pid))"
  by (rule keeps_paper_read) (simp add: get_premarket_def bindS_run liftS_run split: option.split sum.split)

lemmas exit_rules = step_rules keeps_cancel_listed keeps_open_orders keeps_held keeps_exit_once sends_exit keeps_pair
  keeps_locked keeps_get_premarket

lemma keeps_cancel_and_flatten: "session_keeps buys (cancel_and_flatten env plan snap)"
  unfolding cancel_and_flatten_def flatten_session_position_def Let_def by (intro exit_rules)

lemma keeps_cancel_symbol_and_close: "session_keeps buys (cancel_symbol_and_close env plan decision snap)"
  unfolding cancel_symbol_and_close_def Let_def by (intro exit_rules)

lemma keeps_reduce_to_target: "session_keeps buys (reduce_to_target env plan snap decision acc)"
  unfolding reduce_to_target_def Let_def by (intro exit_rules)

end

context session_broker
begin

lemma keeps_stop_once:
  "session_keeps buys (bindS (on_paper (ensure_command cid d kind symb now)) (\<lambda>command.
     if cr_completed command then raiseS e
     else bindS (liftS (validate_stop_request \<lparr>psr_client_order_id = cid, psr_symbol = symb', psr_qty = qty,
            psr_stop_price = price\<rparr>)) (\<lambda>request.
       bindS (on_fst (bp_submit_stop_order port request)) (\<lambda>order.
       thenS (on_paper (complete_command cid now (Some (bo_id order)))) (returnS (False, Some (bo_id order)))))))"
    (is "session_keeps buys ?m")
proof (rule session_keepsI)
  fix p :: "'b session_desk" assume ok: "session_ok p"
  let ?send = "bindS (liftS (validate_stop_request \<lparr>psr_client_order_id = cid, psr_symbol = symb', psr_qty = qty,
      psr_stop_price = price\<rparr>)) (\<lambda>request. on_fst (bp_submit_stop_order port request))"
  have s: "sends (\<lambda>c. \<exists>r. c = StopCall r \<and> psr_client_order_id r = cid) ?send"
    by (rule sends_lift, drule validated_requests, rule sends_call, rule stop_call) simp
  have o: "session_keeps buys (once cid d kind symb now ?send)"
    by (rule keeps_once [OF s]) auto
  have "snd (?m p) = snd (once cid d kind symb now ?send p)"
    by (simp add: once_def bindS_run thenS_run liftS_run split: prod.split sum.split)
  moreover obtain x q where "once cid d kind symb now ?send p = (x, q)" by (cases "once cid d kind symb now ?send p")
  ultimately show "session_ok (snd (?m p)) \<and> moved buys p (snd (?m p))"
    using session_keepsD [OF o ok] by simp
qed

lemma keeps_regular_stop: "session_keeps buys (ensure_premarket_regular_stop env plan snap)"
  unfolding ensure_premarket_regular_stop_def Let_def env_port
  by (intro exit_rules [unfolded env_port] keeps_stop_once)

lemma row_request_exit: "row_request r = Inr x \<Longrightarrow> outbox_exit x"
  by (auto simp: row_request_def outbox_exit_def split: option.splits)

lemma allowed_outbox: "outbox_exit x \<Longrightarrow> allowed buys l l' (ExtendedCall x)"
  by (simp add: outbox_exit_sells)

lemma validated_stop_plan: "validate_stop_plan plan = Inr plan' \<Longrightarrow> plan' = plan \<and> validate_stop_plan plan' = Inr plan'"
  by (auto simp: validate_stop_plan_def split: if_splits)

lemma validated_stop_snapshot: "validate_snapshot s = Inr s' \<Longrightarrow> s' = s \<and> validate_snapshot s' = Inr s'"
  by (auto simp: validate_snapshot_def split: option.splits if_splits)

lemma keeps_tick_stop:
  assumes plan: "validate_stop_plan plan = Inr plan" and snap: "validate_snapshot snap = Inr snap"
  shows "session_keeps buys (on_stops (tick_stop port sha16 auth plan snap))"
proof (rule session_keepsI)
  fix p :: "'b session_desk" assume ok: "session_ok p"
  obtain x b' l' where step: "tick_stop port sha16 auth plan snap (fst p, ss_stops (snd p)) = (x, (b', l'))"
    by (metis prod.exhaust)
  have stops: "stop_ledger_ok (ss_stops (snd p))" using ok by (simp add: stores_ok_def)
  let ?q = "(b', (snd p)\<lparr>ss_stops := l'\<rparr>)"
  from exits.tick_stop_outcome [OF stops plan snap step] obtain r' rec can sub where
    l': "stop_ledger_ok l'" and bk: "book b' = book (fst p) @ rec @ can @ sub"
    and rec: "rec = [] \<or> (\<exists>q. row_request (stop_row_for plan (sn_observed_at_utc snap) (ss_stops (snd p))) = Inr q \<and>
       rec = [wire (ExtendedCall q)])"
    and can: "can = [] \<or> (\<exists>oid. can = [wire (CancelCall oid)])"
    and sub: "sub = [] \<or> (\<exists>q. row_request r' = Inr q \<and> sub = [wire (ExtendedCall q)])" by blast
  have some: "\<exists>cs. ws = map wire cs \<and> (\<forall>c \<in> set cs. \<forall>l. allowed buys l l c)"
    if "ws = [] \<or> (\<exists>c. ws = [wire c] \<and> (\<forall>l. allowed buys l l c))" for ws
    using that by (elim disjE exE conjE) (rule exI [of _ "[]"], simp, rule exI [of _ "[_]"], simp)
  obtain c1 where c1: "rec = map wire c1" "\<forall>c \<in> set c1. \<forall>l. allowed buys l l c"
    using some [of rec] rec allowed_outbox [OF row_request_exit] by blast
  obtain c2 where c2: "can = map wire c2" "\<forall>c \<in> set c2. \<forall>l. allowed buys l l c"
    using some [of can] can allowed.simps(1) by blast
  obtain c3 where c3: "sub = map wire c3" "\<forall>c \<in> set c3. \<forall>l. allowed buys l l c"
    using some [of sub] sub allowed_outbox [OF row_request_exit] by blast
  have "moved buys p ?q"
  proof (rule movedI)
    show "ledger_up buys (ss_paper (snd p)) (ss_paper (snd ?q))" using ok by (simp add: stores_ok_def ledger_up_refl)
    show "book (fst ?q) = book (fst p) @ map wire (c1 @ c2 @ c3)" using bk c1(1) c2(1) c3(1) by simp
  qed (use c1(2) c2(2) c3(2) in auto)
  with ok l' show "session_ok (snd (on_stops (tick_stop port sha16 auth plan snap) p)) \<and>
      moved buys p (snd (on_stops (tick_stop port sha16 auth plan snap) p))"
    by (simp add: on_stops_def step stores_ok_def)
qed

lemma keeps_lift_bind: "(\<And>x. r = Inr x \<Longrightarrow> session_keeps buys (f x)) \<Longrightarrow> session_keeps buys (bindS (liftS r) f)"
  by (cases r) (simp_all add: keeps_def liftS_run bindS_run moved_refl)

lemma keeps_extended_hours_stop: "session_keeps buys (run_extended_hours_stop env plan snap acc)"
  unfolding run_extended_hours_stop_def Let_def env_port
  by (intro step.keeps_if step.keeps_return keeps_lift_bind step.keeps_bind keeps_held keeps_get_premarket
      keeps_tick_stop) (auto dest: validated_stop_plan validated_stop_snapshot)

lemma keeps_premarket_write:
  assumes "\<And>l x l'. m l = (x, l') \<Longrightarrow> pa_commands l' = pa_commands l \<and> pa_days l' = pa_days l"
  shows "session_keeps True (on_paper m)"
proof (rule keeps_paper)
  fix l x l' assume "commands_ok l" and "m l = (x, l')"
  with assms [of l x l'] show "commands_ok l' \<and> ledger_up True l l'"
    by (simp add: ledger_up_def days_up_def commands.table_up_refl)
qed

lemma keeps_open_premarket: "session_keeps True (on_paper (open_premarket plan qty now))"
  by (rule keeps_premarket_write)
    (auto simp: open_premarket_def get_premarket_def ensure_premarket_def require_paper_utc_def run
      split: option.splits sum.splits if_splits)

lemma keeps_save_premarket: "session_keeps True (on_paper (save_premarket pid rt client broker now))"
  by (rule keeps_premarket_write)
    (auto simp: save_premarket_def require_paper_utc_def run split: option.splits sum.splits if_splits)

lemma keeps_run_premarket_entry: "session_keeps True (run_premarket_entry env plan snap target filled)"
  unfolding run_premarket_entry_def send_premarket_order_def extended_order_def Let_def env_port
  by (intro exit_rules [unfolded env_port] keeps_open_premarket keeps_save_premarket keeps_cancel_once keeps_buy_once
      sends_extended) (simp add: buy_call_def)

lemma keeps_submit_component: "session_keeps True (submit_component env plan decision now tp x)"
  unfolding submit_component_def Let_def env_port
  by (intro keeps_pair step_rules keeps_buy_once)
    (rule sends_lift, drule validated_requests, rule sends_call, rule entry_call, simp add: buy_call_def)

lemma keeps_submit_entry: "session_keeps True (submit_entry env plan snap decision acc)"
  unfolding submit_entry_def submit_regular_entry_def Let_def
  by (intro exit_rules keeps_run_premarket_entry keeps_submit_component)

lemma keeps_lifecycle_write:
  assumes "\<And>l x l'. m l = (x, l') \<Longrightarrow> pa_commands l' = pa_commands l \<and> pa_days l' = pa_days l \<and>
      pa_premarket l' = pa_premarket l"
  shows "session_keeps buys (on_paper m)"
proof (rule keeps_paper)
  fix l x l' assume "commands_ok l" and "m l = (x, l')"
  with assms [of l x l'] show "commands_ok l' \<and> ledger_up buys l l'"
    by (simp add: ledger_up_def days_up_def commands.table_up_refl)
qed

lemma keeps_advance_tail: "session_keeps buys (on_paper (advance_tail_runtime pid t r v))"
  by (rule keeps_lifecycle_write)
    (auto simp: advance_tail_runtime_def require_paper_utc_def Let_def run split: option.splits if_splits)

lemma keeps_mark_realized: "session_keeps buys (on_paper (mark_main_profit_realized pid t))"
  by (rule keeps_lifecycle_write)
    (auto simp: mark_main_profit_realized_def require_paper_utc_def run split: option.splits if_splits)

lemma keeps_component_ids: "session_keeps buys (on_paper (entry_component_client_ids d symb component))"
  by (rule keeps_paper_read) (simp add: entry_component_client_ids_def thenS_run guardS_run)

lemma keeps_realized: "session_keeps buys (on_paper (main_profit_realized pid))"
  by (rule keeps_paper_read) (simp add: main_profit_realized_def)

lemma keeps_tail_evidence: "session_keeps buys (with_tail_evidence plan snap)"
  unfolding with_tail_evidence_def Let_def
  by (auto split: prod.split option.split intro!: step_rules keeps_advance_tail)

lemma keeps_lifecycle_state: "session_keeps buys (with_lifecycle_state env plan snap acc)"
  unfolding with_lifecycle_state_def
  by (intro exit_rules keeps_mark_realized keeps_component_ids keeps_realized keeps_tail_evidence)

end

section \<open>A tick\<close>

definition premarket_active :: "'b session_env \<Rightarrow> AutonomousPaperPlan \<Rightarrow> PaperSessionSnapshot \<Rightarrow> paper_ledger \<Rightarrow> bool" where
  \<comment> \<open>a premarket entry of the plan is on record and not over\<close>
  "premarket_active env plan snap l \<longleftrightarrow> is_premarket env (observed_at snap) \<and>
     (case find_premarket (premarket_entry_id plan) l of None \<Rightarrow> False
      | Some r \<Rightarrow> er_completed_at_utc (pm_runtime r) = None)"

definition may_open :: "'b session_env \<Rightarrow> PaperSessionSnapshot \<Rightarrow> PaperAccount \<Rightarrow> dec \<Rightarrow> bool" where
  \<comment> \<open>what a new entry needs apart from the policy's decision\<close>
  "may_open env snap acc daily \<longleftrightarrow> \<not> soft_loss daily \<and> sv_authorized env \<and> account_is_active acc \<and>
     quote_is_fresh (observed_at snap) (sq_quote_asof_utc snap) \<and>
     (is_premarket env (observed_at snap) \<or> is_regular env (observed_at snap))"

lemma premarket_record_same: "premarket_record (Some r) = Inr r' \<Longrightarrow> r' = r"
  by (auto simp: premarket_record_def split: sum.splits)

lemma get_premarket_result:
  "get_premarket pid l = (x, l') \<Longrightarrow> l' = l \<and> (\<forall>found. x = Inr found \<longrightarrow> found = find_premarket pid l)"
  by (cases "find_premarket pid l")
    (auto simp: get_premarket_def bindS_run liftS_run dest!: premarket_record_same split: sum.splits)

lemma may_write_run: "may_write env p = (Inr (sv_authorized env \<and> bp_writes_enabled (sv_port env) (fst p)), p)"
  by (simp add: may_write_def)

lemma guardian_clear_iff:
  "guardian_reconcile port ny auth prefix d now owned p = (Inr res, q) \<Longrightarrow>
     gr_new_entries_allowed res \<longleftrightarrow> gr_status res = CLEAR"
  by (auto simp: guardian_reconcile_def guardian_act_def guardian_result_def Let_def thenS_run bindS_run guardS_run
      split: prod.splits sum.splits if_splits)

lemma with_tail_evidence_keeps_time:
  "with_tail_evidence plan snap p = (Inr snap', q) \<Longrightarrow>
     observed_at snap' = observed_at snap \<and> sq_quote_asof_utc snap' = sq_quote_asof_utc snap"
  by (auto simp: with_tail_evidence_def Let_def bindS_eq_Inr split: option.splits prod.splits if_splits)

lemma lifecycle_keeps_time:
  "with_lifecycle_state env plan snap acc p = (Inr snap', q) \<Longrightarrow>
     observed_at snap' = observed_at snap \<and> sq_quote_asof_utc snap' = sq_quote_asof_utc snap"
  by (auto simp: with_lifecycle_state_def realized_def bindS_eq_Inr thenS_eq_Inr split: if_splits
      dest!: with_tail_evidence_keeps_time)

context session_broker
begin

lemma moved_binds:
  assumes ok: "session_ok p" and m: "session_keeps False m" and step: "bindS m f p = (x, q)"
    and f: "\<And>y p1. m p = (Inr y, p1) \<Longrightarrow> session_ok p1 \<Longrightarrow> moved False p p1 \<Longrightarrow> f y p1 = (x, q) \<Longrightarrow>
      session_ok q \<and> moved buys p1 q"
  shows "session_ok q \<and> moved buys p q"
proof -
  obtain r p1 where r: "m p = (r, p1)" by (cases "m p")
  have p1: "session_ok p1" "moved False p p1" using session_keepsD [OF m ok r] by auto
  show ?thesis
  proof (cases r)
    case (Inl e)
    with r step p1 show ?thesis by (simp add: moved_mono)
  next
    case (Inr y)
    with f [of y p1] r step p1 have "session_ok q" "moved buys p1 q" by auto
    then show ?thesis using moved_trans [OF ok moved_mono [OF p1(2)]] by blast
  qed
qed

lemma keeps_moved: "session_ok p \<Longrightarrow> session_keeps buys m \<Longrightarrow> m p = (x, q) \<Longrightarrow> session_ok q \<and> moved buys p q"
  by (rule session_keepsD)

lemma premarket_kept: "moved False p q \<Longrightarrow> premarket_active env' plan snap (ss_paper (snd q)) =
    premarket_active env' plan snap (ss_paper (snd p))"
  by (simp add: moved_def ledger_up_def premarket_active_def)

lemma continue_premarket_moved:
  assumes ok: "session_ok p" and step: "continue_premarket env plan snap p = (x, q)"
  shows "session_ok q \<and> moved (premarket_active env plan snap (ss_paper (snd p))) p q"
proof (cases "premarket_active env plan snap (ss_paper (snd p))")
  case True
  have "session_keeps True (continue_premarket env plan snap)"
    unfolding continue_premarket_def by (intro exit_rules keeps_run_premarket_entry)
  with session_keepsD [OF this ok step] True show ?thesis by simp
next
  case False
  obtain y l' where g: "get_premarket (premarket_entry_id plan) (ss_paper (snd p)) = (y, l')"
    by (cases "get_premarket (premarket_entry_id plan) (ss_paper (snd p))")
  with get_premarket_result [OF g] step False have "q = p"
    by (cases p) (auto simp: continue_premarket_def on_paper_def bindS_run premarket_active_def
        split: sum.splits option.splits if_splits)
  with ok show ?thesis by (simp add: moved_refl)
qed

lemma tick_rest_moved:
  assumes ok: "session_ok p" and step: "tick_rest env plan snap acc daily decision p = (x, q)"
  shows "session_ok q \<and> moved (premarket_active env plan snap (ss_paper (snd p))) p q"
proof -
  let ?B = "premarket_active env plan snap (ss_paper (snd p))"
  obtain r p1 where c: "continue_premarket env plan snap p = (r, p1)" by (cases "continue_premarket env plan snap p")
  have p1: "session_ok p1" "moved ?B p p1" using continue_premarket_moved [OF ok c] by auto
  show ?thesis
  proof (cases r)
    case (Inl e)
    with c step p1 show ?thesis by (simp add: tick_rest_def Let_def)
  next
    case (Inr y)
    obtain r2 p2 where s: "run_extended_hours_stop env plan snap acc p1 = (r2, p2)"
      by (cases "run_extended_hours_stop env plan snap acc p1")
    have "session_ok p2" "moved ?B p1 p2" using session_keepsD [OF keeps_extended_hours_stop p1(1) s] by auto
    moreover have "q = p2" using step c s Inr by (auto simp: tick_rest_def Let_def bindS_run split: sum.splits)
    ultimately show ?thesis using moved_trans [OF ok p1(2)] by simp
  qed
qed

lemma tick_entry_moved:
  assumes ok: "session_ok p" and daily: "\<not> soft_loss daily"
    and step: "tick_entry env plan snap acc daily decision p = (x, q)"
  shows "session_ok q \<and> moved (may_open env snap acc daily \<or> premarket_active env plan snap (ss_paper (snd p))) p q"
    (is "_ \<and> moved ?B p q")
proof (cases "quote_is_fresh (observed_at snap) (sq_quote_asof_utc snap) \<and> sv_authorized env \<and>
    bp_writes_enabled (sv_port env) (fst p)")
  case False
  with step have "q = p" by (auto simp: tick_entry_def bindS_run may_write_run split: if_splits)
  with ok show ?thesis by (simp add: moved_refl)
next
  case True
  then have step': "bindS (submit_entry env plan snap decision acc) (\<lambda>ids.
      if ids \<noteq> [] then returnS (session_result ENTRY_SUBMITTED (Some decision) daily False True [] []
        (pd_reasons decision) ids) else tick_rest env plan snap acc daily decision) p = (x, q)"
    using step by (simp add: tick_entry_def bindS_run [of "may_write env"] may_write_run)
  show ?thesis
  proof (cases "may_open env snap acc daily")
    case open': True
    have "session_keeps True (continue_premarket env plan snap)"
      unfolding continue_premarket_def by (intro exit_rules keeps_run_premarket_entry)
    then have "session_keeps True (tick_rest env plan snap acc daily decision)"
      unfolding tick_rest_def Let_def by (intro exit_rules keeps_extended_hours_stop)
    then have "session_keeps True (bindS (submit_entry env plan snap decision acc) (\<lambda>ids.
      if ids \<noteq> [] then returnS (session_result ENTRY_SUBMITTED (Some decision) daily False True [] []
        (pd_reasons decision) ids) else tick_rest env plan snap acc daily decision))"
      by (intro exit_rules keeps_submit_entry)
    from session_keepsD [OF this ok step'] open' show ?thesis by simp
  next
    case False
    with True daily have "submit_entry env plan snap decision acc = returnS []"
      by (auto simp: may_open_def submit_entry_def Let_def)
    with step' have "tick_rest env plan snap acc daily decision p = (x, q)" by simp
    from tick_rest_moved [OF ok this] False show ?thesis by simp
  qed
qed

lemma tick_reduction_moved:
  assumes ok: "session_ok p" and step: "tick_reduction env plan snap acc daily decision p = (x, q)"
  shows "session_ok q \<and> moved (premarket_active env plan snap (ss_paper (snd p))) p q"
proof (rule moved_binds [OF ok keeps_may_write step [unfolded tick_reduction_def]])
  fix writes p1
  assume p1: "session_ok p1" "moved False p p1" and
    s1: "(if \<not> writes then returnS (blocked_result WRITES_BLOCKED decision daily
           (pd_reasons decision @ [''paper_reduction_writes_not_authorized'']))
       else bindS (reduce_to_target env plan snap decision acc) (\<lambda>(cancelled, reduced). case reduced of
         Some b \<Rightarrow> returnS (session_result REDUCE_SUBMITTED (Some decision) daily False
           (\<not> soft_loss daily) cancelled [b] (pd_reasons decision) [b])
       | None \<Rightarrow> tick_rest env plan snap acc daily decision)) p1 = (x, q)"
  show "session_ok q \<and> moved (premarket_active env plan snap (ss_paper (snd p))) p1 q"
  proof (cases writes)
    case False
    with s1 p1 show ?thesis by (auto intro: moved_refl)
  next
    case True
    with s1 have s2: "bindS (reduce_to_target env plan snap decision acc) (\<lambda>(cancelled, reduced). case reduced of
         Some b \<Rightarrow> returnS (session_result REDUCE_SUBMITTED (Some decision) daily False
           (\<not> soft_loss daily) cancelled [b] (pd_reasons decision) [b])
       | None \<Rightarrow> tick_rest env plan snap acc daily decision) p1 = (x, q)" by simp
    show ?thesis
    proof (rule moved_binds [OF p1(1) keeps_reduce_to_target s2])
      fix y p2 assume p2: "session_ok p2" "moved False p1 p2"
        and s3: "(case y of (cancelled, reduced) \<Rightarrow> case reduced of
         Some b \<Rightarrow> returnS (session_result REDUCE_SUBMITTED (Some decision) daily False
           (\<not> soft_loss daily) cancelled [b] (pd_reasons decision) [b])
       | None \<Rightarrow> tick_rest env plan snap acc daily decision) p2 = (x, q)"
      show "session_ok q \<and> moved (premarket_active env plan snap (ss_paper (snd p))) p2 q"
      proof (cases "snd y")
        case None
        with s3 have "tick_rest env plan snap acc daily decision p2 = (x, q)" by (simp split: prod.splits)
        from tick_rest_moved [OF p2(1) this] show ?thesis
          unfolding premarket_kept [OF p2(2)] premarket_kept [OF p1(2)] .
      next
        case (Some b)
        with s3 p2 show ?thesis by (auto split: prod.splits intro: moved_refl)
      qed
    qed
  qed
qed

lemma tick_decided_moved:
  assumes ok: "session_ok p" and step: "tick_decided env plan snap acc daily decision p = (x, q)"
  shows "session_ok q \<and> moved ((opens decision \<and> may_open env snap acc daily) \<or>
      premarket_active env plan snap (ss_paper (snd p))) p q" (is "_ \<and> moved ?B p q")
proof -
  consider (soft) "soft_loss daily \<and> opens decision"
    | (leave) "\<not> (soft_loss daily \<and> opens decision)" "pd_action decision = EXIT"
    | (other) "\<not> (soft_loss daily \<and> opens decision)" "pd_action decision \<noteq> EXIT" by blast
  then show ?thesis
  proof cases
    case soft
    with step ok show ?thesis by (auto simp: tick_decided_def intro: moved_refl)
  next
    case leave
    have "session_keeps False (tick_exit env plan snap daily decision)"
      unfolding tick_exit_def by (intro exit_rules keeps_cancel_symbol_and_close)
    moreover have "tick_exit env plan snap daily decision p = (x, q)" 
      using step unfolding tick_decided_def if_not_P [OF leave(1)] if_P [OF leave(2)] .
    ultimately show ?thesis using session_keepsD [OF _ ok] moved_mono by blast
  next
    case other
    let ?rest = "\<lambda>(required, stop_id). if required then returnS (blocked_result WRITES_BLOCKED decision daily
            [''premarket_position_protection_not_authorized''])
        else case stop_id of
          Some b \<Rightarrow> returnS (session_result PROTECTION_SUBMITTED (Some decision) daily False False [] []
            [''premarket_regular_stop_attached''] [b])
        | None \<Rightarrow>
            if opens decision then tick_entry env plan snap acc daily decision
            else if pd_action decision \<in> {TRIM_TO_TAIL, REDUCE_TAIL}
            then tick_reduction env plan snap acc daily decision
            else tick_rest env plan snap acc daily decision"
    have s1: "bindS (ensure_premarket_regular_stop env plan snap) ?rest p = (x, q)"
      using step unfolding tick_decided_def if_not_P [OF other(1)] if_not_P [OF other(2)] .
    show ?thesis
    proof (rule moved_binds [OF ok keeps_regular_stop s1])
      fix y p1 assume p1: "session_ok p1" "moved False p p1" and s2: "?rest y p1 = (x, q)"
      note kept = premarket_kept [OF p1(2)]
      consider (quiet) "q = p1" | (entry) "opens decision" "tick_entry env plan snap acc daily decision p1 = (x, q)"
        | (reduce) "tick_reduction env plan snap acc daily decision p1 = (x, q)"
        | (rest) "tick_rest env plan snap acc daily decision p1 = (x, q)"
        using s2 by (auto split: prod.splits if_splits option.splits)
      then show "session_ok q \<and> moved ?B p1 q"
      proof cases
        case quiet
        with p1 show ?thesis by (simp add: moved_refl)
      next
        case entry
        with other have "\<not> soft_loss daily" by auto
        from tick_entry_moved [OF p1(1) this entry(2), unfolded kept] entry(1) show ?thesis by simp
      next
        case reduce
        from tick_reduction_moved [OF p1(1) this, unfolded kept] show ?thesis
          by (cases "premarket_active env plan snap (ss_paper (snd p))") (simp_all add: moved_mono)
      next
        case rest
        from tick_rest_moved [OF p1(1) this, unfolded kept] show ?thesis
          by (cases "premarket_active env plan snap (ss_paper (snd p))") (simp_all add: moved_mono)
      qed
    qed
  qed
qed

end

text \<open>What a tick needs before it buys: the day is locked by neither ledger, the account's return is above the
  hard limit, and either the policy opens a position that may be opened, or a premarket entry goes on.\<close>

definition buys_permitted ::
    "'b session_env \<Rightarrow> AutonomousPaperPlan \<Rightarrow> PaperSessionSnapshot \<Rightarrow> 'b session_desk \<Rightarrow> bool" where
  "buys_permitted env plan snap p \<longleftrightarrow> find_day (au_trade_date plan) (ss_guardian (snd p)) = None \<and>
     tbl_find pd_trade_date (au_trade_date plan) (pa_days (ss_paper (snd p))) = None \<and>
     (\<exists>acc b daily snap'. sv_get_account env (fst p) = (Inr acc, b) \<and> daily_return acc = Inr daily \<and>
        \<not> hard_loss daily \<and>
        (opens (session_decision_of env plan snap') \<and> may_open env snap acc daily \<or>
         premarket_active env plan snap (ss_paper (snd p))))"

text \<open>The account guardian's own calls, which end the tick.\<close>

context session_broker
begin

lemma keeps_guardian:
  "session_keeps buys (on_guard (guardian_reconcile port ny auth prefix d now owned))"
proof (rule session_keepsI)
  fix p :: "'b session_desk" assume ok: "session_ok p"
  let ?m = "guardian_reconcile port ny auth prefix d now owned"
  obtain x b' l' where step: "?m (fst p, ss_guardian (snd p)) = (x, (b', l'))" by (metis prod.exhaust)
  have g: "guardian_ok (ss_guardian (snd p))" using ok by (simp add: stores_ok_def)
  obtain cans closes where bk: "book b' = book (fst p) @ cans @ closes"
    and some: "cans @ closes \<noteq> [] \<longrightarrow> (\<exists>orders positions. set cans \<subseteq> (\<lambda>oid. wire (CancelCall oid)) ` bo_id ` set orders \<and>
      (\<forall>w \<in> set closes. \<exists>pos \<in> set positions. \<exists>q. guardian_close_request d pos = Inr q \<and> w = wire (CloseCall q)))"
    using exits.guardian_reconcile_outcome [OF g step] by (elim conjE exE) blast
  have "\<exists>c. w = wire c \<and> (\<forall>l. allowed buys l l c)" if "w \<in> set (cans @ closes)" for w
  proof -
    from that some obtain orders positions where
      "set cans \<subseteq> (\<lambda>oid. wire (CancelCall oid)) ` bo_id ` set orders"
      "\<forall>w \<in> set closes. \<exists>pos \<in> set positions. \<exists>q. guardian_close_request d pos = Inr q \<and> w = wire (CloseCall q)"
      by (metis empty_iff list.set(1))
    with that show ?thesis
      by (metis (no_types, lifting) UnE allowed.simps(1,2) guardian_close_def imageE set_append subsetD)
  qed
  then obtain f where f: "\<And>w. w \<in> set (cans @ closes) \<Longrightarrow> w = wire (f w) \<and> (\<forall>l. allowed buys l l (f w))" by metis
  let ?q = "(b', (snd p)\<lparr>ss_guardian := l'\<rparr>)"
  have "moved buys p ?q"
  proof (rule movedI [where calls = "map f (cans @ closes)"])
    show "ledger_up buys (ss_paper (snd p)) (ss_paper (snd ?q))" using ok by (simp add: stores_ok_def ledger_up_refl)
    show "book (fst ?q) = book (fst p) @ map wire (map f (cans @ closes))"
      using bk f by (auto simp: o_def intro!: map_idI [symmetric])
  qed (use f in auto)
  moreover have "guardian_ok l'"
    using keepsD [OF keeps_guardian_reconcile, of "(fst p, ss_guardian (snd p))" port ny auth prefix d now owned] g step
    by simp
  ultimately show "session_ok (snd (on_guard ?m p)) \<and> moved buys p (snd (on_guard ?m p))"
    using ok by (simp add: on_guard_def step stores_ok_def)
qed

lemma guardian_clears_day:
  assumes ok: "session_ok p" and clear: "gr_status g = CLEAR"
    and step: "on_guard (guardian_reconcile port ny auth prefix d now owned) p = (Inr g, q)"
  shows "find_day d (ss_guardian (snd p)) = None \<and> ss_paper (snd q) = ss_paper (snd p)"
proof -
  obtain x b' l' where g: "guardian_reconcile port ny auth prefix d now owned (fst p, ss_guardian (snd p)) = (x, (b', l'))"
    by (metis prod.exhaust)
  with step have x: "x = Inr g" "ss_paper (snd q) = ss_paper (snd p)" by (auto simp: on_guard_def)
  have "guardian_ok (ss_guardian (snd p))" using ok by (simp add: stores_ok_def)
  from exits.guardian_reconcile_outcome [OF this g] guardian_clear_iff [OF g [unfolded x]] clear x
  show ?thesis by blast
qed

lemma day_locked_run:
  "on_paper (paper_day_locked d) p = (Inr (tbl_find pd_trade_date d (pa_days (ss_paper (snd p))) \<noteq> None), p)"
  by (simp add: on_paper_def paper_day_locked_def)

lemma tick_clear_moved:
  assumes ok: "session_ok p" and d: "\<not> hard_loss daily"
    and step: "bindS (with_lifecycle_state env plan snap acc) (\<lambda>snap'.
        tick_decided env plan snap' acc daily (session_decision_of env plan snap')) p = (x, q)"
  shows "\<exists>snap'. session_ok q \<and> moved (opens (session_decision_of env plan snap') \<and> may_open env snap acc daily \<or>
      premarket_active env plan snap (ss_paper (snd p))) p q"
proof -
  obtain r p1 where l: "with_lifecycle_state env plan snap acc p = (r, p1)"
    by (cases "with_lifecycle_state env plan snap acc p")
  have p1: "session_ok p1" "moved False p p1" using session_keepsD [OF keeps_lifecycle_state ok l] by auto
  show ?thesis
  proof (cases r)
    case (Inl e)
    with l step p1 show ?thesis by (auto intro: moved_mono)
  next
    case (Inr snap')
    have t: "observed_at snap' = observed_at snap" "sq_quote_asof_utc snap' = sq_quote_asof_utc snap"
      using lifecycle_keeps_time [OF l [unfolded Inr]] by auto
    have "tick_decided env plan snap' acc daily (session_decision_of env plan snap') p1 = (x, q)"
      using step l Inr by simp
    note m = tick_decided_moved [OF p1(1) this, unfolded premarket_kept [OF p1(2)]]
    have same: "may_open env snap' acc daily = may_open env snap acc daily"
      "\<And>l. premarket_active env plan snap' l = premarket_active env plan snap l"
      by (simp_all add: may_open_def premarket_active_def t)
    note m' = m [unfolded same]
    have "moved (opens (session_decision_of env plan snap') \<and> may_open env snap acc daily \<or>
        premarket_active env plan snap (ss_paper (snd p))) p q"
      by (rule moved_trans [OF ok moved_mono [OF p1(2)] conjunct2 [OF m']])
    with m' show ?thesis by blast
  qed
qed

lemma tick_session_moved:
  assumes ok: "session_ok p" and step: "tick_session env plan snap p = (x, q)"
  shows "session_ok q \<and> (\<exists>buys. moved buys p q \<and> (buys \<longrightarrow> buys_permitted env plan snap p))"
proof -
  have quiet: ?thesis if "session_ok q \<and> moved False p q" using that by blast
  show ?thesis
  proof (cases "po_trade_date (sq_policy snap) = au_trade_date plan")
    case False
    with step ok show ?thesis by (auto simp: tick_session_def thenS_run guardS_run intro: moved_refl)
  next
    case True
    obtain r b1 where a: "account (fst p) = (r, b1)" by (cases "account (fst p)")
    have p1: "session_ok (b1, snd p)" "moved False p (b1, snd p)"
      using session_keepsD [OF keeps_reads(4) ok, of r "(b1, snd p)"] a by (auto simp: on_fst_def)
    show ?thesis
    proof (cases "\<exists>acc daily. r = Inr acc \<and> daily_return acc = Inr daily")
      case False
      with step True a p1 show ?thesis
        by (intro quiet) (auto simp: tick_session_def thenS_run guardS_run bindS_run liftS_run env_account on_fst_def
            split: sum.splits)
    next
      case True': True
      then obtain acc daily where r: "r = Inr acc" "daily_return acc = Inr daily" by blast
      let ?g = "on_guard (guardian_reconcile port (sv_ny_time env) (sv_authorized env) ''tsv2-''
        (au_trade_date plan) (observed_at snap) (sv_owned env))"
      obtain y p2 where g: "?g (b1, snd p) = (y, p2)" by (cases "?g (b1, snd p)")
      have p2: "session_ok p2" "moved False (b1, snd p) p2" using session_keepsD [OF keeps_guardian p1(1) g] by auto
      have m2: "moved False p p2" by (rule moved_trans [OF ok p1(2) p2(2)])
      have s1: "(case y of Inl e \<Rightarrow> (Inl e, p2) | Inr g \<Rightarrow>
          (if gr_status g \<noteq> CLEAR then returnS (guardian_block g daily)
           else bindS (on_paper (paper_day_locked (au_trade_date plan))) (\<lambda>locked.
             if hard_loss daily then tick_hard_loss env plan snap daily locked
             else if locked then returnS (session_result SESSION_DAY_LOCKED None daily True False [] []
               [''persisted_day_lock''] [])
             else bindS (with_lifecycle_state env plan snap acc) (\<lambda>snap'.
               tick_decided env plan snap' acc daily (session_decision_of env plan snap')))) p2) = (x, q)"
        using step True a r g
        by (auto simp: tick_session_def thenS_run guardS_run bindS_run liftS_run env_account env_port on_fst_def
            split: sum.splits)
      show ?thesis
      proof (cases "\<exists>g. y = Inr g \<and> gr_status g = CLEAR")
        case False
        with s1 p2 m2 show ?thesis by (intro quiet) (auto split: sum.splits)
      next
        case True
        then obtain g' where g': "y = Inr g'" "gr_status g' = CLEAR" by blast
        have clear: "find_day (au_trade_date plan) (ss_guardian (snd p)) = None" "ss_paper (snd p2) = ss_paper (snd p)"
          using guardian_clears_day [OF p1(1) g'(2) g [unfolded g'(1)]] by auto
        let ?locked = "tbl_find pd_trade_date (au_trade_date plan) (pa_days (ss_paper (snd p2))) \<noteq> None"
        have s2: "(if hard_loss daily then tick_hard_loss env plan snap daily ?locked
             else if ?locked then returnS (session_result SESSION_DAY_LOCKED None daily True False [] []
               [''persisted_day_lock''] [])
             else bindS (with_lifecycle_state env plan snap acc) (\<lambda>snap'.
               tick_decided env plan snap' acc daily (session_decision_of env plan snap'))) p2 = (x, q)"
        proof -
          have "bindS (on_paper (paper_day_locked (au_trade_date plan))) (\<lambda>locked.
             if hard_loss daily then tick_hard_loss env plan snap daily locked
             else if locked then returnS (session_result SESSION_DAY_LOCKED None daily True False [] []
               [''persisted_day_lock''] [])
             else bindS (with_lifecycle_state env plan snap acc) (\<lambda>snap'.
               tick_decided env plan snap' acc daily (session_decision_of env plan snap'))) p2 = (x, q)"
            using s1 g' by simp
          then show ?thesis by (simp only: bindS_Inr [OF day_locked_run])
        qed
        consider (hard) "hard_loss daily" | (locked) "\<not> hard_loss daily" ?locked | (go) "\<not> hard_loss daily" "\<not> ?locked"
          by blast
        then show ?thesis
        proof cases
          case hard
          have "session_keeps False (on_paper (lock_paper_day d reason t))" for d reason t
            by (rule keeps_paper) (auto simp: lock_paper_day_def require_paper_utc_def thenS_run guardS_run
                ledger_up_def days_up_def commands.table_up_refl tbl_find_insert tbl_find_update
                split: if_splits option.splits)
          then have "session_keeps False (tick_hard_loss env plan snap daily ?locked)"
            unfolding tick_hard_loss_def by (intro exit_rules keeps_cancel_and_flatten)
          from session_keepsD [OF this p2(1)] hard s2 moved_trans [OF ok m2] show ?thesis by (intro quiet) auto
        next
          case locked
          with s2 p2 m2 show ?thesis by (intro quiet) auto
        next
          case go
          have s3: "bindS (with_lifecycle_state env plan snap acc) (\<lambda>snap'.
               tick_decided env plan snap' acc daily (session_decision_of env plan snap')) p2 = (x, q)"
            using s2 unfolding if_not_P [OF go(1)] if_not_P [OF go(2)] .
          obtain snap' where m: "session_ok q" "moved (opens (session_decision_of env plan snap') \<and>
              may_open env snap acc daily \<or> premarket_active env plan snap (ss_paper (snd p2))) p2 q"
            using tick_clear_moved [OF p2(1) go(1) s3] by blast
          show ?thesis using moved_trans [OF ok moved_mono [OF m2] m(2)] m(1) clear go a r
            by (auto simp: buys_permitted_def env_account)
        qed
      qed
    qed
  qed
qed

lemma fail_closed_moved:
  "session_keeps False (fail_closed env plan now reason bid asof prov)"
proof -
  have held: "session_keeps False (fail_closed_exit env plan now reason bid daily position)" for daily position
    unfolding fail_closed_exit_def Let_def close_order_def extended_order_def env_port
    by (intro exit_rules [unfolded env_port] sends_if sends_close sends_lift sends_extended)
      (auto simp: exit_call_def sends_raise split: option.split intro!: sends_lift sends_extended)
  show ?thesis
    unfolding fail_closed_def fail_closed_flat_def fail_closed_held_def require_paper_utc_def Let_def env_account
    by (intro exit_rules keeps_reads held)
qed

end
end
