(* ===== verification/AutoSizing.thy ===== *)
theory AutoSizing
  imports AutoSession
begin

text \<open>
  The size of a position of the autonomous Paper session.  A decimal result is rounded to 28 digits, so it exceeds
  the exact one by at most one part in \<open>10 ^ 27\<close>; four such steps lie between the budget and a target quantity.
\<close>

section \<open>The rounding error of decimals\<close>

definition dec_eps :: rat where
  "dec_eps = 1 / 10 ^ 27"

lemma dec_val_nonneg: "\<not> dec_neg d \<Longrightarrow> 0 \<le> dec_val d"
  by (simp add: dec_val_def less_imp_le)

lemma dec_eps_pos: "0 < dec_eps"
  by (simp add: dec_eps_def)

lemma num_digits_ge: "1 < num_digits c \<Longrightarrow> 10 ^ (num_digits c - 1) \<le> c"
  using num_digits_le [of c "num_digits c - 1"] by (cases "c < 10 ^ (num_digits c - 1)") auto

lemma pow10_nat: "pow10 (int k) = 10 ^ k"
  by (simp add: pow10_def)

lemma round_half_even_le: "2 * (round_coeff RoundHalfEven neg c k * 10 ^ k) \<le> 2 * c + 10 ^ k"
proof -
  define p q r :: nat where "p = 10 ^ k" and "q = c div p" and "r = c mod p"
  have c: "c = q * p + r" unfolding q_def r_def by (rule div_mult_mod_eq [symmetric])
  have "round_coeff RoundHalfEven neg c k = (if p < 2 * r \<or> (p = 2 * r \<and> odd q) then q + 1 else q)"
    by (simp add: round_coeff_def Let_def p_def q_def r_def)
  moreover have "2 * ((if p < 2 * r \<or> (p = 2 * r \<and> odd q) then q + 1 else q) * p) \<le> 2 * (q * p + r) + p"
    by (simp add: distrib_right)
  ultimately show ?thesis by (simp only: c p_def)
qed

lemma rounded_coeff_le:
  assumes "context_prec < num_digits c"
  shows "of_nat (round_coeff RoundHalfEven neg c (num_digits c - context_prec)) * 10 ^ (num_digits c - context_prec)
    \<le> of_nat c * (1 + dec_eps)"
proof -
  let ?k = "num_digits c - context_prec" let ?r = "round_coeff RoundHalfEven neg c ?k"
  have k: "num_digits c - 1 = ?k + 27" "1 < num_digits c" using assms by (simp_all add: context_prec_def)
  have big: "10 ^ ?k * 10 ^ 27 \<le> c" using num_digits_ge [OF k(2)] unfolding k(1) power_add .
  have "of_nat (10 ^ ?k * 10 ^ 27) \<le> (of_nat c :: rat)" using big by (simp only: of_nat_le_iff)
  then have k: "10 ^ ?k \<le> (of_nat c * dec_eps :: rat)" by (simp add: dec_eps_def field_simps)
  have "of_nat (2 * (?r * 10 ^ ?k)) \<le> (of_nat (2 * c + 10 ^ ?k) :: rat)"
    using round_half_even_le by (simp only: of_nat_le_iff)
  then have "2 * (of_nat ?r * 10 ^ ?k) \<le> 2 * of_nat c + (10 ^ ?k :: rat)" by simp
  moreover have "0 \<le> of_nat c * dec_eps" using dec_eps_pos by simp
  ultimately show ?thesis using k unfolding distrib_left mult_1_right by linarith
qed

lemma dec_fix_le:
  assumes "\<not> dec_neg d"
  shows "\<not> dec_neg (dec_fix d)" and "dec_val (dec_fix d) \<le> dec_val d * (1 + dec_eps)"
proof -
  show "\<not> dec_neg (dec_fix d)" using assms by (simp add: dec_fix_def Let_def)
  let ?c = "dec_coeff d" let ?k = "num_digits ?c - context_prec" let ?r = "round_coeff RoundHalfEven False ?c ?k"
  show "dec_val (dec_fix d) \<le> dec_val d * (1 + dec_eps)"
  proof (cases "num_digits ?c \<le> context_prec")
    case True
    then show ?thesis using mult_left_mono [of 1 "1 + dec_eps", OF _ dec_val_nonneg [OF assms]] dec_eps_pos
      by (simp add: dec_fix_id)
  next
    case False
    have "of_nat ?r * 10 ^ ?k * pow10 (dec_exp d) \<le> of_nat ?c * (1 + dec_eps) * pow10 (dec_exp d)"
      using rounded_coeff_le [of ?c False] False by (intro mult_right_mono) (simp_all add: less_imp_le)
    then have r: "of_nat ?r * pow10 (dec_exp d + int ?k) \<le> dec_val d * (1 + dec_eps)"
      using assms by (simp add: dec_val_def pow10_add pow10_nat mult_ac)
    have "?r div 10 * 10 \<le> ?r" by simp
    then have "of_nat (?r div 10 * 10) \<le> (of_nat ?r :: rat)" by (simp only: of_nat_le_iff)
    then have "of_nat (?r div 10) * 10 * pow10 (dec_exp d + int ?k) \<le> of_nat ?r * pow10 (dec_exp d + int ?k)"
      by (intro mult_right_mono) (simp_all add: less_imp_le)
    then have s: "of_nat (?r div 10) * pow10 (dec_exp d + int ?k + 1) \<le> of_nat ?r * pow10 (dec_exp d + int ?k)"
      by (simp add: pow10_add pow10_def [of 1] mult_ac)
    from r s assms False show ?thesis by (auto simp: dec_fix_def Let_def dec_val_def)
  qed
qed

lemma dec_mul_le:
  assumes "\<not> dec_neg a" and "\<not> dec_neg b"
  shows "\<not> dec_neg (dec_mul a b)" and "dec_val (dec_mul a b) \<le> dec_val a * dec_val b * (1 + dec_eps)"
proof -
  let ?d = "Dec (dec_neg a \<noteq> dec_neg b) (dec_coeff a * dec_coeff b) (dec_exp a + dec_exp b)"
  have v: "dec_val ?d = dec_val a * dec_val b" using assms by (simp add: dec_val_def pow10_add)
  have n: "\<not> dec_neg ?d" using assms by simp
  from dec_fix_le [OF n] v show "\<not> dec_neg (dec_mul a b)"
    "dec_val (dec_mul a b) \<le> dec_val a * dec_val b * (1 + dec_eps)" unfolding dec_mul_def by simp_all
qed

lemma strip_zeros_val: "strip_zeros k c e = (c', e') \<Longrightarrow> of_nat c' * pow10 e' = of_nat c * pow10 e"
proof (induction k c e rule: strip_zeros.induct)
  case (2 k c e)
  show ?case
  proof (cases "c mod 10 = 0")
    case True
    then have "of_nat c = (of_nat (c div 10) * 10 :: rat)" by (metis dvd_div_mult_self mod_eq_0_iff_dvd of_nat_mult of_nat_numeral)
    with 2 True show ?thesis by (simp add: pow10_add pow10_def [of 1] mult_ac)
  next
    case False
    with 2(2) show ?thesis by simp
  qed
qed simp

lemma div_scaled_le:
  assumes d: "0 < d" and q: "10 ^ 27 \<le> n div d"
  shows "\<not> dec_neg (div_scaled False ideal e n d)"
    and "dec_val (div_scaled False ideal e n d) \<le> of_nat n / of_nat d * pow10 e * (1 + dec_eps) * (1 + dec_eps)"
proof -
  let ?q = "n div d" let ?r = "n mod d"
  have "?q * d \<le> n" by simp
  then have "of_nat (?q * d) \<le> (of_nat n :: rat)" by (simp only: of_nat_le_iff)
  then have le: "of_nat ?q \<le> (of_nat n / of_nat d :: rat)" using d by (simp add: field_simps)
  have "of_nat (10 ^ 27) \<le> (of_nat ?q :: rat)" using q by (simp only: of_nat_le_iff)
  then have "1 \<le> of_nat ?q * dec_eps" by (simp add: dec_eps_def)
  moreover have "of_nat ?q * dec_eps \<le> of_nat n / of_nat d * dec_eps"
    using dec_eps_pos by (intro mult_right_mono [OF le]) simp
  ultimately have up: "of_nat (?q + 1) \<le> of_nat n / of_nat d * (1 + dec_eps)"
    using le unfolding distrib_left of_nat_add of_nat_1 mult_1_right by linarith
  define v where "v = (if ?r \<noteq> 0 then Dec False (if ?q mod 5 = 0 then ?q + 1 else ?q) e
      else case strip_zeros (nat (ideal - e)) ?q e of (c, e') \<Rightarrow> Dec False c e')"
  have v: "\<not> dec_neg v" "dec_val v \<le> of_nat n / of_nat d * pow10 e * (1 + dec_eps)"
  proof -
    show "\<not> dec_neg v" by (simp add: v_def split: prod.split)
    have one: "of_nat ?q \<le> of_nat n / of_nat d * (1 + dec_eps)" using up by simp
    have "\<exists>m. dec_val v = of_nat m * pow10 e \<and> m \<le> ?q + 1"
      by (cases "?r \<noteq> 0"; cases "?q mod 5 = 0"; cases "strip_zeros (nat (ideal - e)) ?q e")
        (auto simp: v_def dec_val_def dest: strip_zeros_val intro: exI [of _ ?q] exI [of _ "?q + 1"])
    then obtain m where m: "dec_val v = of_nat m * pow10 e" "m \<le> ?q + 1" by blast
    have "of_nat m \<le> (of_nat (?q + 1) :: rat)" using m(2) by (simp only: of_nat_le_iff)
    then have "of_nat m * pow10 e \<le> of_nat n / of_nat d * (1 + dec_eps) * pow10 e"
      using up by (intro mult_right_mono) (simp_all add: less_imp_le)
    with m(1) show "dec_val v \<le> of_nat n / of_nat d * pow10 e * (1 + dec_eps)" by (simp add: mult_ac)
  qed
  have s: "div_scaled False ideal e n d = dec_fix v" by (simp add: div_scaled_def div_round_def v_def)
  from dec_fix_le [OF v(1)] show "\<not> dec_neg (div_scaled False ideal e n d)" by (simp add: s)
  have "dec_val v * (1 + dec_eps) \<le> of_nat n / of_nat d * pow10 e * (1 + dec_eps) * (1 + dec_eps)"
    using v(2) dec_eps_pos by (intro mult_right_mono) simp_all
  with dec_fix_le(2) [OF v(1)] show "dec_val (div_scaled False ideal e n d) \<le>
      of_nat n / of_nat d * pow10 e * (1 + dec_eps) * (1 + dec_eps)" unfolding s by linarith
qed

lemma dec_div_le:
  assumes a: "\<not> dec_neg a" and b: "\<not> dec_neg b" and step: "dec_div a b = Inr x"
  shows "\<not> dec_neg x" and "dec_val x \<le> dec_val a / dec_val b * (1 + dec_eps) * (1 + dec_eps)"
proof -
  have "\<not> dec_neg x \<and> dec_val x \<le> dec_val a / dec_val b * (1 + dec_eps) * (1 + dec_eps)"
  proof (cases "dec_coeff a = 0")
    case True
    with step a b show ?thesis by (auto simp: dec_div_def dec_val_def split: if_splits)
  next
    case False
    let ?s = "div_shift a b"
    let ?n = "if 0 \<le> ?s then dec_coeff a * 10 ^ nat ?s else dec_coeff a"
    let ?d = "if 0 \<le> ?s then dec_coeff b else dec_coeff b * 10 ^ nat (- ?s)"
    let ?e = "dec_exp a - dec_exp b - ?s"
    have cb: "dec_coeff b \<noteq> 0" using step by (auto simp: dec_div_def split: if_splits)
    have x: "x = div_scaled False (dec_exp a - dec_exp b) ?e ?n ?d"
      using step a b False cb by (auto simp: dec_div_def div_by_shift_def)
    have d: "0 < ?d" using cb by simp
    let ?la = "num_digits (dec_coeff a)" let ?lb = "num_digits (dec_coeff b)"
    have la: "10 ^ (?la - 1) \<le> dec_coeff a"
      using num_digits_ge [of "dec_coeff a"] False num_digits_pos [of "dec_coeff a"] by (cases "1 < ?la") auto
    have "10 ^ 27 * ?d \<le> ?n"
    proof (cases "0 \<le> ?s")
      case True
      then have e: "27 + ?lb \<le> ?la - 1 + nat ?s"
        using num_digits_pos [of "dec_coeff a"] by (simp add: div_shift_def context_prec_def)
      have "10 ^ 27 * ?d \<le> 10 ^ 27 * 10 ^ ?lb" using True num_digits_gt [of "dec_coeff b"] by simp
      also have "\<dots> \<le> 10 ^ (?la - 1 + nat ?s)" unfolding power_add [symmetric] using e by (intro power_increasing) simp_all
      also have "\<dots> \<le> ?n" unfolding power_add using la True by simp
      finally show ?thesis .
    next
      case neg: False
      then have e: "27 + ?lb + nat (- ?s) \<le> ?la - 1"
        using num_digits_pos [of "dec_coeff a"] by (simp add: div_shift_def context_prec_def)
      have "10 ^ 27 * ?d \<le> 10 ^ 27 * (10 ^ ?lb * 10 ^ nat (- ?s))" using neg num_digits_gt [of "dec_coeff b"] by simp
      also have "\<dots> = 10 ^ (27 + ?lb + nat (- ?s))" by (simp only: power_add mult.assoc)
      also have "\<dots> \<le> 10 ^ (?la - 1)" using e by (intro power_increasing) simp_all
      also have "\<dots> \<le> ?n" using la neg by simp
      finally show ?thesis .
    qed
    then have q: "10 ^ 27 \<le> ?n div ?d" using d by (simp only: less_eq_div_iff_mult_less_eq)
    have v: "of_nat ?n / of_nat ?d * pow10 ?e = dec_val a / dec_val b"
    proof -
      have e: "pow10 ?e = pow10 (dec_exp a) / pow10 (dec_exp b) / pow10 ?s"
        by (simp add: pow10_powi power_int_diff)
      have p: "of_nat ?n / of_nat ?d = of_nat (dec_coeff a) / of_nat (dec_coeff b) * pow10 ?s"
        by (simp add: pow10_def)
      show ?thesis unfolding e p using a b by (simp add: dec_val_def)
    qed
    from div_scaled_le [OF d q, of "dec_exp a - dec_exp b" ?e] show ?thesis unfolding x v by blast
  qed
  then show "\<not> dec_neg x" "dec_val x \<le> dec_val a / dec_val b * (1 + dec_eps) * (1 + dec_eps)" by simp_all
qed

section \<open>The budget of a plan\<close>

lemma repr_dec_sign: "0 \<le> x \<Longrightarrow> \<not> dec_neg (repr_dec x)"
  by (simp add: repr_dec_def split: dec.split)

lemma positive_sign: "0 < dec_val d \<Longrightarrow> \<not> dec_neg d"
proof
  assume pos: "0 < dec_val d" and neg: "dec_neg d"
  have "0 \<le> of_nat (dec_coeff d) * pow10 (dec_exp d)" by (simp add: less_imp_le)
  with pos neg show False by (simp add: dec_val_def)
qed

lemma parsed_sign: "positive_decimal text name = Inr d \<Longrightarrow> 0 < dec_val d \<and> \<not> dec_neg d"
  using positive_sign [of d] by (auto simp: positive_decimal_def split: option.splits decimal.splits if_splits)

lemma eps_4: "(1 + dec_eps) * (1 + dec_eps) * (1 + dec_eps) * (1 + dec_eps) \<le> 1 + 1 / 10 ^ 26"
  by (simp add: dec_eps_def)

lemma floor_part_le:
  assumes amount: "\<not> dec_neg amount" and share: "\<not> dec_neg share" and part: "\<not> dec_neg part"
    and unit: "0 < dec_val u" and n: "0 \<le> n" and step: "dec_div (dec_mul amount share) u = Inr by_unit" "n \<le> dec_floor by_unit"
  shows "of_int (dec_floor (dec_mul (dec_of_int n) part)) * dec_val u \<le>
    dec_val amount * dec_val share * dec_val part * (1 + 1 / 10 ^ 26)"
proof -
  let ?m = "1 + dec_eps"
  have m: "0 \<le> ?m" using dec_eps_pos by simp
  note p = dec_mul_le [OF amount share] and us = positive_sign [OF unit]
  have nn: "\<not> dec_neg (dec_of_int n)" using n by (simp add: dec_of_int_def)
  have f: "0 \<le> dec_val part" using part by (rule dec_val_nonneg)
  have "of_int n * dec_val u \<le> dec_val by_unit * dec_val u"
    using step(2) unit by (intro mult_right_mono) (simp_all add: dec_floor_def le_floor_iff)
  also have "\<dots> \<le> dec_val (dec_mul amount share) * ?m * ?m"
    using mult_right_mono [OF dec_div_le(2) [OF p(1) us step(1)], of "dec_val u"] unit by simp
  also have "\<dots> \<le> dec_val amount * dec_val share * ?m * ?m * ?m"
    using p(2) m by (intro mult_right_mono) simp_all
  finally have a: "of_int n * dec_val u \<le> dec_val amount * dec_val share * ?m * ?m * ?m" .
  have "of_int (dec_floor (dec_mul (dec_of_int n) part)) * dec_val u \<le> dec_val (dec_mul (dec_of_int n) part) * dec_val u"
    using unit by (intro mult_right_mono) (simp_all add: dec_floor_def)
  also have "\<dots> \<le> of_int n * dec_val part * ?m * dec_val u"
    using dec_mul_le(2) [OF nn part] unit by (intro mult_right_mono) simp_all
  also have "\<dots> = of_int n * dec_val u * (dec_val part * ?m)" by (simp only: mult_ac)
  also have "\<dots> \<le> dec_val amount * dec_val share * ?m * ?m * ?m * (dec_val part * ?m)"
    using a f m by (intro mult_right_mono) simp_all
  also have "\<dots> = dec_val amount * dec_val share * dec_val part * (?m * ?m * ?m * ?m)" by (simp only: mult_ac)
  also have "\<dots> \<le> dec_val amount * dec_val share * dec_val part * (1 + 1 / 10 ^ 26)"
    using eps_4 amount share part by (intro mult_left_mono) (simp_all add: dec_val_nonneg)
  finally show ?thesis .
qed

text \<open>C29: the size of a position.  For a validated plan, a positive equity and a fraction that is not negative,
  the target is a number of shares that is not negative; at the reference price it costs at most the plan's notional
  fraction of the equity times the fraction, and to the hard stop it loses at most the plan's risk fraction of the equity
  times the fraction, both up to one part in \<open>10 ^ 26\<close>.\<close>

theorem target_quantity_within_budget:
  assumes plan: "validate_autonomous_plan plan = Inr plan" and equity: "positive_decimal text name = Inr equity"
    and fraction: "0 \<le> fraction" and target: "target_quantity plan equity fraction = Inr n"
  shows "0 \<le> n \<and>
    of_int n * dec_val (au_reference_price plan) \<le>
      dec_val equity * dec_val (au_max_notional_fraction plan) * dec_val (repr_dec fraction) * (1 + 1 / 10 ^ 26) \<and>
    of_int n * dec_val (dec_sub (au_reference_price plan) (au_hard_stop plan)) \<le>
      dec_val equity * dec_val (au_full_risk_fraction plan) * dec_val (repr_dec fraction) * (1 + 1 / 10 ^ 26)"
proof -
  let ?risk = "dec_sub (au_reference_price plan) (au_hard_stop plan)"
  have pos: "0 < dec_val (au_reference_price plan)" "0 < dec_val (au_max_notional_fraction plan)"
    "0 < dec_val (au_full_risk_fraction plan)"
    using plan by (auto simp: validate_autonomous_plan_def autonomous_plan_error_def split: if_splits)
  have e: "0 < dec_val equity" "\<not> dec_neg equity" using parsed_sign [OF equity] by simp_all
  note f = repr_dec_sign [OF fraction] and sign = positive_sign [OF pos(2)] positive_sign [OF pos(3)]
  have rhs: "0 \<le> dec_val equity * dec_val part * dec_val (repr_dec fraction) * (1 + 1 / 10 ^ 26)"
    if "0 < dec_val part" for part
    using that e f by (intro mult_nonneg_nonneg) (simp_all add: dec_val_nonneg)
  show ?thesis
  proof (cases "dec_val ?risk \<le> 0")
    case True
    with target have "n = 0" by (simp add: target_quantity_def)
    with rhs [OF pos(2)] rhs [OF pos(3)] show ?thesis by simp
  next
    case False
    then have risk: "0 < dec_val ?risk" by simp
    obtain by_risk by_notional where
      r: "dec_div (dec_mul equity (au_full_risk_fraction plan)) ?risk = Inr by_risk"
      and o: "dec_div (dec_mul equity (au_max_notional_fraction plan)) (au_reference_price plan) = Inr by_notional"
      and n: "n = dec_floor (dec_mul (dec_of_int (min (dec_floor by_risk) (dec_floor by_notional))) (repr_dec fraction))"
      using target False by (auto simp: target_quantity_def full_quantity_def split: sum.splits)
    let ?full = "min (dec_floor by_risk) (dec_floor by_notional)"
    have "\<not> dec_neg by_risk" "\<not> dec_neg by_notional"
      using dec_div_le(1) [OF dec_mul_le(1) [OF e(2) sign(2)] positive_sign [OF risk] r]
        dec_div_le(1) [OF dec_mul_le(1) [OF e(2) sign(1)] positive_sign [OF pos(1)] o] by simp_all
    then have full: "0 \<le> ?full" by (simp add: dec_floor_def dec_val_nonneg)
    then have "\<not> dec_neg (dec_of_int ?full)" unfolding dec_of_int_def dec.sel by linarith
    then have "0 \<le> n" unfolding n using dec_mul_le(1) [OF _ f] by (simp add: dec_floor_def dec_val_nonneg)
    moreover note floor_part_le [OF e(2) sign(1) f pos(1) full o] floor_part_le [OF e(2) sign(2) f risk full r]
    ultimately show ?thesis unfolding n by simp
  qed
qed

section \<open>Evaluation\<close>

lemma strip_zeros_add: "10 ^ m dvd c \<Longrightarrow> strip_zeros (m + k) c e = strip_zeros k (c div 10 ^ m) (e + int m)"
proof (induction m arbitrary: c e)
  case (Suc m)
  then have "c mod 10 = 0" by (metis dvd_imp_mod_0 dvd_mult_left power_Suc)
  moreover have "10 ^ m dvd c div 10" using Suc.prems by (metis dvd_div_eq_mult dvd_mult_imp_div mult.commute power_Suc)
  ultimately show ?case using Suc.IH [of "c div 10" "e + 1"] by (simp add: div_mult2_eq algebra_simps)
qed simp

lemma strip_zeros_code [code]:
  "strip_zeros k c e =
    (if 16 \<le> k \<and> 10 ^ 16 dvd c then strip_zeros (k - 16) (c div 10 ^ 16) (e + 16)
     else if 4 \<le> k \<and> 10 ^ 4 dvd c then strip_zeros (k - 4) (c div 10 ^ 4) (e + 4)
     else if k = 0 \<or> \<not> 10 dvd c then (c, e) else strip_zeros (k - 1) (c div 10) (e + 1))"
  using strip_zeros_add [of 16 c "k - 16" e] strip_zeros_add [of 4 c "k - 4" e]
  by (cases k) (auto simp: mod_eq_0_iff_dvd)

lemma dec_floor_code [code]:
  "dec_floor (Dec neg c e) = (let n = (if neg then - int c else int c) in
     if 0 \<le> e then n * 10 ^ nat e else n div 10 ^ nat (- e))"
proof -
  have v: "dec_val (Dec neg c e) = of_int (if neg then - int c else int c) * pow10 e"
    by (simp add: dec_val_def)
  show ?thesis
  proof (cases "0 \<le> e")
    case True
    then have "dec_val (Dec neg c e) = of_int ((if neg then - int c else int c) * 10 ^ nat e)"
      unfolding v by (simp add: pow10_def)
    with True show ?thesis unfolding dec_floor_def by (simp only: floor_of_int Let_def if_True)
  next
    case False
    then have "dec_val (Dec neg c e) = of_int (if neg then - int c else int c) / of_int (10 ^ nat (- e))"
      unfolding v by (simp add: pow10_def)
    with False show ?thesis unfolding dec_floor_def by (simp only: floor_divide_of_int_eq Let_def if_False)
  qed
qed


definition probe_plan :: AutonomousPaperPlan where
  "probe_plan = \<lparr>au_plan_id = ''p'', au_symbol = ''AAPL'', au_trade_date = Date 2026 9 14,
     au_reference_price = Dec False 100 0, au_hard_stop = Dec False 95 0, au_max_notional_fraction = Dec False 2 (- 1),
     au_full_risk_fraction = Dec False 2 (- 3), au_source_snapshot_ids = [''s''], au_provenance = ''p'',
     au_max_spread_ratio = Dec False 1 (- 2), au_take_profit_1 = Some (Dec False 110 0), au_take_profit_2 = None\<rparr>"

lemma target_quantity_within_budget_witness:
  "target_quantity probe_plan (Dec False 100000 0) (1 / 4) = Inr 10 \<and>
    10 * dec_val (au_reference_price probe_plan) \<le> dec_val (Dec False 100000 0) *
      dec_val (au_max_notional_fraction probe_plan) * dec_val (repr_dec (1 / 4)) * (1 + 1 / 10 ^ 26)"
proof -
  have p: "validate_autonomous_plan probe_plan = Inr probe_plan" by code_simp
  have e: "positive_decimal ''100000'' ''equity'' = Inr (Dec False 100000 0)" by code_simp
  have t: "target_quantity probe_plan (Dec False 100000 0) (1 / 4) = Inr 10" by code_simp
  from target_quantity_within_budget [OF p e _ t] t show ?thesis by simp
qed

end
