(* ===== verification/AutoProps.thy ===== *)
theory AutoProps
  imports AutoSafety AutoSizing
begin

text \<open>
  The properties of the autonomous Paper session (\<open>execution/autonomous_paper_session.py\<close>), over the Alpaca
  adapter: when a tick buys, what a run of ticks and fail-closed exits sends, and where it goes wrong: an exit that is
  cancelled by its own repetition, a premarket entry that nobody authorized, an entry that is checked too
  late.  The concrete accounts at which they are evaluated stand before them.
\<close>

definition on_alpaca ::
    "'b alpaca_env \<Rightarrow> (json \<Rightarrow> py_error + PaperAccount) \<Rightarrow> ('b \<times> wire_write list) session_env
       \<Rightarrow> ('b \<times> wire_write list) session_env" where
  "on_alpaca e decode env = env\<lparr>sv_port := direct_alpaca (recorded e),
     sv_get_account := direct_get_account decode (recorded e)\<rparr>"

interpretation alpaca_session: session_broker "direct_alpaca (recorded e)" snd alpaca_call
  "direct_get_account decode (recorded e)" "on_alpaca e decode env" for e decode env
  by unfold_locales (simp_all add: on_alpaca_def)

text \<open>A request on the wire that buys.\<close>

fun wire_buys :: "wire_write \<Rightarrow> bool" where
  "wire_buys (POST, _, Some (JObj kvs)) = (json_get ''side'' kvs = JStr ''buy'')"
| "wire_buys _ = False"

lemma wire_buys_call: "wire_buys (alpaca_call c) \<Longrightarrow> is_buy c"
  by (cases c) (auto simp: delete_order_def post_order_def close_payload_def stop_payload_def
      extended_limit_payload_def wire_identity_def json_get_def)

datatype session_step =
    TickStep AutonomousPaperPlan PaperSessionSnapshot
  | FailStep AutonomousPaperPlan datetime string "dec option" "datetime option" "string option"

fun exec_session_step :: "'b session_env \<Rightarrow> session_step \<Rightarrow> 'b session_desk \<Rightarrow> 'b session_desk" where
  "exec_session_step env (TickStep plan snap) p = snd (tick_session env plan snap p)"
| "exec_session_step env (FailStep plan now reason bid asof prov) p =
     snd (fail_closed env plan now reason bid asof prov p)"

context session_broker
begin

lemma moved_any: "moved buys p q \<Longrightarrow> moved True p q"
  by (auto simp: moved_def ledger_up_def intro: allowed_mono)

lemma exec_session_step_moved:
  assumes "session_ok p"
  shows "session_ok (exec_session_step env st p) \<and> moved True p (exec_session_step env st p)"
proof (cases st)
  case (TickStep plan snap)
  obtain x q where "tick_session env plan snap p = (x, q)" by (cases "tick_session env plan snap p")
  with tick_session_moved [OF assms this] TickStep show ?thesis by (auto intro: moved_any)
next
  case (FailStep plan now reason bid asof prov)
  with keepsD [OF fail_closed_moved assms, of plan now reason bid asof prov] assms show ?thesis
    by (auto intro: moved_any)
qed

end

sublocale session_broker \<subseteq> session: guarded_machine session_ok "\<lambda>p q. session_ok p \<longrightarrow> moved True p q" "exec_session_step env"
  by unfold_locales (auto simp: exec_session_step_moved)

section \<open>A completed command is not sent again\<close>

lemma bindS_assoc: "bindS (bindS m f) g = bindS m (\<lambda>x. bindS (f x) g)"
  by (rule ext) (simp add: bindS_run split: prod.split sum.split)

lemma once_completed:
  assumes r: "find_command cid (ss_paper (snd p)) = Some r" "pc_completed r"
    and step: "once cid d kind symb now m p = (x, q)"
  shows "q = p \<and> (\<forall>fresh b. x = Inr (fresh, b) \<longrightarrow> \<not> fresh)"
proof -
  obtain y l' where e: "ensure_command cid d kind symb now (ss_paper (snd p)) = (y, l')"
    by (cases "ensure_command cid d kind symb now (ss_paper (snd p))")
  with r have "l' = ss_paper (snd p)" "\<forall>c. y = Inr c \<longrightarrow> cr_completed c"
    by (auto simp: ensure_command_def require_paper_utc_def run split: if_splits)
  with step e show ?thesis
    by (cases p) (auto simp: once_def bindS_run on_paper_def split: sum.splits)
qed

context trading_broker
begin

definition cancels :: "'b session_desk \<Rightarrow> 'b session_desk \<Rightarrow> bool" where
  "cancels p q \<longleftrightarrow> (\<exists>oids. book (fst q) = book (fst p) @ map (\<lambda>oid. wire (CancelCall oid)) oids)"

lemma cancels_refl: "cancels p p"
  unfolding cancels_def by (rule exI [of _ "[]"]) simp

lemma cancels_trans:
  assumes "cancels p q" and "cancels q r"
  shows "cancels p r"
proof -
  obtain xs ys where "book (fst q) = book (fst p) @ map (\<lambda>oid. wire (CancelCall oid)) xs"
    "book (fst r) = book (fst q) @ map (\<lambda>oid. wire (CancelCall oid)) ys" using assms by (auto simp: cancels_def)
  then have "book (fst r) = book (fst p) @ map (\<lambda>oid. wire (CancelCall oid)) (xs @ ys)" by simp
  then show ?thesis unfolding cancels_def by blast
qed

end

sublocale trading_broker \<subseteq> clearing: growing "\<lambda>_. True" cancels
  by unfold_locales (auto intro: cancels_refl cancels_trans)

context trading_broker
begin

abbreviation clears :: "('b, 'a) session_op \<Rightarrow> bool" where
  "clears m \<equiv> keeps (\<lambda>_. True) cancels m"

lemma clears_paper: "clears (on_paper m)"
  by (rule keepsI) (auto simp: on_paper_def cancels_def split: prod.split intro!: exI [of _ "[]"])

lemma clears_cancel: "clears (on_fst (bp_cancel_order port oid))"
proof (rule keepsI)
  fix p :: "'b session_desk"
  from cancel_call [of oid "fst p"] have "\<exists>oids. book (snd (bp_cancel_order port oid (fst p))) =
      book (fst p) @ map (\<lambda>oid. wire (CancelCall oid)) oids"
    by (auto intro: exI [of _ "[]"] exI [of _ "[oid]"])
  then show "True \<and> cancels p (snd (on_fst (bp_cancel_order port oid) p))"
    by (simp add: cancels_def on_fst_snd)
qed

lemma clears_silent: "(\<And>b. book (snd (m b)) = book b) \<Longrightarrow> clears (on_fst m)"
  by (rule keepsI) (auto simp: cancels_def on_fst_snd intro!: exI [of _ "[]"])

lemma clears_reads: "clears (on_fst (bp_list_open_orders port))" "clears (on_fst (bp_list_positions port))"
  by (simp_all add: clears_silent open_orders_silent positions_silent)

end

context session_broker
begin

lemma clears_listed: "clears (cancel_listed env d now orders)"
  unfolding cancel_listed_def cancel_order_once_def Let_def env_port
  by (intro clearing.keeps_rules clears_paper clears_cancel)

lemma repeated_exit:
  assumes ok: "session_ok p" and r: "find_command (decision_close_client_order_id env plan decision) (ss_paper (snd p)) = Some r"
    and c: "pc_completed r" and step: "cancel_symbol_and_close env plan decision snap p = (x, q)"
  shows "cancels p q \<and> (\<forall>cancelled flattened. x = Inr (cancelled, flattened) \<longrightarrow> flattened = [])"
proof -
  let ?cid = "decision_close_client_order_id env plan decision"
  let ?first = "bindS (open_orders_of env (au_symbol plan)) (\<lambda>orders.
     bindS (cancel_listed env (au_trade_date plan) (observed_at snap) orders) (\<lambda>cancelled.
     bindS (on_fst (bp_list_positions (sv_port env))) (\<lambda>positions. returnS (cancelled, positions))))"
  have k: "session_keeps False ?first" by (intro exit_rules)
  have cl: "clears ?first" unfolding open_orders_of_def env_port
    by (intro clearing.keeps_rules clears_listed clears_reads)
  obtain y p1 where f: "?first p = (y, p1)" by (cases "?first p")
  have p1: "session_ok p1" "moved False p p1" using session_keepsD [OF k ok f] by auto
  have can: "cancels p p1" using keepsD [OF cl TrueI, of p] f by simp
  have "commands_up (ss_paper (snd p)) (ss_paper (snd p1))" using p1(2) by (auto simp: moved_def ledger_up_def)
  from table_upD [OF this r] c obtain r' where r': "find_command ?cid (ss_paper (snd p1)) = Some r'" "pc_completed r'"
    by (auto simp: command_up_def)
  let ?rest = "\<lambda>(cancelled, positions). let matching = filter (\<lambda>p. pp_symbol p = au_symbol plan) positions in
     if 1 < length matching then raiseS (RuntimeError ''Paper broker returned duplicate symbol positions'')
     else if matching = [] then returnS (cancelled, [])
     else bindS (liftS (session_long_quantity (hd matching))) (\<lambda>qty. let now = observed_at snap in
       bindS (once ?cid (au_trade_date plan) ''policy_exit'' (au_symbol plan) now
         (session_exit_order env now ?cid (au_symbol plan) qty (sq_bid snap)))
       (\<lambda>(fresh, broker_id).
         returnS (cancelled, if fresh then (case broker_id of None \<Rightarrow> [] | Some b \<Rightarrow> [b]) else [])))"
  have s: "bindS ?first ?rest p = (x, q)"
    using step unfolding cancel_symbol_and_close_def bindS_assoc bindS_returnS prod.case Let_def .
  show ?thesis
  proof (cases y)
    case (Inl e)
    with s f can show ?thesis by auto
  next
    case (Inr z)
    obtain cancelled positions where z: "z = (cancelled, positions)" by (cases z)
    have "?rest (cancelled, positions) p1 = (x, q)" using s f Inr z by simp
    then have "q = p1 \<and> (\<forall>cancelled flattened. x = Inr (cancelled, flattened) \<longrightarrow> flattened = [])"
      by (auto simp: Let_def bindS_run liftS_run split: if_splits sum.splits prod.splits dest!: once_completed [OF r'])
    with can show ?thesis by simp
  qed
qed

end

section \<open>Concrete accounts\<close>

definition flat_account_env :: "unit alpaca_env" where
  \<comment> \<open>an account without orders and positions that accepts every order\<close>
  "flat_account_env = \<lparr>ae_http = (\<lambda>m path params body b. (Inr
       (if m = POST then \<lparr>hr_status_code = 201, hr_json = Some (JObj [])\<rparr>
        else if path = ''/v2/account'' then \<lparr>hr_status_code = 200, hr_json = Some (JObj [])\<rparr>
        else if path = ''/v2/positions'' \<or> path = ''/v2/orders'' then \<lparr>hr_status_code = 200, hr_json = Some (JList [])\<rparr>
        else \<lparr>hr_status_code = 404, hr_json = None\<rparr>), b)),
     ae_decode_order = (\<lambda>_. Inr (BrokerOrder ''b1'' ''c1'' ''AAPL'' 10 ''0'' ''accepted'' None (Some ''buy'') None [])),
     ae_decode_position = (\<lambda>_. Inr \<lparr>pp_symbol = ''AAPL'', pp_qty = ''10'', pp_side = ''long''\<rparr>),
     ae_writes_enabled = (\<lambda>_. True)\<rparr>"

definition sample_account :: PaperAccount where
  "sample_account = \<lparr>pat_id = None, pat_currency = None, pat_status = ''ACTIVE'', pat_account_blocked = False,
     pat_trading_blocked = False, pat_equity = ''100000'', pat_last_equity = ''100000'', pat_buying_power = ''100000''\<rparr>"

definition entry_policy :: PolicySnapshot where
  "entry_policy = sample_policy_snapshot\<lparr>po_catalyst := sample_metric 50, po_factor := sample_metric 90,
     po_order_flow := sample_metric 90,
     po_execution := sample_metric 90, po_has_position := False, po_position_fraction := 0, po_average_entry_price := None, po_last_price := None,
     po_first_target_reward_r := Some 3, po_weighted_expected_reward_r := Some 3,
     po_reward_risk_provenance := Some ''m''\<rparr>"

definition entry_snapshot :: PaperSessionSnapshot where
  "entry_snapshot = \<lparr>sq_policy = entry_policy, sq_bid = Dec False 100 0, sq_ask = Dec False 10001 (- 2), sq_quote_asof_utc = utc 0,
    sq_quote_provenance = ''q'', sq_last_trade = None, sq_last_trade_asof_utc = None, sq_trade_provenance = None,
    sq_halt_risk = False, sq_below_anchored_vwap_5m_bars = 0, sq_failed_vwap_reclaim = False,
    sq_chandelier_stop_hit = False, sq_tail_hard_breakdown = False\<rparr>"

definition empty_stores :: session_stores where
  "empty_stores = \<lparr>ss_paper = empty_paper_ledger, ss_stops = [], ss_guardian = []\<rparr>"


definition remembering_env :: "string list alpaca_env" where
  \<comment> \<open>an account without positions that remembers the client ids of the orders it accepted\<close>
  "remembering_env = \<lparr>ae_http = (\<lambda>m path params body cids.
       if m = POST then (Inr \<lparr>hr_status_code = 201, hr_json = Some (JObj [])\<rparr>,
         case body of Some (JObj ((_, JStr cid) # _)) \<Rightarrow> cid # cids | _ \<Rightarrow> cids)
       else (Inr (if path = ''/v2/account'' then \<lparr>hr_status_code = 200, hr_json = Some (JObj [])\<rparr>
         else if path = ''/v2/positions'' \<or> path = ''/v2/orders'' then \<lparr>hr_status_code = 200, hr_json = Some (JList [])\<rparr>
         else if path = ''/v2/orders:by_client_order_id'' \<and> snd (hd params) \<in> set cids
         then \<lparr>hr_status_code = 200, hr_json = Some (JObj [])\<rparr>
         else if m = DELETE then \<lparr>hr_status_code = 204, hr_json = None\<rparr>
         else \<lparr>hr_status_code = 404, hr_json = None\<rparr>), cids)),
     ae_decode_order = (\<lambda>_. Inr (BrokerOrder ''b1'' ''c1'' ''AAPL'' 10 ''0'' ''accepted'' None (Some ''buy'') None [])),
     ae_decode_position = (\<lambda>_. Inr \<lparr>pp_symbol = ''AAPL'', pp_qty = ''10'', pp_side = ''long''\<rparr>),
     ae_writes_enabled = (\<lambda>_. True)\<rparr>"

definition held_account_env :: "bool alpaca_env" where
  \<comment> \<open>an account that holds ten shares; the state is whether an order is open\<close>
  "held_account_env = \<lparr>ae_http = (\<lambda>m path params body open_order.
       if m = POST then (Inr \<lparr>hr_status_code = 201, hr_json = Some (JObj [])\<rparr>, True)
       else if m = DELETE then (Inr \<lparr>hr_status_code = 204, hr_json = None\<rparr>, False)
       else (Inr (if path = ''/v2/account'' then \<lparr>hr_status_code = 200, hr_json = Some (JObj [])\<rparr>
         else if path = ''/v2/positions'' then \<lparr>hr_status_code = 200, hr_json = Some (JList [JNull])\<rparr>
         else if path = ''/v2/orders'' then \<lparr>hr_status_code = 200, hr_json = Some (JList (if open_order then [JNull] else []))\<rparr>
         else \<lparr>hr_status_code = 404, hr_json = None\<rparr>), open_order)),
     ae_decode_order = (\<lambda>_. Inr (BrokerOrder ''b1'' ''c1'' ''AAPL'' 10 ''0'' ''accepted'' None (Some ''sell'') None [])),
     ae_decode_position = (\<lambda>_. Inr \<lparr>pp_symbol = ''AAPL'', pp_qty = ''10'', pp_side = ''long''\<rparr>),
     ae_writes_enabled = (\<lambda>_. True)\<rparr>"

definition sample_env :: "'b alpaca_env \<Rightarrow> PaperAccount \<Rightarrow> int \<Rightarrow> bool \<Rightarrow> ('b \<times> wire_write list) session_env" where
  "sample_env e acc time auth = \<lparr>sv_port = direct_alpaca (recorded e),
     sv_get_account = direct_get_account (\<lambda>_. Inr acc) (recorded e), sv_ny_time = (\<lambda>_. time),
     sv_sha12 = (\<lambda>_. ''h''), sv_sha16 = (\<lambda>_. ''h''), sv_authorized = auth, sv_owned = [''AAPL'']\<rparr>"

lemma sample_on_alpaca: "on_alpaca e (\<lambda>_. Inr acc) (sample_env e acc time auth) = sample_env e acc time auth"
  by (simp add: on_alpaca_def sample_env_def)

definition sample_tick ::
    "'b alpaca_env \<Rightarrow> int \<Rightarrow> bool \<Rightarrow> PaperAccount \<Rightarrow> PolicySnapshot \<Rightarrow> datetime \<Rightarrow>
      ('b \<times> wire_write list, PaperSessionResult) session_op" where
  "sample_tick e time auth acc policy t = tick_session (sample_env e acc time auth) probe_plan
     (entry_snapshot\<lparr>sq_policy := policy\<lparr>po_observed_at_utc := t\<rparr>, sq_quote_asof_utc := t\<rparr>)"

definition observing_policy :: PolicySnapshot where
  "observing_policy = entry_policy\<lparr>po_agents_healthy := False\<rparr>"

definition losing_account :: PaperAccount where
  \<comment> \<open>1.7 percent below the last close\<close>
  "losing_account = sample_account\<lparr>pat_equity := ''98300''\<rparr>"

definition sent_command :: "string \<Rightarrow> string \<Rightarrow> paper_command" where
  "sent_command cid kind = completed_command (utc 0) (Some ''b1'') (new_command cid (Date 2026 9 14) kind ''AAPL'' (utc 0))"

definition working_stores :: session_stores where
  \<comment> \<open>the first order of a premarket entry was sent\<close>
  "working_stores = empty_stores\<lparr>ss_paper := empty_paper_ledger\<lparr>
     pa_commands := [sent_command ''tsv2-AAPL-premarket-h-0'' ''premarket_entry''],
     pa_premarket := [\<lparr>pm_plan_id = ''p:premarket-probe'',
       pm_plan = \<lparr>ep_plan_id = ''p:premarket-probe'', ep_symbol = ''AAPL'', ep_target_qty = 10,
         ep_reference_price = Dec False 100 0, ep_reprice_seconds = 3, ep_total_ttl_seconds = 10, ep_max_reprices = 2,
         ep_max_chase_fraction = Dec False 3 (- 3)\<rparr>,
       pm_runtime = \<lparr>er_started_at_utc = Some (utc 0), er_last_command_at_utc = Some (utc 0), er_attempt = 0,
         er_completed_at_utc = None\<rparr>,
       pm_active_client_order_id = Some ''tsv2-AAPL-premarket-h-0'', pm_active_broker_order_id = Some ''b1'',
       pm_updated_at_utc = utc 0\<rparr>]\<rparr>\<rparr>"

definition exited_stores :: session_stores where
  \<comment> \<open>the exit of the day was sent\<close>
  "exited_stores = empty_stores\<lparr>ss_paper := empty_paper_ledger\<lparr>
     pa_commands := [sent_command ''tsv2-20260914-AAPL-exit-h'' ''policy_exit'']\<rparr>\<rparr>"

lemma samples_ok: "stores_ok empty_stores" "stores_ok working_stores" "stores_ok exited_stores"
  using guardian_ok_empty
  by (simp_all add: stores_ok_def working_stores_def exited_stores_def empty_stores_def empty_paper_ledger_def
      stop_ledger_ok_def table_ok_def keys_unique_def)

section \<open>When a tick buys\<close>


text \<open>A premarket entry goes on in a session that is not authorized to write, below the soft limit and with an
  agent unhealthy: the tick cancels the working order and buys again.\<close>

lemma unauthorized_premarket_buys:
  "case sample_tick remembering_env (clock 8 0) False losing_account observing_policy (utc 4000000)
       (([''tsv2-AAPL-premarket-h-0''], []), working_stores) of
     (Inr res, ((_, wire), _)) \<Rightarrow> sr_action res = ENTRY_SUBMITTED \<and> \<not> sr_new_entries_allowed res \<and>
       length wire = 2 \<and> hd wire = delete_order ''b1'' \<and> wire_buys (wire ! 1) | _ \<Rightarrow> False"
  by code_simp


section \<open>What a run sends\<close>







section \<open>The allocation of a regular entry\<close>

lemma components_sum:
  assumes "component_quantities plan equity policy decision desired = Inr components"
    and "target_quantity plan equity (if pd_action decision = ENTER_PROBE then 0 else 25 / 100) = Inr prior"
  shows "sum_list (map snd components) = desired - prior"
  using assms by (auto simp: component_quantities_def Let_def split: sum.splits)

text \<open>A regular entry is sent before it is checked.  When every component could be submitted, the entry
  succeeds exactly when the position held is the whole prior target of the decision, none for a probe and a
  quarter for an upgrade.  Otherwise it raises, with the orders already sent.\<close>

lemma regular_entry_raises_after_sending:
  assumes parts: "component_quantities plan equity (sq_policy snap) decision desired = Inr components"
    and prior: "target_quantity plan equity (if pd_action decision = ENTER_PROBE then 0 else 25 / 100) = Inr prior"
    and target: "entry_take_profit plan snap = Inr take_profit"
    and sent: "mapS (submit_component env plan decision (observed_at snap) take_profit) components p = (Inr ids, q)"
  shows "submit_regular_entry env plan snap decision equity desired (desired - current) p =
    ((if current = prior then Inr (concat ids)
      else Inl (RuntimeError ''regular entry component allocation is inconsistent'')), q)"
  using parts target sent components_sum [OF parts prior]
  by (simp add: submit_regular_entry_def bindS_run thenS_run guardS_run liftS_run)

end
