(* ===== verification/AuditTrail.thy ===== *)
theory AuditTrail
  imports AutoLedger PyRepr
begin

text \<open>
  The audit trail of the autonomous Paper session (\<open>record_audit_event\<close> and \<open>audit_events\<close> of
  \<open>execution/autonomous_paper_session.py\<close>): an append-only table in which every row is hashed together with the hash of the
  row before.  The standard library's \<open>json.dumps\<close> and \<open>isoformat\<close> are modelled as far as the hash needs them; the hash
  itself is a parameter.  A row holds the decoded payload; its text is \<open>json_dumps\<close> of it.
\<close>

section \<open>Timestamps as text\<close>

definition civil_date :: "int \<Rightarrow> int \<times> int \<times> int" where
  \<comment> \<open>year, month and day of a number of days since 1970-01-01\<close>
  "civil_date days = (let z = days + 719468; era = z div 146097; doe = z mod 146097;
     yoe = (doe - doe div 1460 + doe div 36524 - doe div 146096) div 365;
     doy = doe - (365 * yoe + yoe div 4 - yoe div 100); mp = (5 * doy + 2) div 153;
     m = (if mp < 10 then mp + 3 else mp - 9)
   in (yoe + era * 400 + (if m \<le> 2 then 1 else 0), m, doy - (153 * mp + 2) div 5 + 1))"

definition utc_iso :: "int \<Rightarrow> string" where
  \<comment> \<open>\<open>isoformat()\<close> of a UTC timestamp, given in microseconds\<close>
  "utc_iso t = (let us = t mod 1000000; s = t div 1000000; sec = s mod 86400 in
     case civil_date (s div 86400) of (y, m, d) \<Rightarrow>
       show_pad 4 (nat y) @ ''-'' @ show_pad 2 (nat m) @ ''-'' @ show_pad 2 (nat d) @ ''T'' @
       show_pad 2 (nat (sec div 3600)) @ '':'' @ show_pad 2 (nat (sec div 60 mod 60)) @ '':'' @
       show_pad 2 (nat (sec mod 60)) @ (if us = 0 then [] else ''.'' @ show_pad 6 (nat us)) @ ''+00:00'')"

section \<open>Payloads\<close>

datatype audit_key = KeyStr string | KeyOther

datatype audit_value = ANull | ABool bool | AInt int | AStr string | AFloat "rat option" | ADecimal decimal
  | AStamp datetime | ADay date | APath string | AEnum audit_value | AMap "(audit_key \<times> audit_value) list"
  | ASeq "audit_value list" | AUnsupported
  \<comment> \<open>\<open>AFloat None\<close> is an infinite float or a NaN, \<open>ASeq\<close> a list or a tuple, \<open>AEnum\<close> a member that is no string or number\<close>

datatype audit_json = SNull | SBool bool | SInt int | SStr string | SFloat rat | SList "audit_json list"
  | SObj "(string \<times> audit_json) list"

fun text_contains :: "string \<Rightarrow> string \<Rightarrow> bool" where
  "text_contains p [] = (p = [])"
| "text_contains p (c # cs) = (starts_with p (c # cs) \<or> text_contains p cs)"

definition sensitive_fragments :: "string list" where
  "sensitive_fragments = [''secret'', ''password'', ''token'', ''api_key'', ''apikey'', ''authorization'', ''credential'']"

definition sensitive_key :: "string \<Rightarrow> bool" where
  "sensitive_key key = (let normalized = map (\<lambda>c. if c = CHR ''-'' then CHR ''_'' else c) (py_lower key) in
     list_ex (\<lambda>fragment. text_contains fragment normalized) sensitive_fragments)"

fun reject_audit_secrets :: "string \<Rightarrow> audit_value \<Rightarrow> string option"
  and reject_pairs :: "(audit_key \<times> audit_value) list \<Rightarrow> string option"
  and reject_items :: "string \<Rightarrow> audit_value list \<Rightarrow> string option" where
  \<comment> \<open>the message of the first error\<close>
  "reject_audit_secrets key v =
     (if sensitive_key key then Some ''Paper audit payload must not contain secrets''
      else case v of AMap kvs \<Rightarrow> reject_pairs kvs | ASeq xs \<Rightarrow> reject_items key xs | _ \<Rightarrow> None)"
| "reject_pairs [] = None"
| "reject_pairs ((k, v) # kvs) = (case k of KeyOther \<Rightarrow> Some ''Paper audit payload keys must be strings''
     | KeyStr key \<Rightarrow> (case reject_audit_secrets key v of Some m \<Rightarrow> Some m | None \<Rightarrow> reject_pairs kvs))"
| "reject_items key [] = None"
| "reject_items key (x # xs) = (case reject_audit_secrets key x of Some m \<Rightarrow> Some m | None \<Rightarrow> reject_items key xs)"

fun audit_json_safe :: "audit_value \<Rightarrow> audit_json option"
  and safe_pairs :: "(audit_key \<times> audit_value) list \<Rightarrow> (string \<times> audit_json) list option"
  and safe_items :: "audit_value list \<Rightarrow> audit_json list option" where
  \<comment> \<open>None where it raises a ValueError\<close>
  "audit_json_safe ANull = Some SNull"
| "audit_json_safe (ABool b) = Some (SBool b)"
| "audit_json_safe (AInt n) = Some (SInt n)"
| "audit_json_safe (AStr s) = Some (SStr s)"
| "audit_json_safe (AFloat x) = (case x of None \<Rightarrow> None | Some r \<Rightarrow> Some (SFloat r))"
| "audit_json_safe (ADecimal d) = (case d of Finite f \<Rightarrow> Some (SStr (dec_str f)) | _ \<Rightarrow> None)"
| "audit_json_safe (AStamp t) = (if is_utc t then Some (SStr (utc_iso (instant t))) else None)"
| "audit_json_safe (ADay d) = Some (SStr (date_iso d))"
| "audit_json_safe (APath p) = Some (SStr p)"
| "audit_json_safe (AEnum v) = audit_json_safe v"
| "audit_json_safe (AMap kvs) = (case safe_pairs kvs of None \<Rightarrow> None | Some js \<Rightarrow> Some (SObj js))"
| "audit_json_safe (ASeq xs) = (case safe_items xs of None \<Rightarrow> None | Some js \<Rightarrow> Some (SList js))"
| "audit_json_safe AUnsupported = None"
| "safe_pairs [] = Some []"
| "safe_pairs ((k, v) # kvs) = (case k of KeyOther \<Rightarrow> None | KeyStr key \<Rightarrow>
     case audit_json_safe v of None \<Rightarrow> None | Some j \<Rightarrow>
     case safe_pairs kvs of None \<Rightarrow> None | Some js \<Rightarrow> Some ((key, j) # js))"
| "safe_items [] = Some []"
| "safe_items (x # xs) = (case audit_json_safe x of None \<Rightarrow> None | Some j \<Rightarrow>
     case safe_items xs of None \<Rightarrow> None | Some js \<Rightarrow> Some (j # js))"

section \<open>JSON text\<close>

definition hex_char :: "nat \<Rightarrow> char" where
  "hex_char n = char_of (if n < 10 then 48 + n else 87 + n)"

definition json_escape :: "char \<Rightarrow> string" where
  \<comment> \<open>of a character in a JSON string, with \<open>ensure_ascii=False\<close>\<close>
  "json_escape c = (let n = char_code c in
     if n = 34 then [char_of (92 :: nat), c] else if n = 92 then [c, c]
     else if n = 8 then [char_of (92 :: nat), CHR ''b''] else if n = 9 then [char_of (92 :: nat), CHR ''t'']
     else if n = 10 then [char_of (92 :: nat), CHR ''n''] else if n = 12 then [char_of (92 :: nat), CHR ''f'']
     else if n = 13 then [char_of (92 :: nat), CHR ''r'']
     else if n < 32 then char_of (92 :: nat) # ''u00'' @ [hex_char (n div 16), hex_char (n mod 16)]
     else [c])"

definition json_string :: "string \<Rightarrow> string" where
  "json_string s = [char_of (34 :: nat)] @ concat (map json_escape s) @ [char_of (34 :: nat)]"

definition float_text :: "rat \<Rightarrow> string" where
  \<comment> \<open>\<open>float.__repr__\<close>\<close>
  "float_text x = (if x = 0 then ''0.0'' else let d = repr_dec x; s = show_nat (dec_coeff d);
     point = int (length s) + dec_exp d in
     if - 4 < point \<and> point \<le> 16 then dec_format_f d
     else (if x < 0 then ''-'' else []) @ take 1 s @ (if 1 < length s then ''.'' @ drop 1 s else []) @ ''e'' @
       (if 1 \<le> point then ''+'' else ''-'') @ show_pad 2 (nat \<bar>point - 1\<bar>))"

definition comma_list :: "string list \<Rightarrow> string" where
  "comma_list parts = concat (case parts of [] \<Rightarrow> [] | p # ps \<Rightarrow> p # map (\<lambda>q. '','' @ q) ps)"

fun json_dumps :: "audit_json \<Rightarrow> string" where
  \<comment> \<open>with \<open>separators=(",", ":")\<close>\<close>
  "json_dumps SNull = ''null''"
| "json_dumps (SBool b) = (if b then ''true'' else ''false'')"
| "json_dumps (SInt n) = show_int n"
| "json_dumps (SStr s) = json_string s"
| "json_dumps (SFloat x) = float_text x"
| "json_dumps (SList xs) = ''['' @ comma_list (map json_dumps xs) @ '']''"
| "json_dumps (SObj kvs) = ''{'' @ comma_list (map (\<lambda>(k, v). json_string k @ '':'' @ json_dumps v) kvs) @ ''}''"

fun sort_json :: "audit_json \<Rightarrow> audit_json" where
  \<comment> \<open>\<open>sort_keys=True\<close>\<close>
  "sort_json (SList xs) = SList (map sort_json xs)"
| "sort_json (SObj kvs) = SObj (sort_key fst (map (\<lambda>(k, v). (k, sort_json v)) kvs))"
| "sort_json j = j"

section \<open>The table\<close>

record audit_row =
  ar_sequence :: int
  ar_run_id :: string
  ar_event_type :: string
  ar_occurred_at_utc :: datetime
  ar_payload :: audit_json
  ar_previous_hash :: string
  ar_event_hash :: string

type_synonym 'a audit_op = "(audit_row list, 'a) op"

definition audit_text :: "string \<Rightarrow> string \<Rightarrow> string \<Rightarrow> datetime \<Rightarrow> audit_json \<Rightarrow> string" where
  \<comment> \<open>the text that is hashed\<close>
  "audit_text previous run_id event_type at_utc payload = previous @ ''|'' @ run_id @ ''|'' @ event_type @ ''|'' @
     utc_iso (instant at_utc) @ ''|'' @ json_dumps payload"

definition audit_payload :: "audit_value \<Rightarrow> py_error + audit_json" where
  "audit_payload payload = (case audit_json_safe payload of
     None \<Rightarrow> Inl (ValueError ''Paper audit payload is not JSON-safe'') | Some j \<Rightarrow> Inr (sort_json j))"

definition last_hash :: "audit_row list \<Rightarrow> string" where
  "last_hash rows = (if rows = [] then ''GENESIS'' else ar_event_hash (last rows))"

definition next_row :: "(string \<Rightarrow> string) \<Rightarrow> string \<Rightarrow> string \<Rightarrow> datetime \<Rightarrow> audit_json \<Rightarrow> audit_row list \<Rightarrow> audit_row" where
  "next_row sha run_id event_type at_utc payload rows = \<lparr>ar_sequence = int (length rows) + 1, ar_run_id = run_id,
     ar_event_type = event_type, ar_occurred_at_utc = at_utc, ar_payload = payload, ar_previous_hash = last_hash rows,
     ar_event_hash = sha (audit_text (last_hash rows) run_id event_type at_utc payload)\<rparr>"

definition record_audit_event ::
    "(string \<Rightarrow> string) \<Rightarrow> string \<Rightarrow> string \<Rightarrow> datetime \<Rightarrow> (audit_key \<times> audit_value) list \<Rightarrow> audit_row audit_op" where
  \<comment> \<open>the hash of a row is UNIQUE, no row is ever deleted\<close>
  "record_audit_event sha run_id event_type at_utc payload =
     thenS (require_paper_utc at_utc)
     (thenS (guardS (\<not> is_blank run_id \<and> \<not> is_blank event_type) (ValueError ''Paper audit identity is required''))
     (thenS (case reject_audit_secrets [] (AMap payload) of None \<Rightarrow> returnS () | Some m \<Rightarrow> raiseS (ValueError m))
     (bindS (liftS (audit_payload (AMap payload))) (\<lambda>j.
      bindS (readS (next_row sha run_id event_type at_utc j)) (\<lambda>row.
      thenS (bindS (readS (\<lambda>rows. ar_event_hash row \<in> set (map ar_event_hash rows))) (\<lambda>taken.
        guardS (\<not> taken) (IntegrityError ''paper_autopilot_audit_events.event_hash'')))
      (thenS (writeS (\<lambda>rows. rows @ [row])) (returnS row)))))))"

definition audit_events :: "string \<Rightarrow> int \<Rightarrow> audit_row list audit_op" where
  "audit_events run_id limit = thenS (guardS (\<not> is_blank run_id) (ValueError ''Paper audit run ID is required''))
     (thenS (guardS (1 \<le> limit \<and> limit \<le> 10000) (ValueError ''Paper audit limit must be in [1, 10000]''))
     (readS (\<lambda>rows. take (nat limit) (filter (\<lambda>r. ar_run_id r = run_id) rows))))"

declare reject_audit_secrets.simps [simp del]

section \<open>The chain\<close>

definition row_text :: "audit_row \<Rightarrow> string" where
  "row_text r = audit_text (ar_previous_hash r) (ar_run_id r) (ar_event_type r) (ar_occurred_at_utc r) (ar_payload r)"

definition chained :: "(string \<Rightarrow> string) \<Rightarrow> audit_row list \<Rightarrow> bool" where
  \<comment> \<open>the rows are numbered from one, and each is hashed with the hash of the row before\<close>
  "chained sha rows \<longleftrightarrow> (\<forall>i < length rows. ar_sequence (rows ! i) = int i + 1 \<and>
     ar_previous_hash (rows ! i) = last_hash (take i rows) \<and> ar_event_hash (rows ! i) = sha (row_text (rows ! i)))"

lemma chained_Nil [simp]: "chained sha []"
  by (simp add: chained_def)

lemma chained_snoc: "chained sha (rows @ [r]) \<longleftrightarrow> chained sha rows \<and> ar_sequence r = int (length rows) + 1 \<and>
    ar_previous_hash r = last_hash rows \<and> ar_event_hash r = sha (row_text r)"
  by (auto simp: chained_def nth_append less_Suc_eq)

lemma last_hash_snoc [simp]: "last_hash (rows @ [r]) = ar_event_hash r"
  by (simp add: last_hash_def)

section \<open>Keys\<close>

fun json_keys :: "audit_json \<Rightarrow> string list" where
  "json_keys (SList xs) = concat (map json_keys xs)"
| "json_keys (SObj kvs) = concat (map (\<lambda>(k, v). k # json_keys v) kvs)"
| "json_keys j = []"

fun scalar :: "audit_value \<Rightarrow> bool" where
  "scalar (AMap _) = False"
| "scalar (ASeq _) = False"
| "scalar (AEnum _) = False"
| "scalar _ = True"

fun enums_scalar :: "audit_value \<Rightarrow> bool" where
  \<comment> \<open>the value of an enumeration member is no container\<close>
  "enums_scalar (AEnum v) = scalar v"
| "enums_scalar (AMap kvs) = list_all (\<lambda>(k, v). enums_scalar v) kvs"
| "enums_scalar (ASeq xs) = list_all enums_scalar xs"
| "enums_scalar v = True"

lemma rejected_key: "reject_audit_secrets key v = None \<Longrightarrow> \<not> sensitive_key key"
  by (simp add: reject_audit_secrets.simps split: if_splits)

lemma scalar_keys: "scalar v \<Longrightarrow> audit_json_safe v = Some j \<Longrightarrow> json_keys j = []"
  by (cases v) (auto split: option.splits decimal.splits if_splits)

lemma checked_keys:
  "reject_audit_secrets key v = None \<Longrightarrow> enums_scalar v \<Longrightarrow> audit_json_safe v = Some j \<Longrightarrow>
     \<forall>k \<in> set (json_keys j). \<not> sensitive_key k"
  "reject_pairs kvs = None \<Longrightarrow> list_all (\<lambda>(k, v). enums_scalar v) kvs \<Longrightarrow> safe_pairs kvs = Some js \<Longrightarrow>
     \<forall>k \<in> set (json_keys (SObj js)). \<not> sensitive_key k"
  "reject_items key xs = None \<Longrightarrow> list_all enums_scalar xs \<Longrightarrow> safe_items xs = Some ys \<Longrightarrow>
     \<forall>k \<in> set (json_keys (SList ys)). \<not> sensitive_key k"
proof (induction key v and kvs and key xs arbitrary: j and js and ys
    rule: reject_audit_secrets_reject_pairs_reject_items.induct)
  case (1 key v)
  show ?case
  proof (cases v)
    case (AMap kvs)
    with 1 show ?thesis by (auto simp: reject_audit_secrets.simps [of key] split: if_splits option.splits)
  next
    case (ASeq xs)
    with 1 show ?thesis by (auto simp: reject_audit_secrets.simps [of key] split: if_splits option.splits)
  next
    case (AEnum w)
    with 1 show ?thesis by (simp add: scalar_keys)
  qed (use 1 in \<open>auto split: option.splits decimal.splits if_splits\<close>)
next
  case (3 k v kvs)
  then show ?case by (auto split: option.splits audit_key.splits dest: rejected_key)
next
  case (5 key x xs)
  then show ?case by (auto split: option.splits)
qed auto

lemma sorted_keys: "set (json_keys (sort_json j)) = set (json_keys j)"
  by (induction j) auto

section \<open>A run of events\<close>

record audit_event =
  av_run_id :: string
  av_event_type :: string
  av_at_utc :: datetime
  av_payload :: "(audit_key \<times> audit_value) list"

definition audit_ok :: "(string \<Rightarrow> string) \<Rightarrow> audit_row list \<Rightarrow> bool" where
  "audit_ok sha rows \<longleftrightarrow> chained sha rows \<and> distinct (map ar_event_hash rows) \<and>
     (\<forall>r \<in> set rows. is_utc (ar_occurred_at_utc r))"

definition secret_free :: "audit_row \<Rightarrow> bool" where
  "secret_free r \<longleftrightarrow> (\<forall>k \<in> set (json_keys (ar_payload r)). \<not> sensitive_key k)"

definition exec_audit :: "(string \<Rightarrow> string) \<Rightarrow> audit_event \<Rightarrow> audit_row list \<Rightarrow> audit_row list" where
  "exec_audit sha e rows = snd (record_audit_event sha (av_run_id e) (av_event_type e) (av_at_utc e) (av_payload e) rows)"

lemma record_audit_event_cases:
  assumes "record_audit_event sha run_id event_type at_utc payload rows = (x, rows')"
  shows "(\<exists>e. x = Inl e \<and> rows' = rows) \<or> (\<exists>r j. x = Inr r \<and> rows' = rows @ [r] \<and>
    reject_audit_secrets [] (AMap payload) = None \<and> audit_json_safe (AMap payload) = Some j \<and>
    r = next_row sha run_id event_type at_utc (sort_json j) rows \<and>
    ar_event_hash r \<notin> set (map ar_event_hash rows) \<and> is_utc at_utc)"
  using assms
  by (auto simp: record_audit_event_def require_paper_utc_def audit_payload_def run simp del: audit_json_safe.simps
      split: if_splits option.splits)

lemma next_row_text: "row_text (next_row sha run_id event_type at_utc j rows) =
    audit_text (last_hash rows) run_id event_type at_utc j"
  by (simp add: row_text_def next_row_def)

lemma record_audit_event_ok:
  assumes ok: "audit_ok sha rows" and step: "record_audit_event sha run_id event_type at_utc payload rows = (x, rows')"
  shows "audit_ok sha rows' \<and> (\<exists>more. rows' = rows @ more \<and>
    (enums_scalar (AMap payload) \<longrightarrow> (\<forall>r \<in> set more. secret_free r)))"
proof -
  from record_audit_event_cases [OF step] consider (kept) "rows' = rows"
    | (added) r j where "rows' = rows @ [r]" "reject_audit_secrets [] (AMap payload) = None"
      "audit_json_safe (AMap payload) = Some j" "r = next_row sha run_id event_type at_utc (sort_json j) rows"
      "ar_event_hash r \<notin> set (map ar_event_hash rows)" "is_utc at_utc" by blast
  then show ?thesis
  proof cases
    case kept
    with ok show ?thesis by simp
  next
    case added
    have "secret_free r" if "enums_scalar (AMap payload)"
      using checked_keys(1) [OF added(2) that added(3)] unfolding added(4)
      by (simp add: secret_free_def next_row_def sorted_keys)
    moreover have "audit_ok sha rows'"
      using ok added(5,6) unfolding added(1)
      by (simp add: audit_ok_def chained_snoc added(4) next_row_text) (simp add: next_row_def)
    ultimately show ?thesis using added(1) by auto
  qed
qed

text \<open>C30: the audit trail is append-only and free of secrets.  Over any sequence of events, recorded or refused, the
  table stays a chain of distinct hashes numbered from one, no row that was written changes, and no key of a
  row that is added, at any depth of its payload, names a secret, provided that no enumeration member hides a
  container.\<close>

theorem audit_trail_appends:
  assumes ok: "audit_ok sha rows" and flat: "\<forall>e \<in> set events. enums_scalar (AMap (av_payload e))"
  shows "audit_ok sha (fold (exec_audit sha) events rows) \<and>
    (\<exists>more. fold (exec_audit sha) events rows = rows @ more \<and> (\<forall>r \<in> set more. secret_free r))"
  using assms
proof (induction events arbitrary: rows)
  case Nil
  then show ?case by simp
next
  case (Cons e events)
  obtain x rows' where step: "record_audit_event sha (av_run_id e) (av_event_type e) (av_at_utc e) (av_payload e) rows = (x, rows')"
    by (cases "record_audit_event sha (av_run_id e) (av_event_type e) (av_at_utc e) (av_payload e) rows")
  obtain more where more: "audit_ok sha rows'" "rows' = rows @ more" "\<forall>r \<in> set more. secret_free r"
    using record_audit_event_ok [OF Cons.prems(1) step] Cons.prems(2) by auto
  have "exec_audit sha e rows = rows'" by (simp add: exec_audit_def step)
  with Cons.IH [OF more(1)] Cons.prems(2) more(2,3) show ?case by auto
qed

section \<open>What the last hash says\<close>

lemma text_head:
  assumes "CHR ''|'' \<notin> set p" and "CHR ''|'' \<notin> set q" and "p @ CHR ''|'' # x = q @ CHR ''|'' # y"
  shows "p = q"
  using assms
proof (induction p arbitrary: q)
  case Nil
  then show ?case by (cases q) auto
next
  case (Cons c p)
  then show ?case by (cases q) auto
qed

lemma row_text_previous:
  assumes "row_text r = row_text r'" and "CHR ''|'' \<notin> set (ar_previous_hash r)" and "CHR ''|'' \<notin> set (ar_previous_hash r')"
  shows "ar_previous_hash r = ar_previous_hash r'"
  using text_head [OF assms(2,3)] assms(1) by (simp add: row_text_def audit_text_def)


text \<open>The text that is hashed does not separate its fields: a bar in a run id moves the border to the event type.\<close>

lemma audit_text_ambiguous:
  "audit_text previous (run_id @ ''|'' @ part) event_type at_utc payload =
   audit_text previous run_id (part @ ''|'' @ event_type) at_utc payload"
  by (simp add: audit_text_def)

section \<open>Concrete trails\<close>

fun plain_hash :: "string \<Rightarrow> string" where
  \<comment> \<open>an injective stand-in for the hash: every character in unary\<close>
  "plain_hash [] = []"
| "plain_hash (c # cs) = replicate (char_code c) (CHR ''x'') @ CHR ''y'' # plain_hash cs"

lemma unary_inject:
  "replicate m (CHR ''x'') @ CHR ''y'' # s = replicate n (CHR ''x'') @ CHR ''y'' # t \<Longrightarrow> m = n \<and> s = t"
proof (induction m arbitrary: n)
  case 0
  then show ?case by (cases n) auto
next
  case (Suc m)
  then show ?case by (cases n) auto
qed

lemma plain_hash_inj: "inj plain_hash"
proof (rule injI)
  fix s t assume "plain_hash s = plain_hash t"
  then show "s = t"
  proof (induction s arbitrary: t)
    case Nil
    then show ?case by (cases t) auto
  next
    case (Cons c s)
    then show ?case by (cases t) (auto dest!: unary_inject)
  qed
qed

lemma plain_hash_chars: "set (plain_hash s) \<subseteq> {CHR ''x'', CHR ''y''}"
  by (induction s) auto

lemma plain_hash_documented: "\<forall>s. CHR ''|'' \<notin> set (plain_hash s)" "\<forall>s. plain_hash s \<noteq> ''GENESIS''"
proof -
  show "\<forall>s. CHR ''|'' \<notin> set (plain_hash s)" using plain_hash_chars by fastforce
  have "set ''GENESIS'' \<subseteq> {CHR ''x'', CHR ''y''}" if "plain_hash s = ''GENESIS''" for s
    using plain_hash_chars [of s] that by simp
  then show "\<forall>s. plain_hash s \<noteq> ''GENESIS''" by fastforce
qed

definition fill_event :: audit_event where
  "fill_event = \<lparr>av_run_id = ''r'', av_event_type = ''fill'', av_at_utc = utc 0,
     av_payload = [(KeyStr ''qty'', AInt 10), (KeyStr ''ids'', ASeq [AStr ''b1''])]\<rparr>"

definition leaking_event :: audit_event where
  "leaking_event = fill_event\<lparr>av_payload := [(KeyStr ''account'', AMap [(KeyStr ''API-Key'', AStr ''k'')])]\<rparr>"

lemma audit_trail_appends_witness:
  "audit_ok id (fold (exec_audit id) [fill_event, leaking_event] []) \<and>
   length (fold (exec_audit id) [fill_event, leaking_event] []) = 1"
proof -
  have ok: "audit_ok id []" by (simp add: audit_ok_def)
  have flat: "\<forall>e \<in> set [fill_event, leaking_event]. enums_scalar (AMap (av_payload e))" by code_simp
  have "length (fold (exec_audit id) [fill_event, leaking_event] []) = 1" by code_simp
  with audit_trail_appends [OF ok flat] show ?thesis by simp
qed


end
