(* ===== verification/IbkrPaper.thy ===== *)
theory IbkrPaper
  imports IbkrDesk CloudPaper Positions AuditTrail
begin

text \<open>
  \<open>execution/ibkr_paper_broker.py\<close>: the broker of the autonomous session over an IBKR Paper gateway.  The
  transport (the socket adapter) and SHA-256 are parameters; a state is the transport's state with the
  table \<open>ibkr_paper_orders\<close>.  \<open>IBKRPaperRecoveryRequired\<close> and \<open>IBKRPaperWhatIfBlocked\<close> are subclasses of
  \<open>BrokerError\<close> and are told apart by their texts.  \<open>ipe_repr\<close> is Python's \<open>str\<close> of a list or dict.
\<close>

section \<open>Order commands (execution/ibkr_tws_adapter.py)\<close>

record IbkrAccountValues =
  iv_account_id :: string
  iv_net_liquidation :: dec
  iv_previous_equity :: dec
  iv_buying_power :: dec

record IbkrOrderCommand =
  ic_account_id :: string
  ic_symbol :: string
  ic_side :: string
  ic_quantity :: int
  ic_order_type :: string
  ic_order_ref :: string
  ic_limit_price :: "dec option"
  ic_stop_price :: "dec option"
  ic_outside_rth :: bool
  ic_parent_order_id :: "int option"
  ic_parent_index :: "int option"
  ic_transmit :: bool

definition no_price :: "dec option \<Rightarrow> bool" where
  \<comment> \<open>\<open>price is None or price <= 0\<close>\<close>
  "no_price p \<longleftrightarrow> (case p of None \<Rightarrow> True | Some d \<Rightarrow> dec_val d \<le> 0)"

definition command_price_error :: "IbkrOrderCommand \<Rightarrow> string option" where
  "command_price_error c =
     (if ic_order_type c = ''LMT'' then
        if no_price (ic_limit_price c) then Some ''IBKR limit order needs a positive limit price''
        else if ic_stop_price c \<noteq> None then Some ''IBKR limit order cannot include a stop price''
        else None
      else if ic_order_type c = ''STP'' then
        if no_price (ic_stop_price c) then Some ''IBKR stop order needs a positive stop price''
        else if ic_limit_price c \<noteq> None then Some ''IBKR stop order cannot include a limit price''
        else if ic_outside_rth c then Some ''IBKR stop order cannot be outside regular trading hours''
        else None
      else if ic_limit_price c \<noteq> None \<or> ic_stop_price c \<noteq> None
        then Some ''IBKR market order cannot include a limit or stop price''
      else None)"

definition command_error :: "IbkrOrderCommand \<Rightarrow> string option" where
  "command_error c =
     (if is_blank (ic_account_id c) then Some ''IBKR order account is required''
      else if ic_symbol c = [] \<or> ic_symbol c \<noteq> norm_symbol (ic_symbol c)
        then Some ''IBKR order symbol must be uppercase''
      else if ic_quantity c \<le> 0 then Some ''IBKR order quantity must be positive''
      else if is_blank (ic_order_ref c) \<or> 45 < length (ic_order_ref c)
        then Some ''IBKR order_ref must be between 1 and 45 characters''
      else if (case ic_parent_order_id c of None \<Rightarrow> False | Some n \<Rightarrow> n \<le> 0)
        then Some ''IBKR parent order id must be positive''
      else if (case ic_parent_index c of None \<Rightarrow> False | Some n \<Rightarrow> n < 0)
        then Some ''IBKR parent order index cannot be negative''
      else if ic_parent_order_id c \<noteq> None \<and> ic_parent_index c \<noteq> None
        then Some ''IBKR parent order id and index are mutually exclusive''
      else command_price_error c)"

definition validate_command :: "IbkrOrderCommand \<Rightarrow> py_error + IbkrOrderCommand" where
  "validate_command c = (case command_error c of Some m \<Rightarrow> Inl (ValueError m) | None \<Rightarrow> Inr c)"

section \<open>Transport, table and helpers\<close>

record 'w paper_transport =
  pt_connected :: "'w \<Rightarrow> bool"
  pt_connect :: "string \<Rightarrow> int \<Rightarrow> int \<Rightarrow> ('w, unit) op"
  pt_disconnect :: "('w, unit) op"
  pt_account_snapshot :: "('w, BrokerAccountSnapshot) op"
  pt_account_values :: "('w, IbkrAccountValues) op"
  pt_what_if :: "IbkrOrderCommand \<Rightarrow> ('w, BrokerWhatIf) op"
  pt_submit_group :: "IbkrOrderCommand list \<Rightarrow> ('w, BrokerSubmission list) op"
  pt_find_by_order_ref :: "string \<Rightarrow> ('w, BrokerSubmission option) op"
  pt_cancel_order :: "int \<Rightarrow> ('w, bool) op"

record StoredOrder =
  so_client_order_id :: string
  so_order_ref :: string
  so_request_hash :: string
  so_symbol :: string
  so_quantity :: int
  so_status :: string
  so_broker_order_id :: "int option"

type_synonym paper_orders = "StoredOrder list"

record 'w ibkr_paper_env =
  ipe_transport :: "'w paper_transport"
  ipe_account :: string
  ipe_writes_enabled :: bool
  ipe_sha256 :: "string \<Rightarrow> string" \<comment> \<open>the hexadecimal digest\<close>
  ipe_repr :: "json \<Rightarrow> string"

type_synonym ('w, 'a) gateway_op = "('w \<times> paper_orders, 'a) op"

definition PAPER_PORT :: int where "PAPER_PORT = 4002"

definition paper_account_pattern :: "string \<Rightarrow> bool" where
  \<comment> \<open>\<open>re.fullmatch(r"DU[A-Z0-9-]{4,30}", s)\<close>\<close>
  "paper_account_pattern s \<longleftrightarrow> take 2 s = ''DU'' \<and> 6 \<le> length s \<and> length s \<le> 32 \<and>
     list_all (\<lambda>c. is_upper c \<or> is_digit c \<or> c = CHR ''-'') (drop 2 s)"

definition open_ibkr_paper ::
    "'w paper_transport \<Rightarrow> string \<Rightarrow> bool \<Rightarrow> (string \<Rightarrow> string) \<Rightarrow> (json \<Rightarrow> string) \<Rightarrow> py_error + 'w ibkr_paper_env" where
  \<comment> \<open>the constructor; the file it opens is the table of the state\<close>
  "open_ibkr_paper t account writes sha repr = (let normalized = py_upper (py_strip account) in
     if \<not> paper_account_pattern normalized
     then Inl (ValueError ''IBKR Paper account must use a DU account identifier'')
     else Inr \<lparr>ipe_transport = t, ipe_account = normalized, ipe_writes_enabled = writes, ipe_sha256 = sha,
            ipe_repr = repr\<rparr>)"

definition ascii_escape :: "char \<Rightarrow> string" where
  \<comment> \<open>of a character in a JSON string, with the default \<open>ensure_ascii=True\<close>\<close>
  "ascii_escape c = (let n = char_code c in
     if n < 128 then json_escape c
     else char_of (92 :: nat) # ''u00'' @ [hex_char (n div 16), hex_char (n mod 16)])"

definition ascii_string :: "string \<Rightarrow> string" where
  "ascii_string s = [char_of (34 :: nat)] @ concat (map ascii_escape s) @ [char_of (34 :: nat)]"

fun canonical_json :: "json \<Rightarrow> string" where
  \<comment> \<open>\<open>json.dumps(value, sort_keys=True, separators=(",", ":"))\<close>\<close>
  "canonical_json JNull = ''null''"
| "canonical_json (JBool b) = (if b then ''true'' else ''false'')"
| "canonical_json (JInt n) = show_int n"
| "canonical_json (JStr s) = ascii_string s"
| "canonical_json (JList xs) = ''['' @ comma_list (map canonical_json xs) @ '']''"
| "canonical_json (JObj kvs) = ''{'' @ comma_list (map (\<lambda>(k, t). ascii_string k @ '':'' @ t)
     (sort_key fst (map (\<lambda>(k, v). (k, canonical_json v)) kvs))) @ ''}''"

definition paper_request_hash :: "'w ibkr_paper_env \<Rightarrow> dict \<Rightarrow> string" where
  "paper_request_hash env payload = ipe_sha256 env (canonical_json (JObj payload))"

definition paper_order_ref :: "'w ibkr_paper_env \<Rightarrow> string \<Rightarrow> string" where
  "paper_order_ref env client_order_id = ''aqp:'' @ take 32 (ipe_sha256 env client_order_id)"

definition paper_invalid :: "string \<Rightarrow> py_error" where
  "paper_invalid name = ValueError (''IBKR Paper '' @ name @ '' is invalid'')"

definition paper_decimal :: "string \<Rightarrow> string \<Rightarrow> py_error + dec" where
  \<comment> \<open>\<open>_decimal\<close>, of the text of the value\<close>
  "paper_decimal name text = (case parse_decimal text of
       Some (Finite d) \<Rightarrow> if dec_val d \<le> 0 then Inl (paper_invalid name) else Inr d
     | _ \<Rightarrow> Inl (paper_invalid name))"

definition paper_positive_int :: "string \<Rightarrow> string \<Rightarrow> py_error + int" where
  \<comment> \<open>a NaN raises InvalidOperation when it is compared, an infinity OverflowError at the end\<close>
  "paper_positive_int name = whole_share_quantity (paper_invalid name) (paper_invalid name)"

definition paper_status :: "string \<Rightarrow> string" where
  "paper_status value = (let normalized = py_lower (py_strip value) in
     if List.member [''submitted'', ''presubmitted'', ''pendingsubmit''] normalized then ''accepted''
     else if normalized = ''inactive'' then ''rejected''
     else if normalized = [] then ''unknown'' else normalized)"

definition paper_broker_order :: "StoredOrder \<Rightarrow> py_error + BrokerOrder" where
  "paper_broker_order stored = (case so_broker_order_id stored of
       None \<Rightarrow> Inl (BrokerError ''IBKR Paper order has no broker id'')
     | Some n \<Rightarrow> if so_quantity stored \<le> 0 then Inl (ValidationError ''qty'')
         else Inr (BrokerOrder (show_int n) (so_client_order_id stored) (norm_symbol (so_symbol stored))
           (so_quantity stored) ''0'' (paper_status (so_status stored)) None None None []))"

definition decimal_abs :: "dec \<Rightarrow> dec" where
  "decimal_abs d = dec_fix (Dec False (dec_coeff d) (dec_exp d))"

section \<open>The account\<close>

definition assert_paper_account :: "'w ibkr_paper_env \<Rightarrow> string \<Rightarrow> ('s, unit) op" where
  "assert_paper_account env account_id =
     guardS (py_upper (py_strip account_id) = ipe_account env) (BrokerError ''IBKR Paper account mismatch'')"

definition snapshot_for_account :: "'w ibkr_paper_env \<Rightarrow> ('w, BrokerAccountSnapshot) gateway_op" where
  "snapshot_for_account env =
     bindS (on_fst (readS (pt_connected (ipe_transport env)))) (\<lambda>connected.
     thenS (guardS connected (BrokerError ''IBKR Paper is not connected''))
     (bindS (on_fst (pt_account_snapshot (ipe_transport env))) (\<lambda>snapshot.
      thenS (assert_paper_account env (ba_account_id snapshot)) (returnS snapshot))))"

definition paper_connect :: "'w ibkr_paper_env \<Rightarrow> string \<Rightarrow> int \<Rightarrow> ('w, unit) gateway_op" where
  "paper_connect env host client_id =
     thenS (guardS (\<not> is_blank host) (ValueError ''IBKR Paper host is required''))
     (thenS (guardS (0 \<le> client_id) (ValueError ''IBKR Paper client id is invalid''))
     (thenS (on_fst (pt_disconnect (ipe_transport env)))
     (thenS (on_fst (pt_connect (ipe_transport env) (py_strip host) PAPER_PORT client_id))
     (bindS (attemptS (\<lambda>_. True) (snapshot_for_account env)) (\<lambda>r. case r of
        Inr _ \<Rightarrow> returnS ()
      | Inl e \<Rightarrow> thenS (on_fst (pt_disconnect (ipe_transport env))) (raiseS e))))))"

definition paper_close :: "'w ibkr_paper_env \<Rightarrow> ('w, unit) gateway_op" where
  "paper_close env = on_fst (pt_disconnect (ipe_transport env))"

definition paper_get_account :: "'w ibkr_paper_env \<Rightarrow> ('w, PaperAccount) gateway_op" where
  "paper_get_account env =
     bindS (snapshot_for_account env) (\<lambda>snapshot.
     bindS (on_fst (pt_account_values (ipe_transport env))) (\<lambda>values.
     thenS (assert_paper_account env (iv_account_id values))
     (bindS (on_fst (readS (pt_connected (ipe_transport env)))) (\<lambda>connected.
      let active = connected \<and> \<not> ba_api_read_only snapshot in
      returnS \<lparr>pat_id = None, pat_currency = None, pat_status = (if active then ''ACTIVE'' else ''INACTIVE''),
        pat_account_blocked = (\<not> connected), pat_trading_blocked = (\<not> active),
        pat_equity = dec_format_f (iv_net_liquidation values),
        pat_last_equity = dec_format_f (iv_previous_equity values),
        pat_buying_power = dec_format_f (iv_buying_power values)\<rparr>))))"

definition require_paper_writes :: "'w ibkr_paper_env \<Rightarrow> ('w, unit) gateway_op" where
  "require_paper_writes env =
     thenS (guardS (ipe_writes_enabled env) (BrokerWritesDisabledError ''IBKR Paper writes are disabled''))
     (bindS (paper_get_account env) (\<lambda>account.
      guardS (\<not> (pat_trading_blocked account \<or> pat_account_blocked account))
        (BrokerError ''IBKR Paper trading is unavailable'')))"

definition is_stock_row :: "(json \<Rightarrow> string) \<Rightarrow> dict \<Rightarrow> bool" where
  "is_stock_row repr raw \<longleftrightarrow> py_upper (py_str repr (get_or ''security_type'' (JStr []) raw)) = ''STK''"

definition paper_position :: "(json \<Rightarrow> string) \<Rightarrow> dict \<Rightarrow> py_error + PaperPosition list" where
  \<comment> \<open>one turn of the loop: the positions it appends; the prices of the result are not modelled\<close>
  "paper_position repr raw =
     (if \<not> is_stock_row repr raw then Inr []
      else case paper_decimal ''position quantity'' (py_str repr (json_get ''quantity'' raw)) of
        Inl e \<Rightarrow> Inl e
      | Inr quantity \<Rightarrow>
          if dec_val quantity = 0 then Inr []
          else case paper_decimal ''position average cost'' (py_str repr (json_get ''average_cost'' raw)) of
            Inl e \<Rightarrow> Inl e
          | Inr _ \<Rightarrow> Inr [\<lparr>pp_symbol = clean_upper repr (get_or ''symbol'' (JStr []) raw),
              pp_qty = dec_format_f (decimal_abs quantity),
              pp_side = (if 0 < dec_val quantity then ''long'' else ''short'')\<rparr>])"

definition paper_list_positions :: "'w ibkr_paper_env \<Rightarrow> ('w, PaperPosition list) gateway_op" where
  "paper_list_positions env =
     bindS (snapshot_for_account env) (\<lambda>snapshot.
     bindS (mapS (\<lambda>raw. liftS (paper_position (ipe_repr env) raw)) (ba_positions snapshot)) (\<lambda>found.
       returnS (sort_key pp_symbol (concat found))))"

definition find_paper_ref :: "string \<Rightarrow> paper_orders \<Rightarrow> StoredOrder option" where
  "find_paper_ref order_ref rows = (if order_ref = [] then None else tbl_find so_order_ref order_ref rows)"

definition paper_open_order :: "(json \<Rightarrow> string) \<Rightarrow> paper_orders \<Rightarrow> dict \<Rightarrow> py_error + BrokerOrder" where
  "paper_open_order repr rows raw =
     (case paper_positive_int ''open order id'' (py_str repr (json_get ''order_id'' raw)) of Inl e \<Rightarrow> Inl e
      | Inr order_id \<Rightarrow>
      case paper_positive_int ''open order quantity'' (py_str repr (json_get ''quantity'' raw)) of Inl e \<Rightarrow> Inl e
      | Inr quantity \<Rightarrow> Inr (BrokerOrder (show_int order_id)
          (case find_paper_ref (py_str repr (get_or ''order_ref'' (JStr []) raw)) rows of
             Some stored \<Rightarrow> so_client_order_id stored | None \<Rightarrow> ''manual:'' @ show_int order_id)
          (clean_upper repr (get_or ''symbol'' (JStr []) raw)) quantity
          (py_str repr (get_or ''filled_qty'' (JStr ''0'') raw))
          (paper_status (py_str repr (get_or ''status'' (JStr ''unknown'') raw))) None None None []))"

definition paper_list_open_orders :: "'w ibkr_paper_env \<Rightarrow> ('w, BrokerOrder list) gateway_op" where
  "paper_list_open_orders env =
     bindS (snapshot_for_account env) (\<lambda>snapshot.
     bindS (on_snd (readS id)) (\<lambda>rows.
     bindS (mapS (\<lambda>raw. liftS (paper_open_order (ipe_repr env) rows raw)) (ba_open_orders snapshot)) (\<lambda>orders.
       returnS (sort_key (\<lambda>order. read_nat (AlpacaPaper.bo_id order)) orders))))"

section \<open>Limits of a reducing order\<close>

definition paper_order_side :: "'w ibkr_paper_env \<Rightarrow> string \<Rightarrow> ('w, string) gateway_op" where
  "paper_order_side env order_id = bindS (snapshot_for_account env) (\<lambda>snapshot. returnS
     (case find (\<lambda>order. py_str (ipe_repr env) (json_get ''order_id'' order) = order_id) (ba_open_orders snapshot) of
        None \<Rightarrow> [] | Some order \<Rightarrow> py_upper (py_str (ipe_repr env) (get_or ''side'' (JStr []) order))))"

definition paper_active_statuses :: "string list" where
  "paper_active_statuses = [''new'', ''accepted'', ''pending_new'', ''partially_filled'']"

definition assert_reduces_long :: "'w ibkr_paper_env \<Rightarrow> string \<Rightarrow> int \<Rightarrow> ('w, unit) gateway_op" where
  "assert_reduces_long env symbol quantity =
     bindS (paper_list_positions env) (\<lambda>positions.
     bindS (mapS (\<lambda>position. liftS (paper_positive_int ''position quantity'' (pp_qty position)))
       (filter (\<lambda>position. pp_symbol position = symbol \<and> pp_side position = ''long'') positions)) (\<lambda>held.
     bindS (paper_list_open_orders env) (\<lambda>orders.
     bindS (mapS (\<lambda>order. bindS (paper_order_side env (AlpacaPaper.bo_id order)) (\<lambda>side.
         returnS (if side = ''SELL'' then AlpacaPaper.bo_qty order else 0)))
       (filter (\<lambda>order. AlpacaPaper.bo_symbol order = symbol \<and>
           List.member paper_active_statuses (bo_status order)) orders)) (\<lambda>sells.
     guardS (quantity \<le> sum_list held - sum_list sells)
       (RuntimeError ''IBKR Paper reduce order exceeds the available long position'')))))"

section \<open>The table\<close>

definition find_paper_order :: "string \<Rightarrow> paper_orders \<Rightarrow> StoredOrder option" where
  "find_paper_order client_order_id = tbl_find so_client_order_id client_order_id"

definition submitting_row :: "string \<Rightarrow> string \<Rightarrow> string \<Rightarrow> string \<Rightarrow> int \<Rightarrow> StoredOrder" where
  "submitting_row cid order_ref hash symbol quantity =
     \<lparr>so_client_order_id = cid, so_order_ref = order_ref, so_request_hash = hash, so_symbol = symbol,
      so_quantity = quantity, so_status = ''submitting'', so_broker_order_id = None\<rparr>"

definition ensure_paper_order ::
    "string \<Rightarrow> string \<Rightarrow> string \<Rightarrow> string \<Rightarrow> int \<Rightarrow> (paper_orders, StoredOrder \<times> bool) op" where
  \<comment> \<open>the row, and whether this call created it\<close>
  "ensure_paper_order cid order_ref hash symbol quantity =
     bindS (readS (find_paper_order cid)) (\<lambda>found. case found of
       None \<Rightarrow> bindS (readS (tbl_find so_order_ref order_ref)) (\<lambda>taken.
         thenS (guardS (taken = None) (IntegrityError ''UNIQUE constraint failed: ibkr_paper_orders.order_ref''))
         (thenS (writeS (tbl_insert (submitting_row cid order_ref hash symbol quantity)))
           (returnS (submitting_row cid order_ref hash symbol quantity, True))))
     | Some existing \<Rightarrow> thenS (guardS (so_order_ref existing = order_ref \<and> so_request_hash existing = hash \<and>
           so_symbol existing = symbol \<and> so_quantity existing = quantity)
           (RuntimeError ''IBKR Paper client order id identity conflict''))
         (returnS (existing, False)))"

definition update_paper_status :: "string \<Rightarrow> string \<Rightarrow> ('w, unit) gateway_op" where
  "update_paper_status status cid =
     on_snd (writeS (tbl_update so_client_order_id cid (\<lambda>r. r\<lparr>so_status := status\<rparr>)))"

definition update_status_for_broker_id :: "int \<Rightarrow> string \<Rightarrow> ('w, unit) gateway_op" where
  "update_status_for_broker_id broker_order_id status =
     on_snd (writeS (tbl_update so_broker_order_id (Some broker_order_id) (\<lambda>r. r\<lparr>so_status := status\<rparr>)))"

definition settle_stored :: "BrokerSubmission \<Rightarrow> StoredOrder \<Rightarrow> StoredOrder" where
  "settle_stored submission r =
     r\<lparr>so_status := paper_status (bs_status submission), so_broker_order_id := Some (bs_order_id submission)\<rparr>"

definition store_submission :: "StoredOrder \<Rightarrow> BrokerSubmission \<Rightarrow> ('w, StoredOrder) gateway_op" where
  "store_submission stored submission =
     thenS (on_snd (writeS (tbl_update so_client_order_id (so_client_order_id stored) (settle_stored submission))))
       (returnS (settle_stored submission stored))"

definition uncertain_stored :: "StoredOrder \<Rightarrow> bool" where
  "uncertain_stored stored \<longleftrightarrow> so_status stored = ''submitting'' \<or> so_status stored = ''unknown''"

definition recovery_error :: py_error where
  "recovery_error = BrokerError ''ibkr_paper_recovery_required''"

definition recover_or_return :: "'w ibkr_paper_env \<Rightarrow> StoredOrder \<Rightarrow> ('w, BrokerOrder) gateway_op" where
  "recover_or_return env stored =
     bindS (if \<not> uncertain_stored stored then returnS stored
       else bindS (on_fst (pt_find_by_order_ref (ipe_transport env) (so_order_ref stored))) (\<lambda>recovered.
         case recovered of None \<Rightarrow> raiseS recovery_error | Some s \<Rightarrow> store_submission stored s)) (\<lambda>stored'.
     thenS (guardS (so_status stored' \<noteq> ''rejected'') (RuntimeError ''IBKR Paper order was rejected''))
       (liftS (paper_broker_order stored')))"

definition paper_get_order :: "'w ibkr_paper_env \<Rightarrow> string \<Rightarrow> ('w, BrokerOrder option) gateway_op" where
  "paper_get_order env cid =
     bindS (on_snd (readS (find_paper_order cid))) (\<lambda>found. case found of
       None \<Rightarrow> returnS None
     | Some stored \<Rightarrow>
         bindS (on_fst (pt_find_by_order_ref (ipe_transport env) (so_order_ref stored))) (\<lambda>recovered.
         case recovered of
           Some s \<Rightarrow> bindS (store_submission stored s) (\<lambda>stored'.
             bindS (liftS (paper_broker_order stored')) (\<lambda>order. returnS (Some order)))
         | None \<Rightarrow> thenS (guardS (\<not> uncertain_stored stored) recovery_error)
             (bindS (liftS (paper_broker_order stored)) (\<lambda>order. returnS (Some order)))))"

definition paper_cancel_order :: "'w ibkr_paper_env \<Rightarrow> string \<Rightarrow> ('w, bool) gateway_op" where
  "paper_cancel_order env order_id =
     thenS (require_paper_writes env)
     (bindS (liftS (paper_positive_int ''IBKR cancel order id'' order_id)) (\<lambda>numeric.
      bindS (on_fst (pt_cancel_order (ipe_transport env) numeric)) (\<lambda>cancelled.
      thenS (if cancelled then update_status_for_broker_id numeric ''cancelled'' else returnS ())
        (returnS cancelled))))"

section \<open>Submitting a group\<close>

fun is_runtime_error :: "py_error \<Rightarrow> bool" where
  \<comment> \<open>the classes that \<open>except RuntimeError\<close> catches\<close>
  "is_runtime_error (RuntimeError _) = True"
| "is_runtime_error (BrokerError _) = True"
| "is_runtime_error (BrokerWritesDisabledError _) = True"
| "is_runtime_error (BrokerOrderRejected _) = True"
| "is_runtime_error (ReconciliationError _) = True"
| "is_runtime_error (OrderLedgerConflictError _) = True"
| "is_runtime_error (LoopPreconditionError _) = True"
| "is_runtime_error (AuditOnlyBackfillRequired _) = True"
| "is_runtime_error (LoopRemoteRejectedError _) = True"
| "is_runtime_error (LoopRunIncompleteError _ _) = True"
| "is_runtime_error (LoopRunFailedError _ _ _ _) = True"
| "is_runtime_error _ = False"

fun is_order_rejection :: "py_error \<Rightarrow> bool" where
  "is_order_rejection (BrokerOrderRejected _) = True"
| "is_order_rejection _ = False"

definition mark_group :: "string \<Rightarrow> StoredOrder list \<Rightarrow> ('w, unit) gateway_op" where
  "mark_group status rows =
     bindS (mapS (\<lambda>r. update_paper_status status (so_client_order_id r)) rows) (\<lambda>_. returnS ())"

definition group_failed :: "StoredOrder list \<Rightarrow> py_error \<Rightarrow> ('w, 'a) gateway_op" where
  \<comment> \<open>the handlers of the \<open>try\<close>; \<open>rows\<close> are the parent and its children\<close>
  "group_failed rows e =
     (if is_order_rejection e then thenS (mark_group ''rejected'' rows) (raiseS e)
      else if is_runtime_error e then thenS (mark_group ''unknown'' rows) (raiseS e)
      else thenS (mark_group ''unknown'' rows) (raiseS recovery_error))"

definition what_if_blocked :: "BrokerWhatIf \<Rightarrow> bool" where
  "what_if_blocked w \<longleftrightarrow> \<not> bw_accepted w \<or> (case bw_warning w of None \<Rightarrow> False | Some t \<Rightarrow> t \<noteq> [])"

definition group_sent ::
    "StoredOrder \<Rightarrow> StoredOrder list \<Rightarrow> nat \<Rightarrow> BrokerSubmission list \<Rightarrow> ('w, BrokerOrder) gateway_op" where
  \<comment> \<open>from \<open>if len(submissions) != len(commands)\<close> on\<close>
  "group_sent parent children n submissions =
     (if length submissions \<noteq> n
      then thenS (update_paper_status ''unknown'' (so_client_order_id parent)) (raiseS recovery_error)
      else bindS (store_submission parent (hd submissions)) (\<lambda>stored.
        bindS (mapS (\<lambda>(child, s). store_submission child s) (zip children (tl submissions))) (\<lambda>_.
          liftS (paper_broker_order stored))))"

definition ensure_children ::
    "string \<Rightarrow> string \<Rightarrow> int \<Rightarrow> (string \<times> IbkrOrderCommand) list \<Rightarrow> (paper_orders, StoredOrder list) op" where
  "ensure_children hash symbol quantity =
     mapS (\<lambda>(cid, command). bindS (ensure_paper_order cid (ic_order_ref command) hash symbol quantity)
       (\<lambda>(child, created). thenS (guardS created (BrokerError ''ibkr_paper_child_recovery_required''))
          (returnS child)))"

definition send_group ::
    "'w ibkr_paper_env \<Rightarrow> StoredOrder \<Rightarrow> StoredOrder list \<Rightarrow> IbkrOrderCommand list \<Rightarrow> ('w, BrokerOrder) gateway_op" where
  \<comment> \<open>from the \<open>try\<close> on; a blocked What-If passes its own handler unchanged\<close>
  "send_group env parent children commands =
     bindS (attemptS (\<lambda>_. True) (on_fst (pt_what_if (ipe_transport env) (hd commands)))) (\<lambda>preflight.
     case preflight of
       Inl e \<Rightarrow> group_failed (parent # children) e
     | Inr w \<Rightarrow>
         if what_if_blocked w
         then thenS (mark_group ''rejected'' (parent # children)) (raiseS (BrokerError ''what_if_warning''))
         else bindS (attemptS (\<lambda>_. True) (on_fst (pt_submit_group (ipe_transport env) commands))) (\<lambda>sent.
           case sent of
             Inl e \<Rightarrow> group_failed (parent # children) e
           | Inr submissions \<Rightarrow> group_sent parent children (length commands) submissions))"

definition submit_group ::
    "'w ibkr_paper_env \<Rightarrow> string \<Rightarrow> string \<Rightarrow> int \<Rightarrow> dict \<Rightarrow> IbkrOrderCommand list \<Rightarrow> string list
       \<Rightarrow> ('w, BrokerOrder) gateway_op" where
  \<comment> \<open>the callers pass one child id per command after the first\<close>
  "submit_group env cid symbol quantity payload commands child_ids =
     (let hash = paper_request_hash env payload in
      bindS (on_snd (ensure_paper_order cid (ic_order_ref (hd commands)) hash symbol quantity)) (\<lambda>(parent, created).
      if \<not> created then recover_or_return env parent
      else bindS (on_snd (ensure_children hash symbol quantity (zip child_ids (tl commands)))) (\<lambda>children.
        send_group env parent children commands)))"

section \<open>The four orders\<close>

definition order_command :: "'w ibkr_paper_env \<Rightarrow> string \<Rightarrow> string \<Rightarrow> int \<Rightarrow> string \<Rightarrow> string \<Rightarrow> IbkrOrderCommand" where
  \<comment> \<open>a command with the dataclass's defaults\<close>
  "order_command env symbol side quantity order_type cid =
     \<lparr>ic_account_id = ipe_account env, ic_symbol = symbol, ic_side = side, ic_quantity = quantity,
      ic_order_type = order_type, ic_order_ref = paper_order_ref env cid, ic_limit_price = None,
      ic_stop_price = None, ic_outside_rth = False, ic_parent_order_id = None, ic_parent_index = None,
      ic_transmit = True\<rparr>"

definition optional_price :: "string \<Rightarrow> string option \<Rightarrow> py_error + dec option" where
  "optional_price name price = (case price of None \<Rightarrow> Inr None | Some t \<Rightarrow>
     (case paper_decimal name t of Inl e \<Rightarrow> Inl e | Inr d \<Rightarrow> Inr (Some d)))"

definition none_text :: "string option \<Rightarrow> string" where
  \<comment> \<open>\<open>str(value)\<close>\<close>
  "none_text v = (case v of None \<Rightarrow> ''None'' | Some s \<Rightarrow> s)"

definition entry_parent :: "'w ibkr_paper_env \<Rightarrow> PaperOrderRequest \<Rightarrow> py_error + IbkrOrderCommand" where
  "entry_parent env r = (case optional_price ''entry limit price'' (por_limit_price r) of Inl e \<Rightarrow> Inl e
     | Inr limit_price \<Rightarrow> validate_command ((order_command env (por_symbol r) ''BUY'' (por_qty r)
         (if por_order_type r = ''limit'' then ''LMT'' else ''MKT'') (por_client_order_id r))
         \<lparr>ic_limit_price := limit_price, ic_transmit := False\<rparr>))"

definition entry_target ::
    "'w ibkr_paper_env \<Rightarrow> PaperOrderRequest \<Rightarrow> py_error + (string \<times> IbkrOrderCommand) list" where
  "entry_target env r = (case por_take_profit_price r of None \<Rightarrow> Inr []
     | Some t \<Rightarrow> (case paper_decimal ''take-profit price'' t of Inl e \<Rightarrow> Inl e
       | Inr price \<Rightarrow> (let target_id = por_client_order_id r @ '':take-profit'' in
         case validate_command ((order_command env (por_symbol r) ''SELL'' (por_qty r) ''LMT'' target_id)
           \<lparr>ic_limit_price := Some price, ic_parent_index := Some 0, ic_transmit := False\<rparr>) of
           Inl e \<Rightarrow> Inl e | Inr c \<Rightarrow> Inr [(target_id, c)])))"

definition entry_stop :: "'w ibkr_paper_env \<Rightarrow> PaperOrderRequest \<Rightarrow> py_error + string \<times> IbkrOrderCommand" where
  "entry_stop env r = (case paper_decimal ''stop price'' (none_text (por_stop_loss_price r)) of Inl e \<Rightarrow> Inl e
     | Inr price \<Rightarrow> (let stop_id = por_client_order_id r @ '':stop'' in
       case validate_command ((order_command env (por_symbol r) ''SELL'' (por_qty r) ''STP'' stop_id)
         \<lparr>ic_stop_price := Some price, ic_parent_index := Some 0\<rparr>) of
         Inl e \<Rightarrow> Inl e | Inr c \<Rightarrow> Inr (stop_id, c)))"

definition entry_commands ::
    "'w ibkr_paper_env \<Rightarrow> PaperOrderRequest \<Rightarrow> py_error + IbkrOrderCommand list \<times> string list" where
  "entry_commands env r = (case entry_parent env r of Inl e \<Rightarrow> Inl e | Inr parent \<Rightarrow>
     case entry_target env r of Inl e \<Rightarrow> Inl e | Inr target \<Rightarrow>
     case entry_stop env r of Inl e \<Rightarrow> Inl e | Inr stop \<Rightarrow>
       Inr (parent # map snd target @ [snd stop], map fst target @ [fst stop]))"

definition close_command :: "'w ibkr_paper_env \<Rightarrow> PaperCloseRequest \<Rightarrow> py_error + IbkrOrderCommand" where
  "close_command env r = validate_command
     (order_command env (pcr_symbol r) ''SELL'' (pcr_qty r) ''MKT'' (pcr_client_order_id r))"

definition stop_command :: "'w ibkr_paper_env \<Rightarrow> PaperStopRequest \<Rightarrow> py_error + IbkrOrderCommand" where
  "stop_command env r = (case paper_decimal ''stop price'' (psr_stop_price r) of Inl e \<Rightarrow> Inl e
     | Inr price \<Rightarrow> validate_command ((order_command env (psr_symbol r) ''SELL'' (psr_qty r) ''STP''
         (psr_client_order_id r))\<lparr>ic_stop_price := Some price\<rparr>))"

definition extended_command :: "'w ibkr_paper_env \<Rightarrow> PaperExtendedLimitRequest \<Rightarrow> py_error + IbkrOrderCommand" where
  "extended_command env r = (case paper_decimal ''extended limit price'' (pel_limit_price r) of Inl e \<Rightarrow> Inl e
     | Inr price \<Rightarrow> validate_command ((order_command env (pel_symbol r) (py_upper (pel_side r)) (pel_qty r) ''LMT''
         (pel_client_order_id r))\<lparr>ic_limit_price := Some price, ic_outside_rth := True\<rparr>))"

definition paper_submit_entry :: "'w ibkr_paper_env \<Rightarrow> PaperOrderRequest \<Rightarrow> ('w, BrokerOrder) gateway_op" where
  "paper_submit_entry env r = thenS (require_paper_writes env)
     (bindS (liftS (entry_commands env r)) (\<lambda>(commands, child_ids).
       submit_group env (por_client_order_id r) (por_symbol r) (por_qty r) (dump_entry r) commands child_ids))"

definition paper_submit_close :: "'w ibkr_paper_env \<Rightarrow> PaperCloseRequest \<Rightarrow> ('w, BrokerOrder) gateway_op" where
  "paper_submit_close env r = thenS (require_paper_writes env)
     (thenS (assert_reduces_long env (pcr_symbol r) (pcr_qty r))
     (bindS (liftS (close_command env r)) (\<lambda>command.
       submit_group env (pcr_client_order_id r) (pcr_symbol r) (pcr_qty r) (dump_close r) [command] [])))"

definition paper_submit_stop :: "'w ibkr_paper_env \<Rightarrow> PaperStopRequest \<Rightarrow> ('w, BrokerOrder) gateway_op" where
  "paper_submit_stop env r = thenS (require_paper_writes env)
     (thenS (assert_reduces_long env (psr_symbol r) (psr_qty r))
     (bindS (liftS (stop_command env r)) (\<lambda>command.
       submit_group env (psr_client_order_id r) (psr_symbol r) (psr_qty r) (dump_stop r) [command] [])))"

definition paper_submit_extended ::
    "'w ibkr_paper_env \<Rightarrow> PaperExtendedLimitRequest \<Rightarrow> ('w, BrokerOrder) gateway_op" where
  "paper_submit_extended env r = thenS (require_paper_writes env)
     (thenS (if pel_side r = ''sell'' then assert_reduces_long env (pel_symbol r) (pel_qty r) else returnS ())
     (bindS (liftS (extended_command env r)) (\<lambda>command.
       submit_group env (pel_client_order_id r) (pel_symbol r) (pel_qty r) (dump_extended r) [command] [])))"

definition ibkr_paper :: "'w ibkr_paper_env \<Rightarrow> ('w \<times> paper_orders) broker_port" where
  \<comment> \<open>the class has no \<open>broker_identity\<close>, which its callers read as \<open>unknown\<close>\<close>
  "ibkr_paper env = \<lparr>bp_writes_enabled = (\<lambda>_. ipe_writes_enabled env), bp_broker_identity = ''unknown'',
     bp_get_order_by_client_id = paper_get_order env, bp_list_positions = paper_list_positions env,
     bp_list_open_orders = paper_list_open_orders env, bp_cancel_order = paper_cancel_order env,
     bp_submit_order = paper_submit_entry env, bp_submit_close_order = paper_submit_close env,
     bp_submit_stop_order = paper_submit_stop env, bp_submit_extended_limit = paper_submit_extended env\<rparr>"

end
