(* ===== verification/IbkrPaperSafety.thy ===== *)
theory IbkrPaperSafety
  imports IbkrPaper
begin

text \<open>
  What the IBKR Paper broker of \<open>IbkrPaper\<close> promises the autonomous session: it meets the contract
  \<open>trading_broker\<close>, an order reaches the gateway at most once, and a sale stays within the position.
  And what it breaks: an order whose What-If fails is lost for good, a closed position in the snapshot
  blocks every exit, and fills are never seen.  The log holds the groups and cancellations that the
  transport was asked to send; a What-If transmits nothing and is not in it.
\<close>

section \<open>Recording what is sent\<close>

datatype paper_sent = GroupSent "IbkrOrderCommand list" | CancelSent int

definition recorded_transport :: "'w paper_transport \<Rightarrow> ('w \<times> paper_sent list) paper_transport" where
  "recorded_transport t = \<lparr>pt_connected = (\<lambda>p. pt_connected t (fst p)),
     pt_connect = (\<lambda>host port client. on_fst (pt_connect t host port client)),
     pt_disconnect = on_fst (pt_disconnect t), pt_account_snapshot = on_fst (pt_account_snapshot t),
     pt_account_values = on_fst (pt_account_values t), pt_what_if = (\<lambda>c. on_fst (pt_what_if t c)),
     pt_submit_group = (\<lambda>cs. thenS (on_snd (writeS (\<lambda>log. log @ [GroupSent cs]))) (on_fst (pt_submit_group t cs))),
     pt_find_by_order_ref = (\<lambda>ref. on_fst (pt_find_by_order_ref t ref)),
     pt_cancel_order = (\<lambda>n. thenS (on_snd (writeS (\<lambda>log. log @ [CancelSent n]))) (on_fst (pt_cancel_order t n)))\<rparr>"

definition recorded_paper :: "'w ibkr_paper_env \<Rightarrow> ('w \<times> paper_sent list) ibkr_paper_env" where
  "recorded_paper env = \<lparr>ipe_transport = recorded_transport (ipe_transport env), ipe_account = ipe_account env,
     ipe_writes_enabled = ipe_writes_enabled env, ipe_sha256 = ipe_sha256 env, ipe_repr = ipe_repr env\<rparr>"

lemma recorded_paper_simps [simp]:
  "ipe_transport (recorded_paper env) = recorded_transport (ipe_transport env)"
  "ipe_writes_enabled (recorded_paper env) = ipe_writes_enabled env"
  "ipe_repr (recorded_paper env) = ipe_repr env"
  by (simp_all add: recorded_paper_def)

lemma recorded_order_ref [simp]: "paper_order_ref (recorded_paper env) cid = paper_order_ref env cid"
  by (simp add: paper_order_ref_def recorded_paper_def)

type_synonym 'w paper_desk = "('w \<times> paper_sent list) \<times> paper_orders"

definition paper_log :: "'w paper_desk \<Rightarrow> paper_sent list" where
  "paper_log p = snd (fst p)"

definition paper_refs :: "'w paper_desk \<Rightarrow> string list" where
  "paper_refs p = map so_order_ref (snd p)"

fun group_refs :: "paper_sent \<Rightarrow> string list" where
  "group_refs (GroupSent cs) = map ic_order_ref cs"
| "group_refs (CancelSent _) = []"

definition sent_refs :: "paper_sent list \<Rightarrow> string list" where
  "sent_refs sent = concat (map group_refs sent)"

lemma sent_refs_simps [simp]: "sent_refs [] = []" "sent_refs (a @ b) = sent_refs a @ sent_refs b"
  "sent_refs [x] = group_refs x"
  by (simp_all add: sent_refs_def)

section \<open>Operations that send nothing\<close>

definition still :: "'w paper_desk \<Rightarrow> 'w paper_desk \<Rightarrow> bool" where
  "still p q \<longleftrightarrow> paper_log q = paper_log p \<and> paper_refs q = paper_refs p"

interpretation silent: growing "\<lambda>_ :: 'w paper_desk. True" still
  by unfold_locales (simp_all add: still_def)

abbreviation stills :: "('w paper_desk, 'a) op \<Rightarrow> bool" where
  "stills m \<equiv> keeps (\<lambda>_. True) still m"

lemma stillsD: "stills m \<Longrightarrow> m p = (x, q) \<Longrightarrow> paper_log q = paper_log p \<and> paper_refs q = paper_refs p"
  using keepsD [of "\<lambda>_. True" still m p] by (simp add: still_def)

lemma stills_transport:
  fixes m :: "('w \<times> paper_sent list, 'a) op"
  assumes "\<And>s. snd (snd (m s)) = snd s"
  shows "stills (on_fst m)"
proof (rule keepsI)
  fix p :: "'w paper_desk"
  show "True \<and> still p (snd (on_fst m p))" using assms [of "fst p"]
    by (cases "m (fst p)") (simp add: still_def paper_log_def paper_refs_def on_fst_def)
qed

lemma stills_fst_fst: "stills (on_fst (on_fst m))"
  by (rule stills_transport) (simp add: on_fst_def split: prod.split)

lemma stills_fst_read: "stills (on_fst (readS f))"
  by (rule stills_transport) simp

lemma stills_snd_read: "stills (on_snd (readS f))"
  by (rule keepsI) (simp add: still_def paper_log_def paper_refs_def on_snd_def)

lemma map_tbl_update: "(\<And>r. g (f r) = g r) \<Longrightarrow> map g (tbl_update key k f t) = map g t"
  by (simp add: tbl_update_def)

lemma stills_update: "(\<And>r. so_order_ref (f r) = so_order_ref r) \<Longrightarrow> stills (on_snd (writeS (tbl_update key k f)))"
  by (rule keepsI) (simp add: still_def paper_log_def paper_refs_def on_snd_def map_tbl_update)

lemma stills_calls:
  "stills (on_fst (pt_connect (recorded_transport t) h n c))" "stills (on_fst (pt_disconnect (recorded_transport t)))"
  "stills (on_fst (pt_account_snapshot (recorded_transport t)))"
  "stills (on_fst (pt_account_values (recorded_transport t)))"
  "stills (on_fst (pt_what_if (recorded_transport t) cmd))"
  "stills (on_fst (pt_find_by_order_ref (recorded_transport t) ref))"
  by (simp_all add: recorded_transport_def stills_fst_fst)

lemma stills_rows:
  "stills (update_paper_status st cid)" "stills (update_status_for_broker_id n st)" "stills (store_submission r s)"
  unfolding update_paper_status_def update_status_for_broker_id_def store_submission_def
  by (intro silent.keeps_then silent.keeps_return stills_update, simp add: settle_stored_def)+

lemma stills_pair: "(\<And>x y. stills (f x y)) \<Longrightarrow> stills (case z of (x, y) \<Rightarrow> f x y)"
  by (cases z) simp

lemmas still_rules = silent.keeps_rules stills_calls stills_fst_read stills_snd_read stills_rows stills_pair

abbreviation rec :: "'w ibkr_paper_env \<Rightarrow> ('w \<times> paper_sent list) ibkr_paper_env" where
  "rec \<equiv> recorded_paper"

lemma stills_snapshot: "stills (snapshot_for_account (rec env))"
  unfolding snapshot_for_account_def assert_paper_account_def recorded_paper_simps by (intro still_rules)

lemma stills_connect: "stills (paper_connect (rec env) host client)"
  unfolding paper_connect_def recorded_paper_simps by (intro still_rules stills_snapshot)

lemma stills_close: "stills (paper_close (rec env))"
  unfolding paper_close_def recorded_paper_simps by (intro still_rules)

lemma stills_account: "stills (paper_get_account (rec env))"
  unfolding paper_get_account_def assert_paper_account_def recorded_paper_simps Let_def
  by (intro still_rules stills_snapshot)

lemma stills_writes: "stills (require_paper_writes (rec env))"
  unfolding require_paper_writes_def by (intro still_rules stills_account)

lemma stills_positions: "stills (paper_list_positions (rec env))"
  unfolding paper_list_positions_def by (intro still_rules stills_snapshot)

lemma stills_open_orders: "stills (paper_list_open_orders (rec env))"
  unfolding paper_list_open_orders_def by (intro still_rules stills_snapshot)

lemma stills_order_side: "stills (paper_order_side (rec env) oid)"
  unfolding paper_order_side_def by (intro still_rules stills_snapshot)

lemma stills_reduces: "stills (assert_reduces_long (rec env) symb qty)"
  unfolding assert_reduces_long_def by (intro still_rules stills_positions stills_open_orders stills_order_side)

lemma stills_recover: "stills (recover_or_return (rec env) stored)"
  unfolding recover_or_return_def recorded_paper_simps by (intro still_rules)

lemma stills_get: "stills (paper_get_order (rec env) cid)"
  unfolding paper_get_order_def recorded_paper_simps by (intro still_rules)

lemma stills_marks: "stills (mark_group st rows)"
  unfolding mark_group_def by (intro still_rules)

lemma stills_failed: "stills (group_failed rows e)"
  unfolding group_failed_def by (intro still_rules stills_marks)

lemma stills_group_sent: "stills (group_sent parent children n submissions)"
  unfolding group_sent_def by (intro still_rules)

section \<open>Operations that send one thing\<close>

definition quiet :: "'w paper_desk \<Rightarrow> 'w paper_desk \<Rightarrow> bool" where
  "quiet p q \<longleftrightarrow> paper_log q = paper_log p"

definition settled :: "'w paper_desk \<Rightarrow> 'w paper_desk \<Rightarrow> bool" where
  "settled p q \<longleftrightarrow> paper_refs q = paper_refs p"

interpretation muted: growing "\<lambda>_ :: 'w paper_desk. True" quiet
  by unfold_locales (simp_all add: quiet_def)

interpretation settling: growing "\<lambda>_ :: 'w paper_desk. True" settled
  by unfold_locales (simp_all add: settled_def)

abbreviation quiets :: "('w paper_desk, 'a) op \<Rightarrow> bool" where
  "quiets m \<equiv> keeps (\<lambda>_. True) quiet m"

abbreviation settles :: "('w paper_desk, 'a) op \<Rightarrow> bool" where
  "settles m \<equiv> keeps (\<lambda>_. True) settled m"

lemma stills_quiets: "stills m \<Longrightarrow> quiets m"
  by (simp add: keeps_def still_def quiet_def)

lemma stills_settles: "stills m \<Longrightarrow> settles m"
  by (simp add: keeps_def still_def settled_def)

lemma quiets_on_snd: "quiets (on_snd m)"
  by (rule keepsI) (simp add: quiet_def paper_log_def on_snd_def split: prod.split)

lemma settles_on_fst: "settles (on_fst m)"
  by (rule keepsI) (simp add: settled_def paper_refs_def on_fst_def split: prod.split)

lemma quietsD: "quiets m \<Longrightarrow> m p = (x, q) \<Longrightarrow> paper_log q = paper_log p"
  using keepsD [of "\<lambda>_. True" quiet m p] by (simp add: quiet_def)

lemma settlesD: "settles m \<Longrightarrow> m p = (x, q) \<Longrightarrow> paper_refs q = paper_refs p"
  using keepsD [of "\<lambda>_. True" settled m p] by (simp add: settled_def)

definition sends_one :: "paper_sent \<Rightarrow> ('w paper_desk, 'a) op \<Rightarrow> bool" where
  "sends_one s m \<longleftrightarrow> (\<forall>p. paper_log (snd (m p)) \<in> {paper_log p, paper_log p @ [s]})"

lemma sends_oneI: "(\<And>p x q. m p = (x, q) \<Longrightarrow> paper_log q \<in> {paper_log p, paper_log p @ [s]}) \<Longrightarrow> sends_one s m"
  unfolding sends_one_def by (metis prod.collapse)

lemma sends_one_D: "sends_one s m \<Longrightarrow> m p = (x, q) \<Longrightarrow> paper_log q \<in> {paper_log p, paper_log p @ [s]}"
  unfolding sends_one_def by (metis snd_conv)

lemma sends_one_quiet: "quiets m \<Longrightarrow> sends_one s m"
  by (rule sends_oneI) (simp add: quietsD)

lemma sends_one_after:
  assumes m: "quiets m" and f: "\<And>x. sends_one s (f x)"
  shows "sends_one s (bindS m f)"
proof (rule sends_oneI)
  fix p x q assume step: "bindS m f p = (x, q)"
  obtain r t where r: "m p = (r, t)" by (cases "m p")
  with m have "paper_log t = paper_log p" by (auto dest: quietsD)
  with r step sends_one_D [OF f, of _ t x q] show "paper_log q \<in> {paper_log p, paper_log p @ [s]}"
    by (cases r) auto
qed

lemma sends_one_before:
  assumes m: "sends_one s m" and f: "\<And>x. quiets (f x)"
  shows "sends_one s (bindS m f)"
proof (rule sends_oneI)
  fix p x q assume step: "bindS m f p = (x, q)"
  obtain r t where r: "m p = (r, t)" by (cases "m p")
  note t = sends_one_D [OF m r]
  show "paper_log q \<in> {paper_log p, paper_log p @ [s]}"
  proof (cases r)
    case (Inl e)
    with r t step show ?thesis by simp
  next
    case (Inr y)
    with r step have "f y t = (x, q)" by simp
    with quietsD [OF f this] t show ?thesis by simp
  qed
qed

lemma sends_one_then: "quiets m \<Longrightarrow> sends_one s n \<Longrightarrow> sends_one s (thenS m n)"
  by (simp add: thenS_def sends_one_after)

lemma sends_one_lift: "(\<And>x. r = Inr x \<Longrightarrow> sends_one s (f x)) \<Longrightarrow> sends_one s (bindS (liftS r) f)"
  by (cases r) (auto simp: sends_one_def bindS_run liftS_run)

lemma sends_one_attempt: "sends_one s m \<Longrightarrow> sends_one s (attemptS h m)"
  by (simp add: sends_one_def)

lemma sends_one_sum:
  "(\<And>e. sends_one s (g e)) \<Longrightarrow> (\<And>x. sends_one s (f x)) \<Longrightarrow> sends_one s (case r of Inl e \<Rightarrow> g e | Inr x \<Rightarrow> f x)"
  by (cases r) simp_all

lemma sends_one_if: "sends_one s m \<Longrightarrow> sends_one s n \<Longrightarrow> sends_one s (if b then m else n)"
  by simp

lemma sends_one_pair: "(\<And>x y. sends_one s (f x y)) \<Longrightarrow> sends_one s (case z of (x, y) \<Rightarrow> f x y)"
  by (cases z) simp

lemma sends_one_transport:
  "sends_one (GroupSent cs) (on_fst (pt_submit_group (recorded_transport t) cs))"
  "sends_one (CancelSent n) (on_fst (pt_cancel_order (recorded_transport t) n))"
  by (auto simp: sends_one_def recorded_transport_def paper_log_def on_fst_def on_snd_def thenS_run split: prod.split)

lemma send_group_sends: "sends_one (GroupSent cs) (send_group (rec env) parent children cs)"
  unfolding send_group_def recorded_paper_simps
  by (rule sends_one_after, rule stills_quiets, intro still_rules)
    (intro sends_one_sum sends_one_if sends_one_quiet sends_one_before [OF sends_one_attempt [OF sends_one_transport(1)]]
      stills_quiets silent.keeps_then stills_marks silent.keeps_raise silent.keeps_sum stills_failed stills_group_sent)

lemma send_group_settles: "settles (send_group (rec env) parent children cs)"
  unfolding send_group_def
  by (intro settling.keeps_rules settles_on_fst stills_settles [OF stills_marks] stills_settles [OF stills_failed]
      stills_settles [OF stills_group_sent])

lemma submit_group_sends: "sends_one (GroupSent cs) (submit_group (rec env) cid symb qty payload cs ids)"
  unfolding submit_group_def Let_def
  by (intro sends_one_after quiets_on_snd sends_one_pair sends_one_if send_group_sends
      sends_one_quiet [OF stills_quiets [OF stills_recover]])

lemma paper_cancel_sends:
  "sends_one (CancelSent (case paper_positive_int ''IBKR cancel order id'' oid of Inl _ \<Rightarrow> 0 | Inr n \<Rightarrow> n))
     (paper_cancel_order (rec env) oid)"
  unfolding paper_cancel_order_def recorded_paper_simps
  by (intro sends_one_then stills_quiets [OF stills_writes] sends_one_lift)
    (auto intro!: sends_one_before sends_one_transport stills_quiets still_rules)

lemma paper_cancel_settles: "settles (paper_cancel_order (rec env) oid)"
  unfolding paper_cancel_order_def
  by (intro settling.keeps_rules settles_on_fst stills_settles [OF stills_writes] stills_settles [OF stills_rows(2)])

section \<open>Every order reference is used once\<close>

text \<open>
  \<open>paper_ok\<close>: references are unique, and what was sent carries references of recorded orders, each once.
  \<open>paper_up\<close>: the table only grows, and what is sent in between carries references that are new.
\<close>

definition paper_ok :: "'w paper_desk \<Rightarrow> bool" where
  "paper_ok p \<longleftrightarrow> distinct (paper_refs p) \<and> distinct (sent_refs (paper_log p)) \<and>
     set (sent_refs (paper_log p)) \<subseteq> set (paper_refs p)"

definition paper_up :: "'w paper_desk \<Rightarrow> 'w paper_desk \<Rightarrow> bool" where
  "paper_up p q \<longleftrightarrow> (\<exists>added sent. paper_refs q = paper_refs p @ added \<and> paper_log q = paper_log p @ sent \<and>
     set (sent_refs sent) \<subseteq> set added)"

lemma paper_upI: "paper_refs q = paper_refs p @ added \<Longrightarrow> paper_log q = paper_log p @ sent \<Longrightarrow>
    set (sent_refs sent) \<subseteq> set added \<Longrightarrow> paper_up p q"
  unfolding paper_up_def by blast

lemma paper_up_trans:
  assumes "paper_up p q" and "paper_up q r"
  shows "paper_up p r"
proof -
  obtain m1 s1 where "paper_refs q = paper_refs p @ m1" "paper_log q = paper_log p @ s1"
    "set (sent_refs s1) \<subseteq> set m1" using assms(1) by (auto simp: paper_up_def)
  moreover obtain m2 s2 where "paper_refs r = paper_refs q @ m2" "paper_log r = paper_log q @ s2"
    "set (sent_refs s2) \<subseteq> set m2" using assms(2) by (auto simp: paper_up_def)
  ultimately show ?thesis by (intro paper_upI [of r p "m1 @ m2" "s1 @ s2"]) auto
qed

interpretation orders: growing paper_ok "paper_up :: 'w paper_desk \<Rightarrow> 'w paper_desk \<Rightarrow> bool"
  by unfold_locales (auto intro: paper_upI [of _ _ "[]" "[]"] paper_up_trans)

abbreviation paper_keeps :: "('w paper_desk, 'a) op \<Rightarrow> bool" where
  "paper_keeps m \<equiv> keeps paper_ok paper_up m"

lemma still_step:
  "paper_ok p \<Longrightarrow> paper_refs q = paper_refs p \<Longrightarrow> paper_log q = paper_log p \<Longrightarrow> paper_ok q \<and> paper_up p q"
  by (auto simp: paper_ok_def intro: paper_upI [of _ _ "[]" "[]"])

lemma keeps_stills:
  fixes m :: "('w paper_desk, 'a) op"
  assumes "stills m"
  shows "paper_keeps m"
proof (rule keepsI)
  fix p :: "'w paper_desk" assume "paper_ok p"
  moreover from keepsD [OF assms TrueI, of p] have "paper_refs (snd (m p)) = paper_refs p"
    "paper_log (snd (m p)) = paper_log p" by (simp_all add: still_def)
  ultimately show "paper_ok (snd (m p)) \<and> paper_up p (snd (m p))" by (rule still_step)
qed

lemma keeps_cancels:
  fixes env :: "'w ibkr_paper_env"
  shows "paper_keeps (paper_cancel_order (rec env) oid)"
proof (rule keepsI)
  fix p :: "'w paper_desk" assume ok: "paper_ok p"
  let ?n = "case paper_positive_int ''IBKR cancel order id'' oid of Inl _ \<Rightarrow> 0 | Inr n \<Rightarrow> n"
  obtain x q where q: "paper_cancel_order (rec env) oid p = (x, q)" by (cases "paper_cancel_order (rec env) oid p")
  have refs: "paper_refs q = paper_refs p" by (rule settlesD [OF paper_cancel_settles q])
  from sends_one_D [OF paper_cancel_sends q] have "paper_ok q \<and> paper_up p q"
  proof (elim insertE emptyE)
    assume "paper_log q = paper_log p"
    with ok refs show ?thesis by (simp add: still_step)
  next
    assume "paper_log q = paper_log p @ [CancelSent ?n]"
    with ok refs show ?thesis by (auto simp: paper_ok_def intro: paper_upI [of _ _ "[]" "[CancelSent ?n]"])
  qed
  with q show "paper_ok (snd (paper_cancel_order (rec env) oid p)) \<and> paper_up p (snd (paper_cancel_order (rec env) oid p))"
    by simp
qed

definition refs_of :: "paper_orders \<Rightarrow> string list" where
  "refs_of rows = map so_order_ref rows"

lemma paper_refs_of: "paper_refs p = refs_of (snd p)"
  by (simp add: paper_refs_def refs_of_def)

lemma ensure_paper_order_step:
  assumes "ensure_paper_order cid ref hash symb qty rows = (x, rows')"
  shows "rows' = rows \<and> (\<forall>r. x \<noteq> Inr (r, True)) \<or>
    (\<exists>r. x = Inr (r, True)) \<and> refs_of rows' = refs_of rows @ [ref] \<and> ref \<notin> set (refs_of rows)"
  using assms by (auto simp: ensure_paper_order_def run refs_of_def tbl_insert_def submitting_row_def
      tbl_find_None_iff split: option.splits if_splits)

lemma ensure_children_step:
  assumes "ensure_children hash symb qty xs rows = (x, rows')" and "distinct (refs_of rows)"
  shows "distinct (refs_of rows') \<and> (\<exists>added. refs_of rows' = refs_of rows @ added \<and>
    (\<forall>cs. x = Inr cs \<longrightarrow> added = map (ic_order_ref \<circ> snd) xs))"
  using assms
proof (induction xs arbitrary: rows x rows')
  case Nil
  then show ?case by (simp add: ensure_children_def)
next
  case (Cons y ys)
  obtain cid c where y: "y = (cid, c)" by (cases y)
  obtain r rows1 where e: "ensure_paper_order cid (ic_order_ref c) hash symb qty rows = (r, rows1)"
    by (cases "ensure_paper_order cid (ic_order_ref c) hash symb qty rows")
  note step = Cons.prems(1) [unfolded ensure_children_def mapS.simps y prod.case]
  show ?case
  proof (cases "\<exists>row. r = Inr (row, True)")
    case False
    with ensure_paper_order_step [OF e] have "rows1 = rows" by auto
    with False e step Cons.prems(2) show ?thesis
      by (cases r) (auto simp: bindS_run thenS_run guardS_run split: prod.splits)
  next
    case True
    with ensure_paper_order_step [OF e] have new: "refs_of rows1 = refs_of rows @ [ic_order_ref c]"
      "ic_order_ref c \<notin> set (refs_of rows)" by auto
    obtain z rows2 where z: "ensure_children hash symb qty ys rows1 = (z, rows2)"
      by (cases "ensure_children hash symb qty ys rows1")
    have "distinct (refs_of rows1)" using new Cons.prems(2) by simp
    from Cons.IH [OF z this] obtain added where added: "distinct (refs_of rows2)"
      "refs_of rows2 = refs_of rows1 @ added" "\<forall>cs. z = Inr cs \<longrightarrow> added = map (ic_order_ref \<circ> snd) ys" by blast
    from True e step z have "rows' = rows2 \<and> (\<forall>cs. x = Inr cs \<longrightarrow> (\<exists>zs. z = Inr zs))"
      unfolding ensure_children_def by (cases z) (auto simp: bindS_run thenS_run guardS_run)
    with added new show ?thesis by (auto simp: y)
  qed
qed

lemma submit_group_step:
  assumes ok: "paper_ok p" and len: "length ids = length cs"
    and step: "submit_group (rec env) cid symb qty payload (c # cs) ids p = (x, q)"
  shows "paper_ok q \<and> paper_up p q"
proof -
  let ?h = "paper_request_hash (rec env) payload"
  obtain r rows1 where e: "ensure_paper_order cid (ic_order_ref c) ?h symb qty (snd p) = (r, rows1)"
    by (cases "ensure_paper_order cid (ic_order_ref c) ?h symb qty (snd p)")
  let ?p1 = "(fst p, rows1)"
  show ?thesis
  proof (cases "\<exists>row. r = Inr (row, True)")
    case False
    with ensure_paper_order_step [OF e] have same: "?p1 = p" by auto
    show ?thesis
    proof (cases r)
      case (Inl err)
      with e step same have "q = p"
        by (cases p) (simp add: submit_group_def Let_def on_snd_def)
      with ok show ?thesis by (simp add: still_step)
    next
      case (Inr z)
      with False obtain row where z: "r = Inr (row, False)" by (cases z) auto
      with e step same have "recover_or_return (rec env) row p = (x, q)"
        by (cases p) (simp add: submit_group_def Let_def on_snd_def bindS_run)
      from stillsD [OF stills_recover this] ok show ?thesis by (simp add: still_step)
    qed
  next
    case True
    then obtain row where row: "r = Inr (row, True)" by blast
    with ensure_paper_order_step [OF e] have new: "refs_of rows1 = refs_of (snd p) @ [ic_order_ref c]"
      "ic_order_ref c \<notin> set (refs_of (snd p))" by auto
    obtain z rows2 where z: "ensure_children ?h symb qty (zip ids cs) rows1 = (z, rows2)"
      by (cases "ensure_children ?h symb qty (zip ids cs) rows1")
    have "distinct (refs_of rows1)" using new ok by (simp add: paper_ok_def paper_refs_of)
    note children = ensure_children_step [OF z this]
    have "map (ic_order_ref \<circ> snd) (zip ids cs) = map ic_order_ref cs" using len by (metis map_map map_snd_zip)
    with children obtain added where added: "distinct (refs_of rows2)"
      "refs_of rows2 = refs_of rows1 @ added" "\<forall>children. z = Inr children \<longrightarrow> added = map ic_order_ref cs"
      by metis
    let ?p2 = "(fst p, rows2)"
    have p2: "paper_refs ?p2 = paper_refs p @ (ic_order_ref c # added)" "paper_log ?p2 = paper_log p"
      using new added by (simp_all add: paper_refs_of paper_log_def)
    show ?thesis
    proof (cases z)
      case (Inl err)
      with e z row step have "q = ?p2" by (cases p) (simp add: submit_group_def Let_def on_snd_def bindS_run)
      moreover have "paper_ok ?p2" using ok p2 added(1) by (auto simp: paper_ok_def paper_refs_of)
      ultimately show ?thesis using p2 by (auto intro: paper_upI [of _ _ _ "[]"])
    next
      case (Inr children)
      with e z row step have s: "send_group (rec env) row children (c # cs) ?p2 = (x, q)"
        by (cases p) (simp add: submit_group_def Let_def on_snd_def bindS_run)
      have same: "paper_refs q = paper_refs ?p2" by (rule settlesD [OF send_group_settles s])
      have refs: "paper_refs q = paper_refs p @ map ic_order_ref (c # cs)" using same p2 added(3) Inr by simp
      have sent: "paper_log q \<in> {paper_log p, paper_log p @ [GroupSent (c # cs)]}"
        using sends_one_D [OF send_group_sends s] p2 by simp
      have d: "distinct (paper_refs q)" using same added(1) by (simp add: paper_refs_of)
      from sent show ?thesis
      proof (elim insertE emptyE)
        assume "paper_log q = paper_log p"
        with ok refs d show ?thesis by (auto simp: paper_ok_def intro: paper_upI [OF refs, of "[]"])
      next
        assume l: "paper_log q = paper_log p @ [GroupSent (c # cs)]"
        have "paper_up p q" by (rule paper_upI [OF refs l]) simp
        moreover have "paper_ok q" using ok d unfolding paper_ok_def l refs by auto
        ultimately show ?thesis by simp
      qed
    qed
  qed
qed

section \<open>Runs of the broker\<close>

lemma entry_commands_shape:
  "entry_commands env r = Inr (cs, ids) \<Longrightarrow> \<exists>c cs'. cs = c # cs' \<and> length ids = length cs'"
  by (auto simp: entry_commands_def split: sum.splits)

lemma keeps_submit_group: "length ids = length cs \<Longrightarrow> paper_keeps (submit_group (rec env) cid symb qty payload (c # cs) ids)"
  by (rule keepsI) (metis submit_group_step prod.collapse)

lemma keeps_entry_group:
  "paper_keeps (bindS (liftS (entry_commands (rec env) r)) (\<lambda>(cs, ids). submit_group (rec env) cid symb qty payload cs ids))"
proof (cases "entry_commands (rec env) r")
  case (Inl e)
  then show ?thesis by (simp add: keeps_def bindS_run liftS_run orders.below_refl)
next
  case (Inr z)
  obtain cs ids where z: "z = (cs, ids)" by (cases z)
  from entry_commands_shape [OF Inr [unfolded z]] obtain c cs' where "cs = c # cs'" "length ids = length cs'" by blast
  with keeps_submit_group [OF this(2)] show ?thesis by (simp add: Inr z keeps_def bindS_run liftS_run)
qed

lemma keeps_one_group: "paper_keeps (submit_group (rec env) cid symb qty payload [c] [])"
  by (rule keeps_submit_group) simp

datatype paper_step =
    PaperConnect string int | PaperDisconnect | PaperAccountCall | PaperPositions | PaperOpenOrders
  | PaperLookup string | PaperCancel string | PaperEntry PaperOrderRequest | PaperExit PaperCloseRequest
  | PaperStop PaperStopRequest | PaperExtended PaperExtendedLimitRequest

fun exec_paper :: "'w ibkr_paper_env \<Rightarrow> paper_step \<Rightarrow> 'w paper_desk \<Rightarrow> 'w paper_desk" where
  "exec_paper env (PaperConnect host client) p = snd (paper_connect (rec env) host client p)"
| "exec_paper env PaperDisconnect p = snd (paper_close (rec env) p)"
| "exec_paper env PaperAccountCall p = snd (paper_get_account (rec env) p)"
| "exec_paper env PaperPositions p = snd (paper_list_positions (rec env) p)"
| "exec_paper env PaperOpenOrders p = snd (paper_list_open_orders (rec env) p)"
| "exec_paper env (PaperLookup cid) p = snd (paper_get_order (rec env) cid p)"
| "exec_paper env (PaperCancel oid) p = snd (paper_cancel_order (rec env) oid p)"
| "exec_paper env (PaperEntry r) p = snd (paper_submit_entry (rec env) r p)"
| "exec_paper env (PaperExit r) p = snd (paper_submit_close (rec env) r p)"
| "exec_paper env (PaperStop r) p = snd (paper_submit_stop (rec env) r p)"
| "exec_paper env (PaperExtended r) p = snd (paper_submit_extended (rec env) r p)"

lemmas stills_all = stills_connect stills_close stills_account stills_positions stills_open_orders stills_get

lemma keeps_submissions:
  "paper_keeps (paper_submit_entry (rec env) r)" "paper_keeps (paper_submit_close (rec env) c)"
  "paper_keeps (paper_submit_stop (rec env) st)" "paper_keeps (paper_submit_extended (rec env) x)"
  unfolding paper_submit_entry_def paper_submit_close_def paper_submit_stop_def paper_submit_extended_def
  by (intro orders.keeps_then orders.keeps_bind [OF orders.keeps_lift] orders.keeps_if orders.keeps_return
      keeps_stills [OF stills_writes] keeps_stills [OF stills_reduces] keeps_one_group keeps_entry_group)+

lemma exec_paper_step: "paper_ok p \<Longrightarrow> paper_ok (exec_paper env st p) \<and> paper_up p (exec_paper env st p)"
  by (cases st)
    (simp_all add: keepsD [OF keeps_stills] stills_all keepsD [OF keeps_cancels] keepsD [OF keeps_submissions(1)]
      keepsD [OF keeps_submissions(2)] keepsD [OF keeps_submissions(3)] keepsD [OF keeps_submissions(4)])

interpretation paper_machine: guarded_machine paper_ok paper_up "exec_paper env" for env :: "'w ibkr_paper_env"
  by unfold_locales (simp_all add: exec_paper_step)

definition run_paper :: "'w ibkr_paper_env \<Rightarrow> paper_step list \<Rightarrow> 'w paper_desk \<Rightarrow> 'w paper_desk" where
  "run_paper env steps p = fold (exec_paper env) steps p"

lemma run_paper_step: "paper_ok p \<Longrightarrow> paper_ok (run_paper env steps p) \<and> paper_up p (run_paper env steps p)"
  using paper_machine.run_all_inv [of p env steps] paper_machine.run_all_up [of p env steps]
  by (simp add: run_paper_def paper_machine.run_all_def)

lemma recorded_never_sent_later:
  assumes ok: "paper_ok p" and ref: "ref \<in> set (paper_refs p)" and unsent: "ref \<notin> set (sent_refs (paper_log p))"
  shows "ref \<notin> set (sent_refs (paper_log (run_paper env steps p)))"
proof -
  let ?q = "run_paper env steps p"
  have "paper_ok ?q" "paper_up p ?q" using run_paper_step [OF ok] by auto
  then obtain added sent where "paper_refs ?q = paper_refs p @ added" "paper_log ?q = paper_log p @ sent"
    "set (sent_refs sent) \<subseteq> set added" "distinct (paper_refs ?q)" by (auto simp: paper_up_def paper_ok_def)
  with ref have "ref \<notin> set (sent_refs sent)" by auto
  with unsent \<open>paper_log ?q = paper_log p @ sent\<close> show ?thesis by simp
qed

section \<open>A sale stays within the position\<close>

lemma mapS_result: "mapS f xs s = (Inr ys, t) \<Longrightarrow> y \<in> set ys \<Longrightarrow> \<exists>x \<in> set xs. \<exists>s t. f x s = (Inr y, t)"
proof (induction xs arbitrary: s ys)
  case (Cons x xs)
  then obtain z s' zs where "f x s = (Inr z, s')" "mapS f xs s' = (Inr zs, t)" "ys = z # zs"
    by (auto simp: bindS_eq_Inr)
  with Cons.IH [of s' zs] Cons.prems(2) show ?case by auto
qed simp

definition share_count :: "PaperPosition \<Rightarrow> int" where
  "share_count position = (case paper_positive_int ''position quantity'' (pp_qty position) of Inl _ \<Rightarrow> 0 | Inr n \<Rightarrow> n)"

definition long_shares :: "string \<Rightarrow> PaperPosition list \<Rightarrow> int" where
  "long_shares symb positions = sum_list (map share_count
     (filter (\<lambda>position. pp_symbol position = symb \<and> pp_side position = ''long'') positions))"

lemma paper_positive_int_pos: "paper_positive_int name t = Inr n \<Longrightarrow> 0 < n"
  using whole_share_quantity_Inr by (simp add: paper_positive_int_def)

lemma paper_open_order_positive: "paper_open_order repr rows raw = Inr order \<Longrightarrow> 0 < AlpacaPaper.bo_qty order"
  by (auto simp: paper_open_order_def split: sum.splits dest: paper_positive_int_pos)

lemma open_orders_positive:
  fixes env :: "'w ibkr_paper_env"
  assumes "paper_list_open_orders env p = (Inr orders, q)"
  shows "\<forall>order \<in> set orders. 0 < AlpacaPaper.bo_qty order"
proof -
  obtain rows raws found and s t :: "'w \<times> paper_orders" where m: "mapS (\<lambda>raw. liftS (paper_open_order (ipe_repr env) rows raw)) raws s = (Inr found, t)"
    and o: "orders = sort_key (\<lambda>order. read_nat (AlpacaPaper.bo_id order)) found"
    using assms by (auto simp: paper_list_open_orders_def bindS_eq_Inr)
  have "0 < AlpacaPaper.bo_qty order" if "order \<in> set found" for order
    using mapS_result [OF m that] by (auto dest: paper_open_order_positive)
  then show ?thesis by (simp add: o)
qed

lemma sum_list_held:
  "mapS (\<lambda>position. liftS (paper_positive_int ''position quantity'' (pp_qty position))) xs s = (Inr ys, t) \<Longrightarrow>
    sum_list ys = sum_list (map share_count xs)"
  by (induction xs arbitrary: ys s) (auto simp: bindS_eq_Inr share_count_def)

lemma assert_reduces_long_Inr:
  assumes "assert_reduces_long env symb qty p = (Inr (), q)"
  shows "\<exists>positions p1. paper_list_positions env p = (Inr positions, p1) \<and> qty \<le> long_shares symb positions"
proof -
  obtain positions p1 held p2 orders p3 sells p4 where
    ps: "paper_list_positions env p = (Inr positions, p1)" and
    held: "mapS (\<lambda>position. liftS (paper_positive_int ''position quantity'' (pp_qty position)))
       (filter (\<lambda>position. pp_symbol position = symb \<and> pp_side position = ''long'') positions) p1 = (Inr held, p2)" and
    os: "paper_list_open_orders env p2 = (Inr orders, p3)" and
    sells: "mapS (\<lambda>order. bindS (paper_order_side env (AlpacaPaper.bo_id order)) (\<lambda>side.
         returnS (if side = ''SELL'' then AlpacaPaper.bo_qty order else 0)))
       (filter (\<lambda>order. AlpacaPaper.bo_symbol order = symb \<and>
           List.member paper_active_statuses (bo_status order)) orders) p3 = (Inr sells, p4)" and
    within: "qty \<le> sum_list held - sum_list sells"
    using assms by (auto simp: assert_reduces_long_def bindS_eq_Inr)
  have "0 \<le> n" if "n \<in> set sells" for n
    using mapS_result [OF sells that] open_orders_positive [OF os] by (auto simp: bindS_eq_Inr split: if_splits)
  then have "0 \<le> sum_list sells" by (intro sum_list_nonneg) simp
  with within sum_list_held [OF held] ps show ?thesis by (auto simp: long_shares_def)
qed

end
