(* ===== verification/IbkrPaperProps.thy ===== *)
theory IbkrPaperProps
  imports IbkrPaperSafety
begin

text \<open>
  The properties of the IBKR Paper broker (\<open>execution/ibkr_paper_broker.py\<close>): an order reaches the gateway at
  most once and a sale stays within the position; an exit whose What-If fails is lost, and one closed
  position in the snapshot stops every exit.  The gateway at which they are evaluated stands first.
\<close>

section \<open>A concrete gateway\<close>

definition stock_row :: "string \<Rightarrow> string \<Rightarrow> dict" where
  "stock_row symb quantity = [(''symbol'', JStr symb), (''security_type'', JStr ''STK''),
     (''quantity'', JStr quantity), (''average_cost'', JStr ''190'')]"

definition sample_gateway :: "dict list \<Rightarrow> nat paper_transport" where
  \<comment> \<open>the state counts order ids; the What-If of order 0 has a warning, every order is accepted\<close>
  "sample_gateway positions = \<lparr>pt_connected = (\<lambda>_. True), pt_connect = (\<lambda>_ _ _. returnS ()), pt_disconnect = returnS (),
     pt_account_snapshot = returnS \<lparr>ba_account_id = ''DU7654321'', ba_api_read_only = False,
       ba_positions = positions, ba_open_orders = []\<rparr>,
     pt_account_values = returnS \<lparr>iv_account_id = ''DU7654321'', iv_net_liquidation = Dec False 100000 0,
       iv_previous_equity = Dec False 101000 0, iv_buying_power = Dec False 400000 0\<rparr>,
     pt_what_if = (\<lambda>_ n. (Inr \<lparr>bw_accepted = True, bw_estimated_commission = None, bw_initial_margin_change = None,
       bw_warning = (if n = 0 then Some ''399'' else None)\<rparr>, Suc n)),
     pt_submit_group = (\<lambda>cs n. (Inr (map (\<lambda>c. \<lparr>bs_status = ''Submitted'', bs_order_id = int n, bs_perm_id = None,
       bs_order_ref = ic_order_ref c\<rparr>) cs), n + length cs)),
     pt_find_by_order_ref = (\<lambda>_. returnS None), pt_cancel_order = (\<lambda>_. returnS True)\<rparr>"

definition sample_paper :: "dict list \<Rightarrow> nat ibkr_paper_env" where
  "sample_paper positions = \<lparr>ipe_transport = sample_gateway positions, ipe_account = ''DU7654321'',
     ipe_writes_enabled = True, ipe_sha256 = id, ipe_repr = (\<lambda>_. [])\<rparr>"

definition paper_start :: "nat \<Rightarrow> nat paper_desk" where
  "paper_start n = ((n, []), [])"

definition sample_bracket :: PaperOrderRequest where
  "sample_bracket = \<lparr>por_client_order_id = ''e1'', por_symbol = ''AAPL'', por_qty = 2, por_order_type = ''market'',
     por_limit_price = None, por_take_profit_price = Some ''210.00'', por_stop_loss_price = Some ''190.00''\<rparr>"

definition sample_close :: PaperCloseRequest where
  "sample_close = \<lparr>pcr_client_order_id = ''x1'', pcr_symbol = ''AAPL'', pcr_qty = 3\<rparr>"

lemma paper_ok_start: "paper_ok (paper_start n)"
  by (simp add: paper_ok_def paper_start_def paper_log_def paper_refs_def)

section \<open>Once\<close>

text \<open>C8: Over any run of calls of the IBKR Paper broker, whatever the gateway answers and wherever calls raise, no
  order reference is sent to the gateway twice, and every reference sent is on record; a repeated
  request is answered from the record.\<close>

theorem ibkr_paper_sends_once:
  assumes "paper_ok p"
  shows "distinct (sent_refs (paper_log (run_paper env steps p))) \<and>
    set (sent_refs (paper_log (run_paper env steps p))) \<subseteq> set (paper_refs (run_paper env steps p))"
  using run_paper_step [OF assms] by (auto simp: paper_ok_def)

theorem ibkr_paper_sends_once_witness:
  "let q = run_paper (sample_paper [stock_row ''AAPL'' ''3'']) [PaperEntry sample_bracket, PaperEntry sample_bracket,
       PaperExit sample_close, PaperCancel ''4''] (paper_start 1) in
     paper_log q = [GroupSent (fst (sum.projr (entry_commands (sample_paper []) sample_bracket))),
       GroupSent [sum.projr (close_command (sample_paper []) sample_close)], CancelSent 4] \<and>
     distinct (sent_refs (paper_log q))"
proof -
  let ?q = "run_paper (sample_paper [stock_row ''AAPL'' ''3'']) [PaperEntry sample_bracket, PaperEntry sample_bracket,
       PaperExit sample_close, PaperCancel ''4''] (paper_start 1)"
  have "paper_log ?q = [GroupSent (fst (sum.projr (entry_commands (sample_paper []) sample_bracket))),
       GroupSent [sum.projr (close_command (sample_paper []) sample_close)], CancelSent 4]" by code_simp
  with ibkr_paper_sends_once [OF paper_ok_start, of "sample_paper [stock_row ''AAPL'' ''3'']"
      "[PaperEntry sample_bracket, PaperEntry sample_bracket, PaperExit sample_close, PaperCancel ''4'']" 1]
  show ?thesis by (simp add: Let_def)
qed



section \<open>Exits that are never sent\<close>

definition preflight_fails :: "'w ibkr_paper_env \<Rightarrow> IbkrOrderCommand \<Rightarrow> 'w paper_desk \<Rightarrow> bool" where
  \<comment> \<open>the What-If raises, is not accepted, or has a warning\<close>
  "preflight_fails env command p = (case fst (pt_what_if (ipe_transport env) command (fst (fst p))) of
     Inl _ \<Rightarrow> True | Inr w \<Rightarrow> what_if_blocked w)"

definition fails_quietly :: "('w paper_desk, 'a) op \<Rightarrow> 'w paper_desk \<Rightarrow> bool" where
  "fails_quietly m p \<longleftrightarrow> (\<exists>e q. m p = (Inl e, q) \<and> paper_log q = paper_log p \<and> paper_refs q = paper_refs p)"

lemma fails_quietlyI:
  assumes "stills m" and "fst (m p) = Inl e"
  shows "fails_quietly m p"
  using stillsD [OF assms(1), of p "fst (m p)" "snd (m p)"] assms(2) by (auto simp: fails_quietly_def prod_eq_iff)

lemma mark_then_raise: "fails_quietly (thenS (mark_group st rows) (raiseS e)) p"
proof -
  have "stills (thenS (mark_group st rows) (raiseS e))" by (intro silent.keeps_then stills_marks silent.keeps_raise)
  moreover have "\<exists>e'. fst (thenS (mark_group st rows) (raiseS e) p) = Inl e'"
    by (cases "mark_group st rows p"; cases "fst (mark_group st rows p)") (auto simp: thenS_run)
  ultimately show ?thesis by (auto intro: fails_quietlyI)
qed

lemma group_failed_raises: "fails_quietly (group_failed rows e) p"
  by (simp add: group_failed_def mark_then_raise)

lemma send_group_fails:
  assumes "preflight_fails env (hd cs) p"
  shows "fails_quietly (send_group (rec env) parent children cs) p"
proof -
  obtain w t where w: "on_fst (pt_what_if (recorded_transport (ipe_transport env)) (hd cs)) p = (w, t)"
    by (cases "on_fst (pt_what_if (recorded_transport (ipe_transport env)) (hd cs)) p")
  then have blocked: "case w of Inl _ \<Rightarrow> True | Inr w \<Rightarrow> what_if_blocked w" using assms
    by (cases p) (auto simp: preflight_fails_def recorded_transport_def on_fst_def split: prod.splits)
  from blocked w stillsD [OF stills_calls(5) w] show ?thesis
    by (cases w) (use group_failed_raises [of _ _ t] mark_then_raise [of _ _ _ t]
      in \<open>auto simp: send_group_def bindS_run attemptS_run fails_quietly_def\<close>)
qed

text \<open>C10: An exit whose What-If raises, is not accepted or comes with a warning is lost: its record stays, and
  no later call of the broker, a repetition of the exit included, ever sends an order with its reference.  The
  client order ids of the session's exits are fixed for the day.\<close>

theorem ibkr_failed_preflight_loses_exit:
  assumes ok: "paper_ok p"
    and ready: "require_paper_writes (rec env) p = (Inr (), p1)"
      "assert_reduces_long (rec env) (pcr_symbol c) (pcr_qty c) p1 = (Inr (), p2)"
      "close_command (rec env) c = Inr command"
    and new: "find_paper_order (pcr_client_order_id c) (snd p2) = None"
      "paper_order_ref env (pcr_client_order_id c) \<notin> set (paper_refs p)"
    and fails: "preflight_fails env command p2"
  shows "\<exists>e q. paper_submit_close (rec env) c p = (Inl e, q) \<and>
    (\<forall>steps. paper_order_ref env (pcr_client_order_id c) \<notin> set (sent_refs (paper_log (run_paper env steps q))))"
proof -
  let ?ref = "paper_order_ref env (pcr_client_order_id c)" and ?h = "paper_request_hash (rec env) (dump_close c)"
  let ?row = "submitting_row (pcr_client_order_id c) ?ref ?h (pcr_symbol c) (pcr_qty c)"
  let ?p3 = "(fst p2, tbl_insert ?row (snd p2))"
  have p2: "paper_log p2 = paper_log p" "paper_refs p2 = paper_refs p"
    using stillsD [OF stills_writes ready(1)] stillsD [OF stills_reduces ready(2)] by simp_all
  have ref: "ic_order_ref command = ?ref" using ready(3)
    by (auto simp: close_command_def validate_command_def order_command_def split: option.splits)
  have "tbl_find so_order_ref ?ref (snd p2) = None" using new(2) p2(2)
    unfolding tbl_find_None_iff paper_refs_def set_map [symmetric] by simp
  then have step: "paper_submit_close (rec env) c p = send_group (rec env) ?row [] [command] ?p3"
    using ready new(1) ref unfolding paper_submit_close_def submit_group_def Let_def ensure_children_def
    by (cases p2) (simp add: thenS_run bindS_run on_snd_def ensure_paper_order_def guardS_run liftS_run)
  have "preflight_fails env (hd [command]) ?p3" using fails by (simp add: preflight_fails_def)
  from send_group_fails [OF this] obtain e q where q: "paper_submit_close (rec env) c p = (Inl e, q)"
    "paper_log q = paper_log ?p3" "paper_refs q = paper_refs ?p3" unfolding step fails_quietly_def by blast
  have "paper_log q = paper_log p" "?ref \<in> set (paper_refs q)"
    using q(2,3) p2 by (simp_all add: paper_log_def paper_refs_def submitting_row_def)
  moreover have "paper_ok q" using keepsD [OF keeps_submissions(2) ok, of env c] q(1) by simp
  moreover have "?ref \<notin> set (sent_refs (paper_log p))" using ok new(2) by (auto simp: paper_ok_def)
  ultimately show ?thesis using q(1) recorded_never_sent_later [of q ?ref env] by auto
qed

theorem ibkr_failed_preflight_loses_exit_witness:
  "\<exists>e q. paper_submit_close (rec (sample_paper [stock_row ''AAPL'' ''3''])) sample_close (paper_start 0) = (Inl e, q) \<and>
    (\<forall>steps. paper_order_ref (sample_paper [stock_row ''AAPL'' ''3'']) (pcr_client_order_id sample_close) \<notin>
      set (sent_refs (paper_log (run_paper (sample_paper [stock_row ''AAPL'' ''3'']) steps q))))"
proof (rule ibkr_failed_preflight_loses_exit [OF paper_ok_start])
  show "require_paper_writes (rec (sample_paper [stock_row ''AAPL'' ''3''])) (paper_start 0) = (Inr (), paper_start 0)"
    by code_simp
  show "assert_reduces_long (rec (sample_paper [stock_row ''AAPL'' ''3''])) (pcr_symbol sample_close) (pcr_qty sample_close)
      (paper_start 0) = (Inr (), paper_start 0)" by code_simp
  show "close_command (rec (sample_paper [stock_row ''AAPL'' ''3''])) sample_close =
      Inr (sum.projr (close_command (rec (sample_paper [])) sample_close))" by code_simp
  show "find_paper_order (pcr_client_order_id sample_close) (snd (paper_start 0)) = None" by code_simp
  show "paper_order_ref (sample_paper [stock_row ''AAPL'' ''3'']) (pcr_client_order_id sample_close) \<notin>
      set (paper_refs (paper_start 0))" by code_simp
  show "preflight_fails (sample_paper [stock_row ''AAPL'' ''3''])
      (sum.projr (close_command (rec (sample_paper [])) sample_close)) (paper_start 0)" by code_simp
qed

definition not_held :: "(json \<Rightarrow> string) \<Rightarrow> dict \<Rightarrow> bool" where
  \<comment> \<open>a stock row whose quantity is zero or negative\<close>
  "not_held repr raw \<longleftrightarrow> is_stock_row repr raw \<and>
     (case parse_decimal (py_str repr (json_get ''quantity'' raw)) of Some (Finite d) \<Rightarrow> dec_val d \<le> 0 | _ \<Rightarrow> False)"

lemma not_held_fails: "not_held repr raw \<Longrightarrow> paper_position repr raw = Inl (paper_invalid ''position quantity'')"
  by (auto simp: not_held_def paper_position_def paper_decimal_def split: option.splits decimal.splits)

lemma mapS_each: "mapS f xs s = (Inr ys, t) \<Longrightarrow> x \<in> set xs \<Longrightarrow> \<exists>y s t. f x s = (Inr y, t)"
proof (induction xs arbitrary: s ys)
  case (Cons a xs)
  then obtain z s' zs where "f a s = (Inr z, s')" "mapS f xs s' = (Inr zs, t)" by (auto simp: bindS_eq_Inr)
  with Cons.IH [of s' zs] Cons.prems(2) show ?case by auto
qed simp

lemma snapshot_source:
  "snapshot_for_account (rec env) p = (Inr s, q) \<Longrightarrow> \<exists>w w'. pt_account_snapshot (ipe_transport env) w = (Inr s, w')"
  by (auto simp: snapshot_for_account_def recorded_transport_def assert_paper_account_def bindS_eq_Inr thenS_eq_Inr
      on_fst_eq)

lemma unheld_positions_fail:
  assumes "\<And>w s w'. pt_account_snapshot (ipe_transport env) w = (Inr s, w') \<Longrightarrow>
      \<exists>raw \<in> set (ba_positions s). not_held (ipe_repr env) raw"
  shows "\<exists>e q. paper_list_positions (rec env) p = (Inl e, q)"
proof (rule ccontr)
  assume "\<not> ?thesis"
  then obtain positions q where "paper_list_positions (rec env) p = (Inr positions, q)"
    by (cases "paper_list_positions (rec env) p"; cases "fst (paper_list_positions (rec env) p)") auto
  then obtain s p1 found p2 where s: "snapshot_for_account (rec env) p = (Inr s, p1)"
    and m: "mapS (\<lambda>raw. liftS (paper_position (ipe_repr env) raw)) (ba_positions s) p1 = (Inr found, p2)"
    by (auto simp: paper_list_positions_def bindS_eq_Inr)
  from snapshot_source [OF s] assms obtain raw where raw: "raw \<in> set (ba_positions s)" "not_held (ipe_repr env) raw" by blast
  from mapS_each [OF m raw(1)] not_held_fails [OF raw(2)] show False by auto
qed

lemma reduces_needs_positions:
  assumes "\<And>p. \<exists>e q. paper_list_positions (rec env) p = (Inl e, q)"
  shows "\<exists>e q. assert_reduces_long (rec env) symb qty p = (Inl e, q) \<and> paper_log q = paper_log p"
  using assms [of p] stillsD [OF stills_positions] by (fastforce simp: assert_reduces_long_def bindS_run)

lemma reducing_blocked:
  assumes "\<And>p. \<exists>e q. paper_list_positions (rec env) p = (Inl e, q)"
  shows "paper_log (snd (thenS (require_paper_writes (rec env)) (thenS (assert_reduces_long (rec env) symb qty) m) p)) = paper_log p"
proof -
  obtain x p1 where w: "require_paper_writes (rec env) p = (x, p1)" by (cases "require_paper_writes (rec env) p")
  with reduces_needs_positions [OF assms, of symb qty p1] stillsD [OF stills_writes w] show ?thesis
    by (cases x) (auto simp: thenS_run)
qed

text \<open>C9: A stock that the gateway reports with a quantity of zero or less, as it does for a position closed during the
  day, makes the listing of positions raise: the broker then sends no closing sale, no protective
  stop and no extended-hours sale, of any stock.\<close>

theorem ibkr_unheld_position_blocks_exits:
  assumes "\<And>w s w'. pt_account_snapshot (ipe_transport env) w = (Inr s, w') \<Longrightarrow>
      \<exists>raw \<in> set (ba_positions s). not_held (ipe_repr env) raw"
    and side: "pel_side x = ''sell''"
  shows "(\<exists>e q. paper_list_positions (rec env) p = (Inl e, q)) \<and>
    paper_log (snd (paper_submit_close (rec env) c p)) = paper_log p \<and>
    paper_log (snd (paper_submit_stop (rec env) st p)) = paper_log p \<and>
    paper_log (snd (paper_submit_extended (rec env) x p)) = paper_log p"
proof -
  have fail: "\<exists>e q. paper_list_positions (rec env) p = (Inl e, q)" for p
    by (rule unheld_positions_fail) (rule assms(1))
  then show ?thesis unfolding paper_submit_close_def paper_submit_stop_def paper_submit_extended_def
    by (simp add: side reducing_blocked)
qed

theorem ibkr_unheld_position_blocks_exits_witness:
  "paper_log (snd (paper_submit_close (rec (sample_paper [stock_row ''AAPL'' ''3'', stock_row ''MSFT'' ''0'']))
     sample_close (paper_start 1))) = []"
proof -
  let ?env = "sample_paper [stock_row ''AAPL'' ''3'', stock_row ''MSFT'' ''0'']"
  let ?x = "\<lparr>pel_client_order_id = ''x2'', pel_symbol = ''AAPL'', pel_qty = 3, pel_side = ''sell'', pel_limit_price = ''1''\<rparr>"
  have held: "not_held (ipe_repr ?env) (stock_row ''MSFT'' ''0'')" by code_simp
  have "\<exists>raw \<in> set (ba_positions s). not_held (ipe_repr ?env) raw"
    if "pt_account_snapshot (ipe_transport ?env) w = (Inr s, w')" for w s w'
    using that held by (auto simp: sample_paper_def sample_gateway_def)
  from ibkr_unheld_position_blocks_exits [of ?env ?x "paper_start 1" sample_close
      "\<lparr>psr_client_order_id = ''s1'', psr_symbol = ''AAPL'', psr_qty = 3, psr_stop_price = ''1''\<rparr>", OF this]
  show ?thesis by (simp add: paper_start_def paper_log_def)
qed

end
