(* ===== verification/IbkrPaperSession.thy ===== *)
theory IbkrPaperSession
  imports IbkrPaperProps AutoProps
begin

text \<open>
  The autonomous Paper session over the IBKR Paper broker, the composition that the production scripts run:
  the broker meets the contract \<open>trading_broker\<close>, so what a session sends is bounded as it is over Alpaca;
  but a fill is never seen, so the main position's profit is never realized.
\<close>

section \<open>The contract\<close>

fun paper_call :: "'w ibkr_paper_env \<Rightarrow> broker_call \<Rightarrow> paper_sent" where
  "paper_call env (CancelCall oid) =
     CancelSent (case paper_positive_int ''IBKR cancel order id'' oid of Inl _ \<Rightarrow> 0 | Inr n \<Rightarrow> n)"
| "paper_call env (CloseCall c) = GroupSent (case close_command env c of Inl _ \<Rightarrow> [] | Inr k \<Rightarrow> [k])"
| "paper_call env (EntryCall r) = GroupSent (case entry_commands env r of Inl _ \<Rightarrow> [] | Inr (cs, _) \<Rightarrow> cs)"
| "paper_call env (StopCall r) = GroupSent (case stop_command env r of Inl _ \<Rightarrow> [] | Inr k \<Rightarrow> [k])"
| "paper_call env (ExtendedCall x) = GroupSent (case extended_command env x of Inl _ \<Rightarrow> [] | Inr k \<Rightarrow> [k])"

lemma paper_submissions_send:
  "sends_one (paper_call (rec env) (CloseCall c)) (paper_submit_close (rec env) c)"
  "sends_one (paper_call (rec env) (EntryCall r)) (paper_submit_entry (rec env) r)"
  "sends_one (paper_call (rec env) (StopCall st)) (paper_submit_stop (rec env) st)"
  "sends_one (paper_call (rec env) (ExtendedCall x)) (paper_submit_extended (rec env) x)"
  unfolding paper_submit_entry_def paper_submit_close_def paper_submit_stop_def paper_submit_extended_def
  by (intro sends_one_then stills_quiets [OF stills_writes] stills_quiets [OF stills_reduces] sends_one_lift
      muted.keeps_if muted.keeps_return; auto simp: submit_group_sends)+

lemma paper_writes_off:
  assumes "\<not> ipe_writes_enabled env"
  shows "snd (thenS (require_paper_writes (rec env)) m p) = p"
  using assms by (simp add: require_paper_writes_def thenS_run guardS_run)

lemmas paper_log_calls = stills_quiets [OF stills_get] stills_quiets [OF stills_positions]
  stills_quiets [OF stills_open_orders] stills_quiets [OF stills_account]

lemma quiets_log: "quiets m \<Longrightarrow> paper_log (snd (m p)) = paper_log p"
  using keepsD [of "\<lambda>_. True" quiet m p] by (simp add: quiet_def)

lemma sends_one_log: "sends_one s m \<Longrightarrow> paper_log (snd (m p)) \<in> {paper_log p, paper_log p @ [s]}"
  by (simp only: sends_one_def)

interpretation ibkr_trading: trading_broker "ibkr_paper (rec env)" paper_log "paper_call (rec env)"
  "paper_get_account (rec env)" for env
proof (unfold_locales, goal_cases)
  case (10 oid b)
  then show ?case using sends_one_log [OF paper_cancel_sends, of _ _ b] by (simp add: ibkr_paper_def)
next
  case (11 c b)
  then show ?case using sends_one_log [OF paper_submissions_send(1), of _ _ b] by (simp add: ibkr_paper_def)
next
  case (12 r b)
  then show ?case using sends_one_log [OF paper_submissions_send(2), of _ _ b] by (simp add: ibkr_paper_def)
next
  case (13 st b)
  then show ?case using sends_one_log [OF paper_submissions_send(3), of _ _ b] by (simp add: ibkr_paper_def)
next
  case (14 x b)
  then show ?case using sends_one_log [OF paper_submissions_send(4), of _ _ b] by (simp add: ibkr_paper_def)
qed (simp_all add: ibkr_paper_def quiets_log paper_log_calls paper_cancel_order_def paper_submit_entry_def
  paper_submit_close_def paper_submit_stop_def paper_submit_extended_def paper_writes_off)

definition on_ibkr ::
    "'w ibkr_paper_env \<Rightarrow> 'w paper_desk session_env \<Rightarrow> 'w paper_desk session_env" where
  "on_ibkr e env = env\<lparr>sv_port := ibkr_paper (rec e), sv_get_account := paper_get_account (rec e)\<rparr>"

interpretation ibkr_session: session_broker "ibkr_paper (rec e)" paper_log "paper_call (rec e)"
  "paper_get_account (rec e)" "on_ibkr e env" for e env
  by unfold_locales (simp_all add: on_ibkr_def)

section \<open>A filled entry at the gateway\<close>

definition filled_row :: StoredOrder where
  "filled_row = \<lparr>so_client_order_id = ''e1'', so_order_ref = ''aqp:e1'', so_request_hash = ''h'', so_symbol = ''AAPL'',
     so_quantity = 3, so_status = ''filled'', so_broker_order_id = Some 7\<rparr>"

definition filled_desk :: "nat paper_desk \<times> session_stores" where
  \<comment> \<open>the main entry of the day is completed and filled\<close>
  "filled_desk = (((8, []), [filled_row]), empty_stores\<lparr>ss_paper := empty_paper_ledger\<lparr>pa_commands :=
     [\<lparr>pc_command_id = ''e1'', pc_trade_date = Date 2026 9 14, pc_kind = ''regular_'' @ action_text ENTER_PROBE @ ''_main'',
       pc_symbol = ''AAPL'', pc_broker_order_id = Some ''7'', pc_completed = True, pc_updated_at_utc = utc 0\<rparr>]\<rparr>\<rparr>)"

definition filled_env :: "nat paper_desk session_env" where
  "filled_env = \<lparr>sv_port = ibkr_paper (rec (sample_paper [])), sv_get_account = paper_get_account (rec (sample_paper [])),
     sv_ny_time = (\<lambda>_. 0), sv_sha12 = (\<lambda>_. ''h''), sv_sha16 = (\<lambda>_. ''h''), sv_authorized = True,
     sv_owned = [''AAPL'']\<rparr>"

definition held_snapshot :: PaperSessionSnapshot where
  "held_snapshot = entry_snapshot\<lparr>sq_policy := sample_policy_snapshot\<lparr>po_has_position := True,
     po_main_profit_realized := False\<rparr>\<rparr>"

section \<open>Fills are never seen\<close>

lemma paper_broker_order_unfilled: "paper_broker_order stored = Inr order \<Longrightarrow> \<not> entry_order_filled order"
proof -
  assume "paper_broker_order stored = Inr order"
  then have "0 < AlpacaPaper.bo_qty order" "bo_filled_qty order = ''0''"
    by (auto simp: paper_broker_order_def split: option.splits if_splits)
  moreover have "parse_decimal ''0'' = Some (Finite (Dec False 0 0))" by code_simp
  ultimately show ?thesis by (simp add: entry_order_filled_def dec_val_def)
qed

lemma paper_order_unfilled:
  assumes "paper_get_order env cid p = (Inr (Some order), q)"
  shows "\<not> entry_order_filled order"
  using assms by (auto simp: paper_get_order_def bindS_eq_Inr thenS_eq_Inr split: option.splits
      dest: paper_broker_order_unfilled)

text \<open>C12: Over the IBKR Paper broker the lifecycle of a held position never moves on by itself: unless the snapshot or
  the table already says that the main position's profit is realized, nothing is written and the
  snapshot is returned as it is, because a looked-up order always shows a filled quantity of zero.\<close>

theorem ibkr_profit_never_realized:
  fixes p :: "'w paper_desk \<times> session_stores"
  assumes "with_lifecycle_state (on_ibkr e env) plan snap acc p = (Inr snap', q)"
    and "\<not> po_main_profit_realized (sq_policy snap)"
    and "main_profit_realized (au_plan_id plan) (ss_paper (snd p)) = (Inr False, ss_paper (snd p))"
  shows "snap' = snap"
proof (rule ccontr)
  assume moved: "snap' \<noteq> snap"
  let ?cids = "on_paper (entry_component_client_ids (au_trade_date plan) (au_symbol plan) ''main'')"
  have r: "on_paper (main_profit_realized (au_plan_id plan)) p = (Inr False, p)" using assms(3)
    by (cases p) (simp add: on_paper_def)
  from assms(1,2) moved r obtain cids orders and p1 p2 :: "'w paper_desk \<times> session_stores" where c: "cids \<noteq> []"
    and o: "mapS (\<lambda>cid. on_fst (bp_get_order_by_client_id (sv_port (on_ibkr e env)) cid)) cids p1 = (Inr orders, p2)"
    and filled: "\<not> list_ex (\<lambda>order. case order of None \<Rightarrow> True | Some b \<Rightarrow> \<not> entry_order_filled b) orders"
    by (auto simp: with_lifecycle_state_def bindS_eq_Inr split: if_splits)
  have "orders \<noteq> []" using o c by (cases cids) (auto simp: bindS_eq_Inr)
  then obtain found where found: "found \<in> set orders" by (meson last_in_set)
  from mapS_result [OF o found] have "case found of None \<Rightarrow> True | Some b \<Rightarrow> \<not> entry_order_filled b"
    by (auto simp: on_ibkr_def ibkr_paper_def on_fst_eq split: option.split dest: paper_order_unfilled)
  with filled found show False by (auto simp: list_ex_iff)
qed

theorem ibkr_profit_never_realized_witness:
  "fst (with_lifecycle_state (on_ibkr (sample_paper [stock_row ''AAPL'' ''3'']) filled_env) probe_plan held_snapshot
     sample_account filled_desk) = Inr held_snapshot"
proof -
  let ?r = "with_lifecycle_state (on_ibkr (sample_paper [stock_row ''AAPL'' ''3'']) filled_env) probe_plan held_snapshot
     sample_account filled_desk"
  have "case fst ?r of Inl _ \<Rightarrow> False | Inr _ \<Rightarrow> True" by code_simp
  then obtain snap' q where r: "?r = (Inr snap', q)" by (cases "fst ?r") (auto simp: prod_eq_iff)
  have "\<not> po_main_profit_realized (sq_policy held_snapshot)" by (simp add: held_snapshot_def)
  moreover have "main_profit_realized (au_plan_id probe_plan) (ss_paper (snd filled_desk)) = (Inr False, ss_paper (snd filled_desk))"
    by (simp add: main_profit_realized_def filled_desk_def empty_paper_ledger_def)
  ultimately have "snap' = held_snapshot" by (rule ibkr_profit_never_realized [OF r])
  with r show ?thesis by simp
qed

end
